(* ===== verification/Prelude.thy ===== *)
theory Prelude
  imports Main "HOL-Library.Sublist"
begin

text \<open>
  What every component of the shop model shares: identifiers and times, the
  decimal rendering of integers used by template strings, JavaScript's
  \<^verbatim>\<open>indexOf\<close> / \<^verbatim>\<open>slice\<close> / \<^verbatim>\<open>includes\<close> on strings, \<^verbatim>\<open>[...new Set(xs)]\<close>,
  \<^verbatim>\<open>new Map(entries)\<close>, and an error-and-state discipline: a step takes the state
  and returns either an error or a result, with the new state.
\<close>

type_synonym uuid = string

text \<open>Times are microseconds since the epoch, the resolution of PostgreSQL's timestamptz.\<close>
type_synonym micros = int

text \<open>A time as a JavaScript \<^verbatim>\<open>Date\<close>, or \<^verbatim>\<open>date_trunc('milliseconds', t)\<close>, has it.\<close>
definition trunc_ms :: "micros \<Rightarrow> micros" where "trunc_ms t = t div 1000 * 1000"

named_theorems step_simps \<open>unfolding rules of the step combinators\<close>
named_theorems store_simps \<open>reading rules of the tables\<close>

section \<open>Strings\<close>

text \<open>The decimal digits of a number, as a template string renders it.\<close>
fun nat_str :: "nat \<Rightarrow> string" where
  "nat_str n = (if n < 10 then [char_of (48 + n)] else nat_str (n div 10) @ [char_of (48 + n mod 10)])"

declare nat_str.simps [simp del]

definition int_str :: "int \<Rightarrow> string" where
  "int_str i = (if i < 0 then CHR ''-'' # nat_str (nat (- i)) else nat_str (nat i))"

text \<open>Reading back a sequence of decimal digits (None on anything else).\<close>
definition digit_val :: "char \<Rightarrow> nat option" where
  "digit_val c = (let n = of_char c :: nat in if 48 \<le> n \<and> n \<le> 57 then Some (n - 48) else None)"

fun digits_val :: "nat \<Rightarrow> string \<Rightarrow> nat option" where
  "digits_val acc [] = Some acc"
| "digits_val acc (c # cs) = (case digit_val c of None \<Rightarrow> None | Some d \<Rightarrow> digits_val (10 * acc + d) cs)"

text \<open>\<^verbatim>\<open>s.indexOf(c)\<close>, \<^verbatim>\<open>s.slice(0, i)\<close> and \<^verbatim>\<open>s.slice(i + 1)\<close> for a one-character separator.\<close>
definition before_sep :: "char \<Rightarrow> string \<Rightarrow> string" where
  "before_sep c s = takeWhile (\<lambda>x. x \<noteq> c) s"

definition after_sep :: "char \<Rightarrow> string \<Rightarrow> string" where
  "after_sep c s = tl (dropWhile (\<lambda>x. x \<noteq> c) s)"

text \<open>\<^verbatim>\<open>s.includes(sub)\<close>.\<close>
fun str_includes :: "string \<Rightarrow> string \<Rightarrow> bool" where
  "str_includes sub [] = (sub = [])"
| "str_includes sub (c # cs) = (prefix sub (c # cs) \<or> str_includes sub cs)"

text \<open>A string between double quotes, as messages name identifiers.\<close>
definition in_dq :: "string \<Rightarrow> string" where
  "in_dq s = char_of (34 :: nat) # s @ [char_of (34 :: nat)]"

definition in_sq :: "string \<Rightarrow> string" where
  "in_sq s = char_of (39 :: nat) # s @ [char_of (39 :: nat)]"

text \<open>PostgreSQL's integer columns.\<close>
definition int4 :: "int \<Rightarrow> bool" where
  "int4 n = (- (2 ^ 31) \<le> n \<and> n < 2 ^ 31)"

definition char_lower :: "char \<Rightarrow> char" where
  "char_lower c = (let n = of_char c :: nat in if 65 \<le> n \<and> n \<le> 90 then char_of (n + 32) else c)"

definition char_upper :: "char \<Rightarrow> char" where
  "char_upper c = (let n = of_char c :: nat in if 97 \<le> n \<and> n \<le> 122 then char_of (n - 32) else c)"

text \<open>A string a condition takes as true: undefined, null and the empty string are none.\<close>
definition truthy :: "string option \<Rightarrow> string option" where
  "truthy k = (case k of Some s \<Rightarrow> if s = [] then None else Some s | None \<Rightarrow> None)"

lemma truthy_None: "truthy None = None"
  by (simp add: truthy_def)

section \<open>Collections\<close>

text \<open>\<^verbatim>\<open>[...new Set(xs)]\<close> keeps the first occurrence of every element, in order.\<close>
fun js_uniq :: "'a list \<Rightarrow> 'a list" where
  "js_uniq [] = []"
| "js_uniq (x # xs) = x # js_uniq (filter (\<lambda>y. y \<noteq> x) xs)"

section \<open>Steps with errors and state\<close>

text \<open>An operation of the code: the state before it, then an error (Inl) or a result (Inr) and the
  state after it. The error type stays abstract here.\<close>
type_synonym ('s, 'e, 'a) step = "'s \<Rightarrow> ('e + 'a) \<times> 's"

definition return_s :: "'a \<Rightarrow> ('s, 'e, 'a) step" where
  "return_s x s = (Inr x, s)"

definition throw_s :: "'e \<Rightarrow> ('s, 'e, 'a) step" where
  "throw_s e s = (Inl e, s)"

definition bind_s :: "('s, 'e, 'a) step \<Rightarrow> ('a \<Rightarrow> ('s, 'e, 'b) step) \<Rightarrow> ('s, 'e, 'b) step" where
  "bind_s m k s = (case m s of (Inl e, s1) \<Rightarrow> (Inl e, s1) | (Inr x, s1) \<Rightarrow> k x s1)"

text \<open>\<^verbatim>\<open>try { m } catch (e) { h e }\<close>: the state is not undone by the catch.\<close>
definition catch_s :: "('s, 'e, 'a) step \<Rightarrow> ('e \<Rightarrow> ('s, 'e, 'a) step) \<Rightarrow> ('s, 'e, 'a) step" where
  "catch_s m h s = (case m s of (Inl e, s1) \<Rightarrow> h e s1 | (Inr x, s1) \<Rightarrow> (Inr x, s1))"

definition gets_s :: "('s \<Rightarrow> 'a) \<Rightarrow> ('s, 'e, 'a) step" where
  "gets_s f s = (Inr (f s), s)"

definition modify_s :: "('s \<Rightarrow> 's) \<Rightarrow> ('s, 'e, unit) step" where
  "modify_s f s = (Inr (), f s)"

text \<open>A pure computation that may fail.\<close>
definition lift_s :: "'e + 'a \<Rightarrow> ('s, 'e, 'a) step" where
  "lift_s r s = (r, s)"

text \<open>A pure loop \<^verbatim>\<open>for (const x of xs) { check }\<close> that stops at the first error.\<close>
fun for_each :: "('a \<Rightarrow> 'e + unit) \<Rightarrow> 'a list \<Rightarrow> 'e + unit" where
  "for_each f [] = Inr ()"
| "for_each f (x # xs) = (case f x of Inl e \<Rightarrow> Inl e | Inr _ \<Rightarrow> for_each f xs)"

lemmas step_defs = return_s_def throw_s_def bind_s_def catch_s_def gets_s_def modify_s_def lift_s_def

lemma return_s_app [simp, step_simps]: "return_s x s = (Inr x, s)"
  by (simp add: return_s_def)

lemma throw_s_app [simp, step_simps]: "throw_s e s = (Inl e, s)"
  by (simp add: throw_s_def)

lemma gets_s_app [simp, step_simps]: "gets_s f s = (Inr (f s), s)"
  by (simp add: gets_s_def)

lemma modify_s_app [simp, step_simps]: "modify_s f s = (Inr (), f s)"
  by (simp add: modify_s_def)

lemma lift_s_app [simp, step_simps]: "lift_s r s = (r, s)"
  by (simp add: lift_s_def)

lemma bind_s_Inl: "m s = (Inl e, s1) \<Longrightarrow> bind_s m k s = (Inl e, s1)"
  by (simp add: bind_s_def)

lemma bind_s_Inr: "m s = (Inr x, s1) \<Longrightarrow> bind_s m k s = k x s1"
  by (simp add: bind_s_def)

lemma bind_s_eq_Inr:
  "bind_s m k s = (Inr y, s2) \<longleftrightarrow> (\<exists>x s1. m s = (Inr x, s1) \<and> k x s1 = (Inr y, s2))"
  by (auto simp: bind_s_def split: prod.splits sum.splits)

lemma bind_s_eq_Inl:
  "bind_s m k s = (Inl e, s2) \<longleftrightarrow>
     m s = (Inl e, s2) \<or> (\<exists>x s1. m s = (Inr x, s1) \<and> k x s1 = (Inl e, s2))"
  by (auto simp: bind_s_def split: prod.splits sum.splits)

lemma bind_s_return [simp]: "bind_s (return_s x) k s = k x s"
  by (simp add: bind_s_def)

lemma bind_s_throw [simp]: "bind_s (throw_s e) k s = (Inl e, s)"
  by (simp add: bind_s_def)

lemma bind_s_gets [simp]: "bind_s (gets_s f) k s = k (f s) s"
  by (simp add: bind_s_def)

lemma bind_s_modify [simp]: "bind_s (modify_s f) k s = k () (f s)"
  by (simp add: bind_s_def)

lemma bind_s_lift_Inr [simp]: "bind_s (lift_s (Inr x)) k s = k x s"
  by (simp add: bind_s_def)

lemma bind_s_lift_Inl [simp]: "bind_s (lift_s (Inl e)) k s = (Inl e, s)"
  by (simp add: bind_s_def)

lemma catch_s_Inl: "m s = (Inl e, s1) \<Longrightarrow> catch_s m h s = h e s1"
  by (simp add: catch_s_def)

lemma catch_s_Inr: "m s = (Inr x, s1) \<Longrightarrow> catch_s m h s = (Inr x, s1)"
  by (simp add: catch_s_def)

lemma for_each_Inr: "for_each f xs = Inr () \<longleftrightarrow> (\<forall>x \<in> set xs. f x = Inr ())"
  by (induction xs) (auto split: sum.splits)

lemma for_each_InlD: "for_each f xs = Inl e \<Longrightarrow> \<exists>x \<in> set xs. f x = Inl e"
  by (induction xs) (auto split: sum.splits)

section \<open>Facts about the helpers\<close>

lemma set_js_uniq [simp]: "set (js_uniq xs) = set xs"
  by (induction xs rule: js_uniq.induct) auto

lemma distinct_js_uniq [simp]: "distinct (js_uniq xs)"
  by (induction xs rule: js_uniq.induct) auto

lemma js_uniq_distinct: "distinct xs \<Longrightarrow> js_uniq xs = xs"
proof (induction xs)
  case (Cons x xs)
  then have "filter (\<lambda>y. y \<noteq> x) xs = xs" by (auto intro!: filter_True)
  with Cons show ?case by simp
qed simp

lemma js_uniq_Nil_iff [simp]: "js_uniq xs = [] \<longleftrightarrow> xs = []"
  by (cases xs) auto

lemma before_after_sep:
  assumes "c \<notin> set a"
  shows "before_sep c (a @ c # b) = a" and "after_sep c (a @ c # b) = b"
proof -
  have ne: "\<And>x. x \<in> set a \<Longrightarrow> x \<noteq> c" using assms by auto
  show "before_sep c (a @ c # b) = a" using ne by (simp add: before_sep_def takeWhile_append2)
  show "after_sep c (a @ c # b) = b" using ne by (simp add: after_sep_def dropWhile_append2)
qed

lemma split_at_sep:
  assumes "c \<in> set s"
  shows "before_sep c s @ c # after_sep c s = s" and "c \<notin> set (before_sep c s)"
proof -
  obtain a b where s: "s = a @ c # b" and a: "c \<notin> set a" using split_list_first [OF assms] by blast
  show "before_sep c s @ c # after_sep c s = s" by (simp add: s before_after_sep [OF a])
  show "c \<notin> set (before_sep c s)" using a by (simp add: s before_after_sep [OF a])
qed

lemma str_includes_iff: "str_includes sub s \<longleftrightarrow> sublist sub s"
  by (induction s) (auto simp: sublist_Cons_right)

lemma digit_val_digit: "d < 10 \<Longrightarrow> digit_val (char_of (48 + d)) = Some d"
  by (simp add: digit_val_def of_char_of)

lemma digits_val_append:
  "digits_val acc (xs @ ys) = (case digits_val acc xs of None \<Rightarrow> None | Some a \<Rightarrow> digits_val a ys)"
  by (induction acc xs rule: digits_val.induct) (auto split: option.splits)

lemma digits_val_nat_str: "digits_val 0 (nat_str n) = Some n"
proof (induction n rule: nat_str.induct)
  case (1 n)
  show ?case
  proof (cases "n < 10")
    case True
    then show ?thesis by (simp add: nat_str.simps [of n] digit_val_digit)
  next
    case False
    have d: "digit_val (char_of (48 + n mod 10)) = Some (n mod 10)" by (rule digit_val_digit) simp
    show ?thesis using False 1 d by (simp add: nat_str.simps [of n] digits_val_append)
  qed
qed

lemma nat_str_inj: "nat_str m = nat_str n \<longleftrightarrow> m = n"
  by (metis digits_val_nat_str option.inject)

lemma nat_str_not_Nil [simp]: "nat_str n \<noteq> []"
  by (simp add: nat_str.simps [of n])

lemma nat_str_digits: "c \<in> set (nat_str n) \<Longrightarrow> \<exists>d. digit_val c = Some d"
proof (induction n rule: nat_str.induct)
  case (1 n)
  have d: "digit_val (char_of (48 + n mod 10)) = Some (n mod 10)" by (rule digit_val_digit) simp
  show ?case using 1 d digit_val_digit [of n]
    by (auto simp: nat_str.simps [of n] split: if_splits)
qed

lemma minus_not_digit: "CHR ''-'' \<notin> set (nat_str n)"
  using nat_str_digits [of "CHR ''-''" n] by (auto simp: digit_val_def)

lemma int_str_inj: "int_str i = int_str j \<longleftrightarrow> i = j"
proof
  assume eq: "int_str i = int_str j"
  have nohd: "nat_str n \<noteq> CHR ''-'' # xs" for n xs
    using minus_not_digit [of n] by auto
  show "i = j" using eq nohd nohd [symmetric]
    by (auto simp: int_str_def nat_str_inj split: if_splits)
qed simp

lemma int_str_not_Nil [simp]: "int_str i \<noteq> []"
  by (simp add: int_str_def)

text \<open>Sums over a list of rows in which one keyed row changes.\<close>

lemma sum_list_map_cong: "(\<And>x. x \<in> set xs \<Longrightarrow> f x = g x) \<Longrightarrow> sum_list (map f xs) = sum_list (map g xs)"
  by (metis map_eq_conv)

lemma sum_list_filter_split:
  fixes f :: "'a \<Rightarrow> int"
  shows "sum_list (map f xs) =
    sum_list (map f (filter P xs)) + sum_list (map f (filter (\<lambda>x. \<not> P x) xs))"
  by (induction xs) auto

end
