(* ===== verification/Errors.thy ===== *)
theory Errors
  imports Complex_Main Prelude
begin

text \<open>
  The errors of the program and what leaves the process when one is thrown:
  the exceptions of \<^verbatim>\<open>@nestjs/common\<close> the sources construct, the domain errors of
  \<^verbatim>\<open>common/errors/index.ts\<close>, the driver errors the sources inspect, and the global
  exception filter of \<^verbatim>\<open>common/filters\<close>, for HTTP and for GraphQL.
\<close>

section \<open>JSON values\<close>

text \<open>Numbers are rationals; \<open>JInf\<close> is what \<^verbatim>\<open>JSON.parse\<close> makes of a literal beyond the
  range of a double (true: positive). Objects keep the order of their keys.\<close>
datatype json =
  JNull
| JBool bool
| JNum rat
| JInf bool
| JStr string
| JArr "json list"
| JObj "(string \<times> json) list"

definition json_truthy :: "json \<Rightarrow> bool" where
  "json_truthy j = (case j of JNull \<Rightarrow> False | JBool b \<Rightarrow> b | JNum q \<Rightarrow> q \<noteq> 0 | JStr s \<Rightarrow> s \<noteq> [] | _ \<Rightarrow> True)"

fun json_field :: "string \<Rightarrow> json \<Rightarrow> json option" where
  "json_field k (JObj kvs) = map_of kvs k"
| "json_field k _ = None"

text \<open>\<^verbatim>\<open>{ ...j, k: v }\<close>: a key that is there keeps its place, a new one comes last.\<close>
fun set_key :: "string \<Rightarrow> json \<Rightarrow> (string \<times> json) list \<Rightarrow> (string \<times> json) list" where
  "set_key k v [] = [(k, v)]"
| "set_key k v ((k1, v1) # kvs) = (if k1 = k then (k1, v) # kvs else (k1, v1) # set_key k v kvs)"

text \<open>Spreading a value that is not an object: null, booleans and numbers add nothing, an array
  or a string its elements under their indices.\<close>
definition json_entries :: "json \<Rightarrow> (string \<times> json) list" where
  "json_entries j = (case j of JObj kvs \<Rightarrow> kvs
     | JArr xs \<Rightarrow> zip (map nat_str [0..<length xs]) xs
     | JStr s \<Rightarrow> zip (map nat_str [0..<length s]) (map (\<lambda>c. JStr [c]) s)
     | _ \<Rightarrow> [])"

definition json_spread :: "json \<Rightarrow> string \<Rightarrow> json \<Rightarrow> json" where
  "json_spread j k v = JObj (set_key k v (json_entries j))"

lemma map_of_set_key: "map_of (set_key k v kvs) k' = (if k' = k then Some v else map_of kvs k')"
  by (induction k v kvs rule: set_key.induct) auto

lemma json_field_spread [simp]:
  "json_field k' (json_spread (JObj kvs) k v) = (if k' = k then Some v else json_field k' (JObj kvs))"
  by (simp add: json_spread_def json_entries_def map_of_set_key)

section \<open>Exceptions\<close>

datatype http_class =
  BadRequest | Unauthorized | Forbidden | NotFound | Conflict | UnprocessableEntity
| TooManyRequests | InternalServerError | BadGateway | ServiceUnavailable | GatewayTimeout

fun http_status :: "http_class \<Rightarrow> nat" where
  "http_status BadRequest = 400"
| "http_status Unauthorized = 401"
| "http_status Forbidden = 403"
| "http_status NotFound = 404"
| "http_status Conflict = 409"
| "http_status UnprocessableEntity = 422"
| "http_status TooManyRequests = 429"
| "http_status InternalServerError = 500"
| "http_status BadGateway = 502"
| "http_status ServiceUnavailable = 503"
| "http_status GatewayTimeout = 504"

fun http_reason :: "http_class \<Rightarrow> string" where
  "http_reason BadRequest = ''Bad Request''"
| "http_reason Unauthorized = ''Unauthorized''"
| "http_reason Forbidden = ''Forbidden''"
| "http_reason NotFound = ''Not Found''"
| "http_reason Conflict = ''Conflict''"
| "http_reason UnprocessableEntity = ''Unprocessable Entity''"
| "http_reason TooManyRequests = ''Too Many Requests''"
| "http_reason InternalServerError = ''Internal Server Error''"
| "http_reason BadGateway = ''Bad Gateway''"
| "http_reason ServiceUnavailable = ''Service Unavailable''"
| "http_reason GatewayTimeout = ''Gateway Timeout''"

text \<open>The three subclasses of \<^verbatim>\<open>BaseError\<close>.\<close>
datatype base_error =
  UserEmailExistsError string
| UserNotFoundError string
| ValidationError string "(string \<times> json) list option"

fun base_code :: "base_error \<Rightarrow> string" where
  "base_code (UserEmailExistsError _) = ''USER_EMAIL_EXISTS''"
| "base_code (UserNotFoundError _) = ''USER_NOT_FOUND''"
| "base_code (ValidationError _ _) = ''VALIDATION_FAILED''"

fun base_status :: "base_error \<Rightarrow> nat" where
  "base_status (UserEmailExistsError _) = 409"
| "base_status (UserNotFoundError _) = 404"
| "base_status (ValidationError _ _) = 400"

fun base_message :: "base_error \<Rightarrow> string" where
  "base_message (UserEmailExistsError _) = ''User with this email already exists''"
| "base_message (UserNotFoundError _) = ''User not found''"
| "base_message (ValidationError m _) = m"

fun base_details :: "base_error \<Rightarrow> (string \<times> json) list option" where
  "base_details (UserEmailExistsError email) = Some [(''email'', JStr email)]"
| "base_details (UserNotFoundError uid) = Some [(''userId'', JStr uid)]"
| "base_details (ValidationError _ d) = d"

text \<open>
  Everything the code throws or inspects: an \<^verbatim>\<open>HttpException\<close> (its class, its response body
  and its message), a \<^verbatim>\<open>BaseError\<close>, a driver error with its SQLSTATE and message,
  TypeORM's \<^verbatim>\<open>EntityNotFoundError\<close>, a gRPC status (code, message), rxjs's
  \<^verbatim>\<open>TimeoutError\<close>, an open circuit breaker, a plain \<^verbatim>\<open>Error\<close>, and a thrown value that is no
  \<^verbatim>\<open>Error\<close>.
\<close>
datatype exn =
  HttpExn http_class json string
| BaseExn base_error
| QueryFailed string string
| EntityNotFound string
| GrpcExn nat string
| RxTimeout
| BreakerOpen string
| PlainError string
| ThrownValue json

type_synonym 'a outcome = "exn + 'a"

text \<open>\<^verbatim>\<open>new NotFoundException('...')\<close>: Nest's response body for a string argument.\<close>
definition http_exn :: "http_class \<Rightarrow> string \<Rightarrow> exn" where
  "http_exn c m = HttpExn c
     (JObj [(''message'', JStr m), (''error'', JStr (http_reason c)), (''statusCode'', JNum (of_nat (http_status c)))]) m"

text \<open>\<^verbatim>\<open>new ForbiddenException()\<close>: without an argument the body has no 'error' key.\<close>
definition http_exn0 :: "http_class \<Rightarrow> exn" where
  "http_exn0 c = HttpExn c
     (JObj [(''message'', JStr (http_reason c)), (''statusCode'', JNum (of_nat (http_status c)))]) (http_reason c)"

text \<open>\<^verbatim>\<open>error.code\<close> and \<^verbatim>\<open>error.message\<close>, as code that casts an unknown error reads them.\<close>
fun exn_code :: "exn \<Rightarrow> string option" where
  "exn_code (QueryFailed c _) = Some c"
| "exn_code (BaseExn b) = Some (base_code b)"
| "exn_code (BreakerOpen _) = Some ''EOPENBREAKER''"
| "exn_code _ = None"

fun exn_message :: "exn \<Rightarrow> string option" where
  "exn_message (HttpExn _ _ m) = Some m"
| "exn_message (BaseExn b) = Some (base_message b)"
| "exn_message (QueryFailed _ m) = Some m"
| "exn_message (EntityNotFound m) = Some m"
| "exn_message (GrpcExn _ m) = Some m"
| "exn_message RxTimeout = Some ''Timeout has occurred''"
| "exn_message (BreakerOpen m) = Some m"
| "exn_message (PlainError m) = Some m"
| "exn_message (ThrownValue j) = (case json_field ''message'' j of Some (JStr m) \<Rightarrow> Some m | _ \<Rightarrow> None)"

text \<open>\<^verbatim>\<open>exception instanceof Error\<close>.\<close>
fun is_error :: "exn \<Rightarrow> bool" where
  "is_error (ThrownValue _) = False"
| "is_error _ = True"

fun is_http :: "exn \<Rightarrow> bool" where
  "is_http (HttpExn _ _ _) = True"
| "is_http _ = False"

definition unique_violation :: "string \<Rightarrow> exn" where
  "unique_violation what = QueryFailed ''23505'' (''duplicate key value violates unique constraint '' @ what)"

definition fk_violation :: "string \<Rightarrow> exn" where
  "fk_violation what = QueryFailed ''23503'' (''insert or update violates foreign key constraint '' @ what)"

text \<open>What V8 says when a property of undefined or null is read.\<close>
definition undefined_read :: "string \<Rightarrow> exn" where
  "undefined_read f = PlainError (''Cannot read properties of undefined (reading '' @ in_sq f @ '')'')"

definition null_read :: "string \<Rightarrow> exn" where
  "null_read f = PlainError (''Cannot read properties of null (reading '' @ in_sq f @ '')'')"

end
