(* ===== verification/Entities.thy ===== *)
theory Entities
  imports Errors
begin

text \<open>
  The rows of the database (the TypeORM entities of the shop), the database as a record
  of tables, and the world an operation acts on: the database, the broker, the domain
  events, metrics and mails sent so far, the clock and the supply of identifiers. A row
  holds the columns; relations are looked up when a repository asks for them.
\<close>

section \<open>Rows\<close>

datatype order_status = CANCELLED | CREATED | PAID | PENDING | PROCESSED

fun order_status_str :: "order_status \<Rightarrow> string" where
  "order_status_str CANCELLED = ''CANCELLED''"
| "order_status_str CREATED = ''CREATED''"
| "order_status_str PAID = ''PAID''"
| "order_status_str PENDING = ''PENDING''"
| "order_status_str PROCESSED = ''PROCESSED''"

datatype product_category =
  ACCESSORIES | AUDIO | CAMERAS | LAPTOPS | MONITORS | OTHER | PERIPHERALS
| SMARTPHONES | STORAGE | TABLETS | WEARABLES

datatype file_status = FILE_PENDING | FILE_READY

datatype file_visibility = PRIVATE_FILE | PUBLIC_FILE

record user =
  u_id :: uuid
  u_email :: string
  u_password :: "string option"
  u_isEmailVerified :: bool
  u_firstName :: "string option"
  u_lastName :: "string option"
  u_phone :: "string option"
  u_city :: "string option"
  u_country :: "string option"
  u_postcode :: "string option"
  u_avatarId :: "uuid option"
  u_roles :: "string list"
  u_scopes :: "string list"
  u_createdAt :: micros
  u_updatedAt :: micros
  u_deletedAt :: "micros option"

record product =
  p_id :: uuid
  p_title :: string
  p_brand :: "string option"
  p_category :: product_category
  p_country :: "string option"
  p_description :: "string option"
  p_isActive :: bool
  p_mainImageId :: "uuid option"
  p_price :: string
  p_stock :: int
  p_createdAt :: micros
  p_updatedAt :: micros
  p_deletedAt :: "micros option"

record order =
  o_id :: uuid
  o_userId :: uuid
  o_status :: order_status
  o_idempotencyKey :: "string option"
  o_paymentId :: "string option"
  o_shippingCity :: "string option"
  o_shippingCountry :: "string option"
  o_shippingFirstName :: "string option"
  o_shippingLastName :: "string option"
  o_shippingPhone :: "string option"
  o_shippingPostcode :: "string option"
  o_createdAt :: micros
  o_updatedAt :: micros

record order_item =
  oi_id :: uuid
  oi_orderId :: uuid
  oi_productId :: uuid
  oi_priceAtPurchase :: string
  oi_quantity :: int

record processed_message =
  pm_messageId :: string
  pm_idempotencyKey :: "string option"
  pm_orderId :: "string option"
  pm_processedAt :: "micros option"
  pm_scope :: string

datatype audit_action =
  AUTH_LOGOUT | AUTH_PASSWORD_RESET_COMPLETE | AUTH_PASSWORD_RESET_REQUEST
| AUTH_SIGNIN_FAILURE | AUTH_SIGNUP | ORDER_CANCELLED | ORDER_CREATED
| ORDER_CREATION_FAILED | ORDER_IDEMPOTENT_HIT | ORDER_PAYMENT_AUTHORIZED
| ORDER_PAYMENT_FAILED | USER_ROLE_CHANGED | USER_SCOPE_CHANGED | USER_SOFT_DELETED

datatype audit_outcome = AUDIT_FAILURE | AUDIT_SUCCESS

record audit_context =
  ac_correlationId :: "string option"
  ac_ip :: "string option"
  ac_userAgent :: "string option"

record audit_log =
  al_action :: audit_action
  al_actorId :: "uuid option"
  al_actorRole :: "string option"
  al_correlationId :: "string option"
  al_ip :: "string option"
  al_outcome :: audit_outcome
  al_reason :: "string option"
  al_targetId :: "string option"
  al_targetType :: "string option"
  al_userAgent :: "string option"

record cart =
  c_id :: uuid
  c_userId :: uuid
  c_createdAt :: micros
  c_updatedAt :: micros

record cart_item =
  ci_id :: uuid
  ci_cartId :: uuid
  ci_productId :: uuid
  ci_quantity :: int
  ci_addedAt :: micros

record file_record =
  f_id :: uuid
  f_bucket :: string
  f_key :: string
  f_contentType :: string
  f_size :: int
  f_ownerId :: uuid
  f_entityId :: "uuid option"
  f_status :: file_status
  f_visibility :: file_visibility
  f_completedAt :: "micros option"
  f_createdAt :: micros
  f_updatedAt :: micros

record review =
  rv_id :: uuid
  rv_userId :: uuid
  rv_productId :: uuid
  rv_rating :: int
  rv_text :: string
  rv_createdAt :: micros
  rv_updatedAt :: micros

record refresh_token =
  rt_id :: uuid
  rt_userId :: uuid
  rt_tokenHash :: string
  rt_expiresAt :: micros
  rt_revokedAt :: "micros option"
  rt_createdAt :: micros

text \<open>Password-reset and e-mail-verification tokens have the same columns.\<close>
record one_time_token =
  ot_id :: uuid
  ot_userId :: uuid
  ot_tokenHash :: string
  ot_expiresAt :: micros
  ot_usedAt :: "micros option"
  ot_createdAt :: micros

text \<open>The entities' own getters; they compare with the clock at the call.\<close>
definition rt_isActive :: "micros \<Rightarrow> refresh_token \<Rightarrow> bool" where
  "rt_isActive now t = (rt_revokedAt t = None \<and> rt_expiresAt t > now)"

definition ot_isUsable :: "micros \<Rightarrow> one_time_token \<Rightarrow> bool" where
  "ot_isUsable now t = (ot_usedAt t = None \<and> ot_expiresAt t > now)"

section \<open>The database\<close>

record db =
  users :: "user list"
  products :: "product list"
  orders :: "order list"
  order_items :: "order_item list"
  processed_messages :: "processed_message list"
  audit_logs :: "audit_log list"
  carts :: "cart list"
  cart_items :: "cart_item list"
  file_records :: "file_record list"
  reviews :: "review list"
  refresh_tokens :: "refresh_token list"
  reset_tokens :: "one_time_token list"
  verification_tokens :: "one_time_token list"

section \<open>The world an operation acts on\<close>

text \<open>The AMQP channel: never opened (or torn down), open, or closed by the broker.\<close>
datatype channel_state = NoChannel | ChannelOpen | ChannelClosed

text \<open>The body of a broker message: bytes that are no JSON, or JSON.\<close>
datatype content = Unparseable string | Parsed json

record broker_message =
  bm_queue :: string
  bm_content :: content
  bm_messageId :: "string option"

datatype order_event =
  OrderCancelledEvent uuid string
| OrderCreatedEvent uuid string
| OrderPaidEvent uuid string

datatype metric_unit = CountUnit | MillisecondsUnit

record metric_definition =
  md_name :: string
  md_unit :: metric_unit
  md_value :: rat

record metric_event =
  me_dimensions :: "(string \<times> string) list"
  me_metrics :: "metric_definition list"
  me_properties :: "(string \<times> json) list"

record mail =
  m_to :: string
  m_subject :: string
  m_text :: string

record world =
  w_db :: db
  w_now :: micros
  w_next :: nat
  w_channel :: channel_state
  w_published :: "broker_message list"
  w_acks :: nat
  w_events :: "order_event list"
  w_metrics :: "metric_event list"
  w_mails :: "mail list"

text \<open>Steps on the world.\<close>
type_synonym 'a act = "(world, exn, 'a) step"

text \<open>
  What an operation takes from outside: the identifiers the database and
  \<^verbatim>\<open>randomUUID\<close> generate (the n-th one), the configuration
  (\<^verbatim>\<open>ConfigService.get\<close>), the milliseconds an operation took by the monotonic clock, whether taking row locks on the given products fails
  (a lock or statement timeout), whether the audit table accepts writes, the ISO rendering of
  an instant, which strings PostgreSQL reads as a uuid, and what other requests do to the world between two steps of this one that
  are not in one transaction.
\<close>
record env =
  e_uuid :: "nat \<Rightarrow> uuid"
  e_config :: "string \<Rightarrow> string option"
  e_lock :: "uuid list \<Rightarrow> world \<Rightarrow> exn option"
  e_audit_up :: bool
  e_duration :: "world \<Rightarrow> rat"
  e_iso :: "micros \<Rightarrow> string"
  e_pg_uuid :: "string \<Rightarrow> bool"
  e_others :: "world \<Rightarrow> world"

definition db_update :: "(db \<Rightarrow> db) \<Rightarrow> world \<Rightarrow> world" where
  "db_update f w = w\<lparr>w_db := f (w_db w)\<rparr>"

definition fresh_uuid :: "env \<Rightarrow> uuid act" where
  "fresh_uuid E w = (Inr (e_uuid E (w_next w)), w\<lparr>w_next := w_next w + 1\<rparr>)"

text \<open>\<^verbatim>\<open>dataSource.transaction(body)\<close>: an error rolls the database back (and only
  the database).\<close>
definition transaction :: "'a act \<Rightarrow> 'a act" where
  "transaction body w = (case body w of
     (Inl e, w1) \<Rightarrow> (Inl e, w1\<lparr>w_db := w_db w\<rparr>)
   | (Inr x, w1) \<Rightarrow> (Inr x, w1))"

definition emit :: "order_event \<Rightarrow> unit act" where
  "emit ev = modify_s (\<lambda>w. w\<lparr>w_events := w_events w @ [ev]\<rparr>)"

lemma db_update_simps [simp, store_simps]:
  "w_db (db_update f w) = f (w_db w)"
  "w_now (db_update f w) = w_now w"
  "w_next (db_update f w) = w_next w"
  "w_channel (db_update f w) = w_channel w"
  "w_published (db_update f w) = w_published w"
  "w_acks (db_update f w) = w_acks w"
  "w_events (db_update f w) = w_events w"
  "w_metrics (db_update f w) = w_metrics w"
  "w_mails (db_update f w) = w_mails w"
  by (simp_all add: db_update_def)

lemma fresh_uuid_app [simp]: "fresh_uuid E w = (Inr (e_uuid E (w_next w)), w\<lparr>w_next := w_next w + 1\<rparr>)"
  by (simp add: fresh_uuid_def)

lemma bind_fresh_uuid [simp]:
  "bind_s (fresh_uuid E) k w = k (e_uuid E (w_next w)) (w\<lparr>w_next := w_next w + 1\<rparr>)"
  by (simp add: bind_s_def)

lemma emit_app [simp]: "emit ev w = (Inr (), w\<lparr>w_events := w_events w @ [ev]\<rparr>)"
  by (simp add: emit_def)

lemma bind_emit [simp]: "bind_s (emit ev) k w = k () (w\<lparr>w_events := w_events w @ [ev]\<rparr>)"
  by (simp add: bind_s_def)

lemma transaction_Inl: "transaction body w = (Inl e, w') \<Longrightarrow> w_db w' = w_db w"
  by (auto simp: transaction_def split: prod.splits sum.splits)

lemma transaction_Inr: "transaction body w = (Inr x, w') \<longleftrightarrow> body w = (Inr x, w')"
  by (auto simp: transaction_def split: prod.splits sum.splits)

lemma transaction_eq_Inl:
  "transaction body w = (Inl e, w') \<longleftrightarrow> (\<exists>w1. body w = (Inl e, w1) \<and> w' = w1\<lparr>w_db := w_db w\<rparr>)"
  by (auto simp: transaction_def split: prod.splits sum.splits)

text \<open>\<^verbatim>\<open>new Date()\<close> has milliseconds; a read of the database may fail without writing it.\<close>
definition js_now :: "world \<Rightarrow> micros" where
  "js_now w = w_now w div 1000 * 1000"

definition read_s :: "(world \<Rightarrow> exn + 'a) \<Rightarrow> 'a act" where
  "read_s f w = (f w, w)"

lemma read_s_app [simp]: "read_s f w = (f w, w)"
  by (simp add: read_s_def)

lemma bind_read_s: "bind_s (read_s f) k w = (case f w of Inl e \<Rightarrow> (Inl e, w) | Inr x \<Rightarrow> k x w)"
  by (simp add: bind_s_def split: sum.split)

section \<open>Steps that only write the database\<close>

text \<open>A step that touches nothing but the database and the supply of identifiers.\<close>
definition same_outside :: "world \<Rightarrow> world \<Rightarrow> bool" where
  "same_outside w w' \<longleftrightarrow> w_now w' = w_now w \<and> w_channel w' = w_channel w \<and> w_published w' = w_published w \<and>
     w_acks w' = w_acks w \<and> w_events w' = w_events w \<and> w_metrics w' = w_metrics w \<and> w_mails w' = w_mails w"

definition quiet :: "'a act \<Rightarrow> bool" where
  "quiet m \<longleftrightarrow> (\<forall>w. same_outside w (snd (m w)))"

lemma same_outside_refl [simp]: "same_outside w w"
  by (simp add: same_outside_def)

lemma same_outside_trans: "same_outside a b \<Longrightarrow> same_outside b c \<Longrightarrow> same_outside a c"
  by (simp add: same_outside_def)

lemma quietD: "quiet m \<Longrightarrow> m w = (r, w') \<Longrightarrow> same_outside w w'"
  unfolding quiet_def by (metis snd_conv)

lemma quietI: "(\<And>w r w'. m w = (r, w') \<Longrightarrow> same_outside w w') \<Longrightarrow> quiet m"
  unfolding quiet_def by (metis surjective_pairing)

named_theorems quiet_intros \<open>steps that only write the database\<close>

lemma quiet_basic [quiet_intros]:
  "quiet (return_s x)" "quiet (throw_s e)" "quiet (gets_s f)" "quiet (lift_s r)"
  "quiet (fresh_uuid E)" "quiet (modify_s (db_update g))"
  "quiet (modify_s (\<lambda>w. db_update (h w) w))"
  by (simp_all add: quiet_def same_outside_def)

lemma quiet_bind [quiet_intros]:
  assumes "quiet m" and "\<And>x. quiet (k x)"
  shows "quiet (bind_s m k)"
proof (rule quietI)
  fix w r w' assume run: "bind_s m k w = (r, w')"
  obtain r1 w1 where m: "m w = (r1, w1)" by fastforce
  have 1: "same_outside w w1" by (rule quietD [OF assms(1) m])
  show "same_outside w w'"
  proof (cases r1)
    case (Inl e)
    then show ?thesis using run m 1 by (simp add: bind_s_def)
  next
    case (Inr x)
    then have "k x w1 = (r, w')" using run m by (simp add: bind_s_def)
    then show ?thesis using quietD [OF assms(2)] 1 same_outside_trans by blast
  qed
qed

lemma quiet_transaction [quiet_intros]: "quiet m \<Longrightarrow> quiet (transaction m)"
  by (auto simp: quiet_def transaction_def same_outside_def split: prod.splits sum.splits)
     (metis (no_types, lifting) snd_conv)+

end
