(* ===== verification/Store.thy ===== *)
theory Store
  imports Entities
begin

text \<open>
  Reading and writing tables. A table is a list of rows in physical order. The locale
  \<open>row_store\<close> is the contract the services rely on when they read a row by id and
  save it; it is interpreted on the tables of the database in the theories of the
  components that own them.
\<close>

section \<open>Rows of a table\<close>

definition find_row :: "('r \<Rightarrow> 'k) \<Rightarrow> 'k \<Rightarrow> 'r list \<Rightarrow> 'r option" where
  "find_row key k rows = find (\<lambda>r. key r = k) rows"

text \<open>\<^verbatim>\<open>repository.save(entity)\<close>: an UPDATE of the row with this id, or an INSERT.\<close>
definition save_row :: "('r \<Rightarrow> 'k) \<Rightarrow> 'r \<Rightarrow> 'r list \<Rightarrow> 'r list" where
  "save_row key r rows =
     (if \<exists>x \<in> set rows. key x = key r
      then map (\<lambda>x. if key x = key r then r else x) rows else rows @ [r])"

definition delete_rows :: "('r \<Rightarrow> bool) \<Rightarrow> 'r list \<Rightarrow> 'r list" where
  "delete_rows P rows = filter (\<lambda>r. \<not> P r) rows"

text \<open>\<^verbatim>\<open>repository.update(criteria, changes)\<close>: all matching rows, with no error when there is none.\<close>
definition update_rows :: "('r \<Rightarrow> bool) \<Rightarrow> ('r \<Rightarrow> 'r) \<Rightarrow> 'r list \<Rightarrow> 'r list" where
  "update_rows P f rows = map (\<lambda>r. if P r then f r else r) rows"

text \<open>A unique index over an optional column: NULLs never clash.\<close>
definition clashes :: "('r \<Rightarrow> 'k) \<Rightarrow> ('r \<Rightarrow> 'u option) \<Rightarrow> 'r \<Rightarrow> 'r list \<Rightarrow> bool" where
  "clashes key col r rows = (col r \<noteq> None \<and> (\<exists>x \<in> set rows. key x \<noteq> key r \<and> col x = col r))"

lemma find_row_Nil [simp]: "find_row key k [] = None"
  by (simp add: find_row_def)

lemma find_row_Cons [simp]:
  "find_row key k (r # rows) = (if key r = k then Some r else find_row key k rows)"
  by (simp add: find_row_def)

lemma find_row_append:
  "find_row key k (xs @ ys) = (case find_row key k xs of None \<Rightarrow> find_row key k ys | Some r \<Rightarrow> Some r)"
  by (induction xs) auto

lemma find_row_SomeD: "find_row key k rows = Some r \<Longrightarrow> r \<in> set rows \<and> key r = k"
  by (induction rows) (auto split: if_splits)

lemma find_row_None: "find_row key k rows = None \<longleftrightarrow> k \<notin> key ` set rows"
  by (induction rows) auto

lemma find_row_mem: "distinct (map key rows) \<Longrightarrow> r \<in> set rows \<Longrightarrow> find_row key (key r) rows = Some r"
  by (induction rows) (auto simp: image_iff)

lemma map_key_replace:
  "key r = k \<Longrightarrow> map key (map (\<lambda>x. if key x = k then r else x) rows) = map key rows"
  by (induction rows) auto

lemma find_row_replace:
  assumes "key r = k"
  shows "find_row key k' (map (\<lambda>x. if key x = k then r else x) rows) =
    (if k' = k \<and> find_row key k rows \<noteq> None then Some r else find_row key k' rows)"
  using assms by (induction rows) auto

lemma find_row_save [store_simps]:
  "find_row key k (save_row key r rows) = (if k = key r then Some r else find_row key k rows)"
proof (cases "\<exists>x \<in> set rows. key x = key r")
  case True
  then have "find_row key (key r) rows \<noteq> None" by (metis find_row_None image_eqI)
  with True show ?thesis by (auto simp: save_row_def find_row_replace)
next
  case False
  then have "find_row key (key r) rows = None" by (auto simp: find_row_None)
  moreover have "k \<noteq> key r \<Longrightarrow> find_row key k [r] = None" by auto
  moreover have "save_row key r rows = rows @ [r]" unfolding save_row_def using False by (rule if_not_P)
  ultimately show ?thesis by (auto simp: find_row_append split: option.split)
qed

lemma save_row_keys:
  "map key (save_row key r rows) = (if key r \<in> key ` set rows then map key rows else map key rows @ [key r])"
proof (cases "key r \<in> key ` set rows")
  case True
  then have "\<exists>x \<in> set rows. key x = key r" by (metis imageE)
  then show ?thesis using True map_key_replace [of key r "key r" rows] by (simp add: save_row_def)
next
  case False
  then have "\<not> (\<exists>x \<in> set rows. key x = key r)" by (metis imageI)
  then show ?thesis using False by (simp add: save_row_def)
qed

lemma distinct_save_row: "distinct (map key rows) \<Longrightarrow> distinct (map key (save_row key r rows))"
  by (simp add: save_row_keys)

lemma save_row_fresh: "key r \<notin> key ` set rows \<Longrightarrow> save_row key r rows = rows @ [r]"
  unfolding save_row_def by (metis image_eqI)

lemma set_save_row_subset: "set (save_row key r rows) \<subseteq> insert r (set rows)"
  by (auto simp: save_row_def)

lemma find_row_update_rows:
  assumes "\<And>r. key (f r) = key r"
  shows "find_row key k (update_rows (\<lambda>r. key r = k') f rows) =
    (if k = k' then map_option f (find_row key k rows) else find_row key k rows)"
  using assms by (induction rows) (auto simp: update_rows_def)

lemma map_update_rows: "(\<And>r. g (f r) = g r) \<Longrightarrow> map g (update_rows P f rows) = map g rows"
  by (simp add: update_rows_def)

lemma find_row_delete_rows:
  "find_row key k (delete_rows P rows) =
     (case find_row key k rows of Some r \<Rightarrow> (if P r then None else Some r) | None \<Rightarrow> None)"
  if "distinct (map key rows)"
  using that
proof (induction rows)
  case (Cons r rows)
  have out: "key r = k \<Longrightarrow> find_row key k (delete_rows P rows) = None"
    using Cons.prems by (auto simp: find_row_None delete_rows_def)
  show ?case using Cons out by (auto simp: delete_rows_def)
qed (simp add: delete_rows_def)

section \<open>The contract of a store\<close>

text \<open>
  What the services use of a table: \<open>look d k\<close> reads the row with id k, \<open>put r d\<close> writes
  a row under its own id. \<open>stored d r\<close> is the row as it stands after the write (the update
  stamp may move, the id never).
\<close>
locale row_store =
  fixes key :: "'r \<Rightarrow> uuid"
    and look :: "'d \<Rightarrow> uuid \<Rightarrow> 'r option"
    and put :: "'r \<Rightarrow> 'd \<Rightarrow> 'd"
    and stored :: "'d \<Rightarrow> 'r \<Rightarrow> 'r"
  assumes key_stored: "key (stored d r) = key r"
    and look_put: "look (put r d) k = (if k = key r then Some (stored d r) else look d k)"
begin

lemma look_put_same [simp]: "look (put r d) (key r) = Some (stored d r)"
  by (simp add: look_put)

lemma look_put_other [simp]: "k \<noteq> key r \<Longrightarrow> look (put r d) k = look d k"
  by (simp add: look_put)

lemma put_keeps_ids: "look d k \<noteq> None \<Longrightarrow> look (put r d) k \<noteq> None"
  by (simp add: look_put)

text \<open>Saving several rows one after another.\<close>
lemma look_put_all_other: "k \<notin> key ` set rs \<Longrightarrow> look (fold put rs d) k = look d k"
  by (induction rs arbitrary: d) (auto simp: look_put)

lemma look_put_all:
  assumes "distinct (map key rs)" and "r \<in> set rs"
    and "\<And>d1 d2 x. look d1 (key x) = look d2 (key x) \<Longrightarrow> stored d1 x = stored d2 x"
  shows "look (fold put rs d) (key r) = Some (stored d r)"
  using assms(1,2)
proof (induction rs arbitrary: d)
  case (Cons x rs)
  show ?case
  proof (cases "r = x")
    case True
    have "key x \<notin> key ` set rs" using Cons.prems(1) by auto
    then show ?thesis using True by (simp add: look_put_all_other)
  next
    case False
    then have r: "r \<in> set rs" using Cons.prems by simp
    then have ne: "key r \<noteq> key x" using Cons.prems(1) by (metis distinct.simps(2) image_eqI list.simps(9) set_map)
    have "look (fold put (x # rs) d) (key r) = Some (stored (put x d) r)"
      using Cons.IH [of "put x d"] Cons.prems(1) r by simp
    also have "stored (put x d) r = stored d r" by (rule assms(3)) (simp add: look_put ne)
    finally show ?thesis .
  qed
qed simp

end

end
