(* ===== verification/Product_Repository.thy ===== *)
theory Product_Repository
  imports Store
begin

text \<open>
  \<^verbatim>\<open>products/product.repository.ts\<close>: reading products by id (soft-deleted rows are
  invisible to every query of the sources), locking them, and saving them. The paged
  search of the same class is in the theory of the catalogue.
\<close>

definition live_product :: "product \<Rightarrow> bool" where
  "live_product p = (p_deletedAt p = None)"

definition look_product :: "db \<Rightarrow> uuid \<Rightarrow> product option" where
  "look_product d k = find_row p_id k (products d)"

definition findById_product :: "uuid \<Rightarrow> db \<Rightarrow> product option" where
  "findById_product k d = find (\<lambda>p. p_id p = k \<and> live_product p) (products d)"

definition findByIds :: "uuid list \<Rightarrow> db \<Rightarrow> product list" where
  "findByIds ids d = filter (\<lambda>p. p_id p \<in> set ids \<and> live_product p) (products d)"

text \<open>\<^verbatim>\<open>SELECT ... FOR UPDATE\<close>; waiting for the locks may fail.\<close>
definition findByIdsWithLock :: "env \<Rightarrow> uuid list \<Rightarrow> product list act" where
  "findByIdsWithLock E ids w = (case e_lock E ids w of
     Some e \<Rightarrow> (Inl e, w)
   | None \<Rightarrow> (Inr (findByIds ids (w_db w)), w))"

text \<open>The row after a save: a change moves the update stamp, saving what is there does not.\<close>
definition stored_product :: "micros \<Rightarrow> db \<Rightarrow> product \<Rightarrow> product" where
  "stored_product now d p = (if look_product d (p_id p) = Some p then p else p\<lparr>p_updatedAt := now\<rparr>)"

definition put_product :: "micros \<Rightarrow> product \<Rightarrow> db \<Rightarrow> db" where
  "put_product now p d = d\<lparr>products := save_row p_id (stored_product now d p) (products d)\<rparr>"

text \<open>\<^verbatim>\<open>repo.save(products)\<close>: one statement sequence, refused as a whole when a stock does
  not fit the integer column.\<close>
definition saveProducts :: "product list \<Rightarrow> unit act" where
  "saveProducts ps w =
     (if \<forall>p \<in> set ps. int4 (p_stock p)
      then (Inr (), db_update (fold (put_product (w_now w)) ps) w)
      else (Inl (QueryFailed ''22003'' ''integer out of range''), w))"

lemma stored_product_simps [simp]:
  "p_id (stored_product now d p) = p_id p"
  "p_stock (stored_product now d p) = p_stock p"
  "p_deletedAt (stored_product now d p) = p_deletedAt p"
  "p_isActive (stored_product now d p) = p_isActive p"
  "p_title (stored_product now d p) = p_title p"
  "p_price (stored_product now d p) = p_price p"
  "live_product (stored_product now d p) = live_product p"
  by (auto simp: stored_product_def live_product_def)

lemma look_put_product:
  "look_product (put_product now p d) k =
     (if k = p_id p then Some (stored_product now d p) else look_product d k)"
  by (simp add: look_product_def put_product_def find_row_save)

interpretation product_store: row_store p_id look_product "put_product now" "stored_product now" for now
  by unfold_locales (simp_all add: look_put_product)

lemma put_product_frame [simp]:
  "users (put_product now p d) = users d"
  "orders (put_product now p d) = orders d"
  "order_items (put_product now p d) = order_items d"
  "processed_messages (put_product now p d) = processed_messages d"
  "audit_logs (put_product now p d) = audit_logs d"
  "carts (put_product now p d) = carts d"
  "cart_items (put_product now p d) = cart_items d"
  "file_records (put_product now p d) = file_records d"
  "reviews (put_product now p d) = reviews d"
  "refresh_tokens (put_product now p d) = refresh_tokens d"
  "reset_tokens (put_product now p d) = reset_tokens d"
  "verification_tokens (put_product now p d) = verification_tokens d"
  by (simp_all add: put_product_def)

lemma fold_put_product:
  "\<exists>rows. fold (put_product now) ps d = d\<lparr>products := rows\<rparr>"
proof (induction ps arbitrary: d)
  case Nil
  have "d = d\<lparr>products := products d\<rparr>" by simp
  then show ?case by (metis fold_simps(1))
next
  case (Cons p ps)
  obtain rows where "fold (put_product now) ps (put_product now p d) = (put_product now p d)\<lparr>products := rows\<rparr>"
    using Cons by blast
  then have "fold (put_product now) (p # ps) d = d\<lparr>products := rows\<rparr>" by (simp add: put_product_def)
  then show ?case by blast
qed

lemma fold_put_product_frame [simp]:
  "users (fold (put_product now) ps d) = users d"
  "orders (fold (put_product now) ps d) = orders d"
  "order_items (fold (put_product now) ps d) = order_items d"
  "processed_messages (fold (put_product now) ps d) = processed_messages d"
  "audit_logs (fold (put_product now) ps d) = audit_logs d"
  "carts (fold (put_product now) ps d) = carts d"
  "cart_items (fold (put_product now) ps d) = cart_items d"
  "file_records (fold (put_product now) ps d) = file_records d"
  "reviews (fold (put_product now) ps d) = reviews d"
  using fold_put_product [of now ps d] by auto

text \<open>The primary key of the table.\<close>
definition products_keyed :: "db \<Rightarrow> bool" where
  "products_keyed d = distinct (map p_id (products d))"

lemma products_keyed_put: "products_keyed d \<Longrightarrow> products_keyed (put_product now p d)"
  by (simp add: products_keyed_def put_product_def distinct_save_row)

lemma products_keyed_fold: "products_keyed d \<Longrightarrow> products_keyed (fold (put_product now) ps d)"
  by (induction ps arbitrary: d) (auto simp: products_keyed_put)

lemma distinct_findByIds: "products_keyed d \<Longrightarrow> distinct (map p_id (findByIds ids d))"
  by (simp add: products_keyed_def findByIds_def distinct_map_filter)

lemma findByIds_mem:
  assumes "products_keyed d"
  shows "p \<in> set (findByIds ids d) \<longleftrightarrow> look_product d (p_id p) = Some p \<and> live_product p \<and> p_id p \<in> set ids"
  using assms find_row_mem [of p_id "products d" p] find_row_SomeD [of p_id "p_id p" "products d" p]
  by (auto simp: findByIds_def look_product_def products_keyed_def)

lemma look_fold_put_product_mem:
  assumes "distinct (map p_id ps)" and "p \<in> set ps"
  shows "look_product (fold (put_product now) ps d) (p_id p) = Some (stored_product now d p)"
  by (rule product_store.look_put_all [OF assms]) (simp add: stored_product_def)

lemma look_fold_put_product_other:
  "k \<notin> p_id ` set ps \<Longrightarrow> look_product (fold (put_product now) ps d) k = look_product d k"
  by (rule product_store.look_put_all_other)

end
