(* ===== verification/Order_Stock.thy ===== *)
theory Order_Stock
  imports Product_Repository
begin

text \<open>
  \<^verbatim>\<open>orders/services/order-stock.service.ts\<close>: the checks and the arithmetic on stock that
  creating and cancelling an order share. The JavaScript \<^verbatim>\<open>Map<string, Product>\<close> is an
  association list in insertion order; the products in it are changed in place and then
  saved. The main facts say, for a whole order, by how much the stock of every product
  moves.
\<close>

record stock_item =
  si_productId :: uuid
  si_quantity :: int

type_synonym product_map = "(uuid \<times> product) list"

definition product_map :: "product list \<Rightarrow> product_map" where
  "product_map ps = map (\<lambda>p. (p_id p, p)) ps"

definition upd_key :: "'k \<Rightarrow> ('v \<Rightarrow> 'v) \<Rightarrow> ('k \<times> 'v) list \<Rightarrow> ('k \<times> 'v) list" where
  "upd_key k f m = map (\<lambda>(k', v). (k', if k' = k then f v else v)) m"

definition add_stock :: "int \<Rightarrow> product \<Rightarrow> product" where
  "add_stock n p = p\<lparr>p_stock := p_stock p + n\<rparr>"

section \<open>The operations\<close>

fun decrementStock :: "stock_item list \<Rightarrow> product_map \<Rightarrow> exn + product_map" where
  "decrementStock [] m = Inr m"
| "decrementStock (it # its) m = (case map_of m (si_productId it) of
     None \<Rightarrow> Inl (undefined_read ''stock'')
   | Some p \<Rightarrow> decrementStock its (upd_key (si_productId it) (add_stock (- si_quantity it)) m))"

fun restoreStock :: "stock_item list \<Rightarrow> product_map \<Rightarrow> product_map" where
  "restoreStock [] m = m"
| "restoreStock (it # its) m = (case map_of m (si_productId it) of
     None \<Rightarrow> restoreStock its m
   | Some p \<Rightarrow> restoreStock its (upd_key (si_productId it) (add_stock (si_quantity it)) m))"

definition check_item :: "product_map \<Rightarrow> stock_item \<Rightarrow> exn + unit" where
  "check_item m it = (case map_of m (si_productId it) of
     None \<Rightarrow> Inl (http_exn NotFound (''Product with ID '' @ in_dq (si_productId it)
               @ '' not found or was deleted during order processing''))
   | Some p \<Rightarrow>
       if \<not> p_isActive p
       then Inl (http_exn Conflict (''Product '' @ in_dq (p_title p) @ '' is not available for purchase''))
       else if p_stock p < si_quantity it
       then Inl (http_exn Conflict (''Insufficient stock for product '' @ in_dq (p_title p)
              @ ''. Requested: '' @ int_str (si_quantity it) @ '', Available: '' @ int_str (p_stock p)))
       else Inr ())"

definition validateStockAndAvailability :: "stock_item list \<Rightarrow> product_map \<Rightarrow> exn + unit" where
  "validateStockAndAvailability items m = for_each (check_item m) items"

text \<open>The pre-check before the transaction. \<^verbatim>\<open>find\<close> may come back undefined, which the
  message then prints.\<close>
definition validateExist :: "uuid list \<Rightarrow> unit act" where
  "validateExist ids = bind_s (gets_s (\<lambda>w. findByIds ids (w_db w))) (\<lambda>ps.
     if length ps \<noteq> length ids
     then throw_s (http_exn NotFound (''Product with ID ''
            @ in_dq (case find (\<lambda>i. i \<notin> p_id ` set ps) ids of Some i \<Rightarrow> i | None \<Rightarrow> ''undefined'')
            @ '' not found''))
     else return_s ())"

definition lockValidateAndDecrement :: "env \<Rightarrow> stock_item list \<Rightarrow> uuid list \<Rightarrow> product_map act" where
  "lockValidateAndDecrement E items ids =
     bind_s (findByIdsWithLock E ids) (\<lambda>ps.
     bind_s (lift_s (validateStockAndAvailability items (product_map ps))) (\<lambda>_.
     bind_s (lift_s (decrementStock items (product_map ps))) (\<lambda>m.
     bind_s (saveProducts (map snd m)) (\<lambda>_. return_s m))))"

definition lockAndRestore :: "env \<Rightarrow> stock_item list \<Rightarrow> uuid list \<Rightarrow> unit act" where
  "lockAndRestore E items ids =
     bind_s (findByIdsWithLock E ids) (\<lambda>ps.
     saveProducts (map snd (restoreStock items (product_map ps))))"

section \<open>What an order takes of a product\<close>

text \<open>The quantity of one product over all the items of an order.\<close>
definition qty_of :: "uuid \<Rightarrow> stock_item list \<Rightarrow> int" where
  "qty_of k items = sum_list (map si_quantity (filter (\<lambda>it. si_productId it = k) items))"

definition stock_of :: "db \<Rightarrow> uuid \<Rightarrow> int option" where
  "stock_of d k = map_option p_stock (look_product d k)"

lemma qty_of_Nil [simp]: "qty_of k [] = 0"
  by (simp add: qty_of_def)

lemma qty_of_Cons [simp]:
  "qty_of k (it # its) = (if si_productId it = k then si_quantity it else 0) + qty_of k its"
  by (simp add: qty_of_def)

lemma qty_of_append: "qty_of k (xs @ ys) = qty_of k xs + qty_of k ys"
  by (simp add: qty_of_def)

lemma qty_of_absent: "k \<notin> si_productId ` set items \<Longrightarrow> qty_of k items = 0"
  by (induction items) auto

lemma qty_of_nonneg: "\<forall>it \<in> set items. 0 \<le> si_quantity it \<Longrightarrow> 0 \<le> qty_of k items"
  by (induction items) auto

lemma qty_of_distinct:
  assumes "distinct (map si_productId items)" and "it \<in> set items"
  shows "qty_of (si_productId it) items = si_quantity it"
  using assms by (induction items) (auto simp: qty_of_absent image_iff)

lemma add_stock_simps [simp]:
  "p_stock (add_stock n p) = p_stock p + n"
  "p_id (add_stock n p) = p_id p"
  "live_product (add_stock n p) = live_product p"
  "add_stock 0 p = p"
  by (simp_all add: add_stock_def live_product_def)

lemma map_option_add_stock_0 [simp]: "map_option (add_stock 0) x = x"
  by (cases x) simp_all

lemma add_stock_add [simp]: "add_stock a (add_stock b p) = add_stock (b + a) p"
  by (simp add: add_stock_def algebra_simps)

lemma map_of_upd_key: "map_of (upd_key k f m) k' = (if k' = k then map_option f (map_of m k') else map_of m k')"
  by (induction m) (auto simp: upd_key_def)

lemma upd_key_keys [simp]: "map fst (upd_key k f m) = map fst m"
  by (simp add: upd_key_def case_prod_unfold comp_def)

text \<open>Map entries stay filed under the id of their product.\<close>
definition ids_ok :: "product_map \<Rightarrow> bool" where
  "ids_ok m = (\<forall>(k, p) \<in> set m. p_id p = k)"

lemma ids_ok_upd_key: "ids_ok m \<Longrightarrow> (\<And>p. p_id (f p) = p_id p) \<Longrightarrow> ids_ok (upd_key k f m)"
  by (auto simp: ids_ok_def upd_key_def)

lemma ids_ok_product_map [simp]: "ids_ok (product_map ps)"
  by (auto simp: ids_ok_def product_map_def)

lemma product_map_keys [simp]: "map fst (product_map ps) = map p_id ps"
  by (simp add: product_map_def comp_def)

lemma map_of_product_map: "map_of (product_map ps) k = find_row p_id k ps"
  by (induction ps) (auto simp: product_map_def)

lemma ids_ok_snd: "ids_ok m \<Longrightarrow> map p_id (map snd m) = map fst m"
  by (induction m) (auto simp: ids_ok_def)

section \<open>Decrement and restore compute the difference per product\<close>

lemma decrementStock_defined:
  assumes "si_productId ` set items \<subseteq> fst ` set m"
  shows "\<exists>m'. decrementStock items m = Inr m'"
  using assms
proof (induction items arbitrary: m)
  case (Cons it items)
  let ?m = "upd_key (si_productId it) (add_stock (- si_quantity it)) m"
  have "fst ` set ?m = fst ` set m" using upd_key_keys [of _ _ m] by (metis set_map)
  then have "\<exists>m'. decrementStock items ?m = Inr m'" using Cons by simp
  moreover have "map_of m (si_productId it) \<noteq> None" using Cons.prems by (auto simp: map_of_eq_None_iff)
  ultimately show ?case by auto
qed simp

lemma decrementStock_ok:
  assumes "decrementStock items m = Inr m'"
  shows "map fst m' = map fst m"
    and "map_of m' k = map_option (add_stock (- qty_of k items)) (map_of m k)"
    and "ids_ok m \<Longrightarrow> ids_ok m'"
  using assms
proof (induction items arbitrary: m)
  case (Cons it items)
  case 1 then show ?case using Cons.IH(1) by (auto split: option.splits)
next
  case (Cons it items)
  case 2 then show ?case using Cons.IH(2)
    by (auto simp: map_of_upd_key option.map_comp comp_def split: option.splits)
next
  case (Cons it items)
  case 3
  have "ids_ok (upd_key (si_productId it) (add_stock (- si_quantity it)) m)"
    using 3 by (simp add: ids_ok_upd_key)
  then show ?case using 3 Cons.IH(3) by (auto split: option.splits)
qed auto

lemma restoreStock_ok:
  shows "map fst (restoreStock items m) = map fst m"
    and "map_of (restoreStock items m) k = map_option (add_stock (qty_of k items)) (map_of m k)"
    and "ids_ok m \<Longrightarrow> ids_ok (restoreStock items m)"
proof (induction items arbitrary: m)
  case (Cons it items)
  case 1 then show ?case using Cons.IH(1) by (auto split: option.splits)
next
  case (Cons it items)
  case 2 then show ?case using Cons.IH(2)
    by (auto simp: map_of_upd_key option.map_comp comp_def split: option.splits)
next
  case (Cons it items)
  case 3 then show ?case using Cons.IH(3) by (auto simp: ids_ok_upd_key split: option.splits)
qed auto

lemma validate_iff:
  "validateStockAndAvailability items m = Inr () \<longleftrightarrow>
     (\<forall>it \<in> set items. \<exists>p. map_of m (si_productId it) = Some p \<and> p_isActive p \<and> si_quantity it \<le> p_stock p)"
  by (auto simp: validateStockAndAvailability_def for_each_Inr check_item_def split: option.splits if_splits)
     (fastforce)+

section \<open>The effect on the table\<close>

text \<open>Saving the values of a map in which every locked product moved by \<open>f\<close> of its id.\<close>
lemma look_save_map:
  assumes keyed: "products_keyed d"
    and keys: "map fst m = map p_id (findByIds ids d)" and ok: "ids_ok m"
    and vals: "\<And>k. map_of m k = map_option (add_stock (f k)) (find_row p_id k (findByIds ids d))"
  shows "look_product (fold (put_product now) (map snd m) d) k =
    (case look_product d k of None \<Rightarrow> None
     | Some p \<Rightarrow> if k \<in> set ids \<and> live_product p
         then Some (stored_product now d (add_stock (f k) p)) else Some p)"
proof -
  have ids: "map p_id (map snd m) = map p_id (findByIds ids d)" using ids_ok_snd [OF ok] keys by simp
  have dist: "distinct (map p_id (map snd m))" using ids distinct_findByIds [OF keyed] by simp
  show ?thesis
  proof (cases "k \<in> p_id ` set (findByIds ids d)")
    case True
    then obtain p where p: "p \<in> set (findByIds ids d)" "p_id p = k" by auto
    have look: "look_product d k = Some p" and sel: "live_product p" "k \<in> set ids"
      using p findByIds_mem [OF keyed, of p ids] by auto
    have "find_row p_id k (findByIds ids d) = Some p"
      using find_row_mem [OF distinct_findByIds [OF keyed, of ids] p(1)] p(2) by simp
    then have "map_of m k = Some (add_stock (f k) p)" by (simp add: vals)
    then have mem: "add_stock (f k) p \<in> set (map snd m)" by (force dest: map_of_SomeD)
    have "p_id (add_stock (f k) p) = k" using p by simp
    then have "look_product (fold (put_product now) (map snd m) d) k = Some (stored_product now d (add_stock (f k) p))"
      using look_fold_put_product_mem [OF dist mem, of now d] by simp
    then show ?thesis using look sel by simp
  next
    case False
    have "k \<notin> p_id ` set (map snd m)" using False ids by (metis set_map)
    then have "look_product (fold (put_product now) (map snd m) d) k = look_product d k"
      by (rule look_fold_put_product_other)
    moreover have "look_product d k = Some p \<Longrightarrow> \<not> (k \<in> set ids \<and> live_product p)" for p
      using False findByIds_mem [OF keyed, of p ids] find_row_SomeD [of p_id k "products d" p]
      by (auto simp: look_product_def)
    ultimately show ?thesis by (auto split: option.split)
  qed
qed

lemma saveProducts_Inr:
  "saveProducts ps w = (Inr u, w') \<longleftrightarrow>
     (\<forall>p \<in> set ps. int4 (p_stock p)) \<and> w' = db_update (fold (put_product (w_now w)) ps) w"
  by (auto simp: saveProducts_def)

text \<open>What a successful locking decrement did.\<close>
lemma lockValidateAndDecrement_Inr:
  assumes run: "lockValidateAndDecrement E items ids w = (Inr m, w')"
    and keyed: "products_keyed (w_db w)"
  shows "w' = db_update (fold (put_product (w_now w)) (map snd m)) w"
    and "validateStockAndAvailability items (product_map (findByIds ids (w_db w))) = Inr ()"
    and "map_of m k = map_option (add_stock (- qty_of k items)) (find_row p_id k (findByIds ids (w_db w)))"
    and "look_product (w_db w') k = (case look_product (w_db w) k of None \<Rightarrow> None
           | Some p \<Rightarrow> if k \<in> set ids \<and> live_product p
               then Some (stored_product (w_now w) (w_db w) (add_stock (- qty_of k items) p)) else Some p)"
    and "\<forall>p \<in> set (map snd m). int4 (p_stock p)"
proof -
  let ?ps = "findByIds ids (w_db w)"
  obtain v: "validateStockAndAvailability items (product_map ?ps) = Inr ()"
    and dec: "decrementStock items (product_map ?ps) = Inr m"
    and save: "saveProducts (map snd m) w = (Inr (), w')"
    using run
    by (auto simp: lockValidateAndDecrement_def bind_s_eq_Inr findByIdsWithLock_def lift_s_def return_s_def
        split: option.splits)
  show "validateStockAndAvailability items (product_map ?ps) = Inr ()" by (rule v)
  show w': "w' = db_update (fold (put_product (w_now w)) (map snd m)) w"
    and "\<forall>p \<in> set (map snd m). int4 (p_stock p)"
    using save by (simp_all add: saveProducts_Inr)
  have vals: "map_of m k = map_option (add_stock (- qty_of k items)) (find_row p_id k ?ps)" for k
    using decrementStock_ok(2) [OF dec, of k] by (simp add: map_of_product_map)
  show "map_of m k = map_option (add_stock (- qty_of k items)) (find_row p_id k ?ps)" by (rule vals)
  have keys: "map fst m = map p_id ?ps" using decrementStock_ok(1) [OF dec] by simp
  have ok: "ids_ok m" using decrementStock_ok(3) [OF dec] by simp
  show "look_product (w_db w') k = (case look_product (w_db w) k of None \<Rightarrow> None
           | Some p \<Rightarrow> if k \<in> set ids \<and> live_product p
               then Some (stored_product (w_now w) (w_db w) (add_stock (- qty_of k items) p)) else Some p)"
    unfolding w' db_update_simps by (rule look_save_map [OF keyed keys ok vals])
qed

lemma lockAndRestore_Inr:
  assumes run: "lockAndRestore E items ids w = (Inr u, w')"
    and keyed: "products_keyed (w_db w)"
  shows "\<exists>ps. w' = db_update (fold (put_product (w_now w)) ps) w"
    and "look_product (w_db w') k = (case look_product (w_db w) k of None \<Rightarrow> None
           | Some p \<Rightarrow> if k \<in> set ids \<and> live_product p
               then Some (stored_product (w_now w) (w_db w) (add_stock (qty_of k items) p)) else Some p)"
proof -
  let ?ps = "findByIds ids (w_db w)"
  let ?m = "restoreStock items (product_map ?ps)"
  have save: "saveProducts (map snd ?m) w = (Inr u, w')"
    using run by (auto simp: lockAndRestore_def bind_s_eq_Inr findByIdsWithLock_def split: option.splits)
  then have w': "w' = db_update (fold (put_product (w_now w)) (map snd ?m)) w"
    by (simp add: saveProducts_Inr)
  then show "\<exists>ps. w' = db_update (fold (put_product (w_now w)) ps) w" by blast
  have vals: "map_of ?m k = map_option (add_stock (qty_of k items)) (find_row p_id k ?ps)" for k
    by (simp add: restoreStock_ok map_of_product_map)
  show "look_product (w_db w') k = (case look_product (w_db w) k of None \<Rightarrow> None
           | Some p \<Rightarrow> if k \<in> set ids \<and> live_product p
               then Some (stored_product (w_now w) (w_db w) (add_stock (qty_of k items) p)) else Some p)"
    unfolding w' db_update_simps
    by (rule look_save_map [OF keyed _ _ vals]) (simp_all add: restoreStock_ok)
qed

text \<open>The same as a movement of stock: all items of live products, and nothing else.\<close>
definition live_in :: "db \<Rightarrow> uuid \<Rightarrow> bool" where
  "live_in d k = (case look_product d k of None \<Rightarrow> False | Some p \<Rightarrow> live_product p)"

lemma lockValidate_all_live:
  assumes "validateStockAndAvailability items (product_map (findByIds ids d)) = Inr ()"
    and "products_keyed d" and "it \<in> set items"
  shows "\<exists>p. look_product d (si_productId it) = Some p \<and> live_product p \<and> p_isActive p
      \<and> si_productId it \<in> set ids \<and> si_quantity it \<le> p_stock p"
proof -
  obtain p where p: "find_row p_id (si_productId it) (findByIds ids d) = Some p" "p_isActive p"
      "si_quantity it \<le> p_stock p"
    using assms(1,3) by (auto simp: validate_iff map_of_product_map)
  then have "p \<in> set (findByIds ids d)" "p_id p = si_productId it" by (auto dest: find_row_SomeD)
  then show ?thesis using p findByIds_mem [OF assms(2), of p ids] by auto
qed

lemma lockValidateAndDecrement_stock:
  assumes run: "lockValidateAndDecrement E items ids w = (Inr m, w')"
    and keyed: "products_keyed (w_db w)"
  shows "stock_of (w_db w') k = map_option (\<lambda>n. n - qty_of k items) (stock_of (w_db w) k)"
proof (cases "k \<in> si_productId ` set items")
  case True
  then obtain it where it: "it \<in> set items" "k = si_productId it" by auto
  obtain p where "look_product (w_db w) k = Some p" "live_product p" "k \<in> set ids"
    using lockValidate_all_live [OF lockValidateAndDecrement_Inr(2) [OF run keyed] keyed it(1)] it(2) by auto
  then show ?thesis
    using lockValidateAndDecrement_Inr(4) [OF run keyed, of k] by (simp add: stock_of_def)
next
  case False
  then have "qty_of k items = 0" by (rule qty_of_absent)
  then show ?thesis
    using lockValidateAndDecrement_Inr(4) [OF run keyed, of k]
    by (auto simp: stock_of_def split: option.splits if_splits)
qed

lemma lockAndRestore_stock:
  assumes run: "lockAndRestore E items ids w = (Inr u, w')"
    and keyed: "products_keyed (w_db w)" and sub: "si_productId ` set items \<subseteq> set ids"
  shows "stock_of (w_db w') k =
    map_option (\<lambda>n. n + (if live_in (w_db w) k then qty_of k items else 0)) (stock_of (w_db w) k)"
proof (cases "k \<in> set ids")
  case True
  then show ?thesis using lockAndRestore_Inr(2) [OF run keyed, of k]
    by (auto simp: stock_of_def live_in_def split: option.splits if_splits)
next
  case False
  then have "qty_of k items = 0" using sub by (intro qty_of_absent) auto
  then show ?thesis using False lockAndRestore_Inr(2) [OF run keyed, of k]
    by (auto simp: stock_of_def split: option.splits if_splits)
qed

end
