(* ===== verification/Observability.thy ===== *)
theory Observability
  imports Entities
begin

text \<open>
  \<^verbatim>\<open>observability/\<close>: the metric events the services emit, the choice of the sink, the
  embedded-metric-format line the CloudWatch sink writes, and the HTTP middleware that turns
  a finished request into events.
\<close>

section \<open>The sink\<close>

definition shouldEnableObservabilityMetrics :: "env \<Rightarrow> bool" where
  "shouldEnableObservabilityMetrics E =
     (e_config E ''OBSERVABILITY_METRICS_ENABLED'' = Some ''true'' \<and>
      map_option (map char_lower) (e_config E ''DEPLOYMENT_ENVIRONMENT'') = Some ''production'')"

text \<open>The module binds the CloudWatch sink or the one that drops every event.\<close>
definition sink_emit :: "env \<Rightarrow> metric_event \<Rightarrow> world \<Rightarrow> world" where
  "sink_emit E ev w =
     (if shouldEnableObservabilityMetrics E then w\<lparr>w_metrics := w_metrics w @ [ev]\<rparr> else w)"

fun unit_str :: "metric_unit \<Rightarrow> string" where
  "unit_str CountUnit = ''Count''"
| "unit_str MillisecondsUnit = ''Milliseconds''"

definition OBSERVABILITY_METRICS_NAMESPACE :: string where
  "OBSERVABILITY_METRICS_NAMESPACE = ''RdShop/Application''"

text \<open>The line \<^verbatim>\<open>CloudWatchEmfMetricsSink\<close> prints: dimensions, values and properties are
  spread into one object, later keys over earlier ones.\<close>
definition emf_payload :: "rat \<Rightarrow> metric_event \<Rightarrow> json" where
  "emf_payload now_ms ev = JObj (foldl (\<lambda>acc (k, v). set_key k v acc)
     [(''_aws'', JObj [
        (''CloudWatchMetrics'', JArr [JObj [
           (''Dimensions'', JArr [JArr (map (JStr \<circ> fst) (me_dimensions ev))]),
           (''Metrics'', JArr (map (\<lambda>m. JObj [(''Name'', JStr (md_name m)), (''Unit'', JStr (unit_str (md_unit m)))])
               (me_metrics ev))),
           (''Namespace'', JStr OBSERVABILITY_METRICS_NAMESPACE)]]),
        (''Timestamp'', JNum now_ms)])]
     (map (\<lambda>(k, v). (k, JStr v)) (me_dimensions ev)
       @ map (\<lambda>m. (md_name m, JNum (md_value m))) (me_metrics ev)
       @ me_properties ev))"

section \<open>The metric services\<close>

definition metric_environment :: "env \<Rightarrow> string" where
  "metric_environment E = (case e_config E ''DEPLOYMENT_ENVIRONMENT'' of Some v \<Rightarrow> v
     | None \<Rightarrow> (case e_config E ''NODE_ENV'' of Some v \<Rightarrow> v | None \<Rightarrow> ''unknown''))"

definition metric_service :: "env \<Rightarrow> string" where
  "metric_service E = (case e_config E ''APP'' of Some v \<Rightarrow> v | None \<Rightarrow> ''shop'')"

definition count_event :: "(string \<times> string) list \<Rightarrow> string \<Rightarrow> rat \<Rightarrow> metric_event" where
  "count_event dims name n = \<lparr>me_dimensions = dims,
     me_metrics = [\<lparr>md_name = name, md_unit = CountUnit, md_value = n\<rparr>], me_properties = []\<rparr>"

definition duration_event :: "(string \<times> string) list \<Rightarrow> string \<Rightarrow> rat \<Rightarrow> metric_event" where
  "duration_event dims name ms = \<lparr>me_dimensions = dims,
     me_metrics = [\<lparr>md_name = name, md_unit = MillisecondsUnit, md_value = ms\<rparr>], me_properties = []\<rparr>"

definition recordOrderCompleted :: "env \<Rightarrow> string \<Rightarrow> world \<Rightarrow> world" where
  "recordOrderCompleted E finalStatus = sink_emit E (count_event
     [(''Environment'', metric_environment E), (''FinalStatus'', finalStatus), (''Service'', metric_service E)]
     ''OrderCompletionCount'' 1)"

definition recordOrderCreated :: "env \<Rightarrow> string \<Rightarrow> world \<Rightarrow> world" where
  "recordOrderCreated E initialStatus = sink_emit E (count_event
     [(''Environment'', metric_environment E), (''InitialStatus'', initialStatus), (''Service'', metric_service E)]
     ''OrderCreatedCount'' 1)"

definition recordRabbitMqPublish :: "env \<Rightarrow> string \<Rightarrow> world \<Rightarrow> world" where
  "recordRabbitMqPublish E queue = sink_emit E (count_event
     [(''Environment'', metric_environment E), (''Queue'', queue), (''Service'', metric_service E)]
     ''RabbitMqPublishCount'' 1)"

definition recordOrderProcessingDuration :: "env \<Rightarrow> rat \<Rightarrow> string \<Rightarrow> world \<Rightarrow> world" where
  "recordOrderProcessingDuration E ms result = sink_emit E (duration_event
     [(''Environment'', metric_environment E), (''Result'', result), (''Service'', metric_service E)]
     ''OrderProcessingDurationMs'' ms)"

definition recordWorkerMessage :: "env \<Rightarrow> string \<Rightarrow> string \<Rightarrow> world \<Rightarrow> world" where
  "recordWorkerMessage E queue result =
     (let dims = [(''Environment'', metric_environment E), (''Result'', result), (''Service'', metric_service E)]
      in sink_emit E (count_event dims ''OrderWorkerMessageCount'' 1)
       \<circ> sink_emit E (count_event ((''Queue'', queue) # dims) ''OrderWorkerMessageCount'' 1))"

definition recordGrpcDuration :: "env \<Rightarrow> rat \<Rightarrow> string \<Rightarrow> string \<Rightarrow> world \<Rightarrow> world" where
  "recordGrpcDuration E ms meth peer = sink_emit E (duration_event
     [(''Environment'', metric_environment E), (''Method'', meth), (''PeerService'', peer),
      (''Service'', metric_service E)] ''GrpcClientDurationMs'' ms)"

definition recordGrpcRequest :: "env \<Rightarrow> string \<Rightarrow> string \<Rightarrow> string \<Rightarrow> world \<Rightarrow> world" where
  "recordGrpcRequest E meth result peer =
     (let dims = [(''Environment'', metric_environment E), (''PeerService'', peer), (''Service'', metric_service E)]
      in sink_emit E (count_event (dims @ [(''Outcome'', result)]) ''GrpcClientRequestCount'' 1)
       \<circ> sink_emit E (count_event dims ''GrpcClientRequestCount'' 1)
       \<circ> sink_emit E (count_event ([(''Method'', meth), (''Outcome'', result)] @ dims) ''GrpcClientRequestCount'' 1))"

definition recordRequestQueryCount :: "env \<Rightarrow> nat \<Rightarrow> string \<Rightarrow> world \<Rightarrow> world" where
  "recordRequestQueryCount E n route =
     (if route = ''unmatched'' then id
      else sink_emit E (count_event
        [(''Environment'', metric_environment E), (''Route'', route), (''Service'', metric_service E)]
        ''DbQueriesPerRequest'' (of_nat n)))"

definition with_status :: "nat \<Rightarrow> metric_event \<Rightarrow> metric_event" where
  "with_status st ev = ev\<lparr>me_properties := [(''statusCode'', JNum (of_nat st))]\<rparr>"

definition recordHttpRequest :: "env \<Rightarrow> rat \<Rightarrow> string \<Rightarrow> string \<Rightarrow> nat \<Rightarrow> world \<Rightarrow> world" where
  "recordHttpRequest E ms meth route st =
     (let base = [(''Environment'', metric_environment E), (''Method'', map char_upper meth),
                  (''Route'', route), (''Service'', metric_service E)];
          service = [(''Environment'', metric_environment E), (''Service'', metric_service E)];
          statusClass = nat_str (st div 100) @ ''xx'';
          send = (\<lambda>ev. sink_emit E (with_status st ev))
      in send (duration_event service ''HttpRequestDurationMs'' ms)
       \<circ> send (duration_event base ''HttpRequestDurationMs'' ms)
       \<circ> send (count_event (service @ [(''StatusClass'', statusClass)]) ''HttpRequestCount'' 1)
       \<circ> send (count_event service ''HttpRequestCount'' 1)
       \<circ> send (count_event (base @ [(''StatusClass'', statusClass)]) ''HttpRequestCount'' 1))"

section \<open>The middleware\<close>

text \<open>\<^verbatim>\<open>replace(/\/+/g, '/')\<close>.\<close>
fun squeeze_slashes :: "string \<Rightarrow> string" where
  "squeeze_slashes (a # b # s) =
     (if a = CHR ''/'' \<and> b = CHR ''/'' then squeeze_slashes (b # s) else a # squeeze_slashes (b # s))"
| "squeeze_slashes s = s"

text \<open>The path of the matched route, None when \<^verbatim>\<open>req.route.path\<close> is no string.\<close>
definition resolveRoute :: "string \<Rightarrow> string option \<Rightarrow> string" where
  "resolveRoute baseUrl routePath =
     (case routePath of None \<Rightarrow> ''unmatched'' | Some p \<Rightarrow> squeeze_slashes (baseUrl @ p))"

definition shouldSkipMetrics :: "string list \<Rightarrow> string \<Rightarrow> string \<Rightarrow> bool" where
  "shouldSkipMetrics healthPaths meth path =
     (map char_upper meth = ''OPTIONS'' \<or> prefix ''/graphql'' path \<or> (\<exists>h \<in> set healthPaths. prefix h path))"

definition on_finish :: "env \<Rightarrow> string list \<Rightarrow> string \<Rightarrow> string \<Rightarrow> string \<Rightarrow> string option \<Rightarrow> nat \<Rightarrow> nat option \<Rightarrow> world \<Rightarrow> world" where
  "on_finish E healthPaths meth path baseUrl routePath st queryCount w =
     (if shouldSkipMetrics healthPaths meth path then w
      else (let route = resolveRoute baseUrl routePath
            in recordRequestQueryCount E (case queryCount of Some n \<Rightarrow> n | None \<Rightarrow> 0) route
                 (recordHttpRequest E (e_duration E w) meth route st w)))"

section \<open>Metrics touch nothing else\<close>

definition only_metrics :: "(world \<Rightarrow> world) \<Rightarrow> bool" where
  "only_metrics f = (\<forall>w. \<exists>ms. f w = w\<lparr>w_metrics := w_metrics w @ ms\<rparr>)"

lemma only_metrics_sink [simp, intro]: "only_metrics (sink_emit E ev)"
proof -
  have "w = w\<lparr>w_metrics := w_metrics w @ []\<rparr>" for w :: world by simp
  then have "\<exists>ms. sink_emit E ev w = w\<lparr>w_metrics := w_metrics w @ ms\<rparr>" for w
    unfolding sink_emit_def by metis
  then show ?thesis by (simp add: only_metrics_def)
qed

lemma only_metrics_comp: "only_metrics f \<Longrightarrow> only_metrics g \<Longrightarrow> only_metrics (f \<circ> g)"
  unfolding only_metrics_def comp_def
proof
  fix w assume f: "\<forall>w. \<exists>ms. f w = w\<lparr>w_metrics := w_metrics w @ ms\<rparr>"
    and g: "\<forall>w. \<exists>ms. g w = w\<lparr>w_metrics := w_metrics w @ ms\<rparr>"
  from g obtain a where a: "g w = w\<lparr>w_metrics := w_metrics w @ a\<rparr>" by blast
  from f obtain b where b: "f (g w) = (g w)\<lparr>w_metrics := w_metrics (g w) @ b\<rparr>" by blast
  have "f (g w) = w\<lparr>w_metrics := w_metrics w @ (a @ b)\<rparr>" using a b by simp
  then show "\<exists>ms. f (g w) = w\<lparr>w_metrics := w_metrics w @ ms\<rparr>" by blast
qed

lemma only_metrics_dep:
  assumes f: "\<And>a. only_metrics (f a)" and g: "only_metrics g"
  shows "only_metrics (\<lambda>w. f (h w) (g w))"
  unfolding only_metrics_def
proof
  fix w
  obtain a where a: "g w = w\<lparr>w_metrics := w_metrics w @ a\<rparr>" using g unfolding only_metrics_def by blast
  obtain b where "f (h w) (g w) = (g w)\<lparr>w_metrics := w_metrics (g w) @ b\<rparr>"
    using f [of "h w"] unfolding only_metrics_def by blast
  then have "f (h w) (g w) = w\<lparr>w_metrics := w_metrics w @ (a @ b)\<rparr>" using a by simp
  then show "\<exists>ms. f (h w) (g w) = w\<lparr>w_metrics := w_metrics w @ ms\<rparr>" by blast
qed

lemma only_metrics_services [simp]:
  "only_metrics (recordOrderCompleted E s)"
  "only_metrics (recordOrderCreated E s)"
  "only_metrics (recordRabbitMqPublish E s)"
  "only_metrics (recordOrderProcessingDuration E d s)"
  "only_metrics (recordWorkerMessage E s t)"
  "only_metrics (recordGrpcDuration E d s t)"
  "only_metrics (recordGrpcRequest E s t u)"
  by (simp_all add: recordOrderCompleted_def recordOrderCreated_def recordRabbitMqPublish_def
      recordOrderProcessingDuration_def recordWorkerMessage_def recordGrpcDuration_def
      recordGrpcRequest_def Let_def only_metrics_comp)

lemma only_metrics_frame:
  assumes "only_metrics f"
  shows "w_db (f w) = w_db w" and "w_now (f w) = w_now w" and "w_next (f w) = w_next w"
    and "w_channel (f w) = w_channel w" and "w_published (f w) = w_published w"
    and "w_events (f w) = w_events w" and "w_mails (f w) = w_mails w" and "w_acks (f w) = w_acks w"
proof -
  obtain ms where "f w = w\<lparr>w_metrics := w_metrics w @ ms\<rparr>" using assms unfolding only_metrics_def by blast
  then show "w_db (f w) = w_db w" "w_now (f w) = w_now w" "w_next (f w) = w_next w"
    "w_channel (f w) = w_channel w" "w_published (f w) = w_published w"
    "w_events (f w) = w_events w" "w_mails (f w) = w_mails w" "w_acks (f w) = w_acks w" by simp_all
qed

lemmas metrics_frame [simp] =
  only_metrics_frame [OF only_metrics_services(1)]
  only_metrics_frame [OF only_metrics_services(2)]
  only_metrics_frame [OF only_metrics_services(3)]
  only_metrics_frame [OF only_metrics_services(4)]
  only_metrics_frame [OF only_metrics_services(5)]
  only_metrics_frame [OF only_metrics_services(6)]
  only_metrics_frame [OF only_metrics_services(7)]

text \<open>The line names every dimension it declares, with its value, whenever the dimensions
  of an event are distinct from its metric names, its properties and the reserved key.\<close>
lemma map_of_foldl_set_key_other:
  "k \<notin> fst ` set kvs \<Longrightarrow> map_of (foldl (\<lambda>acc (k, v). set_key k v acc) acc kvs) k = map_of acc k"
  by (induction kvs arbitrary: acc) (auto simp: map_of_set_key)

lemma map_of_foldl_set_key:
  assumes "distinct (map fst kvs)" and "(k, v) \<in> set kvs"
  shows "map_of (foldl (\<lambda>acc (k, v). set_key k v acc) acc kvs) k = Some v"
  using assms
proof (induction kvs arbitrary: acc)
  case (Cons x kvs)
  show ?case
  proof (cases "x = (k, v)")
    case True
    then have "k \<notin> fst ` set kvs" using Cons.prems(1) by auto
    then show ?thesis using True by (simp add: map_of_foldl_set_key_other map_of_set_key)
  next
    case False
    then show ?thesis using Cons by (cases x) auto
  qed
qed simp

lemma emf_dimension_value:
  assumes "distinct (map fst (me_dimensions ev))" and "(k, v) \<in> set (me_dimensions ev)"
    and "k \<notin> md_name ` set (me_metrics ev)" and "k \<notin> fst ` set (me_properties ev)"
  shows "json_field k (emf_payload now ev) = Some (JStr v)"
proof -
  let ?dims = "map (\<lambda>(k, v). (k, JStr v)) (me_dimensions ev)"
  let ?rest = "map (\<lambda>m. (md_name m, JNum (md_value m))) (me_metrics ev) @ me_properties ev"
  have d: "distinct (map fst ?dims)" using assms(1) by (simp add: comp_def case_prod_unfold)
  have m: "(k, JStr v) \<in> set ?dims" using assms(2) by force
  have r: "k \<notin> fst ` set ?rest" using assms(3,4) by (auto simp: image_iff)
  show ?thesis unfolding emf_payload_def json_field.simps foldl_append
    by (subst map_of_foldl_set_key_other [OF assms(4)], subst map_of_foldl_set_key_other)
       (use r map_of_foldl_set_key [OF d m] in auto)
qed

end
