(* ===== verification/Exception_Filter.thy ===== *)
theory Exception_Filter
  imports Errors
begin

text \<open>
  \<^verbatim>\<open>common/filters\<close>: what the global exception filter answers, over HTTP
  (\<^verbatim>\<open>filters/utils/http.ts\<close>) and over GraphQL (\<^verbatim>\<open>filters/utils/gql.ts\<close>). The number
  formatting of \<^verbatim>\<open>JSON.stringify\<close> on non-integers (the shortest decimal that reads back as
  the same double) and the rendering of an instant as ISO text are the parameters \<open>fmt\<close> and
  \<open>isot\<close>.
\<close>

section \<open>Rendering values\<close>

definition is_int_rat :: "rat \<Rightarrow> bool" where
  "is_int_rat q = (of_int (floor q) = q)"

definition num_str :: "(rat \<Rightarrow> string) \<Rightarrow> rat \<Rightarrow> string" where
  "num_str fmt q = (if is_int_rat q \<and> abs q < 10 ^ 21 then int_str (floor q) else fmt q)"

definition hex_digit :: "nat \<Rightarrow> char" where
  "hex_digit n = (if n < 10 then char_of (48 + n) else char_of (87 + n))"

text \<open>\<^verbatim>\<open>JSON.stringify\<close> of one character of a string.\<close>
definition escape_char :: "char \<Rightarrow> string" where
  "escape_char c = (let n = of_char c :: nat; bs = char_of (92 :: nat) in
     if n = 34 then [bs, char_of (34 :: nat)]
     else if n = 92 then [bs, bs]
     else if n = 8 then bs # ''b''
     else if n = 9 then bs # ''t''
     else if n = 10 then bs # ''n''
     else if n = 12 then bs # ''f''
     else if n = 13 then bs # ''r''
     else if n < 32 then bs # ''u00'' @ [hex_digit (n div 16), hex_digit (n mod 16)]
     else [c])"

definition quote_str :: "string \<Rightarrow> string" where
  "quote_str s = [char_of (34 :: nat)] @ concat (map escape_char s) @ [char_of (34 :: nat)]"

fun sep_join :: "string \<Rightarrow> string list \<Rightarrow> string" where
  "sep_join sep [] = []"
| "sep_join sep [x] = x"
| "sep_join sep (x # y # zs) = x @ sep @ sep_join sep (y # zs)"

text \<open>\<^verbatim>\<open>JSON.stringify(j)\<close>; an infinity prints as null.\<close>
fun json_stringify :: "(rat \<Rightarrow> string) \<Rightarrow> json \<Rightarrow> string" where
  "json_stringify fmt JNull = ''null''"
| "json_stringify fmt (JBool b) = (if b then ''true'' else ''false'')"
| "json_stringify fmt (JNum q) = num_str fmt q"
| "json_stringify fmt (JInf _) = ''null''"
| "json_stringify fmt (JStr s) = quote_str s"
| "json_stringify fmt (JArr xs) = ''['' @ sep_join '','' (map (json_stringify fmt) xs) @ '']''"
| "json_stringify fmt (JObj kvs) =
     ''{'' @ sep_join '','' (map (\<lambda>(k, v). quote_str k @ '':'' @ json_stringify fmt v) kvs) @ ''}''"

text \<open>\<^verbatim>\<open>String(j)\<close>; inside an array null prints as nothing (\<^verbatim>\<open>Array.prototype.join\<close>).\<close>
fun js_string :: "(rat \<Rightarrow> string) \<Rightarrow> json \<Rightarrow> string" where
  "js_string fmt JNull = ''null''"
| "js_string fmt (JBool b) = (if b then ''true'' else ''false'')"
| "js_string fmt (JNum q) = num_str fmt q"
| "js_string fmt (JInf pos) = (if pos then ''Infinity'' else ''-Infinity'')"
| "js_string fmt (JStr s) = s"
| "js_string fmt (JArr xs) = sep_join '','' (map (\<lambda>j. if j = JNull then [] else js_string fmt j) xs)"
| "js_string fmt (JObj kvs) = ''[object Object]''"

definition js_join :: "(rat \<Rightarrow> string) \<Rightarrow> string \<Rightarrow> json list \<Rightarrow> string" where
  "js_join fmt sep xs = sep_join sep (map (\<lambda>j. if j = JNull then [] else js_string fmt j) xs)"

section \<open>HTTP\<close>

definition extractStatus :: "exn \<Rightarrow> nat" where
  "extractStatus e = (case e of
       HttpExn c _ _ \<Rightarrow> http_status c
     | BaseExn b \<Rightarrow> base_status b
     | _ \<Rightarrow> 500)"

text \<open>\<^verbatim>\<open>'message' in response\<close> asks for the key, whatever it holds.\<close>
definition extractMessage :: "exn \<Rightarrow> json" where
  "extractMessage e = (case e of
       HttpExn _ r _ \<Rightarrow> (case json_field ''message'' r of Some m \<Rightarrow> m | None \<Rightarrow> r)
     | BaseExn b \<Rightarrow> JStr (base_message b)
     | _ \<Rightarrow> JStr ''Internal server error'')"

definition formatMessage :: "(rat \<Rightarrow> string) \<Rightarrow> json \<Rightarrow> json" where
  "formatMessage fmt m = (case m of
       JStr s \<Rightarrow> JStr s
     | JArr xs \<Rightarrow> JArr (map (\<lambda>j. case j of JStr s \<Rightarrow> JStr s | _ \<Rightarrow> JStr (json_stringify fmt j)) xs)
     | JObj kvs \<Rightarrow>
         (case map_of kvs ''message'' of
            Some msg \<Rightarrow> msg
          | None \<Rightarrow>
              (case map_of kvs ''error'' of
                 Some (JStr s) \<Rightarrow> JStr s
               | _ \<Rightarrow> if kvs \<noteq> [] then JStr (json_stringify fmt (JObj kvs)) else JStr ''An error occurred''))
     | _ \<Rightarrow> JStr ''An error occurred'')"

definition HEALTH_PATHS_TO_BYPASS :: "string list" where
  "HEALTH_PATHS_TO_BYPASS = [''/health'', ''/ready'', ''/status'']"

definition REQUEST_ID_HEADER :: string where
  "REQUEST_ID_HEADER = ''x-request-id''"

record http_request =
  req_path :: string
  req_url :: string
  req_headers :: "(string \<times> json) list"

definition extractRequestId :: "http_request \<Rightarrow> json option" where
  "extractRequestId r = map_of (req_headers r) REQUEST_ID_HEADER"

text \<open>The answer (status, body) to a failed HTTP request; \<^verbatim>\<open>JSON.stringify\<close> leaves out the
  request id when it is undefined.\<close>
definition http_catch :: "(rat \<Rightarrow> string) \<Rightarrow> (micros \<Rightarrow> string) \<Rightarrow> micros \<Rightarrow> exn \<Rightarrow> http_request \<Rightarrow> nat \<times> json" where
  "http_catch fmt isot now e r =
    (case (req_path r \<in> set HEALTH_PATHS_TO_BYPASS, e) of
       (True, HttpExn c body _) \<Rightarrow> (http_status c, body)
     | _ \<Rightarrow>
        (let status = extractStatus e in
         (status, JObj ([(''message'', formatMessage fmt (extractMessage e)), (''path'', JStr (req_url r))]
            @ (case extractRequestId r of None \<Rightarrow> [] | Some i \<Rightarrow> [(''requestId'', i)])
            @ [(''statusCode'', JNum (of_nat status)), (''timestamp'', JStr (isot now))]))))"

text \<open>Which way a failure is logged: with the stack for server errors.\<close>
datatype log_level = LogError | LogWarn

definition log_http_level :: "nat \<Rightarrow> log_level" where
  "log_http_level status = (if status \<ge> 500 then LogError else LogWarn)"

section \<open>GraphQL\<close>

definition getErrorCode :: "nat \<Rightarrow> string" where
  "getErrorCode st = (case map_of
      [(400, ''BAD_USER_INPUT''), (409, ''CONFLICT''), (403, ''FORBIDDEN''), (404, ''NOT_FOUND''),
       (401, ''UNAUTHENTICATED''), (422, ''BAD_USER_INPUT'')] st of
     Some c \<Rightarrow> c
   | None \<Rightarrow> if st \<ge> 500 then ''INTERNAL_SERVER_ERROR'' else ''BAD_REQUEST'')"

record gql_error =
  ge_code :: string
  ge_extensions :: "(string \<times> json) list option"
  ge_message :: json
  ge_statusCode :: nat

definition normalizeGQLError :: "(rat \<Rightarrow> string) \<Rightarrow> bool \<Rightarrow> exn \<Rightarrow> gql_error" where
  "normalizeGQLError fmt production e = (case e of
     HttpExn c r m \<Rightarrow>
       (if c = BadRequest then
          \<lparr>ge_code = ''BAD_USER_INPUT'',
           ge_extensions = Some [(''validationErrors'',
             case json_field ''message'' r of Some v \<Rightarrow> (if json_truthy v then v else r) | None \<Rightarrow> r)],
           ge_message = JStr ''Validation failed'', ge_statusCode = 400\<rparr>
        else
          (let typedResponse = (case r of JStr s \<Rightarrow> Some (JStr s) | _ \<Rightarrow> json_field ''message'' r);
               errorMessage = (case typedResponse of
                   Some (JArr xs) \<Rightarrow> JStr (js_join fmt '', '' xs)
                 | Some v \<Rightarrow> (if json_truthy v then v else JStr m)
                 | None \<Rightarrow> JStr m)
           in \<lparr>ge_code = getErrorCode (http_status c), ge_extensions = None,
               ge_message = errorMessage, ge_statusCode = http_status c\<rparr>))
   | QueryFailed _ _ \<Rightarrow>
       \<lparr>ge_code = ''DATABASE_ERROR'', ge_extensions = None,
        ge_message = JStr ''Database operation failed'', ge_statusCode = 500\<rparr>
   | EntityNotFound _ \<Rightarrow>
       \<lparr>ge_code = ''NOT_FOUND'', ge_extensions = None,
        ge_message = JStr ''Resource not found'', ge_statusCode = 404\<rparr>
   | _ \<Rightarrow>
       \<lparr>ge_code = ''INTERNAL_SERVER_ERROR'',
        ge_extensions = (if production then None else Some [(''originalError'', JStr (case e of
             ThrownValue j \<Rightarrow> js_string fmt j
           | _ \<Rightarrow> (case exn_message e of Some t \<Rightarrow> t | None \<Rightarrow> [])))]),
        ge_message = JStr ''An unexpected error occurred'', ge_statusCode = 500\<rparr>)"

definition extractRequestIdFromGraphQL :: "http_request option \<Rightarrow> json" where
  "extractRequestIdFromGraphQL ctx = (case ctx of None \<Rightarrow> JStr ''unknown''
     | Some r \<Rightarrow> (case map_of (req_headers r) REQUEST_ID_HEADER of
          None \<Rightarrow> JStr ''unknown''
        | Some (JArr (x # _)) \<Rightarrow> x
        | Some JNull \<Rightarrow> JStr ''unknown''
        | Some v \<Rightarrow> v))"

text \<open>The error GraphQL reports: message, and extensions in which those of the normalised error
  come after (and so override) code and request id.\<close>
definition handleGraphQLException ::
  "(rat \<Rightarrow> string) \<Rightarrow> bool \<Rightarrow> exn \<Rightarrow> http_request option \<Rightarrow> json \<times> (string \<times> json) list" where
  "handleGraphQLException fmt production e ctx =
    (let r = normalizeGQLError fmt production e in
     (ge_message r,
      foldl (\<lambda>acc (k, v). set_key k v acc)
        [(''code'', JStr (ge_code r)), (''requestId'', extractRequestIdFromGraphQL ctx)]
        (case ge_extensions r of None \<Rightarrow> [] | Some ext \<Rightarrow> ext)))"

section \<open>What the filter guarantees\<close>

text \<open>Errors that must not reach a client as they are: everything that is neither an HTTP
  exception nor a domain error (driver errors, gRPC errors, plain errors).\<close>
fun is_internal :: "exn \<Rightarrow> bool" where
  "is_internal (HttpExn _ _ _) = False"
| "is_internal (BaseExn _) = False"
| "is_internal _ = True"

lemma extractStatus_internal: "is_internal e \<Longrightarrow> extractStatus e = 500"
  by (cases e) (auto simp: extractStatus_def)

lemma extractStatus_range: "\<exists>c. extractStatus e = http_status c"
  by (cases e; cases "case e of BaseExn b \<Rightarrow> b")
     (auto simp: extractStatus_def intro: exI [of _ InternalServerError] exI [of _ Conflict]
        exI [of _ NotFound] exI [of _ BadRequest])

lemma http_catch_internal:
  assumes "is_internal e"
  shows "http_catch fmt isot now e r =
    (500, JObj ([(''message'', JStr ''Internal server error''), (''path'', JStr (req_url r))]
       @ (case extractRequestId r of None \<Rightarrow> [] | Some i \<Rightarrow> [(''requestId'', i)])
       @ [(''statusCode'', JNum 500), (''timestamp'', JStr (isot now))]))"
  using assms by (cases e) (auto simp: http_catch_def extractStatus_def extractMessage_def formatMessage_def split: bool.split)

lemma formatMessage_str [simp]: "formatMessage fmt (JStr s) = JStr s"
  by (simp add: formatMessage_def)

lemma extractMessage_http_exn [simp]: "extractMessage (http_exn c m) = JStr m"
  by (simp add: extractMessage_def http_exn_def)

lemma extractStatus_http_exn [simp]: "extractStatus (http_exn c m) = http_status c"
  by (simp add: extractStatus_def http_exn_def)

end
