(* ===== verification/Audit_Log.thy ===== *)
theory Audit_Log
  imports Observability Exception_Filter
begin

text \<open>
  \<^verbatim>\<open>audit-log/\<close>: writing an audit row. The services call \<open>audit\<close> without waiting for it
  and its failures are swallowed, so it never changes the outcome of the caller.
\<close>

record create_audit_event =
  ae_action :: audit_action
  ae_actorId :: "uuid option"
  ae_actorRole :: "string option"
  ae_context :: "audit_context option"
  ae_outcome :: audit_outcome
  ae_reason :: "string option"
  ae_targetId :: "string option"
  ae_targetType :: "string option"

definition audit_event ::
  "audit_action \<Rightarrow> uuid option \<Rightarrow> audit_context option \<Rightarrow> audit_outcome \<Rightarrow> string option \<Rightarrow> string option \<Rightarrow> create_audit_event" where
  "audit_event a actor ctx oc target ttype =
     \<lparr>ae_action = a, ae_actorId = actor, ae_actorRole = None, ae_context = ctx, ae_outcome = oc,
      ae_reason = None, ae_targetId = target, ae_targetType = ttype\<rparr>"

definition audit_entry :: "create_audit_event \<Rightarrow> audit_log" where
  "audit_entry dto =
     \<lparr>al_action = ae_action dto, al_actorId = ae_actorId dto, al_actorRole = ae_actorRole dto,
      al_correlationId = Option.bind (ae_context dto) ac_correlationId,
      al_ip = Option.bind (ae_context dto) ac_ip,
      al_outcome = ae_outcome dto, al_reason = ae_reason dto,
      al_targetId = ae_targetId dto, al_targetType = ae_targetType dto,
      al_userAgent = Option.bind (ae_context dto) ac_userAgent\<rparr>"

text \<open>\<^verbatim>\<open>AuditLogService.log\<close>: one more row, or a warning in the application log.\<close>
definition audit :: "env \<Rightarrow> create_audit_event \<Rightarrow> world \<Rightarrow> world" where
  "audit E dto w = (if e_audit_up E
     then db_update (\<lambda>d. d\<lparr>audit_logs := audit_logs d @ [audit_entry dto]\<rparr>) w else w)"

text \<open>\<^verbatim>\<open>extractAuditContext(req)\<close>: the id pino gave the request, else the header.\<close>
definition extractAuditContext :: "string option \<Rightarrow> string option \<Rightarrow> http_request \<Rightarrow> audit_context" where
  "extractAuditContext reqId ip r =
     \<lparr>ac_correlationId = (case reqId of Some i \<Rightarrow> Some i
        | None \<Rightarrow> (case extractRequestId r of Some (JStr s) \<Rightarrow> Some s | _ \<Rightarrow> None)),
      ac_ip = ip,
      ac_userAgent = (case map_of (req_headers r) ''user-agent'' of Some (JStr s) \<Rightarrow> Some s | _ \<Rightarrow> None)\<rparr>"

text \<open>The audit table only grows, and nothing but it changes.\<close>
lemma audit_frame [simp]:
  "w_now (audit E dto w) = w_now w" "w_next (audit E dto w) = w_next w"
  "w_channel (audit E dto w) = w_channel w" "w_published (audit E dto w) = w_published w"
  "w_acks (audit E dto w) = w_acks w"
  "w_events (audit E dto w) = w_events w" "w_metrics (audit E dto w) = w_metrics w"
  "w_mails (audit E dto w) = w_mails w"
  "users (w_db (audit E dto w)) = users (w_db w)"
  "products (w_db (audit E dto w)) = products (w_db w)"
  "orders (w_db (audit E dto w)) = orders (w_db w)"
  "order_items (w_db (audit E dto w)) = order_items (w_db w)"
  "processed_messages (w_db (audit E dto w)) = processed_messages (w_db w)"
  "carts (w_db (audit E dto w)) = carts (w_db w)"
  "cart_items (w_db (audit E dto w)) = cart_items (w_db w)"
  "file_records (w_db (audit E dto w)) = file_records (w_db w)"
  "reviews (w_db (audit E dto w)) = reviews (w_db w)"
  "refresh_tokens (w_db (audit E dto w)) = refresh_tokens (w_db w)"
  "reset_tokens (w_db (audit E dto w)) = reset_tokens (w_db w)"
  "verification_tokens (w_db (audit E dto w)) = verification_tokens (w_db w)"
  by (simp_all add: audit_def)

lemma audit_db: "w_db (audit E dto w) = (w_db w)\<lparr>audit_logs := audit_logs (w_db (audit E dto w))\<rparr>"
  by (simp add: audit_def)

lemma audit_logs_audit:
  "audit_logs (w_db (audit E dto w)) = audit_logs (w_db w) @ (if e_audit_up E then [audit_entry dto] else [])"
  by (simp add: audit_def)


end
