(* ===== verification/Orders_Repository.thy ===== *)
theory Orders_Repository
  imports Order_Stock Audit_Log
begin

text \<open>
  \<^verbatim>\<open>orders/repositories\<close>: loading orders with their relations and inserting orders and
  order items. A loaded order carries its items, each with its product, and its user;
  soft-deleted products and users are absent from relations, as TypeORM joins them.
\<close>

record order_view =
  ov_order :: order
  ov_items :: "(order_item \<times> product option) list"
  ov_user :: "user option"

definition look_order :: "db \<Rightarrow> uuid \<Rightarrow> order option" where
  "look_order d k = find_row o_id k (orders d)"

definition live_user :: "user \<Rightarrow> bool" where
  "live_user u = (u_deletedAt u = None)"

definition findById_user :: "uuid \<Rightarrow> db \<Rightarrow> user option" where
  "findById_user k d = find (\<lambda>u. u_id u = k \<and> live_user u) (users d)"

definition items_of :: "db \<Rightarrow> uuid \<Rightarrow> order_item list" where
  "items_of d k = filter (\<lambda>it. oi_orderId it = k) (order_items d)"

definition load_order :: "bool \<Rightarrow> db \<Rightarrow> order \<Rightarrow> order_view" where
  "load_order withUser d ord =
     \<lparr>ov_order = ord,
      ov_items = map (\<lambda>it. (it, findById_product (oi_productId it) d)) (items_of d (o_id ord)),
      ov_user = (if withUser then findById_user (o_userId ord) d else None)\<rparr>"

section \<open>Queries\<close>

definition findByIdempotencyKey :: "string \<Rightarrow> db \<Rightarrow> order_view option" where
  "findByIdempotencyKey key d =
     map_option (load_order True d) (find (\<lambda>r. o_idempotencyKey r = Some key) (orders d))"

definition findByIdWithItemRelations :: "uuid \<Rightarrow> db \<Rightarrow> order_view option" where
  "findByIdWithItemRelations k d = map_option (load_order False d) (look_order d k)"

definition findByIdWithRelations :: "uuid \<Rightarrow> db \<Rightarrow> order_view option" where
  "findByIdWithRelations k d = map_option (load_order True d) (look_order d k)"

definition findByOrderIdsWithRelations :: "uuid list \<Rightarrow> db \<Rightarrow> order_view list" where
  "findByOrderIdsWithRelations ks d =
     map (load_order True d) (filter (\<lambda>r. o_id r \<in> set ks) (orders d))"

definition findByUserIdsWithRelations :: "uuid list \<Rightarrow> db \<Rightarrow> order_view list" where
  "findByUserIdsWithRelations ks d =
     map (load_order True d) (filter (\<lambda>r. o_userId r \<in> set ks) (orders d))"

definition items_findByOrderIds :: "uuid list \<Rightarrow> db \<Rightarrow> (order_item \<times> product option \<times> order option) list" where
  "items_findByOrderIds ks d =
     map (\<lambda>it. (it, findById_product (oi_productId it) d, look_order d (oi_orderId it)))
       (filter (\<lambda>it. oi_orderId it \<in> set ks) (order_items d))"

definition items_findByProductIds :: "uuid list \<Rightarrow> db \<Rightarrow> (order_item \<times> product option \<times> order option) list" where
  "items_findByProductIds ks d =
     map (\<lambda>it. (it, findById_product (oi_productId it) d, look_order d (oi_orderId it)))
       (filter (\<lambda>it. oi_productId it \<in> set ks) (order_items d))"

section \<open>Writes\<close>

record order_data =
  od_idempotencyKey :: "string option"
  od_shippingCity :: "string option"
  od_shippingCountry :: "string option"
  od_shippingFirstName :: "string option"
  od_shippingLastName :: "string option"
  od_shippingPhone :: "string option"
  od_shippingPostcode :: "string option"
  od_userId :: uuid

text \<open>The row an insert makes: the id and both stamps come from the database, the status is the
  column's default.\<close>
definition new_order :: "uuid \<Rightarrow> micros \<Rightarrow> order_data \<Rightarrow> order" where
  "new_order i now data =
     \<lparr>o_id = i, o_userId = od_userId data, o_status = PENDING,
      o_idempotencyKey = od_idempotencyKey data, o_paymentId = None,
      o_shippingCity = od_shippingCity data, o_shippingCountry = od_shippingCountry data,
      o_shippingFirstName = od_shippingFirstName data, o_shippingLastName = od_shippingLastName data,
      o_shippingPhone = od_shippingPhone data, o_shippingPostcode = od_shippingPostcode data,
      o_createdAt = now, o_updatedAt = now\<rparr>"

text \<open>The idempotency key is the only column whose length nothing has checked before.\<close>
definition repo_createOrder :: "env \<Rightarrow> order_data \<Rightarrow> order act" where
  "repo_createOrder E data = bind_s (fresh_uuid E) (\<lambda>i w.
     let row = new_order i (w_now w) data in
     if (case od_idempotencyKey data of Some k \<Rightarrow> length k > 255 | None \<Rightarrow> False)
     then (Inl (QueryFailed ''22001'' ''value too long for type character varying(255)''), w)
     else if clashes o_id o_idempotencyKey row (orders (w_db w))
     then (Inl (unique_violation ''UQ_orders_idempotency_key''), w)
     else (Inr row, db_update (\<lambda>d. d\<lparr>orders := orders d @ [row]\<rparr>) w))"

record order_item_data =
  oid_orderId :: uuid
  oid_priceAtPurchase :: string
  oid_product :: product
  oid_productId :: uuid
  oid_quantity :: int

definition new_order_item :: "uuid \<Rightarrow> order_item_data \<Rightarrow> order_item" where
  "new_order_item i x = \<lparr>oi_id = i, oi_orderId = oid_orderId x, oi_productId = oid_productId x,
     oi_priceAtPurchase = oid_priceAtPurchase x, oi_quantity = oid_quantity x\<rparr>"

fun createOrderItems :: "env \<Rightarrow> order_item_data list \<Rightarrow> order_item list act" where
  "createOrderItems E [] w = (Inr [], w)"
| "createOrderItems E (x # xs) w =
     bind_s (fresh_uuid E) (\<lambda>i.
     bind_s (modify_s (db_update (\<lambda>d. d\<lparr>order_items := order_items d @ [new_order_item i x]\<rparr>))) (\<lambda>_.
     bind_s (createOrderItems E xs) (\<lambda>rest. return_s (new_order_item i x # rest)))) w"

text \<open>\<^verbatim>\<open>repo.save(order)\<close> on a loaded order: the columns as they are in memory, with a new
  update stamp when one of them differs.\<close>
definition stored_order :: "micros \<Rightarrow> db \<Rightarrow> order \<Rightarrow> order" where
  "stored_order now d r = (if look_order d (o_id r) = Some r then r else r\<lparr>o_updatedAt := now\<rparr>)"

definition put_order :: "micros \<Rightarrow> order \<Rightarrow> db \<Rightarrow> db" where
  "put_order now r d = d\<lparr>orders := save_row o_id (stored_order now d r) (orders d)\<rparr>"

definition saveOrder :: "order \<Rightarrow> unit act" where
  "saveOrder r = modify_s (\<lambda>w. db_update (put_order (w_now w) r) w)"

section \<open>Facts\<close>

lemma stored_order_simps [simp]:
  "o_id (stored_order now d r) = o_id r" "o_status (stored_order now d r) = o_status r"
  "o_userId (stored_order now d r) = o_userId r" "o_paymentId (stored_order now d r) = o_paymentId r"
  "o_idempotencyKey (stored_order now d r) = o_idempotencyKey r"
  by (auto simp: stored_order_def)

lemma look_put_order:
  "look_order (put_order now r d) k = (if k = o_id r then Some (stored_order now d r) else look_order d k)"
  by (simp add: look_order_def put_order_def find_row_save)

interpretation order_store: row_store o_id look_order "put_order now" "stored_order now" for now
  by unfold_locales (simp_all add: look_put_order)

lemma put_order_frame [simp]:
  "users (put_order now r d) = users d" "products (put_order now r d) = products d"
  "order_items (put_order now r d) = order_items d"
  "processed_messages (put_order now r d) = processed_messages d"
  "audit_logs (put_order now r d) = audit_logs d" "carts (put_order now r d) = carts d"
  "cart_items (put_order now r d) = cart_items d"
  by (simp_all add: put_order_def)

lemma saveOrder_app [simp]: "saveOrder r w = (Inr (), db_update (put_order (w_now w) r) w)"
  by (simp add: saveOrder_def)

lemma look_order_SomeD: "look_order d k = Some r \<Longrightarrow> r \<in> set (orders d) \<and> o_id r = k"
  by (auto simp: look_order_def dest: find_row_SomeD)

lemma look_product_cong: "products d = products d' \<Longrightarrow> look_product d k = look_product d' k"
  by (simp add: look_product_def)

lemma look_order_cong: "orders d = orders d' \<Longrightarrow> look_order d k = look_order d' k"
  by (simp add: look_order_def)

lemma stock_of_cong: "products d = products d' \<Longrightarrow> stock_of d k = stock_of d' k"
  by (simp add: stock_of_def look_product_def)

lemma items_of_cong: "order_items d = order_items d' \<Longrightarrow> items_of d k = items_of d' k"
  by (simp add: items_of_def)

lemma repo_createOrder_Inr:
  "repo_createOrder E data w = (Inr row, w') \<longleftrightarrow>
     row = new_order (e_uuid E (w_next w)) (w_now w) data \<and>
     (\<forall>k. od_idempotencyKey data = Some k \<longrightarrow> length k \<le> 255) \<and>
     \<not> clashes o_id o_idempotencyKey row (orders (w_db w)) \<and>
     w' = db_update (\<lambda>d. d\<lparr>orders := orders d @ [row]\<rparr>) (w\<lparr>w_next := w_next w + 1\<rparr>)"
  by (auto simp: repo_createOrder_def Let_def split: if_splits option.splits)

text \<open>The rows an item insert makes.\<close>
fun new_order_items :: "env \<Rightarrow> nat \<Rightarrow> order_item_data list \<Rightarrow> order_item list" where
  "new_order_items E n [] = []"
| "new_order_items E n (x # xs) = new_order_item (e_uuid E n) x # new_order_items E (Suc n) xs"

lemma createOrderItems_eq:
  "createOrderItems E xs w =
     (Inr (new_order_items E (w_next w) xs),
      db_update (\<lambda>d. d\<lparr>order_items := order_items d @ new_order_items E (w_next w) xs\<rparr>)
        (w\<lparr>w_next := w_next w + length xs\<rparr>))"
proof (induction xs arbitrary: w)
  case (Cons x xs)
  show ?case by (simp add: bind_s_def Cons.IH)
qed (simp add: db_update_def)

lemma new_order_items_simps [simp]:
  "length (new_order_items E n xs) = length xs"
  "map oi_productId (new_order_items E n xs) = map oid_productId xs"
  "map oi_quantity (new_order_items E n xs) = map oid_quantity xs"
  "map oi_orderId (new_order_items E n xs) = map oid_orderId xs"
  "map oi_priceAtPurchase (new_order_items E n xs) = map oid_priceAtPurchase xs"
  by (induction E n xs rule: new_order_items.induct) (auto simp: new_order_item_def)

end
