(* ===== verification/RabbitMQ.thy ===== *)
theory RabbitMQ
  imports Observability
begin

text \<open>
  \<^verbatim>\<open>rabbitmq/\<close>: publishing over the AMQP channel, the choice of transport, and the life
  of the channel. A full write buffer (\<^verbatim>\<open>sendToQueue\<close> returning false) only logs, so it
  has no branch of its own; writing to a closed channel throws.
\<close>

definition ORDER_PROCESS_QUEUE :: string where "ORDER_PROCESS_QUEUE = ''orders.process''"
definition ORDER_DLQ :: string where "ORDER_DLQ = ''orders.dlq''"
definition ORDERS_SERVICE_PRODUCER :: string where "ORDERS_SERVICE_PRODUCER = ''orders-service''"
definition RABBITMQ_SECURE_PORT :: int where "RABBITMQ_SECURE_PORT = 5671"
definition MAX_RETRY_ATTEMPTS :: nat where "MAX_RETRY_ATTEMPTS = 3"

record connection_transport =
  ct_logLabel :: string
  ct_protocol :: string
  ct_servername :: "string option"

text \<open>TLS exactly on the secure port; an empty host counts as none.\<close>
definition resolveConnectionTransport :: "string option \<Rightarrow> int option \<Rightarrow> connection_transport" where
  "resolveConnectionTransport host port =
     (if port = Some RABBITMQ_SECURE_PORT
      then \<lparr>ct_logLabel = ''AMQPS'', ct_protocol = ''amqps'',
            ct_servername = (case host of Some h \<Rightarrow> if h = [] then None else Some h | None \<Rightarrow> None)\<rparr>
      else \<lparr>ct_logLabel = ''AMQP'', ct_protocol = ''amqp'', ct_servername = None\<rparr>)"

definition resolveChannel :: "unit act" where
  "resolveChannel w = (if w_channel w = NoChannel
     then (Inl (PlainError ''RabbitMQ channel is not initialized''), w) else (Inr (), w))"

definition publish :: "string \<Rightarrow> json \<Rightarrow> string option \<Rightarrow> unit act" where
  "publish queue message messageId = bind_s resolveChannel (\<lambda>_ w.
     if w_channel w = ChannelClosed then (Inl (PlainError ''Channel closed''), w)
     else (Inr (), w\<lparr>w_published := w_published w @
        [\<lparr>bm_queue = queue, bm_content = Parsed message, bm_messageId = messageId\<rparr>]\<rparr>))"

text \<open>Connecting: either every step works (connection, channel, prefetch, both queues) or the
  error is thrown on and start-up fails; a channel created before a later step failed stays set.\<close>
datatype connect_outcome = ConnectOk | ConnectFails exn | QueueSetupFails exn

definition rabbit_connect :: "connect_outcome \<Rightarrow> unit act" where
  "rabbit_connect oc w = (case oc of
     ConnectOk \<Rightarrow> (Inr (), w\<lparr>w_channel := ChannelOpen\<rparr>)
   | ConnectFails e \<Rightarrow> (Inl e, w)
   | QueueSetupFails e \<Rightarrow> (Inl e, w\<lparr>w_channel := ChannelOpen\<rparr>))"

text \<open>Disconnecting nulls the reference only after the close succeeded.\<close>
definition rabbit_disconnect :: "exn option \<Rightarrow> unit act" where
  "rabbit_disconnect closeError w =
     (if w_channel w = NoChannel then (Inr (), w)
      else case closeError of Some e \<Rightarrow> (Inl e, w) | None \<Rightarrow> (Inr (), w\<lparr>w_channel := NoChannel\<rparr>))"

lemma publish_open:
  "w_channel w = ChannelOpen \<Longrightarrow> publish q m i w =
     (Inr (), w\<lparr>w_published := w_published w @ [\<lparr>bm_queue = q, bm_content = Parsed m, bm_messageId = i\<rparr>]\<rparr>)"
  by (simp add: publish_def resolveChannel_def bind_s_def)

lemma publish_not_open: "w_channel w \<noteq> ChannelOpen \<Longrightarrow> \<exists>e. publish q m i w = (Inl e, w)"
  by (cases "w_channel w") (auto simp: publish_def resolveChannel_def bind_s_def)

lemma publish_Inr_iff:
  "publish q m i w = (Inr u, w') \<longleftrightarrow> w_channel w = ChannelOpen \<and>
     w' = w\<lparr>w_published := w_published w @ [\<lparr>bm_queue = q, bm_content = Parsed m, bm_messageId = i\<rparr>]\<rparr>"
proof (cases "w_channel w = ChannelOpen")
  case True
  then show ?thesis by (auto simp: publish_open)
next
  case False
  then obtain e where "publish q m i w = (Inl e, w)" using publish_not_open by blast
  with False show ?thesis by simp
qed

lemma publish_Inl: "publish q m i w = (Inl e, w') \<Longrightarrow> w' = w \<and> w_channel w \<noteq> ChannelOpen"
  using publish_not_open [of w q m i] publish_open [of w q m i] by (cases "w_channel w = ChannelOpen") auto

lemma publish_db: "w_db (snd (publish q m i w)) = w_db w"
  by (auto simp: publish_def resolveChannel_def bind_s_def)

end
