(* ===== verification/Orders_Command.thy ===== *)
theory Orders_Command
  imports Orders_Repository RabbitMQ
begin

text \<open>
  \<^verbatim>\<open>orders/services\<close>: creating and cancelling orders (\<^verbatim>\<open>orders-command.service.ts\<close>), the
  translation of database errors (\<^verbatim>\<open>pg-error-mapper.service.ts\<close>), the publisher
  (\<^verbatim>\<open>order-publisher.service.ts\<close>) and the checks of \<^verbatim>\<open>orders/utils\<close>. Everything between
  the pre-checks and the transaction may be interleaved with other requests, which is the
  parameter \<^verbatim>\<open>e_others\<close>.
\<close>

section \<open>Requests\<close>

definition MAX_ORDER_QUANTITY :: int where "MAX_ORDER_QUANTITY = 1000"

record shipping_address =
  sa_city :: "string option"
  sa_country :: "string option"
  sa_firstName :: "string option"
  sa_lastName :: "string option"
  sa_phone :: "string option"
  sa_postcode :: "string option"

record create_order_dto =
  co_idempotencyKey :: "string option"
  co_items :: "stock_item list"
  co_shipping :: "shipping_address option"

definition max_length :: "nat \<Rightarrow> string option \<Rightarrow> bool" where
  "max_length n s = (case s of None \<Rightarrow> True | Some t \<Rightarrow> length t \<le> n)"

text \<open>The decorators of the DTO; \<^verbatim>\<open>isUUID\<close> and the table of ISO country codes belong to
  class-validator.\<close>
definition create_order_dto_valid :: "(string \<Rightarrow> bool) \<Rightarrow> (string \<Rightarrow> bool) \<Rightarrow> create_order_dto \<Rightarrow> bool" where
  "create_order_dto_valid isUUID isCountry dto =
     ((case co_idempotencyKey dto of None \<Rightarrow> True | Some k \<Rightarrow> k \<noteq> []) \<and>
      co_items dto \<noteq> [] \<and>
      list_all (\<lambda>it. si_productId it \<noteq> [] \<and> isUUID (si_productId it) \<and>
         1 \<le> si_quantity it \<and> si_quantity it \<le> MAX_ORDER_QUANTITY) (co_items dto) \<and>
      (case co_shipping dto of None \<Rightarrow> True | Some s \<Rightarrow>
         max_length 100 (sa_city s) \<and>
         (case sa_country s of None \<Rightarrow> True | Some c \<Rightarrow> isCountry c \<and> length c \<le> 2) \<and>
         max_length 50 (sa_firstName s) \<and> max_length 50 (sa_lastName s) \<and>
         max_length 20 (sa_phone s) \<and> max_length 20 (sa_postcode s)))"

definition check_quantity :: "stock_item \<Rightarrow> exn + unit" where
  "check_quantity it =
     (if si_quantity it \<le> 0
      then Inl (http_exn BadRequest (''Quantity must be greater than zero for product '' @ si_productId it))
      else if si_quantity it > MAX_ORDER_QUANTITY
      then Inl (http_exn BadRequest (''Quantity cannot exceed '' @ int_str MAX_ORDER_QUANTITY @ '' for product '' @ si_productId it))
      else Inr ())"

definition validateOrderItems :: "stock_item list \<Rightarrow> exn + unit" where
  "validateOrderItems items = for_each check_quantity items"

text \<open>An absent order and another user's order give the same kind of error.\<close>
definition assertOrderOwnership :: "order option \<Rightarrow> uuid \<Rightarrow> exn + order" where
  "assertOrderOwnership ord userId = (case ord of
     Some r \<Rightarrow> if o_userId r \<noteq> userId
        then Inl (http_exn NotFound (''Order with ID '' @ in_dq (o_id r) @ '' not found'')) else Inr r
   | None \<Rightarrow> Inl (http_exn NotFound (''Order with ID '' @ in_dq ''unknown'' @ '' not found'')))"

section \<open>Publishing\<close>

definition opt_field :: "string \<Rightarrow> string option \<Rightarrow> (string \<times> json) list" where
  "opt_field k v = (case v of None \<Rightarrow> [] | Some s \<Rightarrow> [(k, JStr s)])"

text \<open>\<^verbatim>\<open>new OrderProcessMessageDto(orderId, correlationId, messageId)\<close>, as it is serialised.\<close>
definition order_process_message :: "env \<Rightarrow> uuid \<Rightarrow> string option \<Rightarrow> string option \<Rightarrow> (string \<times> json) act" where
  "order_process_message E orderId correlationId messageId =
     bind_s (case messageId of Some m \<Rightarrow> return_s m | None \<Rightarrow> fresh_uuid E) (\<lambda>mid.
     bind_s (gets_s (\<lambda>w. e_iso E (w_now w))) (\<lambda>created.
     bind_s (case correlationId of Some c \<Rightarrow> return_s c | None \<Rightarrow> fresh_uuid E) (\<lambda>cid.
     return_s (mid, JObj
       [(''attempt'', JNum 1), (''correlationId'', JStr cid), (''createdAt'', JStr created),
        (''eventName'', JStr ORDER_PROCESS_QUEUE), (''messageId'', JStr mid), (''orderId'', JStr orderId),
        (''producer'', JStr ORDERS_SERVICE_PRODUCER)]))))"

definition publishOrderProcessing :: "env \<Rightarrow> uuid \<Rightarrow> string option \<Rightarrow> unit act" where
  "publishOrderProcessing E orderId correlationId =
     (let forced = (case e_config E ''RABBITMQ_SIMULATE_DUPLICATE_MESSAGE_ID'' of
          Some m \<Rightarrow> if m \<noteq> [] then Some m else None | None \<Rightarrow> None) in
      bind_s (order_process_message E orderId correlationId forced) (\<lambda>(mid, msg).
      bind_s (publish ORDER_PROCESS_QUEUE msg (Some mid)) (\<lambda>_.
      modify_s (recordRabbitMqPublish E ORDER_PROCESS_QUEUE))))"

section \<open>Creating an order\<close>

definition validateUser :: "uuid \<Rightarrow> user act" where
  "validateUser userId w = (case findById_user userId (w_db w) of
     None \<Rightarrow> (Inl (http_exn NotFound (''User with ID '' @ in_dq userId @ '' not found'')), w)
   | Some u \<Rightarrow> (Inr u, w))"

definition checkIdempotency :: "string option \<Rightarrow> order_view option act" where
  "checkIdempotency key w = (case truthy key of
     None \<Rightarrow> (Inr None, w)
   | Some k \<Rightarrow> (Inr (findByIdempotencyKey k (w_db w)), w))"

definition or_else :: "string option \<Rightarrow> string option \<Rightarrow> string option" where
  "or_else a b = (case a of Some x \<Rightarrow> Some x | None \<Rightarrow> b)"

definition order_data_of :: "create_order_dto \<Rightarrow> user \<Rightarrow> order_data" where
  "order_data_of dto usr = (let sh = co_shipping dto in
     \<lparr>od_idempotencyKey = co_idempotencyKey dto,
      od_shippingCity = or_else (Option.bind sh sa_city) (u_city usr),
      od_shippingCountry = or_else (Option.bind sh sa_country) (u_country usr),
      od_shippingFirstName = or_else (Option.bind sh sa_firstName) (u_firstName usr),
      od_shippingLastName = or_else (Option.bind sh sa_lastName) (u_lastName usr),
      od_shippingPhone = or_else (Option.bind sh sa_phone) (u_phone usr),
      od_shippingPostcode = or_else (Option.bind sh sa_postcode) (u_postcode usr),
      od_userId = u_id usr\<rparr>)"

text \<open>The items to insert, with the price of the locked product.\<close>
fun order_items_data :: "uuid \<Rightarrow> product_map \<Rightarrow> stock_item list \<Rightarrow> exn + order_item_data list" where
  "order_items_data i m [] = Inr []"
| "order_items_data i m (it # its) = (case map_of m (si_productId it) of
     None \<Rightarrow> Inl (undefined_read ''price'')
   | Some p \<Rightarrow> (case order_items_data i m its of
        Inl e \<Rightarrow> Inl e
      | Inr rest \<Rightarrow> Inr (\<lparr>oid_orderId = i, oid_priceAtPurchase = p_price p, oid_product = p,
           oid_productId = p_id p, oid_quantity = si_quantity it\<rparr> # rest)))"

definition executeOrderTransaction :: "env \<Rightarrow> create_order_dto \<Rightarrow> user \<Rightarrow> uuid list \<Rightarrow> order_view act" where
  "executeOrderTransaction E dto usr ids = transaction (
     bind_s (lockValidateAndDecrement E (co_items dto) ids) (\<lambda>m.
     bind_s (repo_createOrder E (order_data_of dto usr)) (\<lambda>row.
     bind_s (lift_s (order_items_data (o_id row) m (co_items dto))) (\<lambda>xs.
     bind_s (createOrderItems E xs) (\<lambda>its.
     return_s \<lparr>ov_order = row, ov_items = zip its (map (Some \<circ> oid_product) xs), ov_user = Some usr\<rparr>)))))"

definition handleCreationError :: "exn \<Rightarrow> uuid \<Rightarrow> string option \<Rightarrow> order_view act" where
  "handleCreationError e userId key w =
     (let code = exn_code e;
          says = (\<lambda>what. case exn_message e of Some m \<Rightarrow> str_includes what m | None \<Rightarrow> False);
          rest = (if code = Some ''57014'' \<or> says ''statement timeout''
             then (Inl (PlainError ''Order creation timed out due to high load. Please try again in a moment.''), w)
             else if code = Some ''55P03'' \<or> says ''lock timeout''
             then (Inl (http_exn Conflict ''Unable to process order due to high concurrent activity. Please try again.''), w)
             else (Inl e, w))
      in case truthy key of
           Some k \<Rightarrow> if code = Some ''23505''
              then (case findByIdempotencyKey k (w_db w) of
                      Some v \<Rightarrow> if o_userId (ov_order v) \<noteq> userId then (Inl e, w) else (Inr v, w)
                    | None \<Rightarrow> rest)
              else rest
         | None \<Rightarrow> rest)"

text \<open>The steps after the commit.\<close>
definition afterOrderCommit :: "env \<Rightarrow> uuid \<Rightarrow> create_order_dto \<Rightarrow> audit_context option \<Rightarrow> user \<Rightarrow> order_view \<Rightarrow> order_view act" where
  "afterOrderCommit E userId dto ctx usr v =
     bind_s (publishOrderProcessing E (o_id (ov_order v)) (co_idempotencyKey dto)) (\<lambda>_.
     bind_s (modify_s (recordOrderCreated E (order_status_str (o_status (ov_order v))))) (\<lambda>_.
     bind_s (emit (OrderCreatedEvent (o_id (ov_order v)) (u_email usr))) (\<lambda>_.
     bind_s (modify_s (audit E (audit_event ORDER_CREATED (Some userId) ctx AUDIT_SUCCESS
               (Some (o_id (ov_order v))) (Some ''Order'')))) (\<lambda>_.
     return_s v))))"

definition createOrder :: "env \<Rightarrow> uuid \<Rightarrow> create_order_dto \<Rightarrow> audit_context option \<Rightarrow> order_view act" where
  "createOrder E userId dto ctx =
     bind_s (validateUser userId) (\<lambda>usr.
     bind_s (lift_s (validateOrderItems (co_items dto))) (\<lambda>_.
     bind_s (checkIdempotency (co_idempotencyKey dto)) (\<lambda>ex.
     case ex of
       Some v \<Rightarrow> bind_s (modify_s (audit E (audit_event ORDER_IDEMPOTENT_HIT (Some userId) ctx AUDIT_SUCCESS
                    (Some (o_id (ov_order v))) (Some ''Order'')))) (\<lambda>_. return_s v)
     | None \<Rightarrow>
        (let ids = js_uniq (map si_productId (co_items dto)) in
         bind_s (validateExist ids) (\<lambda>_.
         bind_s (modify_s (e_others E)) (\<lambda>_.
         catch_s
           (bind_s (executeOrderTransaction E dto usr ids) (afterOrderCommit E userId dto ctx usr))
           (\<lambda>e. catch_s (handleCreationError e userId (co_idempotencyKey dto))
              (\<lambda>fe. bind_s (modify_s (audit E (audit_event ORDER_CREATION_FAILED (Some userId) ctx AUDIT_FAILURE
                        None (Some ''Order'')))) (\<lambda>_. throw_s fe)))))))))"

section \<open>Cancelling an order\<close>

definition items_stock :: "(order_item \<times> product option) list \<Rightarrow> stock_item list" where
  "items_stock its = map (\<lambda>(it, _). \<lparr>si_productId = oi_productId it, si_quantity = oi_quantity it\<rparr>) its"

definition executeCancelTransaction :: "env \<Rightarrow> uuid \<Rightarrow> uuid \<Rightarrow> order_view act" where
  "executeCancelTransaction E orderId userId = transaction (
     bind_s (gets_s (\<lambda>w. look_order (w_db w) orderId)) (\<lambda>shallow.
     bind_s (lift_s (assertOrderOwnership shallow userId)) (\<lambda>r.
     if o_status r = CANCELLED
     then throw_s (http_exn Conflict (''Order '' @ in_dq orderId @ '' is already cancelled''))
     else if o_status r = CREATED
     then throw_s (http_exn BadRequest (''Order '' @ in_dq orderId @ '' is in an invalid state for cancellation''))
     else
       bind_s (gets_s (\<lambda>w. findByIdWithItemRelations orderId (w_db w))) (\<lambda>ov.
       case ov of
         None \<Rightarrow> throw_s (http_exn NotFound (''Order '' @ in_dq orderId @ '' not found''))
       | Some v \<Rightarrow>
          (let items = items_stock (ov_items v) in
           bind_s (lockAndRestore E items (js_uniq (map si_productId items))) (\<lambda>_.
           bind_s (saveOrder ((ov_order v)\<lparr>o_status := CANCELLED\<rparr>)) (\<lambda>_.
           bind_s (gets_s (\<lambda>w. findByIdWithItemRelations orderId (w_db w))) (\<lambda>upd.
           case upd of
             None \<Rightarrow> throw_s (PlainError ''Failed to reload cancelled order'')
           | Some v2 \<Rightarrow> return_s v2))))))))"

record auth_user =
  au_sub :: uuid
  au_email :: string

definition cancelOrder :: "env \<Rightarrow> auth_user \<Rightarrow> uuid \<Rightarrow> audit_context option \<Rightarrow> order_view act" where
  "cancelOrder E usr orderId ctx =
     bind_s (executeCancelTransaction E orderId (au_sub usr)) (\<lambda>v.
     bind_s (emit (OrderCancelledEvent (o_id (ov_order v)) (au_email usr))) (\<lambda>_.
     bind_s (modify_s (recordOrderCompleted E (order_status_str (o_status (ov_order v))))) (\<lambda>_.
     bind_s (modify_s (audit E (audit_event ORDER_CANCELLED (Some (au_sub usr)) ctx AUDIT_SUCCESS
               (Some (o_id (ov_order v))) (Some ''Order'')))) (\<lambda>_.
     return_s v))))"

end
