(* ===== verification/Orders_Command_Facts.thy ===== *)
theory Orders_Command_Facts
  imports Orders_Command
begin

text \<open>
  What creating and cancelling an order do to the database, on every branch. The
  properties of these operations close the theory; before them stand the
  characterisations of the two transactions they rest on.
\<close>

section \<open>The order transaction\<close>

lemma list_all2_right: "list_all2 P xs ys \<Longrightarrow> y \<in> set ys \<Longrightarrow> \<exists>x \<in> set xs. P x y"
  by (induction rule: list_all2_induct) auto

lemma order_items_data_Inr:
  assumes "order_items_data i m its = Inr xs"
  shows "list_all2 (\<lambda>it x. \<exists>p. map_of m (si_productId it) = Some p \<and>
      x = \<lparr>oid_orderId = i, oid_priceAtPurchase = p_price p, oid_product = p,
           oid_productId = p_id p, oid_quantity = si_quantity it\<rparr>) its xs"
  using assms
  by (induction i m its arbitrary: xs rule: order_items_data.induct) (auto split: option.splits sum.splits)

lemma order_items_data_defined:
  "si_productId ` set its \<subseteq> fst ` set m \<Longrightarrow> \<exists>xs. order_items_data i m its = Inr xs"
proof (induction i m its rule: order_items_data.induct)
  case (2 i m it its)
  then have "map_of m (si_productId it) \<noteq> None" by (auto simp: map_of_eq_None_iff)
  then show ?case using 2 by (auto split: sum.splits)
qed simp

lemma executeOrderTransaction_Inr:
  assumes run: "executeOrderTransaction E dto usr ids w = (Inr v, w')"
  obtains m w1 row xs where
    "lockValidateAndDecrement E (co_items dto) ids w = (Inr m, w1)"
    "repo_createOrder E (order_data_of dto usr) w1 = (Inr row, db_update (\<lambda>d. d\<lparr>orders := orders d @ [row]\<rparr>) (w1\<lparr>w_next := w_next w1 + 1\<rparr>))"
    "order_items_data (o_id row) m (co_items dto) = Inr xs"
    "v = \<lparr>ov_order = row, ov_items = zip (new_order_items E (w_next w1 + 1) xs) (map (Some \<circ> oid_product) xs), ov_user = Some usr\<rparr>"
    "w' = db_update (\<lambda>d. d\<lparr>order_items := order_items d @ new_order_items E (w_next w1 + 1) xs\<rparr>)
        ((db_update (\<lambda>d. d\<lparr>orders := orders d @ [row]\<rparr>) (w1\<lparr>w_next := w_next w1 + 1\<rparr>))\<lparr>w_next := w_next w1 + 1 + length xs\<rparr>)"
proof -
  obtain m w1 row w2 xs where 1: "lockValidateAndDecrement E (co_items dto) ids w = (Inr m, w1)"
    and 2: "repo_createOrder E (order_data_of dto usr) w1 = (Inr row, w2)"
    and 3: "order_items_data (o_id row) m (co_items dto) = Inr xs"
    and 4: "(Inr v, w') = (Inr \<lparr>ov_order = row, ov_items = zip (new_order_items E (w_next w2) xs) (map (Some \<circ> oid_product) xs), ov_user = Some usr\<rparr>,
        db_update (\<lambda>d. d\<lparr>order_items := order_items d @ new_order_items E (w_next w2) xs\<rparr>) (w2\<lparr>w_next := w_next w2 + length xs\<rparr>))"
    using run
    by (auto simp: executeOrderTransaction_def transaction_Inr bind_s_eq_Inr createOrderItems_eq)
  have w2: "w2 = db_update (\<lambda>d. d\<lparr>orders := orders d @ [row]\<rparr>) (w1\<lparr>w_next := w_next w1 + 1\<rparr>)"
    using 2 by (simp add: repo_createOrder_Inr)
  show thesis
    by (rule that [OF 1 2 [unfolded w2] 3]) (use 4 w2 in simp_all)
qed

lemma items_stock_zip:
  "items_stock its = map2 (\<lambda>a b. \<lparr>si_productId = a, si_quantity = b\<rparr>)
     (map oi_productId (map fst its)) (map oi_quantity (map fst its))"
  by (induction its) (auto simp: items_stock_def)

lemma stock_items_zip:
  "map2 (\<lambda>a b. \<lparr>si_productId = a, si_quantity = b\<rparr>) (map si_productId its) (map si_quantity its) = its"
  by (induction its) auto

text \<open>The new order as the rest of the system sees it.\<close>
definition created_view :: "env \<Rightarrow> world \<Rightarrow> create_order_dto \<Rightarrow> user \<Rightarrow> order_view \<Rightarrow> world \<Rightarrow> bool" where
  "created_view E w dto usr v w' \<longleftrightarrow>
     ov_order v = new_order (e_uuid E (w_next w)) (w_now w) (order_data_of dto usr) \<and>
     orders (w_db w') = orders (w_db w) @ [ov_order v] \<and>
     order_items (w_db w') = order_items (w_db w) @ map fst (ov_items v) \<and>
     items_stock (ov_items v) = co_items dto \<and>
     (\<forall>it \<in> fst ` set (ov_items v). oi_orderId it = o_id (ov_order v) \<and>
        (\<exists>p. findById_product (oi_productId it) (w_db w) = Some p \<and> p_isActive p \<and> oi_priceAtPurchase it = p_price p)) \<and>
     (\<forall>k. stock_of (w_db w') k = map_option (\<lambda>n. n - qty_of k (co_items dto)) (stock_of (w_db w) k))"

lemma findById_product_live:
  assumes "products_keyed d" and "look_product d k = Some p" and "live_product p"
  shows "findById_product k d = Some p"
proof -
  have p: "p \<in> set (products d)" "p_id p = k" using assms(2) by (auto simp: look_product_def dest: find_row_SomeD)
  have "find (\<lambda>r. p_id r = k \<and> live_product r) (products d) = Some q \<Longrightarrow> q = p" for q
    using assms(1) p by (auto simp: find_Some_iff products_keyed_def distinct_map inj_on_def)
  moreover have "find (\<lambda>r. p_id r = k \<and> live_product r) (products d) \<noteq> None"
    using p assms(3) by (auto simp: find_None_iff)
  ultimately show ?thesis by (auto simp: findById_product_def)
qed

lemma lvd_world:
  assumes "lockValidateAndDecrement E items ids w = (Inr m, w1)" and "products_keyed (w_db w)"
  shows "\<exists>ps. w1 = db_update (fold (put_product (w_now w)) ps) w"
  using lockValidateAndDecrement_Inr(1) [OF assms] by blast

lemma executeOrderTransaction_created:
  assumes run: "executeOrderTransaction E dto usr ids w = (Inr v, w')"
    and keyed: "products_keyed (w_db w)"
  shows "created_view E w dto usr v w'"
proof -
  obtain m w1 row xs where lvd: "lockValidateAndDecrement E (co_items dto) ids w = (Inr m, w1)"
    and ins: "repo_createOrder E (order_data_of dto usr) w1 = (Inr row, db_update (\<lambda>d. d\<lparr>orders := orders d @ [row]\<rparr>) (w1\<lparr>w_next := w_next w1 + 1\<rparr>))"
    and xs: "order_items_data (o_id row) m (co_items dto) = Inr xs"
    and v: "v = \<lparr>ov_order = row, ov_items = zip (new_order_items E (w_next w1 + 1) xs) (map (Some \<circ> oid_product) xs), ov_user = Some usr\<rparr>"
    and w': "w' = db_update (\<lambda>d. d\<lparr>order_items := order_items d @ new_order_items E (w_next w1 + 1) xs\<rparr>)
        ((db_update (\<lambda>d. d\<lparr>orders := orders d @ [row]\<rparr>) (w1\<lparr>w_next := w_next w1 + 1\<rparr>))\<lparr>w_next := w_next w1 + 1 + length xs\<rparr>)"
    by (rule executeOrderTransaction_Inr [OF run])
  obtain ps where w1: "w1 = db_update (fold (put_product (w_now w)) ps) w" using lvd_world [OF lvd keyed] by blast
  have row: "row = new_order (e_uuid E (w_next w)) (w_now w) (order_data_of dto usr)"
    using ins w1 by (simp add: repo_createOrder_Inr)
  note all2 = order_items_data_Inr [OF xs]
  let ?P = "\<lambda>it x. \<exists>p. map_of m (si_productId it) = Some p \<and>
      x = \<lparr>oid_orderId = o_id row, oid_priceAtPurchase = p_price p, oid_product = p,
           oid_productId = p_id p, oid_quantity = si_quantity it\<rparr>"
  have find: "\<exists>p0. findById_product (si_productId it) (w_db w) = Some p0 \<and> p_isActive p0 \<and>
      p_price p = p_price p0 \<and> p_id p = si_productId it"
    if it: "it \<in> set (co_items dto)" and p: "map_of m (si_productId it) = Some p" for it p
  proof -
    obtain p0 where p0: "look_product (w_db w) (si_productId it) = Some p0" "live_product p0" "p_isActive p0"
      using lockValidate_all_live [OF lockValidateAndDecrement_Inr(2) [OF lvd keyed] keyed it] by auto
    have "map_of m (si_productId it) = map_option (add_stock (- qty_of (si_productId it) (co_items dto)))
        (find_row p_id (si_productId it) (findByIds ids (w_db w)))"
      by (rule lockValidateAndDecrement_Inr(3) [OF lvd keyed])
    then obtain q where q: "find_row p_id (si_productId it) (findByIds ids (w_db w)) = Some q"
      and pq: "p = add_stock (- qty_of (si_productId it) (co_items dto)) q"
      using p by (metis map_option_eq_Some)
    have "q \<in> set (findByIds ids (w_db w))" "p_id q = si_productId it" using q by (auto dest: find_row_SomeD)
    then have "look_product (w_db w) (si_productId it) = Some q" using findByIds_mem [OF keyed] by auto
    then have "q = p0" using p0 by simp
    then show ?thesis using findById_product_live [OF keyed p0(1,2)] p0 pq \<open>p_id q = _\<close>
      by (auto simp: add_stock_def)
  qed
  have in_its: "\<exists>it \<in> set (co_items dto). ?P it x" if "x \<in> set xs" for x
    by (rule list_all2_right [OF all2 that])
  have conv: "items_stock (ov_items v) = co_items dto"
  proof -
    have qs: "map oid_quantity xs = map si_quantity (co_items dto)"
      using all2 by (auto simp: list_all2_conv_all_nth intro!: nth_equalityI)
    have ps: "map oid_productId xs = map si_productId (co_items dto)"
    proof (rule nth_equalityI)
      show len: "length (map oid_productId xs) = length (map si_productId (co_items dto))"
        using all2 by (simp add: list_all2_lengthD)
      fix j assume "j < length (map oid_productId xs)"
      then have j: "j < length xs" "j < length (co_items dto)" using len by auto
      obtain p where "map_of m (si_productId (co_items dto ! j)) = Some p" "oid_productId (xs ! j) = p_id p"
        using all2 j by (auto simp: list_all2_conv_all_nth)
      then show "map oid_productId xs ! j = map si_productId (co_items dto) ! j"
        using find [of "co_items dto ! j"] j by auto
    qed
    let ?its = "new_order_items E (w_next w1 + 1) xs"
    have "map fst (ov_items v) = ?its" by (simp add: v)
    then have "items_stock (ov_items v) = map2 (\<lambda>a b. \<lparr>si_productId = a, si_quantity = b\<rparr>) (map oi_productId ?its) (map oi_quantity ?its)"
      by (simp add: items_stock_zip)
    also have "\<dots> = map2 (\<lambda>a b. \<lparr>si_productId = a, si_quantity = b\<rparr>) (map si_productId (co_items dto)) (map si_quantity (co_items dto))"
      by (simp add: qs ps)
    also have "\<dots> = co_items dto" by (rule stock_items_zip)
    finally show ?thesis .
  qed
  have fst_items: "map fst (ov_items v) = new_order_items E (w_next w1 + 1) xs" by (simp add: v)
  have its: "oi_orderId it = o_id (ov_order v) \<and>
      (\<exists>p. findById_product (oi_productId it) (w_db w) = Some p \<and> p_isActive p \<and> oi_priceAtPurchase it = p_price p)"
    if mem: "it \<in> set (new_order_items E (w_next w1 + 1) xs)" for it
  proof -
    let ?its = "new_order_items E (w_next w1 + 1) xs"
    obtain j where j: "j < length ?its" "it = ?its ! j" using mem unfolding in_set_conv_nth by blast
    have nth: "oi_orderId it = oid_orderId (xs ! j)" "oi_productId it = oid_productId (xs ! j)"
       "oi_priceAtPurchase it = oid_priceAtPurchase (xs ! j)"
      using j new_order_items_simps(2,4,5) [of E "w_next w1 + 1" xs] by (metis length_map nth_map)+
    obtain s where "s \<in> set (co_items dto)" "?P s (xs ! j)" using in_its [of "xs ! j"] j by auto
    then show ?thesis using find [of s] nth by (auto simp: v)
  qed
  have stk: "stock_of (w_db w') k = map_option (\<lambda>n. n - qty_of k (co_items dto)) (stock_of (w_db w) k)" for k
  proof -
    have "stock_of (w_db w') k = stock_of (w_db w1) k" by (rule stock_of_cong) (simp add: w')
    then show ?thesis using lockValidateAndDecrement_stock [OF lvd keyed, of k] by simp
  qed
  show ?thesis unfolding created_view_def fst_items
    using conv its stk fst_items row w1
    by (auto simp: w' v simp flip: fst_items set_map)
qed

lemma quiet_findByIdsWithLock [quiet_intros]: "quiet (findByIdsWithLock E ids)"
  by (auto simp: quiet_def findByIdsWithLock_def split: option.split)

lemma quiet_saveProducts [quiet_intros]: "quiet (saveProducts ps)"
  by (auto simp: quiet_def saveProducts_def same_outside_def)

lemma quiet_lockValidateAndDecrement [quiet_intros]: "quiet (lockValidateAndDecrement E its ids)"
  unfolding lockValidateAndDecrement_def by (intro quiet_intros)

lemma quiet_lockAndRestore [quiet_intros]: "quiet (lockAndRestore E its ids)"
  unfolding lockAndRestore_def by (intro quiet_intros)

lemma quiet_repo_createOrder [quiet_intros]: "quiet (repo_createOrder E data)"
  by (auto simp: quiet_def repo_createOrder_def Let_def same_outside_def)

lemma quiet_createOrderItems [quiet_intros]: "quiet (createOrderItems E xs)"
  by (simp add: quiet_def createOrderItems_eq same_outside_def)

lemma quiet_executeOrderTransaction [quiet_intros]: "quiet (executeOrderTransaction E dto usr ids)"
  unfolding executeOrderTransaction_def by (intro quiet_intros)

lemma executeOrderTransaction_Inl:
  "executeOrderTransaction E dto usr ids w = (Inl e, w') \<Longrightarrow> w_db w' = w_db w"
  unfolding executeOrderTransaction_def by (rule transaction_Inl)

section \<open>After the commit\<close>

definition same_shop :: "db \<Rightarrow> db \<Rightarrow> bool" where
  "same_shop d d' \<longleftrightarrow> products d' = products d \<and> orders d' = orders d \<and> order_items d' = order_items d"

lemma same_shop_refl [simp]: "same_shop d d"
  by (simp add: same_shop_def)

lemma created_view_same_shop:
  "created_view E w dto usr v w1 \<Longrightarrow> same_shop (w_db w1) (w_db w2) \<Longrightarrow> created_view E w dto usr v w2"
  by (auto simp: created_view_def same_shop_def cong: stock_of_cong)

definition order_message :: "uuid \<Rightarrow> broker_message \<Rightarrow> bool" where
  "order_message i m \<longleftrightarrow> bm_queue m = ORDER_PROCESS_QUEUE \<and>
     (\<exists>j mid. bm_content m = Parsed j \<and> json_field ''orderId'' j = Some (JStr i) \<and>
        json_field ''messageId'' j = Some (JStr mid) \<and> bm_messageId m = Some mid \<and>
        json_field ''attempt'' j = Some (JNum 1))"

lemma order_process_message_ok:
  "\<exists>mid j n. order_process_message E i cid m w = (Inr (mid, j), w\<lparr>w_next := n\<rparr>) \<and>
     json_field ''orderId'' j = Some (JStr i) \<and> json_field ''messageId'' j = Some (JStr mid) \<and>
     json_field ''attempt'' j = Some (JNum 1)"
proof -
  have "w = w\<lparr>w_next := w_next w\<rparr>" by simp
  then show ?thesis
    by (cases m; cases cid) (auto simp: order_process_message_def intro: exI [of _ "w_next w"])
qed

lemma publishOrderProcessing_open:
  assumes "w_channel w = ChannelOpen"
  shows "\<exists>m w1. publishOrderProcessing E i cid w = (Inr (), w1) \<and> order_message i m \<and>
     w_published w1 = w_published w @ [m] \<and> w_db w1 = w_db w \<and> w_events w1 = w_events w \<and> w_channel w1 = w_channel w"
proof -
  define forced where "forced = (case e_config E ''RABBITMQ_SIMULATE_DUPLICATE_MESSAGE_ID'' of
          Some m \<Rightarrow> if m \<noteq> [] then Some m else None | None \<Rightarrow> None)"
  obtain mid j n where m: "order_process_message E i cid forced w = (Inr (mid, j), w\<lparr>w_next := n\<rparr>)"
    "json_field ''orderId'' j = Some (JStr i)" "json_field ''messageId'' j = Some (JStr mid)"
    "json_field ''attempt'' j = Some (JNum 1)" using order_process_message_ok by blast
  show ?thesis using assms m
    by (intro exI [of _ "\<lparr>bm_queue = ORDER_PROCESS_QUEUE, bm_content = Parsed j, bm_messageId = Some mid\<rparr>"])
       (auto simp: publishOrderProcessing_def Let_def bind_s_def publish_open order_message_def
           simp flip: forced_def)
qed

lemma publishOrderProcessing_not_open:
  assumes "w_channel w \<noteq> ChannelOpen"
  shows "\<exists>t w1. publishOrderProcessing E i cid w = (Inl (PlainError t), w1) \<and> w_published w1 = w_published w
     \<and> w_db w1 = w_db w \<and> w_events w1 = w_events w"
proof -
  define forced where "forced = (case e_config E ''RABBITMQ_SIMULATE_DUPLICATE_MESSAGE_ID'' of
          Some m \<Rightarrow> if m \<noteq> [] then Some m else None | None \<Rightarrow> None)"
  obtain mid j n where m: "order_process_message E i cid forced w = (Inr (mid, j), w\<lparr>w_next := n\<rparr>)"
    using order_process_message_ok by blast
  have "\<exists>t. publish ORDER_PROCESS_QUEUE j (Some mid) (w\<lparr>w_next := n\<rparr>) = (Inl (PlainError t), w\<lparr>w_next := n\<rparr>)"
    using assms by (cases "w_channel w") (auto simp: publish_def resolveChannel_def bind_s_def)
  then show ?thesis using m by (auto simp: publishOrderProcessing_def Let_def bind_s_def simp flip: forced_def)
qed

lemma afterOrderCommit_open:
  assumes "w_channel w = ChannelOpen"
  shows "\<exists>m w1. afterOrderCommit E userId dto ctx usr v w = (Inr v, w1) \<and> order_message (o_id (ov_order v)) m \<and>
     w_published w1 = w_published w @ [m] \<and> same_shop (w_db w) (w_db w1) \<and>
     w_events w1 = w_events w @ [OrderCreatedEvent (o_id (ov_order v)) (u_email usr)]"
proof -
  obtain m w1 where "publishOrderProcessing E (o_id (ov_order v)) (co_idempotencyKey dto) w = (Inr (), w1)"
    "order_message (o_id (ov_order v)) m" "w_published w1 = w_published w @ [m]" "w_db w1 = w_db w"
    "w_events w1 = w_events w"
    using publishOrderProcessing_open [OF assms] by blast
  then show ?thesis by (auto simp: afterOrderCommit_def bind_s_def same_shop_def)
qed

lemma afterOrderCommit_not_open:
  assumes "w_channel w \<noteq> ChannelOpen"
  shows "\<exists>t w1. afterOrderCommit E userId dto ctx usr v w = (Inl (PlainError t), w1) \<and> w_db w1 = w_db w \<and>
     w_published w1 = w_published w \<and> w_events w1 = w_events w"
proof -
  obtain t w1 where "publishOrderProcessing E (o_id (ov_order v)) (co_idempotencyKey dto) w = (Inl (PlainError t), w1)"
    "w_published w1 = w_published w" "w_db w1 = w_db w" "w_events w1 = w_events w"
    using publishOrderProcessing_not_open [OF assms] by blast
  then show ?thesis by (auto simp: afterOrderCommit_def bind_s_def)
qed

section \<open>The error mapper\<close>

lemma handleCreationError_world: "snd (handleCreationError e userId key w) = w"
  by (simp add: handleCreationError_def Let_def split: option.split)

lemma handleCreationError_Inr:
  assumes "handleCreationError e userId key w = (Inr v, w')"
  shows "w' = w \<and> exn_code e = Some ''23505'' \<and>
    (\<exists>k. truthy key = Some k \<and> findByIdempotencyKey k (w_db w) = Some v \<and> o_userId (ov_order v) = userId)"
  using assms by (auto simp: handleCreationError_def Let_def split: option.splits if_splits)

lemma handleCreationError_Inl:
  assumes "handleCreationError e userId key w = (Inl fe, w')"
  shows "w' = w \<and> (fe = e \<or> (\<exists>m. fe = PlainError m) \<or> (\<exists>m. fe = http_exn Conflict m))"
  using assms by (auto simp: handleCreationError_def Let_def split: option.splits if_splits)

section \<open>createOrder as a whole\<close>

text \<open>The transaction with what follows it and its error handling.\<close>
lemma createOrder_attempt_cases:
  fixes w1 :: world
  assumes run: "catch_s
           (bind_s (executeOrderTransaction E dto usr ids) (afterOrderCommit E userId dto ctx usr))
           (\<lambda>e. catch_s (handleCreationError e userId (co_idempotencyKey dto))
              (\<lambda>fe. bind_s (modify_s (audit E (audit_event ORDER_CREATION_FAILED (Some userId) ctx AUDIT_FAILURE
                        None (Some ''Order'')))) (\<lambda>_. throw_s fe))) w1 = (r, w')"
  obtains
    (created) v w2 m where "executeOrderTransaction E dto usr ids w1 = (Inr v, w2)" "r = Inr v"
      "w_channel w1 = ChannelOpen" "same_shop (w_db w2) (w_db w')" "order_message (o_id (ov_order v)) m"
      "w_published w' = w_published w1 @ [m]"
      "w_events w' = w_events w1 @ [OrderCreatedEvent (o_id (ov_order v)) (u_email usr)]"
  | (unpublished) v w2 where "executeOrderTransaction E dto usr ids w1 = (Inr v, w2)"
      "\<exists>fe. r = Inl fe" "w_channel w1 \<noteq> ChannelOpen" "same_shop (w_db w2) (w_db w')"
      "w_published w' = w_published w1" "w_events w' = w_events w1"
  | (rolled_back) e w2 fe where "executeOrderTransaction E dto usr ids w1 = (Inl e, w2)" "r = Inl fe"
      "same_shop (w_db w1) (w_db w')" "w_published w' = w_published w1" "w_events w' = w_events w1"
  | (race) e w2 v k where "executeOrderTransaction E dto usr ids w1 = (Inl e, w2)" "r = Inr v"
      "exn_code e = Some ''23505''" "truthy (co_idempotencyKey dto) = Some k"
      "findByIdempotencyKey k (w_db w1) = Some v" "o_userId (ov_order v) = userId"
      "same_shop (w_db w1) (w_db w')" "w_published w' = w_published w1" "w_events w' = w_events w1"
proof -
  let ?key = "co_idempotencyKey dto"
  obtain rt w2 where tx: "executeOrderTransaction E dto usr ids w1 = (rt, w2)" by fastforce
  have out: "w_channel w2 = w_channel w1" "w_published w2 = w_published w1" "w_events w2 = w_events w1"
    using quietD [OF quiet_executeOrderTransaction tx] by (simp_all add: same_outside_def)
  show thesis
  proof (cases rt)
    case (Inr v)
    show thesis
    proof (cases "w_channel w1 = ChannelOpen")
      case True
      obtain m w3 where "afterOrderCommit E userId dto ctx usr v w2 = (Inr v, w3)"
        "order_message (o_id (ov_order v)) m" "w_published w3 = w_published w2 @ [m]"
        "same_shop (w_db w2) (w_db w3)"
        "w_events w3 = w_events w2 @ [OrderCreatedEvent (o_id (ov_order v)) (u_email usr)]"
        using afterOrderCommit_open [of w2] True out by metis
      then show thesis using created [of v w2 m] run tx Inr True out by (simp add: catch_s_def bind_s_def)
    next
      case False
      obtain t w3 where after: "afterOrderCommit E userId dto ctx usr v w2 = (Inl (PlainError t), w3)"
        "w_db w3 = w_db w2" "w_published w3 = w_published w2" "w_events w3 = w_events w2"
        using afterOrderCommit_not_open [of w2] False out by metis
      obtain r3 w4 where h: "handleCreationError (PlainError t) userId ?key w3 = (r3, w4)" by fastforce
      obtain fe where r3: "r3 = Inl fe"
        using h handleCreationError_Inr [of "PlainError t" userId ?key w3] by (cases r3) fastforce+
      have "w4 = w3" using handleCreationError_world [of "PlainError t" userId ?key w3] h by simp
      then show thesis using unpublished [of v w2] run tx Inr False out after h r3
        by (auto simp: catch_s_def bind_s_def same_shop_def)
    qed
  next
    case (Inl e)
    have db: "w_db w2 = w_db w1" by (rule executeOrderTransaction_Inl [OF tx [unfolded Inl]])
    obtain r3 w3 where h: "handleCreationError e userId ?key w2 = (r3, w3)" by fastforce
    have w3: "w3 = w2" using handleCreationError_world [of e userId ?key w2] h by simp
    show thesis
    proof (cases r3)
      case Inl2: (Inl fe)
      show thesis using rolled_back [of e w2 fe] run tx Inl h Inl2 w3 db out
        by (auto simp: catch_s_def bind_s_def same_shop_def)
    next
      case Inr2: (Inr v)
      obtain k where "exn_code e = Some ''23505''" "truthy ?key = Some k"
        "findByIdempotencyKey k (w_db w1) = Some v" "o_userId (ov_order v) = userId"
        using handleCreationError_Inr [OF h [unfolded Inr2]] db by auto
      then show thesis using race [of e w2 v k] run tx Inl h Inr2 w3 db out
        by (auto simp: catch_s_def bind_s_def same_shop_def)
    qed
  qed
qed

lemma validateExist_world: "snd (validateExist ids w) = w"
  by (simp add: validateExist_def split: if_split)

lemma createOrder_cases:
  assumes run: "createOrder E userId dto ctx w = (r, w')"
  obtains
    (refused) e where "r = Inl e" "w' = w"
  | (hit) usr v k where "findById_user userId (w_db w) = Some usr" "truthy (co_idempotencyKey dto) = Some k"
      "findByIdempotencyKey k (w_db w) = Some v" "r = Inr v" "same_shop (w_db w) (w_db w')"
      "w_published w' = w_published w"
  | (attempt) usr where "findById_user userId (w_db w) = Some usr"
      "validateOrderItems (co_items dto) = Inr ()"
      "catch_s
           (bind_s (executeOrderTransaction E dto usr (js_uniq (map si_productId (co_items dto)))) (afterOrderCommit E userId dto ctx usr))
           (\<lambda>e. catch_s (handleCreationError e userId (co_idempotencyKey dto))
              (\<lambda>fe. bind_s (modify_s (audit E (audit_event ORDER_CREATION_FAILED (Some userId) ctx AUDIT_FAILURE
                        None (Some ''Order'')))) (\<lambda>_. throw_s fe))) (e_others E w) = (r, w')"
proof (cases "findById_user userId (w_db w)")
  case None
  then show thesis using run refused by (auto simp: createOrder_def validateUser_def bind_s_def)
next
  case (Some usr)
  then have vu: "validateUser userId w = (Inr usr, w)" by (simp add: validateUser_def)
  show thesis
  proof (cases "validateOrderItems (co_items dto)")
    case (Inl e)
    then show thesis using run vu refused by (auto simp: createOrder_def bind_s_def)
  next
    case vi: (Inr u)
    obtain ex where ck: "checkIdempotency (co_idempotencyKey dto) w = (Inr ex, w)"
      by (cases "truthy (co_idempotencyKey dto)") (auto simp: checkIdempotency_def)
    show thesis
    proof (cases ex)
      case ex: (Some v)
      obtain k where "truthy (co_idempotencyKey dto) = Some k" "findByIdempotencyKey k (w_db w) = Some v"
        using ck ex by (auto simp: checkIdempotency_def split: option.splits)
      then show thesis using run vu vi ck ex Some hit
        by (auto simp: createOrder_def bind_s_def same_shop_def)
    next
      case None
      obtain re where ve: "validateExist (js_uniq (map si_productId (co_items dto))) w = (re, w)"
        using validateExist_world [of "js_uniq (map si_productId (co_items dto))" w]
        by (metis surjective_pairing)
      show thesis
      proof (cases re)
        case (Inl e)
        then show thesis using run vu vi ck None ve refused by (auto simp: createOrder_def bind_s_def Let_def)
      next
        case (Inr u2)
        then show thesis using run vu vi ck None ve attempt [OF Some]
          by (simp add: createOrder_def bind_s_def Let_def)
      qed
    qed
  qed
qed

end
