(* ===== verification/Sample_World.thy ===== *)
theory Sample_World
  imports Entities
begin

text \<open>
  A small shop on which the properties are run: one user, two products, an open channel and
  an environment without faults. The witnesses of the properties evaluate the model here.
\<close>

definition sample_env :: env where
  "sample_env = \<lparr>e_uuid = (\<lambda>n. ''id-'' @ replicate n (CHR ''x'')), e_config = (\<lambda>_. None),
     e_lock = (\<lambda>_ _. None), e_audit_up = True, e_duration = (\<lambda>_. 1), e_iso = (\<lambda>_. ''now''), e_pg_uuid = (\<lambda>_. True),
     e_others = (\<lambda>w. w)\<rparr>"

definition sample_user :: "string \<Rightarrow> string \<Rightarrow> user" where
  "sample_user i email = \<lparr>u_id = i, u_email = email, u_password = Some ''hash'', u_isEmailVerified = True,
     u_firstName = None, u_lastName = None, u_phone = None, u_city = Some ''Kyiv'', u_country = None,
     u_postcode = None, u_avatarId = None, u_roles = [''USER''], u_scopes = [], u_createdAt = 0,
     u_updatedAt = 0, u_deletedAt = None\<rparr>"

definition sample_product :: "string \<Rightarrow> int \<Rightarrow> string \<Rightarrow> product" where
  "sample_product i stock price = \<lparr>p_id = i, p_title = ''T'' @ i, p_brand = None, p_category = AUDIO,
     p_country = None, p_description = None, p_isActive = True, p_mainImageId = None, p_price = price,
     p_stock = stock, p_createdAt = 0, p_updatedAt = 0, p_deletedAt = None\<rparr>"

definition empty_db :: db where
  "empty_db = \<lparr>users = [], products = [], orders = [], order_items = [], processed_messages = [],
     audit_logs = [], carts = [], cart_items = [], file_records = [], reviews = [],
     refresh_tokens = [], reset_tokens = [], verification_tokens = []\<rparr>"

definition sample_db :: db where
  "sample_db = empty_db\<lparr>users := [sample_user ''u1'' ''a@b'', sample_user ''u2'' ''c@d''],
     products := [sample_product ''p1'' 5 ''9.99'', sample_product ''p2'' 1 ''0.50'']\<rparr>"

definition world_of :: "db \<Rightarrow> channel_state \<Rightarrow> world" where
  "world_of d ch = \<lparr>w_db = d, w_now = 1000, w_next = 0, w_channel = ch, w_published = [], w_acks = 0, w_events = [],
     w_metrics = [], w_mails = []\<rparr>"

definition sample_world :: world where
  "sample_world = world_of sample_db ChannelOpen"

definition sample_order :: "string \<Rightarrow> string \<Rightarrow> order_status \<Rightarrow> string option \<Rightarrow> order" where
  "sample_order i uid st key = \<lparr>o_id = i, o_userId = uid, o_status = st, o_idempotencyKey = key,
     o_paymentId = None, o_shippingCity = None, o_shippingCountry = None, o_shippingFirstName = None,
     o_shippingLastName = None, o_shippingPhone = None, o_shippingPostcode = None,
     o_createdAt = 0, o_updatedAt = 0\<rparr>"

definition sample_order_item :: "string \<Rightarrow> string \<Rightarrow> string \<Rightarrow> int \<Rightarrow> order_item" where
  "sample_order_item i oid pid q = \<lparr>oi_id = i, oi_orderId = oid, oi_productId = pid,
     oi_priceAtPurchase = ''9.99'', oi_quantity = q\<rparr>"

text \<open>The same shop with one order of user u1 for two pieces of p1.\<close>
definition sample_db_ordered :: "order_status \<Rightarrow> db" where
  "sample_db_ordered st = sample_db\<lparr>orders := [sample_order ''o1'' ''u1'' st (Some ''key'')],
     order_items := [sample_order_item ''i1'' ''o1'' ''p1'' 2]\<rparr>"

lemmas sample_defs = sample_env_def sample_user_def sample_product_def empty_db_def sample_db_def
  world_of_def sample_world_def sample_order_def sample_order_item_def sample_db_ordered_def

end
