(* ===== verification/Orders_Command_Theorems.thy ===== *)
theory Orders_Command_Theorems
  imports Orders_Command_Facts Sample_World
begin

text \<open>
  The properties of creating an order: what a success and a failure leave behind, when
  stock can go below zero, who gets an order back for an idempotency key, and how database
  errors are answered.
\<close>

definition order_dto :: "string option \<Rightarrow> (string \<times> int) list \<Rightarrow> create_order_dto" where
  "order_dto key its = \<lparr>co_idempotencyKey = key,
     co_items = map (\<lambda>(p, q). \<lparr>si_productId = p, si_quantity = q\<rparr>) its, co_shipping = None\<rparr>"

lemma not_isl_fstE:
  assumes "\<not> isl (fst p)" obtains x w' where "p = (Inr x, w')"
proof -
  obtain r w' where "p = (r, w')" by fastforce
  with assms that show thesis by (cases r) auto
qed

lemma isl_fstE:
  assumes "isl (fst p)" obtains e w' where "p = (Inl e, w')"
proof -
  obtain r w' where "p = (r, w')" by fastforce
  with assms that show thesis by (cases r) auto
qed

text \<open>C1: A successful createOrder either answers an idempotent hit (the key already named an
  order; nothing of the shop changes and nothing is published), or answers the winner of a race
  for the key when it is the caller's own, or has created exactly one PENDING order of the
  caller: its items are the requested ones at the price of the live, active product, the stock of
  every product falls by exactly the ordered quantity, and exactly one processing message
  and one event go out.\<close>
theorem createOrder_success:
  assumes run: "createOrder E userId dto ctx w = (Inr v, w')"
    and keyed: "products_keyed (w_db (e_others E w))"
  shows "(\<exists>k. truthy (co_idempotencyKey dto) = Some k \<and> findByIdempotencyKey k (w_db w) = Some v \<and>
            same_shop (w_db w) (w_db w') \<and> w_published w' = w_published w) \<or>
         (\<exists>k. truthy (co_idempotencyKey dto) = Some k \<and> findByIdempotencyKey k (w_db (e_others E w)) = Some v \<and>
            o_userId (ov_order v) = userId \<and> same_shop (w_db (e_others E w)) (w_db w') \<and>
            w_published w' = w_published (e_others E w)) \<or>
         (\<exists>usr m. findById_user userId (w_db w) = Some usr \<and> created_view E (e_others E w) dto usr v w' \<and>
            order_message (o_id (ov_order v)) m \<and> w_published w' = w_published (e_others E w) @ [m] \<and>
            w_events w' = w_events (e_others E w) @ [OrderCreatedEvent (o_id (ov_order v)) (u_email usr)])"
  using run
proof (cases rule: createOrder_cases)
  case (attempt usr)
  from attempt(3) show ?thesis
  proof (cases rule: createOrder_attempt_cases)
    case (created v2 w2 m)
    have "created_view E (e_others E w) dto usr v w'"
      using created_view_same_shop [OF executeOrderTransaction_created [OF created(1) keyed] created(4)] created(2)
      by simp
    then show ?thesis using attempt(1) created by auto
  qed auto
qed auto

lemma createOrder_success_witness:
  "\<exists>v w'. createOrder sample_env ''u1'' (order_dto None [(''p1'', 2), (''p2'', 1)]) None sample_world = (Inr v, w') \<and>
     (\<exists>usr. created_view sample_env sample_world (order_dto None [(''p1'', 2), (''p2'', 1)]) usr v w')"
proof -
  let ?dto = "order_dto None [(''p1'', 2), (''p2'', 1)]"
  have ok: "\<not> isl (fst (createOrder sample_env ''u1'' ?dto None sample_world))" by code_simp
  have others: "e_others sample_env sample_world = sample_world" by (simp add: sample_env_def)
  have keyed: "products_keyed (w_db (e_others sample_env sample_world))" by code_simp
  have nokey: "truthy (co_idempotencyKey ?dto) = None" by code_simp
  obtain v w' where run: "createOrder sample_env ''u1'' ?dto None sample_world = (Inr v, w')"
    by (rule not_isl_fstE [OF ok])
  show ?thesis using createOrder_success [OF run keyed] run nokey others by auto
qed

text \<open>C2: While the broker channel is open, a failed createOrder leaves no trace in the shop:
  products, orders and items are those found before it, or those other requests left meanwhile,
  and no message was published for it.\<close>
theorem createOrder_failure_leaves_no_trace:
  assumes run: "createOrder E userId dto ctx w = (Inl e, w')"
    and ch: "w_channel (e_others E w) = ChannelOpen"
  shows "(same_shop (w_db w) (w_db w') \<and> w_published w' = w_published w) \<or>
         (same_shop (w_db (e_others E w)) (w_db w') \<and> w_published w' = w_published (e_others E w))"
  using run
proof (cases rule: createOrder_cases)
  case (attempt usr)
  from attempt(3) show ?thesis
    by (cases rule: createOrder_attempt_cases) (use ch in auto)
qed auto

lemma createOrder_failure_leaves_no_trace_witness:
  "\<exists>e w'. createOrder sample_env ''u1'' (order_dto None [(''p1'', 1), (''p2'', 2)]) None sample_world = (Inl e, w') \<and>
     same_shop (w_db sample_world) (w_db w')"
proof -
  let ?dto = "order_dto None [(''p1'', 1), (''p2'', 2)]"
  have ok: "isl (fst (createOrder sample_env ''u1'' ?dto None sample_world))" by code_simp
  have others: "e_others sample_env sample_world = sample_world" by (simp add: sample_env_def)
  have ch: "w_channel (e_others sample_env sample_world) = ChannelOpen" by code_simp
  obtain e w' where run: "createOrder sample_env ''u1'' ?dto None sample_world = (Inl e, w')"
    by (rule isl_fstE [OF ok])
  show ?thesis using createOrder_failure_leaves_no_trace [OF run ch] run others by auto
qed

text \<open>C3: When the broker channel is not open, createOrder reports failure although the order
  was committed: it answers an error, yet the order, its items and the reduced stock stay in
  the database, and no processing message was published.\<close>
theorem createOrder_committed_but_refused:
  assumes usr: "findById_user userId (w_db w) = Some usr"
    and items: "validateOrderItems (co_items dto) = Inr ()"
    and nokey: "checkIdempotency (co_idempotencyKey dto) w = (Inr None, w)"
    and exist: "validateExist (js_uniq (map si_productId (co_items dto))) w = (Inr (), w)"
    and tx: "executeOrderTransaction E dto usr (js_uniq (map si_productId (co_items dto))) (e_others E w) = (Inr v, w2)"
    and ch: "w_channel (e_others E w) \<noteq> ChannelOpen"
    and keyed: "products_keyed (w_db (e_others E w))"
  shows "\<exists>e w'. createOrder E userId dto ctx w = (Inl e, w') \<and> created_view E (e_others E w) dto usr v w' \<and>
     w_published w' = w_published (e_others E w)"
proof -
  obtain r w' where run: "createOrder E userId dto ctx w = (r, w')" by fastforce
  have vu: "validateUser userId w = (Inr usr, w)" using usr by (simp add: validateUser_def)
  have att: "catch_s
           (bind_s (executeOrderTransaction E dto usr (js_uniq (map si_productId (co_items dto)))) (afterOrderCommit E userId dto ctx usr))
           (\<lambda>e. catch_s (handleCreationError e userId (co_idempotencyKey dto))
              (\<lambda>fe. bind_s (modify_s (audit E (audit_event ORDER_CREATION_FAILED (Some userId) ctx AUDIT_FAILURE
                        None (Some ''Order'')))) (\<lambda>_. throw_s fe))) (e_others E w) = (r, w')"
    using run vu items nokey exist by (simp add: createOrder_def bind_s_def Let_def)
  from att show ?thesis
  proof (cases rule: createOrder_attempt_cases)
    case (unpublished v2 w3)
    have "created_view E (e_others E w) dto usr v2 w'"
      by (rule created_view_same_shop [OF executeOrderTransaction_created [OF unpublished(1) keyed] unpublished(4)])
    then show ?thesis using unpublished tx run by auto
  qed (use ch tx in auto)
qed

lemma createOrder_committed_but_refused_witness:
  "\<exists>e v w' usr. createOrder sample_env ''u1'' (order_dto None [(''p1'', 2)]) None (world_of sample_db NoChannel) = (Inl e, w') \<and>
     created_view sample_env (world_of sample_db NoChannel) (order_dto None [(''p1'', 2)]) usr v w'"
proof -
  let ?dto = "order_dto None [(''p1'', 2)]" and ?w = "world_of sample_db NoChannel"
  let ?usr = "sample_user ''u1'' ''a@b''" and ?ids = "js_uniq (map si_productId (co_items (order_dto None [(''p1'', 2)])))"
  have others: "e_others sample_env ?w = ?w" by (simp add: sample_env_def)
  have tx: "\<not> isl (fst (executeOrderTransaction sample_env ?dto ?usr ?ids (e_others sample_env ?w)))" by code_simp
  obtain v w2 where tx: "executeOrderTransaction sample_env ?dto ?usr ?ids (e_others sample_env ?w) = (Inr v, w2)"
    by (rule not_isl_fstE [OF tx])
  have 1: "findById_user ''u1'' (w_db ?w) = Some ?usr" by (simp add: findById_user_def live_user_def sample_defs)
  have 2: "validateOrderItems (co_items ?dto) = Inr ()" by code_simp
  have 3: "checkIdempotency (co_idempotencyKey ?dto) ?w = (Inr None, ?w)"
    by (simp add: checkIdempotency_def truthy_def order_dto_def)
  have 4: "validateExist ?ids ?w = (Inr (), ?w)"
    by (simp add: validateExist_def findByIds_def live_product_def order_dto_def sample_defs)
  have 5: "w_channel (e_others sample_env ?w) \<noteq> ChannelOpen" by code_simp
  have 6: "products_keyed (w_db (e_others sample_env ?w))" by code_simp
  show ?thesis using createOrder_committed_but_refused [OF 1 2 3 4 tx 5 6, of None] others by auto
qed

section \<open>Stock never goes below zero, unless a product is named twice\<close>

definition stock_nonneg :: "db \<Rightarrow> bool" where
  "stock_nonneg d = (\<forall>p \<in> set (products d). 0 \<le> p_stock p)"

lemma stock_nonneg_iff: "products_keyed d \<Longrightarrow> stock_nonneg d \<longleftrightarrow> (\<forall>k n. stock_of d k = Some n \<longrightarrow> 0 \<le> n)"
proof
  assume nn: "stock_nonneg d"
  show "\<forall>k n. stock_of d k = Some n \<longrightarrow> 0 \<le> n"
    using nn by (auto simp: stock_nonneg_def stock_of_def look_product_def dest!: find_row_SomeD)
next
  assume keyed: "products_keyed d" and all: "\<forall>k n. stock_of d k = Some n \<longrightarrow> 0 \<le> n"
  have "0 \<le> p_stock p" if "p \<in> set (products d)" for p
  proof -
    have "stock_of d (p_id p) = Some (p_stock p)"
      using find_row_mem [of p_id "products d" p] that keyed
      by (simp add: stock_of_def look_product_def products_keyed_def)
    then show ?thesis using all by blast
  qed
  then show "stock_nonneg d" by (simp add: stock_nonneg_def)
qed

lemma stock_nonneg_same_shop: "same_shop d d' \<Longrightarrow> stock_nonneg d' = stock_nonneg d"
  by (simp add: stock_nonneg_def same_shop_def)

lemma lockValidate_qty_le:
  assumes "validateStockAndAvailability items (product_map (findByIds ids d)) = Inr ()"
    and "products_keyed d" and "distinct (map si_productId items)"
    and "stock_of d k = Some n" and "0 \<le> n"
  shows "qty_of k items \<le> n"
proof (cases "k \<in> si_productId ` set items")
  case True
  then obtain it where it: "it \<in> set items" "k = si_productId it" by auto
  obtain p where "look_product d (si_productId it) = Some p" "si_quantity it \<le> p_stock p"
    using lockValidate_all_live [OF assms(1,2) it(1)] by auto
  then show ?thesis using qty_of_distinct [OF assms(3) it(1)] assms(4) it(2) by (simp add: stock_of_def)
next
  case False
  then show ?thesis using assms(5) by (simp add: qty_of_absent)
qed

lemma executeOrderTransaction_stock_nonneg:
  assumes run: "executeOrderTransaction E dto usr ids w = (Inr v, w')"
    and keyed: "products_keyed (w_db w)" and dist: "distinct (map si_productId (co_items dto))"
    and nn: "stock_nonneg (w_db w)"
  shows "stock_nonneg (w_db w')"
proof -
  obtain m w1 rest where lvd: "lockValidateAndDecrement E (co_items dto) ids w = (Inr m, w1)"
    and w': "products (w_db w') = products (w_db w1)"
    by (rule executeOrderTransaction_Inr [OF run]) simp
  have "products_keyed (w_db w1)"
    using lvd_world [OF lvd keyed] keyed by (auto simp: products_keyed_fold)
  then have keyed': "products_keyed (w_db w')" using w' by (simp add: products_keyed_def)
  have "0 \<le> n" if n: "stock_of (w_db w') k = Some n" for k n
  proof -
    have "stock_of (w_db w1) k = Some n" using n stock_of_cong [OF w', of k] by simp
    then have "map_option (\<lambda>n. n - qty_of k (co_items dto)) (stock_of (w_db w) k) = Some n"
      using lockValidateAndDecrement_stock [OF lvd keyed, of k] by simp
    then obtain n0 where n0: "stock_of (w_db w) k = Some n0" "n = n0 - qty_of k (co_items dto)" by auto
    have "0 \<le> n0" using n0(1) nn stock_nonneg_iff [OF keyed] by blast
    then show ?thesis
      using lockValidate_qty_le [OF lockValidateAndDecrement_Inr(2) [OF lvd keyed] keyed dist n0(1)] n0(2) by simp
  qed
  then show ?thesis using stock_nonneg_iff [OF keyed'] by blast
qed

text \<open>C4: If the items name every product once, creating an order never drives a stock below
  zero, whatever other requests did before the transaction took its locks.\<close>
theorem createOrder_never_oversells:
  assumes run: "createOrder E userId dto ctx w = (r, w')"
    and dist: "distinct (map si_productId (co_items dto))"
    and keyed: "products_keyed (w_db (e_others E w))"
    and nn: "stock_nonneg (w_db w)" "stock_nonneg (w_db (e_others E w))"
  shows "stock_nonneg (w_db w')"
  using run
proof (cases rule: createOrder_cases)
  case (attempt usr)
  note tx = executeOrderTransaction_stock_nonneg [OF _ keyed dist nn(2)]
  from attempt(3) show ?thesis
    by (cases rule: createOrder_attempt_cases) (use nn tx stock_nonneg_same_shop in blast)+
qed (use nn stock_nonneg_same_shop in blast)+

lemma createOrder_never_oversells_witness:
  "stock_nonneg (w_db (snd (createOrder sample_env ''u1'' (order_dto None [(''p1'', 5), (''p2'', 1)]) None sample_world)))"
proof -
  let ?dto = "order_dto None [(''p1'', 5), (''p2'', 1)]"
  obtain r w' where run: "createOrder sample_env ''u1'' ?dto None sample_world = (r, w')" by fastforce
  have 1: "distinct (map si_productId (co_items ?dto))" by code_simp
  have 2: "products_keyed (w_db (e_others sample_env sample_world))" by code_simp
  have 3: "stock_nonneg (w_db sample_world)" by code_simp
  have 4: "stock_nonneg (w_db (e_others sample_env sample_world))" by code_simp
  show ?thesis using createOrder_never_oversells [OF run 1 2 3 4] run by simp
qed

lemma findByIds_single:
  assumes "products_keyed d" and "look_product d k = Some p" and "live_product p"
  shows "findByIds [k] d = [p]"
proof -
  have pk: "p_id p = k" using assms(2) by (auto simp: look_product_def dest: find_row_SomeD)
  have in_iff: "q \<in> set (findByIds [k] d) \<longleftrightarrow> look_product d (p_id q) = Some q \<and> live_product q \<and> p_id q = k" for q
    by (simp add: findByIds_mem [OF assms(1)])
  have mem: "q \<in> set (findByIds [k] d) \<longleftrightarrow> q = p" for q
    unfolding in_iff using assms(2,3) pk by (metis option.inject)
  then have "set (findByIds [k] d) = {p}" by auto
  moreover have "distinct (findByIds [k] d)"
    using distinct_findByIds [OF assms(1), of "[k]"] by (simp add: distinct_map)
  ultimately have "length (findByIds [k] d) = 1" using distinct_card [of "findByIds [k] d"] by simp
  then obtain x where "findByIds [k] d = [x]" by (auto simp: length_Suc_conv)
  with mem show ?thesis by auto
qed

text \<open>The stock check looks at one item at a time: an order that names a product twice
  passes it whenever each of the two quantities is in stock, and the stock then falls by both,
  below zero when together they exceed it. (The request validation does not refuse repeated
  products.)\<close>
theorem duplicate_items_oversell:
  assumes keyed: "products_keyed (w_db w)"
    and p: "look_product (w_db w) k = Some p" "live_product p" "p_isActive p"
    and q: "a \<le> p_stock p" "b \<le> p_stock p" "p_stock p < a + b"
    and fits: "int4 (p_stock p - a - b)"
    and lock: "e_lock E [k] w = None"
  shows "\<exists>m w'. lockValidateAndDecrement E [\<lparr>si_productId = k, si_quantity = a\<rparr>, \<lparr>si_productId = k, si_quantity = b\<rparr>] [k] w = (Inr m, w') \<and>
     stock_of (w_db w') k = Some (p_stock p - a - b) \<and> p_stock p - a - b < 0"
proof -
  let ?items = "[\<lparr>si_productId = k, si_quantity = a\<rparr>, \<lparr>si_productId = k, si_quantity = b\<rparr>]"
  have pk: "p_id p = k" using p(1) by (auto simp: look_product_def dest: find_row_SomeD)
  have ps: "findByIds [k] (w_db w) = [p]" by (rule findByIds_single [OF keyed p(1,2)])
  have m0: "product_map [p] = [(k, p)]" by (simp add: product_map_def pk)
  have val: "validateStockAndAvailability ?items [(k, p)] = Inr ()"
    using p q by (simp add: validate_iff)
  have dec: "decrementStock ?items [(k, p)] = Inr [(k, add_stock (- a - b) p)]"
    by (simp add: upd_key_def)
  have save: "saveProducts [add_stock (- a - b) p] w = (Inr (), db_update (fold (put_product (w_now w)) [add_stock (- a - b) p]) w)"
    using fits by (simp add: saveProducts_def algebra_simps)
  have run: "lockValidateAndDecrement E ?items [k] w = (Inr [(k, add_stock (- a - b) p)], db_update (fold (put_product (w_now w)) [add_stock (- a - b) p]) w)"
    using lock ps m0 val dec save
    by (simp add: lockValidateAndDecrement_def findByIdsWithLock_def bind_s_def)
  have "stock_of (w_db w) k = Some (p_stock p)" using p(1) by (simp add: stock_of_def)
  then have "stock_of (w_db (db_update (fold (put_product (w_now w)) [add_stock (- a - b) p]) w)) k = Some (p_stock p - a - b)"
    using lockValidateAndDecrement_stock [OF run keyed, of k] by (simp add: algebra_simps)
  then show ?thesis using run q(3) by auto
qed

lemma duplicate_items_oversell_witness:
  "\<exists>m w'. lockValidateAndDecrement sample_env [\<lparr>si_productId = ''p1'', si_quantity = 4\<rparr>, \<lparr>si_productId = ''p1'', si_quantity = 3\<rparr>] [''p1''] sample_world = (Inr m, w') \<and>
     stock_of (w_db w') ''p1'' = Some (- 2)"
proof -
  let ?p = "sample_product ''p1'' 5 ''9.99''"
  have 1: "products_keyed (w_db sample_world)" by code_simp
  have 2: "look_product (w_db sample_world) ''p1'' = Some ?p" by (simp add: look_product_def sample_defs)
  have 3: "live_product ?p" "p_isActive ?p" "4 \<le> p_stock ?p" "3 \<le> p_stock ?p" "p_stock ?p < 4 + 3" "int4 (p_stock ?p - 4 - 3)"
    "e_lock sample_env [''p1''] sample_world = None"
    by (simp_all add: live_product_def int4_def sample_defs)
  show ?thesis using duplicate_items_oversell [OF 1 2 3(1-6) 3(7)] by (auto simp: sample_defs)
qed

section \<open>Idempotency keys and database errors\<close>

text \<open>The idempotency short-circuit answers the order that owns the key without looking at
  whose it is: a caller who sends a key used by somebody else gets that customer's order
  (items, user and shipping data), and an audit row that records a success.\<close>
theorem createOrder_hit_leaks_foreign_order:
  assumes usr: "findById_user userId (w_db w) = Some usr"
    and items: "validateOrderItems (co_items dto) = Inr ()"
    and key: "truthy (co_idempotencyKey dto) = Some k"
    and hit: "findByIdempotencyKey k (w_db w) = Some v"
    and foreign: "o_userId (ov_order v) \<noteq> userId"
  shows "createOrder E userId dto ctx w = (Inr v, audit E (audit_event ORDER_IDEMPOTENT_HIT (Some userId) ctx
     AUDIT_SUCCESS (Some (o_id (ov_order v))) (Some ''Order'')) w)"
  using assms by (simp add: createOrder_def validateUser_def checkIdempotency_def bind_s_def)

lemma createOrder_hit_leaks_foreign_order_witness:
  "\<exists>v w'. createOrder sample_env ''u2'' (order_dto (Some ''key'') [(''p2'', 1)]) None
      (world_of (sample_db_ordered PENDING) ChannelOpen) = (Inr v, w') \<and> o_userId (ov_order v) = ''u1''"
proof -
  let ?w = "world_of (sample_db_ordered PENDING) ChannelOpen" and ?dto = "order_dto (Some ''key'') [(''p2'', 1)]"
  have 1: "findById_user ''u2'' (w_db ?w) = Some (sample_user ''u2'' ''c@d'')"
    by (simp add: findById_user_def live_user_def sample_defs)
  have 2: "validateOrderItems (co_items ?dto) = Inr ()" by code_simp
  have 3: "truthy (co_idempotencyKey ?dto) = Some ''key''" by (simp add: truthy_def order_dto_def)
  obtain v where 4: "findByIdempotencyKey ''key'' (w_db ?w) = Some v"
    and 5: "ov_order v = sample_order ''o1'' ''u1'' PENDING (Some ''key'')"
    by (simp add: findByIdempotencyKey_def load_order_def sample_db_ordered_def world_of_def sample_order_def)
  have 6: "o_userId (ov_order v) \<noteq> ''u2''" by (simp add: 5 sample_order_def)
  have 7: "o_userId (ov_order v) = ''u1''" by (simp add: 5 sample_order_def)
  show ?thesis using createOrder_hit_leaks_foreign_order [OF 1 2 3 4 6, of sample_env None] 7 by blast
qed

text \<open>The error mapper never changes anything; it answers an order only for a unique
  violation (23505) and only the caller's own order with that key; otherwise it answers the
  error it was given, a conflict (lock timeout), or a plain error (statement timeout), and a
  lock timeout (55P03) always becomes the conflict.\<close>
theorem handleCreationError_safe:
  assumes run: "handleCreationError e userId key w = (r, w')"
  shows "w' = w \<and>
    (\<forall>v. r = Inr v \<longrightarrow> exn_code e = Some ''23505'' \<and> o_userId (ov_order v) = userId \<and> o_idempotencyKey (ov_order v) = key) \<and>
    (\<forall>fe. r = Inl fe \<longrightarrow> fe = e \<or> extractStatus fe = 409 \<or> (\<exists>m. fe = PlainError m)) \<and>
    (e = QueryFailed ''55P03'' ''canceling statement due to lock timeout'' \<longrightarrow> (\<exists>fe. r = Inl fe \<and> extractStatus fe = 409))"
proof (intro conjI allI impI)
  show "w' = w" using run handleCreationError_world [of e userId key w] by simp
next
  fix v assume r: "r = Inr v"
  obtain k where k: "truthy key = Some k" "findByIdempotencyKey k (w_db w) = Some v" "o_userId (ov_order v) = userId"
    "exn_code e = Some ''23505''"
    using handleCreationError_Inr [of e userId key w v w'] run r by auto
  then show "exn_code e = Some ''23505''" "o_userId (ov_order v) = userId" by auto
  have "key = Some k" using k(1) by (auto simp: truthy_def split: option.splits if_splits)
  moreover have "o_idempotencyKey (ov_order v) = Some k"
    using k(2) by (auto simp: findByIdempotencyKey_def load_order_def find_Some_iff)
  ultimately show "o_idempotencyKey (ov_order v) = key" by simp
next
  fix fe assume "r = Inl fe"
  then show "fe = e \<or> extractStatus fe = 409 \<or> (\<exists>m. fe = PlainError m)"
    using handleCreationError_Inl [of e userId key w fe w'] run by auto
next
  assume e: "e = QueryFailed ''55P03'' ''canceling statement due to lock timeout''"
  have "str_includes ''statement timeout'' ''canceling statement due to lock timeout'' = False" by code_simp
  then show "\<exists>fe. r = Inl fe \<and> extractStatus fe = 409"
    using run e by (auto simp: handleCreationError_def Let_def split: option.splits)
qed

lemma handleCreationError_safe_witness:
  "\<exists>r w'. handleCreationError (QueryFailed ''55P03'' ''canceling statement due to lock timeout'') ''u1'' None sample_world = (r, w') \<and>
     (\<exists>fe. r = Inl fe \<and> extractStatus fe = 409)"
proof -
  obtain r w' where run: "handleCreationError (QueryFailed ''55P03'' ''canceling statement due to lock timeout'') ''u1'' None sample_world = (r, w')"
    by fastforce
  show ?thesis using handleCreationError_safe [OF run] run by blast
qed

end
