(* ===== verification/Orders_Cancel.thy ===== *)
theory Orders_Cancel
  imports Orders_Command_Theorems
begin

text \<open>
  Cancelling an order: who may, from which states, what it gives back, and that it undoes
  what creating the order took.
\<close>

text \<open>What an order holds of the stock, read from its item rows.\<close>
definition order_qty :: "db \<Rightarrow> uuid \<Rightarrow> stock_item list" where
  "order_qty d k = map (\<lambda>it. \<lparr>si_productId = oi_productId it, si_quantity = oi_quantity it\<rparr>) (items_of d k)"

lemma items_stock_load_order [simp]: "items_stock (ov_items (load_order b d r)) = order_qty d (o_id r)"
  by (simp add: items_stock_def load_order_def order_qty_def comp_def)

lemma ov_order_load_order [simp]: "ov_order (load_order b d r) = r"
  by (simp add: load_order_def)

lemma executeCancelTransaction_Inr:
  assumes run: "executeCancelTransaction E orderId userId w = (Inr v, w')"
  obtains r w1 where "look_order (w_db w) orderId = Some r" "o_userId r = userId"
    "o_status r \<in> {PAID, PENDING, PROCESSED}"
    "lockAndRestore E (order_qty (w_db w) orderId) (js_uniq (map si_productId (order_qty (w_db w) orderId))) w = (Inr (), w1)"
    "w' = db_update (put_order (w_now w1) (r\<lparr>o_status := CANCELLED\<rparr>)) w1"
    "findByIdWithItemRelations orderId (w_db w') = Some v"
proof -
  obtain r where r: "look_order (w_db w) orderId = Some r" and own: "o_userId r = userId"
    using run
    by (auto simp: executeCancelTransaction_def transaction_Inr bind_s_eq_Inr assertOrderOwnership_def
        split: option.splits if_splits)
  have rid: "o_id r = orderId" using look_order_SomeD [OF r] by simp
  have st: "o_status r \<noteq> CANCELLED" "o_status r \<noteq> CREATED"
    using run r own
    by (auto simp: executeCancelTransaction_def transaction_Inr assertOrderOwnership_def)
  obtain w1 where res: "lockAndRestore E (order_qty (w_db w) orderId) (js_uniq (map si_productId (order_qty (w_db w) orderId))) w = (Inr (), w1)"
    and w': "w' = db_update (put_order (w_now w1) (r\<lparr>o_status := CANCELLED\<rparr>)) w1"
    and v: "v = load_order False (put_order (w_now w1) (r\<lparr>o_status := CANCELLED\<rparr>) (w_db w1))
       (stored_order (w_now w1) (w_db w1) (r\<lparr>o_status := CANCELLED\<rparr>))"
    using run r own st rid
    by (auto simp: executeCancelTransaction_def transaction_Inr assertOrderOwnership_def
        findByIdWithItemRelations_def bind_s_eq_Inr Let_def look_put_order comp_def)
  have f: "findByIdWithItemRelations orderId (w_db w') = Some v"
    by (simp add: findByIdWithItemRelations_def look_put_order w' v rid)
  have st': "o_status r \<in> {PAID, PENDING, PROCESSED}" using st by (cases "o_status r") simp_all
  show thesis by (rule that [OF r own st' res w' f])
qed

text \<open>The database after a successful cancellation.\<close>
definition cancelled_from :: "world \<Rightarrow> uuid \<Rightarrow> uuid \<Rightarrow> world \<Rightarrow> bool" where
  "cancelled_from w userId orderId w' \<longleftrightarrow>
     (\<exists>r. look_order (w_db w) orderId = Some r \<and> o_userId r = userId \<and> o_status r \<in> {PAID, PENDING, PROCESSED} \<and>
        look_order (w_db w') orderId = Some (r\<lparr>o_status := CANCELLED, o_updatedAt := w_now w\<rparr>)) \<and>
     (\<forall>k. k \<noteq> orderId \<longrightarrow> look_order (w_db w') k = look_order (w_db w) k) \<and>
     order_items (w_db w') = order_items (w_db w) \<and>
     (\<forall>k. stock_of (w_db w') k = map_option
        (\<lambda>n. n + (if live_in (w_db w) k then qty_of k (order_qty (w_db w) orderId) else 0)) (stock_of (w_db w) k))"

lemma executeCancelTransaction_cancelled:
  assumes run: "executeCancelTransaction E orderId userId w = (Inr v, w')"
    and keyed: "products_keyed (w_db w)"
  shows "cancelled_from w userId orderId w' \<and> o_id (ov_order v) = orderId \<and> o_status (ov_order v) = CANCELLED \<and>
     o_userId (ov_order v) = userId \<and> items_stock (ov_items v) = order_qty (w_db w) orderId"
proof -
  obtain r w1 where r: "look_order (w_db w) orderId = Some r" "o_userId r = userId"
    "o_status r \<in> {PAID, PENDING, PROCESSED}"
    and res: "lockAndRestore E (order_qty (w_db w) orderId) (js_uniq (map si_productId (order_qty (w_db w) orderId))) w = (Inr (), w1)"
    and w': "w' = db_update (put_order (w_now w1) (r\<lparr>o_status := CANCELLED\<rparr>)) w1"
    and v: "findByIdWithItemRelations orderId (w_db w') = Some v"
    by (rule executeCancelTransaction_Inr [OF run])
  obtain ps where w1: "w1 = db_update (fold (put_product (w_now w)) ps) w"
    using lockAndRestore_Inr(1) [OF res keyed] by blast
  have rid: "o_id r = orderId" using look_order_SomeD [OF r(1)] by simp
  have ord: "look_order (w_db w1) k = look_order (w_db w) k" for k
    by (rule look_order_cong) (simp add: w1)
  have "look_order (w_db w1) orderId \<noteq> Some (r\<lparr>o_status := CANCELLED\<rparr>)"
    using r ord [of orderId] by (cases r) auto
  then have stored: "stored_order (w_now w1) (w_db w1) (r\<lparr>o_status := CANCELLED\<rparr>) = r\<lparr>o_status := CANCELLED, o_updatedAt := w_now w\<rparr>"
    by (simp add: stored_order_def rid w1)
  have look: "look_order (w_db w') k = (if k = orderId then Some (r\<lparr>o_status := CANCELLED, o_updatedAt := w_now w\<rparr>) else look_order (w_db w) k)" for k
    by (simp add: w' look_put_order stored ord rid)
  have its: "order_items (w_db w') = order_items (w_db w)" by (simp add: w' w1)
  have stk: "stock_of (w_db w') k = map_option
        (\<lambda>n. n + (if live_in (w_db w) k then qty_of k (order_qty (w_db w) orderId) else 0)) (stock_of (w_db w) k)" for k
  proof -
    have "stock_of (w_db w') k = stock_of (w_db w1) k" by (rule stock_of_cong) (simp add: w')
    then show ?thesis using lockAndRestore_stock [OF res keyed, of k] by simp
  qed
  have v': "v = load_order False (w_db w') (r\<lparr>o_status := CANCELLED, o_updatedAt := w_now w\<rparr>)"
    using v look by (simp add: findByIdWithItemRelations_def)
  have "items_stock (ov_items v) = order_qty (w_db w) orderId"
    using its rid by (simp add: v' order_qty_def items_of_def)
  then show ?thesis unfolding cancelled_from_def
    using r look its stk v' rid by auto
qed

lemma quiet_saveOrder [quiet_intros]: "quiet (saveOrder r)"
  unfolding saveOrder_def by (rule quiet_intros)

lemma quiet_if [quiet_intros]: "quiet a \<Longrightarrow> quiet b \<Longrightarrow> quiet (if c then a else b)"
  by simp

lemma quiet_case_option [quiet_intros]:
  "quiet a \<Longrightarrow> (\<And>x. quiet (b x)) \<Longrightarrow> quiet (case ov of None \<Rightarrow> a | Some x \<Rightarrow> b x)"
  by (cases ov) auto

lemma quiet_executeCancelTransaction [quiet_intros]: "quiet (executeCancelTransaction E orderId userId)"
  unfolding executeCancelTransaction_def Let_def by (intro quiet_intros)

text \<open>C5: A successful cancelOrder was asked by the owner of the order, found it PENDING,
  PROCESSED or PAID, and has set this order, and no other, to CANCELLED, kept its items, and
  given back to every live product exactly the quantity the order held; one cancellation
  event goes out to the caller.\<close>
theorem cancelOrder_success:
  assumes run: "cancelOrder E usr orderId ctx w = (Inr v, w')"
    and keyed: "products_keyed (w_db w)"
  shows "cancelled_from w (au_sub usr) orderId w' \<and> o_status (ov_order v) = CANCELLED \<and> o_id (ov_order v) = orderId \<and>
     w_events w' = w_events w @ [OrderCancelledEvent orderId (au_email usr)] \<and> w_published w' = w_published w"
proof -
  obtain w1 where tx: "executeCancelTransaction E orderId (au_sub usr) w = (Inr v, w1)"
    and w': "w' = audit E (audit_event ORDER_CANCELLED (Some (au_sub usr)) ctx AUDIT_SUCCESS (Some (o_id (ov_order v))) (Some ''Order''))
       (recordOrderCompleted E (order_status_str (o_status (ov_order v)))
         (w1\<lparr>w_events := w_events w1 @ [OrderCancelledEvent (o_id (ov_order v)) (au_email usr)]\<rparr>))"
    using run by (auto simp: cancelOrder_def bind_s_def split: prod.splits sum.splits)
  have out: "w_events w1 = w_events w" "w_published w1 = w_published w"
    using quietD [OF quiet_executeCancelTransaction tx] by (simp_all add: same_outside_def)
  have tabs: "orders (w_db w') = orders (w_db w1)" "products (w_db w') = products (w_db w1)"
    "order_items (w_db w') = order_items (w_db w1)" by (simp_all add: w')
  note c = executeCancelTransaction_cancelled [OF tx keyed]
  have "cancelled_from w (au_sub usr) orderId w'"
    using c look_order_cong [OF tabs(1)] stock_of_cong [OF tabs(2)] tabs(3) by (simp add: cancelled_from_def)
  then show ?thesis using c out by (auto simp: w')
qed

lemma cancelOrder_success_witness:
  "\<exists>v w'. cancelOrder sample_env \<lparr>au_sub = ''u1'', au_email = ''a@b''\<rparr> ''o1'' None (world_of (sample_db_ordered PAID) ChannelOpen) = (Inr v, w') \<and>
     stock_of (w_db w') ''p1'' = Some 7"
proof -
  let ?w = "world_of (sample_db_ordered PAID) ChannelOpen" and ?u = "\<lparr>au_sub = ''u1'', au_email = ''a@b''\<rparr>"
  have ok: "\<not> isl (fst (cancelOrder sample_env ?u ''o1'' None ?w))" by code_simp
  have keyed: "products_keyed (w_db ?w)" by code_simp
  have 5: "stock_of (w_db ?w) ''p1'' = Some 5" by code_simp
  have 2: "live_in (w_db ?w) ''p1'' \<and> qty_of ''p1'' (order_qty (w_db ?w) ''o1'') = 2" by code_simp
  obtain v w' where run: "cancelOrder sample_env ?u ''o1'' None ?w = (Inr v, w')" by (rule not_isl_fstE [OF ok])
  show ?thesis using cancelOrder_success [OF run keyed] run 5 2 by (auto simp: cancelled_from_def)
qed

text \<open>A refused cancellation changes nothing in the database and emits nothing: it is 404
  for an unknown order and, in the same way, for another customer's order, 409 for one already
  cancelled, 400 for one in state CREATED.\<close>
theorem cancelOrder_refused:
  assumes run: "cancelOrder E usr orderId ctx w = (Inl e, w')"
  shows "w_db w' = w_db w \<and> w_events w' = w_events w \<and> w_published w' = w_published w \<and>
     (case look_order (w_db w) orderId of
        None \<Rightarrow> extractStatus e = 404
      | Some r \<Rightarrow> (if o_userId r \<noteq> au_sub usr then extractStatus e = 404
          else if o_status r = CANCELLED then extractStatus e = 409
          else if o_status r = CREATED then extractStatus e = 400 else True))"
proof -
  have tx: "executeCancelTransaction E orderId (au_sub usr) w = (Inl e, w')"
    using run by (auto simp: cancelOrder_def bind_s_def split: prod.splits sum.splits)
  have db: "w_db w' = w_db w" using tx transaction_Inl unfolding executeCancelTransaction_def by blast
  have out: "w_events w' = w_events w" "w_published w' = w_published w"
    using quietD [OF quiet_executeCancelTransaction tx] by (simp_all add: same_outside_def)
  have st: "case look_order (w_db w) orderId of
        None \<Rightarrow> extractStatus e = 404
      | Some r \<Rightarrow> (if o_userId r \<noteq> au_sub usr then extractStatus e = 404
          else if o_status r = CANCELLED then extractStatus e = 409
          else if o_status r = CREATED then extractStatus e = 400 else True)"
    using tx
    by (auto simp: executeCancelTransaction_def transaction_eq_Inl assertOrderOwnership_def
        split: option.split if_splits)
  show ?thesis using db out st by simp
qed

lemma cancelOrder_refused_witness:
  "\<exists>e w'. cancelOrder sample_env \<lparr>au_sub = ''u2'', au_email = ''c@d''\<rparr> ''o1'' None (world_of (sample_db_ordered PAID) ChannelOpen) = (Inl e, w') \<and>
     extractStatus e = 404"
proof -
  let ?w = "world_of (sample_db_ordered PAID) ChannelOpen" and ?u = "\<lparr>au_sub = ''u2'', au_email = ''c@d''\<rparr>"
  have ok: "isl (fst (cancelOrder sample_env ?u ''o1'' None ?w))" by code_simp
  have look: "look_order (w_db ?w) ''o1'' = Some (sample_order ''o1'' ''u1'' PAID (Some ''key''))"
    by (simp add: look_order_def sample_defs)
  obtain e w' where run: "cancelOrder sample_env ?u ''o1'' None ?w = (Inl e, w')" by (rule isl_fstE [OF ok])
  show ?thesis using cancelOrder_refused [OF run] run look by (auto simp: sample_order_def)
qed

section \<open>Cancelling undoes creating\<close>

lemma look_order_new:
  assumes "orders d' = orders d @ [row]" and "o_id row \<notin> o_id ` set (orders d)"
  shows "look_order d' (o_id row) = Some row"
proof -
  have "find_row o_id (o_id row) (orders d) = None" using assms(2) by (simp add: find_row_None)
  then show ?thesis by (simp add: look_order_def assms(1) find_row_append)
qed

lemma order_qty_new:
  assumes "order_items d' = order_items d @ map fst its" and "i \<notin> oi_orderId ` set (order_items d)"
    and "\<forall>it \<in> fst ` set its. oi_orderId it = i"
  shows "order_qty d' i = items_stock its"
proof -
  have 1: "filter (\<lambda>it. oi_orderId it = i) (order_items d) = []"
    using assms(2) by (auto simp: filter_empty_conv)
  have 2: "filter (\<lambda>it. oi_orderId it = i) (map fst its) = map fst its"
    using assms(3) by (intro filter_True) auto
  have "items_of d' i = map fst its" by (simp add: items_of_def assms(1) 1 2)
  then show ?thesis by (simp add: order_qty_def items_stock_def case_prod_unfold comp_def)
qed

lemma live_in_created:
  assumes run: "executeOrderTransaction E dto usr ids w = (Inr v, w')" and keyed: "products_keyed (w_db w)"
    and it: "it \<in> set (co_items dto)"
  shows "live_in (w_db w') (si_productId it)"
proof -
  obtain m w1 where lvd: "lockValidateAndDecrement E (co_items dto) ids w = (Inr m, w1)"
    and prod: "products (w_db w') = products (w_db w1)"
    by (rule executeOrderTransaction_Inr [OF run]) simp
  obtain p where p: "look_product (w_db w) (si_productId it) = Some p" "live_product p" "si_productId it \<in> set ids"
    using lockValidate_all_live [OF lockValidateAndDecrement_Inr(2) [OF lvd keyed] keyed it] by auto
  have "look_product (w_db w') (si_productId it) = look_product (w_db w1) (si_productId it)"
    by (rule look_product_cong [OF prod])
  then show ?thesis using lockValidateAndDecrement_Inr(4) [OF lvd keyed, of "si_productId it"] p
    by (simp add: live_in_def)
qed

text \<open>C6: Creating an order and cancelling it gives every product its stock back: after any
  successful creation and any later successful cancellation of that order with no change to the
  shop in between, every stock is what it was before the order.\<close>
theorem create_then_cancel_restores_stock:
  assumes create: "executeOrderTransaction E dto usr ids w = (Inr v, w1)"
    and keyed: "products_keyed (w_db w)"
    and fresh: "o_id (ov_order v) \<notin> o_id ` set (orders (w_db w))" "o_id (ov_order v) \<notin> oi_orderId ` set (order_items (w_db w))"
    and same: "same_shop (w_db w1) (w_db w2)"
    and cancel: "executeCancelTransaction E2 (o_id (ov_order v)) userId w2 = (Inr v2, w3)"
  shows "stock_of (w_db w3) k = stock_of (w_db w) k \<and> userId = o_userId (ov_order v)"
proof -
  let ?i = "o_id (ov_order v)"
  have c: "created_view E w dto usr v w1" by (rule executeOrderTransaction_created [OF create keyed])
  obtain m wm where lvd: "lockValidateAndDecrement E (co_items dto) ids w = (Inr m, wm)"
    and prod: "products (w_db w1) = products (w_db wm)"
    by (rule executeOrderTransaction_Inr [OF create]) simp
  have keyed1: "products_keyed (w_db w1)"
  proof -
    obtain ps where "wm = db_update (fold (put_product (w_now w)) ps) w" using lvd_world [OF lvd keyed] by blast
    then show ?thesis using prod products_keyed_fold [OF keyed, of "w_now w" ps] by (simp add: products_keyed_def)
  qed
  have keyed2: "products_keyed (w_db w2)" using keyed1 same by (simp add: products_keyed_def same_shop_def)
  have look: "look_order (w_db w2) ?i = Some (ov_order v)"
    using look_order_new [of "w_db w1" "w_db w" "ov_order v"] c fresh(1) same
      look_order_cong [of "w_db w2" "w_db w1" ?i] by (simp add: created_view_def same_shop_def)
  have qty: "order_qty (w_db w2) ?i = co_items dto"
  proof -
    have "order_qty (w_db w1) ?i = items_stock (ov_items v)"
      by (rule order_qty_new [of _ "w_db w"]) (use c fresh(2) in \<open>auto simp: created_view_def\<close>)
    moreover have "order_qty (w_db w2) ?i = order_qty (w_db w1) ?i"
      using same by (simp add: order_qty_def items_of_def same_shop_def)
    ultimately show ?thesis using c by (simp add: created_view_def)
  qed
  have cc: "cancelled_from w2 userId ?i w3"
    using executeCancelTransaction_cancelled [OF cancel keyed2] by simp
  have s12: "stock_of (w_db w2) k = stock_of (w_db w1) k"
    using same by (intro stock_of_cong) (simp add: same_shop_def)
  have s1: "stock_of (w_db w1) k = map_option (\<lambda>n. n - qty_of k (co_items dto)) (stock_of (w_db w) k)"
    using c by (simp add: created_view_def)
  have s3: "stock_of (w_db w3) k = map_option
      (\<lambda>n. n + (if live_in (w_db w2) k then qty_of k (co_items dto) else 0)) (stock_of (w_db w2) k)"
    using cc by (simp add: cancelled_from_def qty)
  have live: "live_in (w_db w2) k \<or> qty_of k (co_items dto) = 0"
  proof (cases "k \<in> si_productId ` set (co_items dto)")
    case True
    then have "live_in (w_db w1) k" using live_in_created [OF create keyed] by auto
    then show ?thesis using same look_product_cong [of "w_db w2" "w_db w1" k] by (simp add: live_in_def same_shop_def)
  qed (simp add: qty_of_absent)
  have "stock_of (w_db w3) k = stock_of (w_db w) k"
    using s12 s1 s3 live by (cases "stock_of (w_db w) k") auto
  moreover have "userId = o_userId (ov_order v)" using cc look by (auto simp: cancelled_from_def)
  ultimately show ?thesis by simp
qed

lemma create_then_cancel_restores_stock_witness:
  "\<exists>v w1 v2 w3. executeOrderTransaction sample_env (order_dto None [(''p1'', 2), (''p1'', 1), (''p2'', 1)]) (sample_user ''u1'' ''a@b'') [''p1'', ''p2''] sample_world = (Inr v, w1) \<and>
     executeCancelTransaction sample_env (o_id (ov_order v)) ''u1'' w1 = (Inr v2, w3) \<and>
     stock_of (w_db w3) ''p1'' = Some 5"
proof -
  let ?dto = "order_dto None [(''p1'', 2), (''p1'', 1), (''p2'', 1)]"
  let ?tx = "executeOrderTransaction sample_env ?dto (sample_user ''u1'' ''a@b'') [''p1'', ''p2''] sample_world"
  have ok: "\<not> isl (fst ?tx)" by code_simp
  obtain v w1 where create: "?tx = (Inr v, w1)" by (rule not_isl_fstE [OF ok])
  have "\<not> isl (fst (executeCancelTransaction sample_env (o_id (ov_order (projr (fst ?tx)))) ''u1'' (snd ?tx)))"
    by code_simp
  then have ok2: "\<not> isl (fst (executeCancelTransaction sample_env (o_id (ov_order v)) ''u1'' w1))"
    by (simp add: create)
  obtain v2 w3 where cancel: "executeCancelTransaction sample_env (o_id (ov_order v)) ''u1'' w1 = (Inr v2, w3)"
    by (rule not_isl_fstE [OF ok2])
  have keyed: "products_keyed (w_db sample_world)" by code_simp
  have fresh: "o_id (ov_order v) \<notin> o_id ` set (orders (w_db sample_world))"
    "o_id (ov_order v) \<notin> oi_orderId ` set (order_items (w_db sample_world))" by (simp_all add: sample_defs)
  have 5: "stock_of (w_db sample_world) ''p1'' = Some 5" by code_simp
  show ?thesis
    using create_then_cancel_restores_stock [OF create keyed fresh same_shop_refl cancel, of "''p1''"] create cancel 5 by auto
qed

end
