(* ===== verification/Payments_Client.thy ===== *)
theory Payments_Client
  imports Observability Exception_Filter Sample_World
begin

text \<open>
  \<^verbatim>\<open>payments/\<close> of the shop: the calls to the payments service over gRPC. What a call comes
  back with (the circuit breaker, the deadline and the network are libraries) is a parameter;
  modelled are the metrics, the translation of every failure to an HTTP error, and the
  choice and caching of the endpoint.
\<close>

record authorize_request =
  ar_amount :: "rat option"
  ar_currency :: string
  ar_orderId :: string

record authorize_response =
  as_paymentId :: string
  as_status :: string

text \<open>What \<^verbatim>\<open>breaker.fire\<close> settles with.\<close>
type_synonym 'q fire = "'q \<Rightarrow> world \<Rightarrow> exn + authorize_response"

section \<open>Errors\<close>

text \<open>gRPC status codes: 3 INVALID_ARGUMENT, 4 DEADLINE_EXCEEDED, 5 NOT_FOUND, 6 ALREADY_EXISTS,
  14 UNAVAILABLE.\<close>
definition mapGrpcError :: "exn \<Rightarrow> exn" where
  "mapGrpcError err =
    (let message = (case exn_message err of Some m \<Rightarrow> m | None \<Rightarrow> ''Payment service error'');
         code = (case err of GrpcExn c _ \<Rightarrow> Some c | _ \<Rightarrow> None)
     in if code = Some 5 then http_exn NotFound message
        else if code = Some 3 then http_exn BadRequest message
        else if code = Some 6 then http_exn Conflict message
        else if code = Some 14 then http_exn ServiceUnavailable ''Payment service is unavailable''
        else if code = Some 4 then http_exn GatewayTimeout ''Payment service request timed out''
        else http_exn ServiceUnavailable message)"

definition recordClientMetrics :: "env \<Rightarrow> string \<Rightarrow> string \<Rightarrow> world \<Rightarrow> world" where
  "recordClientMetrics E meth result w =
     recordGrpcDuration E (e_duration E w) meth ''payments'' (recordGrpcRequest E meth result ''payments'' w)"

definition grpc_call :: "env \<Rightarrow> string \<Rightarrow> string \<Rightarrow> exn + authorize_response \<Rightarrow> authorize_response act" where
  "grpc_call E meth timeoutMsg outcome w = (case outcome of
     Inr resp \<Rightarrow> (Inr resp, recordClientMetrics E meth ''success'' w)
   | Inl err \<Rightarrow>
       if err = RxTimeout then (Inl (http_exn GatewayTimeout timeoutMsg), recordClientMetrics E meth ''timeout'' w)
       else (Inl (if exn_code err = Some ''EOPENBREAKER''
                  then http_exn ServiceUnavailable ''Payment service unavailable'' else mapGrpcError err),
             recordClientMetrics E meth ''error'' w))"

definition grpc_authorize :: "env \<Rightarrow> authorize_request fire \<Rightarrow> authorize_request \<Rightarrow> authorize_response act" where
  "grpc_authorize E fire req w = grpc_call E ''authorize'' ''Payment authorization timed out'' (fire req w) w"

definition grpc_getPaymentStatus :: "env \<Rightarrow> string fire \<Rightarrow> string \<Rightarrow> authorize_response act" where
  "grpc_getPaymentStatus E fire paymentId w =
     (if paymentId = [] then (Inl (http_exn BadRequest ''paymentId is required''), w)
      else grpc_call E ''getPaymentStatus'' ''Get payment status timed out'' (fire paymentId w) w)"

section \<open>Endpoint resolution\<close>

record srv_record =
  sr_name :: string
  sr_port :: nat
  sr_priority :: nat
  sr_weight :: nat

text \<open>\<^verbatim>\<open>left.priority - right.priority || right.weight - left.weight\<close>.\<close>
definition compareSrvRecords :: "srv_record \<Rightarrow> srv_record \<Rightarrow> int" where
  "compareSrvRecords l r = (let d = int (sr_priority l) - int (sr_priority r)
     in if d \<noteq> 0 then d else int (sr_weight r) - int (sr_weight l))"

text \<open>The first element of the (stable) sort.\<close>
fun first_by :: "('a \<Rightarrow> 'a \<Rightarrow> int) \<Rightarrow> 'a \<Rightarrow> 'a list \<Rightarrow> 'a" where
  "first_by cmp best [] = best"
| "first_by cmp best (x # xs) = first_by cmp (if cmp x best < 0 then x else best) xs"

definition strip_final_dot :: "string \<Rightarrow> string" where
  "strip_final_dot s = (if s \<noteq> [] \<and> last s = CHR ''.'' then butlast s else s)"

text \<open>The lookup gives records or fails; every failure falls back to the configured endpoint.\<close>
definition resolvePaymentsGrpcUrl :: "string \<Rightarrow> nat \<Rightarrow> exn + srv_record list \<Rightarrow> string" where
  "resolvePaymentsGrpcUrl host port lookup =
     (let configured = host @ '':'' @ nat_str port in
      case lookup of
        Inl _ \<Rightarrow> configured
      | Inr [] \<Rightarrow> configured
      | Inr (r # rs) \<Rightarrow> (let b = first_by compareSrvRecords r rs
          in strip_final_dot (sr_name b) @ '':'' @ nat_str (sr_port b)))"

text \<open>The cached low-level client, by the URL it dials; the log lists the clients closed.\<close>
record grpc_client_cache =
  gc_cached :: "string option"
  gc_closed :: "string list"

definition getClient :: "string \<Rightarrow> grpc_client_cache \<Rightarrow> string \<times> grpc_client_cache" where
  "getClient url c = (if gc_cached c = Some url then (url, c)
     else (url, \<lparr>gc_cached = Some url,
                gc_closed = gc_closed c @ (case gc_cached c of Some u \<Rightarrow> [u] | None \<Rightarrow> [])\<rparr>))"

section \<open>Facts\<close>

lemma only_metrics_recordClientMetrics [simp]: "only_metrics (recordClientMetrics E m r)"
  using only_metrics_dep [where f = "\<lambda>d. recordGrpcDuration E d m ''payments''" and h = "e_duration E"
      and g = "recordGrpcRequest E m r ''payments''"]
  by (simp add: recordClientMetrics_def [abs_def])

lemmas client_metrics_frame [simp] = only_metrics_frame [OF only_metrics_recordClientMetrics]

lemma grpc_authorize_Inr:
  "grpc_authorize E fire req w = (Inr resp, w') \<longleftrightarrow>
     fire req w = Inr resp \<and> w' = recordClientMetrics E ''authorize'' ''success'' w"
  by (auto simp: grpc_authorize_def grpc_call_def split: sum.splits if_splits)

lemma grpc_authorize_frame:
  assumes "grpc_authorize E fire req w = (r, w')"
  shows "w_db w' = w_db w" "w_events w' = w_events w" "w_published w' = w_published w"
    "w_channel w' = w_channel w" "w_now w' = w_now w"
  using assms by (auto simp: grpc_authorize_def grpc_call_def split: sum.splits if_splits)

lemma first_by_in: "first_by cmp b xs \<in> insert b (set xs)"
  by (induction cmp b xs rule: first_by.induct) auto

definition srv_le :: "srv_record \<Rightarrow> srv_record \<Rightarrow> bool" where
  "srv_le a b \<longleftrightarrow> sr_priority a < sr_priority b \<or> (sr_priority a = sr_priority b \<and> sr_weight a \<ge> sr_weight b)"

lemma srv_le_trans: "srv_le a b \<Longrightarrow> srv_le b c \<Longrightarrow> srv_le a c"
  by (auto simp: srv_le_def)

lemma compare_neg: "compareSrvRecords x b < 0 \<longleftrightarrow> \<not> srv_le b x"
  by (auto simp: compareSrvRecords_def srv_le_def Let_def)

lemma srv_le_total: "\<not> srv_le b x \<Longrightarrow> srv_le x b"
  by (auto simp: srv_le_def)

lemma first_by_best: "\<forall>x \<in> insert b (set xs). srv_le (first_by compareSrvRecords b xs) x"
proof (induction xs arbitrary: b)
  case (Cons x xs)
  let ?b = "if compareSrvRecords x b < 0 then x else b"
  have b: "srv_le ?b b" "srv_le ?b x"
    using srv_le_total [of b x] by (auto simp: compare_neg srv_le_def [of b b] srv_le_def [of x x])
  have ih: "\<forall>y \<in> insert ?b (set xs). srv_le (first_by compareSrvRecords ?b xs) y" by (rule Cons.IH)
  have best: "srv_le (first_by compareSrvRecords ?b xs) ?b" using ih by blast
  have "srv_le (first_by compareSrvRecords ?b xs) b" "srv_le (first_by compareSrvRecords ?b xs) x"
    by (rule srv_le_trans [OF best b(1)], rule srv_le_trans [OF best b(2)])
  then show ?case using ih by simp
qed (simp add: srv_le_def)

text \<open>The endpoint dialled is that of a record of the lowest priority number and, among
  those, of the highest weight; without records the configured one.\<close>
theorem resolve_picks_best_record:
  assumes "rs \<noteq> []"
  shows "\<exists>b \<in> set rs. (\<forall>x \<in> set rs. srv_le b x) \<and>
     resolvePaymentsGrpcUrl host port (Inr rs) = strip_final_dot (sr_name b) @ '':'' @ nat_str (sr_port b)"
proof -
  obtain r rest where rs: "rs = r # rest" using assms by (cases rs) auto
  let ?b = "first_by compareSrvRecords r rest"
  have "?b \<in> set rs" using first_by_in [of compareSrvRecords r rest] by (simp add: rs)
  moreover have "\<forall>x \<in> set rs. srv_le ?b x" using first_by_best [of r rest] by (simp add: rs)
  ultimately show ?thesis by (intro bexI [of _ ?b]) (simp_all add: resolvePaymentsGrpcUrl_def rs Let_def)
qed

lemma resolve_picks_best_record_witness:
  "resolvePaymentsGrpcUrl ''h'' 5001 (Inr [\<lparr>sr_name = ''a.'', sr_port = 1, sr_priority = 2, sr_weight = 9\<rparr>,
     \<lparr>sr_name = ''b.'', sr_port = 2, sr_priority = 1, sr_weight = 1\<rparr>]) = ''b:2''"
proof -
  let ?rs = "[\<lparr>sr_name = ''a.'', sr_port = 1, sr_priority = 2, sr_weight = 9\<rparr>,
     \<lparr>sr_name = ''b.'', sr_port = 2, sr_priority = 1, sr_weight = 1\<rparr>]"
  have two: "strip_final_dot ''b.'' @ '':'' @ nat_str 2 = ''b:2''" by code_simp
  show ?thesis using resolve_picks_best_record [of ?rs "''h''" 5001] two by (auto simp: srv_le_def)
qed

text \<open>Every failure of a payment call reaches the caller as one of the five HTTP errors the
  mapping knows, never as a driver error; only its own deadline and the server's are answered
  with 504.\<close>
theorem grpc_authorize_errors:
  assumes "grpc_authorize E fire req w = (Inl e, w')"
  shows "w_db w' = w_db w \<and> is_http e \<and> extractStatus e \<in> {400, 404, 409, 503, 504} \<and>
     (extractStatus e = 504 \<longleftrightarrow> fire req w = Inl RxTimeout \<or> (\<exists>m. fire req w = Inl (GrpcExn 4 m)))"
proof -
  obtain err where err: "fire req w = Inl err"
    using assms by (auto simp: grpc_authorize_def grpc_call_def split: sum.splits)
  have db: "w_db w' = w_db w" by (rule grpc_authorize_frame(1) [OF assms])
  have st: "extractStatus (http_exn c m) = http_status c" "is_http (http_exn c m)" for c m
    by (simp, simp add: http_exn_def)
  have e: "e = (if err = RxTimeout then http_exn GatewayTimeout ''Payment authorization timed out''
      else if exn_code err = Some ''EOPENBREAKER'' then http_exn ServiceUnavailable ''Payment service unavailable''
      else mapGrpcError err)"
    using assms err by (auto simp: grpc_authorize_def grpc_call_def split: if_splits)
  show ?thesis
    unfolding e err using db by (cases err) (auto simp: mapGrpcError_def Let_def st)
qed

lemma grpc_authorize_errors_witness:
  "\<exists>e w'. grpc_authorize sample_env (\<lambda>_ _. Inl (GrpcExn 4 ''late''))
       \<lparr>ar_amount = Some 5, ar_currency = ''USD'', ar_orderId = ''o1''\<rparr> sample_world = (Inl e, w') \<and> extractStatus e = 504"
proof -
  let ?fire = "\<lambda>_ _. Inl (GrpcExn 4 ''late'')" and ?req = "\<lparr>ar_amount = Some 5, ar_currency = ''USD'', ar_orderId = ''o1''\<rparr>"
  obtain e w' where run: "grpc_authorize sample_env ?fire ?req sample_world = (Inl e, w')"
    by (auto simp: grpc_authorize_def grpc_call_def)
  show ?thesis using grpc_authorize_errors [OF run] run by auto
qed

end
