(* ===== verification/JsNumber.thy ===== *)
theory JsNumber
  imports Prelude Complex_Main "HOL-Library.Log_Nat"
begin

text \<open>
  JavaScript numbers as far as the sources compute with money: a double is a rational
  rounded to 53 significant bits, ties to even. Overflow and subnormal numbers are out of
  reach (prices are numeric(12,2)) and not modelled. \<^verbatim>\<open>parseFloat\<close> reads an optional sign,
  digits and a fraction, which is what PostgreSQL prints for a numeric column; exponents
  do not occur there. \<^verbatim>\<open>Math.round\<close> and \<^verbatim>\<open>toFixed(2)\<close> follow the language standard.
  The lemmas bound the rounding error of each operation by 2^-53 relatively.
\<close>

section \<open>Rounding to a double\<close>

definition pow2 :: "int \<Rightarrow> rat" where
  "pow2 e = (if 0 \<le> e then 2 ^ nat e else 1 / 2 ^ nat (- e))"

text \<open>Nearest integer, ties to even.\<close>
definition rne :: "rat \<Rightarrow> int" where
  "rne y = (let f = floor y; r = y - of_int f in
     if r < 1 / 2 then f else if r > 1 / 2 then f + 1 else if even f then f else f + 1)"

text \<open>The binary exponent of a number that is not zero.\<close>
definition expo :: "rat \<Rightarrow> int" where
  "expo x = (let (n, d) = quotient_of (abs x); e = bitlen n - bitlen d
             in if pow2 e \<le> abs x then e else e - 1)"

definition fl :: "rat \<Rightarrow> rat" where
  "fl x = (if x = 0 then 0 else let u = pow2 (expo x - 52) in of_int (rne (x / u)) * u)"

text \<open>The arithmetic operations on doubles.\<close>
definition jadd :: "rat \<Rightarrow> rat \<Rightarrow> rat" where "jadd a b = fl (a + b)"
definition jmul :: "rat \<Rightarrow> rat \<Rightarrow> rat" where "jmul a b = fl (a * b)"
definition jdiv :: "rat \<Rightarrow> rat \<Rightarrow> rat" where "jdiv a b = fl (a / b)"

definition math_round :: "rat \<Rightarrow> int" where
  "math_round x = floor (x + 1 / 2)"

section \<open>Text\<close>

definition is_digit :: "char \<Rightarrow> bool" where
  "is_digit c = (digit_val c \<noteq> None)"

definition digits_num :: "string \<Rightarrow> nat" where
  "digits_num s = (case digits_val 0 s of Some n \<Rightarrow> n | None \<Rightarrow> 0)"

definition parseFloat :: "string \<Rightarrow> rat option" where
  "parseFloat s0 = (let s = dropWhile (\<lambda>c. c = CHR '' '') s0;
       neg = (case s of c # _ \<Rightarrow> c = CHR ''-'' | [] \<Rightarrow> False);
       t = (case s of c # r \<Rightarrow> if c = CHR ''-'' \<or> c = CHR ''+'' then r else s | [] \<Rightarrow> []);
       whole = takeWhile is_digit t;
       rest = dropWhile is_digit t;
       frac = (case rest of c # r \<Rightarrow> if c = CHR ''.'' then takeWhile is_digit r else [] | [] \<Rightarrow> []);
       v = of_nat (digits_num whole) + of_nat (digits_num frac) / 10 ^ length frac
     in if whole = [] \<and> frac = [] then None else Some (fl (if neg then - v else v)))"

text \<open>Cents printed with two decimals.\<close>
definition cents_str :: "nat \<Rightarrow> string" where
  "cents_str n = nat_str (n div 100) @ CHR ''.'' # [char_of (48 + n div 10 mod 10), char_of (48 + n mod 10)]"

text \<open>\<^verbatim>\<open>x.toFixed(2)\<close>: the integer n with n/100 closest to x, the larger one on a tie.\<close>
definition toFixed2 :: "rat \<Rightarrow> string" where
  "toFixed2 x = (if x < 0 then CHR ''-'' # cents_str (nat (floor (- x * 100 + 1 / 2)))
                 else cents_str (nat (floor (x * 100 + 1 / 2))))"

section \<open>Error bounds\<close>

lemma pow2_powi: "pow2 e = 2 powi e"
  by (simp add: pow2_def power_int_def power_one_over inverse_eq_divide)

lemma pow2_pos [simp]: "0 < pow2 e"
  by (simp add: pow2_def)

lemma pow2_nonzero [simp]: "pow2 e \<noteq> 0"
  using pow2_pos [of e] by linarith

lemma pow2_add: "pow2 (a + b) = pow2 a * pow2 b"
  by (simp add: pow2_powi power_int_add)

lemma pow2_mono: "a \<le> b \<Longrightarrow> pow2 a \<le> pow2 b"
  by (simp add: pow2_powi power_int_increasing)

lemma rne_err: "\<bar>of_int (rne y) - y\<bar> \<le> 1 / 2"
proof -
  define r where "r = y - of_int (floor y)"
  have r: "0 \<le> r" "r < 1" unfolding r_def by linarith+
  have rn: "rne y = (if r < 1 / 2 then floor y else if r > 1 / 2 then floor y + 1
      else if even (floor y) then floor y else floor y + 1)"
    by (simp add: rne_def Let_def r_def)
  have y: "y = of_int (floor y) + r" by (simp add: r_def)
  have "rne y = floor y \<and> r \<le> 1 / 2 \<or> rne y = floor y + 1 \<and> 1 / 2 \<le> r"
    unfolding rn by (cases "r < 1 / 2"; cases "r > 1 / 2"; cases "even (floor y)") auto
  then show ?thesis
  proof
    assume a: "rne y = floor y \<and> r \<le> 1 / 2"
    then have "of_int (rne y) - y = - r" using y by simp
    then show ?thesis using a r by simp
  next
    assume a: "rne y = floor y + 1 \<and> 1 / 2 \<le> r"
    then have "of_int (rne y) - y = 1 - r" using y by simp
    then show ?thesis using a r by simp
  qed
qed

lemma rne_of_int: "rne (of_int n) = n"
  by (simp add: rne_def)

lemma expo_le:
  assumes "x \<noteq> 0"
  shows "pow2 (expo x) \<le> \<bar>x\<bar>"
proof -
  obtain n d where q: "quotient_of \<bar>x\<bar> = (n, d)" by fastforce
  have d: "0 < d" using quotient_of_denom_pos [OF q] .
  have x: "\<bar>x\<bar> = of_int n / of_int d" using quotient_of_div [OF q] .
  have "0 < (of_int n :: rat) / of_int d" using assms x by simp
  then have n: "0 < n" using d by (simp add: zero_less_divide_iff)
  define e where "e = bitlen n - bitlen d"
  have nb: "2 ^ nat (bitlen n - 1) \<le> n" using bitlen_bounds [OF n] by simp
  have db: "d < 2 ^ nat (bitlen d)" using bitlen_bounds [OF d] by simp
  have bn: "0 < bitlen n" "0 < bitlen d"
    using n d bitlen_nonneg [of n] bitlen_nonneg [of d] bitlen_eq_zero_iff [of n] bitlen_eq_zero_iff [of d]
    by linarith+
  have "pow2 (bitlen n - 1) \<le> of_int n"
    using nb bn of_int_le_iff [of "2 ^ nat (bitlen n - 1)" n, where ?'a = rat] by (simp add: pow2_def)
  moreover have "of_int d \<le> pow2 (bitlen d)"
    using db bn of_int_less_iff [of d "2 ^ nat (bitlen d)", where ?'a = rat] by (simp add: pow2_def)
  ultimately have "pow2 (bitlen n - 1) * of_int d \<le> of_int n * pow2 (bitlen d)"
    using d n by (intro mult_mono) auto
  moreover have "pow2 (bitlen n - 1) = pow2 (e - 1) * pow2 (bitlen d)"
    by (simp add: e_def flip: pow2_add)
  ultimately have "pow2 (e - 1) * of_int d * pow2 (bitlen d) \<le> of_int n * pow2 (bitlen d)"
    by (simp add: mult.commute mult.left_commute)
  then have "pow2 (e - 1) * of_int d \<le> of_int n" by simp
  then have "pow2 (e - 1) \<le> \<bar>x\<bar>" using d by (simp add: x pos_le_divide_eq)
  then show ?thesis by (simp add: expo_def q Let_def e_def)
qed

lemma fl_err: "\<bar>fl x - x\<bar> \<le> \<bar>x\<bar> / 2 ^ 53"
proof (cases "x = 0")
  case False
  define u where "u = pow2 (expo x - 52)"
  have u: "0 < u" by (simp add: u_def)
  have "\<bar>fl x - x\<bar> = \<bar>(of_int (rne (x / u)) - x / u) * u\<bar>"
    using u False by (simp add: fl_def Let_def u_def algebra_simps)
  also have "\<dots> = \<bar>of_int (rne (x / u)) - x / u\<bar> * u" using u by (simp add: abs_mult)
  also have "\<dots> \<le> 1 / 2 * u" using rne_err [of "x / u"] u by (intro mult_right_mono) auto
  also have "\<dots> = pow2 (expo x) / 2 ^ 53"
  proof -
    have "u = pow2 (expo x) * pow2 (- 52)" by (simp add: u_def flip: pow2_add)
    then show ?thesis by (simp add: pow2_def [of "- 52"])
  qed
  also have "\<dots> \<le> \<bar>x\<bar> / 2 ^ 53" using expo_le [OF False] by (simp add: divide_right_mono)
  finally show ?thesis .
qed (simp add: fl_def)

lemma fl_nonneg: "0 \<le> x \<Longrightarrow> 0 \<le> fl x"
proof -
  assume x: "0 \<le> x"
  have "x - fl x \<le> \<bar>fl x - x\<bar>" by linarith
  also note fl_err [of x]
  finally have "x - fl x \<le> \<bar>x\<bar> / 2 ^ 53" .
  moreover have "\<bar>x\<bar> / 2 ^ 53 \<le> x" using x by (simp add: divide_le_eq)
  ultimately show "0 \<le> fl x" by linarith
qed

lemma fl_of_int:
  assumes "\<bar>n\<bar> < 2 ^ 53"
  shows "fl (of_int n) = of_int n"
proof (cases "n = 0")
  case False
  have "pow2 (expo (of_int n)) \<le> of_int \<bar>n\<bar>" using expo_le [of "of_int n"] False by simp
  also have "(of_int \<bar>n\<bar> :: rat) < of_int (2 ^ 53)" using assms by (simp only: of_int_less_iff)
  finally have lt: "pow2 (expo (of_int n)) < pow2 53" by (simp add: pow2_def)
  have "expo (of_int n) < 53"
  proof (rule ccontr)
    assume "\<not> expo (of_int n) < 53"
    then show False using pow2_mono [of 53 "expo (of_int n)"] lt by simp
  qed
  then have "0 \<le> 52 - expo (of_int n)" by simp
  then obtain k where k: "52 - expo (of_int n) = int k" by (rule nonneg_int_cases)
  have "expo (of_int n) - 52 = - int k" using k by simp
  then have u: "pow2 (expo (of_int n) - 52) = 1 / 2 ^ k" by (simp add: pow2_def)
  have "of_int n / (1 / 2 ^ k) = (of_int (n * 2 ^ k) :: rat)" by simp
  then have "rne (of_int n / (1 / 2 ^ k)) = n * 2 ^ k" by (metis rne_of_int)
  then show ?thesis using False by (simp add: fl_def u)
qed (simp add: fl_def)

text \<open>Approximating a non-negative quantity t with relative error e.\<close>
definition near :: "rat \<Rightarrow> rat \<Rightarrow> rat \<Rightarrow> bool" where
  "near e y t \<longleftrightarrow> 0 \<le> t \<and> \<bar>y - t\<bar> \<le> e * t"

lemma near_exact: "0 \<le> t \<Longrightarrow> near 0 t t"
  by (simp add: near_def)

lemma near_mult: "near e y t \<Longrightarrow> 0 \<le> k \<Longrightarrow> near e (y * k) (t * k)"
proof -
  assume n: "near e y t" and k: "0 \<le> k"
  have "\<bar>y * k - t * k\<bar> = \<bar>y - t\<bar> * k" using k by (simp add: abs_mult flip: left_diff_distrib)
  also have "\<dots> \<le> e * t * k" using n k by (simp add: near_def mult_right_mono)
  finally show ?thesis using n k by (simp add: near_def mult.assoc)
qed

lemma near_fl:
  assumes "near e y t" and "0 \<le> e"
  shows "near ((1 + e) * (1 + 1 / 2 ^ 53) - 1) (fl y) t"
proof -
  have y: "\<bar>y\<bar> \<le> (1 + e) * t" using assms by (auto simp: near_def algebra_simps abs_le_iff)
  have "\<bar>fl y - t\<bar> \<le> \<bar>fl y - y\<bar> + \<bar>y - t\<bar>" by simp
  also have "\<dots> \<le> \<bar>y\<bar> / 2 ^ 53 + e * t" using fl_err [of y] assms by (simp add: near_def)
  also have "\<dots> \<le> (1 + e) * t / 2 ^ 53 + e * t" using y by (simp add: divide_right_mono)
  also have "\<dots> = ((1 + e) * (1 + 1 / 2 ^ 53) - 1) * t" by (simp add: field_simps)
  finally show ?thesis using assms by (simp add: near_def)
qed

lemma near_add: "near e y t \<Longrightarrow> near e z s \<Longrightarrow> near e (y + z) (t + s)"
proof -
  assume a: "near e y t" "near e z s"
  have "\<bar>(y + z) - (t + s)\<bar> \<le> \<bar>y - t\<bar> + \<bar>z - s\<bar>" by simp
  also have "\<dots> \<le> e * t + e * s" using a unfolding near_def by linarith
  finally show ?thesis using a by (simp add: near_def algebra_simps)
qed

lemma near_mono: "near e y t \<Longrightarrow> e \<le> e' \<Longrightarrow> near e' y t"
  unfolding near_def by (meson mult_right_mono order_trans)

text \<open>A number closer than one half to an integer rounds to it.\<close>
lemma floor_near_int: "\<bar>y - of_int n\<bar> < 1 / 2 \<Longrightarrow> floor (y + 1 / 2 :: rat) = n"
  unfolding floor_eq_iff abs_less_iff by (intro conjI; linarith)

end
