(* ===== verification/Money.thy ===== *)
theory Money
  imports JsNumber
begin

text \<open>
  The three places where the sources compute money in floating point: the total of an order
  in cents (\<^verbatim>\<open>orders/utils\<close>), the line and cart totals (\<^verbatim>\<open>cart/utils\<close>), and the
  conversion of cents to the amount column of the payments service. Within the bounds of the
  columns all three are exact.
\<close>

text \<open>\<^verbatim>\<open>Math.round(parseFloat(price) * quantity * 100)\<close>; None is NaN.\<close>
definition line_cents :: "string \<Rightarrow> int \<Rightarrow> int option" where
  "line_cents price q = map_option (\<lambda>x. math_round (jmul (jmul x (of_int q)) 100)) (parseFloat price)"

text \<open>The sum starts at 0; once NaN, it stays NaN.\<close>
fun sum_cents :: "rat option \<Rightarrow> (string \<times> int) list \<Rightarrow> rat option" where
  "sum_cents acc [] = acc"
| "sum_cents acc ((price, q) # its) =
     sum_cents (case (acc, line_cents price q) of (Some a, Some c) \<Rightarrow> Some (jadd a (of_int c)) | _ \<Rightarrow> None) its"

text \<open>\<^verbatim>\<open>(parseFloat(price) * quantity).toFixed(2)\<close>; NaN prints as such.\<close>
definition item_total :: "string \<Rightarrow> int \<Rightarrow> string" where
  "item_total price q = (case parseFloat price of None \<Rightarrow> ''NaN'' | Some x \<Rightarrow> toFixed2 (jmul x (of_int q)))"

fun sum_totals :: "rat option \<Rightarrow> string list \<Rightarrow> rat option" where
  "sum_totals acc [] = acc"
| "sum_totals acc (t # ts) =
     sum_totals (case (acc, parseFloat t) of (Some a, Some x) \<Rightarrow> Some (jadd a x) | _ \<Rightarrow> None) ts"

definition cart_total :: "(string \<times> int) list \<Rightarrow> string" where
  "cart_total its = (case sum_totals (Some 0) (map (\<lambda>(p, q). item_total p q) its) of
     None \<Rightarrow> ''NaN'' | Some x \<Rightarrow> toFixed2 x)"

text \<open>\<^verbatim>\<open>(amount / 100).toFixed(2)\<close>.\<close>
definition dollars_str :: "int \<Rightarrow> string" where
  "dollars_str a = toFixed2 (jdiv (of_int a) 100)"

section \<open>Reading a price\<close>

lemma is_digit_char: "d < (10 :: nat) \<Longrightarrow> is_digit (char_of (48 + d))"
  by (simp add: is_digit_def digit_val_digit)

lemma nat_str_all_digits: "c \<in> set (nat_str n) \<Longrightarrow> is_digit c"
  using nat_str_digits [of c n] by (auto simp: is_digit_def)

lemma parseFloat_cents_str: "parseFloat (cents_str n) = Some (fl (of_nat n / 100))"
proof -
  let ?w = "nat_str (n div 100)"
  let ?f = "[char_of (48 + n div 10 mod 10), char_of (48 + n mod 10)] :: string"
  have s: "cents_str n = ?w @ CHR ''.'' # ?f" by (simp add: cents_str_def)
  have fd: "\<forall>c \<in> set ?f. is_digit c" by (auto intro: is_digit_char)
  have nodot: "\<not> is_digit CHR ''.''" by (simp add: is_digit_def digit_val_def)
  have hd: "\<exists>c r. cents_str n = c # r \<and> is_digit c"
    using nat_str_all_digits [of _ "n div 100"] by (cases ?w) (auto simp: s)
  then obtain c r where c: "cents_str n = c # r" "is_digit c" by blast
  have nc: "c \<noteq> CHR '' ''" "c \<noteq> CHR ''-''" "c \<noteq> CHR ''+''"
    using c(2) by (auto simp: is_digit_def digit_val_def)
  have tw: "takeWhile is_digit (cents_str n) = ?w"
    unfolding s using nat_str_all_digits nodot by (subst takeWhile_append2) auto
  have dw: "dropWhile is_digit (cents_str n) = CHR ''.'' # ?f"
    unfolding s using nat_str_all_digits nodot by (subst dropWhile_append2) auto
  have tf: "takeWhile is_digit ?f = ?f" using fd by (simp add: takeWhile_eq_all_conv)
  have nf: "digits_num ?f = n mod 100"
  proof -
    have "digits_num ?f = 10 * (n div 10 mod 10) + n mod 10"
      using digit_val_digit [of "n div 10 mod 10"] digit_val_digit [of "n mod 10"] by (simp add: digits_num_def)
    also have "\<dots> = n mod 100"
      using mod_mult2_eq [of n 10 10] by simp
    finally show ?thesis .
  qed
  have nw: "digits_num ?w = n div 100" by (simp add: digits_num_def digits_val_nat_str)
  have v: "(of_nat (n div 100) + of_nat (n mod 100) / 100 :: rat) = of_nat n / 100"
  proof -
    have "(of_nat n :: rat) = of_nat (100 * (n div 100) + n mod 100)" by simp
    also have "\<dots> = 100 * of_nat (n div 100) + of_nat (n mod 100)" by (simp only: of_nat_add of_nat_mult of_nat_numeral)
    finally show ?thesis by (simp add: field_simps)
  qed
  have sp: "dropWhile (\<lambda>c. c = CHR '' '') (cents_str n) = cents_str n" using c nc by simp
  have t: "(case cents_str n of c # r \<Rightarrow> if c = CHR ''-'' \<or> c = CHR ''+'' then r else cents_str n | [] \<Rightarrow> []) = cents_str n"
    using c nc by simp
  have neg: "(case cents_str n of c # _ \<Rightarrow> c = CHR ''-'' | [] \<Rightarrow> False) = False" using c nc by simp
  show ?thesis
    unfolding parseFloat_def Let_def sp t neg tw dw list.case
    using fd by (simp add: nf nw v del: digits_num_def)
qed

lemma toFixed2_near:
  assumes "\<bar>x * 100 - of_nat n\<bar> < 1 / 2" and "0 \<le> x"
  shows "toFixed2 x = cents_str n"
proof -
  have "floor (x * 100 + 1 / 2) = int n"
    using floor_near_int [of "x * 100" "int n"] assms(1) by simp
  then show ?thesis using assms(2) by (simp add: toFixed2_def)
qed

section \<open>One line\<close>

lemma near_price: "near (1 / 2 ^ 53) (fl (of_nat c / 100)) (of_nat c / 100)"
  using near_fl [OF near_exact [of "of_nat c / 100"]] by simp

lemma near_line: "near ((1 + 1 / 2 ^ 53) ^ 2 - 1) (jmul (fl (of_nat c / 100)) (of_nat q)) (of_nat (c * q) / 100)"
  using near_fl [OF near_mult [OF near_price, of "of_nat q" c]]
  by (simp add: jmul_def power2_eq_square field_simps)

lemma line_cents_exact:
  assumes "c * q \<le> 2 ^ 50"
  shows "line_cents (cents_str c) (int q) = Some (int (c * q))"
proof -
  let ?y = "jmul (jmul (fl (of_nat c / 100)) (of_nat q)) 100"
  let ?e = "(1 + ((1 + 1 / 2 ^ 53) ^ 2 - 1)) * (1 + 1 / 2 ^ 53) - 1 :: rat"
  have "near ?e ?y (of_nat (c * q))"
    using near_fl [OF near_mult [OF near_line [of c q], of 100]] by (simp add: jmul_def)
  then have "\<bar>?y - of_nat (c * q)\<bar> \<le> ?e * of_nat (c * q)" by (simp add: near_def)
  also have "\<dots> \<le> ?e * 2 ^ 50"
  proof (rule mult_left_mono)
    have "(of_nat (c * q) :: rat) \<le> of_nat (2 ^ 50)" using assms by (simp only: of_nat_le_iff)
    then show "(of_nat (c * q) :: rat) \<le> 2 ^ 50" by simp
  qed (simp add: power2_eq_square)
  also have "?e * 2 ^ 50 < 1 / 2" by (simp add: power2_eq_square)
  finally have "\<bar>?y - of_int (int (c * q))\<bar> < 1 / 2" by simp
  then have "math_round ?y = int (c * q)" unfolding math_round_def by (rule floor_near_int)
  then show ?thesis by (simp add: line_cents_def parseFloat_cents_str)
qed

lemma item_total_exact:
  assumes "c * q \<le> 2 ^ 50"
  shows "item_total (cents_str c) (int q) = cents_str (c * q)"
proof -
  let ?y = "jmul (fl (of_nat c / 100)) (of_nat q)"
  let ?e = "(1 + 1 / 2 ^ 53) ^ 2 - 1 :: rat"
  have n: "near ?e (?y * 100) (of_nat (c * q))"
    using near_mult [OF near_line [of c q], of 100] by simp
  then have "\<bar>?y * 100 - of_nat (c * q)\<bar> \<le> ?e * of_nat (c * q)" by (simp add: near_def)
  also have "\<dots> \<le> ?e * 2 ^ 50"
  proof (rule mult_left_mono)
    have "(of_nat (c * q) :: rat) \<le> of_nat (2 ^ 50)" using assms by (simp only: of_nat_le_iff)
    then show "(of_nat (c * q) :: rat) \<le> 2 ^ 50" by simp
  qed (simp add: power2_eq_square)
  also have "?e * 2 ^ 50 < 1 / 2" by (simp add: power2_eq_square)
  finally have "\<bar>?y * 100 - of_nat (c * q)\<bar> < 1 / 2" .
  moreover have "0 \<le> ?y" by (simp add: jmul_def fl_nonneg)
  ultimately have "toFixed2 ?y = cents_str (c * q)" by (rule toFixed2_near)
  then show ?thesis by (simp add: item_total_def parseFloat_cents_str)
qed

section \<open>Whole orders\<close>

text \<open>The exact total of lines given in cents.\<close>
definition exact_cents :: "(nat \<times> nat) list \<Rightarrow> nat" where
  "exact_cents ls = sum_list (map (\<lambda>(c, q). c * q) ls)"

definition price_lines :: "(nat \<times> nat) list \<Rightarrow> (string \<times> int) list" where
  "price_lines ls = map (\<lambda>(c, q). (cents_str c, int q)) ls"

lemma sum_cents_exact:
  assumes "\<forall>(c, q) \<in> set ls. c * q \<le> 2 ^ 50" and "a + exact_cents ls < 2 ^ 53"
  shows "sum_cents (Some (of_nat a)) (price_lines ls) = Some (of_nat (a + exact_cents ls))"
  using assms
proof (induction ls arbitrary: a)
  case (Cons l ls)
  obtain c q where l: "l = (c, q)" by fastforce
  have line: "line_cents (cents_str c) (int q) = Some (int (c * q))"
    using Cons.prems(1) l by (intro line_cents_exact) simp
  have b: "a + c * q < 2 ^ 53" using Cons.prems(2) by (simp add: exact_cents_def l)
  have "jadd (of_nat a) (of_int (int (c * q))) = fl (of_int (int (a + c * q)))"
    by (simp add: jadd_def)
  also have "\<dots> = of_int (int (a + c * q))"
  proof (rule fl_of_int)
    have "int (a + c * q) < int (2 ^ 53)" using b by (simp only: of_nat_less_iff)
    then show "\<bar>int (a + c * q)\<bar> < 2 ^ 53" by simp
  qed
  finally have "jadd (of_nat a) (of_int (int (c * q))) = of_nat (a + c * q)" by simp
  moreover have "sum_cents (Some (of_nat (a + c * q))) (price_lines ls) = Some (of_nat (a + c * q + exact_cents ls))"
    using Cons.prems by (intro Cons.IH) (auto simp: exact_cents_def l)
  ultimately show ?case by (simp add: price_lines_def l line exact_cents_def add.assoc)
qed (simp add: price_lines_def exact_cents_def)

lemma dollars_str_exact:
  assumes "n \<le> 2 ^ 50"
  shows "dollars_str (int n) = cents_str n"
proof -
  have n: "near (1 / 2 ^ 53) (fl (of_nat n / 100) * 100) (of_nat n)"
    using near_mult [OF near_price [of n], of 100] by simp
  then have "\<bar>fl (of_nat n / 100) * 100 - of_nat n\<bar> \<le> 1 / 2 ^ 53 * of_nat n" by (simp add: near_def)
  also have "\<dots> \<le> 1 / 2 ^ 53 * 2 ^ 50"
  proof (rule mult_left_mono)
    have "(of_nat n :: rat) \<le> of_nat (2 ^ 50)" using assms by (simp only: of_nat_le_iff)
    then show "(of_nat n :: rat) \<le> 2 ^ 50" by simp
  qed simp
  also have "(1 / 2 ^ 53 * 2 ^ 50 :: rat) < 1 / 2" by simp
  finally have "toFixed2 (fl (of_nat n / 100)) = cents_str n"
    by (rule toFixed2_near) (simp add: fl_nonneg)
  then show ?thesis by (simp add: dollars_str_def jdiv_def)
qed

section \<open>Whole carts\<close>

lemma power_one_plus_le:
  fixes e :: rat
  assumes "0 \<le> e" and "of_nat n * e \<le> 1 / 2"
  shows "(1 + e) ^ n \<le> 1 + 2 * of_nat n * e"
  using assms(2)
proof (induction n)
  case (Suc n)
  have n: "of_nat n * e \<le> 1 / 2" using Suc.prems assms(1) by (simp add: algebra_simps)
  have "(1 + e) ^ Suc n \<le> (1 + 2 * of_nat n * e) * (1 + e)"
    using mult_right_mono [OF Suc.IH [OF n], of "1 + e"] assms(1) by (simp add: mult.commute)
  also have "\<dots> = 1 + 2 * of_nat n * e + e + 2 * (of_nat n * e) * e" by (simp add: algebra_simps)
  also have "\<dots> \<le> 1 + 2 * of_nat n * e + e + 2 * (1 / 2) * e"
    using n assms(1) by (intro add_left_mono mult_right_mono mult_left_mono) auto
  also have "\<dots> = 1 + 2 * of_nat (Suc n) * e" by (simp add: algebra_simps)
  finally show ?case .
qed simp

lemma sum_totals_near:
  assumes "near e a t" and "1 / 2 ^ 53 \<le> e"
  shows "\<exists>y. sum_totals (Some a) (map cents_str ts) = Some y \<and>
    near ((1 + e) * (1 + 1 / 2 ^ 53) ^ length ts - 1) y (t + of_nat (sum_list ts) / 100)"
  using assms
proof (induction ts arbitrary: e a t)
  case (Cons c ts)
  let ?x = "fl (of_nat c / 100)" and ?e = "(1 + e) * (1 + 1 / 2 ^ 53) - 1 :: rat"
  have "near e ?x (of_nat c / 100)" using near_mono [OF near_price Cons.prems(2)] .
  then have "near e (a + ?x) (t + of_nat c / 100)" by (rule near_add [OF Cons.prems(1)])
  then have n: "near ?e (jadd a ?x) (t + of_nat c / 100)"
    unfolding jadd_def by (rule near_fl) (use Cons.prems(2) in \<open>simp add: order_trans [of 0 "1 / 2 ^ 53"]\<close>)
  have e0: "0 \<le> e" using Cons.prems(2) order_trans [of 0 "1 / 2 ^ 53" e] by simp
  have "e \<le> ?e" using e0 by (simp add: field_simps)
  then have "1 / 2 ^ 53 \<le> ?e" using Cons.prems(2) by (rule order_trans [rotated])
  from Cons.IH [OF n this] obtain y where y: "sum_totals (Some (jadd a ?x)) (map cents_str ts) = Some y"
    "near ((1 + ?e) * (1 + 1 / 2 ^ 53) ^ length ts - 1) y (t + of_nat c / 100 + of_nat (sum_list ts) / 100)" by blast
  have eq1: "(1 + ?e) * (1 + 1 / 2 ^ 53) ^ length ts - 1 = (1 + e) * (1 + 1 / 2 ^ 53) ^ length (c # ts) - 1"
    by (simp add: mult.assoc)
  have eq2: "t + of_nat c / 100 + of_nat (sum_list ts) / 100 = t + of_nat (sum_list (c # ts)) / (100 :: rat)"
    by (simp add: add_divide_distrib)
  have "sum_totals (Some a) (map cents_str (c # ts)) = Some y" using y(1) by (simp add: parseFloat_cents_str)
  then show ?case using y(2) unfolding eq1 eq2 by blast
qed simp

lemma cart_total_exact:
  assumes lines: "\<forall>(c, q) \<in> set ls. c * q \<le> 2 ^ 50"
    and total: "exact_cents ls \<le> 2 ^ 40" and len: "length ls \<le> 1000"
  shows "cart_total (price_lines ls) = cents_str (exact_cents ls)"
proof -
  let ?ts = "map (\<lambda>(c, q). c * q) ls" and ?d = "1 / 2 ^ 53 :: rat"
  have ts: "map (\<lambda>(p, q). item_total p q) (price_lines ls) = map cents_str ?ts"
    using lines item_total_exact by (auto simp: price_lines_def)
  have "near ?d 0 0" by (simp add: near_def)
  from sum_totals_near [OF this order_refl, of ?ts] obtain y where
    y: "sum_totals (Some 0) (map cents_str ?ts) = Some y"
    and n: "near ((1 + ?d) * (1 + ?d) ^ length ?ts - 1) y (of_nat (exact_cents ls) / 100)"
    by (auto simp: exact_cents_def)
  let ?m = "Suc (length ls)"
  have n': "near ((1 + ?d) ^ ?m - 1) (y * 100) (of_nat (exact_cents ls))"
    using near_mult [OF n, of 100] by simp
  have m: "(of_nat ?m :: rat) \<le> 1001" using len of_nat_le_iff [of ?m 1001, where ?'a = rat] by simp
  have "of_nat ?m * ?d \<le> 1001 * ?d" using m by (intro mult_right_mono) auto
  also have "1001 * ?d \<le> 1 / 2" by simp
  finally have "(1 + ?d) ^ ?m \<le> 1 + 2 * of_nat ?m * ?d" by (intro power_one_plus_le) auto
  also have "\<dots> \<le> 1 + 2 * 1001 * ?d" using m by (intro add_left_mono mult_right_mono mult_left_mono) auto
  finally have e: "(1 + ?d) ^ ?m - 1 \<le> 2002 * ?d" by simp
  have "\<bar>y * 100 - of_nat (exact_cents ls)\<bar> \<le> ((1 + ?d) ^ ?m - 1) * of_nat (exact_cents ls)"
    using n' unfolding near_def by blast
  also have "\<dots> \<le> 2002 * ?d * of_nat (exact_cents ls)" using e by (intro mult_right_mono) auto
  also have "\<dots> \<le> 2002 * ?d * 2 ^ 40"
  proof (rule mult_left_mono)
    have "(of_nat (exact_cents ls) :: rat) \<le> of_nat (2 ^ 40)" using total by (simp only: of_nat_le_iff)
    then show "(of_nat (exact_cents ls) :: rat) \<le> 2 ^ 40" by simp
  qed simp
  also have "2002 * ?d * 2 ^ 40 < 1 / 2" by simp
  finally have close: "\<bar>y * 100 - of_nat (exact_cents ls)\<bar> < 1 / 2" .
  have "0 \<le> y"
  proof (cases "exact_cents ls = 0")
    case True
    then show ?thesis using n' by (simp add: near_def)
  next
    case False
    then have "1 \<le> (of_nat (exact_cents ls) :: rat)" by simp
    moreover have "- (y * 100 - of_nat (exact_cents ls)) < 1 / 2" using close unfolding abs_less_iff by blast
    ultimately show ?thesis by linarith
  qed
  then have "toFixed2 y = cents_str (exact_cents ls)" using close toFixed2_near by blast
  then show ?thesis unfolding cart_total_def ts y by simp
qed

end
