(* ===== verification/Orders_Processing.thy ===== *)
theory Orders_Processing
  imports Orders_Cancel Payments_Client Money
begin

text \<open>
  \<^verbatim>\<open>orders/services/order-processing.service.ts\<close>: consuming one processing message (the
  transaction around the processed-messages table and the status change) and authorising
  the payment afterwards. The payments service is the parameter \<open>P\<close>; what other requests do
  between reading the order and saving it is \<^verbatim>\<open>e_others\<close>.
\<close>

definition ORDER_WORKER_SCOPE :: string where "ORDER_WORKER_SCOPE = ''order-worker''"

text \<open>The order's total in cents; None is NaN.\<close>
definition getTotalSumInCents :: "order_view \<Rightarrow> rat option" where
  "getTotalSumInCents v =
     sum_cents (Some 0) (map (\<lambda>(it, _). (oi_priceAtPurchase it, oi_quantity it)) (ov_items v))"

section \<open>Payment authorisation\<close>

definition paid_order :: "micros \<Rightarrow> string \<Rightarrow> order \<Rightarrow> order" where
  "paid_order now pid r = r\<lparr>o_paymentId := Some pid, o_status := PAID, o_updatedAt := now\<rparr>"

text \<open>\<^verbatim>\<open>update({ id }, { paymentId, status: PAID })\<close>: unconditional on the order's status, and
  no error when the order is gone.\<close>
definition mark_paid :: "uuid \<Rightarrow> string \<Rightarrow> unit act" where
  "mark_paid orderId pid w =
     (if length pid > 255
      then (Inl (QueryFailed ''22001'' ''value too long for type character varying(255)''), w)
      else if (\<exists>x \<in> set (orders (w_db w)). o_id x = orderId) \<and>
         (\<exists>x \<in> set (orders (w_db w)). o_id x \<noteq> orderId \<and> o_paymentId x = Some pid)
      then (Inl (unique_violation ''UQ_orders_payment_id''), w)
      else (Inr (), db_update (\<lambda>d. d\<lparr>orders := update_rows (\<lambda>r. o_id r = orderId) (paid_order (w_now w) pid) (orders d)\<rparr>) w))"

definition authorizePayment :: "env \<Rightarrow> authorize_request fire \<Rightarrow> order \<Rightarrow> unit act" where
  "authorizePayment E P ord =
     bind_s (gets_s (\<lambda>w. findByIdWithRelations (o_id ord) (w_db w))) (\<lambda>ov.
     case ov of
       None \<Rightarrow> throw_s (http_exn NotFound (''Order '' @ in_dq (o_id ord) @ '' not found for payment authorization''))
     | Some v \<Rightarrow>
        catch_s
          (bind_s (grpc_authorize E P \<lparr>ar_amount = getTotalSumInCents v, ar_currency = ''USD'', ar_orderId = o_id ord\<rparr>) (\<lambda>resp.
             if as_paymentId resp = [] then return_s ()
             else
               bind_s (mark_paid (o_id ord) (as_paymentId resp)) (\<lambda>_.
               bind_s (modify_s (recordOrderCompleted E (order_status_str PAID))) (\<lambda>_.
               bind_s (modify_s (audit E (audit_event ORDER_PAYMENT_AUTHORIZED (Some (o_userId ord)) None AUDIT_SUCCESS
                         (Some (o_id ord)) (Some ''Order'')))) (\<lambda>_.
               case ov_user v of
                 None \<Rightarrow> throw_s (null_read ''email'')
               | Some u \<Rightarrow> emit (OrderPaidEvent (o_id ord) (u_email u)))))))
          (\<lambda>e. bind_s (modify_s (audit E (audit_event ORDER_PAYMENT_FAILED (Some (o_userId ord)) None AUDIT_FAILURE
                  (Some (o_id ord)) (Some ''Order'')))) (\<lambda>_. throw_s e)))"

section \<open>Processing a message\<close>

record process_payload =
  pp_messageId :: string
  pp_orderId :: string
  pp_correlationId :: "string option"

definition new_processed_message :: "micros \<Rightarrow> process_payload \<Rightarrow> processed_message" where
  "new_processed_message now pl =
     \<lparr>pm_messageId = pp_messageId pl, pm_idempotencyKey = pp_correlationId pl,
      pm_orderId = Some (pp_orderId pl), pm_processedAt = Some now, pm_scope = ORDER_WORKER_SCOPE\<rparr>"

text \<open>The insert: columns too long, then the two unique indexes.\<close>
definition insertProcessedMessage :: "process_payload \<Rightarrow> unit act" where
  "insertProcessedMessage pl w =
     (if length (pp_messageId pl) > 200 \<or> length (pp_orderId pl) > 255 \<or>
         (case pp_correlationId pl of Some c \<Rightarrow> length c > 255 | None \<Rightarrow> False)
      then (Inl (QueryFailed ''22001'' ''value too long''), w)
      else if (\<exists>x \<in> set (processed_messages (w_db w)). pm_messageId x = pp_messageId pl)
      then (Inl (unique_violation ''UQ_processed_messages_message_id''), w)
      else if pp_correlationId pl \<noteq> None \<and>
         (\<exists>x \<in> set (processed_messages (w_db w)). pm_idempotencyKey x = pp_correlationId pl)
      then (Inl (unique_violation ''UQ_processed_messages_idempotency_key''), w)
      else (Inr (), db_update (\<lambda>d. d\<lparr>processed_messages := processed_messages d @ [new_processed_message (w_now w) pl]\<rparr>) w))"

definition find_order_row :: "env \<Rightarrow> string \<Rightarrow> order option act" where
  "find_order_row E orderId w =
     (if e_pg_uuid E orderId then (Inr (look_order (w_db w) orderId), w)
      else (Inl (QueryFailed ''22P02'' ''invalid input syntax for type uuid''), w))"

text \<open>The body of the transaction: None when there is nothing (more) to do.\<close>
definition processTransaction :: "env \<Rightarrow> process_payload \<Rightarrow> order option act" where
  "processTransaction E pl = transaction (
     bind_s (gets_s (\<lambda>w. \<exists>x \<in> set (processed_messages (w_db w)). pm_messageId x = pp_messageId pl)) (\<lambda>already.
     if already then return_s None
     else
       bind_s (catch_s (bind_s (insertProcessedMessage pl) (\<lambda>_. return_s True))
         (\<lambda>e. if exn_code e = Some ''23505'' then return_s False
              else throw_s (PlainError ''Failed to acquire idempotency lock''))) (\<lambda>inserted.
       if \<not> inserted then return_s None
       else
         bind_s (find_order_row E (pp_orderId pl)) (\<lambda>row.
         case row of
           None \<Rightarrow> throw_s (http_exn NotFound (''Order '' @ in_dq (pp_orderId pl) @ '' not found''))
         | Some r \<Rightarrow>
             if o_status r \<noteq> PENDING then return_s None
             else if e_config E ''RABBITMQ_SIMULATE_FAILURE'' = Some ''true''
             then throw_s (PlainError ''Simulated processing failure'')
             else
               bind_s (modify_s (e_others E)) (\<lambda>_.
               bind_s (saveOrder (r\<lparr>o_status := PROCESSED\<rparr>)) (\<lambda>_.
               return_s (Some (r\<lparr>o_status := PROCESSED\<rparr>))))))))"

definition processOrderMessage :: "env \<Rightarrow> authorize_request fire \<Rightarrow> process_payload \<Rightarrow> unit act" where
  "processOrderMessage E P pl =
     bind_s (processTransaction E pl) (\<lambda>processed.
     if e_config E ''RABBITMQ_DISABLE_PAYMENTS_AUTHORIZATION'' = Some ''true'' then return_s ()
     else case processed of
        None \<Rightarrow> return_s ()
      | Some r \<Rightarrow> if truthy (o_paymentId r) = None then authorizePayment E P r else return_s ())"

section \<open>The transaction\<close>

definition message_seen :: "db \<Rightarrow> string \<Rightarrow> bool" where
  "message_seen d m = (\<exists>x \<in> set (processed_messages d). pm_messageId x = m)"

lemma processTransaction_seen:
  "message_seen (w_db w) (pp_messageId pl) \<Longrightarrow> processTransaction E pl w = (Inr None, w)"
  by (simp add: processTransaction_def message_seen_def transaction_def)

lemma insertProcessedMessage_Inr:
  "insertProcessedMessage pl w = (Inr u, w') \<Longrightarrow>
     w' = db_update (\<lambda>d. d\<lparr>processed_messages := processed_messages d @ [new_processed_message (w_now w) pl]\<rparr>) w"
  by (auto simp: insertProcessedMessage_def split: if_splits)

lemma insertProcessedMessage_Inl: "insertProcessedMessage pl w = (Inl e, w') \<Longrightarrow> w' = w"
  by (auto simp: insertProcessedMessage_def split: if_splits)

text \<open>The step that takes the idempotency lock.\<close>
lemma insert_step_cases:
  assumes "catch_s (bind_s (insertProcessedMessage pl) (\<lambda>_. return_s True))
         (\<lambda>e. if exn_code e = Some ''23505'' then return_s False
              else throw_s (PlainError ''Failed to acquire idempotency lock'')) w = (Inr b, w1)"
  shows "b \<and> w1 = db_update (\<lambda>d. d\<lparr>processed_messages := processed_messages d @ [new_processed_message (w_now w) pl]\<rparr>) w
     \<or> \<not> b \<and> w1 = w"
proof (cases "insertProcessedMessage pl w")
  case (Pair r w2)
  then show ?thesis using assms
    by (cases r) (auto simp: catch_s_def bind_s_def split: if_splits dest: insertProcessedMessage_Inr insertProcessedMessage_Inl)
qed

lemma processTransaction_Inr:
  assumes run: "processTransaction E pl w = (Inr res, w')"
  shows "res = None \<and> (w' = w \<or>
       (\<exists>r. look_order (w_db w) (pp_orderId pl) = Some r \<and> o_status r \<noteq> PENDING \<and>
          w' = db_update (\<lambda>d. d\<lparr>processed_messages := processed_messages d @ [new_processed_message (w_now w) pl]\<rparr>) w)) \<or>
     (\<exists>r. \<not> message_seen (w_db w) (pp_messageId pl) \<and> look_order (w_db w) (pp_orderId pl) = Some r \<and> o_status r = PENDING \<and>
        res = Some (r\<lparr>o_status := PROCESSED\<rparr>) \<and>
        (let w1 = e_others E (db_update (\<lambda>d. d\<lparr>processed_messages := processed_messages d @ [new_processed_message (w_now w) pl]\<rparr>) w)
         in w' = db_update (put_order (w_now w1) (r\<lparr>o_status := PROCESSED\<rparr>)) w1))"
proof (cases "message_seen (w_db w) (pp_messageId pl)")
  case True
  then show ?thesis using run by (simp add: processTransaction_seen)
next
  case False
  let ?w1 = "db_update (\<lambda>d. d\<lparr>processed_messages := processed_messages d @ [new_processed_message (w_now w) pl]\<rparr>) w"
  obtain b w1 where ins: "catch_s (bind_s (insertProcessedMessage pl) (\<lambda>_. return_s True))
         (\<lambda>e. if exn_code e = Some ''23505'' then return_s False
              else throw_s (PlainError ''Failed to acquire idempotency lock'')) w = (Inr b, w1)"
    and rest: "(if \<not> b then return_s None
       else
         bind_s (find_order_row E (pp_orderId pl)) (\<lambda>row.
         case row of
           None \<Rightarrow> throw_s (http_exn NotFound (''Order '' @ in_dq (pp_orderId pl) @ '' not found''))
         | Some r \<Rightarrow>
             if o_status r \<noteq> PENDING then return_s None
             else if e_config E ''RABBITMQ_SIMULATE_FAILURE'' = Some ''true''
             then throw_s (PlainError ''Simulated processing failure'')
             else
               bind_s (modify_s (e_others E)) (\<lambda>_.
               bind_s (saveOrder (r\<lparr>o_status := PROCESSED\<rparr>)) (\<lambda>_.
               return_s (Some (r\<lparr>o_status := PROCESSED\<rparr>)))))) w1 = (Inr res, w')"
    using run False
    unfolding processTransaction_def transaction_Inr bind_s_gets message_seen_def
    by (simp only: if_False bind_s_eq_Inr) blast
  show ?thesis
  proof (cases b)
    case False
    then show ?thesis using rest insert_step_cases [OF ins] by simp
  next
    case b: True
    then have w1: "w1 = ?w1" using insert_step_cases [OF ins] by simp
    have look: "look_order (w_db ?w1) k = look_order (w_db w) k" for k by (rule look_order_cong) simp
    obtain r where r: "find_order_row E (pp_orderId pl) ?w1 = (Inr (Some r), ?w1)"
      using rest b w1 by (auto simp: find_order_row_def bind_s_def split: if_splits option.splits)
    then have lk: "look_order (w_db w) (pp_orderId pl) = Some r"
      using look by (auto simp: find_order_row_def split: if_splits)
    show ?thesis using rest b w1 r lk False
      by (auto simp: bind_s_def Let_def split: if_splits)
  qed
qed

lemma processTransaction_Inl:
  "processTransaction E pl w = (Inl e, w') \<Longrightarrow> w_db w' = w_db w"
  unfolding processTransaction_def by (rule transaction_Inl)

section \<open>Authorising\<close>

lemma mark_paid_Inr:
  "mark_paid i pid w = (Inr u, w') \<Longrightarrow>
     w' = db_update (\<lambda>d. d\<lparr>orders := update_rows (\<lambda>r. o_id r = i) (paid_order (w_now w) pid) (orders d)\<rparr>) w"
  by (auto simp: mark_paid_def split: if_splits)

lemma look_order_mark_paid:
  "look_order (d\<lparr>orders := update_rows (\<lambda>r. o_id r = i) (paid_order now pid) (orders d)\<rparr>) k =
     (if k = i then map_option (paid_order now pid) (look_order d k) else look_order d k)"
  by (simp add: look_order_def find_row_update_rows paid_order_def)

end
