(* ===== verification/Orders_Processing_Theorems.thy ===== *)
theory Orders_Processing_Theorems
  imports Orders_Processing
begin

text \<open>
  The properties of processing an order message: what the first delivery does, what every
  further delivery does, and the two ways an order ends in a state nobody asked for.
\<close>

text \<open>A message that can take the idempotency lock.\<close>
definition lockable :: "db \<Rightarrow> process_payload \<Rightarrow> bool" where
  "lockable d pl \<longleftrightarrow> \<not> message_seen d (pp_messageId pl) \<and> length (pp_messageId pl) \<le> 200 \<and> length (pp_orderId pl) \<le> 255 \<and>
     (\<forall>c. pp_correlationId pl = Some c \<longrightarrow> length c \<le> 255 \<and> (\<forall>x \<in> set (processed_messages d). pm_idempotencyKey x \<noteq> Some c))"

definition locked :: "process_payload \<Rightarrow> world \<Rightarrow> world" where
  "locked pl w = db_update (\<lambda>d. d\<lparr>processed_messages := processed_messages d @ [new_processed_message (w_now w) pl]\<rparr>) w"

lemma insertProcessedMessage_lockable:
  "lockable (w_db w) pl \<Longrightarrow> insertProcessedMessage pl w = (Inr (), locked pl w)"
  by (auto simp: insertProcessedMessage_def lockable_def locked_def message_seen_def split: option.splits)

lemma processTransaction_runs:
  assumes lock: "lockable (w_db w) pl" and pg: "e_pg_uuid E (pp_orderId pl)"
    and r: "look_order (w_db w) (pp_orderId pl) = Some r" "o_status r = PENDING"
    and sim: "e_config E ''RABBITMQ_SIMULATE_FAILURE'' \<noteq> Some ''true''"
  shows "processTransaction E pl w = (Inr (Some (r\<lparr>o_status := PROCESSED\<rparr>)),
    db_update (put_order (w_now (e_others E (locked pl w))) (r\<lparr>o_status := PROCESSED\<rparr>)) (e_others E (locked pl w)))"
proof -
  have seen: "(\<exists>x \<in> set (processed_messages (w_db w)). pm_messageId x = pp_messageId pl) = False"
    using lock by (simp add: lockable_def message_seen_def)
  have look: "look_order (w_db (locked pl w)) (pp_orderId pl) = Some r"
    using r(1) look_order_cong [of "w_db (locked pl w)" "w_db w"] by (simp add: locked_def)
  have f: "find_order_row E (pp_orderId pl) (locked pl w) = (Inr (Some r), locked pl w)"
    using pg look by (simp add: find_order_row_def)
  show ?thesis
    unfolding processTransaction_def transaction_Inr bind_s_gets seen
    using insertProcessedMessage_lockable [OF lock] f r(2) sim
    by (simp add: bind_s_def catch_s_def)
qed

section \<open>The happy path\<close>

text \<open>The items of an order as lines in cents.\<close>
definition order_lines :: "db \<Rightarrow> uuid \<Rightarrow> (nat \<times> nat) list \<Rightarrow> bool" where
  "order_lines d k ls \<longleftrightarrow> map (\<lambda>it. (oi_priceAtPurchase it, oi_quantity it)) (items_of d k) = price_lines ls \<and>
     (\<forall>(c, q) \<in> set ls. c * q \<le> 2 ^ 50) \<and> exact_cents ls < 2 ^ 53"

lemma getTotalSumInCents_load:
  assumes "order_lines d (o_id r) ls"
  shows "getTotalSumInCents (load_order b d r) = Some (of_nat (exact_cents ls))"
proof -
  have "map (\<lambda>(it, _). (oi_priceAtPurchase it, oi_quantity it)) (ov_items (load_order b d r)) = price_lines ls"
    using assms by (simp add: load_order_def order_lines_def comp_def)
  then show ?thesis
    using sum_cents_exact [of ls 0] assms by (simp add: getTotalSumInCents_def order_lines_def)
qed

text \<open>C7: The first delivery of a message for a PENDING order, when the payments service grants
  the payment, asks it for exactly the order's total in cents, leaves the order PAID with that
  payment id, records the message, and emits the paid event to the owner. (Prices are column
  values; nothing else happens to the order meanwhile.)\<close>
theorem first_delivery_charges_exact_total:
  assumes lock: "lockable (w_db w) pl" and pg: "e_pg_uuid E (pp_orderId pl)"
    and r: "look_order (w_db w) (pp_orderId pl) = Some r" "o_status r = PENDING" "o_paymentId r = None"
    and cfg: "e_config E ''RABBITMQ_SIMULATE_FAILURE'' \<noteq> Some ''true''"
      "e_config E ''RABBITMQ_DISABLE_PAYMENTS_AUTHORIZATION'' \<noteq> Some ''true''"
    and others: "e_others E = (\<lambda>s. s)"
    and usr: "findById_user (o_userId r) (w_db w) = Some u"
    and lines: "order_lines (w_db w) (pp_orderId pl) ls"
    and grant: "\<And>s. P \<lparr>ar_amount = Some (of_nat (exact_cents ls)), ar_currency = ''USD'', ar_orderId = pp_orderId pl\<rparr> s = Inr resp"
    and pid: "as_paymentId resp = pid" "pid \<noteq> []" "length pid \<le> 255"
      "\<forall>x \<in> set (orders (w_db w)). o_paymentId x \<noteq> Some pid"
  shows "\<exists>w'. processOrderMessage E P pl w = (Inr (), w') \<and>
     look_order (w_db w') (pp_orderId pl) = Some (paid_order (w_now w) pid r) \<and>
     message_seen (w_db w') (pp_messageId pl) \<and>
     w_events w' = w_events w @ [OrderPaidEvent (pp_orderId pl) (u_email u)]"
proof -
  let ?i = "pp_orderId pl" and ?r = "r\<lparr>o_status := PROCESSED\<rparr>"
  let ?w1 = "db_update (put_order (w_now w) ?r) (locked pl w)"
  have rid: "o_id r = ?i" using look_order_SomeD [OF r(1)] by simp
  have now: "w_now (locked pl w) = w_now w" by (simp add: locked_def)
  have tx: "processTransaction E pl w = (Inr (Some ?r), ?w1)"
    using processTransaction_runs [OF lock pg r(1,2) cfg(1)] others now by simp
  have look1: "look_order (w_db ?w1) ?i = Some (stored_order (w_now w) (w_db (locked pl w)) ?r)"
    by (simp add: look_put_order rid)
  define r1 where "r1 = stored_order (w_now w) (w_db (locked pl w)) ?r"
  have r1: "o_userId r1 = o_userId r" "o_id r1 = ?i" by (simp_all add: r1_def rid)
  have v: "findByIdWithRelations ?i (w_db ?w1) = Some (load_order True (w_db ?w1) r1)"
    using look1 by (simp add: findByIdWithRelations_def r1_def)
  have lines1: "order_lines (w_db ?w1) (o_id r1) ls"
    using lines by (simp add: order_lines_def items_of_def locked_def r1)
  have usr1: "ov_user (load_order True (w_db ?w1) r1) = Some u"
    using usr by (simp add: load_order_def findById_user_def locked_def r1)
  let ?req = "\<lparr>ar_amount = Some (of_nat (exact_cents ls)), ar_currency = ''USD'', ar_orderId = ?i\<rparr>"
  define w2 where "w2 = recordClientMetrics E ''authorize'' ''success'' ?w1"
  have g: "grpc_authorize E P ?req ?w1 = (Inr resp, w2)"
    by (simp add: grpc_authorize_Inr grant w2_def)
  have nopid: "\<forall>x \<in> set (orders (w_db w2)). o_paymentId x \<noteq> Some pid"
    using pid(4) r(3) set_save_row_subset [of o_id r1 "orders (w_db w)"]
    by (auto simp: w2_def put_order_def locked_def r1_def)
  have mp: "mark_paid ?i pid w2 = (Inr (), db_update (\<lambda>d. d\<lparr>orders := update_rows (\<lambda>x. o_id x = ?i) (paid_order (w_now w) pid) (orders d)\<rparr>) w2)"
    using nopid pid(3) by (auto simp: mark_paid_def w2_def locked_def)
  obtain w' where auth: "authorizePayment E P ?r ?w1 = (Inr (), w')"
    and w': "w_events w' = w_events w @ [OrderPaidEvent ?i (u_email u)]"
      "orders (w_db w') = update_rows (\<lambda>x. o_id x = ?i) (paid_order (w_now w) pid) (orders (w_db w2))"
      "processed_messages (w_db w') = processed_messages (w_db w2)"
  proof -
    have "\<exists>w'. authorizePayment E P ?r ?w1 = (Inr (), w') \<and> w_events w' = w_events w @ [OrderPaidEvent ?i (u_email u)] \<and>
        orders (w_db w') = update_rows (\<lambda>x. o_id x = ?i) (paid_order (w_now w) pid) (orders (w_db w2)) \<and>
        processed_messages (w_db w') = processed_messages (w_db w2)"
      using v getTotalSumInCents_load [OF lines1, of True] usr1 g pid(1,2) mp rid
      by (simp add: authorizePayment_def catch_s_def bind_s_def) (simp add: w2_def locked_def)
    then show thesis using that by blast
  qed
  have run: "processOrderMessage E P pl w = (Inr (), w')"
    using tx auth r(3) cfg(2) by (simp add: processOrderMessage_def bind_s_def truthy_None)
  have "look_order (w_db w2) ?i = Some r1" using look1 by (simp add: w2_def r1_def)
  then have "look_order (w_db w') ?i = Some (paid_order (w_now w) pid r1)"
    using look_order_cong [of "w_db w'" "(w_db w2)\<lparr>orders := update_rows (\<lambda>x. o_id x = ?i) (paid_order (w_now w) pid) (orders (w_db w2))\<rparr>" ?i]
      w'(2) by (simp add: look_order_mark_paid)
  moreover have "paid_order (w_now w) pid r1 = paid_order (w_now w) pid r"
    by (simp add: r1_def stored_order_def paid_order_def)
  moreover have "message_seen (w_db w') (pp_messageId pl)"
    using w'(3) by (simp add: message_seen_def w2_def locked_def new_processed_message_def)
  ultimately show ?thesis using run w'(1) by auto
qed

definition sample_payload :: process_payload where
  "sample_payload = \<lparr>pp_messageId = ''m1'', pp_orderId = ''o1'', pp_correlationId = Some ''key''\<rparr>"

definition sample_pending :: world where
  "sample_pending = world_of (sample_db_ordered PENDING) ChannelOpen"

lemma sample_pending_facts:
  "lockable (w_db sample_pending) sample_payload" "e_pg_uuid sample_env (pp_orderId sample_payload)"
  "look_order (w_db sample_pending) (pp_orderId sample_payload) = Some (sample_order ''o1'' ''u1'' PENDING (Some ''key''))"
  "o_status (sample_order ''o1'' ''u1'' PENDING (Some ''key'')) = PENDING"
  "o_paymentId (sample_order ''o1'' ''u1'' PENDING (Some ''key'')) = None"
  "e_config sample_env ''RABBITMQ_SIMULATE_FAILURE'' \<noteq> Some ''true''"
  "e_config sample_env ''RABBITMQ_DISABLE_PAYMENTS_AUTHORIZATION'' \<noteq> Some ''true''"
  "e_others sample_env = (\<lambda>s. s)"
  by (simp_all add: lockable_def message_seen_def look_order_def sample_payload_def sample_pending_def sample_defs)

lemma first_delivery_charges_exact_total_witness:
  "\<exists>w'. processOrderMessage sample_env (\<lambda>q s. if ar_amount q = Some 1998 then Inr \<lparr>as_paymentId = ''pay'', as_status = ''AUTHORIZED''\<rparr> else Inl RxTimeout)
      sample_payload sample_pending = (Inr (), w') \<and> w_events w' = [OrderPaidEvent ''o1'' ''a@b'']"
proof -
  let ?P = "\<lambda>q s. if ar_amount q = Some 1998 then Inr \<lparr>as_paymentId = ''pay'', as_status = ''AUTHORIZED''\<rparr> else Inl RxTimeout :: exn + authorize_response"
  let ?r = "sample_order ''o1'' ''u1'' PENDING (Some ''key'')"
  have u: "findById_user (o_userId ?r) (w_db sample_pending) = Some (sample_user ''u1'' ''a@b'')"
    by (simp add: findById_user_def live_user_def sample_pending_def sample_defs)
  have c: "cents_str 999 = ''9.99''" by code_simp
  have lines: "order_lines (w_db sample_pending) (pp_orderId sample_payload) [(999, 2)]"
    using c by (simp add: order_lines_def items_of_def price_lines_def exact_cents_def sample_pending_def sample_payload_def sample_defs)
  have grant: "?P \<lparr>ar_amount = Some (of_nat (exact_cents [(999, 2)])), ar_currency = ''USD'', ar_orderId = pp_orderId sample_payload\<rparr> s
     = Inr \<lparr>as_paymentId = ''pay'', as_status = ''AUTHORIZED''\<rparr>" for s
    by (simp add: exact_cents_def)
  have pid: "as_paymentId \<lparr>as_paymentId = ''pay'', as_status = ''AUTHORIZED''\<rparr> = ''pay''" "''pay'' \<noteq> []" "length ''pay'' \<le> 255"
    "\<forall>x \<in> set (orders (w_db sample_pending)). o_paymentId x \<noteq> Some ''pay''"
    by (simp_all add: sample_pending_def sample_defs)
  show ?thesis
    using first_delivery_charges_exact_total [of sample_pending sample_payload sample_env ?r "sample_user ''u1'' ''a@b''" "[(999, 2)]" ?P,
      OF sample_pending_facts(1-8) u lines grant pid]
    by (auto simp: sample_pending_def sample_payload_def sample_user_def world_of_def)
qed

section \<open>Further deliveries\<close>

text \<open>C8: Once a message id is recorded, every further delivery of it succeeds without touching
  anything: the order is processed, and a payment asked for, at most once per message.\<close>
theorem duplicate_delivery_is_noop:
  assumes "message_seen (w_db w) (pp_messageId pl)"
  shows "processOrderMessage E P pl w = (Inr (), w)"
  using assms by (simp add: processOrderMessage_def processTransaction_seen bind_s_def)

lemma duplicate_delivery_is_noop_witness:
  "processOrderMessage sample_env (\<lambda>_ _. Inl RxTimeout) sample_payload (locked sample_payload sample_pending)
     = (Inr (), locked sample_payload sample_pending)"
  by (rule duplicate_delivery_is_noop)
     (simp add: message_seen_def locked_def new_processed_message_def)

lemma authorizePayment_fails:
  assumes row: "look_order (w_db w) (o_id ord) = Some r" and fail: "\<And>q s. P q s = Inl err"
  shows "\<exists>e w'. authorizePayment E P ord w = (Inl e, w') \<and> orders (w_db w') = orders (w_db w) \<and>
     processed_messages (w_db w') = processed_messages (w_db w)"
proof -
  have v: "findByIdWithRelations (o_id ord) (w_db w) = Some (load_order True (w_db w) r)"
    using row by (simp add: findByIdWithRelations_def)
  let ?req = "\<lparr>ar_amount = getTotalSumInCents (load_order True (w_db w) r), ar_currency = ''USD'', ar_orderId = o_id ord\<rparr>"
  have "\<exists>e w2. grpc_authorize E P ?req w = (Inl e, w2)"
    using fail by (cases "err = RxTimeout") (auto simp: grpc_authorize_def grpc_call_def)
  then obtain e w2 where g: "grpc_authorize E P ?req w = (Inl e, w2)" by blast
  have db: "w_db w2 = w_db w" by (rule grpc_authorize_frame(1) [OF g])
  show ?thesis using v g db
    by (simp add: authorizePayment_def catch_s_def bind_s_def)
qed

text \<open>C9: A payment failure is never retried: when the first delivery commits the order as
  PROCESSED and the payment call then fails, the delivery fails, but the message is already
  recorded, so every redelivery, with any payments service, succeeds doing nothing and the order
  stays PROCESSED without a payment.\<close>
theorem failed_payment_is_never_retried:
  assumes lock: "lockable (w_db w) pl" and pg: "e_pg_uuid E (pp_orderId pl)"
    and r: "look_order (w_db w) (pp_orderId pl) = Some r" "o_status r = PENDING" "o_paymentId r = None"
    and cfg: "e_config E ''RABBITMQ_SIMULATE_FAILURE'' \<noteq> Some ''true''"
      "e_config E ''RABBITMQ_DISABLE_PAYMENTS_AUTHORIZATION'' \<noteq> Some ''true''"
    and others: "e_others E = (\<lambda>s. s)"
    and fail: "\<And>q s. P q s = Inl err"
  shows "\<exists>e w1. processOrderMessage E P pl w = (Inl e, w1) \<and>
     look_order (w_db w1) (pp_orderId pl) = Some (r\<lparr>o_status := PROCESSED, o_updatedAt := w_now w\<rparr>) \<and>
     (\<forall>E2 P2. processOrderMessage E2 P2 pl w1 = (Inr (), w1))"
proof -
  let ?i = "pp_orderId pl" and ?r = "r\<lparr>o_status := PROCESSED\<rparr>"
  let ?w1 = "db_update (put_order (w_now w) ?r) (locked pl w)"
  have rid: "o_id r = ?i" using look_order_SomeD [OF r(1)] by simp
  have now: "w_now (locked pl w) = w_now w" by (simp add: locked_def)
  have tx: "processTransaction E pl w = (Inr (Some ?r), ?w1)"
    using processTransaction_runs [OF lock pg r(1,2) cfg(1)] others now by simp
  have "look_order (w_db (locked pl w)) ?i = Some r"
    using r(1) look_order_cong [of "w_db (locked pl w)" "w_db w"] by (simp add: locked_def)
  moreover have "Some r \<noteq> Some ?r" using r(2) by (cases r) auto
  ultimately have look1: "look_order (w_db ?w1) ?i = Some (r\<lparr>o_status := PROCESSED, o_updatedAt := w_now w\<rparr>)"
    by (simp add: look_put_order rid stored_order_def)
  have look1': "look_order (w_db ?w1) (o_id ?r) = Some (r\<lparr>o_status := PROCESSED, o_updatedAt := w_now w\<rparr>)"
    using look1 by (simp add: rid)
  obtain e w' where auth: "authorizePayment E P ?r ?w1 = (Inl e, w')" and same: "orders (w_db w') = orders (w_db ?w1)"
    "processed_messages (w_db w') = processed_messages (w_db ?w1)"
    using authorizePayment_fails [where P = P and E = E and err = err, OF look1' fail] by blast
  have run: "processOrderMessage E P pl w = (Inl e, w')"
    using tx auth r(3) cfg(2) by (simp add: processOrderMessage_def bind_s_def truthy_None)
  have "message_seen (w_db w') (pp_messageId pl)"
    using same(2) by (simp add: message_seen_def locked_def new_processed_message_def)
  then have again: "processOrderMessage E2 P2 pl w' = (Inr (), w')" for E2 P2
    by (simp add: processOrderMessage_def processTransaction_seen bind_s_def)
  have "look_order (w_db w') ?i = Some (r\<lparr>o_status := PROCESSED, o_updatedAt := w_now w\<rparr>)"
    using look1 look_order_cong [OF same(1)] by simp
  then show ?thesis using run again by blast
qed

lemma failed_payment_is_never_retried_witness:
  "\<exists>e w1. processOrderMessage sample_env (\<lambda>_ _. Inl RxTimeout) sample_payload sample_pending = (Inl e, w1) \<and>
     processOrderMessage sample_env (\<lambda>_ _. Inr \<lparr>as_paymentId = ''pay'', as_status = ''AUTHORIZED''\<rparr>) sample_payload w1 = (Inr (), w1)"
proof -
  have fail: "(\<lambda>_ _. Inl RxTimeout :: exn + authorize_response) q s = Inl RxTimeout" for q :: authorize_request and s :: world by simp
  show ?thesis
    using failed_payment_is_never_retried [OF sample_pending_facts(1-8) fail] by blast
qed

text \<open>Authorising a payment does not look at the order's status: an order that was cancelled
  (its stock given back) while the message was being processed is charged and becomes PAID.\<close>
theorem cancelled_order_becomes_paid:
  assumes r: "look_order (w_db w) (o_id ord) = Some r" "o_status r = CANCELLED"
    and usr: "findById_user (o_userId r) (w_db w) = Some u"
    and grant: "\<And>q s. P q s = Inr resp"
    and pid: "as_paymentId resp \<noteq> []" "length (as_paymentId resp) \<le> 255"
      "\<forall>x \<in> set (orders (w_db w)). o_paymentId x \<noteq> Some (as_paymentId resp)"
  shows "\<exists>w'. authorizePayment E P ord w = (Inr (), w') \<and>
     map_option o_status (look_order (w_db w') (o_id ord)) = Some PAID \<and>
     products (w_db w') = products (w_db w)"
proof -
  have v: "findByIdWithRelations (o_id ord) (w_db w) = Some (load_order True (w_db w) r)"
    using r by (simp add: findByIdWithRelations_def)
  have usr1: "ov_user (load_order True (w_db w) r) = Some u" using usr by (simp add: load_order_def)
  let ?req = "\<lparr>ar_amount = getTotalSumInCents (load_order True (w_db w) r), ar_currency = ''USD'', ar_orderId = o_id ord\<rparr>"
  define w2 where "w2 = recordClientMetrics E ''authorize'' ''success'' w"
  have g: "grpc_authorize E P ?req w = (Inr resp, w2)" by (simp add: grpc_authorize_Inr grant w2_def)
  have mp: "mark_paid (o_id ord) (as_paymentId resp) w2 = (Inr (), db_update (\<lambda>d. d\<lparr>orders := update_rows (\<lambda>x. o_id x = o_id ord) (paid_order (w_now w) (as_paymentId resp)) (orders d)\<rparr>) w2)"
    using pid by (auto simp: mark_paid_def w2_def)
  have "\<exists>w'. authorizePayment E P ord w = (Inr (), w') \<and> products (w_db w') = products (w_db w) \<and>
     orders (w_db w') = update_rows (\<lambda>x. o_id x = o_id ord) (paid_order (w_now w) (as_paymentId resp)) (orders (w_db w))"
    using v usr1 g pid(1) mp
    by (simp add: authorizePayment_def catch_s_def bind_s_def) (simp add: w2_def)
  then obtain w' where w': "authorizePayment E P ord w = (Inr (), w')" "products (w_db w') = products (w_db w)"
    "orders (w_db w') = update_rows (\<lambda>x. o_id x = o_id ord) (paid_order (w_now w) (as_paymentId resp)) (orders (w_db w))" by blast
  have "look_order (w_db w') (o_id ord) = Some (paid_order (w_now w) (as_paymentId resp) r)"
    using look_order_cong [of "w_db w'" "(w_db w)\<lparr>orders := update_rows (\<lambda>x. o_id x = o_id ord) (paid_order (w_now w) (as_paymentId resp)) (orders (w_db w))\<rparr>" "o_id ord"]
      w'(3) r(1) by (simp add: look_order_mark_paid)
  then show ?thesis using w' by (auto simp: paid_order_def)
qed

lemma cancelled_order_becomes_paid_witness:
  "\<exists>w'. authorizePayment sample_env (\<lambda>_ _. Inr \<lparr>as_paymentId = ''pay'', as_status = ''AUTHORIZED''\<rparr>)
      (sample_order ''o1'' ''u1'' PROCESSED (Some ''key'')) (world_of (sample_db_ordered CANCELLED) ChannelOpen) = (Inr (), w') \<and>
     map_option o_status (look_order (w_db w') ''o1'') = Some PAID"
proof -
  let ?w = "world_of (sample_db_ordered CANCELLED) ChannelOpen" and ?o = "sample_order ''o1'' ''u1'' PROCESSED (Some ''key'')"
  let ?resp = "\<lparr>as_paymentId = ''pay'', as_status = ''AUTHORIZED''\<rparr>" and ?r = "sample_order ''o1'' ''u1'' CANCELLED (Some ''key'')"
  have 1: "look_order (w_db ?w) (o_id ?o) = Some ?r" "o_status ?r = CANCELLED"
    by (simp_all add: look_order_def sample_defs)
  have 2: "findById_user (o_userId ?r) (w_db ?w) = Some (sample_user ''u1'' ''a@b'')"
    by (simp add: findById_user_def live_user_def sample_defs)
  have 3: "(\<lambda>_ _. Inr ?resp :: exn + authorize_response) q s = Inr ?resp" for q :: authorize_request and s :: world by simp
  have 4: "as_paymentId ?resp \<noteq> []" "length (as_paymentId ?resp) \<le> 255"
     "\<forall>x \<in> set (orders (w_db ?w)). o_paymentId x \<noteq> Some (as_paymentId ?resp)" by (simp_all add: sample_defs)
  have "o_id ?o = ''o1''" by (simp add: sample_order_def)
  then show ?thesis using cancelled_order_becomes_paid [OF 1 2 3 4, of sample_env] by auto
qed

end
