(* ===== verification/Orders_Worker.thy ===== *)
theory Orders_Worker
  imports Orders_Processing_Theorems
begin

text \<open>
  \<^verbatim>\<open>orders-worker/orders-worker.service.ts\<close>: one delivery from the processing queue, from
  the bytes of the message to the acknowledgement, with retries and the dead-letter queue, and
  what a chain of redeliveries comes to. The handler answers the outcome it records; a
  redelivery is the message a retry publishes. Parameters: \<open>P\<close>, the payments service; \<open>pg\<close>,
  how the driver writes a JSON value that is no string into a text column; \<open>mid\<close>, which
  values amqplib takes as a message id.
\<close>

section \<open>Base64\<close>

definition b64_char :: "nat \<Rightarrow> char" where
  "b64_char n = char_of (if n < 26 then 65 + n else if n < 52 then 71 + n else if n < 62 then n - 4
     else if n = 62 then 43 else 47)"

text \<open>\<^verbatim>\<open>content.toString('base64')\<close>, three bytes to four letters.\<close>
fun b64 :: "string \<Rightarrow> string" where
  "b64 (a # b # c # s) = (let x = of_char a * 65536 + of_char b * 256 + of_char c :: nat in
     [b64_char (x div 262144), b64_char (x div 4096 mod 64), b64_char (x div 64 mod 64), b64_char (x mod 64)] @ b64 s)"
| "b64 [a, b] = (let x = of_char a * 65536 + of_char b * 256 :: nat in
     [b64_char (x div 262144), b64_char (x div 4096 mod 64), b64_char (x div 64 mod 64), CHR ''=''])"
| "b64 [a] = (let x = of_char a * 65536 :: nat in
     [b64_char (x div 262144), b64_char (x div 4096 mod 64), CHR ''='', CHR ''=''])"
| "b64 [] = []"

section \<open>The handler\<close>

datatype worker_result = W_DLQ | W_RETRY | W_SUCCESS

fun worker_result_str :: "worker_result \<Rightarrow> string" where
  "worker_result_str W_DLQ = ''dlq''"
| "worker_result_str W_RETRY = ''retry''"
| "worker_result_str W_SUCCESS = ''success''"

definition RETRY_DELAY_MS :: int where "RETRY_DELAY_MS = 2000"

definition ack :: "unit act" where
  "ack w = (if w_channel w = ChannelOpen then (Inr (), w\<lparr>w_acks := w_acks w + 1\<rparr>)
     else (Inl (PlainError ''Channel closed''), w))"

definition recordOutcome :: "env \<Rightarrow> worker_result \<Rightarrow> unit act" where
  "recordOutcome E res = modify_s (\<lambda>w. recordOrderProcessingDuration E (e_duration E w) (worker_result_str res)
     (recordWorkerMessage E ORDER_PROCESS_QUEUE (worker_result_str res) w))"

text \<open>\<^verbatim>\<open>publish(queue, payload, { messageId: payload.messageId })\<close> and its metric.\<close>
definition publish_payload :: "env \<Rightarrow> (json \<Rightarrow> bool) \<Rightarrow> string \<Rightarrow> json \<Rightarrow> unit act" where
  "publish_payload E mid queue payload =
     bind_s resolveChannel (\<lambda>_.
     case json_field ''messageId'' payload of
       Some j \<Rightarrow> if mid j
          then bind_s (publish queue payload (case j of JStr s \<Rightarrow> Some s | _ \<Rightarrow> None)) (\<lambda>_. modify_s (recordRabbitMqPublish E queue))
          else throw_s (PlainError ''Field messageId is the wrong type'')
     | None \<Rightarrow> bind_s (publish queue payload None) (\<lambda>_. modify_s (recordRabbitMqPublish E queue)))"

definition publishToDlq :: "env \<Rightarrow> (json \<Rightarrow> bool) \<Rightarrow> json \<Rightarrow> unit act" where
  "publishToDlq E mid payload = publish_payload E mid ORDER_DLQ payload"

definition attempt_of :: "json \<Rightarrow> rat option" where
  "attempt_of payload = (case json_field ''attempt'' payload of Some (JNum q) \<Rightarrow> Some q | _ \<Rightarrow> None)"

definition retryMessage :: "env \<Rightarrow> (json \<Rightarrow> bool) \<Rightarrow> json \<Rightarrow> rat \<Rightarrow> unit act" where
  "retryMessage E mid payload q =
     bind_s (modify_s (\<lambda>w. w\<lparr>w_now := w_now w + RETRY_DELAY_MS * 1000\<rparr>)) (\<lambda>_.
     publish_payload E mid ORDER_PROCESS_QUEUE (json_spread payload ''attempt'' (JNum (jadd q 1))))"

definition truthy_field :: "string \<Rightarrow> json \<Rightarrow> bool" where
  "truthy_field k j = (case json_field k j of Some v \<Rightarrow> json_truthy v | None \<Rightarrow> False)"

definition text_of :: "(json \<Rightarrow> string) \<Rightarrow> json option \<Rightarrow> string" where
  "text_of pg j = (case j of Some (JStr s) \<Rightarrow> s | Some v \<Rightarrow> pg v | None \<Rightarrow> [])"

definition payload_of :: "(json \<Rightarrow> string) \<Rightarrow> json \<Rightarrow> process_payload" where
  "payload_of pg j = \<lparr>pp_messageId = text_of pg (json_field ''messageId'' j),
     pp_orderId = text_of pg (json_field ''orderId'' j),
     pp_correlationId = (case json_field ''correlationId'' j of None \<Rightarrow> None | Some JNull \<Rightarrow> None
        | v \<Rightarrow> Some (text_of pg v))\<rparr>"

definition finish :: "env \<Rightarrow> worker_result \<Rightarrow> worker_result act" where
  "finish E res = bind_s ack (\<lambda>_. bind_s (recordOutcome E res) (\<lambda>_. return_s res))"

text \<open>An attempt that is no finite number counts as the first.\<close>
definition normalise_attempt :: "json \<Rightarrow> json" where
  "normalise_attempt j = (if attempt_of j = None then json_spread j ''attempt'' (JNum 1) else j)"

definition handleMessage ::
  "env \<Rightarrow> authorize_request fire \<Rightarrow> (json \<Rightarrow> string) \<Rightarrow> (json \<Rightarrow> bool) \<Rightarrow> content \<Rightarrow> worker_result act" where
  "handleMessage E P pg mid msg = (case msg of
     Unparseable raw \<Rightarrow>
       bind_s (publishToDlq E mid (JObj [(''attempt'', JNum 0), (''raw'', JStr (b64 raw))])) (\<lambda>_. finish E W_DLQ)
   | Parsed j0 \<Rightarrow>
       if j0 = JNull then throw_s (null_read ''messageId'')
       else if \<not> truthy_field ''messageId'' j0 \<or> \<not> truthy_field ''orderId'' j0
       then bind_s (publishToDlq E mid (json_spread j0 ''attempt'' (JNum 0))) (\<lambda>_. finish E W_DLQ)
       else
         (let j = normalise_attempt j0; q = the (attempt_of j) in
          bind_s (catch_s (bind_s (processOrderMessage E P (payload_of pg j)) (\<lambda>_. bind_s (finish E W_SUCCESS) (\<lambda>_. return_s True)))
                    (\<lambda>e. return_s False)) (\<lambda>ok.
          if ok then return_s W_SUCCESS
          else if q < of_nat MAX_RETRY_ATTEMPTS
          then bind_s (retryMessage E mid j q) (\<lambda>_. finish E W_RETRY)
          else bind_s (publishToDlq E mid j) (\<lambda>_. finish E W_DLQ))))"

text \<open>\<^verbatim>\<open>consume\<close>: an error of the handler is logged; the message stays unacknowledged.\<close>
definition deliver :: "env \<Rightarrow> authorize_request fire \<Rightarrow> (json \<Rightarrow> string) \<Rightarrow> (json \<Rightarrow> bool) \<Rightarrow> content \<Rightarrow> world \<Rightarrow> worker_result option \<times> world" where
  "deliver E P pg mid msg w = (case handleMessage E P pg mid msg w of
     (Inl _, w1) \<Rightarrow> (None, w1) | (Inr res, w1) \<Rightarrow> (Some res, w1))"

section \<open>Redelivery\<close>

text \<open>Deliver a message and then, as long as it is retried, the message the retry published;
  \<open>P k\<close> is the payments service at the k-th delivery. None when the fuel runs out.\<close>
fun drive :: "nat \<Rightarrow> env \<Rightarrow> (nat \<Rightarrow> authorize_request fire) \<Rightarrow> (json \<Rightarrow> string) \<Rightarrow> (json \<Rightarrow> bool) \<Rightarrow> content \<Rightarrow> world
    \<Rightarrow> (worker_result option \<times> world) option" where
  "drive 0 E P pg mid msg w = None"
| "drive (Suc n) E P pg mid msg w = (case deliver E (P n) pg mid msg w of
     (Some W_RETRY, w1) \<Rightarrow> drive n E P pg mid (bm_content (last (w_published w1))) w1
   | (res, w1) \<Rightarrow> Some (res, w1))"

section \<open>Facts\<close>

text \<open>The worker's own steps leave the database and the channel alone.\<close>

lemma recordOutcome_app: "recordOutcome E res w = (Inr (), recordOrderProcessingDuration E (e_duration E w) (worker_result_str res)
     (recordWorkerMessage E ORDER_PROCESS_QUEUE (worker_result_str res) w))"
  by (simp add: recordOutcome_def)

lemma finish_open:
  assumes "w_channel w = ChannelOpen"
  shows "\<exists>w1. finish E res w = (Inr res, w1) \<and> w_acks w1 = w_acks w + 1 \<and> w_published w1 = w_published w \<and>
     w_channel w1 = ChannelOpen \<and> w_db w1 = w_db w"
  using assms by (simp add: finish_def ack_def bind_s_def recordOutcome_app)

lemma finish_not_open: "w_channel w \<noteq> ChannelOpen \<Longrightarrow> \<exists>e. finish E res w = (Inl e, w)"
  by (simp add: finish_def ack_def bind_s_def)

lemma publish_payload_open:
  assumes "w_channel w = ChannelOpen" and "\<forall>j. json_field ''messageId'' payload = Some j \<longrightarrow> mid j"
  shows "\<exists>w1 m. publish_payload E mid q payload w = (Inr (), w1) \<and> w_published w1 = w_published w @ [m] \<and>
     bm_queue m = q \<and> bm_content m = Parsed payload \<and>
     w_acks w1 = w_acks w \<and> w_channel w1 = ChannelOpen \<and> w_db w1 = w_db w"
  using assms
  by (cases "json_field ''messageId'' payload")
     (auto simp: publish_payload_def resolveChannel_def bind_s_def publish_open)

lemma grpc_keeps: "grpc_authorize E P req w = (r, w1) \<Longrightarrow> w_acks w1 = w_acks w \<and> w_published w1 = w_published w \<and> w_channel w1 = w_channel w"
  by (auto simp: grpc_authorize_def grpc_call_def split: sum.splits if_splits)

text \<open>Processing a message never acknowledges, publishes or touches the channel.\<close>
definition keeps_broker :: "'a act \<Rightarrow> bool" where
  "keeps_broker m \<longleftrightarrow> (\<forall>w. w_acks (snd (m w)) = w_acks w \<and> w_published (snd (m w)) = w_published w \<and>
     w_channel (snd (m w)) = w_channel w)"

named_theorems broker_intros \<open>steps that leave the broker alone\<close>

lemma keeps_brokerD:
  "keeps_broker m \<Longrightarrow> m w = (r, w1) \<Longrightarrow> w_acks w1 = w_acks w \<and> w_published w1 = w_published w \<and> w_channel w1 = w_channel w"
  unfolding keeps_broker_def by (metis snd_conv)

lemma keeps_broker_basic [broker_intros]:
  "keeps_broker (return_s x)" "keeps_broker (throw_s e)" "keeps_broker (gets_s f)" "keeps_broker (emit ev)"
  "keeps_broker (modify_s (audit E dto))" "keeps_broker (modify_s (recordOrderCompleted E s))"
  by (simp_all add: keeps_broker_def)

lemma keeps_broker_bind [broker_intros]:
  assumes m: "keeps_broker m" and k: "\<And>x. keeps_broker (k x)"
  shows "keeps_broker (bind_s m k)"
  unfolding keeps_broker_def
proof
  fix w
  obtain r w1 where mw: "m w = (r, w1)" by fastforce
  show "w_acks (snd (bind_s m k w)) = w_acks w \<and> w_published (snd (bind_s m k w)) = w_published w \<and>
     w_channel (snd (bind_s m k w)) = w_channel w"
    using keeps_brokerD [OF m mw] k mw by (cases r) (simp_all add: bind_s_def keeps_broker_def)
qed

lemma keeps_broker_catch [broker_intros]:
  assumes m: "keeps_broker m" and k: "\<And>x. keeps_broker (k x)"
  shows "keeps_broker (catch_s m k)"
  unfolding keeps_broker_def
proof
  fix w
  obtain r w1 where mw: "m w = (r, w1)" by fastforce
  show "w_acks (snd (catch_s m k w)) = w_acks w \<and> w_published (snd (catch_s m k w)) = w_published w \<and>
     w_channel (snd (catch_s m k w)) = w_channel w"
    using keeps_brokerD [OF m mw] k mw by (cases r) (simp_all add: catch_s_def keeps_broker_def)
qed

lemma keeps_broker_if [broker_intros]: "keeps_broker a \<Longrightarrow> keeps_broker b \<Longrightarrow> keeps_broker (if c then a else b)"
  by simp

lemma keeps_broker_option [broker_intros]:
  "keeps_broker a \<Longrightarrow> (\<And>x. keeps_broker (b x)) \<Longrightarrow> keeps_broker (case ov of None \<Rightarrow> a | Some x \<Rightarrow> b x)"
  by (cases ov) auto

lemma keeps_broker_quiet: "quiet m \<Longrightarrow> keeps_broker m"
  by (simp add: quiet_def keeps_broker_def same_outside_def)

lemma keeps_broker_grpc [broker_intros]: "keeps_broker (grpc_authorize E P req)"
  unfolding keeps_broker_def using grpc_keeps by (metis surjective_pairing)

lemma keeps_broker_mark_paid [broker_intros]: "keeps_broker (mark_paid i pid)"
  by (simp add: keeps_broker_def mark_paid_def)

lemma keeps_broker_authorizePayment [broker_intros]: "keeps_broker (authorizePayment E P ord)"
  unfolding authorizePayment_def by (intro broker_intros)

lemma keeps_broker_transaction [broker_intros]: "keeps_broker m \<Longrightarrow> keeps_broker (transaction m)"
  by (auto simp: keeps_broker_def transaction_def split: prod.splits sum.splits) (metis snd_conv)+

lemma keeps_broker_processing [broker_intros]:
  "keeps_broker (insertProcessedMessage pl)" "keeps_broker (find_order_row E i)" "keeps_broker (saveOrder r)"
  by (auto simp: keeps_broker_def insertProcessedMessage_def find_order_row_def split: if_split)

lemma keeps_broker_processOrderMessage [broker_intros]:
  assumes "\<And>w. w_acks (e_others E w) = w_acks w \<and> w_published (e_others E w) = w_published w \<and> w_channel (e_others E w) = w_channel w"
  shows "keeps_broker (processOrderMessage E P pl)"
proof -
  have "keeps_broker (modify_s (e_others E))" using assms by (simp add: keeps_broker_def)
  then show ?thesis unfolding processOrderMessage_def processTransaction_def
    by (intro broker_intros)
qed

end
