(* ===== verification/Orders_Worker_Theorems.thy ===== *)
theory Orders_Worker_Theorems
  imports Orders_Worker
begin

text \<open>
  The properties of the worker: every delivery is settled with one acknowledgement and at
  most one follow-up message, a chain of retries ends in success or in the dead-letter queue
  after three attempts, and the messages for which that is not so.
\<close>

text \<open>Other requests of this process do not use the consumer's channel.\<close>
definition others_off_broker :: "env \<Rightarrow> bool" where
  "others_off_broker E \<longleftrightarrow> (\<forall>w. w_acks (e_others E w) = w_acks w \<and> w_published (e_others E w) = w_published w \<and>
     w_channel (e_others E w) = w_channel w)"

text \<open>A message an object can be made of, whose message id (if any) amqplib accepts.\<close>
definition deliverable :: "(json \<Rightarrow> bool) \<Rightarrow> content \<Rightarrow> bool" where
  "deliverable mid msg = (case msg of Unparseable _ \<Rightarrow> True
     | Parsed (JObj kvs) \<Rightarrow> (case map_of kvs ''messageId'' of Some v \<Rightarrow> mid v | None \<Rightarrow> True) | _ \<Rightarrow> False)"

text \<open>What a settled delivery left on the broker.\<close>
definition settled :: "content \<Rightarrow> worker_result \<Rightarrow> world \<Rightarrow> world \<Rightarrow> bool" where
  "settled msg res w w' \<longleftrightarrow> w_acks w' = w_acks w + 1 \<and> w_channel w' = ChannelOpen \<and>
     (case res of
        W_SUCCESS \<Rightarrow> w_published w' = w_published w
      | W_DLQ \<Rightarrow> (\<exists>m. w_published w' = w_published w @ [m] \<and> bm_queue m = ORDER_DLQ)
      | W_RETRY \<Rightarrow> (\<exists>m j q. w_published w' = w_published w @ [m] \<and> bm_queue m = ORDER_PROCESS_QUEUE \<and>
           msg = Parsed j \<and> attempt_of (normalise_attempt j) = Some q \<and> q < of_nat MAX_RETRY_ATTEMPTS \<and>
           bm_content m = Parsed (json_spread (normalise_attempt j) ''attempt'' (JNum (jadd q 1)))))"

lemma publish_then_finish:
  assumes ch: "w_channel w = ChannelOpen" and ok: "\<forall>j. json_field ''messageId'' p = Some j \<longrightarrow> mid j"
  shows "\<exists>w1 m. bind_s (publish_payload E mid q p) (\<lambda>_. finish E res) w = (Inr res, w1) \<and>
     w_published w1 = w_published w @ [m] \<and> bm_queue m = q \<and> bm_content m = Parsed p \<and>
     w_acks w1 = w_acks w + 1 \<and> w_channel w1 = ChannelOpen \<and> w_db w1 = w_db w"
proof -
  obtain w1 m where p: "publish_payload E mid q p w = (Inr (), w1)" "w_published w1 = w_published w @ [m]"
     "bm_queue m = q" "bm_content m = Parsed p" "w_acks w1 = w_acks w" "w_channel w1 = ChannelOpen" "w_db w1 = w_db w"
    using publish_payload_open [OF ch ok] by blast
  obtain w2 where "finish E res w1 = (Inr res, w2)" "w_acks w2 = w_acks w1 + 1" "w_published w2 = w_published w1"
     "w_channel w2 = ChannelOpen" "w_db w2 = w_db w1"
    using finish_open [OF p(6)] by blast
  then show ?thesis using p by (auto simp: bind_s_def)
qed

lemma attempt_of_normalise: "\<exists>q. attempt_of (normalise_attempt j) = Some q"
  by (cases "attempt_of j") (auto simp: normalise_attempt_def attempt_of_def json_spread_def map_of_set_key)

lemma normalise_JObj: "\<exists>kvs'. normalise_attempt (JObj kvs) = JObj kvs' \<and>
   (\<forall>k. k \<noteq> ''attempt'' \<longrightarrow> map_of kvs' k = map_of kvs k)"
proof (cases "attempt_of (JObj kvs) = None")
  case True
  then have "normalise_attempt (JObj kvs) = JObj (set_key ''attempt'' (JNum 1) kvs)"
    by (simp add: normalise_attempt_def json_spread_def json_entries_def)
  then show ?thesis by (simp add: map_of_set_key)
next
  case False
  then have "normalise_attempt (JObj kvs) = JObj kvs" unfolding normalise_attempt_def by (simp only: if_False)
  then show ?thesis by simp
qed

text \<open>The processing step with its acknowledgement: on an open channel it acknowledges exactly
  when it says it is done.\<close>
lemma process_and_ack:
  assumes ch: "w_channel w = ChannelOpen" and off: "others_off_broker E"
  shows "\<exists>ok w1. catch_s (bind_s (processOrderMessage E P pl) (\<lambda>_. bind_s (finish E W_SUCCESS) (\<lambda>_. return_s True)))
       (\<lambda>e. return_s False) w = (Inr ok, w1) \<and> w_acks w1 = (if ok then w_acks w + 1 else w_acks w) \<and>
       w_published w1 = w_published w \<and> w_channel w1 = ChannelOpen \<and>
       (ok \<longleftrightarrow> (\<exists>w2. processOrderMessage E P pl w = (Inr (), w2))) \<and>
       w_db w1 = w_db (snd (processOrderMessage E P pl w))"
proof -
  obtain r w2 where p: "processOrderMessage E P pl w = (r, w2)" by fastforce
  have kb: "keeps_broker (processOrderMessage E P pl)"
    by (rule keeps_broker_processOrderMessage) (use off in \<open>simp add: others_off_broker_def\<close>)
  note b = keeps_brokerD [OF kb p]
  show ?thesis
  proof (cases r)
    case (Inl e)
    then show ?thesis using p b ch
      by (intro exI [of _ False] exI [of _ w2]) (simp add: catch_s_def bind_s_def)
  next
    case (Inr u)
    have "w_channel w2 = ChannelOpen" using b ch by simp
    from finish_open [OF this, of E W_SUCCESS] obtain w3 where
      f: "finish E W_SUCCESS w2 = (Inr W_SUCCESS, w3)" "w_acks w3 = w_acks w2 + 1"
        "w_published w3 = w_published w2" "w_channel w3 = ChannelOpen" "w_db w3 = w_db w2" by blast
    show ?thesis
      by (intro exI [of _ True] exI [of _ w3]) (use p b Inr f in \<open>simp add: catch_s_def bind_s_def\<close>)
  qed
qed

lemma refused_id:
  assumes ch: "w_channel w = ChannelOpen" and no: "json_field ''messageId'' p = Some j" "\<not> mid j"
  shows "\<exists>e. bind_s (publish_payload E mid q p) (\<lambda>_. finish E res) w = (Inl e, w)"
  using assms by (simp add: publish_payload_def resolveChannel_def bind_s_def)

text \<open>A follow-up message is published and the delivery acknowledged, or nothing happens at all.\<close>
lemma follow_up:
  assumes ch: "w_channel w = ChannelOpen" and bad: "\<forall>j. json_field ''messageId'' p = Some j \<longrightarrow> \<not> mid j \<longrightarrow> bad"
  shows "(\<exists>w1 m. bind_s (publish_payload E mid q p) (\<lambda>_. finish E res) w = (Inr res, w1) \<and>
      w_published w1 = w_published w @ [m] \<and> bm_queue m = q \<and> bm_content m = Parsed p \<and>
      w_acks w1 = w_acks w + 1 \<and> w_channel w1 = ChannelOpen) \<or>
    bad \<and> (\<exists>e. bind_s (publish_payload E mid q p) (\<lambda>_. finish E res) w = (Inl e, w))"
proof (cases "\<forall>j. json_field ''messageId'' p = Some j \<longrightarrow> mid j")
  case True
  then show ?thesis using publish_then_finish [OF ch True, of E q res] by blast
next
  case False
  then show ?thesis using refused_id [OF ch, of p _ mid E q res] bad by blast
qed

text \<open>What is left of a delivery that was not settled.\<close>
definition unsettled :: "(json \<Rightarrow> bool) \<Rightarrow> content \<Rightarrow> world \<Rightarrow> world \<Rightarrow> bool" where
  "unsettled mid msg w w' \<longleftrightarrow> \<not> deliverable mid msg \<and> w_acks w' = w_acks w \<and> w_published w' = w_published w \<and>
     w_channel w' = ChannelOpen"

definition outcome_of :: "(json \<Rightarrow> bool) \<Rightarrow> content \<Rightarrow> world \<Rightarrow> (exn + worker_result) \<times> world \<Rightarrow> bool" where
  "outcome_of mid msg w out \<longleftrightarrow> (case out of
     (Inl _, w') \<Rightarrow> unsettled mid msg w w' | (Inr res, w') \<Rightarrow> settled msg res w w')"

lemma object_id: "json_field ''messageId'' (json_spread j0 ''attempt'' x) = Some v \<Longrightarrow> \<not> mid v \<Longrightarrow> \<not> deliverable mid (Parsed j0)"
  by (cases j0) (auto simp: deliverable_def)

lemma object_id_normalised:
  assumes "json_field ''messageId'' (normalise_attempt j0) = Some v \<or>
    json_field ''messageId'' (json_spread (normalise_attempt j0) ''attempt'' x) = Some v" and "\<not> mid v"
  shows "\<not> deliverable mid (Parsed j0)"
proof (cases j0)
  case (JObj kvs)
  obtain kvs' where "normalise_attempt (JObj kvs) = JObj kvs'" "map_of kvs' ''messageId'' = map_of kvs ''messageId''"
    using normalise_JObj [of kvs] by auto
  then show ?thesis using assms by (auto simp: deliverable_def JObj)
qed (auto simp: deliverable_def)

lemma handleMessage_outcome:
  assumes ch: "w_channel w = ChannelOpen" and off: "others_off_broker E"
  shows "outcome_of mid msg w (handleMessage E P pg mid msg w)"
proof (cases msg)
  case (Unparseable s)
  have "\<forall>j. json_field ''messageId'' (JObj [(''attempt'', JNum 0), (''raw'', JStr (b64 s))]) = Some j \<longrightarrow> mid j" by simp
  from publish_then_finish [OF ch this, of E ORDER_DLQ W_DLQ] show ?thesis
    unfolding handleMessage_def Unparseable content.case publishToDlq_def outcome_of_def
    by (auto simp: settled_def)
next
  case (Parsed j0)
  show ?thesis
  proof (cases "truthy_field ''messageId'' j0 \<and> truthy_field ''orderId'' j0")
    case bare: False
    show ?thesis
    proof (cases "j0 = JNull")
      case True
      then show ?thesis using ch by (simp add: handleMessage_def Parsed outcome_of_def unsettled_def deliverable_def)
    next
      case False
      have "\<forall>j. json_field ''messageId'' (json_spread j0 ''attempt'' (JNum 0)) = Some j \<longrightarrow> \<not> mid j \<longrightarrow> \<not> deliverable mid msg"
        using object_id [of j0 "JNum 0" _ mid] by (simp add: Parsed)
      from follow_up [OF ch this, where E = E and q = ORDER_DLQ and res = W_DLQ] show ?thesis
        using bare False ch by (auto simp: handleMessage_def Parsed publishToDlq_def outcome_of_def settled_def unsettled_def)
    qed
  next
    case True
    define j where "j = normalise_attempt j0"
    have nn: "j0 \<noteq> JNull" using True by (auto simp: truthy_field_def)
    obtain q where q: "attempt_of j = Some q" using attempt_of_normalise by (auto simp: j_def)
    obtain ok1 w1 where proc: "catch_s (bind_s (processOrderMessage E P (payload_of pg j)) (\<lambda>_. bind_s (finish E W_SUCCESS) (\<lambda>_. return_s True)))
       (\<lambda>e. return_s False) w = (Inr ok1, w1)" and w1: "w_acks w1 = (if ok1 then w_acks w + 1 else w_acks w)"
       "w_published w1 = w_published w" "w_channel w1 = ChannelOpen"
      using process_and_ack [OF ch off] by blast
    have handled: "handleMessage E P pg mid msg w =
        (if ok1 then return_s W_SUCCESS
          else if q < of_nat MAX_RETRY_ATTEMPTS
          then bind_s (retryMessage E mid j q) (\<lambda>_. finish E W_RETRY)
          else bind_s (publishToDlq E mid j) (\<lambda>_. finish E W_DLQ)) w1"
      unfolding handleMessage_def Parsed content.case Let_def j_def [symmetric] q option.sel
      using True nn proc by (simp add: bind_s_def)
    consider "ok1" | (again) "\<not> ok1" "q < of_nat MAX_RETRY_ATTEMPTS" | (dead) "\<not> ok1" "\<not> q < of_nat MAX_RETRY_ATTEMPTS" by blast
    then show ?thesis
    proof cases
      case 1
      then show ?thesis using w1 by (simp add: handled outcome_of_def settled_def)
    next
      case again
      let ?w2 = "w1\<lparr>w_now := w_now w1 + RETRY_DELAY_MS * 1000\<rparr>"
      let ?p = "json_spread j ''attempt'' (JNum (jadd q 1))"
      have ch2: "w_channel ?w2 = ChannelOpen" using w1 by simp
      have run: "handleMessage E P pg mid msg w = bind_s (publish_payload E mid ORDER_PROCESS_QUEUE ?p) (\<lambda>_. finish E W_RETRY) ?w2"
        using again by (simp add: handled retryMessage_def bind_s_def)
      have "\<forall>v. json_field ''messageId'' ?p = Some v \<longrightarrow> \<not> mid v \<longrightarrow> \<not> deliverable mid msg"
        using object_id_normalised unfolding Parsed j_def by blast
      from follow_up [OF ch2 this, where E = E and q = ORDER_PROCESS_QUEUE and res = W_RETRY] show ?thesis
        unfolding run outcome_of_def using w1 again q by (auto simp: settled_def unsettled_def Parsed j_def)
    next
      case dead
      have "\<forall>v. json_field ''messageId'' j = Some v \<longrightarrow> \<not> mid v \<longrightarrow> \<not> deliverable mid msg"
        using object_id_normalised unfolding Parsed j_def by blast
      from follow_up [OF w1(3) this, where E = E and q = ORDER_DLQ and res = W_DLQ] show ?thesis
        unfolding handled publishToDlq_def outcome_of_def using w1 dead by (auto simp: settled_def unsettled_def)
    qed
  qed
qed

lemma deliver_cases:
  assumes "w_channel w = ChannelOpen" and "others_off_broker E"
  obtains res w' where "deliver E P pg mid msg w = (Some res, w')" "settled msg res w w'"
  | w' where "deliver E P pg mid msg w = (None, w')" "unsettled mid msg w w'"
  using handleMessage_outcome [OF assms, of mid msg P pg]
  by (cases "handleMessage E P pg mid msg w"; cases "fst (handleMessage E P pg mid msg w)")
     (auto simp: deliver_def outcome_of_def)

text \<open>The message ids amqplib takes: a string of at most 255 bytes.\<close>
definition amqp_short_string :: "json \<Rightarrow> bool" where
  "amqp_short_string j = (case j of JStr s \<Rightarrow> length s < 256 | _ \<Rightarrow> False)"

text \<open>C10: On an open channel every delivery, whatever its bytes, is either settled or left alone, and
  it is left alone only if it is no JSON object or carries a message id the client refuses (amqplib
  takes strings of at most 255 bytes). Settled means acknowledged exactly once, with nothing
  published (success), one dead letter, or one retry with the attempt counter increased, the last
  only while the counter is below three; left alone means that nothing is acknowledged and nothing
  published, so that the broker keeps the message.\<close>
theorem delivery_is_settled_once:
  assumes "w_channel w = ChannelOpen" and "others_off_broker E"
  shows "\<exists>r w'. deliver E P pg mid msg w = (r, w') \<and>
    (case r of Some res \<Rightarrow> settled msg res w w' | None \<Rightarrow> unsettled mid msg w w')"
  by (rule deliver_cases [OF assms, of P pg mid msg]) auto

text \<open>A short message id is settled, one of 256 bytes is not: processing it fails, and the client
  then refuses the id of the retry.\<close>
definition long_id_message :: "(string \<times> json) list" where
  "long_id_message = [(''messageId'', JStr (replicate 256 CHR ''m'')), (''orderId'', JStr ''gone'')]"

lemma delivery_is_settled_once_witness:
  "(\<exists>res w'. deliver sample_env (\<lambda>_ _. Inl RxTimeout) (\<lambda>_. []) amqp_short_string (Unparseable ''{'') sample_world = (Some res, w') \<and>
     w_acks w' = 1) \<and>
   (\<exists>w'. deliver sample_env (\<lambda>_ _. Inl RxTimeout) (\<lambda>_. []) amqp_short_string (Parsed (JObj long_id_message)) sample_world = (None, w') \<and>
     w_acks w' = 0 \<and> w_published w' = [])"
proof -
  have 1: "w_channel sample_world = ChannelOpen" "w_acks sample_world = 0" "w_published sample_world = []" by (simp_all add: sample_defs)
  have 2: "others_off_broker sample_env" by (simp add: others_off_broker_def sample_defs)
  have 3: "deliverable amqp_short_string (Unparseable ''{'')" by (simp add: deliverable_def)
  have 4: "fst (deliver sample_env (\<lambda>_ _. Inl RxTimeout) (\<lambda>_. []) amqp_short_string (Parsed (JObj long_id_message)) sample_world) = None"
    by code_simp
  note settles = delivery_is_settled_once [OF 1(1) 2, of "\<lambda>_ _. Inl RxTimeout" "\<lambda>_. []" amqp_short_string]
  show ?thesis
  proof
    show "\<exists>res w'. deliver sample_env (\<lambda>_ _. Inl RxTimeout) (\<lambda>_. []) amqp_short_string (Unparseable ''{'') sample_world = (Some res, w') \<and>
       w_acks w' = 1"
      using settles [of "Unparseable ''{''"] 1 3 by (auto simp: settled_def unsettled_def split: option.splits)
    show "\<exists>w'. deliver sample_env (\<lambda>_ _. Inl RxTimeout) (\<lambda>_. []) amqp_short_string (Parsed (JObj long_id_message)) sample_world = (None, w') \<and>
       w_acks w' = 0 \<and> w_published w' = []"
      using settles [of "Parsed (JObj long_id_message)"] 1 4 by (auto simp: unsettled_def split: option.splits)
  qed
qed

text \<open>A message whose body is the JSON value null is lost to the worker: the handler throws
  before its first try block, so it is neither acknowledged nor sent to the dead-letter queue.\<close>
theorem null_message_is_never_settled:
  "deliver E P pg mid (Parsed JNull) w = (None, w)"
  by (simp add: deliver_def handleMessage_def)

section \<open>Chains of retries\<close>

lemma attempt_spread: "attempt_of (json_spread (JObj kvs) ''attempt'' (JNum q)) = Some q"
  by (simp add: attempt_of_def)

lemma normalise_spread:
  "normalise_attempt (json_spread (JObj kvs) ''attempt'' (JNum q)) = json_spread (JObj kvs) ''attempt'' (JNum q)"
  unfolding normalise_attempt_def attempt_spread by (simp only: option.distinct if_False)

text \<open>The message of a retry is again an object with the same message id and the next attempt.\<close>
lemma retry_content:
  assumes "json_spread (normalise_attempt (JObj kvs)) ''attempt'' (JNum q) = j"
  shows "\<exists>kvs2. j = JObj kvs2 \<and> map_of kvs2 ''messageId'' = map_of kvs ''messageId'' \<and>
     attempt_of (normalise_attempt (JObj kvs2)) = Some q"
proof -
  obtain kvs1 where k: "normalise_attempt (JObj kvs) = JObj kvs1" "map_of kvs1 ''messageId'' = map_of kvs ''messageId''"
    using normalise_JObj [of kvs] by auto
  have j: "j = JObj (set_key ''attempt'' (JNum q) kvs1)"
    using assms by (simp add: k json_spread_def json_entries_def)
  have "attempt_of (normalise_attempt j) = Some q"
    unfolding assms [symmetric] k normalise_spread attempt_spread ..
  then show ?thesis using k(2) by (auto simp: j map_of_set_key)
qed

lemma jadd_int: "\<bar>z + 1\<bar> < 2 ^ 53 \<Longrightarrow> jadd (of_int z) 1 = of_int (z + 1)"
  unfolding jadd_def using fl_of_int [of "z + 1"] by simp

lemma deliver_settles:
  assumes "w_channel w = ChannelOpen" and "others_off_broker E" and "deliverable mid msg"
  obtains res w' where "deliver E P pg mid msg w = (Some res, w')" "settled msg res w w'"
  using deliver_cases [OF assms(1,2), of P pg mid msg] assms(3) by (auto simp: unsettled_def)

lemma drive_ends:
  assumes off: "others_off_broker E"
  shows "w_channel w = ChannelOpen \<Longrightarrow> deliverable mid (Parsed (JObj kvs)) \<Longrightarrow>
     attempt_of (normalise_attempt (JObj kvs)) = Some (of_int z) \<Longrightarrow> \<bar>z\<bar> < 2 ^ 53 \<Longrightarrow> nat (3 - z) \<le> n \<Longrightarrow>
     \<exists>res w'. drive (Suc n) E P pg mid (Parsed (JObj kvs)) w = Some (Some res, w') \<and> w_channel w' = ChannelOpen \<and>
       (res = W_SUCCESS \<or> res = W_DLQ \<and> bm_queue (last (w_published w')) = ORDER_DLQ) \<and>
       w_acks w' \<le> w_acks w + Suc n"
proof (induction n arbitrary: w kvs z)
  case (0 w kvs z)
  obtain res w1 where d: "deliver E (P 0) pg mid (Parsed (JObj kvs)) w = (Some res, w1)"
    and s: "settled (Parsed (JObj kvs)) res w w1"
    by (rule deliver_settles [OF 0(1) off 0(2)])
  have "(3 :: rat) \<le> of_int z" using 0(5) by simp
  then have "res \<noteq> W_RETRY" using s 0(3) by (auto simp: settled_def MAX_RETRY_ATTEMPTS_def)
  then show ?case using d s by (cases res) (auto simp: settled_def)
next
  case (Suc n w kvs z)
  obtain res w1 where d: "deliver E (P (Suc n)) pg mid (Parsed (JObj kvs)) w = (Some res, w1)"
    and s: "settled (Parsed (JObj kvs)) res w w1"
    by (rule deliver_settles [OF Suc(2) off Suc(3)])
  show ?case
  proof (cases "res = W_RETRY")
    case False
    then show ?thesis using d s by (cases res) (auto simp: settled_def)
  next
    case True
    then obtain m where m: "w_published w1 = w_published w @ [m]" "w_acks w1 = w_acks w + 1" "w_channel w1 = ChannelOpen"
      "bm_content m = Parsed (json_spread (normalise_attempt (JObj kvs)) ''attempt'' (JNum (jadd (of_int z) 1)))"
      and z: "of_int z < (3 :: rat)" using s Suc(4) by (auto simp: settled_def MAX_RETRY_ATTEMPTS_def)
    have z3: "z < 3" using z by (metis of_int_less_iff of_int_numeral)
    have ja: "jadd (of_int z) 1 = of_int (z + 1)" using z3 Suc(5) by (intro jadd_int) auto
    obtain kvs2 where k: "bm_content m = Parsed (JObj kvs2)" "map_of kvs2 ''messageId'' = map_of kvs ''messageId''"
      "attempt_of (normalise_attempt (JObj kvs2)) = Some (of_int (z + 1))"
      using retry_content [OF refl, of kvs "of_int (z + 1)"] m(4) unfolding ja by auto
    have del: "deliverable mid (Parsed (JObj kvs2))" using Suc(3) k(2) by (simp add: deliverable_def)
    have "\<bar>z + 1\<bar> < 2 ^ 53" "nat (3 - (z + 1)) \<le> n" using z3 Suc(5,6) by auto
    from Suc.IH [OF m(3) del k(3) this] obtain res2 w2 where
      "drive (Suc n) E P pg mid (Parsed (JObj kvs2)) w1 = Some (Some res2, w2)" "w_channel w2 = ChannelOpen"
      "res2 = W_SUCCESS \<or> res2 = W_DLQ \<and> bm_queue (last (w_published w2)) = ORDER_DLQ" "w_acks w2 \<le> w_acks w1 + Suc n"
      by blast
    then show ?thesis using d m k(1) True
      by (intro exI [of _ res2] exI [of _ w2]) (simp only: drive.simps prod.case option.case worker_result.case last_snoc, simp)
  qed
qed

text \<open>C11: Retries end: a message whose message id (if any) the client accepts and whose attempt
  counter is an integer z (or is missing, which counts as 1), redelivered as long as the handler
  retries it, ends after at most 1 + max 0 (3 - z) deliveries, so a single one from a counter of 3
  on, with the order processed or with the message in the dead-letter queue, and at most one
  acknowledgement a delivery, whatever the payments service does at each of them.\<close>
theorem retries_are_bounded:
  assumes "w_channel w = ChannelOpen" and "others_off_broker E" and "deliverable mid (Parsed (JObj kvs))"
    and "attempt_of (normalise_attempt (JObj kvs)) = Some (of_int z)" and "\<bar>z\<bar> < 2 ^ 53"
  shows "\<exists>res w'. drive (Suc (nat (3 - z))) E P pg mid (Parsed (JObj kvs)) w = Some (Some res, w') \<and>
     w_channel w' = ChannelOpen \<and> (res = W_SUCCESS \<or> res = W_DLQ \<and> bm_queue (last (w_published w')) = ORDER_DLQ) \<and>
     w_acks w' \<le> w_acks w + Suc (nat (3 - z))"
  by (rule drive_ends [OF assms(2,1,3,4,5) order_refl])

definition sample_message :: "rat \<Rightarrow> (string \<times> json) list" where
  "sample_message q = [(''messageId'', JStr ''m1''), (''orderId'', JStr ''gone''), (''attempt'', JNum q)]"

lemma retries_are_bounded_witness:
  "\<exists>w'. drive 3 sample_env (\<lambda>_ _ _. Inl RxTimeout) (\<lambda>_. []) amqp_short_string (Parsed (JObj (sample_message 1))) sample_world
     = Some (Some W_DLQ, w') \<and> w_acks w' \<le> 3"
proof -
  have 1: "w_channel sample_world = ChannelOpen" "w_acks sample_world = 0" by (simp_all add: sample_defs)
  have 2: "others_off_broker sample_env" by (simp add: others_off_broker_def sample_defs)
  have 3: "deliverable amqp_short_string (Parsed (JObj (sample_message 1)))" by (simp add: deliverable_def sample_message_def amqp_short_string_def)
  have 4: "attempt_of (normalise_attempt (JObj (sample_message 1))) = Some (of_int 1)"
    by (simp add: normalise_attempt_def attempt_of_def sample_message_def)
  have 5: "\<bar>1 :: int\<bar> < 2 ^ 53" by simp
  have n: "Suc (nat (3 - 1)) = 3" by simp
  have r: "map_option fst (drive 3 sample_env (\<lambda>_ _ _. Inl RxTimeout) (\<lambda>_. []) amqp_short_string
     (Parsed (JObj (sample_message 1))) sample_world) = Some (Some W_DLQ)" by code_simp
  show ?thesis
    using retries_are_bounded [OF 1(1) 2 3 4 5, of "\<lambda>_ _ _. Inl RxTimeout" "\<lambda>_. []"] r 1(2) unfolding n by auto
qed

lemma processOrderMessage_missing:
  assumes lock: "lockable (w_db w) pl" and pg: "e_pg_uuid E (pp_orderId pl)" and r: "look_order (w_db w) (pp_orderId pl) = None"
  shows "\<exists>e. processOrderMessage E P pl w = (Inl e, w)"
proof -
  have seen: "(\<exists>x \<in> set (processed_messages (w_db w)). pm_messageId x = pp_messageId pl) = False"
    using lock by (simp add: lockable_def message_seen_def)
  have look: "look_order (w_db (locked pl w)) (pp_orderId pl) = None"
    using r look_order_cong [of "w_db (locked pl w)" "w_db w"] by (simp add: locked_def)
  have f: "find_order_row E (pp_orderId pl) (locked pl w) = (Inr None, locked pl w)"
    using pg look by (simp add: find_order_row_def)
  have "\<exists>e. processTransaction E pl w = (Inl e, w)"
    unfolding processTransaction_def transaction_def bind_s_gets seen
    using insertProcessedMessage_lockable [OF lock] f
    by (simp add: bind_s_def catch_s_def locked_def)
  then show ?thesis by (auto simp: processOrderMessage_def bind_s_def)
qed

lemma poison_step:
  assumes ch: "w_channel w = ChannelOpen" and raw: "mid (JStr m)"
    and ids: "map_of kvs ''messageId'' = Some (JStr m)" "m \<noteq> []" "map_of kvs ''orderId'' = Some (JStr i)" "i \<noteq> []"
    and q: "map_of kvs ''attempt'' = Some (JNum q)" "jadd q 1 = q" "q < 3"
    and lock: "lockable (w_db w) (payload_of pg (JObj kvs))" and pg: "e_pg_uuid E i" and r: "look_order (w_db w) i = None"
  shows "\<exists>w1 b. deliver E P pg mid (Parsed (JObj kvs)) w = (Some W_RETRY, w1) \<and> w_channel w1 = ChannelOpen \<and>
     w_db w1 = w_db w \<and> w_published w1 = w_published w @ [b] \<and> bm_content b = Parsed (json_spread (JObj kvs) ''attempt'' (JNum q))"
proof -
  have at: "attempt_of (JObj kvs) = Some q" by (simp add: attempt_of_def q)
  have nrm: "normalise_attempt (JObj kvs) = JObj kvs" unfolding normalise_attempt_def at by (simp only: option.distinct if_False)
  have oid: "pp_orderId (payload_of pg (JObj kvs)) = i" by (simp add: payload_of_def text_of_def ids)
  obtain e where p: "processOrderMessage E P (payload_of pg (JObj kvs)) w = (Inl e, w)"
    using processOrderMessage_missing [OF lock] pg r oid by auto
  let ?w2 = "w\<lparr>w_now := w_now w + RETRY_DELAY_MS * 1000\<rparr>" and ?j = "json_spread (JObj kvs) ''attempt'' (JNum q)"
  have ch2: "w_channel ?w2 = ChannelOpen" and mid: "\<forall>j. json_field ''messageId'' ?j = Some j \<longrightarrow> mid j"
    using ch raw by (simp_all add: ids)
  obtain w3 b where f: "bind_s (publish_payload E mid ORDER_PROCESS_QUEUE ?j) (\<lambda>_. finish E W_RETRY) ?w2 = (Inr W_RETRY, w3)"
    and b: "w_published w3 = w_published w @ [b]" "bm_content b = Parsed ?j" "w_channel w3 = ChannelOpen" "w_db w3 = w_db w"
    using publish_then_finish [OF ch2 mid, of E ORDER_PROCESS_QUEUE W_RETRY] by auto
  have t: "bind_s (retryMessage E mid (JObj kvs) q) (\<lambda>_. finish E W_RETRY) w = (Inr W_RETRY, w3)"
    using f by (simp add: retryMessage_def bind_s_def q)
  have pr: "catch_s (bind_s (processOrderMessage E P (payload_of pg (JObj kvs))) (\<lambda>_. bind_s (finish E W_SUCCESS) (\<lambda>_. return_s True)))
       (\<lambda>e. return_s False) w = (Inr False, w)" using p by (simp add: catch_s_def bind_s_def)
  have tr: "truthy_field ''messageId'' (JObj kvs)" "truthy_field ''orderId'' (JObj kvs)"
    by (simp_all add: truthy_field_def json_truthy_def ids)
  have "handleMessage E P pg mid (Parsed (JObj kvs)) w = (Inr W_RETRY, w3)"
    unfolding handleMessage_def content.case Let_def nrm at option.sel
    using tr t q(3) pr by (simp add: bind_s_def [of "catch_s _ _"] MAX_RETRY_ATTEMPTS_def)
  then show ?thesis using b by (simp add: deliver_def)
qed

lemma set_key_same: "map_of kvs k = Some v \<Longrightarrow> set_key k v kvs = kvs"
  by (induction k v kvs rule: set_key.induct) (auto split: if_splits)

text \<open>-2^54 is so large that adding one gives it back.\<close>
lemma jadd_poison: "jadd (- (2 ^ 54)) 1 = - (2 ^ 54)"
  by code_simp

text \<open>A message for an order that does not exist, with an attempt counter of -2^54, is
  retried for ever: adding one to it gives it back, so no number of redeliveries brings it to
  the dead-letter queue (any finite number is accepted as a counter).\<close>
theorem poison_message_never_ends:
  assumes "w_channel w = ChannelOpen" and "mid (JStr m)"
    and "map_of kvs ''messageId'' = Some (JStr m)" "m \<noteq> []" "map_of kvs ''orderId'' = Some (JStr i)" "i \<noteq> []"
    and "map_of kvs ''attempt'' = Some (JNum (- (2 ^ 54)))"
    and "lockable (w_db w) (payload_of pg (JObj kvs))" and "e_pg_uuid E i" and "look_order (w_db w) i = None"
  shows "drive n E P pg mid (Parsed (JObj kvs)) w = None"
  using assms(1,8,10)
proof (induction n arbitrary: w)
  case (Suc n w)
  have "(- (2 ^ 54) :: rat) < 3" by simp
  from poison_step [where mid = mid, OF Suc(2) assms(2-7) jadd_poison this Suc(3) assms(9) Suc(4)]
  obtain w1 b where d: "deliver E (P n) pg mid (Parsed (JObj kvs)) w = (Some W_RETRY, w1)" "w_channel w1 = ChannelOpen"
    "w_db w1 = w_db w" "w_published w1 = w_published w @ [b]"
    "bm_content b = Parsed (json_spread (JObj kvs) ''attempt'' (JNum (- (2 ^ 54))))" by blast
  have "bm_content b = Parsed (JObj kvs)"
    unfolding d(5) json_spread_def json_entries_def json.case set_key_same [OF assms(7)] ..
  moreover have "drive n E P pg mid (Parsed (JObj kvs)) w1 = None"
    by (rule Suc.IH) (use d Suc in simp_all)
  ultimately show ?case using d by simp
qed simp

lemma poison_message_never_ends_witness:
  "\<forall>n. drive n sample_env (\<lambda>_ _ _. Inl RxTimeout) (\<lambda>_. []) amqp_short_string
     (Parsed (JObj (sample_message (- (2 ^ 54))))) sample_world = None"
proof
  fix n
  show "drive n sample_env (\<lambda>_ _ _. Inl RxTimeout) (\<lambda>_. []) amqp_short_string
     (Parsed (JObj (sample_message (- (2 ^ 54))))) sample_world = None"
    by (rule poison_message_never_ends [where m = "''m1''" and i = "''gone''"])
       (simp_all add: amqp_short_string_def sample_message_def lockable_def message_seen_def payload_of_def text_of_def look_order_def sample_defs)
qed

end
