(* ===== verification/Payments_Server.thy ===== *)
theory Payments_Server
  imports Errors Money Store
begin

text \<open>
  The payments application (\<^verbatim>\<open>apps/payments/src\<close>): its table, the authorisation of a payment
  and the status query, with their gRPC handlers. Capture and refund are stubs in the
  sources. The service has a database of its own; \<^verbatim>\<open>e_others\<close> of its environment is what
  other calls do to it between the lookup and the insert of one authorisation.
\<close>

datatype payment_status = P_AUTHORIZED | P_CAPTURED | P_REFUNDED | P_FAILED | P_PENDING

fun payment_status_num :: "payment_status \<Rightarrow> nat" where
  "payment_status_num P_AUTHORIZED = 1"
| "payment_status_num P_CAPTURED = 2"
| "payment_status_num P_REFUNDED = 3"
| "payment_status_num P_FAILED = 4"
| "payment_status_num P_PENDING = 5"

record payment =
  pay_amount :: string
  pay_currency :: string
  pay_orderId :: string
  pay_paymentId :: string
  pay_status :: payment_status

record pay_state =
  ps_rows :: "payment list"
  ps_next :: nat

record pay_env =
  pe_uuid :: "nat \<Rightarrow> string"
  pe_pg_uuid :: "string \<Rightarrow> bool"
  pe_others :: "pay_state \<Rightarrow> pay_state"

type_synonym 'a pay_act = "(pay_state, exn, 'a) step"

record pay_request =
  pr_orderId :: string
  pr_amount :: int
  pr_currency :: string

text \<open>\<^verbatim>\<open>save(payment)\<close>: the column types, then the two unique indexes.\<close>
definition insert_payment :: "payment \<Rightarrow> int \<Rightarrow> unit pay_act" where
  "insert_payment p cents s =
     (if length (pay_currency p) > 3
      then (Inl (QueryFailed ''22001'' ''value too long for type character varying(3)''), s)
      else if cents \<ge> 10 ^ 12 then (Inl (QueryFailed ''22003'' ''numeric field overflow''), s)
      else if (\<exists>x \<in> set (ps_rows s). pay_orderId x = pay_orderId p)
      then (Inl (unique_violation ''IDX_payments_order_id''), s)
      else if (\<exists>x \<in> set (ps_rows s). pay_paymentId x = pay_paymentId p)
      then (Inl (unique_violation ''UQ_payments_payment_id''), s)
      else (Inr (), s\<lparr>ps_rows := ps_rows s @ [p]\<rparr>))"

definition find_payment_of_order :: "pay_env \<Rightarrow> string \<Rightarrow> payment option pay_act" where
  "find_payment_of_order PE orderId s =
     (if \<not> pe_pg_uuid PE orderId
      then (Inl (QueryFailed ''22P02'' ''invalid input syntax for type uuid''), s)
      else (Inr (find (\<lambda>p. pay_orderId p = orderId) (ps_rows s)), s))"

definition pay_authorize :: "pay_env \<Rightarrow> pay_request \<Rightarrow> payment pay_act" where
  "pay_authorize PE req =
     (if pr_orderId req = [] then throw_s (GrpcExn 3 ''orderId is required'')
      else if pr_amount req \<le> 0 then throw_s (GrpcExn 3 ''amount must be greater than 0'')
      else bind_s (find_payment_of_order PE (pr_orderId req)) (\<lambda>existing.
        case existing of
          Some p \<Rightarrow> return_s p
        | None \<Rightarrow> bind_s (modify_s (pe_others PE)) (\<lambda>_ s.
            let p = \<lparr>pay_amount = dollars_str (pr_amount req), pay_currency = pr_currency req,
                     pay_orderId = pr_orderId req, pay_paymentId = pe_uuid PE (ps_next s),
                     pay_status = P_AUTHORIZED\<rparr>
            in bind_s (insert_payment p (pr_amount req)) (\<lambda>_. return_s p) (s\<lparr>ps_next := ps_next s + 1\<rparr>))))"

definition pay_getPaymentStatus :: "string \<Rightarrow> payment pay_act" where
  "pay_getPaymentStatus paymentId s =
     (case find (\<lambda>p. pay_paymentId p = paymentId) (ps_rows s) of
        None \<Rightarrow> (Inl (GrpcExn 5 (''Payment '' @ paymentId @ '' not found'')), s)
      | Some p \<Rightarrow> (Inr p, s))"

text \<open>The handlers: only the id and the status number leave the service.\<close>
definition handler_authorize :: "pay_env \<Rightarrow> pay_request \<Rightarrow> (string \<times> nat) pay_act" where
  "handler_authorize PE req =
     bind_s (pay_authorize PE req) (\<lambda>p. return_s (pay_paymentId p, payment_status_num (pay_status p)))"

definition handler_getPaymentStatus :: "string \<Rightarrow> (string \<times> nat) pay_act" where
  "handler_getPaymentStatus paymentId =
     bind_s (pay_getPaymentStatus paymentId) (\<lambda>p. return_s (pay_paymentId p, payment_status_num (pay_status p)))"

text \<open>The answers of \<^verbatim>\<open>capture()\<close> and \<^verbatim>\<open>refund()\<close>.\<close>
definition handler_capture :: "string \<times> bool" where "handler_capture = (''Capture stub'', True)"
definition handler_refund :: "string \<times> bool" where "handler_refund = (''Refund stub'', True)"

section \<open>Facts\<close>

text \<open>The unique indexes.\<close>
definition payments_ok :: "pay_state \<Rightarrow> bool" where
  "payments_ok s \<longleftrightarrow> distinct (map pay_orderId (ps_rows s)) \<and> distinct (map pay_paymentId (ps_rows s))"

lemma insert_payment_Inr:
  "insert_payment p c s = (Inr u, s') \<Longrightarrow> s' = s\<lparr>ps_rows := ps_rows s @ [p]\<rparr> \<and> c < 10 ^ 12 \<and>
     pay_orderId p \<notin> pay_orderId ` set (ps_rows s) \<and> pay_paymentId p \<notin> pay_paymentId ` set (ps_rows s)"
  by (auto simp: insert_payment_def split: if_splits)

lemma insert_payment_ok: "payments_ok s \<Longrightarrow> payments_ok (snd (insert_payment p c s))"
  by (auto simp: insert_payment_def payments_ok_def)

lemma payments_ok_next [simp]: "payments_ok (s\<lparr>ps_next := n\<rparr>) = payments_ok s"
  by (simp add: payments_ok_def)

lemma find_distinct:
  assumes "distinct (map f xs)" and "x \<in> set xs"
  shows "find (\<lambda>y. f y = f x) xs = Some x"
  using assms by (induction xs) (auto simp: image_iff)

lemma pay_authorize_Inr:
  assumes run: "pay_authorize PE req s = (Inr p, s')"
  shows "pay_orderId p = pr_orderId req \<and> 0 < pr_amount req \<and> p \<in> set (ps_rows s') \<and>
     (p \<in> set (ps_rows s) \<and> s' = s \<or>
      (\<forall>x \<in> set (ps_rows s). pay_orderId x \<noteq> pr_orderId req) \<and>
      ps_rows s' = ps_rows (pe_others PE s) @ [p] \<and> pay_amount p = dollars_str (pr_amount req) \<and>
      pr_amount req < 10 ^ 12 \<and> pay_status p = P_AUTHORIZED \<and> pay_currency p = pr_currency req)"
proof -
  have guard: "pr_orderId req \<noteq> []" "0 < pr_amount req" "pe_pg_uuid PE (pr_orderId req)"
    using run by (auto simp: pay_authorize_def find_payment_of_order_def bind_s_def split: if_splits)
  have find: "find_payment_of_order PE (pr_orderId req) s = (Inr (find (\<lambda>p. pay_orderId p = pr_orderId req) (ps_rows s)), s)"
    using guard by (simp add: find_payment_of_order_def)
  show ?thesis
  proof (cases "find (\<lambda>p. pay_orderId p = pr_orderId req) (ps_rows s)")
    case (Some q)
    then have "p = q" "s' = s" using run guard find by (auto simp: pay_authorize_def bind_s_def)
    moreover have "q \<in> set (ps_rows s)" "pay_orderId q = pr_orderId req"
      using Some by (auto simp: find_Some_iff)
    ultimately show ?thesis using guard by simp
  next
    case None
    let ?s = "pe_others PE s"
    let ?p = "\<lparr>pay_amount = dollars_str (pr_amount req), pay_currency = pr_currency req,
                     pay_orderId = pr_orderId req, pay_paymentId = pe_uuid PE (ps_next ?s), pay_status = P_AUTHORIZED\<rparr>"
    have p: "p = ?p" and ins: "insert_payment ?p (pr_amount req) (?s\<lparr>ps_next := ps_next ?s + 1\<rparr>) = (Inr (), s')"
      using run guard find None by (auto simp: pay_authorize_def bind_s_eq_Inr Let_def)
    have "\<forall>x \<in> set (ps_rows s). pay_orderId x \<noteq> pr_orderId req" using None by (auto simp: find_None_iff)
    then show ?thesis using insert_payment_Inr [OF ins] p guard by simp
  qed
qed

lemma pay_authorize_ok:
  assumes "payments_ok s" and "payments_ok (pe_others PE s)"
  shows "payments_ok (snd (pay_authorize PE req s))"
proof (cases "find_payment_of_order PE (pr_orderId req) s")
  case (Pair r s1)
  have s1: "s1 = s" using Pair by (auto simp: find_payment_of_order_def split: if_splits)
  note ins = insert_payment_ok [of "(pe_others PE s)\<lparr>ps_next := n\<rparr>" for n]
  show ?thesis using assms Pair s1 ins
    by (auto simp: pay_authorize_def bind_s_def Let_def split: sum.splits option.splits prod.splits)
       (metis snd_conv)+
qed

text \<open>Authorising is idempotent per order: once a call for an order has succeeded, every
  later call for the same order, whatever its amount or currency, answers the same payment
  and changes nothing.\<close>
theorem authorize_idempotent:
  assumes ok: "payments_ok s" "payments_ok (pe_others PE s)"
    and first: "pay_authorize PE req s = (Inr p, s1)"
    and again: "pr_orderId req2 = pr_orderId req" "0 < pr_amount req2"
  shows "pay_authorize PE2 req2 s1 = (Inr p, s1) \<or> \<not> pe_pg_uuid PE2 (pr_orderId req)"
proof -
  have p: "p \<in> set (ps_rows s1)" "pay_orderId p = pr_orderId req" using pay_authorize_Inr [OF first] by auto
  have "payments_ok s1" using pay_authorize_ok [OF ok, of req] first by simp
  then have "find (\<lambda>x. pay_orderId x = pr_orderId req) (ps_rows s1) = Some p"
    using find_distinct [of pay_orderId "ps_rows s1" p] p by (simp add: payments_ok_def)
  moreover have "pr_orderId req \<noteq> []" using first by (auto simp: pay_authorize_def)
  ultimately show ?thesis using again by (auto simp: pay_authorize_def find_payment_of_order_def bind_s_def)
qed

definition sample_pay_env :: pay_env where
  "sample_pay_env = \<lparr>pe_uuid = (\<lambda>n. ''pay-'' @ nat_str n), pe_pg_uuid = (\<lambda>_. True), pe_others = (\<lambda>s. s)\<rparr>"

lemma authorize_idempotent_witness:
  "\<exists>p s1. pay_authorize sample_pay_env \<lparr>pr_orderId = ''o1'', pr_amount = 1998, pr_currency = ''USD''\<rparr> \<lparr>ps_rows = [], ps_next = 0\<rparr> = (Inr p, s1) \<and>
     pay_authorize sample_pay_env \<lparr>pr_orderId = ''o1'', pr_amount = 5, pr_currency = ''EUR''\<rparr> s1 = (Inr p, s1)"
proof -
  let ?s = "\<lparr>ps_rows = [], ps_next = 0\<rparr>" and ?r = "\<lparr>pr_orderId = ''o1'', pr_amount = 1998, pr_currency = ''USD''\<rparr>"
    and ?r2 = "\<lparr>pr_orderId = ''o1'', pr_amount = 5, pr_currency = ''EUR''\<rparr>"
  have ok: "payments_ok ?s" "payments_ok (pe_others sample_pay_env ?s)" by (simp_all add: payments_ok_def sample_pay_env_def)
  obtain p s1 where first: "pay_authorize sample_pay_env ?r ?s = (Inr p, s1)"
    by (simp add: pay_authorize_def find_payment_of_order_def insert_payment_def sample_pay_env_def bind_s_def Let_def)
  have again: "pr_orderId ?r2 = pr_orderId ?r" "0 < pr_amount ?r2" by simp_all
  have pg: "pe_pg_uuid sample_pay_env (pr_orderId ?r)" by (simp add: sample_pay_env_def)
  show ?thesis using authorize_idempotent [OF ok first again, of sample_pay_env] first pg by blast
qed

text \<open>A new payment books exactly the requested cents (the amount column reads dollars with
  two decimals), is AUTHORIZED, is the only payment of its order, and a status query for its
  id finds it.\<close>
theorem authorize_books_exact_amount:
  assumes ok: "payments_ok s" "payments_ok (pe_others PE s)"
    and new: "\<forall>x \<in> set (ps_rows s). pay_orderId x \<noteq> pr_orderId req"
    and run: "pay_authorize PE req s = (Inr p, s')"
  shows "pay_amount p = cents_str (nat (pr_amount req)) \<and> pay_status p = P_AUTHORIZED \<and>
     (\<forall>x \<in> set (ps_rows s'). pay_orderId x = pr_orderId req \<longrightarrow> x = p) \<and>
     handler_getPaymentStatus (pay_paymentId p) s' = (Inr (pay_paymentId p, 1), s')"
proof -
  have a: "pay_orderId p = pr_orderId req" "0 < pr_amount req" "p \<in> set (ps_rows s')"
    "pay_amount p = dollars_str (pr_amount req)" "pr_amount req < 10 ^ 12" "pay_status p = P_AUTHORIZED"
    using pay_authorize_Inr [OF run] new by auto
  have ok': "payments_ok s'" using pay_authorize_ok [OF ok, of req] run by simp
  have "nat (pr_amount req) \<le> 2 ^ 50" using a(5) by simp
  then have "dollars_str (int (nat (pr_amount req))) = cents_str (nat (pr_amount req))" by (rule dollars_str_exact)
  then have amount: "pay_amount p = cents_str (nat (pr_amount req))" using a(2,4) by simp
  have only: "\<forall>x \<in> set (ps_rows s'). pay_orderId x = pr_orderId req \<longrightarrow> x = p"
    using ok' a(1,3) by (auto simp: payments_ok_def distinct_map inj_on_def)
  have "find (\<lambda>x. pay_paymentId x = pay_paymentId p) (ps_rows s') = Some p"
    using find_distinct [of pay_paymentId "ps_rows s'" p] ok' a(3) by (simp add: payments_ok_def)
  then have "handler_getPaymentStatus (pay_paymentId p) s' = (Inr (pay_paymentId p, 1), s')"
    using a(6) by (simp add: handler_getPaymentStatus_def pay_getPaymentStatus_def bind_s_def)
  then show ?thesis using amount a(6) only by blast
qed

lemma authorize_books_exact_amount_witness:
  "\<exists>p s1. pay_authorize sample_pay_env \<lparr>pr_orderId = ''o1'', pr_amount = 1998, pr_currency = ''USD''\<rparr> \<lparr>ps_rows = [], ps_next = 0\<rparr> = (Inr p, s1) \<and>
     pay_amount p = ''19.98''"
proof -
  let ?s = "\<lparr>ps_rows = [], ps_next = 0\<rparr>" and ?r = "\<lparr>pr_orderId = ''o1'', pr_amount = 1998, pr_currency = ''USD''\<rparr>"
  have ok: "payments_ok ?s" "payments_ok (pe_others sample_pay_env ?s)" by (simp_all add: payments_ok_def sample_pay_env_def)
  obtain p s1 where first: "pay_authorize sample_pay_env ?r ?s = (Inr p, s1)"
    by (simp add: pay_authorize_def find_payment_of_order_def insert_payment_def sample_pay_env_def bind_s_def Let_def)
  have new: "\<forall>x \<in> set (ps_rows ?s). pay_orderId x \<noteq> pr_orderId ?r" by simp
  have shown: "cents_str (nat 1998) = ''19.98''" by code_simp
  show ?thesis using authorize_books_exact_amount [OF ok new first] first shown by simp
qed

end
