(* ===== verification/Keyset.thy ===== *)
theory Keyset
  imports Prelude
begin

text \<open>
  Keyset pagination, as the order and product lists share it: the rows behind a cursor,
  sorted, are cut after one row more than the page, the page is what is left of them, and the
  cursor of the next page is made of the last row shown. The contract of a cursor is a locale;
  its lemmas say that following the cursors shows every row once, in order.
\<close>

section \<open>Sorting by a relation\<close>

text \<open>\<^verbatim>\<open>ORDER BY\<close>; \<open>lt a b\<close>: a comes before b.\<close>
fun insert_by :: "('a \<Rightarrow> 'a \<Rightarrow> bool) \<Rightarrow> 'a \<Rightarrow> 'a list \<Rightarrow> 'a list" where
  "insert_by lt x [] = [x]"
| "insert_by lt x (y # ys) = (if lt y x then y # insert_by lt x ys else x # y # ys)"

fun sort_by :: "('a \<Rightarrow> 'a \<Rightarrow> bool) \<Rightarrow> 'a list \<Rightarrow> 'a list" where
  "sort_by lt [] = []"
| "sort_by lt (x # xs) = insert_by lt x (sort_by lt xs)"

lemma set_insert_by [simp]: "set (insert_by lt x xs) = insert x (set xs)"
  by (induction lt x xs rule: insert_by.induct) auto

lemma set_sort_by [simp]: "set (sort_by lt xs) = set xs"
  by (induction lt xs rule: sort_by.induct) auto

lemma length_insert_by [simp]: "length (insert_by lt x xs) = Suc (length xs)"
  by (induction lt x xs rule: insert_by.induct) auto

lemma length_sort_by [simp]: "length (sort_by lt xs) = length xs"
  by (induction lt xs rule: sort_by.induct) auto

text \<open>Strict linear orders on a set of rows.\<close>
definition slinear :: "('a \<Rightarrow> 'a \<Rightarrow> bool) \<Rightarrow> 'a set \<Rightarrow> bool" where
  "slinear lt S \<longleftrightarrow> (\<forall>x \<in> S. \<not> lt x x) \<and> (\<forall>x \<in> S. \<forall>y \<in> S. \<forall>z \<in> S. lt x y \<longrightarrow> lt y z \<longrightarrow> lt x z) \<and>
     (\<forall>x \<in> S. \<forall>y \<in> S. x \<noteq> y \<longrightarrow> lt x y \<or> lt y x)"

lemma slinear_subset: "slinear lt S \<Longrightarrow> T \<subseteq> S \<Longrightarrow> slinear lt T"
  unfolding slinear_def by (meson subsetD)

lemma slinear_asym: "slinear lt S \<Longrightarrow> x \<in> S \<Longrightarrow> y \<in> S \<Longrightarrow> lt x y \<Longrightarrow> \<not> lt y x"
  unfolding slinear_def by metis

lemma sorted_insert_by:
  assumes "slinear lt (insert x (set xs))" and "sorted_wrt lt xs" and "x \<notin> set xs"
  shows "sorted_wrt lt (insert_by lt x xs)"
  using assms
proof (induction lt x xs rule: insert_by.induct)
  case (2 lt x y ys)
  have s: "slinear lt (insert x (set ys))" by (rule slinear_subset [OF 2(2)]) auto
  show ?case
  proof (cases "lt y x")
    case True
    then show ?thesis using 2 s by auto
  next
    case False
    then have xy: "lt x y" using 2(2,4) unfolding slinear_def by auto
    have "\<And>z. z \<in> set ys \<Longrightarrow> lt y z" using 2(3) by simp
    then have "\<And>z. z \<in> set ys \<Longrightarrow> lt x z" using xy 2(2) unfolding slinear_def
      by (metis insertCI list.set_intros(1,2))
    then show ?thesis using False xy 2(3) by auto
  qed
qed simp

lemma sorted_sort_by: "slinear lt (set xs) \<Longrightarrow> distinct xs \<Longrightarrow> sorted_wrt lt (sort_by lt xs)"
proof (induction lt xs rule: sort_by.induct)
  case (2 lt x xs)
  have "slinear lt (set xs)" by (rule slinear_subset [OF 2(2)]) auto
  then show ?case using 2 by (auto intro!: sorted_insert_by)
qed simp

text \<open>A sorted list is determined by its set.\<close>
lemma sorted_unique:
  assumes "slinear lt (set xs)" and "sorted_wrt lt xs" and "sorted_wrt lt ys" and "set xs = set ys"
  shows "xs = ys"
  using assms
proof (induction xs arbitrary: ys)
  case (Cons x xs)
  have irr: "\<And>z. z \<in> set (x # xs) \<Longrightarrow> \<not> lt z z" using Cons(2) by (auto simp: slinear_def)
  from Cons(5) obtain y ys' where ys: "ys = y # ys'" by (cases ys) auto
  have xy: "x = y"
  proof (rule ccontr)
    assume ne: "x \<noteq> y"
    then have "lt x y" "lt y x" using Cons(3,4,5) ys by auto
    then show False using slinear_asym [OF Cons(2), of x y] Cons(5) ys by auto
  qed
  have "set xs = set ys'"
  proof -
    have "x \<notin> set xs" using irr [of x] Cons(3) by auto
    moreover have "y \<notin> set ys'" using irr [of y] xy Cons(4) ys by auto
    ultimately show ?thesis using Cons(5) xy ys by auto
  qed
  moreover have "slinear lt (set xs)" by (rule slinear_subset [OF Cons(2)]) auto
  ultimately show ?case using Cons.IH [of ys'] Cons(3,4) ys xy by auto
qed simp

lemma sorted_distinct:
  assumes "slinear lt (set xs)" and "sorted_wrt lt xs"
  shows "distinct xs"
  using assms
proof (induction xs)
  case (Cons x xs)
  have "slinear lt (set xs)" by (rule slinear_subset [OF Cons(2)]) auto
  then have "distinct xs" using Cons.IH Cons(3) by simp
  moreover have "x \<notin> set xs"
  proof
    assume x: "x \<in> set xs"
    then have "lt x x" using Cons(3) by simp
    then show False using Cons(2) by (simp add: slinear_def)
  qed
  ultimately show ?case by simp
qed simp

section \<open>A page\<close>

text \<open>\<open>rs\<close>: what the query with \<open>LIMIT n + 1\<close> returns; the page and whether there is a next one.\<close>
definition page_of :: "nat \<Rightarrow> 'a list \<Rightarrow> 'a list \<times> bool" where
  "page_of n rs = (if length rs > n then (take n rs, True) else (rs, False))"

lemma page_of_take: "page_of n (take (Suc n) rs) = page_of n rs"
  by (auto simp: page_of_def min_def)

text \<open>Follow the cursors: \<open>aft c r\<close>, row r is behind cursor c; \<open>mk r\<close>, the cursor made of r.\<close>
fun walk :: "nat \<Rightarrow> ('a \<Rightarrow> 'a \<Rightarrow> bool) \<Rightarrow> ('c \<Rightarrow> 'a \<Rightarrow> bool) \<Rightarrow> ('a \<Rightarrow> 'c) \<Rightarrow> nat \<Rightarrow> 'a list \<Rightarrow> 'c option \<Rightarrow> 'a list list" where
  "walk 0 lt aft mk n rows c = []"
| "walk (Suc k) lt aft mk n rows c =
     (let (page, more) = page_of n (sort_by lt (filter (\<lambda>r. case c of None \<Rightarrow> True | Some c1 \<Rightarrow> aft c1 r) rows))
      in page # (if more then walk k lt aft mk n rows (Some (mk (last page))) else []))"

text \<open>A client that follows the cursors: \<open>fetch\<close> answers one request.\<close>
fun follow :: "nat \<Rightarrow> (string option \<Rightarrow> 'e + 'v list \<times> string option) \<Rightarrow> string option \<Rightarrow> 'e + 'v list list" where
  "follow 0 fetch c = Inr []"
| "follow (Suc k) fetch c = (case fetch c of
     Inl e \<Rightarrow> Inl e
   | Inr (page, None) \<Rightarrow> Inr [page]
   | Inr (page, Some c1) \<Rightarrow> (case follow k fetch (Some c1) of Inl e \<Rightarrow> Inl e | Inr pages \<Rightarrow> Inr (page # pages)))"

lemma walk_page_length: "p \<in> set (walk k lt aft mk n rows c) \<Longrightarrow> length p \<le> n"
  by (induction k lt aft mk n rows c rule: walk.induct) (auto simp: page_of_def split: if_splits)

text \<open>The contract of a cursor: the rows behind the cursor of x are those after x.\<close>
locale keyset =
  fixes lt :: "'a \<Rightarrow> 'a \<Rightarrow> bool" and aft :: "'c \<Rightarrow> 'a \<Rightarrow> bool" and mk :: "'a \<Rightarrow> 'c" and good :: "'a list \<Rightarrow> bool"
  assumes slin: "good rows \<Longrightarrow> slinear lt (set rows)"
    and dist: "good rows \<Longrightarrow> distinct rows"
    and behind: "good rows \<Longrightarrow> x \<in> set rows \<Longrightarrow> r \<in> set rows \<Longrightarrow> aft (mk x) r = lt x r"
begin

text \<open>The rows behind the cursor of the row before position i are those from i on.\<close>
lemma rows_behind:
  assumes g: "good rows" and i: "0 < i" "i \<le> length rows"
  shows "sort_by lt (filter (aft (mk (sort_by lt rows ! (i - 1)))) rows) = drop i (sort_by lt rows)"
proof -
  let ?s = "sort_by lt rows"
  let ?x = "?s ! (i - 1)"
  note lin = slin [OF g]
  have sorted: "sorted_wrt lt ?s" by (rule sorted_sort_by [OF lin dist [OF g]])
  have x: "?x \<in> set rows" using i nth_mem [of "i - 1" ?s] by simp
  have eq: "set (filter (aft (mk ?x)) rows) = set (drop i ?s)"
  proof (intro set_eqI iffI)
    fix r assume "r \<in> set (filter (aft (mk ?x)) rows)"
    then have r: "r \<in> set ?s" "lt ?x r" using behind [OF g x] by auto
    then obtain j where j: "j < length ?s" "?s ! j = r" by (metis in_set_conv_nth)
    have "i \<le> j"
    proof (rule ccontr)
      assume "\<not> i \<le> j"
      then have "j < i - 1 \<or> j = i - 1" by linarith
      then have "lt r ?x \<or> r = ?x" using sorted_wrt_nth_less [OF sorted] i j by fastforce
      then show False using r x slinear_asym [OF lin, of r ?x] lin by (auto simp: slinear_def)
    qed
    then have "drop i ?s ! (j - i) = r" "j - i < length (drop i ?s)" using j by auto
    then show "r \<in> set (drop i ?s)" by (metis nth_mem)
  next
    fix r assume r: "r \<in> set (drop i ?s)"
    then obtain k where k: "k < length (drop i ?s)" "drop i ?s ! k = r" by (auto simp: in_set_conv_nth)
    then have "lt ?x r" using sorted_wrt_nth_less [OF sorted, of "i - 1" "i + k"] i by simp
    then show "r \<in> set (filter (aft (mk ?x)) rows)"
      using behind [OF g x] in_set_dropD [OF r] by auto
  qed
  have sub: "slinear lt (set (filter (aft (mk ?x)) rows))" by (rule slinear_subset [OF lin]) auto
  show ?thesis
  proof (rule sorted_unique)
    show "slinear lt (set (sort_by lt (filter (aft (mk ?x)) rows)))" using sub by simp
    show "sorted_wrt lt (sort_by lt (filter (aft (mk ?x)) rows))"
      by (rule sorted_sort_by [OF sub]) (simp add: dist [OF g])
    show "sorted_wrt lt (drop i ?s)" using sorted_wrt_drop [OF sorted] .
    show "set (sort_by lt (filter (aft (mk ?x)) rows)) = set (drop i ?s)" using eq by simp
  qed
qed

lemma walk_from:
  assumes g: "good rows" and n: "0 < n"
  shows "0 < i \<Longrightarrow> i \<le> length rows \<Longrightarrow> length rows - i < k \<Longrightarrow>
     concat (walk k lt aft mk n rows (Some (mk (sort_by lt rows ! (i - 1))))) = drop i (sort_by lt rows)"
proof (induction k arbitrary: i)
  case (Suc k)
  let ?s = "sort_by lt rows"
  have r: "sort_by lt (filter (\<lambda>r. aft (mk (?s ! (i - 1))) r) rows) = drop i ?s"
    using rows_behind [OF g Suc(2,3)] .
  show ?case
  proof (cases "length rows - i > n")
    case True
    have last: "last (take n (drop i ?s)) = ?s ! (i + n - 1)"
      using True n by (subst last_conv_nth) (auto simp: min_def)
    have ind: "concat (walk k lt aft mk n rows (Some (mk (?s ! (i + n - 1))))) = drop (i + n) ?s"
      by (rule Suc.IH) (use True n Suc in auto)
    show ?thesis using True r last ind
      append_take_drop_id [of n "drop i ?s"] by (simp add: page_of_def add.commute)
  next
    case False
    then show ?thesis using r by (simp add: page_of_def)
  qed
qed simp

lemma walk_all:
  assumes g: "good rows" and n: "0 < n" and k: "length rows < k"
  shows "concat (walk k lt aft mk n rows None) = sort_by lt rows"
proof -
  obtain k1 where k1: "k = Suc k1" using k by (cases k) auto
  let ?s = "sort_by lt rows"
  show ?thesis
  proof (cases "length rows > n")
    case True
    have "?s \<noteq> []" using True length_sort_by [of lt rows] by force
    then have last: "last (take n ?s) = ?s ! (n - 1)" using True n by (subst last_conv_nth) (auto simp: min_def)
    have "concat (walk k1 lt aft mk n rows (Some (mk (?s ! (n - 1))))) = drop n ?s"
      by (rule walk_from [OF g n]) (use True n k k1 in auto)
    then show ?thesis using True last k1 by (simp add: page_of_def)
  next
    case False
    then show ?thesis using k1 by (simp add: page_of_def)
  qed
qed

text \<open>A list whose requests answer the pages of the walk, under a text \<open>enc\<close> of the cursors.\<close>
lemma follow_walk:
  assumes n: "0 < n"
    and req: "\<And>c. (\<forall>x. c = Some x \<longrightarrow> x \<in> mk ` set rows) \<Longrightarrow> fetch (map_option enc c) =
      (let (page, more) = page_of n (sort_by lt (filter (\<lambda>r. case c of None \<Rightarrow> True | Some c1 \<Rightarrow> aft c1 r) rows))
       in Inr (map view page, if more then Some (enc (mk (last page))) else None))"
  shows "(\<forall>x. c = Some x \<longrightarrow> x \<in> mk ` set rows) \<Longrightarrow>
    follow k fetch (map_option enc c) = Inr (map (map view) (walk k lt aft mk n rows c))"
proof (induction k arbitrary: c)
  case (Suc k)
  define ss where "ss = sort_by lt (filter (\<lambda>r. case c of None \<Rightarrow> True | Some c1 \<Rightarrow> aft c1 r) rows)"
  obtain page more where pm: "page_of n ss = (page, more)" by fastforce
  have f: "fetch (map_option enc c) = Inr (map view page, if more then Some (enc (mk (last page))) else None)"
    using req [OF Suc(2)] pm by (simp add: ss_def)
  show ?case
  proof (cases more)
    case False
    then show ?thesis using f pm by (simp add: ss_def)
  next
    case True
    then have len: "page = take n ss" "n < length ss" using pm by (auto simp: page_of_def split: if_splits)
    have "page \<noteq> []" using len n by auto
    moreover have "set page \<subseteq> set rows" using len(1) by (auto simp: ss_def dest: in_set_takeD)
    ultimately have "mk (last page) \<in> mk ` set rows" by (meson imageI last_in_set subsetD)
    then have "follow k fetch (Some (enc (mk (last page)))) = Inr (map (map view) (walk k lt aft mk n rows (Some (mk (last page)))))"
      using Suc.IH [of "Some (mk (last page))"] by simp
    then show ?thesis using f pm True by (simp add: ss_def)
  qed
qed simp

lemma follow_all:
  assumes g: "good rows" and n: "0 < n" and k: "length rows < k"
    and req: "\<And>c. (\<forall>x. c = Some x \<longrightarrow> x \<in> mk ` set rows) \<Longrightarrow> fetch (map_option enc c) =
      (let (page, more) = page_of n (sort_by lt (filter (\<lambda>r. case c of None \<Rightarrow> True | Some c1 \<Rightarrow> aft c1 r) rows))
       in Inr (map view page, if more then Some (enc (mk (last page))) else None))"
  shows "\<exists>pages. follow k fetch None = Inr pages \<and> concat pages = map view (sort_by lt rows) \<and>
    (\<forall>p \<in> set pages. length p \<le> n)"
proof -
  let ?w = "walk k lt aft mk n rows None"
  have "follow k fetch None = Inr (map (map view) ?w)"
    using follow_walk [of n rows fetch enc view None k] n req by simp
  moreover have "concat (map (map view) ?w) = map view (sort_by lt rows)"
    using walk_all [OF g n k] by (simp add: map_concat [symmetric])
  ultimately show ?thesis using walk_page_length by (auto simp del: walk.simps)
qed

end

section \<open>Comparing strings\<close>

text \<open>Byte by byte, as PostgreSQL compares uuids in their canonical form.\<close>
fun str_lt :: "string \<Rightarrow> string \<Rightarrow> bool" where
  "str_lt [] [] = False"
| "str_lt [] (c # cs) = True"
| "str_lt (c # cs) [] = False"
| "str_lt (c # cs) (d # ds) = ((of_char c :: nat) < of_char d \<or> c = d \<and> str_lt cs ds)"

lemma str_lt_irrefl [simp]: "\<not> str_lt s s"
  by (induction s) auto

lemma str_lt_trans: "str_lt a b \<Longrightarrow> str_lt b c \<Longrightarrow> str_lt a c"
proof (induction a b arbitrary: c rule: str_lt.induct)
  case (2 x xs)
  then show ?case by (cases c) auto
next
  case (4 x xs y ys)
  then show ?case by (cases c) auto
qed auto

lemma str_lt_total: "a \<noteq> b \<Longrightarrow> str_lt a b \<or> str_lt b a"
proof (induction a b rule: str_lt.induct)
  case (4 x xs y ys)
  then show ?case using nat_neq_iff [of "of_char x" "of_char y"] by auto
qed auto

end
