(* ===== verification/Cursor.thy ===== *)
theory Cursor
  imports Money Exception_Filter
begin

text \<open>
  \<^verbatim>\<open>common/utils/cursor.ts\<close>: the cursors of the paginated lists, an id and a sort value with a
  bar between. \<^verbatim>\<open>isUUID\<close> of class-validator is a parameter; \<^verbatim>\<open>Number\<close> on a string and the
  range of dates follow the language standard (the white space is the ASCII one).
\<close>

section \<open>Number(s) and dates\<close>

datatype js_num = NaN | Infinite bool | Finite rat

text \<open>A value rounds to infinity from halfway between the largest double and 2^1024 on.\<close>
definition to_double :: "rat \<Rightarrow> js_num" where
  "to_double x = (if 2 ^ 1024 - 2 ^ 970 \<le> \<bar>x\<bar> then Infinite (0 < x) else Finite (fl x))"

definition is_space :: "char \<Rightarrow> bool" where
  "is_space c = (let n = of_char c :: nat in n = 32 \<or> 9 \<le> n \<and> n \<le> 13)"

definition js_trim :: "string \<Rightarrow> string" where
  "js_trim s = rev (dropWhile is_space (rev (dropWhile is_space s)))"

text \<open>A digit of a base up to 16.\<close>
definition radix_digit :: "nat \<Rightarrow> char \<Rightarrow> nat option" where
  "radix_digit b c = (let n = of_char (char_lower c) :: nat;
       d = (if 48 \<le> n \<and> n \<le> 57 then Some (n - 48) else if 97 \<le> n \<and> n \<le> 102 then Some (n - 87) else None)
     in case d of Some v \<Rightarrow> if v < b then Some v else None | None \<Rightarrow> None)"

fun radix_val :: "nat \<Rightarrow> nat \<Rightarrow> string \<Rightarrow> nat option" where
  "radix_val b acc [] = Some acc"
| "radix_val b acc (c # cs) = (case radix_digit b c of None \<Rightarrow> None | Some d \<Rightarrow> radix_val b (b * acc + d) cs)"

definition radix_number :: "nat \<Rightarrow> string \<Rightarrow> js_num" where
  "radix_number b s = (if s = [] then NaN else case radix_val b 0 s of None \<Rightarrow> NaN | Some n \<Rightarrow> to_double (of_nat n))"

text \<open>The exponent part; None when it is malformed.\<close>
definition exponent_of :: "string \<Rightarrow> int option" where
  "exponent_of s = (case s of [] \<Rightarrow> Some 0
     | c # r \<Rightarrow> if char_lower c \<noteq> CHR ''e'' then None
        else (let neg = (r \<noteq> [] \<and> hd r = CHR ''-''); ds = (if r \<noteq> [] \<and> (hd r = CHR ''-'' \<or> hd r = CHR ''+'') then tl r else r)
          in if ds = [] then None
             else map_option (\<lambda>n. if neg then - int n else int n) (digits_val 0 ds)))"

definition pow10 :: "int \<Rightarrow> rat" where
  "pow10 e = (if 0 \<le> e then 10 ^ nat e else 1 / 10 ^ nat (- e))"

text \<open>An unsigned decimal literal.\<close>
definition decimal_number :: "string \<Rightarrow> rat option" where
  "decimal_number t = (let whole = takeWhile is_digit t;
       r1 = dropWhile is_digit t;
       dot = (r1 \<noteq> [] \<and> hd r1 = CHR ''.'');
       frac = (if dot then takeWhile is_digit (tl r1) else []);
       r2 = (if dot then dropWhile is_digit (tl r1) else r1)
     in if whole = [] \<and> frac = [] then None
        else map_option (\<lambda>e. (of_nat (digits_num whole) + of_nat (digits_num frac) / 10 ^ length frac) * pow10 e)
          (exponent_of r2))"

definition js_Number :: "string \<Rightarrow> js_num" where
  "js_Number s0 = (let s = js_trim s0 in
     if s = [] then Finite 0
     else if length s \<ge> 2 \<and> s ! 0 = CHR ''0'' \<and> char_lower (s ! 1) = CHR ''x'' then radix_number 16 (drop 2 s)
     else if length s \<ge> 2 \<and> s ! 0 = CHR ''0'' \<and> char_lower (s ! 1) = CHR ''o'' then radix_number 8 (drop 2 s)
     else if length s \<ge> 2 \<and> s ! 0 = CHR ''0'' \<and> char_lower (s ! 1) = CHR ''b'' then radix_number 2 (drop 2 s)
     else (let neg = (hd s = CHR ''-''); t = (if hd s = CHR ''-'' \<or> hd s = CHR ''+'' then tl s else s)
       in if t = ''Infinity'' then Infinite (\<not> neg)
          else case decimal_number t of None \<Rightarrow> NaN | Some v \<Rightarrow> to_double (if neg then - v else v)))"

text \<open>The time value of \<^verbatim>\<open>new Date(x)\<close> in milliseconds: whole, and None (Invalid Date) outside
  of the hundred million days around the epoch.\<close>
definition time_clip :: "rat \<Rightarrow> int option" where
  "time_clip x = (if \<bar>x\<bar> \<le> 8640000000000000 then Some (if x < 0 then - floor (- x) else floor x) else None)"

section \<open>Cursors\<close>

record cursor_payload =
  cp_id :: uuid
  cp_sortValue :: string

definition CURSOR_SEPARATOR :: char where "CURSOR_SEPARATOR = CHR ''|''"

definition encodeCursor :: "uuid \<Rightarrow> string \<Rightarrow> string" where
  "encodeCursor i sortValue = i @ CURSOR_SEPARATOR # sortValue"

definition invalid_cursor :: exn where "invalid_cursor = http_exn BadRequest ''Invalid cursor format''"

definition decodeCursor :: "(string \<Rightarrow> bool) \<Rightarrow> string \<Rightarrow> exn + cursor_payload" where
  "decodeCursor isUUID cursor =
     (if CURSOR_SEPARATOR \<notin> set cursor then Inl invalid_cursor
      else (let i = before_sep CURSOR_SEPARATOR cursor; v = after_sep CURSOR_SEPARATOR cursor
        in if i = [] \<or> v = [] \<or> \<not> isUUID i then Inl invalid_cursor
           else Inr \<lparr>cp_id = i, cp_sortValue = v\<rparr>))"

definition decodeEpochCursor :: "(string \<Rightarrow> bool) \<Rightarrow> string \<Rightarrow> exn + int option \<times> uuid" where
  "decodeEpochCursor isUUID cursor = (case decodeCursor isUUID cursor of
     Inl e \<Rightarrow> Inl e
   | Inr p \<Rightarrow> (case js_Number (cp_sortValue p) of
        Finite x \<Rightarrow> Inr (time_clip x, cp_id p) | _ \<Rightarrow> Inl invalid_cursor))"

section \<open>Round trips\<close>

lemma decode_encode:
  assumes "isUUID i" and "\<And>s. isUUID s \<Longrightarrow> s \<noteq> [] \<and> CURSOR_SEPARATOR \<notin> set s" and "v \<noteq> []"
  shows "decodeCursor isUUID (encodeCursor i v) = Inr \<lparr>cp_id = i, cp_sortValue = v\<rparr>"
  using assms before_after_sep [of CURSOR_SEPARATOR i v]
  by (simp add: decodeCursor_def encodeCursor_def Let_def)

lemma nat_str_no_space: "c \<in> set (nat_str n) \<Longrightarrow> \<not> is_space c"
  using nat_str_digits [of c n] by (auto simp: is_space_def digit_val_def Let_def split: if_splits)

lemma js_trim_nat_str: "js_trim (nat_str n) = nat_str n"
proof -
  have d: "dropWhile is_space s = s" if "\<And>c. c \<in> set s \<Longrightarrow> \<not> is_space c" for s
    using that by (cases s) auto
  have 1: "dropWhile is_space (nat_str n) = nat_str n" by (rule d) (rule nat_str_no_space)
  have 2: "dropWhile is_space (rev (nat_str n)) = rev (nat_str n)" by (rule d) (use nat_str_no_space in auto)
  show ?thesis by (simp add: js_trim_def 1 2)
qed

lemma decimal_number_nat_str: "decimal_number (nat_str n) = Some (of_nat n)"
proof -
  have tw: "takeWhile is_digit (nat_str n) = nat_str n" "dropWhile is_digit (nat_str n) = []"
    using nat_str_all_digits by (auto simp: takeWhile_eq_all_conv)
  have "nat_str n \<noteq> []" by (cases "nat_str n") (auto simp: nat_str.simps [of n] split: if_splits)
  then show ?thesis
    by (simp add: decimal_number_def tw exponent_of_def pow10_def digits_num_def digits_val_nat_str)
qed

text \<open>What \<^verbatim>\<open>String(date.getTime())\<close> prints is read back.\<close>
lemma js_Number_nat_str:
  assumes "n < 2 ^ 53"
  shows "js_Number (nat_str n) = Finite (of_nat n)"
proof -
  have ne: "nat_str n \<noteq> []" by (cases "nat_str n") (auto simp: nat_str.simps [of n] split: if_splits)
  have digs: "\<And>c. c \<in> set (nat_str n) \<Longrightarrow> is_digit c" by (rule nat_str_all_digits)
  have nox: "length (nat_str n) \<ge> 2 \<Longrightarrow> is_digit (nat_str n ! 1)" using digs by simp
  have l: "char_lower c = c" if "is_digit c" for c
    using that by (auto simp: is_digit_def digit_val_def char_lower_def Let_def)
  have xob: "length (nat_str n) \<ge> 2 \<Longrightarrow> char_lower (nat_str n ! 1) \<noteq> CHR ''x'' \<and>
     char_lower (nat_str n ! 1) \<noteq> CHR ''o'' \<and> char_lower (nat_str n ! 1) \<noteq> CHR ''b''"
    using nox l by (auto simp: is_digit_def digit_val_def)
  have h: "is_digit (hd (nat_str n))" using ne digs by simp
  have hd: "hd (nat_str n) \<noteq> CHR ''-''" "hd (nat_str n) \<noteq> CHR ''+''" "nat_str n \<noteq> ''Infinity''"
    using h by (auto simp: is_digit_def digit_val_def)
  have "(of_nat n :: rat) < 2 ^ 53" using assms by (metis of_nat_less_iff of_nat_numeral of_nat_power)
  moreover have "(2 ^ 53 :: rat) \<le> 2 ^ 1024 - 2 ^ 970" by simp
  ultimately have "(of_nat n :: rat) < 2 ^ 1024 - 2 ^ 970" by (rule less_le_trans)
  then have "\<not> 2 ^ 1024 - 2 ^ 970 \<le> \<bar>of_nat n :: rat\<bar>" unfolding abs_of_nat not_le .
  then have d: "to_double (of_nat n) = Finite (of_nat n)"
    unfolding to_double_def if_not_P using fl_of_int [of "int n"] assms by simp
  show ?thesis
    unfolding js_Number_def js_trim_nat_str Let_def
    using ne xob hd d decimal_number_nat_str [of n] by auto
qed

lemma time_clip_int: "\<bar>z\<bar> \<le> 8640000000000000 \<Longrightarrow> time_clip (of_int z) = Some z"
proof -
  assume z: "\<bar>z\<bar> \<le> 8640000000000000"
  have "\<bar>of_int z :: rat\<bar> = of_int \<bar>z\<bar>" by simp
  also have "\<dots> \<le> of_int 8640000000000000" using z by (simp only: of_int_le_iff)
  finally have "\<bar>of_int z :: rat\<bar> \<le> 8640000000000000" by simp
  then show ?thesis by (simp add: time_clip_def)
qed

lemma decodeEpoch_encode:
  assumes "isUUID i" and "\<And>s. isUUID s \<Longrightarrow> s \<noteq> [] \<and> CURSOR_SEPARATOR \<notin> set s" and "n \<le> 8640000000000000"
  shows "decodeEpochCursor isUUID (encodeCursor i (nat_str n)) = Inr (Some (int n), i)"
proof -
  have ne: "nat_str n \<noteq> []" by (cases "nat_str n") (auto simp: nat_str.simps [of n] split: if_splits)
  have num: "js_Number (nat_str n) = Finite (of_nat n)" using assms(3) by (intro js_Number_nat_str) simp
  have "time_clip (of_nat n) = Some (int n)" using time_clip_int [of "int n"] assms(3) by simp
  then show ?thesis
    using num decode_encode [where isUUID = isUUID, OF assms(1,2) ne] by (simp add: decodeEpochCursor_def)
qed

text \<open>C12: A cursor is decoded exactly when it is an encoded pair of a uuid and a sort value that
  is not empty, and then to that pair, bars in the sort value included; everything else is the
  same 400.\<close>
theorem decodeCursor_exact:
  "(decodeCursor isUUID c = Inr p \<longleftrightarrow> c = encodeCursor (cp_id p) (cp_sortValue p) \<and> isUUID (cp_id p) \<and>
      cp_id p \<noteq> [] \<and> cp_sortValue p \<noteq> [] \<and> CURSOR_SEPARATOR \<notin> set (cp_id p)) \<and>
   decodeCursor isUUID c \<in> insert (Inl invalid_cursor) (range Inr) \<and> extractStatus invalid_cursor = 400"
proof (intro conjI)
  show "decodeCursor isUUID c = Inr p \<longleftrightarrow> c = encodeCursor (cp_id p) (cp_sortValue p) \<and> isUUID (cp_id p) \<and>
      cp_id p \<noteq> [] \<and> cp_sortValue p \<noteq> [] \<and> CURSOR_SEPARATOR \<notin> set (cp_id p)"
  proof
    assume d: "decodeCursor isUUID c = Inr p"
    then have sep: "CURSOR_SEPARATOR \<in> set c" by (auto simp: decodeCursor_def split: if_splits)
    note s = split_at_sep [OF sep]
    show "c = encodeCursor (cp_id p) (cp_sortValue p) \<and> isUUID (cp_id p) \<and>
      cp_id p \<noteq> [] \<and> cp_sortValue p \<noteq> [] \<and> CURSOR_SEPARATOR \<notin> set (cp_id p)"
      using d sep s by (auto simp: decodeCursor_def encodeCursor_def Let_def split: if_splits)
  next
    assume c: "c = encodeCursor (cp_id p) (cp_sortValue p) \<and> isUUID (cp_id p) \<and>
      cp_id p \<noteq> [] \<and> cp_sortValue p \<noteq> [] \<and> CURSOR_SEPARATOR \<notin> set (cp_id p)"
    then show "decodeCursor isUUID c = Inr p"
      using before_after_sep [of CURSOR_SEPARATOR "cp_id p" "cp_sortValue p"]
      by (simp add: decodeCursor_def encodeCursor_def Let_def)
  qed
qed (auto simp: decodeCursor_def Let_def invalid_cursor_def)

end
