(* ===== verification/Like.thy ===== *)
theory Like
  imports Prelude
begin

text \<open>
  PostgreSQL's \<^verbatim>\<open>ILIKE\<close>, as the searches of orders and products use it, and the escaping the
  product search does. Letters compare without regard to (ASCII) case.
\<close>

text \<open>\<open>esc\<close>: the escape character; an escape at the end of the pattern matches nothing here
  (the server refuses such a pattern; none of the callers builds one, all end in a percent).\<close>
function like_match :: "char \<Rightarrow> string \<Rightarrow> string \<Rightarrow> bool" where
  "like_match esc [] t = (t = [])"
| "like_match esc (p # ps) t =
     (if p = esc then (case ps of [] \<Rightarrow> False
         | q # qs \<Rightarrow> (case t of [] \<Rightarrow> False | c # cs \<Rightarrow> c = q \<and> like_match esc qs cs))
      else if p = CHR ''%'' then like_match esc ps t \<or> (case t of [] \<Rightarrow> False | c # cs \<Rightarrow> like_match esc (p # ps) cs)
      else (case t of [] \<Rightarrow> False | c # cs \<Rightarrow> (p = CHR ''_'' \<or> c = p) \<and> like_match esc ps cs))"
  by pat_completeness auto
termination by (relation "measure (\<lambda>(_, p, t). length p + length t)") auto

definition lower :: "string \<Rightarrow> string" where
  "lower s = map char_lower s"

definition ilike :: "char \<Rightarrow> string \<Rightarrow> string \<Rightarrow> bool" where
  "ilike esc pat t = like_match esc (lower pat) (lower t)"

text \<open>\<^verbatim>\<open>s.replace(/[%_!]/g, '!$&')\<close>, and with a backslash for the exclamation mark.\<close>
fun escape_like :: "char \<Rightarrow> string \<Rightarrow> string" where
  "escape_like esc [] = []"
| "escape_like esc (c # cs) = (if c \<in> {CHR ''%'', CHR ''_'', esc} then [esc, c] else [c]) @ escape_like esc cs"

definition search_pattern :: "char \<Rightarrow> string \<Rightarrow> string" where
  "search_pattern esc s = CHR ''%'' # escape_like esc s @ ''%''"

text \<open>The escape characters of the searches.\<close>
definition EXCLAMATION :: char where "EXCLAMATION = CHR ''!''"
definition BACKSLASH :: char where "BACKSLASH = CHR 0x5C"

section \<open>Escaping makes a search literal\<close>

lemma char_lower_cases: "char_lower c = c \<or> 97 \<le> (of_char (char_lower c) :: nat) \<and> of_char (char_lower c) \<le> (122 :: nat) \<and> 65 \<le> (of_char c :: nat)"
proof (cases "65 \<le> (of_char c :: nat) \<and> of_char c \<le> (90 :: nat)")
  case True
  then have "(of_char (char_lower c) :: nat) = of_char c + 32" by (simp add: char_lower_def Let_def)
  then show ?thesis using True by simp
next
  case False
  then show ?thesis by (auto simp: char_lower_def Let_def)
qed

text \<open>Characters that are no letters survive lower-casing, and nothing becomes one of them.\<close>
definition caseless :: "char \<Rightarrow> bool" where
  "caseless e \<longleftrightarrow> \<not> (65 \<le> (of_char e :: nat) \<and> of_char e \<le> (90 :: nat)) \<and> \<not> (97 \<le> (of_char e :: nat) \<and> of_char e \<le> (122 :: nat))"

lemma lower_caseless: "caseless e \<Longrightarrow> char_lower c = e \<longleftrightarrow> c = e"
  using char_lower_cases [of c] by (auto simp: char_lower_def Let_def caseless_def)

lemma caseless_wildcards: "caseless CHR ''%''" "caseless CHR ''_''" "caseless EXCLAMATION" "caseless BACKSLASH"
  by (simp_all add: caseless_def EXCLAMATION_def BACKSLASH_def)

lemma lower_escape: "caseless esc \<Longrightarrow> lower (escape_like esc s) = escape_like esc (lower s)"
proof (induction esc s rule: escape_like.induct)
  case (2 esc c cs)
  have "char_lower esc = esc" using lower_caseless [OF 2(2)] by blast
  then show ?case using 2 lower_caseless [OF 2(2), of c] lower_caseless [OF caseless_wildcards(1), of c]
      lower_caseless [OF caseless_wildcards(2), of c]
    by (auto simp: lower_def)
qed (simp add: lower_def)

text \<open>An escape character that is no wildcard.\<close>
definition plain_escape :: "char \<Rightarrow> bool" where
  "plain_escape esc \<longleftrightarrow> esc \<noteq> CHR ''%'' \<and> esc \<noteq> CHR ''_'' \<and> caseless esc"

lemma plain_escapes: "plain_escape EXCLAMATION" "plain_escape BACKSLASH"
  by (simp_all add: plain_escape_def caseless_wildcards) (simp_all add: EXCLAMATION_def BACKSLASH_def)

lemma like_percent:
  assumes "plain_escape esc"
  shows "like_match esc ''%'' t"
proof -
  have "CHR ''%'' \<noteq> esc" using assms by (auto simp: plain_escape_def)
  then show ?thesis by (induction t) auto
qed

lemma like_escaped: "plain_escape esc \<Longrightarrow> like_match esc (escape_like esc s @ ''%'') t = prefix s t"
proof (induction s arbitrary: t)
  case Nil
  then show ?case using like_percent [of esc t] by (simp del: like_match.simps)
next
  case (Cons c s)
  show ?case using Cons by (cases t) (auto simp: plain_escape_def)
qed

lemma like_search:
  assumes "plain_escape esc"
  shows "like_match esc (CHR ''%'' # escape_like esc s @ ''%'') t = str_includes s t"
proof (induction t)
  case Nil
  have "CHR ''%'' \<noteq> esc" using assms by (auto simp: plain_escape_def)
  then show ?case using like_escaped [OF assms, of s "[]"] by auto
next
  case (Cons c t)
  have "like_match esc (CHR ''%'' # escape_like esc s @ ''%'') (c # t) =
     (like_match esc (escape_like esc s @ ''%'') (c # t) \<or> like_match esc (CHR ''%'' # escape_like esc s @ ''%'') t)"
    using assms by (auto simp: plain_escape_def)
  then show ?case unfolding like_escaped [OF assms] Cons by simp
qed

lemma literal_search:
  assumes "plain_escape esc"
  shows "ilike esc (search_pattern esc s) t = str_includes (lower s) (lower t)"
proof -
  have "char_lower CHR ''%'' = CHR ''%''" using lower_caseless [OF caseless_wildcards(1)] by blast
  then have "lower (search_pattern esc s) = CHR ''%'' # escape_like esc (lower s) @ ''%''"
    using lower_escape [of esc s] assms by (simp add: search_pattern_def lower_def plain_escape_def)
  then show ?thesis using like_search [OF assms] by (simp add: ilike_def)
qed

text \<open>C13: The searches are literal: for every search term, wildcards and escape characters
  included, the pattern the catalogue builds with an exclamation mark and the one the user list
  builds with a backslash match exactly the texts that contain the term, up to case.\<close>
theorem search_is_literal:
  "ilike EXCLAMATION (search_pattern EXCLAMATION s) t = str_includes (lower s) (lower t)
   \<and> ilike BACKSLASH (search_pattern BACKSLASH s) t = str_includes (lower s) (lower t)"
  using literal_search [OF plain_escapes(1)] literal_search [OF plain_escapes(2)] by blast

end
