(* ===== verification/Orders_Query.thy ===== *)
theory Orders_Query
  imports Orders_Cancel Payments_Client Keyset Cursor Like
begin

text \<open>
  The query side of the orders: \<^verbatim>\<open>orders-query-builder.ts\<close>, \<^verbatim>\<open>orders-query.service.ts\<close> and
  \<^verbatim>\<open>buildOrderNextCursor\<close>. Dates of the filters are milliseconds, stamps of the rows
  microseconds. \<^verbatim>\<open>isUUID\<close> (class-validator) is a parameter; the server prints and compares
  uuids in lower case.
\<close>

definition DEFAULT_ORDERS_LIMIT :: int where "DEFAULT_ORDERS_LIMIT = 10"
definition MAX_ORDERS_LIMIT :: int where "MAX_ORDERS_LIMIT = 50"
definition MIN_ORDERS_LIMIT :: int where "MIN_ORDERS_LIMIT = 1"

record find_orders_filter =
  ff_cursor :: "string option"
  ff_endDate :: "int option"
  ff_limit :: "int option"
  ff_productName :: "string option"
  ff_startDate :: "int option"
  ff_status :: "order_status option"

definition filter_valid :: "find_orders_filter \<Rightarrow> bool" where
  "filter_valid f = (case ff_limit f of None \<Rightarrow> True | Some l \<Rightarrow> MIN_ORDERS_LIMIT \<le> l \<and> l \<le> MAX_ORDERS_LIMIT)"

section \<open>The query builder\<close>

text \<open>\<^verbatim>\<open>date_trunc('milliseconds', t)\<close>.\<close>
definition applyCursorPagination :: "int \<times> uuid \<Rightarrow> order \<Rightarrow> bool" where
  "applyCursorPagination c r = (case c of (date, i) \<Rightarrow>
     trunc_ms (o_createdAt r) < date * 1000 \<or>
     trunc_ms (o_createdAt r) = date * 1000 \<and> str_lt (o_id r) (lower i))"

text \<open>\<^verbatim>\<open>createdAt DESC, id DESC\<close>.\<close>
definition order_before :: "order \<Rightarrow> order \<Rightarrow> bool" where
  "order_before a b = (o_createdAt b < o_createdAt a \<or> o_createdAt a = o_createdAt b \<and> str_lt (o_id b) (o_id a))"

text \<open>With a joined relation the library does not put the limit into a raw query; the page cut
  from the rows is the same (\<open>page_of_take\<close>).\<close>
definition applyOrderingAndLimit :: "nat \<Rightarrow> order list \<Rightarrow> order list" where
  "applyOrderingAndLimit n rows = take n (sort_by order_before rows)"

definition buildMainQuery :: "bool \<Rightarrow> uuid list \<Rightarrow> db \<Rightarrow> order_view list" where
  "buildMainQuery withUser ids d =
     map (load_order withUser d) (sort_by order_before (filter (\<lambda>r. o_id r \<in> set ids) (orders d)))"

text \<open>The inner joins keep an order with an item of a live product whose title matches; the
  pattern is not escaped, and a backslash escapes in it.\<close>
definition matches_product :: "string \<Rightarrow> db \<Rightarrow> order \<Rightarrow> bool" where
  "matches_product name d r = (\<exists>it \<in> set (items_of d (o_id r)).
     case findById_product (oi_productId it) d of
       Some p \<Rightarrow> ilike BACKSLASH (CHR ''%'' # name @ ''%'') (p_title p) | None \<Rightarrow> False)"

definition buildOrderIdsSubquery :: "uuid \<Rightarrow> find_orders_filter \<Rightarrow> db \<Rightarrow> order list" where
  "buildOrderIdsSubquery userId f d = filter (\<lambda>r. o_userId r = userId \<and>
     (case ff_status f of None \<Rightarrow> True | Some s \<Rightarrow> o_status r = s) \<and>
     (case ff_startDate f of None \<Rightarrow> True | Some t \<Rightarrow> t * 1000 \<le> o_createdAt r) \<and>
     (case ff_endDate f of None \<Rightarrow> True | Some t \<Rightarrow> o_createdAt r \<le> t * 1000) \<and>
     (case truthy (ff_productName f) of None \<Rightarrow> True | Some n \<Rightarrow> matches_product n d r)) (orders d)"

section \<open>The query service\<close>

definition buildOrderNextCursor :: "order list \<Rightarrow> bool \<Rightarrow> string option" where
  "buildOrderNextCursor page hasNextPage =
     (if \<not> hasNextPage \<or> page = [] then None
      else Some (encodeCursor (o_id (last page)) (int_str (o_createdAt (last page) div 1000))))"

definition findOrdersWithFilters ::
  "(string \<Rightarrow> bool) \<Rightarrow> uuid \<Rightarrow> find_orders_filter \<Rightarrow> db \<Rightarrow> exn + order_view list \<times> string option" where
  "findOrdersWithFilters isUUID userId f d =
    (let limit = nat (case ff_limit f of None \<Rightarrow> DEFAULT_ORDERS_LIMIT | Some l \<Rightarrow> l);
         rows = buildOrderIdsSubquery userId f d;
         behind = (case truthy (ff_cursor f) of
             None \<Rightarrow> Inr rows
           | Some c \<Rightarrow> (case decodeEpochCursor isUUID c of
                Inl e \<Rightarrow> Inl e
              | Inr (None, _) \<Rightarrow> Inl (QueryFailed ''22007'' ''invalid input syntax for type timestamp with time zone'')
              | Inr (Some date, i) \<Rightarrow> Inr (filter (applyCursorPagination (date, i)) rows)))
     in case behind of
          Inl e \<Rightarrow> Inl e
        | Inr rs \<Rightarrow>
            (let paginated = applyOrderingAndLimit (limit + 1) rs
             in if paginated = [] then Inr ([], None)
                else (let (page, hasNextPage) = page_of limit paginated
                  in Inr (buildMainQuery False (map o_id page) d, buildOrderNextCursor page hasNextPage))))"

definition getOrderById :: "uuid \<Rightarrow> uuid \<Rightarrow> db \<Rightarrow> exn + order_view" where
  "getOrderById userId orderId d =
     (let ov = findByIdWithItemRelations orderId d
      in case assertOrderOwnership (map_option ov_order ov) userId of Inl e \<Rightarrow> Inl e | Inr _ \<Rightarrow> Inr (the ov))"

definition getOrderPayment :: "env \<Rightarrow> string fire \<Rightarrow> uuid \<Rightarrow> uuid \<Rightarrow> authorize_response act" where
  "getOrderPayment E fire userId orderId =
     bind_s (gets_s (\<lambda>w. findByIdWithItemRelations orderId (w_db w))) (\<lambda>ov.
     bind_s (lift_s (assertOrderOwnership (map_option ov_order ov) userId)) (\<lambda>r.
     case truthy (o_paymentId r) of
       None \<Rightarrow> throw_s (http_exn BadRequest (''Order '' @ in_dq orderId @ '' has no associated payment''))
     | Some pid \<Rightarrow> catch_s (grpc_getPaymentStatus E fire pid)
         (\<lambda>e. if is_http e then throw_s e
            else throw_s (http_exn ServiceUnavailable ''Failed to retrieve payment information''))))"

text \<open>A client that follows the cursors; the lists of the pages, or the first error.\<close>
fun walk_orders :: "nat \<Rightarrow> (string \<Rightarrow> bool) \<Rightarrow> uuid \<Rightarrow> find_orders_filter \<Rightarrow> db \<Rightarrow> exn + order_view list list" where
  "walk_orders 0 isUUID userId f d = Inr []"
| "walk_orders (Suc k) isUUID userId f d = (case findOrdersWithFilters isUUID userId f d of
     Inl e \<Rightarrow> Inl e
   | Inr (page, None) \<Rightarrow> Inr [page]
   | Inr (page, Some c) \<Rightarrow> (case walk_orders k isUUID userId (f\<lparr>ff_cursor := Some c\<rparr>) d of
        Inl e \<Rightarrow> Inl e | Inr pages \<Rightarrow> Inr (page # pages)))"

end
