(* ===== verification/Orders_Query_Theorems.thy ===== *)
theory Orders_Query_Theorems
  imports Orders_Query
begin

text \<open>
  The properties of the order list and of looking at one order: following the cursors shows
  every matching order exactly once when no two of them were created in the same millisecond
  at different microseconds, and what happens when two were.
\<close>

section \<open>The order of the list\<close>

lemma slinear_order_before:
  assumes "inj_on o_id S"
  shows "slinear order_before S"
  unfolding slinear_def
proof (intro conjI ballI impI)
  fix x y z assume "order_before x y" "order_before y z"
  then show "order_before x z" using str_lt_trans [of "o_id z" "o_id y" "o_id x"] by (auto simp: order_before_def)
next
  fix x y assume "x \<in> S" "y \<in> S" "x \<noteq> y"
  then have "o_id x \<noteq> o_id y" using assms by (auto dest: inj_onD)
  then show "order_before x y \<or> order_before y x"
    using str_lt_total [of "o_id x" "o_id y"] by (auto simp: order_before_def)
qed (simp add: order_before_def)

text \<open>Rows a millisecond cursor can tell apart.\<close>
definition cursor_safe :: "order list \<Rightarrow> bool" where
  "cursor_safe rows \<longleftrightarrow> distinct (map o_id rows) \<and> (\<forall>r \<in> set rows. lower (o_id r) = o_id r) \<and>
     (\<forall>a \<in> set rows. \<forall>b \<in> set rows. o_createdAt a div 1000 = o_createdAt b div 1000 \<longrightarrow> o_createdAt a = o_createdAt b)"

definition order_cursor :: "order \<Rightarrow> int \<times> uuid" where
  "order_cursor r = (o_createdAt r div 1000, o_id r)"

lemma cursor_order_before:
  assumes "lower (o_id x) = o_id x"
    and "o_createdAt x div 1000 = o_createdAt r div 1000 \<Longrightarrow> o_createdAt x = o_createdAt r"
  shows "applyCursorPagination (order_cursor x) r = order_before x r"
proof -
  have 1: "trunc_ms (o_createdAt r) < o_createdAt x div 1000 * 1000 \<longleftrightarrow> o_createdAt r div 1000 < o_createdAt x div 1000"
    by (simp add: trunc_ms_def)
  have 2: "trunc_ms (o_createdAt r) = o_createdAt x div 1000 * 1000 \<longleftrightarrow> o_createdAt x div 1000 = o_createdAt r div 1000"
    by (auto simp: trunc_ms_def)
  have 3: "o_createdAt r div 1000 < o_createdAt x div 1000 \<Longrightarrow> o_createdAt r < o_createdAt x"
    using zdiv_mono1 [of "o_createdAt x" "o_createdAt r" 1000] by linarith
  have 4: "o_createdAt r < o_createdAt x \<Longrightarrow> o_createdAt r div 1000 \<le> o_createdAt x div 1000"
    by (simp add: zdiv_mono1)
  show ?thesis unfolding applyCursorPagination_def order_cursor_def prod.case 1 2 order_before_def assms(1)
    using assms(2) 3 4 by force
qed

interpretation order_keyset: keyset order_before applyCursorPagination order_cursor cursor_safe
proof unfold_locales
  fix rows assume "cursor_safe rows"
  then show "slinear order_before (set rows)"
    by (intro slinear_order_before) (simp add: cursor_safe_def distinct_map)
next
  fix rows assume "cursor_safe rows"
  then show "distinct rows" by (simp add: cursor_safe_def distinct_map)
next
  fix rows x r assume "cursor_safe rows" "x \<in> set rows" "r \<in> set rows"
  then show "applyCursorPagination (order_cursor x) r = order_before x r"
    by (intro cursor_order_before) (auto simp: cursor_safe_def)
qed

section \<open>A page\<close>

text \<open>The main query shows the page in the order of the page.\<close>
lemma main_query_page:
  assumes ids: "distinct (map o_id (orders d))" and sub: "set page \<subseteq> set (orders d)" and srt: "sorted_wrt order_before page"
  shows "buildMainQuery b (map o_id page) d = map (load_order b d) page"
proof -
  let ?f = "filter (\<lambda>r. o_id r \<in> set (map o_id page)) (orders d)"
  have inj: "inj_on o_id (set (orders d))" using ids by (simp add: distinct_map)
  have set: "set ?f = set page"
  proof (intro set_eqI iffI)
    fix r assume "r \<in> set ?f"
    then obtain p where "r \<in> set (orders d)" "p \<in> set page" "o_id r = o_id p" by auto
    then show "r \<in> set page" using inj sub by (metis inj_onD subsetD)
  next
    fix r assume "r \<in> set page"
    then show "r \<in> set ?f" using sub by auto
  qed
  have lin: "slinear order_before (set page)" by (rule slinear_order_before) (rule inj_on_subset [OF inj sub])
  have "sort_by order_before ?f = page"
  proof (rule sorted_unique)
    show "slinear order_before (set (sort_by order_before ?f))" using lin set by simp
    have "slinear order_before (set ?f)" using lin set by simp
    then show "sorted_wrt order_before (sort_by order_before ?f)"
      by (rule sorted_sort_by) (use ids in \<open>simp add: distinct_map\<close>)
  qed (use srt set in auto)
  then show ?thesis by (simp add: buildMainQuery_def)
qed

definition page_limit :: "find_orders_filter \<Rightarrow> nat" where
  "page_limit f = nat (case ff_limit f of None \<Rightarrow> DEFAULT_ORDERS_LIMIT | Some l \<Rightarrow> l)"

lemma page_limit_pos: "filter_valid f \<Longrightarrow> 0 < page_limit f"
  by (auto simp: page_limit_def filter_valid_def DEFAULT_ORDERS_LIMIT_def MIN_ORDERS_LIMIT_def split: option.splits)

text \<open>What a request returns once its cursor is decoded to \<open>c\<close>.\<close>
lemma find_orders_page:
  assumes ids: "distinct (map o_id (orders d))" and good: "cursor_safe (buildOrderIdsSubquery u f d)"
    and lim: "0 < page_limit f"
    and dec: "case truthy (ff_cursor f) of None \<Rightarrow> c = None
       | Some s \<Rightarrow> (case c of None \<Rightarrow> False | Some (date, i) \<Rightarrow> decodeEpochCursor isUUID s = Inr (Some date, i))"
  shows "findOrdersWithFilters isUUID u f d =
    (let (page, more) = page_of (page_limit f) (sort_by order_before
         (filter (\<lambda>r. case c of None \<Rightarrow> True | Some c1 \<Rightarrow> applyCursorPagination c1 r) (buildOrderIdsSubquery u f d)))
     in Inr (map (load_order False d) page, buildOrderNextCursor page more))"
proof -
  let ?rows = "buildOrderIdsSubquery u f d" and ?n = "page_limit f"
  define rs where "rs = filter (\<lambda>r. case c of None \<Rightarrow> True | Some c1 \<Rightarrow> applyCursorPagination c1 r) ?rows"
  define ss where "ss = sort_by order_before rs"
  define page more where "page = fst (page_of ?n ss)" and "more = snd (page_of ?n ss)"
  have sub: "set rs \<subseteq> set ?rows" by (auto simp: rs_def)
  have lin: "slinear order_before (set rs)"
    by (rule slinear_subset [OF order_keyset.slin [OF good] sub])
  have "distinct rs" using order_keyset.dist [OF good] by (simp add: rs_def)
  then have "sorted_wrt order_before ss" unfolding ss_def by (rule sorted_sort_by [OF lin])
  then have srt: "sorted_wrt order_before page" by (auto simp: page_def page_of_def sorted_wrt_take)
  have "set page \<subseteq> set ss" by (auto simp: page_def page_of_def dest: in_set_takeD)
  also have "set ss \<subseteq> set (orders d)" using sub by (auto simp: ss_def buildOrderIdsSubquery_def)
  finally have main: "buildMainQuery False (map o_id page) d = map (load_order False d) page"
    using srt by (intro main_query_page [OF ids])
  have page: "page_of ?n (take (Suc ?n) ss) = (page, more)" unfolding page_of_take by (simp add: page_def more_def)
  have behind: "(case truthy (ff_cursor f) of None \<Rightarrow> Inr ?rows
      | Some s \<Rightarrow> (case decodeEpochCursor isUUID s of Inl e \<Rightarrow> Inl e
           | Inr (None, _) \<Rightarrow> Inl (QueryFailed ''22007'' ''invalid input syntax for type timestamp with time zone'')
           | Inr (Some date, i) \<Rightarrow> Inr (filter (applyCursorPagination (date, i)) ?rows))) = Inr rs"
    using dec by (auto simp: rs_def split: option.splits prod.splits)
  have empty: "take (Suc ?n) ss = [] \<Longrightarrow> page = [] \<and> \<not> more"
    by (simp add: page_def more_def page_of_def)
  show ?thesis
    unfolding findOrdersWithFilters_def Let_def behind sum.case page_limit_def [symmetric] applyOrderingAndLimit_def
    using page main empty
    by (auto simp: ss_def [symmetric] rs_def [symmetric] page_def more_def buildOrderNextCursor_def buildMainQuery_def split: prod.splits)
qed

section \<open>All pages\<close>

lemma decode_order_cursor:
  assumes uu: "isUUID (o_id x)" and law: "\<And>s. isUUID s \<Longrightarrow> s \<noteq> [] \<and> CURSOR_SEPARATOR \<notin> set s"
    and t: "0 \<le> o_createdAt x" "o_createdAt x div 1000 \<le> 8640000000000000"
  shows "decodeEpochCursor isUUID (encodeCursor (o_id x) (int_str (o_createdAt x div 1000))) =
    Inr (Some (fst (order_cursor x)), snd (order_cursor x))"
proof -
  define n where "n = nat (o_createdAt x div 1000)"
  have n: "o_createdAt x div 1000 = int n" "n \<le> 8640000000000000" using t by (simp_all add: n_def)
  have "int_str (int n) = nat_str n" by (simp add: int_str_def)
  then show ?thesis
    using decodeEpoch_encode [where isUUID = isUUID, OF uu law n(2)] by (simp add: n(1) order_cursor_def)
qed

text \<open>Rows whose cursors survive the trip through the client.\<close>
definition cursors_ok :: "(string \<Rightarrow> bool) \<Rightarrow> order list \<Rightarrow> bool" where
  "cursors_ok isUUID rows \<longleftrightarrow> (\<forall>r \<in> set rows. isUUID (o_id r) \<and> 0 \<le> o_createdAt r \<and> o_createdAt r div 1000 \<le> 8640000000000000)"

lemma walk_orders_walk:
  assumes ids: "distinct (map o_id (orders d))" and good: "cursor_safe rows" and ok: "cursors_ok isUUID rows"
    and law: "\<And>s. isUUID s \<Longrightarrow> s \<noteq> [] \<and> CURSOR_SEPARATOR \<notin> set s" and n: "0 < n"
  shows "buildOrderIdsSubquery u f d = rows \<Longrightarrow> page_limit f = n \<Longrightarrow>
    (case truthy (ff_cursor f) of None \<Rightarrow> c = None
       | Some s \<Rightarrow> (case c of None \<Rightarrow> False | Some (date, i) \<Rightarrow> decodeEpochCursor isUUID s = Inr (Some date, i))) \<Longrightarrow>
    walk_orders k isUUID u f d = Inr (map (map (load_order False d)) (walk k order_before applyCursorPagination order_cursor n rows c))"
proof (induction k arbitrary: f c)
  case (Suc k)
  define ss where "ss = sort_by order_before (filter (\<lambda>r. case c of None \<Rightarrow> True | Some c1 \<Rightarrow> applyCursorPagination c1 r) rows)"
  obtain page more where pm: "page_of n ss = (page, more)" by fastforce
  have find: "findOrdersWithFilters isUUID u f d = Inr (map (load_order False d) page, buildOrderNextCursor page more)"
    using find_orders_page [OF ids, of u f c isUUID] good n Suc(2,3,4) pm by (simp add: ss_def)
  have w: "walk (Suc k) order_before applyCursorPagination order_cursor n rows c =
      page # (if more then walk k order_before applyCursorPagination order_cursor n rows (Some (order_cursor (last page))) else [])"
    using pm by (simp add: ss_def)
  show ?case
  proof (cases more)
    case False
    then show ?thesis unfolding w using find by (simp add: buildOrderNextCursor_def)
  next
    case True
    then have len: "page = take n ss" "n < length ss" using pm by (auto simp: page_of_def split: if_splits)
    then have ne: "page \<noteq> []" using n by auto
    have "set page \<subseteq> set rows" using len by (auto simp: ss_def dest: in_set_takeD)
    then have x: "last page \<in> set rows" using ne by auto
    let ?s = "encodeCursor (o_id (last page)) (int_str (o_createdAt (last page) div 1000))"
    have dec: "decodeEpochCursor isUUID ?s = Inr (Some (fst (order_cursor (last page))), snd (order_cursor (last page)))"
      using ok x by (intro decode_order_cursor [OF _ law]) (auto simp: cursors_ok_def)
    have sub: "buildOrderIdsSubquery u (f\<lparr>ff_cursor := Some ?s\<rparr>) d = rows" "page_limit (f\<lparr>ff_cursor := Some ?s\<rparr>) = n"
      using Suc(2,3) by (simp_all add: buildOrderIdsSubquery_def page_limit_def)
    have "walk_orders k isUUID u (f\<lparr>ff_cursor := Some ?s\<rparr>) d = Inr (map (map (load_order False d))
        (walk k order_before applyCursorPagination order_cursor n rows (Some (order_cursor (last page)))))"
      by (rule Suc.IH [OF sub]) (use dec in \<open>simp add: truthy_def encodeCursor_def split: prod.splits\<close>)
    then show ?thesis unfolding w using find True ne by (simp add: buildOrderNextCursor_def)
  qed
qed simp

text \<open>C14: The pages of the order list: for a client that follows the cursors from the first page
  on, the lists it gets, none longer than the limit, are together all orders of the customer that
  match the filter, each once, newest first, provided no two of them were created in the same
  millisecond at different microseconds. The walk ends.\<close>
theorem order_pages_show_everything_once:
  assumes "distinct (map o_id (orders d))" and "filter_valid f" and "ff_cursor f = None"
    and "cursor_safe (buildOrderIdsSubquery u f d)" and "cursors_ok isUUID (buildOrderIdsSubquery u f d)"
    and "\<And>s. isUUID s \<Longrightarrow> s \<noteq> [] \<and> CURSOR_SEPARATOR \<notin> set s"
  shows "\<exists>pages. walk_orders (Suc (length (orders d))) isUUID u f d = Inr pages \<and>
     concat pages = map (load_order False d) (sort_by order_before (buildOrderIdsSubquery u f d)) \<and>
     (\<forall>p \<in> set pages. length p \<le> page_limit f)"
proof -
  let ?rows = "buildOrderIdsSubquery u f d" and ?k = "Suc (length (orders d))"
  let ?w = "walk ?k order_before applyCursorPagination order_cursor (page_limit f) ?rows None"
  note n = page_limit_pos [OF assms(2)]
  have "length ?rows < ?k" by (simp add: buildOrderIdsSubquery_def le_imp_less_Suc)
  then have all: "concat ?w = sort_by order_before ?rows" by (rule order_keyset.walk_all [OF assms(4) n])
  have "walk_orders ?k isUUID u f d = Inr (map (map (load_order False d)) ?w)"
    by (rule walk_orders_walk [where isUUID = isUUID, OF assms(1,4,5,6) n refl refl])
      (simp_all add: truthy_def assms(3))
  moreover have "concat (map (map (load_order False d)) ?w) = map (load_order False d) (sort_by order_before ?rows)"
    using all by (simp add: map_concat [symmetric])
  ultimately show ?thesis using walk_page_length by (auto simp del: walk.simps)
qed

text \<open>Three orders of u1, two of them 400 microseconds apart.\<close>
definition dated_order :: "string \<Rightarrow> micros \<Rightarrow> order" where
  "dated_order i t = (sample_order i ''u1'' PENDING None)\<lparr>o_createdAt := t\<rparr>"

definition sample_filter :: find_orders_filter where
  "sample_filter = \<lparr>ff_cursor = None, ff_endDate = None, ff_limit = Some 1, ff_productName = None, ff_startDate = None,
     ff_status = None\<rparr>"

definition sample_isUUID :: "string \<Rightarrow> bool" where
  "sample_isUUID s = (s \<in> {''a'', ''b'', ''c''})"

lemma order_pages_show_everything_once_witness:
  "\<exists>pages. walk_orders 4 sample_isUUID ''u1'' sample_filter (sample_db\<lparr>orders := [dated_order ''a'' 5000, dated_order ''b'' 9000, dated_order ''c'' 7000]\<rparr>) = Inr pages \<and>
     map (o_id \<circ> ov_order) (concat pages) = [''b'', ''c'', ''a'']"
proof -
  let ?d = "sample_db\<lparr>orders := [dated_order ''a'' 5000, dated_order ''b'' 9000, dated_order ''c'' 7000]\<rparr>"
  have 1: "distinct (map o_id (orders ?d))" "filter_valid sample_filter" "ff_cursor sample_filter = None"
    "cursor_safe (buildOrderIdsSubquery ''u1'' sample_filter ?d)"
    "cursors_ok sample_isUUID (buildOrderIdsSubquery ''u1'' sample_filter ?d)" by code_simp+
  have 2: "sample_isUUID s \<Longrightarrow> s \<noteq> [] \<and> CURSOR_SEPARATOR \<notin> set s" for s
    by (auto simp: sample_isUUID_def CURSOR_SEPARATOR_def)
  have 3: "map o_id (sort_by order_before (buildOrderIdsSubquery ''u1'' sample_filter ?d)) = [''b'', ''c'', ''a'']" by code_simp
  have 4: "Suc (length (orders ?d)) = 4" by simp
  from order_pages_show_everything_once [where isUUID = sample_isUUID, OF 1 2] 3
  show ?thesis unfolding 4 by (auto simp: load_order_def comp_def)
qed

text \<open>Two orders made in the same millisecond: when a page ends with one of them, made at the
  later microsecond but with the smaller id, the other is behind no cursor the client can send:
  the next request, whatever its limit, does not show it.\<close>
theorem same_millisecond_order_is_skipped:
  assumes ids: "distinct (map o_id (orders d))" and ab: "a \<in> set (orders d)" "b \<in> set (orders d)"
    and uu: "isUUID (o_id a)" "lower (o_id a) = o_id a" and law: "\<And>s. isUUID s \<Longrightarrow> s \<noteq> [] \<and> CURSOR_SEPARATOR \<notin> set s"
    and t: "0 \<le> o_createdAt a" "o_createdAt a div 1000 \<le> 8640000000000000"
    and same: "o_createdAt b < o_createdAt a" "o_createdAt b div 1000 = o_createdAt a div 1000" "str_lt (o_id a) (o_id b)"
    and run: "findOrdersWithFilters isUUID u (f\<lparr>ff_cursor := buildOrderNextCursor (page @ [a]) True\<rparr>) d = Inr (shown, next_cursor)"
  shows "order_before a b \<and> o_id b \<notin> set (map (o_id \<circ> ov_order) shown)"
proof -
  let ?s = "encodeCursor (o_id a) (int_str (o_createdAt a div 1000))"
  let ?f = "f\<lparr>ff_cursor := Some ?s\<rparr>" and ?c = "(o_createdAt a div 1000, o_id a)"
  let ?rs = "filter (applyCursorPagination ?c) (buildOrderIdsSubquery u ?f d)"
  define ss where "ss = applyOrderingAndLimit (page_limit ?f + 1) ?rs"
  define pg more where "pg = fst (page_of (page_limit ?f) ss)" and "more = snd (page_of (page_limit ?f) ss)"
  have g: "truthy (Some ?s) = Some ?s" by (simp add: truthy_def encodeCursor_def)
  have dec: "decodeEpochCursor isUUID ?s = Inr (Some (o_createdAt a div 1000), o_id a)"
    using decode_order_cursor [where isUUID = isUUID, OF uu(1) law t] by (simp add: order_cursor_def)
  have notb: "\<not> applyCursorPagination ?c b"
    using uu(2) same(2,3) str_lt_trans [of "o_id a" "o_id b" "o_id a"]
    by (auto simp: applyCursorPagination_def trunc_ms_def)
  have fnd: "findOrdersWithFilters isUUID u ?f d = (if ss = [] then Inr ([], None)
       else Inr (buildMainQuery False (map o_id pg) d, buildOrderNextCursor pg more))"
    unfolding findOrdersWithFilters_def using g dec
    by (simp add: ss_def pg_def more_def Let_def page_limit_def split: prod.splits)
  have "findOrdersWithFilters isUUID u ?f d = Inr (shown, next_cursor)"
    using run by (simp add: buildOrderNextCursor_def)
  then have "shown = [] \<or> shown = buildMainQuery False (map o_id pg) d" unfolding fnd by (auto split: if_splits)
  then have shown: "set (map (o_id \<circ> ov_order) shown) \<subseteq> o_id ` set pg"
    by (auto simp: buildMainQuery_def load_order_def)
  have pg: "set pg \<subseteq> set ?rs"
    by (auto simp: pg_def ss_def page_of_def applyOrderingAndLimit_def dest: in_set_takeD split: if_splits)
  have "o_id b \<notin> o_id ` set ?rs"
  proof
    assume "o_id b \<in> o_id ` set ?rs"
    then obtain r where r: "r \<in> set ?rs" "o_id r = o_id b" by (elim imageE) simp
    have "r \<in> set (orders d)" using r(1) by (auto simp: buildOrderIdsSubquery_def)
    then have "r = b" using r(2) ab(2) ids by (auto simp: distinct_map dest: inj_onD)
    then show False using r(1) notb by simp
  qed
  then have "o_id b \<notin> set (map (o_id \<circ> ov_order) shown)" using shown pg by blast
  then show ?thesis using same(1) by (simp add: order_before_def)
qed

section \<open>One order\<close>

text \<open>Looking at one order: the owner sees exactly that order with its items; everyone else
  gets 404, but the two cases the code means to be indistinguishable differ in their message,
  which names the id of an order that exists and says unknown for one that does not.\<close>
theorem getOrderById_exact:
  "getOrderById userId orderId d = (case look_order d orderId of
     None \<Rightarrow> Inl (http_exn NotFound (''Order with ID '' @ in_dq ''unknown'' @ '' not found''))
   | Some r \<Rightarrow> if o_userId r = userId then Inr (load_order False d r)
       else Inl (http_exn NotFound (''Order with ID '' @ in_dq orderId @ '' not found'')))"
proof (cases "look_order d orderId")
  case None
  then show ?thesis by (simp add: getOrderById_def findByIdWithItemRelations_def assertOrderOwnership_def)
next
  case (Some r)
  then have "o_id r = orderId" using look_order_SomeD by blast
  then show ?thesis using Some
    by (simp add: getOrderById_def findByIdWithItemRelations_def assertOrderOwnership_def load_order_def)
qed

end
