(* ===== verification/Products_Query.thy ===== *)
theory Products_Query
  imports Keyset Cursor Like Product_Repository Sample_World
begin

text \<open>
  The catalogue list: \<^verbatim>\<open>ProductsRepository.findWithFilters\<close>, the page cut and cursor of
  \<^verbatim>\<open>ProductsService.findAll\<close> and \<^verbatim>\<open>buildProductNextCursor\<close>. Parameters, in a record: \<^verbatim>\<open>isUUID\<close>
  of class-validator, the value of a cast to numeric (its class, -1 minus infinity, 0 finite, 1
  infinity, 2 NaN, and the value) with None for text the server refuses, and the collation of
  titles as a sort key.
\<close>

datatype product_sort = BY_CREATED_AT | BY_PRICE | BY_TITLE

datatype sort_order = ASC | DESC

definition DEFAULT_PRODUCTS_LIMIT :: int where "DEFAULT_PRODUCTS_LIMIT = 10"
definition MAX_PRODUCTS_LIMIT :: int where "MAX_PRODUCTS_LIMIT = 50"
definition MIN_PRODUCTS_LIMIT :: int where "MIN_PRODUCTS_LIMIT = 1"

record search_env =
  se_isUUID :: "string \<Rightarrow> bool"
  se_numeric :: "string \<Rightarrow> (int \<times> rat) option"
  se_title_key :: "string \<Rightarrow> string"

record find_products =
  fp_brand :: "string list option"
  fp_category :: "product_category option"
  fp_country :: "string list option"
  fp_cursor :: "string option"
  fp_isActive :: "bool option"
  fp_limit :: "int option"
  fp_maxPrice :: "string option"
  fp_minPrice :: "string option"
  fp_search :: "string option"
  fp_sortBy :: "product_sort option"
  fp_sortOrder :: "sort_order option"

definition find_products_valid :: "find_products \<Rightarrow> bool" where
  "find_products_valid f = (case fp_limit f of None \<Rightarrow> True
     | Some l \<Rightarrow> MIN_PRODUCTS_LIMIT \<le> l \<and> l \<le> MAX_PRODUCTS_LIMIT)"

section \<open>The filters\<close>

definition num_lt :: "int \<times> rat \<Rightarrow> int \<times> rat \<Rightarrow> bool" where
  "num_lt a b = (fst a < fst b \<or> fst a = fst b \<and> snd a < snd b)"

definition price_key :: "search_env \<Rightarrow> string \<Rightarrow> int \<times> rat" where
  "price_key SE s = (case se_numeric SE s of Some v \<Rightarrow> v | None \<Rightarrow> (0, 0))"

text \<open>NULL \<^verbatim>\<open>ILIKE\<close> anything is not true.\<close>
definition ilike_column :: "string \<Rightarrow> string option \<Rightarrow> bool" where
  "ilike_column term col = (case col of None \<Rightarrow> False | Some t \<Rightarrow> ilike EXCLAMATION (search_pattern EXCLAMATION term) t)"

definition upper :: "string \<Rightarrow> string" where "upper s = map char_upper s"

definition product_matches :: "search_env \<Rightarrow> find_products \<Rightarrow> product \<Rightarrow> bool" where
  "product_matches SE f p = (live_product p \<and>
     (case fp_isActive f of None \<Rightarrow> True | Some b \<Rightarrow> p_isActive p = b) \<and>
     (case fp_category f of None \<Rightarrow> True | Some c \<Rightarrow> p_category p = c) \<and>
     (case fp_brand f of None \<Rightarrow> True | Some bs \<Rightarrow> bs = [] \<or> (\<exists>b \<in> set bs. ilike_column b (p_brand p))) \<and>
     (case fp_country f of None \<Rightarrow> True | Some cs \<Rightarrow> cs = [] \<or>
        (case p_country p of None \<Rightarrow> False | Some c \<Rightarrow> upper c \<in> set (map upper cs))) \<and>
     (case truthy (fp_minPrice f) of None \<Rightarrow> True | Some m \<Rightarrow> \<not> num_lt (price_key SE (p_price p)) (price_key SE m)) \<and>
     (case truthy (fp_maxPrice f) of None \<Rightarrow> True | Some m \<Rightarrow> \<not> num_lt (price_key SE m) (price_key SE (p_price p))) \<and>
     (case truthy (fp_search f) of None \<Rightarrow> True
        | Some t \<Rightarrow> ilike_column t (Some (p_title p)) \<or> ilike_column t (p_description p)))"

section \<open>The order and the cursor\<close>

definition sort_lt :: "search_env \<Rightarrow> product_sort \<Rightarrow> product \<Rightarrow> product \<Rightarrow> bool" where
  "sort_lt SE sb a b = (case sb of
     BY_CREATED_AT \<Rightarrow> p_createdAt a < p_createdAt b
   | BY_PRICE \<Rightarrow> num_lt (price_key SE (p_price a)) (price_key SE (p_price b))
   | BY_TITLE \<Rightarrow> str_lt (se_title_key SE (p_title a)) (se_title_key SE (p_title b)))"

text \<open>\<^verbatim>\<open>ORDER BY column order, id order\<close>.\<close>
definition product_before :: "search_env \<Rightarrow> product_sort \<Rightarrow> sort_order \<Rightarrow> product \<Rightarrow> product \<Rightarrow> bool" where
  "product_before SE sb ord a b = (case ord of
     ASC \<Rightarrow> sort_lt SE sb a b \<or> \<not> sort_lt SE sb b a \<and> str_lt (p_id a) (p_id b)
   | DESC \<Rightarrow> sort_lt SE sb b a \<or> \<not> sort_lt SE sb a b \<and> str_lt (p_id b) (p_id a))"

text \<open>\<^verbatim>\<open>op\<close>: smaller for descending, greater for ascending.\<close>
definition op_str :: "sort_order \<Rightarrow> string \<Rightarrow> string \<Rightarrow> bool" where
  "op_str ord a b = (case ord of DESC \<Rightarrow> str_lt a b | ASC \<Rightarrow> str_lt b a)"

definition op_num :: "sort_order \<Rightarrow> int \<times> rat \<Rightarrow> int \<times> rat \<Rightarrow> bool" where
  "op_num ord a b = (case ord of DESC \<Rightarrow> num_lt a b | ASC \<Rightarrow> num_lt b a)"

definition op_int :: "sort_order \<Rightarrow> int \<Rightarrow> int \<Rightarrow> bool" where
  "op_int ord a b = (case ord of DESC \<Rightarrow> a < b | ASC \<Rightarrow> b < a)"

text \<open>The condition a cursor adds, or the error it causes.\<close>
definition cursor_condition :: "search_env \<Rightarrow> product_sort \<Rightarrow> sort_order \<Rightarrow> string \<Rightarrow> exn + (product \<Rightarrow> bool)" where
  "cursor_condition SE sb ord cursor = (case decodeCursor (se_isUUID SE) cursor of
     Inl e \<Rightarrow> Inl e
   | Inr c \<Rightarrow> (case sb of
       BY_PRICE \<Rightarrow> (case se_numeric SE (cp_sortValue c) of
          None \<Rightarrow> Inl (QueryFailed ''22P02'' ''invalid input syntax for type numeric'')
        | Some v \<Rightarrow> Inr (\<lambda>p. op_num ord (price_key SE (p_price p)) v \<or>
             price_key SE (p_price p) = v \<and> op_str ord (p_id p) (lower (cp_id c))))
     | BY_TITLE \<Rightarrow> Inr (\<lambda>p. op_str ord (se_title_key SE (p_title p)) (se_title_key SE (cp_sortValue c)) \<or>
             p_title p = cp_sortValue c \<and> op_str ord (p_id p) (lower (cp_id c)))
     | BY_CREATED_AT \<Rightarrow> (case decodeEpochCursor (se_isUUID SE) cursor of
          Inl e \<Rightarrow> Inl e
        | Inr (None, _) \<Rightarrow> Inl (QueryFailed ''22007'' ''invalid input syntax for type timestamp with time zone'')
        | Inr (Some ms, _) \<Rightarrow> Inr (\<lambda>p. op_int ord (p_createdAt p div 1000) ms \<or>
             p_createdAt p div 1000 = ms \<and> op_str ord (p_id p) (lower (cp_id c))))))"

definition findWithFilters :: "search_env \<Rightarrow> find_products \<Rightarrow> nat \<Rightarrow> product_sort \<Rightarrow> sort_order \<Rightarrow> db \<Rightarrow> exn + product list" where
  "findWithFilters SE f n sb ord d =
    (let rows = filter (product_matches SE f) (products d)
     in case truthy (fp_cursor f) of
          None \<Rightarrow> Inr (take n (sort_by (product_before SE sb ord) rows))
        | Some cur \<Rightarrow> (case cursor_condition SE sb ord cur of
             Inl e \<Rightarrow> Inl e
           | Inr P \<Rightarrow> Inr (take n (sort_by (product_before SE sb ord) (filter P rows)))))"

definition sort_value :: "product_sort \<Rightarrow> product \<Rightarrow> string" where
  "sort_value sb p = (case sb of BY_PRICE \<Rightarrow> p_price p | BY_TITLE \<Rightarrow> p_title p
     | BY_CREATED_AT \<Rightarrow> int_str (p_createdAt p div 1000))"

definition product_cursor :: "product_sort \<Rightarrow> product \<Rightarrow> string" where
  "product_cursor sb p = encodeCursor (p_id p) (sort_value sb p)"

definition buildProductNextCursor :: "product list \<Rightarrow> product_sort \<Rightarrow> bool \<Rightarrow> string option" where
  "buildProductNextCursor page sb hasNextPage = (if hasNextPage then Some (product_cursor sb (last page)) else None)"

definition findAll_page :: "search_env \<Rightarrow> find_products \<Rightarrow> db \<Rightarrow> exn + product list \<times> int \<times> string option" where
  "findAll_page SE f d =
    (let limit = (case fp_limit f of None \<Rightarrow> DEFAULT_PRODUCTS_LIMIT | Some l \<Rightarrow> l);
         sb = (case fp_sortBy f of None \<Rightarrow> BY_CREATED_AT | Some s \<Rightarrow> s);
         ord = (case fp_sortOrder f of None \<Rightarrow> DESC | Some s \<Rightarrow> s)
     in case findWithFilters SE f (nat limit + 1) sb ord d of
          Inl e \<Rightarrow> Inl e
        | Inr rows \<Rightarrow> (let (page, hasNextPage) = page_of (nat limit) rows
            in Inr (page, limit, buildProductNextCursor page sb hasNextPage)))"

text \<open>A client that follows the cursors.\<close>
fun walk_products :: "nat \<Rightarrow> search_env \<Rightarrow> find_products \<Rightarrow> db \<Rightarrow> exn + product list list" where
  "walk_products 0 SE f d = Inr []"
| "walk_products (Suc k) SE f d = (case findAll_page SE f d of
     Inl e \<Rightarrow> Inl e
   | Inr (page, _, None) \<Rightarrow> Inr [page]
   | Inr (page, _, Some c) \<Rightarrow> (case walk_products k SE (f\<lparr>fp_cursor := Some c\<rparr>) d of
        Inl e \<Rightarrow> Inl e | Inr pages \<Rightarrow> Inr (page # pages)))"

section \<open>The contract of the cursor\<close>

text \<open>Rows on which the cursors of a sort work: what the server guarantees of uuids, prices and
  titles, and, by creation time, no two rows of one millisecond at different microseconds.\<close>
definition product_cursor_safe :: "search_env \<Rightarrow> product_sort \<Rightarrow> product list \<Rightarrow> bool" where
  "product_cursor_safe SE sb rows \<longleftrightarrow> distinct (map p_id rows) \<and>
     (\<forall>p \<in> set rows. se_isUUID SE (p_id p) \<and> lower (p_id p) = p_id p \<and> p_id p \<noteq> [] \<and> CURSOR_SEPARATOR \<notin> set (p_id p) \<and>
        (case sb of BY_CREATED_AT \<Rightarrow> 0 \<le> p_createdAt p \<and> p_createdAt p div 1000 \<le> 8640000000000000
          | BY_PRICE \<Rightarrow> p_price p \<noteq> [] \<and> se_numeric SE (p_price p) \<noteq> None
          | BY_TITLE \<Rightarrow> p_title p \<noteq> [])) \<and>
     (case sb of
        BY_CREATED_AT \<Rightarrow> (\<forall>a \<in> set rows. \<forall>b \<in> set rows. p_createdAt a div 1000 = p_createdAt b div 1000 \<longrightarrow> p_createdAt a = p_createdAt b)
      | BY_PRICE \<Rightarrow> True
      | BY_TITLE \<Rightarrow> (\<forall>a \<in> set rows. \<forall>b \<in> set rows. se_title_key SE (p_title a) = se_title_key SE (p_title b) \<longrightarrow> p_title a = p_title b))"

definition product_behind :: "search_env \<Rightarrow> product_sort \<Rightarrow> sort_order \<Rightarrow> string \<Rightarrow> product \<Rightarrow> bool" where
  "product_behind SE sb ord c p = (case cursor_condition SE sb ord c of Inr P \<Rightarrow> P p | Inl _ \<Rightarrow> False)"

lemma num_lt_irrefl [simp]: "\<not> num_lt a a"
  by (simp add: num_lt_def)

lemma num_lt_trans: "num_lt a b \<Longrightarrow> num_lt b c \<Longrightarrow> num_lt a c"
  by (auto simp: num_lt_def)

lemma num_lt_total: "num_lt a b \<or> num_lt b a \<or> a = b"
  by (cases a; cases b) (auto simp: num_lt_def)

text \<open>The sort column orders the rows up to ties.\<close>
lemma sort_lt_irrefl [simp]: "\<not> sort_lt SE sb a a"
  by (cases sb) (simp_all add: sort_lt_def)

lemma sort_lt_trans: "sort_lt SE sb a b \<Longrightarrow> sort_lt SE sb b c \<Longrightarrow> sort_lt SE sb a c"
  by (cases sb) (auto simp: sort_lt_def intro: num_lt_trans str_lt_trans)

lemma sort_lt_between:
  assumes ab: "sort_lt SE sb a b"
  shows "sort_lt SE sb a c \<or> sort_lt SE sb c b"
proof (cases sb)
  case BY_CREATED_AT
  then show ?thesis using ab by (auto simp: sort_lt_def)
next
  case BY_PRICE
  then show ?thesis using ab num_lt_total [of "price_key SE (p_price a)" "price_key SE (p_price c)"]
      num_lt_trans [of "price_key SE (p_price c)" "price_key SE (p_price a)" "price_key SE (p_price b)"]
    by (simp add: sort_lt_def) metis
next
  case BY_TITLE
  then show ?thesis using ab str_lt_total [of "se_title_key SE (p_title a)" "se_title_key SE (p_title c)"]
      str_lt_trans [of "se_title_key SE (p_title c)" "se_title_key SE (p_title a)" "se_title_key SE (p_title b)"]
    by (simp add: sort_lt_def) metis
qed

lemma slinear_product_before:
  assumes "inj_on p_id S"
  shows "slinear (product_before SE sb ord) S"
  unfolding slinear_def
proof (intro conjI ballI impI)
  fix x y z assume "product_before SE sb ord x y" "product_before SE sb ord y z"
  then show "product_before SE sb ord x z"
    using sort_lt_trans [of SE sb x y z] sort_lt_between [of SE sb x y z] sort_lt_between [of SE sb y z x]
      sort_lt_between [of SE sb z x y] str_lt_trans [of "p_id x" "p_id y" "p_id z"]
      sort_lt_trans [of SE sb z y x] sort_lt_between [of SE sb y x z] sort_lt_between [of SE sb z y x]
      sort_lt_between [of SE sb x z y] str_lt_trans [of "p_id z" "p_id y" "p_id x"]
    by (cases ord) (simp_all add: product_before_def, blast+)
next
  fix x y assume "x \<in> S" "y \<in> S" "x \<noteq> y"
  then have "p_id x \<noteq> p_id y" using assms by (auto dest: inj_onD)
  then show "product_before SE sb ord x y \<or> product_before SE sb ord y x"
    using str_lt_total [of "p_id x" "p_id y"] by (cases ord) (auto simp: product_before_def)
qed (cases ord; simp add: product_before_def sort_lt_irrefl)

end
