(* ===== verification/Products_Query_Theorems.thy ===== *)
theory Products_Query_Theorems
  imports Products_Query
begin

text \<open>
  Following the cursors of the catalogue, in any of its six orders, shows every matching
  product once.
\<close>

lemma decode_product_cursor:
  assumes safe: "product_cursor_safe SE sb rows" and x: "x \<in> set rows"
  shows "decodeCursor (se_isUUID SE) (product_cursor sb x) = Inr \<lparr>cp_id = p_id x, cp_sortValue = sort_value sb x\<rparr>"
proof -
  have ne: "sort_value sb x \<noteq> []"
  proof (cases sb)
    case BY_CREATED_AT
    have "nat_str n \<noteq> []" for n by (simp add: nat_str.simps [of n])
    then show ?thesis using BY_CREATED_AT by (simp add: sort_value_def int_str_def)
  qed (use safe x in \<open>auto simp: product_cursor_safe_def sort_value_def\<close>)
  have ok: "se_isUUID SE (p_id x)" "p_id x \<noteq> []" "CURSOR_SEPARATOR \<notin> set (p_id x)"
    using safe x by (simp_all add: product_cursor_safe_def)
  show ?thesis using decodeCursor_exact [of "se_isUUID SE" "product_cursor sb x" "\<lparr>cp_id = p_id x, cp_sortValue = sort_value sb x\<rparr>"]
      ne ok by (simp add: product_cursor_def)
qed

lemma decode_epoch_product:
  assumes safe: "product_cursor_safe SE BY_CREATED_AT rows" and x: "x \<in> set rows"
  shows "decodeEpochCursor (se_isUUID SE) (product_cursor BY_CREATED_AT x) = Inr (Some (p_createdAt x div 1000), p_id x)"
proof -
  have t: "0 \<le> p_createdAt x" "p_createdAt x div 1000 \<le> 8640000000000000"
    using safe x by (simp_all add: product_cursor_safe_def)
  define n where "n = nat (p_createdAt x div 1000)"
  have n: "p_createdAt x div 1000 = int n" "n \<le> 8640000000000000" using t by (simp_all add: n_def)
  have sv: "sort_value BY_CREATED_AT x = nat_str n" by (simp add: sort_value_def n(1) int_str_def)
  have num: "js_Number (nat_str n) = Finite (of_nat n)" using n(2) by (intro js_Number_nat_str) simp
  have "time_clip (of_nat n) = Some (int n)" using time_clip_int [of "int n"] n(2) by simp
  then show ?thesis
    using decode_product_cursor [OF safe x] num by (simp add: decodeEpochCursor_def sv n(1))
qed

lemma product_behind_before:
  assumes safe: "product_cursor_safe SE sb rows" and x: "x \<in> set rows" and r: "r \<in> set rows"
  shows "product_behind SE sb ord (product_cursor sb x) r = product_before SE sb ord x r"
proof -
  have idx: "lower (p_id x) = p_id x" using safe x by (simp add: product_cursor_safe_def)
  note dec = decode_product_cursor [OF safe x]
  show ?thesis
  proof (cases sb)
    case BY_PRICE
    then have num: "se_numeric SE (p_price x) = Some (price_key SE (p_price x))"
      using safe x by (auto simp: product_cursor_safe_def price_key_def)
    define kx kr where "kx = price_key SE (p_price x)" and "kr = price_key SE (p_price r)"
    have tie: "\<not> num_lt kx kr \<Longrightarrow> \<not> num_lt kr kx \<Longrightarrow> kr = kx" using num_lt_total [of kx kr] by simp
    have asym: "num_lt kx kr \<Longrightarrow> \<not> num_lt kr kx" using num_lt_trans [of kx kr kx] num_lt_irrefl [of kx] by blast
    have "product_behind SE sb ord (product_cursor sb x) r = (op_num ord kr kx \<or> kr = kx \<and> op_str ord (p_id r) (p_id x))"
      by (simp add: BY_PRICE product_behind_def cursor_condition_def dec [unfolded BY_PRICE] sort_value_def num idx kx_def kr_def)
    moreover have "product_before SE sb ord x r = (case ord of ASC \<Rightarrow> num_lt kx kr \<or> \<not> num_lt kr kx \<and> str_lt (p_id x) (p_id r)
        | DESC \<Rightarrow> num_lt kr kx \<or> \<not> num_lt kx kr \<and> str_lt (p_id r) (p_id x))"
      by (simp add: BY_PRICE product_before_def sort_lt_def kx_def kr_def split: sort_order.split)
    ultimately show ?thesis
      using tie asym num_lt_irrefl [of kx] by (cases ord) (auto simp: op_num_def op_str_def)
  next
    case BY_TITLE
    have "se_title_key SE (p_title x) = se_title_key SE (p_title r) \<Longrightarrow> p_title r = p_title x"
      using safe x r BY_TITLE by (auto simp: product_cursor_safe_def)
    then have tie: "\<not> str_lt (se_title_key SE (p_title x)) (se_title_key SE (p_title r)) \<Longrightarrow>
        \<not> str_lt (se_title_key SE (p_title r)) (se_title_key SE (p_title x)) \<Longrightarrow> p_title r = p_title x"
      using str_lt_total by blast
    have asym: "str_lt (se_title_key SE (p_title x)) (se_title_key SE (p_title r)) \<Longrightarrow>
        \<not> str_lt (se_title_key SE (p_title r)) (se_title_key SE (p_title x))"
      using str_lt_trans str_lt_irrefl by blast
    show ?thesis
      using tie asym
      by (cases ord) (auto simp: BY_TITLE product_behind_def cursor_condition_def dec [unfolded BY_TITLE] sort_value_def idx
          op_str_def product_before_def sort_lt_def)
  next
    case BY_CREATED_AT
    define cx cr mx mr where "cx = p_createdAt x" and "cr = p_createdAt r" and "mx = cx div 1000" and "mr = cr div 1000"
    have same: "mx = mr \<Longrightarrow> cx = cr"
      using safe x r BY_CREATED_AT by (auto simp: product_cursor_safe_def mx_def mr_def cx_def cr_def)
    have mono: "cx < cr \<Longrightarrow> mx \<le> mr" "cr < cx \<Longrightarrow> mr \<le> mx"
      unfolding mx_def mr_def by (simp_all add: zdiv_mono1)
    have same': "cx = cr \<Longrightarrow> mx = mr" by (simp add: mx_def mr_def)
    have "product_behind SE sb ord (product_cursor sb x) r = (op_int ord mr mx \<or> mr = mx \<and> op_str ord (p_id r) (p_id x))"
      using decode_epoch_product [of SE rows x] safe x BY_CREATED_AT
      by (simp add: product_behind_def cursor_condition_def dec [unfolded BY_CREATED_AT] idx mx_def mr_def cx_def cr_def)
    moreover have "product_before SE sb ord x r = (case ord of ASC \<Rightarrow> cx < cr \<or> \<not> cr < cx \<and> str_lt (p_id x) (p_id r)
        | DESC \<Rightarrow> cr < cx \<or> \<not> cx < cr \<and> str_lt (p_id r) (p_id x))"
      by (simp add: BY_CREATED_AT product_before_def sort_lt_def cx_def cr_def split: sort_order.split)
    moreover have "(mx < mr) = (cx < cr)" "(mr < mx) = (cr < cx)" "(mr = mx) = (\<not> cx < cr \<and> \<not> cr < cx)"
      using same mono same' by linarith+
    ultimately show ?thesis by (cases ord) (auto simp: op_int_def op_str_def)
  qed
qed

interpretation product_keyset: keyset "product_before SE sb ord" "product_behind SE sb ord" "product_cursor sb"
    "product_cursor_safe SE sb" for SE sb ord
proof unfold_locales
  fix rows assume "product_cursor_safe SE sb rows"
  then show "slinear (product_before SE sb ord) (set rows)"
    by (intro slinear_product_before) (simp add: product_cursor_safe_def distinct_map)
next
  fix rows assume "product_cursor_safe SE sb rows"
  then show "distinct rows" by (simp add: product_cursor_safe_def distinct_map)
qed (rule product_behind_before)

definition product_limit :: "find_products \<Rightarrow> nat" where
  "product_limit f = nat (case fp_limit f of None \<Rightarrow> DEFAULT_PRODUCTS_LIMIT | Some l \<Rightarrow> l)"

definition sort_of :: "find_products \<Rightarrow> product_sort" where
  "sort_of f = (case fp_sortBy f of None \<Rightarrow> BY_CREATED_AT | Some s \<Rightarrow> s)"

definition order_of :: "find_products \<Rightarrow> sort_order" where
  "order_of f = (case fp_sortOrder f of None \<Rightarrow> DESC | Some s \<Rightarrow> s)"

text \<open>One request, once its cursor is known to be one the server made.\<close>
lemma findAll_page_eq:
  assumes "case truthy (fp_cursor f) of None \<Rightarrow> c = None
     | Some s \<Rightarrow> c = Some s \<and> isl (cursor_condition SE (sort_of f) (order_of f) s) = False"
  shows "\<exists>l. findAll_page SE f d =
    (let (page, more) = page_of (product_limit f) (sort_by (product_before SE (sort_of f) (order_of f))
        (filter (\<lambda>p. case c of None \<Rightarrow> True | Some s \<Rightarrow> product_behind SE (sort_of f) (order_of f) s p)
           (filter (product_matches SE f) (products d))))
     in Inr (page, l, buildProductNextCursor page (sort_of f) more))"
proof -
  define rs where "rs = filter (\<lambda>p. case c of None \<Rightarrow> True | Some s \<Rightarrow> product_behind SE (sort_of f) (order_of f) s p)
           (filter (product_matches SE f) (products d))"
  let ?ss = "sort_by (product_before SE (sort_of f) (order_of f)) rs"
  have "findWithFilters SE f (Suc (product_limit f)) (sort_of f) (order_of f) d = Inr (take (Suc (product_limit f)) ?ss)"
  proof (cases "truthy (fp_cursor f)")
    case None
    then show ?thesis using assms by (simp add: findWithFilters_def rs_def)
  next
    case (Some s)
    then obtain P where P: "cursor_condition SE (sort_of f) (order_of f) s = Inr P" and c: "c = Some s"
      using assms by (cases "cursor_condition SE (sort_of f) (order_of f) s") auto
    have "filter P (filter (product_matches SE f) (products d)) = rs"
      by (simp add: rs_def c product_behind_def P)
    then show ?thesis using Some P unfolding findWithFilters_def by simp
  qed
  then show ?thesis unfolding findAll_page_def Let_def sort_of_def [symmetric] order_of_def [symmetric] product_limit_def [symmetric] rs_def [symmetric]
    by (intro exI [of _ "case fp_limit f of None \<Rightarrow> DEFAULT_PRODUCTS_LIMIT | Some l \<Rightarrow> l"]) (simp add: page_of_take)
qed

lemma own_cursor_condition:
  assumes safe: "product_cursor_safe SE sb rows" and x: "x \<in> set rows"
  shows "isl (cursor_condition SE sb ord (product_cursor sb x)) = False"
proof (cases sb)
  case BY_CREATED_AT
  then show ?thesis using decode_product_cursor [OF safe x] decode_epoch_product [of SE rows x] safe x
    by (simp add: cursor_condition_def)
next
  case BY_PRICE
  then show ?thesis using decode_product_cursor [OF safe x] safe x
    by (auto simp: cursor_condition_def sort_value_def product_cursor_safe_def)
next
  case BY_TITLE
  then show ?thesis using decode_product_cursor [OF safe x] by (simp add: cursor_condition_def)
qed

lemma product_matches_cursor [simp]: "product_matches SE (f\<lparr>fp_cursor := c\<rparr>) = product_matches SE f"
  by (rule ext) (simp add: product_matches_def)

lemma walk_products_walk:
  assumes safe: "product_cursor_safe SE sb rows" and n: "0 < n"
  shows "filter (product_matches SE f) (products d) = rows \<Longrightarrow> product_limit f = n \<Longrightarrow> sort_of f = sb \<Longrightarrow> order_of f = ord \<Longrightarrow>
    (case truthy (fp_cursor f) of None \<Rightarrow> c = None
       | Some s \<Rightarrow> c = Some s \<and> isl (cursor_condition SE sb ord s) = False) \<Longrightarrow>
    walk_products k SE f d = Inr (walk k (product_before SE sb ord) (product_behind SE sb ord) (product_cursor sb) n rows c)"
proof (induction k arbitrary: f c)
  case (Suc k)
  define ss where "ss = sort_by (product_before SE sb ord) (filter (\<lambda>p. case c of None \<Rightarrow> True | Some s \<Rightarrow> product_behind SE sb ord s p) rows)"
  obtain page more where pm: "page_of n ss = (page, more)" by fastforce
  obtain l where find: "findAll_page SE f d = Inr (page, l, buildProductNextCursor page sb more)"
    using findAll_page_eq [where f = f and c = c and SE = SE and d = d] Suc(2-6) pm by (auto simp: ss_def)
  have w: "walk (Suc k) (product_before SE sb ord) (product_behind SE sb ord) (product_cursor sb) n rows c =
      page # (if more then walk k (product_before SE sb ord) (product_behind SE sb ord) (product_cursor sb) n rows (Some (product_cursor sb (last page))) else [])"
    using pm by (simp add: ss_def)
  show ?case
  proof (cases more)
    case False
    then show ?thesis unfolding w using find by (simp add: buildProductNextCursor_def)
  next
    case True
    then have len: "page = take n ss" "n < length ss" using pm by (auto simp: page_of_def split: if_splits)
    then have ne: "page \<noteq> []" using n by auto
    have "set page \<subseteq> set rows" using len by (auto simp: ss_def dest: in_set_takeD)
    then have x: "last page \<in> set rows" using ne by auto
    let ?f = "f\<lparr>fp_cursor := Some (product_cursor sb (last page))\<rparr>"
    have same: "filter (product_matches SE ?f) (products d) = rows" "product_limit ?f = n" "sort_of ?f = sb" "order_of ?f = ord"
      using Suc(2-5) by (simp_all add: product_limit_def sort_of_def order_of_def)
    have "walk_products k SE ?f d = Inr (walk k (product_before SE sb ord) (product_behind SE sb ord) (product_cursor sb) n rows (Some (product_cursor sb (last page))))"
      by (rule Suc.IH [OF same]) (use own_cursor_condition [OF safe x] in \<open>simp add: truthy_def product_cursor_def encodeCursor_def\<close>)
    then show ?thesis unfolding w using find True by (simp add: buildProductNextCursor_def)
  qed
qed simp

text \<open>C15: The pages of the catalogue: in each of its six orders, a client that follows the cursors
  gets all products that match the filter, each once and in that order, and the walk ends; by
  creation time this needs that no two of them were created in the same millisecond at
  different microseconds.\<close>
theorem product_pages_show_everything_once:
  assumes "find_products_valid f" and "fp_cursor f = None"
    and "product_cursor_safe SE (sort_of f) (filter (product_matches SE f) (products d))"
  shows "\<exists>pages. walk_products (Suc (length (products d))) SE f d = Inr pages \<and>
     concat pages = sort_by (product_before SE (sort_of f) (order_of f)) (filter (product_matches SE f) (products d)) \<and>
     (\<forall>p \<in> set pages. length p \<le> product_limit f)"
proof -
  let ?rows = "filter (product_matches SE f) (products d)" and ?k = "Suc (length (products d))"
  let ?w = "walk ?k (product_before SE (sort_of f) (order_of f)) (product_behind SE (sort_of f) (order_of f))
     (product_cursor (sort_of f)) (product_limit f) ?rows None"
  have n: "0 < product_limit f"
    using assms(1) by (auto simp: product_limit_def find_products_valid_def DEFAULT_PRODUCTS_LIMIT_def MIN_PRODUCTS_LIMIT_def split: option.splits)
  have "length ?rows < ?k" by (simp add: le_imp_less_Suc)
  then have "concat ?w = sort_by (product_before SE (sort_of f) (order_of f)) ?rows"
    by (rule product_keyset.walk_all [OF assms(3) n])
  moreover have "walk_products ?k SE f d = Inr ?w"
    by (rule walk_products_walk [OF assms(3) n refl refl refl refl]) (simp add: truthy_def assms(2))
  moreover have "\<forall>p \<in> set ?w. length p \<le> product_limit f" using walk_page_length by blast
  ultimately show ?thesis by blast
qed

text \<open>A server on which the properties are run.\<close>
definition sample_search :: search_env where
  "sample_search = \<lparr>se_isUUID = (\<lambda>s. s \<in> {''p1'', ''p2'', ''p3''}), se_numeric = (\<lambda>s. map_option (\<lambda>q. (0, q)) (parseFloat s)),
     se_title_key = (\<lambda>s. s)\<rparr>"

definition sample_find :: find_products where
  "sample_find = \<lparr>fp_brand = None, fp_category = None, fp_country = None, fp_cursor = None, fp_isActive = Some True,
     fp_limit = Some 1, fp_maxPrice = None, fp_minPrice = None, fp_search = Some ''tp'', fp_sortBy = Some BY_PRICE, fp_sortOrder = Some ASC\<rparr>"

lemma product_pages_show_everything_once_witness:
  "\<exists>pages. walk_products 4 sample_search sample_find (empty_db\<lparr>products :=
      [sample_product ''p1'' 5 ''9.99'', sample_product ''p2'' 1 ''10.50'', sample_product ''p3'' 1 ''9.99'']\<rparr>) = Inr pages \<and>
     map p_id (concat pages) = [''p1'', ''p3'', ''p2'']"
proof -
  let ?d = "empty_db\<lparr>products := [sample_product ''p1'' 5 ''9.99'', sample_product ''p2'' 1 ''10.50'', sample_product ''p3'' 1 ''9.99'']\<rparr>"
  have 1: "find_products_valid sample_find" "fp_cursor sample_find = None"
    "product_cursor_safe sample_search (sort_of sample_find) (filter (product_matches sample_search sample_find) (products ?d))"
    by code_simp+
  have 2: "map p_id (sort_by (product_before sample_search (sort_of sample_find) (order_of sample_find))
      (filter (product_matches sample_search sample_find) (products ?d))) = [''p1'', ''p3'', ''p2'']" by code_simp
  have 3: "Suc (length (products ?d)) = 4" by simp
  from product_pages_show_everything_once [OF 1] 2 show ?thesis unfolding 3 by auto
qed

end
