(* ===== verification/Opaque_Token.thy ===== *)
theory Opaque_Token
  imports Audit_Log
begin

text \<open>
  \<^verbatim>\<open>auth/utils\<close>: the tokens handed to clients, the id of a stored row, a colon and a random
  secret, of which the row keeps only an HMAC. The record \<open>auth_env\<close> holds what the
  authentication code takes from libraries: class-validator's \<^verbatim>\<open>isUUID\<close>, HMAC-SHA256 in hex, the
  random secrets in hex, bcrypt, the signature of access tokens, and whether sending a mail fails.
\<close>

record jwt_payload =
  jp_email :: string
  jp_roles :: "string list"
  jp_scopes :: "string list"
  jp_sub :: uuid

record auth_env =
  az_isUUID :: "string \<Rightarrow> bool"
  az_hmac :: "string \<Rightarrow> string \<Rightarrow> string"
  az_secret :: "nat \<Rightarrow> nat \<Rightarrow> string"
  az_bcrypt_hash :: "string \<Rightarrow> nat \<Rightarrow> string"
  az_bcrypt_compare :: "string \<Rightarrow> string \<Rightarrow> bool"
  az_sign :: "jwt_payload \<Rightarrow> micros \<Rightarrow> string"
  az_mail :: "mail \<Rightarrow> world \<Rightarrow> exn option"
  az_hmac_key :: string
  az_refresh_ttl_ms :: int
  az_verification_ttl_ms :: int
  az_reset_ttl_ms :: int
  az_from :: string
  az_app_url :: string

definition MIN_RAW_SECRET_LENGTH :: nat where "MIN_RAW_SECRET_LENGTH = 64"
definition REFRESH_TOKEN_SECRET_BYTES :: nat where "REFRESH_TOKEN_SECRET_BYTES = 64"
definition ONE_TIME_TOKEN_SECRET_BYTES :: nat where "ONE_TIME_TOKEN_SECRET_BYTES = 32"
definition UUID_LENGTH :: nat where "UUID_LENGTH = 36"
definition HMAC_HEX_LENGTH :: nat where "HMAC_HEX_LENGTH = 64"
definition DELIMITER :: char where "DELIMITER = CHR '':''"

text \<open>\<^verbatim>\<open>Buffer.from(s, 'hex')\<close>: bytes up to the first pair that is not hexadecimal.\<close>
definition hex_digit :: "char \<Rightarrow> nat option" where
  "hex_digit c = (let n = of_char (char_lower c) :: nat in
     if 48 \<le> n \<and> n \<le> 57 then Some (n - 48) else if 97 \<le> n \<and> n \<le> 102 then Some (n - 87) else None)"

fun hex_bytes :: "string \<Rightarrow> nat list" where
  "hex_bytes (a # b # s) = (case (hex_digit a, hex_digit b) of
     (Some x, Some y) \<Rightarrow> (16 * x + y) # hex_bytes s | _ \<Rightarrow> [])"
| "hex_bytes s = []"

text \<open>The n-th secret of this process and its hash.\<close>
definition createOpaqueToken :: "auth_env \<Rightarrow> nat \<Rightarrow> nat \<Rightarrow> string \<times> string" where
  "createOpaqueToken A bytes n = (let rawSecret = az_secret A bytes n in (rawSecret, az_hmac A (az_hmac_key A) rawSecret))"

record parsed_token =
  pt_rawSecret :: string
  pt_tokenId :: uuid

definition parseOpaqueToken :: "auth_env \<Rightarrow> string \<Rightarrow> parsed_token option" where
  "parseOpaqueToken A token =
     (if length token \<le> UUID_LENGTH then None
      else if token ! UUID_LENGTH \<noteq> DELIMITER then None
      else (let tokenId = take UUID_LENGTH token; rawSecret = drop (UUID_LENGTH + 1) token
        in if \<not> az_isUUID A tokenId then None
           else if length rawSecret < MIN_RAW_SECRET_LENGTH then None
           else Some \<lparr>pt_rawSecret = rawSecret, pt_tokenId = tokenId\<rparr>))"

text \<open>\<^verbatim>\<open>timingSafeEqual\<close> throws when the two buffers differ in length.\<close>
definition verifyOpaqueToken :: "auth_env \<Rightarrow> string \<Rightarrow> string \<Rightarrow> exn + bool" where
  "verifyOpaqueToken A rawSecret storedHash =
     (if length storedHash \<noteq> HMAC_HEX_LENGTH then Inr False
      else (let candidate = hex_bytes (az_hmac A (az_hmac_key A) rawSecret); stored = hex_bytes storedHash
        in if length candidate \<noteq> length stored then Inl (PlainError ''Input buffers must have the same byte length'')
           else Inr (candidate = stored)))"

definition opaque :: "uuid \<Rightarrow> string \<Rightarrow> string" where
  "opaque i rawSecret = i @ DELIMITER # rawSecret"

section \<open>Facts\<close>

text \<open>What the libraries promise: uuids have 36 characters, a secret of n bytes prints as 2n
  characters, an HMAC-SHA256 as 64.\<close>
definition auth_laws :: "auth_env \<Rightarrow> bool" where
  "auth_laws A \<longleftrightarrow> (\<forall>s. az_isUUID A s \<longrightarrow> length s = 36) \<and> (\<forall>b n. length (az_secret A b n) = 2 * b) \<and>
     (\<forall>k s. length (az_hmac A k s) = 64)"

lemma parse_opaque:
  assumes "length i = 36" and "az_isUUID A i" and "64 \<le> length s"
  shows "parseOpaqueToken A (opaque i s) = Some \<lparr>pt_rawSecret = s, pt_tokenId = i\<rparr>"
  using assms by (simp add: parseOpaqueToken_def opaque_def UUID_LENGTH_def MIN_RAW_SECRET_LENGTH_def nth_append)

lemma parse_opaque_SomeD:
  assumes "parseOpaqueToken A t = Some p"
  shows "t = opaque (pt_tokenId p) (pt_rawSecret p)" "az_isUUID A (pt_tokenId p)" "64 \<le> length (pt_rawSecret p)"
proof -
  have l: "length t > 36" "t ! 36 = CHR '':''" and p: "p = \<lparr>pt_rawSecret = drop 37 t, pt_tokenId = take 36 t\<rparr>"
    and r: "az_isUUID A (take 36 t)" "64 \<le> length (drop 37 t)"
    using assms by (auto simp: parseOpaqueToken_def UUID_LENGTH_def DELIMITER_def MIN_RAW_SECRET_LENGTH_def Let_def split: if_splits)
  have "t = take 36 t @ t ! 36 # drop 37 t" using id_take_nth_drop [OF l(1)] by simp
  then show "t = opaque (pt_tokenId p) (pt_rawSecret p)" by (simp add: p opaque_def DELIMITER_def l(2))
  show "az_isUUID A (pt_tokenId p)" "64 \<le> length (pt_rawSecret p)" using r by (simp_all add: p)
qed

lemma verify_created:
  assumes "length (az_hmac A (az_hmac_key A) s) = 64"
  shows "verifyOpaqueToken A s (az_hmac A (az_hmac_key A) s) = Inr True"
  using assms by (simp add: verifyOpaqueToken_def HMAC_HEX_LENGTH_def Let_def)

lemma verify_Inr_True:
  "verifyOpaqueToken A s h = Inr True \<Longrightarrow> length h = 64 \<and> hex_bytes (az_hmac A (az_hmac_key A) s) = hex_bytes h"
  by (auto simp: verifyOpaqueToken_def HMAC_HEX_LENGTH_def Let_def split: if_splits)

end
