(* ===== verification/Token_Service.thy ===== *)
theory Token_Service
  imports Opaque_Token Orders_Repository Sample_World
begin

text \<open>
  \<^verbatim>\<open>auth/token.service.ts\<close>: refresh tokens, password-reset tokens and e-mail-verification tokens.
  \<^verbatim>\<open>new Date()\<close> has milliseconds, \<^verbatim>\<open>NOW()\<close> of the database microseconds. What other requests
  do between reading a token and marking it is \<^verbatim>\<open>e_others\<close>.
\<close>

section \<open>Life times\<close>

text \<open>The constructor reads three durations; \<open>ms\<close> is the library that parses them (None: not a
  duration).\<close>
definition parseTtl :: "env \<Rightarrow> (string \<Rightarrow> rat option) \<Rightarrow> string \<Rightarrow> string \<Rightarrow> exn + rat" where
  "parseTtl E ms envKey defaultValue =
     (let ttlConfig = (case e_config E envKey of Some v \<Rightarrow> v | None \<Rightarrow> defaultValue)
      in case ms ttlConfig of
           Some v \<Rightarrow> if v \<le> 0 then Inl (PlainError (''Invalid '' @ envKey @ '' value: '' @ in_dq ttlConfig)) else Inr v
         | None \<Rightarrow> Inl (PlainError (''Invalid '' @ envKey @ '' value: '' @ in_dq ttlConfig)))"

definition token_ttls :: "env \<Rightarrow> (string \<Rightarrow> rat option) \<Rightarrow> exn + rat \<times> rat \<times> rat" where
  "token_ttls E ms = (case parseTtl E ms ''JWT_REFRESH_EXPIRES_IN'' ''7d'' of Inl e \<Rightarrow> Inl e | Inr a \<Rightarrow>
     (case parseTtl E ms ''EMAIL_VERIFICATION_EXPIRES_IN'' ''24h'' of Inl e \<Rightarrow> Inl e | Inr b \<Rightarrow>
     (case parseTtl E ms ''PASSWORD_RESET_EXPIRES_IN'' ''1h'' of Inl e \<Rightarrow> Inl e | Inr c \<Rightarrow> Inr (a, b, c))))"

section \<open>Access tokens\<close>

definition jwt_payload_of :: "user \<Rightarrow> jwt_payload" where
  "jwt_payload_of u = \<lparr>jp_email = u_email u, jp_roles = u_roles u, jp_scopes = u_scopes u, jp_sub = u_id u\<rparr>"

definition generateAccessToken :: "auth_env \<Rightarrow> user \<Rightarrow> string act" where
  "generateAccessToken A u w = (Inr (az_sign A (jwt_payload_of u) (w_now w)), w)"

section \<open>Refresh tokens\<close>

definition user_row :: "db \<Rightarrow> uuid \<Rightarrow> bool" where
  "user_row d k = (\<exists>u \<in> set (users d). u_id u = k)"

definition no_such_user :: exn where
  "no_such_user = QueryFailed ''23503'' ''insert or update violates foreign key constraint''"

definition createRefreshToken :: "auth_env \<Rightarrow> env \<Rightarrow> uuid \<Rightarrow> string act" where
  "createRefreshToken A E userId w =
     (let expiresAt = js_now w + az_refresh_ttl_ms A * 1000;
          (rawSecret, tokenHash) = createOpaqueToken A REFRESH_TOKEN_SECRET_BYTES (w_next w);
          i = e_uuid E (w_next w);
          row = \<lparr>rt_id = i, rt_userId = userId, rt_tokenHash = tokenHash, rt_expiresAt = expiresAt, rt_revokedAt = None,
                 rt_createdAt = w_now w\<rparr>
      in if \<not> user_row (w_db w) userId then (Inl no_such_user, w)
         else (Inr (opaque i rawSecret),
               db_update (\<lambda>d. d\<lparr>refresh_tokens := refresh_tokens d @ [row]\<rparr>) (w\<lparr>w_next := w_next w + 1\<rparr>)))"

definition revoke :: "micros \<Rightarrow> refresh_token \<Rightarrow> refresh_token" where
  "revoke now t = t\<lparr>rt_revokedAt := Some now\<rparr>"

definition revokeAllUserTokens :: "uuid \<Rightarrow> unit act" where
  "revokeAllUserTokens userId = modify_s (\<lambda>w. db_update (\<lambda>d. d\<lparr>refresh_tokens :=
     update_rows (\<lambda>t. rt_userId t = userId \<and> rt_revokedAt t = None) (revoke (js_now w)) (refresh_tokens d)\<rparr>) w)"

definition revokeRefreshToken :: "uuid \<Rightarrow> unit act" where
  "revokeRefreshToken tokenId = modify_s (\<lambda>w. db_update (\<lambda>d. d\<lparr>refresh_tokens :=
     update_rows (\<lambda>t. rt_id t = tokenId) (revoke (js_now w)) (refresh_tokens d)\<rparr>) w)"

definition issueRefreshToken :: "auth_env \<Rightarrow> env \<Rightarrow> uuid \<Rightarrow> string act" where
  "issueRefreshToken A E userId = bind_s (revokeAllUserTokens userId) (\<lambda>_. createRefreshToken A E userId)"

definition look_refresh :: "db \<Rightarrow> uuid \<Rightarrow> refresh_token option" where
  "look_refresh d k = find_row rt_id k (refresh_tokens d)"

text \<open>The stored row and its user; a soft-deleted user is not joined.\<close>
definition validateRefreshToken :: "auth_env \<Rightarrow> string \<Rightarrow> world \<Rightarrow> exn + refresh_token \<times> user option" where
  "validateRefreshToken A cookieValue w = (case parseOpaqueToken A cookieValue of
     None \<Rightarrow> Inl (http_exn Unauthorized ''Invalid refresh token'')
   | Some p \<Rightarrow> (case look_refresh (w_db w) (map char_lower (pt_tokenId p)) of
        None \<Rightarrow> Inl (http_exn Unauthorized ''Invalid refresh token'')
      | Some t \<Rightarrow> if \<not> rt_isActive (js_now w) t then Inl (http_exn Unauthorized ''Refresh token expired or revoked'')
          else (case verifyOpaqueToken A (pt_rawSecret p) (rt_tokenHash t) of
              Inl e \<Rightarrow> Inl e
            | Inr False \<Rightarrow> Inl (http_exn Unauthorized ''Invalid refresh token'')
            | Inr True \<Rightarrow> Inr (t, findById_user (rt_userId t) (w_db w)))))"

text \<open>The conditional update of the old row, then the new pair: both promises start, so without a
  user the new row is written all the same before the error comes back.\<close>
definition rotateRefreshToken :: "auth_env \<Rightarrow> env \<Rightarrow> string \<Rightarrow> (string \<times> string) act" where
  "rotateRefreshToken A E cookieValue =
     bind_s (read_s (validateRefreshToken A cookieValue)) (\<lambda>(t, usr).
     bind_s (modify_s (e_others E)) (\<lambda>_.
     bind_s (gets_s (\<lambda>w. \<exists>x \<in> set (refresh_tokens (w_db w)). rt_id x = rt_id t \<and> rt_revokedAt x = None)) (\<lambda>affected.
     if \<not> affected then throw_s (http_exn Unauthorized ''Refresh token already used or revoked'')
     else
       bind_s (modify_s (\<lambda>w. db_update (\<lambda>d. d\<lparr>refresh_tokens :=
          update_rows (\<lambda>x. rt_id x = rt_id t \<and> rt_revokedAt x = None) (revoke (js_now w)) (refresh_tokens d)\<rparr>) w)) (\<lambda>_.
       case usr of
         None \<Rightarrow> bind_s (catch_s (createRefreshToken A E (rt_userId t)) (\<lambda>_. return_s []))
                   (\<lambda>_. throw_s (null_read ''email''))
       | Some u \<Rightarrow> bind_s (generateAccessToken A u) (\<lambda>accessToken.
                   bind_s (createRefreshToken A E (rt_userId t)) (\<lambda>cookie. return_s (accessToken, cookie)))))))"

section \<open>One-time tokens\<close>

text \<open>The two tables of one-time tokens have the same operations; \<open>get\<close> and \<open>put\<close> choose one.\<close>
record token_table =
  tt_get :: "db \<Rightarrow> one_time_token list"
  tt_put :: "one_time_token list \<Rightarrow> db \<Rightarrow> db"

definition reset_table :: token_table where
  "reset_table = \<lparr>tt_get = reset_tokens, tt_put = (\<lambda>ts d. d\<lparr>reset_tokens := ts\<rparr>)\<rparr>"

definition verification_table :: token_table where
  "verification_table = \<lparr>tt_get = verification_tokens, tt_put = (\<lambda>ts d. d\<lparr>verification_tokens := ts\<rparr>)\<rparr>"

definition issue_one_time :: "token_table \<Rightarrow> auth_env \<Rightarrow> env \<Rightarrow> int \<Rightarrow> uuid \<Rightarrow> string act" where
  "issue_one_time T A E ttl_ms userId w =
     (let expiresAt = js_now w + ttl_ms * 1000;
          (rawSecret, tokenHash) = createOpaqueToken A ONE_TIME_TOKEN_SECRET_BYTES (w_next w);
          i = e_uuid E (w_next w);
          row = \<lparr>ot_id = i, ot_userId = userId, ot_tokenHash = tokenHash, ot_expiresAt = expiresAt, ot_usedAt = None,
                 ot_createdAt = w_now w\<rparr>
      in if \<not> user_row (w_db w) userId then (Inl no_such_user, w)
         else (Inr (opaque i rawSecret),
               db_update (\<lambda>d. tt_put T (tt_get T d @ [row]) d) (w\<lparr>w_next := w_next w + 1\<rparr>)))"

definition validate_one_time :: "token_table \<Rightarrow> auth_env \<Rightarrow> string \<Rightarrow> world \<Rightarrow> exn + one_time_token" where
  "validate_one_time T A rawToken w = (case parseOpaqueToken A rawToken of
     None \<Rightarrow> Inl (http_exn BadRequest ''Invalid token'')
   | Some p \<Rightarrow> (case find_row ot_id (map char_lower (pt_tokenId p)) (tt_get T (w_db w)) of
        None \<Rightarrow> Inl (http_exn BadRequest ''Invalid or expired token'')
      | Some t \<Rightarrow> if \<not> ot_isUsable (js_now w) t then Inl (http_exn BadRequest ''Invalid or expired token'')
          else (case verifyOpaqueToken A (pt_rawSecret p) (ot_tokenHash t) of
              Inl e \<Rightarrow> Inl e
            | Inr False \<Rightarrow> Inl (http_exn BadRequest ''Invalid or expired token'')
            | Inr True \<Rightarrow> Inr t)))"

definition mark_used :: "micros \<Rightarrow> one_time_token \<Rightarrow> one_time_token" where
  "mark_used now t = t\<lparr>ot_usedAt := Some now\<rparr>"

text \<open>\<open>still\<close>: the condition the update adds (the verification token must not have expired).\<close>
definition consume_one_time ::
  "token_table \<Rightarrow> (micros \<Rightarrow> one_time_token \<Rightarrow> bool) \<Rightarrow> auth_env \<Rightarrow> env \<Rightarrow> string \<Rightarrow> uuid act" where
  "consume_one_time T still A E rawToken =
     bind_s (read_s (validate_one_time T A rawToken)) (\<lambda>t.
     bind_s (modify_s (e_others E)) (\<lambda>_.
     bind_s (gets_s (\<lambda>w. \<exists>x \<in> set (tt_get T (w_db w)). ot_id x = ot_id t \<and> ot_usedAt x = None \<and> still (w_now w) x)) (\<lambda>affected.
     if \<not> affected then throw_s (http_exn BadRequest ''Token has already been used'')
     else
       bind_s (modify_s (\<lambda>w. db_update (\<lambda>d. tt_put T
          (update_rows (\<lambda>x. ot_id x = ot_id t \<and> ot_usedAt x = None \<and> still (w_now w) x) (mark_used (js_now w)) (tt_get T d)) d) w))
         (\<lambda>_. return_s (ot_userId t)))))"

definition issuePasswordResetToken :: "auth_env \<Rightarrow> env \<Rightarrow> uuid \<Rightarrow> string act" where
  "issuePasswordResetToken A E userId = issue_one_time reset_table A E (az_reset_ttl_ms A) userId"

definition issueVerificationToken :: "auth_env \<Rightarrow> env \<Rightarrow> uuid \<Rightarrow> string act" where
  "issueVerificationToken A E userId = issue_one_time verification_table A E (az_verification_ttl_ms A) userId"

definition validatePasswordResetToken :: "auth_env \<Rightarrow> string \<Rightarrow> world \<Rightarrow> exn + one_time_token" where
  "validatePasswordResetToken A raw w = validate_one_time reset_table A raw w"

definition validateVerificationToken :: "auth_env \<Rightarrow> string \<Rightarrow> world \<Rightarrow> exn + one_time_token" where
  "validateVerificationToken A raw w = validate_one_time verification_table A raw w"

definition consumePasswordResetToken :: "auth_env \<Rightarrow> env \<Rightarrow> string \<Rightarrow> uuid act" where
  "consumePasswordResetToken A E raw = consume_one_time reset_table (\<lambda>_ _. True) A E raw"

definition consumeVerificationToken :: "auth_env \<Rightarrow> env \<Rightarrow> string \<Rightarrow> uuid act" where
  "consumeVerificationToken A E raw = consume_one_time verification_table (\<lambda>now x. ot_expiresAt x > now) A E raw"

end
