(* ===== verification/Mail.thy ===== *)
theory Mail
  imports Token_Service
begin

text \<open>
  \<^verbatim>\<open>mail/mail.service.ts\<close> and \<^verbatim>\<open>orders/order-email.listener.ts\<close>: the mails of the shop. Without a
  region (development) a mail is only logged; the mail service of the cloud may refuse one
  (\<open>az_mail\<close>).
\<close>

definition nl :: string where "nl = [CHR 0x0A, CHR 0x0A]"

text \<open>\<^verbatim>\<open>encodeURIComponent\<close> on bytes.\<close>
definition hex_upper :: "nat \<Rightarrow> char" where
  "hex_upper n = char_of (if n < 10 then 48 + n else 55 + n)"

definition uri_unreserved :: "char \<Rightarrow> bool" where
  "uri_unreserved c = (let n = of_char c :: nat in
     48 \<le> n \<and> n \<le> 57 \<or> 65 \<le> n \<and> n \<le> 90 \<or> 97 \<le> n \<and> n \<le> 122 \<or> n \<in> {33, 39, 40, 41, 42, 45, 46, 95, 126})"

definition encodeURIComponent :: "string \<Rightarrow> string" where
  "encodeURIComponent s = concat (map (\<lambda>c. if uri_unreserved c then [c]
     else (let n = of_char c :: nat in [CHR ''%'', hex_upper (n div 16), hex_upper (n mod 16)])) s)"

definition send_mail :: "auth_env \<Rightarrow> env \<Rightarrow> mail \<Rightarrow> unit act" where
  "send_mail A E m w = (case truthy (e_config E ''AWS_SES_REGION'') of
     None \<Rightarrow> (Inr (), w)
   | Some _ \<Rightarrow> (case az_mail A m w of Some e \<Rightarrow> (Inl e, w) | None \<Rightarrow> (Inr (), w\<lparr>w_mails := w_mails w @ [m]\<rparr>)))"

definition sendOrderCancellationEmail :: "auth_env \<Rightarrow> env \<Rightarrow> string \<Rightarrow> uuid \<Rightarrow> unit act" where
  "sendOrderCancellationEmail A E email orderId = send_mail A E
     \<lparr>m_to = email, m_subject = ''Order #'' @ orderId @ '' has been cancelled'',
      m_text = ''Your order #'' @ orderId @ '' has been cancelled.'' @ nl @
        ''If you did not request this cancellation, please contact support.''\<rparr>"

definition sendOrderConfirmationEmail :: "auth_env \<Rightarrow> env \<Rightarrow> string \<Rightarrow> uuid \<Rightarrow> unit act" where
  "sendOrderConfirmationEmail A E email orderId = send_mail A E
     \<lparr>m_to = email, m_subject = ''Order #'' @ orderId @ '' confirmed'',
      m_text = ''Thank you for your order! Your order #'' @ orderId @ '' has been successfully placed and is being processed.'' @ nl @
        ''You will receive a payment confirmation once your order has been processed.''\<rparr>"

definition sendOrderPaidEmail :: "auth_env \<Rightarrow> env \<Rightarrow> string \<Rightarrow> uuid \<Rightarrow> unit act" where
  "sendOrderPaidEmail A E email orderId = send_mail A E
     \<lparr>m_to = email, m_subject = ''Payment confirmed for order #'' @ orderId,
      m_text = ''Great news! Payment has been confirmed for your order #'' @ orderId @ ''.'' @ nl @
        ''Your order is now being prepared for shipment.''\<rparr>"

definition sendPasswordResetEmail :: "auth_env \<Rightarrow> env \<Rightarrow> string \<Rightarrow> string \<Rightarrow> unit act" where
  "sendPasswordResetEmail A E email token = send_mail A E
     \<lparr>m_to = email, m_subject = ''Reset your password'',
      m_text = ''You requested a password reset. Click the link below to reset your password:'' @ nl @
        az_app_url A @ ''/reset-password?token='' @ encodeURIComponent token @ nl @
        ''This link expires in 1 hour. If you did not request this, please ignore this email.''\<rparr>"

definition sendVerificationEmail :: "auth_env \<Rightarrow> env \<Rightarrow> string \<Rightarrow> string \<Rightarrow> unit act" where
  "sendVerificationEmail A E email token = send_mail A E
     \<lparr>m_to = email, m_subject = ''Verify your email address'',
      m_text = ''Please verify your email address by clicking the link below:'' @ nl @
        az_app_url A @ ''/verify-email?token='' @ encodeURIComponent token @ nl @ ''This link expires in 24 hours.''\<rparr>"

section \<open>The listener\<close>

text \<open>A failed mail is logged, never thrown.\<close>
definition handle_order_event :: "auth_env \<Rightarrow> env \<Rightarrow> order_event \<Rightarrow> unit act" where
  "handle_order_event A E ev = catch_s (case ev of
       OrderCancelledEvent i email \<Rightarrow> sendOrderCancellationEmail A E email i
     | OrderCreatedEvent i email \<Rightarrow> sendOrderConfirmationEmail A E email i
     | OrderPaidEvent i email \<Rightarrow> sendOrderPaidEmail A E email i) (\<lambda>_. return_s ())"

section \<open>Facts\<close>

lemma send_mail_frame:
  assumes "send_mail A E m w = (r, w')"
  shows "w_db w' = w_db w" "w_now w' = w_now w" "w_next w' = w_next w" "w_mails w' = w_mails w \<or> w_mails w' = w_mails w @ [m]"
    "w_events w' = w_events w" "w_published w' = w_published w"
  using assms by (auto simp: send_mail_def split: option.splits)

lemma handle_order_event_total: "\<exists>w'. handle_order_event A E ev w = (Inr (), w') \<and> w_db w' = w_db w"
proof -
  have "\<exists>r w'. m w = (r, w') \<and> w_db w' = w_db w \<Longrightarrow> \<exists>w'. catch_s m (\<lambda>_. return_s ()) w = (Inr (), w') \<and> w_db w' = w_db w"
    for m :: "unit act" by (auto simp: catch_s_def split: sum.split)
  moreover have "\<exists>r w'. send_mail A E m w = (r, w') \<and> w_db w' = w_db w" for m
    using send_mail_frame(1) by (metis surj_pair)
  ultimately show ?thesis
    unfolding handle_order_event_def sendOrderCancellationEmail_def sendOrderConfirmationEmail_def sendOrderPaidEmail_def
    by (cases ev) (simp_all only: order_event.case)
qed

end
