(* ===== verification/Auth_Service.thy ===== *)
theory Auth_Service
  imports Mail
begin

text \<open>
  \<^verbatim>\<open>auth/auth.service.ts\<close>: signing up and in, refreshing and ending a session, verifying an
  address and resetting a password. bcrypt is a parameter; the salt of a hash is the next random
  number.
\<close>

definition hash_password :: "auth_env \<Rightarrow> string \<Rightarrow> world \<Rightarrow> string" where
  "hash_password A password w = az_bcrypt_hash A password (w_next w)"

definition findByEmail :: "string \<Rightarrow> db \<Rightarrow> user option" where
  "findByEmail email d = find (\<lambda>u. u_email u = email \<and> live_user u) (users d)"

definition user_event ::
  "audit_action \<Rightarrow> uuid option \<Rightarrow> audit_context option \<Rightarrow> audit_outcome \<Rightarrow> string option \<Rightarrow> uuid option \<Rightarrow> create_audit_event" where
  "user_event a actor ctx oc reason target =
     (audit_event a actor ctx oc target (Some ''User''))\<lparr>ae_reason := reason\<rparr>"

section \<open>Permissions of a new user\<close>

definition new_user_roles :: "string list" where "new_user_roles = [''user'']"

definition new_user_scopes :: "string list" where
  "new_user_scopes = [''orders:read'', ''orders:write'', ''files:write'', ''products:read'']"

section \<open>Verification mails\<close>

definition issueAndSendVerificationToken :: "auth_env \<Rightarrow> env \<Rightarrow> bool \<Rightarrow> user \<Rightarrow> unit act" where
  "issueAndSendVerificationToken A E failOnDeliveryError u =
     bind_s (issueVerificationToken A E (u_id u)) (\<lambda>rawToken.
     catch_s (sendVerificationEmail A E (u_email u) rawToken)
       (\<lambda>e. if failOnDeliveryError then throw_s e else return_s ()))"

section \<open>Signing up and in\<close>

record signup_dto =
  su_email :: string
  su_password :: string
  su_confirmedPassword :: string

definition new_user :: "uuid \<Rightarrow> micros \<Rightarrow> string \<Rightarrow> string \<Rightarrow> user" where
  "new_user i now email hash =
     \<lparr>u_id = i, u_email = email, u_password = Some hash, u_isEmailVerified = False, u_firstName = None, u_lastName = None,
      u_phone = None, u_city = None, u_country = None, u_postcode = None, u_avatarId = None,
      u_roles = new_user_roles, u_scopes = new_user_scopes, u_createdAt = now, u_updatedAt = now, u_deletedAt = None\<rparr>"

text \<open>The unique index on the address counts soft-deleted rows too.\<close>
definition insertUser :: "env \<Rightarrow> string \<Rightarrow> string \<Rightarrow> user act" where
  "insertUser E email hash w =
     (let u = new_user (e_uuid E (w_next w)) (w_now w) email hash in
      if \<exists>x \<in> set (users (w_db w)). u_email x = email then (Inl (unique_violation ''IDX_users_email_unique''), w)
      else (Inr u, db_update (\<lambda>d. d\<lparr>users := users d @ [u]\<rparr>) (w\<lparr>w_next := w_next w + 1\<rparr>)))"

definition signup :: "auth_env \<Rightarrow> env \<Rightarrow> signup_dto \<Rightarrow> audit_context option \<Rightarrow> (string \<times> uuid) act" where
  "signup A E dto ctx =
     (if su_password dto \<noteq> su_confirmedPassword dto then throw_s (http_exn BadRequest ''Passwords do not match'')
      else bind_s (gets_s (\<lambda>w. findByEmail (su_email dto) (w_db w))) (\<lambda>existing.
        case existing of
          Some _ \<Rightarrow> throw_s (BaseExn (UserEmailExistsError (su_email dto)))
        | None \<Rightarrow>
            bind_s (gets_s (hash_password A (su_password dto))) (\<lambda>hash.
            bind_s (insertUser E (su_email dto) hash) (\<lambda>u.
            bind_s (modify_s (audit E (user_event AUTH_SIGNUP (Some (u_id u)) ctx AUDIT_SUCCESS None (Some (u_id u))))) (\<lambda>_.
            bind_s (issueAndSendVerificationToken A E False u) (\<lambda>_.
            return_s (u_email u, u_id u)))))))"

record auth_result =
  ar_accessToken :: string
  ar_cookieValue :: string
  ar_user :: jwt_payload

text \<open>Both promises start together; each is one step here.\<close>
definition buildAuthResult :: "auth_env \<Rightarrow> env \<Rightarrow> user \<Rightarrow> auth_result act" where
  "buildAuthResult A E u =
     bind_s (generateAccessToken A u) (\<lambda>accessToken.
     bind_s (issueRefreshToken A E (u_id u)) (\<lambda>cookieValue.
     return_s \<lparr>ar_accessToken = accessToken, ar_cookieValue = cookieValue, ar_user = jwt_payload_of u\<rparr>))"

definition signin :: "auth_env \<Rightarrow> env \<Rightarrow> string \<Rightarrow> string \<Rightarrow> audit_context option \<Rightarrow> auth_result act" where
  "signin A E email password ctx =
     bind_s (gets_s (\<lambda>w. findByEmail email (w_db w))) (\<lambda>usr.
     case Option.bind usr (\<lambda>u. map_option (Pair u) (truthy (u_password u))) of
       None \<Rightarrow>
         bind_s (modify_s (audit E (user_event AUTH_SIGNIN_FAILURE None ctx AUDIT_FAILURE (Some ''User not found'') None)))
           (\<lambda>_. throw_s (http_exn Unauthorized ''Invalid credentials''))
     | Some (u, hash) \<Rightarrow>
         if \<not> az_bcrypt_compare A password hash
         then bind_s (modify_s (audit E (user_event AUTH_SIGNIN_FAILURE (Some (u_id u)) ctx AUDIT_FAILURE (Some ''Invalid password'') (Some (u_id u)))))
                (\<lambda>_. throw_s (http_exn Unauthorized ''Invalid credentials''))
         else buildAuthResult A E u)"

section \<open>Sessions\<close>

definition refresh :: "auth_env \<Rightarrow> env \<Rightarrow> string option \<Rightarrow> (string \<times> string) act" where
  "refresh A E cookieValue = (case truthy cookieValue of
     None \<Rightarrow> throw_s (http_exn Unauthorized ''Missing refresh token'')
   | Some c \<Rightarrow> rotateRefreshToken A E c)"

text \<open>The secret is not looked at.\<close>
definition logout :: "auth_env \<Rightarrow> env \<Rightarrow> string \<Rightarrow> uuid option \<Rightarrow> audit_context option \<Rightarrow> unit act" where
  "logout A E cookieValue actorId ctx = (case parseOpaqueToken A cookieValue of
     None \<Rightarrow> return_s ()
   | Some p \<Rightarrow> bind_s (revokeRefreshToken (map char_lower (pt_tokenId p))) (\<lambda>_.
        modify_s (audit E (user_event AUTH_LOGOUT actorId ctx AUDIT_SUCCESS None None))))"

section \<open>Verifying an address\<close>

definition update_user :: "uuid \<Rightarrow> (user \<Rightarrow> user) \<Rightarrow> unit act" where
  "update_user k f = modify_s (\<lambda>w. db_update (\<lambda>d. d\<lparr>users :=
     update_rows (\<lambda>u. u_id u = k) (\<lambda>u. (f u)\<lparr>u_updatedAt := w_now w\<rparr>) (users d)\<rparr>) w)"

definition resendVerification :: "auth_env \<Rightarrow> env \<Rightarrow> uuid \<Rightarrow> unit act" where
  "resendVerification A E userId =
     bind_s (gets_s (\<lambda>w. findById_user userId (w_db w))) (\<lambda>usr.
     case usr of
       None \<Rightarrow> throw_s (http_exn NotFound ''User not found'')
     | Some u \<Rightarrow> if u_isEmailVerified u then throw_s (http_exn Conflict ''Email is already verified'')
         else issueAndSendVerificationToken A E True u)"

definition verifyEmail :: "auth_env \<Rightarrow> env \<Rightarrow> string \<Rightarrow> unit act" where
  "verifyEmail A E token =
     bind_s (consumeVerificationToken A E token) (\<lambda>userId.
     update_user userId (\<lambda>u. u\<lparr>u_isEmailVerified := True\<rparr>))"

section \<open>Resetting a password\<close>

definition forgotPassword :: "auth_env \<Rightarrow> env \<Rightarrow> string \<Rightarrow> audit_context option \<Rightarrow> string act" where
  "forgotPassword A E email ctx =
     (let safe = ''If this email exists, a reset link has been sent'' in
     bind_s (gets_s (\<lambda>w. findByEmail email (w_db w))) (\<lambda>usr.
     case usr of
       None \<Rightarrow> return_s safe
     | Some u \<Rightarrow>
         bind_s (issuePasswordResetToken A E (u_id u)) (\<lambda>rawToken.
         bind_s (catch_s (bind_s (sendPasswordResetEmail A E (u_email u) rawToken) (\<lambda>_. return_s True)) (\<lambda>_. return_s False)) (\<lambda>sent.
         if \<not> sent then return_s safe
         else bind_s (modify_s (audit E (user_event AUTH_PASSWORD_RESET_REQUEST (Some (u_id u)) ctx AUDIT_SUCCESS None (Some (u_id u)))))
                (\<lambda>_. return_s safe)))))"

record reset_password_dto =
  rp_token :: string
  rp_newPassword :: string
  rp_confirmedPassword :: string

definition resetPassword :: "auth_env \<Rightarrow> env \<Rightarrow> reset_password_dto \<Rightarrow> audit_context option \<Rightarrow> unit act" where
  "resetPassword A E dto ctx =
     (if rp_newPassword dto \<noteq> rp_confirmedPassword dto then throw_s (http_exn BadRequest ''Passwords do not match'')
      else bind_s (consumePasswordResetToken A E (rp_token dto)) (\<lambda>userId.
        bind_s (gets_s (hash_password A (rp_newPassword dto))) (\<lambda>hash.
        bind_s (update_user userId (\<lambda>u. u\<lparr>u_password := Some hash\<rparr>)) (\<lambda>_.
        bind_s (revokeAllUserTokens userId) (\<lambda>_.
        modify_s (audit E (user_event AUTH_PASSWORD_RESET_COMPLETE (Some userId) ctx AUDIT_SUCCESS None (Some userId))))))))"

end
