(* ===== verification/Token_Theorems.thy ===== *)
theory Token_Theorems
  imports Auth_Service Orders_Command_Theorems
begin

text \<open>
  The properties of the tokens: what is issued can be used, once, and of two requests that race
  with the same token one is refused.
\<close>

section \<open>The tables of one-time tokens\<close>

text \<open>What a table promises the operations: what is put is what is got.\<close>
locale one_time_store =
  fixes get :: "db \<Rightarrow> one_time_token list" and put :: "one_time_token list \<Rightarrow> db \<Rightarrow> db"
    and still :: "micros \<Rightarrow> one_time_token \<Rightarrow> bool"
  assumes get_put: "get (put ts d) = ts"
    and users_put: "users (put ts d) = users d"
begin

abbreviation T :: token_table where "T \<equiv> \<lparr>tt_get = get, tt_put = put\<rparr>"

text \<open>A successful use leaves no unused row with the id.\<close>
lemma consume_Inr:
  assumes run: "consume_one_time T still A E raw w = (Inr u, w1)"
  shows "\<exists>t. validate_one_time T A raw w = Inr t \<and> u = ot_userId t \<and>
     get (w_db w1) = update_rows (\<lambda>x. ot_id x = ot_id t \<and> ot_usedAt x = None \<and> still (w_now (e_others E w)) x)
        (mark_used (js_now (e_others E w))) (get (w_db (e_others E w))) \<and> w_now w1 = w_now (e_others E w)"
  using run by (auto simp: consume_one_time_def bind_read_s get_put js_now_def split: sum.splits if_splits)

lemma race_refused:
  assumes valid: "validate_one_time T A raw w = Inr t"
    and used: "\<forall>x \<in> set (get (w_db (e_others E w))). ot_id x = ot_id t \<longrightarrow> ot_usedAt x \<noteq> None"
  shows "consume_one_time T still A E raw w = (Inl (http_exn BadRequest ''Token has already been used''), e_others E w)"
proof -
  have no: "(\<exists>x \<in> set (get (w_db (e_others E w))). ot_id x = ot_id t \<and> ot_usedAt x = None \<and> still (w_now (e_others E w)) x) = False"
    using used by auto
  show ?thesis using valid no by (simp add: consume_one_time_def bind_read_s)
qed

lemma all_used_after:
  assumes "consume_one_time T still A E raw w = (Inr u, w1)" and "e_others E = (\<lambda>s. s)"
    and "validate_one_time T A raw w = Inr t" and "\<And>x. x \<in> set (get (w_db w)) \<Longrightarrow> ot_id x = ot_id t \<Longrightarrow> x = t"
    and "still (w_now w) t"
  shows "\<forall>x \<in> set (get (w_db w1)). ot_id x = ot_id t \<longrightarrow> ot_usedAt x \<noteq> None"
  using consume_Inr [OF assms(1)] assms(2-5) by (auto simp: update_rows_def mark_used_def split: if_splits)

lemma validate_Inr:
  assumes "validate_one_time T A raw w = Inr t"
  shows "t \<in> set (get (w_db w)) \<and> ot_isUsable (js_now w) t \<and>
     (\<exists>p. parseOpaqueToken A raw = Some p \<and> ot_id t = map char_lower (pt_tokenId p) \<and>
        verifyOpaqueToken A (pt_rawSecret p) (ot_tokenHash t) = Inr True)"
  using assms find_row_SomeD
  by (fastforce simp: validate_one_time_def split: option.splits if_splits sum.splits bool.splits)

text \<open>Issue, then use before it expires.\<close>
lemma issue_then_consume:
  assumes laws: "auth_laws A" and idw: "az_isUUID A (e_uuid E (w_next w))" "map char_lower (e_uuid E (w_next w)) = e_uuid E (w_next w)"
    and fresh: "e_uuid E (w_next w) \<notin> ot_id ` set (get (w_db w))"
    and run: "issue_one_time T A E ttl usr w = (Inr raw, w1)"
    and later: "get (w_db w2) = get (w_db w1)" "js_now w2 < js_now w + ttl * 1000" "still (w_now w2) (last (get (w_db w1)))"
    and others: "e_others E2 = (\<lambda>s. s)"
  shows "\<exists>w3. consume_one_time T still A E2 raw w2 = (Inr usr, w3) \<and>
     (\<forall>x \<in> set (get (w_db w3)). ot_id x = e_uuid E (w_next w) \<longrightarrow> ot_usedAt x \<noteq> None)"
proof -
  let ?i = "e_uuid E (w_next w)" and ?s = "az_secret A ONE_TIME_TOKEN_SECRET_BYTES (w_next w)"
  let ?h = "az_hmac A (az_hmac_key A) ?s"
  let ?row = "\<lparr>ot_id = ?i, ot_userId = usr, ot_tokenHash = ?h, ot_expiresAt = js_now w + ttl * 1000, ot_usedAt = None, ot_createdAt = w_now w\<rparr>"
  have raw: "raw = opaque ?i ?s" and rows: "get (w_db w1) = get (w_db w) @ [?row]"
    using run by (auto simp: issue_one_time_def createOpaqueToken_def Let_def get_put split: if_splits)
  have parse: "parseOpaqueToken A raw = Some \<lparr>pt_rawSecret = ?s, pt_tokenId = ?i\<rparr>"
    unfolding raw using laws idw(1) by (intro parse_opaque) (simp_all add: auth_laws_def ONE_TIME_TOKEN_SECRET_BYTES_def)
  have look: "find_row ot_id ?i (get (w_db w2)) = Some ?row"
    using fresh by (simp add: later(1) rows find_row_append find_row_None [THEN iffD2])
  have ok: "ot_isUsable (js_now w2) ?row" using later(2) by (simp add: ot_isUsable_def)
  have ver: "verifyOpaqueToken A ?s ?h = Inr True" using laws by (intro verify_created) (simp add: auth_laws_def)
  have valid: "validate_one_time T A raw w2 = Inr ?row"
    using parse look ok ver by (simp add: validate_one_time_def idw(2))
  have st: "still (w_now w2) ?row" using later(3) by (simp add: rows)
  have row2: "?row \<in> set (get (w_db w2))" by (simp add: later(1) rows)
  have hit: "(\<exists>x \<in> set (get (w_db w2)). ot_id x = ?i \<and> ot_usedAt x = None \<and> still (w_now w2) x) = True"
    using row2 st by (auto intro!: bexI [of _ ?row])
  obtain w3 where c: "consume_one_time T still A E2 raw w2 = (Inr usr, w3)"
    using valid hit others by (auto simp: consume_one_time_def bind_read_s)
  have "\<And>x. x \<in> set (get (w_db w2)) \<Longrightarrow> ot_id x = ot_id ?row \<Longrightarrow> x = ?row"
    using fresh by (auto simp: later(1) rows) (metis imageI)
  from all_used_after [OF c others valid this st] show ?thesis using c by auto
qed

end

interpretation reset_store: one_time_store reset_tokens "\<lambda>ts d. d\<lparr>reset_tokens := ts\<rparr>" "\<lambda>_ _. True"
  rewrites "\<lparr>tt_get = reset_tokens, tt_put = \<lambda>ts d. d\<lparr>reset_tokens := ts\<rparr>\<rparr> = reset_table"
  by unfold_locales (simp_all add: reset_table_def)

interpretation verification_store: one_time_store verification_tokens "\<lambda>ts d. d\<lparr>verification_tokens := ts\<rparr>"
    "\<lambda>now x. ot_expiresAt x > now"
  rewrites "\<lparr>tt_get = verification_tokens, tt_put = \<lambda>ts d. d\<lparr>verification_tokens := ts\<rparr>\<rparr> = verification_table"
  by unfold_locales (simp_all add: verification_table_def)

section \<open>One-time tokens\<close>

lemma validate_used:
  assumes parse: "parseOpaqueToken A raw = Some p"
    and used: "\<forall>x \<in> set (tt_get T (w_db w)). ot_id x = map char_lower (pt_tokenId p) \<longrightarrow> ot_usedAt x \<noteq> None"
  shows "validate_one_time T A raw w = Inl (http_exn BadRequest ''Invalid or expired token'')"
  using assms find_row_SomeD
  by (fastforce simp: validate_one_time_def ot_isUsable_def split: option.splits)

text \<open>A password-reset token works once: what was issued to a user is accepted as that user's
  at any time before it expires, and then never again.\<close>
theorem issued_reset_token_works_once:
  assumes "auth_laws A" and "az_isUUID A (e_uuid E (w_next w))" and "map char_lower (e_uuid E (w_next w)) = e_uuid E (w_next w)"
    and "e_uuid E (w_next w) \<notin> ot_id ` set (reset_tokens (w_db w))"
    and run: "issuePasswordResetToken A E usr w = (Inr raw, w1)"
    and "reset_tokens (w_db w2) = reset_tokens (w_db w1)" and "js_now w2 < js_now w + az_reset_ttl_ms A * 1000"
    and "e_others E2 = (\<lambda>s. s)"
  shows "\<exists>w3. consumePasswordResetToken A E2 raw w2 = (Inr usr, w3) \<and>
     (\<forall>E3. consumePasswordResetToken A E3 raw w3 = (Inl (http_exn BadRequest ''Invalid or expired token''), w3))"
proof -
  have run': "issue_one_time reset_table A E (az_reset_ttl_ms A) usr w = (Inr raw, w1)"
    using run by (simp add: issuePasswordResetToken_def)
  obtain w3 where w3: "consume_one_time reset_table (\<lambda>_ _. True) A E2 raw w2 = (Inr usr, w3)"
    "\<forall>x \<in> set (reset_tokens (w_db w3)). ot_id x = e_uuid E (w_next w) \<longrightarrow> ot_usedAt x \<noteq> None"
    using reset_store.issue_then_consume [OF assms(1-4) run' assms(6,7) TrueI assms(8)] by blast
  have raw: "raw = opaque (e_uuid E (w_next w)) (az_secret A ONE_TIME_TOKEN_SECRET_BYTES (w_next w))"
    using run' by (auto simp: issue_one_time_def createOpaqueToken_def Let_def split: if_splits)
  have parse: "parseOpaqueToken A raw = Some \<lparr>pt_rawSecret = az_secret A ONE_TIME_TOKEN_SECRET_BYTES (w_next w), pt_tokenId = e_uuid E (w_next w)\<rparr>"
    unfolding raw using assms(1,2) by (intro parse_opaque) (simp_all add: auth_laws_def ONE_TIME_TOKEN_SECRET_BYTES_def)
  have "validate_one_time reset_table A raw w3 = Inl (http_exn BadRequest ''Invalid or expired token'')"
    by (rule validate_used [OF parse]) (use w3(2) assms(3) in \<open>simp add: reset_table_def\<close>)
  then show ?thesis using w3(1) by (simp add: consumePasswordResetToken_def consume_one_time_def bind_read_s)
qed

text \<open>A set of libraries that keep their promises.\<close>
definition hex_pad :: "nat \<Rightarrow> nat \<Rightarrow> string" where
  "hex_pad k n = (let s = nat_str n in replicate (k - length s) (CHR ''0'') @ drop (length s - k) s)"

definition sample_auth :: auth_env where
  "sample_auth = \<lparr>az_isUUID = (\<lambda>s. length s = 36), az_hmac = (\<lambda>k s. hex_pad 64 (length (takeWhile (\<lambda>c. c = CHR ''0'') s))),
     az_secret = (\<lambda>b n. hex_pad (2 * b) n), az_bcrypt_hash = (\<lambda>pw n. CHR ''h'' # pw), az_bcrypt_compare = (\<lambda>pw h. h = CHR ''h'' # pw),
     az_sign = (\<lambda>p t. jp_sub p), az_mail = (\<lambda>m w. None), az_hmac_key = ''key'', az_refresh_ttl_ms = 604800000,
     az_verification_ttl_ms = 86400000, az_reset_ttl_ms = 3600000, az_from = ''noreply@rdshop.com'', az_app_url = ''https://shop''\<rparr>"

definition sample_token_env :: env where
  "sample_token_env = sample_env\<lparr>e_uuid := hex_pad 36\<rparr>"

lemma length_hex_pad: "length (hex_pad k n) = k"
  by (simp add: hex_pad_def Let_def)

lemma sample_auth_laws: "auth_laws sample_auth"
  by (simp add: auth_laws_def sample_auth_def length_hex_pad)

lemma issued_reset_token_works_once_witness:
  "\<exists>raw w1 w3. issuePasswordResetToken sample_auth sample_token_env ''u1'' sample_world = (Inr raw, w1) \<and>
     consumePasswordResetToken sample_auth sample_token_env raw w1 = (Inr ''u1'', w3)"
proof -
  have ok: "\<not> isl (fst (issuePasswordResetToken sample_auth sample_token_env ''u1'' sample_world))" by code_simp
  obtain raw w1 where run: "issuePasswordResetToken sample_auth sample_token_env ''u1'' sample_world = (Inr raw, w1)"
    by (rule not_isl_fstE [OF ok])
  have 1: "az_isUUID sample_auth (e_uuid sample_token_env (w_next sample_world))"
    by (simp add: sample_auth_def sample_token_env_def length_hex_pad)
  have 2: "map char_lower (e_uuid sample_token_env (w_next sample_world)) = e_uuid sample_token_env (w_next sample_world)" by code_simp
  have 3: "e_uuid sample_token_env (w_next sample_world) \<notin> ot_id ` set (reset_tokens (w_db sample_world))"
    by (simp add: sample_defs)
  have 4: "js_now w1 < js_now sample_world + az_reset_ttl_ms sample_auth * 1000"
    using run by (auto simp: issuePasswordResetToken_def issue_one_time_def Let_def js_now_def sample_auth_def split: if_splits prod.splits)
  have 5: "e_others sample_token_env = (\<lambda>s. s)" by (simp add: sample_token_env_def sample_defs)
  show ?thesis using issued_reset_token_works_once [OF sample_auth_laws 1 2 3 run refl 4 5] run by blast
qed

text \<open>Two requests that race with the same password-reset token: when the second is done in
  full between the first one's check and its update, the first is refused with 400 and changes
  nothing; so the password is reset once.\<close>
theorem racing_resets_one_wins:
  assumes keyed: "distinct (map ot_id (reset_tokens (w_db w)))"
    and second: "consumePasswordResetToken A E2 raw w = (Inr usr, w1)" "e_others E2 = (\<lambda>s. s)"
    and race: "e_others E = (\<lambda>s. snd (consumePasswordResetToken A E2 raw s))"
  shows "consumePasswordResetToken A E raw w = (Inl (http_exn BadRequest ''Token has already been used''), w1)"
proof -
  have run: "consume_one_time reset_table (\<lambda>_ _. True) A E2 raw w = (Inr usr, w1)"
    using second(1) by (simp add: consumePasswordResetToken_def)
  obtain t where t: "validate_one_time reset_table A raw w = Inr t" using reset_store.consume_Inr [OF run] by blast
  have mem: "t \<in> set (reset_tokens (w_db w))" using reset_store.validate_Inr [OF t] by blast
  have used: "\<forall>x \<in> set (reset_tokens (w_db w1)). ot_id x = ot_id t \<longrightarrow> ot_usedAt x \<noteq> None"
    by (rule reset_store.all_used_after [OF run second(2) t _ TrueI]) (use keyed mem in \<open>auto simp: distinct_map dest: inj_onD\<close>)
  have e: "e_others E w = w1" using race second(1) by simp
  show ?thesis unfolding consumePasswordResetToken_def
    using reset_store.race_refused [OF t, of E] used by (simp add: e)
qed

lemma racing_resets_one_wins_witness:
  "\<exists>w E E2 raw. fst (consumePasswordResetToken sample_auth E2 raw w) = Inr ''u1'' \<and>
     fst (consumePasswordResetToken sample_auth E raw w) = Inl (http_exn BadRequest ''Token has already been used'')"
proof -
  have ok: "\<not> isl (fst (issuePasswordResetToken sample_auth sample_token_env ''u1'' sample_world))" by code_simp
  obtain raw w1 where run: "issuePasswordResetToken sample_auth sample_token_env ''u1'' sample_world = (Inr raw, w1)"
    by (rule not_isl_fstE [OF ok])
  have sec: "fst (consumePasswordResetToken sample_auth sample_token_env
      (case fst (issuePasswordResetToken sample_auth sample_token_env ''u1'' sample_world) of Inr r \<Rightarrow> r | Inl _ \<Rightarrow> [])
      (snd (issuePasswordResetToken sample_auth sample_token_env ''u1'' sample_world))) = Inr ''u1''" by code_simp
  obtain w3 where second: "consumePasswordResetToken sample_auth sample_token_env raw w1 = (Inr ''u1'', w3)"
    using sec run by (cases "consumePasswordResetToken sample_auth sample_token_env raw w1") auto
  have keyed: "distinct (map ot_id (reset_tokens (w_db w1)))"
    using run by (auto simp: issuePasswordResetToken_def issue_one_time_def Let_def reset_table_def sample_defs split: if_splits prod.splits)
  let ?E = "sample_token_env\<lparr>e_others := (\<lambda>s. snd (consumePasswordResetToken sample_auth sample_token_env raw s))\<rparr>"
  have "consumePasswordResetToken sample_auth ?E raw w1 = (Inl (http_exn BadRequest ''Token has already been used''), w3)"
    by (rule racing_resets_one_wins [OF keyed second]) (simp_all add: sample_token_env_def sample_defs)
  then show ?thesis using second by (metis fst_conv)
qed

end
