(* ===== verification/Auth_Theorems.thy ===== *)
theory Auth_Theorems
  imports Token_Theorems
begin

text \<open>
  The properties of the sessions and accounts: refreshing, signing in, resetting a password,
  signing up, and asking for a reset.
\<close>

section \<open>Refresh tokens\<close>

lemma validateRefresh_Inr:
  assumes "validateRefreshToken A c w = Inr (t, usr)"
  shows "t \<in> set (refresh_tokens (w_db w)) \<and> rt_isActive (js_now w) t \<and> usr = findById_user (rt_userId t) (w_db w) \<and>
     (\<exists>p. parseOpaqueToken A c = Some p \<and> look_refresh (w_db w) (map char_lower (pt_tokenId p)) = Some t \<and>
        rt_id t = map char_lower (pt_tokenId p))"
  using assms find_row_SomeD
  by (fastforce simp: validateRefreshToken_def look_refresh_def split: option.splits if_splits sum.splits bool.splits)

text \<open>What a fresh identifier is to the token table.\<close>
definition fresh_token_id :: "auth_env \<Rightarrow> env \<Rightarrow> world \<Rightarrow> bool" where
  "fresh_token_id A E w \<longleftrightarrow> az_isUUID A (e_uuid E (w_next w)) \<and> map char_lower (e_uuid E (w_next w)) = e_uuid E (w_next w) \<and>
     e_uuid E (w_next w) \<notin> rt_id ` set (refresh_tokens (w_db w))"

lemma createRefreshToken_valid:
  assumes laws: "auth_laws A" and fresh: "fresh_token_id A E w" and ttl: "0 < az_refresh_ttl_ms A"
    and run: "createRefreshToken A E k w = (Inr c, w1)"
  shows "\<exists>t. refresh_tokens (w_db w1) = refresh_tokens (w_db w) @ [t] \<and> rt_userId t = k \<and> rt_revokedAt t = None \<and>
     rt_id t = e_uuid E (w_next w) \<and> users (w_db w1) = users (w_db w) \<and> w_now w1 = w_now w \<and>
     validateRefreshToken A c w1 = Inr (t, findById_user k (w_db w1))"
proof -
  let ?i = "e_uuid E (w_next w)" and ?s = "az_secret A REFRESH_TOKEN_SECRET_BYTES (w_next w)"
  let ?h = "az_hmac A (az_hmac_key A) ?s"
  let ?t = "\<lparr>rt_id = ?i, rt_userId = k, rt_tokenHash = ?h, rt_expiresAt = js_now w + az_refresh_ttl_ms A * 1000, rt_revokedAt = None,
     rt_createdAt = w_now w\<rparr>"
  have c: "c = opaque ?i ?s" and w1: "w1 = db_update (\<lambda>d. d\<lparr>refresh_tokens := refresh_tokens d @ [?t]\<rparr>) (w\<lparr>w_next := w_next w + 1\<rparr>)"
    using run by (auto simp: createRefreshToken_def createOpaqueToken_def Let_def split: if_splits)
  have parse: "parseOpaqueToken A c = Some \<lparr>pt_rawSecret = ?s, pt_tokenId = ?i\<rparr>"
    unfolding c using laws fresh by (intro parse_opaque) (simp_all add: auth_laws_def fresh_token_id_def REFRESH_TOKEN_SECRET_BYTES_def)
  have look: "look_refresh (w_db w1) ?i = Some ?t"
    using fresh by (simp add: w1 look_refresh_def find_row_append find_row_None [THEN iffD2] fresh_token_id_def)
  have "rt_isActive (js_now w1) ?t" using ttl by (simp add: rt_isActive_def w1 js_now_def)
  moreover have "verifyOpaqueToken A ?s ?h = Inr True" using laws by (intro verify_created) (simp add: auth_laws_def)
  ultimately have "validateRefreshToken A c w1 = Inr (?t, findById_user k (w_db w1))"
    using parse look fresh by (simp add: validateRefreshToken_def fresh_token_id_def)
  then show ?thesis by (intro exI [of _ ?t]) (simp add: w1)
qed

text \<open>A successful rotation, step by step.\<close>
lemma rotate_Inr:
  assumes run: "rotateRefreshToken A E c w = (Inr (acc, c2), w1)" and others: "e_others E = (\<lambda>s. s)"
  obtains t u where "validateRefreshToken A c w = Inr (t, Some u)" and "acc = az_sign A (jwt_payload_of u) (w_now w)"
    and "createRefreshToken A E (rt_userId t) (db_update (\<lambda>d. d\<lparr>refresh_tokens :=
          update_rows (\<lambda>x. rt_id x = rt_id t \<and> rt_revokedAt x = None) (revoke (js_now w)) (refresh_tokens d)\<rparr>) w) = (Inr c2, w1)"
  using run others
  by (auto simp: rotateRefreshToken_def bind_read_s bind_s_eq_Inr generateAccessToken_def split: sum.splits if_splits option.splits)

text \<open>C16: A refresh token is used once: a successful refresh answers an access token for the
  token's user and a new cookie that is valid for that user; the old cookie is refused from
  then on, and so is a concurrent refresh with it that had passed its check before.\<close>
theorem refresh_token_is_used_once:
  assumes laws: "auth_laws A" and fresh: "fresh_token_id A E2 w" and ttl: "0 < az_refresh_ttl_ms A"
    and keyed: "distinct (map rt_id (refresh_tokens (w_db w)))"
    and run: "rotateRefreshToken A E2 c w = (Inr (acc, c2), w1)" and others: "e_others E2 = (\<lambda>s. s)"
    and race: "e_others E = (\<lambda>s. snd (rotateRefreshToken A E2 c s))"
  shows "\<exists>t u t2. validateRefreshToken A c w = Inr (t, Some u) \<and> acc = az_sign A (jwt_payload_of u) (w_now w) \<and>
     validateRefreshToken A c2 w1 = Inr (t2, Some u) \<and>
     validateRefreshToken A c w1 = Inl (http_exn Unauthorized ''Refresh token expired or revoked'') \<and>
     rotateRefreshToken A E c w = (Inl (http_exn Unauthorized ''Refresh token already used or revoked''), w1)"
proof -
  obtain t u where t: "validateRefreshToken A c w = Inr (t, Some u)" and acc: "acc = az_sign A (jwt_payload_of u) (w_now w)"
    and cr: "createRefreshToken A E2 (rt_userId t) (db_update (\<lambda>d. d\<lparr>refresh_tokens :=
          update_rows (\<lambda>x. rt_id x = rt_id t \<and> rt_revokedAt x = None) (revoke (js_now w)) (refresh_tokens d)\<rparr>) w) = (Inr c2, w1)"
    using rotate_Inr [OF run others] by blast
  let ?upd = "update_rows (\<lambda>x. rt_id x = rt_id t \<and> rt_revokedAt x = None) (revoke (js_now w)) (refresh_tokens (w_db w))"
  let ?w0 = "db_update (\<lambda>d. d\<lparr>refresh_tokens := update_rows (\<lambda>x. rt_id x = rt_id t \<and> rt_revokedAt x = None) (revoke (js_now w)) (refresh_tokens d)\<rparr>) w"
  note v = validateRefresh_Inr [OF t]
  have "map rt_id ?upd = map rt_id (refresh_tokens (w_db w))" by (auto simp: update_rows_def revoke_def)
  then have ids: "rt_id ` set ?upd = rt_id ` set (refresh_tokens (w_db w))" by (metis set_map)
  have fresh0: "fresh_token_id A E2 ?w0" using fresh ids by (simp add: fresh_token_id_def)
  obtain t2 where t2: "refresh_tokens (w_db w1) = ?upd @ [t2]" "rt_id t2 = e_uuid E2 (w_next w)" "users (w_db w1) = users (w_db w)"
    "w_now w1 = w_now w" "validateRefreshToken A c2 w1 = Inr (t2, findById_user (rt_userId t) (w_db w1))"
    using createRefreshToken_valid [OF laws fresh0 ttl cr] by auto
  have u: "findById_user (rt_userId t) (w_db w1) = Some u" using v t2(3) by (simp add: findById_user_def)
  have ne: "rt_id t2 \<noteq> rt_id t" using fresh t2(2) v by (force simp: fresh_token_id_def)
  have used: "x \<in> set (refresh_tokens (w_db w1)) \<Longrightarrow> rt_id x = rt_id t \<Longrightarrow> rt_revokedAt x \<noteq> None" for x
    using ne by (auto simp: t2(1) update_rows_def revoke_def split: if_splits)
  obtain p where p: "parseOpaqueToken A c = Some p" "rt_id t = map char_lower (pt_tokenId p)" using v by blast
  have "rt_id t \<in> rt_id ` set (refresh_tokens (w_db w1))" using v ids by (auto simp: t2(1))
  then obtain x where x: "look_refresh (w_db w1) (rt_id t) = Some x"
    using find_row_None [of rt_id "rt_id t"] by (auto simp: look_refresh_def)
  then have "rt_revokedAt x \<noteq> None" using used find_row_SomeD by (fastforce simp: look_refresh_def)
  then have old: "validateRefreshToken A c w1 = Inl (http_exn Unauthorized ''Refresh token expired or revoked'')"
    using p x by (simp add: validateRefreshToken_def rt_isActive_def)
  have "(\<exists>x \<in> set (refresh_tokens (w_db w1)). rt_id x = rt_id t \<and> rt_revokedAt x = None) = False" using used by blast
  then have "rotateRefreshToken A E c w = (Inl (http_exn Unauthorized ''Refresh token already used or revoked''), w1)"
    using t race run by (simp add: rotateRefreshToken_def bind_read_s)
  then show ?thesis using t acc t2(5) [unfolded u] old by blast
qed

text \<open>A world in which u1 has a session.\<close>
definition signed_in :: "(exn + auth_result) \<times> world" where
  "signed_in = signin sample_auth sample_token_env ''a@b'' ''ash'' None sample_world"

lemma signed_in_ok: "\<not> isl (fst signed_in)"
  by code_simp

lemma refresh_token_is_used_once_witness:
  "\<exists>w E E2 c r. fst (rotateRefreshToken sample_auth E2 c w) = Inr r \<and>
     fst (rotateRefreshToken sample_auth E c w) = Inl (http_exn Unauthorized ''Refresh token already used or revoked'')"
proof -
  obtain res w where s: "signed_in = (Inr res, w)" by (rule not_isl_fstE [OF signed_in_ok])
  let ?c = "ar_cookieValue (projr (fst signed_in))"
  have ok: "\<not> isl (fst (rotateRefreshToken sample_auth sample_token_env ?c (snd signed_in)))" by code_simp
  obtain r w1 where run: "rotateRefreshToken sample_auth sample_token_env (ar_cookieValue res) w = (Inr r, w1)"
    using not_isl_fstE [OF ok] s by (metis fst_conv snd_conv sum.sel(2))
  obtain acc c2 where r: "r = (acc, c2)" by fastforce
  have "fresh_token_id sample_auth sample_token_env (snd signed_in)" by code_simp
  then have fresh: "fresh_token_id sample_auth sample_token_env w" by (simp add: s)
  have "distinct (map rt_id (refresh_tokens (w_db (snd signed_in))))" by code_simp
  then have keyed: "distinct (map rt_id (refresh_tokens (w_db w)))" by (simp add: s)
  have ttl: "0 < az_refresh_ttl_ms sample_auth" by (simp add: sample_auth_def)
  have oth: "e_others sample_token_env = (\<lambda>s. s)" by (simp add: sample_token_env_def sample_defs)
  let ?E = "sample_token_env\<lparr>e_others := (\<lambda>s. snd (rotateRefreshToken sample_auth sample_token_env (ar_cookieValue res) s))\<rparr>"
  have "rotateRefreshToken sample_auth ?E (ar_cookieValue res) w = (Inl (http_exn Unauthorized ''Refresh token already used or revoked''), w1)"
    using refresh_token_is_used_once [OF sample_auth_laws fresh ttl keyed run [unfolded r] oth, of ?E] by auto
  then show ?thesis using run by (metis fst_conv)
qed

section \<open>Signing in\<close>

lemma signin_Inr:
  assumes "signin A E email pw ctx w = (Inr res, w1)"
  obtains u h where "findByEmail email (w_db w) = Some u" and "truthy (u_password u) = Some h" and "az_bcrypt_compare A pw h"
    and "buildAuthResult A E u w = (Inr res, w1)"
  using assms by (auto simp: signin_def bind_eq_Some_conv split: option.splits if_splits)

lemma buildAuthResult_Inr:
  assumes "buildAuthResult A E u w = (Inr res, w1)"
  shows "ar_accessToken res = az_sign A (jwt_payload_of u) (w_now w) \<and> ar_user res = jwt_payload_of u \<and>
     issueRefreshToken A E (u_id u) w = (Inr (ar_cookieValue res), w1)"
  using assms by (auto simp: buildAuthResult_def generateAccessToken_def bind_s_eq_Inr bind_s_def split: sum.splits prod.splits)

lemma findByEmail_SomeD:
  "findByEmail email d = Some u \<Longrightarrow> u \<in> set (users d) \<and> live_user u \<and> u_email u = email"
  by (auto simp: findByEmail_def find_Some_iff)

lemma findById_user_keyed:
  assumes "distinct (map u_id (users d))" and "u \<in> set (users d)" and "live_user u"
  shows "findById_user (u_id u) d = Some u"
  using assms(1,2)
proof -
  have "\<And>us. distinct (map u_id us) \<Longrightarrow> u \<in> set us \<Longrightarrow> find (\<lambda>x. u_id x = u_id u \<and> live_user x) us = Some u"
  proof -
    fix us assume "distinct (map u_id us)" "u \<in> set us"
    then show "find (\<lambda>x. u_id x = u_id u \<and> live_user x) us = Some u"
      using assms(3) by (induction us) (auto simp: image_iff)
  qed
  then show ?thesis using assms(1,2) by (simp add: findById_user_def)
qed

text \<open>C17: Signing in takes the right password of a live account, answers an access token for that
  account and a cookie that is valid for it, and leaves the account exactly one session: every
  other refresh token of the user is revoked, those of other users are untouched.\<close>
theorem signin_single_session:
  assumes laws: "auth_laws A" and fresh: "fresh_token_id A E w" and ttl: "0 < az_refresh_ttl_ms A"
    and keyed: "distinct (map u_id (users (w_db w)))" and run: "signin A E email pw ctx w = (Inr res, w1)"
  shows "\<exists>u h t. findByEmail email (w_db w) = Some u \<and> u_password u = Some h \<and> az_bcrypt_compare A pw h \<and>
     ar_accessToken res = az_sign A (jwt_payload_of u) (w_now w) \<and>
     validateRefreshToken A (ar_cookieValue res) w1 = Inr (t, Some u) \<and>
     filter (\<lambda>x. rt_userId x = u_id u \<and> rt_revokedAt x = None) (refresh_tokens (w_db w1)) = [t] \<and>
     filter (\<lambda>x. rt_userId x \<noteq> u_id u) (refresh_tokens (w_db w1)) = filter (\<lambda>x. rt_userId x \<noteq> u_id u) (refresh_tokens (w_db w))"
proof -
  obtain u h where u: "findByEmail email (w_db w) = Some u" "truthy (u_password u) = Some h" "az_bcrypt_compare A pw h"
    and b: "buildAuthResult A E u w = (Inr res, w1)" using signin_Inr [OF run] by blast
  note r = buildAuthResult_Inr [OF b]
  let ?upd = "update_rows (\<lambda>x. rt_userId x = u_id u \<and> rt_revokedAt x = None) (revoke (js_now w)) (refresh_tokens (w_db w))"
  let ?w0 = "db_update (\<lambda>d. d\<lparr>refresh_tokens := update_rows (\<lambda>x. rt_userId x = u_id u \<and> rt_revokedAt x = None) (revoke (js_now w)) (refresh_tokens d)\<rparr>) w"
  have cr: "createRefreshToken A E (u_id u) ?w0 = (Inr (ar_cookieValue res), w1)"
    using r by (simp add: issueRefreshToken_def revokeAllUserTokens_def)
  have "map rt_id ?upd = map rt_id (refresh_tokens (w_db w))" by (auto simp: update_rows_def revoke_def)
  then have "rt_id ` set ?upd = rt_id ` set (refresh_tokens (w_db w))" by (metis set_map)
  then have fresh0: "fresh_token_id A E ?w0" using fresh by (simp add: fresh_token_id_def)
  obtain t where t: "refresh_tokens (w_db w1) = ?upd @ [t]" "rt_userId t = u_id u" "rt_revokedAt t = None"
    "users (w_db w1) = users (w_db w)" "validateRefreshToken A (ar_cookieValue res) w1 = Inr (t, findById_user (u_id u) (w_db w1))"
    using createRefreshToken_valid [OF laws fresh0 ttl cr] by auto
  note f = findByEmail_SomeD [OF u(1)]
  have usr: "findById_user (u_id u) (w_db w1) = Some u" by (rule findById_user_keyed) (use f keyed t(4) in auto)
  have none: "filter (\<lambda>x. rt_userId x = u_id u \<and> rt_revokedAt x = None) ?upd = []"
    by (auto simp: filter_empty_conv update_rows_def revoke_def split: if_splits)
  have other: "filter (\<lambda>x. rt_userId x \<noteq> u_id u) (update_rows (\<lambda>x. rt_userId x = u_id u \<and> rt_revokedAt x = None) (revoke n) ts) =
      filter (\<lambda>x. rt_userId x \<noteq> u_id u) ts" for n ts
    by (induction ts) (auto simp: update_rows_def revoke_def)
  have pw: "u_password u = Some h" using u(2) by (auto simp: truthy_def split: option.splits if_splits)
  have "filter (\<lambda>x. rt_userId x = u_id u \<and> rt_revokedAt x = None) (refresh_tokens (w_db w1)) = [t]"
    "filter (\<lambda>x. rt_userId x \<noteq> u_id u) (refresh_tokens (w_db w1)) = filter (\<lambda>x. rt_userId x \<noteq> u_id u) (refresh_tokens (w_db w))"
    using none other t(2,3) by (simp_all add: t(1))
  then show ?thesis using u(1,3) pw r t(5) [unfolded usr] by blast
qed

lemma signin_single_session_witness:
  "\<exists>res w1 t. signin sample_auth sample_token_env ''a@b'' ''ash'' None sample_world = (Inr res, w1) \<and>
     filter (\<lambda>x. rt_userId x = ''u1'' \<and> rt_revokedAt x = None) (refresh_tokens (w_db w1)) = [t]"
proof -
  obtain res w1 where run: "signin sample_auth sample_token_env ''a@b'' ''ash'' None sample_world = (Inr res, w1)"
    using not_isl_fstE [OF signed_in_ok] unfolding signed_in_def by metis
  have fresh: "fresh_token_id sample_auth sample_token_env sample_world" by code_simp
  have ttl: "0 < az_refresh_ttl_ms sample_auth" by (simp add: sample_auth_def)
  have keyed: "distinct (map u_id (users (w_db sample_world)))" by code_simp
  have "findByEmail ''a@b'' (w_db sample_world) = Some (sample_user ''u1'' ''a@b'')" by (simp add: findByEmail_def live_user_def sample_defs)
  then show ?thesis using signin_single_session [OF sample_auth_laws fresh ttl keyed run] run by (auto simp: sample_user_def)
qed

section \<open>Resetting a password\<close>

lemma resetPassword_Inr:
  assumes run: "resetPassword A E dto ctx w = (Inr (), w1)"
  obtains k w2 where "consumePasswordResetToken A E (rp_token dto) w = (Inr k, w2)"
    and "rp_newPassword dto = rp_confirmedPassword dto"
    and "w1 = audit E (user_event AUTH_PASSWORD_RESET_COMPLETE (Some k) ctx AUDIT_SUCCESS None (Some k))
        (snd (revokeAllUserTokens k (snd (update_user k (\<lambda>u. u\<lparr>u_password := Some (az_bcrypt_hash A (rp_newPassword dto) (w_next w2))\<rparr>) w2))))"
  using run by (auto simp: resetPassword_def bind_s_eq_Inr hash_password_def update_user_def revokeAllUserTokens_def split: if_splits)

lemma revoked_after:
  assumes "x \<in> set (update_rows (\<lambda>t. rt_userId t = k \<and> rt_revokedAt t = None) (revoke n) ts)" and "rt_userId x = k"
  shows "rt_revokedAt x \<noteq> None"
proof -
  obtain t where "x = (if rt_userId t = k \<and> rt_revokedAt t = None then revoke n t else t)"
    using assms(1) unfolding update_rows_def set_map by (elim imageE)
  then show ?thesis using assms(2) by (cases "rt_userId t = k \<and> rt_revokedAt t = None") (simp_all add: revoke_def)
qed

text \<open>C18: A completed password reset ends all sessions: it needs a valid token, sets the password
  of the token's owner and of nobody else, and leaves no refresh token of the owner unrevoked.\<close>
theorem resetPassword_ends_sessions:
  assumes run: "resetPassword A E dto ctx w = (Inr (), w1)" and others: "e_others E = (\<lambda>s. s)"
  shows "\<exists>t h. validatePasswordResetToken A (rp_token dto) w = Inr t \<and>
     h = az_bcrypt_hash A (rp_newPassword dto) (w_next w) \<and>
     (\<forall>x \<in> set (refresh_tokens (w_db w1)). rt_userId x = ot_userId t \<longrightarrow> rt_revokedAt x \<noteq> None) \<and>
     users (w_db w1) = map (\<lambda>u. if u_id u = ot_userId t then u\<lparr>u_password := Some h, u_updatedAt := w_now w\<rparr> else u) (users (w_db w))"
proof -
  obtain k w2 where c: "consumePasswordResetToken A E (rp_token dto) w = (Inr k, w2)"
    and w1: "w1 = audit E (user_event AUTH_PASSWORD_RESET_COMPLETE (Some k) ctx AUDIT_SUCCESS None (Some k))
        (snd (revokeAllUserTokens k (snd (update_user k (\<lambda>u. u\<lparr>u_password := Some (az_bcrypt_hash A (rp_newPassword dto) (w_next w2))\<rparr>) w2))))"
    using resetPassword_Inr [OF run] by metis
  obtain t where t: "validatePasswordResetToken A (rp_token dto) w = Inr t" "k = ot_userId t"
    and w2: "w2 = db_update (\<lambda>d. tt_put reset_table
          (update_rows (\<lambda>x. ot_id x = ot_id t \<and> ot_usedAt x = None) (mark_used (js_now w)) (tt_get reset_table d)) d) w"
    using c others
    by (auto simp: consumePasswordResetToken_def consume_one_time_def validatePasswordResetToken_def bind_read_s split: sum.splits if_splits)
  have sessions: "\<forall>x \<in> set (refresh_tokens (w_db w1)). rt_userId x = k \<longrightarrow> rt_revokedAt x \<noteq> None"
    using revoked_after by (auto simp: w1 revokeAllUserTokens_def)
  have usrs: "users (w_db w1) = map (\<lambda>u. if u_id u = k then u\<lparr>u_password := Some (az_bcrypt_hash A (rp_newPassword dto) (w_next w)), u_updatedAt := w_now w\<rparr> else u) (users (w_db w))"
    by (simp add: w1 w2 revokeAllUserTokens_def update_user_def update_rows_def reset_table_def)
  show ?thesis using t sessions usrs by blast
qed

text \<open>A world in which u1 has a session and asked twice for a reset.\<close>
definition reset_world :: "string \<times> string \<times> world" where
  "reset_world = (let (r1, w1) = issuePasswordResetToken sample_auth sample_token_env ''u1'' (snd signed_in);
       (r2, w2) = issuePasswordResetToken sample_auth sample_token_env ''u1'' w1
     in (projr r1, projr r2, w2))"

definition reset_dto :: reset_password_dto where
  "reset_dto = \<lparr>rp_token = fst (snd reset_world), rp_newPassword = ''new'', rp_confirmedPassword = ''new''\<rparr>"

lemma reset_world_ok: "\<not> isl (fst (resetPassword sample_auth sample_token_env reset_dto None (snd (snd reset_world))))"
  by code_simp

lemma resetPassword_ends_sessions_witness:
  "\<exists>w1. resetPassword sample_auth sample_token_env reset_dto None (snd (snd reset_world)) = (Inr (), w1) \<and>
     (\<forall>x \<in> set (refresh_tokens (w_db w1)). rt_userId x = ''u1'' \<longrightarrow> rt_revokedAt x \<noteq> None)"
proof -
  obtain w1 where run: "resetPassword sample_auth sample_token_env reset_dto None (snd (snd reset_world)) = (Inr (), w1)"
    using not_isl_fstE [OF reset_world_ok] by (metis (full_types) old.unit.exhaust)
  have oth: "e_others sample_token_env = (\<lambda>s. s)" by (simp add: sample_token_env_def sample_defs)
  have own: "map_sum (\<lambda>_. ()) ot_userId (validatePasswordResetToken sample_auth (rp_token reset_dto) (snd (snd reset_world))) = Inr ''u1''"
    by code_simp
  show ?thesis using resetPassword_ends_sessions [OF run oth] own run by auto
qed

text \<open>A reset does not withdraw the other reset links of the account: one issued earlier is as
  valid after the reset as it was before, so whoever holds it can set the password again.\<close>
theorem older_reset_link_survives:
  assumes run: "resetPassword A E dto ctx w = (Inr (), w1)" and others: "e_others E = (\<lambda>s. s)"
    and link: "validatePasswordResetToken A (rp_token dto) w = Inr t"
    and other: "validatePasswordResetToken A raw w = Inr t2" "ot_id t2 \<noteq> ot_id t" "ot_userId t2 = ot_userId t"
  shows "validatePasswordResetToken A raw w1 = Inr t2"
proof -
  obtain k w2 where c: "consumePasswordResetToken A E (rp_token dto) w = (Inr k, w2)"
    and w1: "w1 = audit E (user_event AUTH_PASSWORD_RESET_COMPLETE (Some k) ctx AUDIT_SUCCESS None (Some k))
        (snd (revokeAllUserTokens k (snd (update_user k (\<lambda>u. u\<lparr>u_password := Some (az_bcrypt_hash A (rp_newPassword dto) (w_next w2))\<rparr>) w2))))"
    using resetPassword_Inr [OF run] by metis
  have w2: "w2 = db_update (\<lambda>d. tt_put reset_table
          (update_rows (\<lambda>x. ot_id x = ot_id t \<and> ot_usedAt x = None) (mark_used (js_now w)) (tt_get reset_table d)) d) w"
    using c others link
    by (auto simp: consumePasswordResetToken_def consume_one_time_def validatePasswordResetToken_def bind_read_s split: sum.splits if_splits)
  have toks: "reset_tokens (w_db w1) = update_rows (\<lambda>x. ot_id x = ot_id t \<and> ot_usedAt x = None) (mark_used (js_now w)) (reset_tokens (w_db w))"
    by (simp add: w1 w2 revokeAllUserTokens_def update_user_def reset_table_def)
  have now: "js_now w1 = js_now w" by (simp add: w1 w2 js_now_def revokeAllUserTokens_def update_user_def)
  have look: "find_row ot_id k (update_rows (\<lambda>x. ot_id x = ot_id t \<and> ot_usedAt x = None) (mark_used n) ts) = find_row ot_id k ts"
    if "k \<noteq> ot_id t" for k n ts
    using that by (induction ts) (auto simp: update_rows_def mark_used_def)
  have "ot_id t2 = map char_lower (pt_tokenId p)" if "parseOpaqueToken A raw = Some p" for p
    using reset_store.validate_Inr [OF other(1) [unfolded validatePasswordResetToken_def]] that by auto
  then have "validate_one_time reset_table A raw w1 = validate_one_time reset_table A raw w"
    using look other(2)
    by (auto simp: validate_one_time_def reset_table_def toks now split: option.split)
  then show ?thesis using other(1) by (simp add: validatePasswordResetToken_def)
qed

section \<open>Signing up, and asking for a reset\<close>

lemma issueVerificationToken_ok:
  assumes "user_row (w_db w) k"
  obtains raw w' where "issueVerificationToken A E k w = (Inr raw, w')" "users (w_db w') = users (w_db w)"
  using assms that by (cases "createOpaqueToken A ONE_TIME_TOKEN_SECRET_BYTES (w_next w)")
    (simp add: issueVerificationToken_def issue_one_time_def verification_table_def Let_def)

text \<open>C19: Signing up on every branch: different passwords are 400; the address of a live account
  is 409; the address of a deleted account fails with the raw database error (500, not the
  documented 409), all three changing nothing; any other address makes one unverified account
  with exactly the permissions of a new user, whatever becomes of the verification mail.\<close>
theorem signup_outcomes:
  "signup A E dto ctx w = (r, w1) \<Longrightarrow>
    (if su_password dto \<noteq> su_confirmedPassword dto then r = Inl (http_exn BadRequest ''Passwords do not match'') \<and> w1 = w
     else if findByEmail (su_email dto) (w_db w) \<noteq> None then r = Inl (BaseExn (UserEmailExistsError (su_email dto))) \<and> w1 = w
     else if \<exists>x \<in> set (users (w_db w)). u_email x = su_email dto
       then (\<exists>m. r = Inl (QueryFailed ''23505'' m) \<and> extractStatus (QueryFailed ''23505'' m) = 500) \<and> w1 = w
     else (let u = new_user (e_uuid E (w_next w)) (w_now w) (su_email dto) (az_bcrypt_hash A (su_password dto) (w_next w))
       in r = Inr (u_email u, u_id u) \<and> users (w_db w1) = users (w_db w) @ [u] \<and> \<not> u_isEmailVerified u \<and>
          u_roles u = [''user''] \<and> u_scopes u = [''orders:read'', ''orders:write'', ''files:write'', ''products:read'']))"
proof -
  assume run: "signup A E dto ctx w = (r, w1)"
  show ?thesis
  proof (cases "su_password dto = su_confirmedPassword dto \<and> findByEmail (su_email dto) (w_db w) = None \<and>
      \<not> (\<exists>x \<in> set (users (w_db w)). u_email x = su_email dto)")
    case False
    then show ?thesis using run
      by (cases "su_password dto = su_confirmedPassword dto"; cases "findByEmail (su_email dto) (w_db w)")
         (auto simp: signup_def insertUser_def hash_password_def bind_s_def unique_violation_def extractStatus_internal intro: sym)
  next
    case True
    let ?u = "new_user (e_uuid E (w_next w)) (w_now w) (su_email dto) (az_bcrypt_hash A (su_password dto) (w_next w))"
    let ?w1 = "db_update (\<lambda>d. d\<lparr>users := users d @ [?u]\<rparr>) (w\<lparr>w_next := w_next w + 1\<rparr>)"
    let ?w2 = "audit E (user_event AUTH_SIGNUP (Some (u_id ?u)) ctx AUDIT_SUCCESS None (Some (u_id ?u))) ?w1"
    have ins: "insertUser E (su_email dto) (az_bcrypt_hash A (su_password dto) (w_next w)) w = (Inr ?u, ?w1)"
      using True by (simp add: insertUser_def Let_def)
    have has: "user_row (w_db ?w2) (u_id ?u)" by (simp add: user_row_def)
    obtain raw w3 where i: "issueVerificationToken A E (u_id ?u) ?w2 = (Inr raw, w3)" "users (w_db w3) = users (w_db ?w2)"
      using issueVerificationToken_ok [OF has] by blast
    obtain w4 where s: "issueAndSendVerificationToken A E False ?u ?w2 = (Inr (), w4)" "users (w_db w4) = users (w_db w3)"
    proof -
      obtain r4 w4 where m: "sendVerificationEmail A E (u_email ?u) raw w3 = (r4, w4)" by fastforce
      then have "w_db w4 = w_db w3" unfolding sendVerificationEmail_def by (rule send_mail_frame(1))
      then show ?thesis using that i(1) m
        by (cases r4) (auto simp: issueAndSendVerificationToken_def bind_s_def catch_s_def)
    qed
    have "r = Inr (u_email ?u, u_id ?u) \<and> users (w_db w1) = users (w_db w) @ [?u]"
      using run True ins s i(2) by (simp add: signup_def hash_password_def bind_s_def)
    then show ?thesis using True by (simp add: Let_def new_user_def new_user_roles_def new_user_scopes_def)
  qed
qed

lemma signup_outcomes_witness:
  "\<exists>r w1. signup sample_auth sample_token_env \<lparr>su_email = ''new@b'', su_password = ''p'', su_confirmedPassword = ''p''\<rparr> None sample_world = (r, w1) \<and>
     length (users (w_db w1)) = 3"
proof -
  let ?dto = "\<lparr>su_email = ''new@b'', su_password = ''p'', su_confirmedPassword = ''p''\<rparr>"
  obtain r w1 where run: "signup sample_auth sample_token_env ?dto None sample_world = (r, w1)" by fastforce
  have "findByEmail ''new@b'' (w_db sample_world) = None" "\<not> (\<exists>x \<in> set (users (w_db sample_world)). u_email x = ''new@b'')"
    "length (users (w_db sample_world)) = 2" by (simp_all add: findByEmail_def sample_defs)
  then show ?thesis using signup_outcomes [OF run] run by (auto simp: Let_def)
qed

text \<open>Asking for a password reset answers the same for every address, known or not, whether or
  not the mail could be sent.\<close>
theorem forgotPassword_never_reveals:
  "fst (forgotPassword A E email ctx w) = Inr ''If this email exists, a reset link has been sent''"
proof (cases "findByEmail email (w_db w)")
  case None
  then show ?thesis by (simp add: forgotPassword_def Let_def)
next
  case (Some u)
  then have "user_row (w_db w) (u_id u)" using findByEmail_SomeD by (auto simp: user_row_def)
  then obtain raw w1 where i: "issuePasswordResetToken A E (u_id u) w = (Inr raw, w1)"
    by (cases "createOpaqueToken A ONE_TIME_TOKEN_SECRET_BYTES (w_next w)")
       (simp add: issuePasswordResetToken_def issue_one_time_def Let_def)
  obtain r w2 where m: "sendPasswordResetEmail A E (u_email u) raw w1 = (r, w2)" by fastforce
  show ?thesis using Some i m by (cases r) (simp_all add: forgotPassword_def bind_s_def catch_s_def Let_def)
qed

end
