(* ===== verification/Step_Logic.thy ===== *)
theory Step_Logic
  imports Entities
begin

text \<open>
  Reasoning about whole operations: a reflexive and transitive relation on worlds that survives
  a rollback of the database holds between the start and the end of every operation composed of
  steps that respect it. The locale \<open>transition\<close> is that contract; its instances are the
  frames of operations and the invariant of the database.
\<close>

definition moves_by :: "(world \<Rightarrow> world \<Rightarrow> bool) \<Rightarrow> 'a act \<Rightarrow> bool" where
  "moves_by R m \<longleftrightarrow> (\<forall>w. R w (snd (m w)))"

lemma moves_byI: "(\<And>w r w'. m w = (r, w') \<Longrightarrow> R w w') \<Longrightarrow> moves_by R m"
  unfolding moves_by_def by (metis surjective_pairing)

lemma moves_byD: "moves_by R m \<Longrightarrow> m w = (r, w') \<Longrightarrow> R w w'"
  unfolding moves_by_def by (metis snd_conv)

locale transition =
  fixes R :: "world \<Rightarrow> world \<Rightarrow> bool"
  assumes refl: "R w w"
    and trans: "R w w1 \<Longrightarrow> R w1 w2 \<Longrightarrow> R w w2"
    and rollback: "R w w1 \<Longrightarrow> R w (w1\<lparr>w_db := w_db w\<rparr>)"
begin

lemma return: "moves_by R (return_s x)" and throw: "moves_by R (throw_s e)"
  and gets: "moves_by R (gets_s f)" and lift: "moves_by R (lift_s r)"
  by (simp_all add: moves_by_def refl)

lemma modify: "(\<And>w. R w (f w)) \<Longrightarrow> moves_by R (modify_s f)"
  by (simp add: moves_by_def)

lemma bind:
  assumes "moves_by R m" and "\<And>x. moves_by R (k x)"
  shows "moves_by R (bind_s m k)"
proof (rule moves_byI)
  fix w r w' assume run: "bind_s m k w = (r, w')"
  obtain r1 w1 where m: "m w = (r1, w1)" by fastforce
  have 1: "R w w1" by (rule moves_byD [OF assms(1) m])
  show "R w w'"
  proof (cases r1)
    case (Inl e)
    then show ?thesis using run m 1 by (simp add: bind_s_def)
  next
    case (Inr x)
    then have "k x w1 = (r, w')" using run m by (simp add: bind_s_def)
    then show ?thesis using trans [OF 1 moves_byD [OF assms(2)]] by blast
  qed
qed

text \<open>The continuation may rely on what the first step answered.\<close>
lemma bind_after:
  assumes "moves_by R m" and "\<And>x w w1 r w'. m w = (Inr x, w1) \<Longrightarrow> k x w1 = (r, w') \<Longrightarrow> R w w'"
  shows "moves_by R (bind_s m k)"
proof (rule moves_byI)
  fix w r w' assume run: "bind_s m k w = (r, w')"
  obtain r1 w1 where m: "m w = (r1, w1)" by fastforce
  show "R w w'"
  proof (cases r1)
    case (Inl e)
    then show ?thesis using run m moves_byD [OF assms(1) m] by (simp add: bind_s_def)
  next
    case (Inr x)
    then show ?thesis using run m assms(2) [of w x w1 r w'] by (simp add: bind_s_def)
  qed
qed

lemma catch:
  assumes "moves_by R m" and "\<And>e. moves_by R (h e)"
  shows "moves_by R (catch_s m h)"
proof (rule moves_byI)
  fix w r w' assume run: "catch_s m h w = (r, w')"
  obtain r1 w1 where m: "m w = (r1, w1)" by fastforce
  have 1: "R w w1" by (rule moves_byD [OF assms(1) m])
  show "R w w'"
  proof (cases r1)
    case (Inl e)
    then have "h e w1 = (r, w')" using run m by (simp add: catch_s_def)
    then show ?thesis using trans [OF 1 moves_byD [OF assms(2)]] by blast
  next
    case (Inr x)
    then show ?thesis using run m 1 by (simp add: catch_s_def)
  qed
qed

lemma transaction: "moves_by R m \<Longrightarrow> moves_by R (transaction m)"
proof (rule moves_byI)
  fix w r w' assume m: "moves_by R m" and run: "transaction m w = (r, w')"
  obtain r1 w1 where 1: "m w = (r1, w1)" by fastforce
  show "R w w'" using run 1 moves_byD [OF m 1] rollback
    by (cases r1) (auto simp: transaction_def)
qed

lemma branch: "moves_by R a \<Longrightarrow> moves_by R b \<Longrightarrow> moves_by R (if c then a else b)"
  by simp

lemma option: "moves_by R a \<Longrightarrow> (\<And>x. moves_by R (b x)) \<Longrightarrow> moves_by R (case v of None \<Rightarrow> a | Some x \<Rightarrow> b x)"
  by (cases v) auto

lemma pair: "(\<And>x y. moves_by R (f x y)) \<Longrightarrow> moves_by R (case p of (x, y) \<Rightarrow> f x y)"
  by (cases p) auto

lemma reads: "(\<And>w. snd (m w) = w) \<Longrightarrow> moves_by R m"
  by (simp add: moves_by_def refl)

lemmas basics = return throw gets lift
lemmas rules = basics bind catch transaction branch option pair

end

section \<open>Frames\<close>

text \<open>A step that leaves a part of the database alone.\<close>
definition same_part :: "(db \<Rightarrow> 'p) \<Rightarrow> world \<Rightarrow> world \<Rightarrow> bool" where
  "same_part f w w' \<longleftrightarrow> f (w_db w') = f (w_db w)"

interpretation frame: transition "same_part f" for f :: "db \<Rightarrow> 'p"
  by unfold_locales (simp_all add: same_part_def)

lemma frame_fresh: "moves_by (same_part f) (fresh_uuid E)"
  by (simp add: moves_by_def same_part_def)

lemma frame_update: "(\<And>w. f (h w (w_db w)) = f (w_db w)) \<Longrightarrow> moves_by (same_part f) (modify_s (\<lambda>w. db_update (h w) w))"
  by (simp add: moves_by_def same_part_def)

end
