(* ===== verification/Db_Invariant.thy ===== *)
theory Db_Invariant
  imports Step_Logic Orders_Command_Theorems
begin

text \<open>
  The well-formed database: primary keys, unique indexes, foreign keys and the range of the
  stock column, as the migrations declare them. The relation \<open>inv_step\<close> says that a step keeps
  this and takes its identifiers from the supply; it is an instance of the contract of
  \<open>Step_Logic\<close>, so that it only has to be checked for the statements that write a table.
\<close>

section \<open>Keys and references\<close>

definition uniq :: "('r \<Rightarrow> 'k) \<Rightarrow> 'r list \<Rightarrow> bool" where
  "uniq key rows = distinct (map key rows)"

text \<open>A unique index over an optional column.\<close>
definition uniq_opt :: "('r \<Rightarrow> 'k option) \<Rightarrow> 'r list \<Rightarrow> bool" where
  "uniq_opt col rows = distinct (filter (\<lambda>x. x \<noteq> None) (map col rows))"

definition refers :: "('r \<Rightarrow> uuid) \<Rightarrow> 'r list \<Rightarrow> ('t \<Rightarrow> uuid) \<Rightarrow> 't list \<Rightarrow> bool" where
  "refers fk rows key tgt = (fk ` set rows \<subseteq> key ` set tgt)"

text \<open>A reference that may be NULL.\<close>
definition refers_opt :: "('r \<Rightarrow> uuid option) \<Rightarrow> 'r list \<Rightarrow> ('t \<Rightarrow> uuid) \<Rightarrow> 't list \<Rightarrow> bool" where
  "refers_opt fk rows key tgt = (\<forall>r \<in> set rows. \<forall>k. fk r = Some k \<longrightarrow> k \<in> key ` set tgt)"

definition ratings_ok :: "review list \<Rightarrow> bool" where
  "ratings_ok rows \<longleftrightarrow> (\<forall>r \<in> set rows. 1 \<le> rv_rating r \<and> rv_rating r \<le> 5)"

text \<open>An order gets its payment id when it is paid.\<close>
definition pending_unpaid :: "order list \<Rightarrow> bool" where
  "pending_unpaid rows \<longleftrightarrow> (\<forall>r \<in> set rows. o_status r = PENDING \<longrightarrow> o_paymentId r = None)"

definition wf_db :: "db \<Rightarrow> bool" where
  "wf_db d \<longleftrightarrow>
     uniq u_id (users d) \<and> uniq u_email (users d) \<and>
     uniq p_id (products d) \<and> uniq p_title (products d) \<and> (\<forall>p \<in> set (products d). int4 (p_stock p)) \<and>
     refers_opt p_mainImageId (products d) f_id (file_records d) \<and>
     uniq o_id (orders d) \<and> uniq_opt o_idempotencyKey (orders d) \<and> refers o_userId (orders d) u_id (users d) \<and>
     uniq_opt o_paymentId (orders d) \<and> pending_unpaid (orders d) \<and>
     uniq oi_id (order_items d) \<and> refers oi_orderId (order_items d) o_id (orders d) \<and>
     refers oi_productId (order_items d) p_id (products d) \<and>
     uniq c_id (carts d) \<and> uniq c_userId (carts d) \<and> refers c_userId (carts d) u_id (users d) \<and>
     uniq ci_id (cart_items d) \<and> uniq (\<lambda>i. (ci_cartId i, ci_productId i)) (cart_items d) \<and>
     refers ci_cartId (cart_items d) c_id (carts d) \<and> refers ci_productId (cart_items d) p_id (products d) \<and>
     uniq rt_id (refresh_tokens d) \<and> refers rt_userId (refresh_tokens d) u_id (users d) \<and>
     uniq ot_id (reset_tokens d) \<and> refers ot_userId (reset_tokens d) u_id (users d) \<and>
     uniq ot_id (verification_tokens d) \<and> refers ot_userId (verification_tokens d) u_id (users d) \<and>
     uniq pm_messageId (processed_messages d) \<and> uniq_opt pm_idempotencyKey (processed_messages d) \<and>
     uniq f_id (file_records d) \<and> refers f_ownerId (file_records d) u_id (users d) \<and>
     refers_opt u_avatarId (users d) f_id (file_records d) \<and>
     uniq rv_id (reviews d) \<and> uniq (\<lambda>r. (rv_userId r, rv_productId r)) (reviews d) \<and> ratings_ok (reviews d) \<and>
     refers rv_userId (reviews d) u_id (users d) \<and> refers rv_productId (reviews d) p_id (products d)"

definition db_ids :: "db \<Rightarrow> uuid set" where
  "db_ids d = u_id ` set (users d) \<union> o_id ` set (orders d) \<union> oi_id ` set (order_items d) \<union> c_id ` set (carts d) \<union>
     ci_id ` set (cart_items d) \<union> rt_id ` set (refresh_tokens d) \<union> ot_id ` set (reset_tokens d) \<union>
     ot_id ` set (verification_tokens d) \<union> f_id ` set (file_records d) \<union> rv_id ` set (reviews d)"

text \<open>The identifiers still to come are new.\<close>
definition fresh_ids :: "env \<Rightarrow> nat \<Rightarrow> db \<Rightarrow> bool" where
  "fresh_ids E n d \<longleftrightarrow> inj (e_uuid E) \<and> (\<forall>k \<ge> n. e_uuid E k \<notin> db_ids d)"

definition ok :: "env \<Rightarrow> world \<Rightarrow> bool" where
  "ok E w \<longleftrightarrow> wf_db (w_db w) \<and> fresh_ids E (w_next w) (w_db w)"

text \<open>What never changes of an order.\<close>
definition order_sig :: "order \<Rightarrow> uuid \<times> uuid \<times> string option" where
  "order_sig r = (o_id r, o_userId r, o_idempotencyKey r)"

text \<open>No user, product, order or file record ever goes.\<close>
definition grows :: "world \<Rightarrow> world \<Rightarrow> bool" where
  "grows w w' \<longleftrightarrow> w_next w \<le> w_next w' \<and> u_id ` set (users (w_db w)) \<subseteq> u_id ` set (users (w_db w')) \<and>
     p_id ` set (products (w_db w)) \<subseteq> p_id ` set (products (w_db w')) \<and>
     order_sig ` set (orders (w_db w)) \<subseteq> order_sig ` set (orders (w_db w')) \<and>
     f_id ` set (file_records (w_db w)) \<subseteq> f_id ` set (file_records (w_db w'))"

definition inv_step :: "env \<Rightarrow> world \<Rightarrow> world \<Rightarrow> bool" where
  "inv_step E w w' \<longleftrightarrow> (ok E w \<longrightarrow> ok E w' \<and> grows w w')"

lemma fresh_ids_mono: "fresh_ids E n d \<Longrightarrow> n \<le> m \<Longrightarrow> fresh_ids E m d"
  by (simp add: fresh_ids_def)

interpretation inv: transition "inv_step E" for E
proof
  show "inv_step E w w" for w by (simp add: inv_step_def grows_def)
  show "inv_step E w w1 \<Longrightarrow> inv_step E w1 w2 \<Longrightarrow> inv_step E w w2" for w w1 w2
    unfolding inv_step_def grows_def by (meson order_trans)
  show "inv_step E w w1 \<Longrightarrow> inv_step E w (w1\<lparr>w_db := w_db w\<rparr>)" for w w1
    by (auto simp: inv_step_def grows_def ok_def intro: fresh_ids_mono)
qed

text \<open>What a step may have learnt before: users and orders that exist, and identifiers issued.\<close>
definition known :: "env \<Rightarrow> uuid set \<Rightarrow> (uuid \<times> uuid \<times> string option) set \<Rightarrow> uuid set \<Rightarrow> world \<Rightarrow> bool" where
  "known E us os xs w \<longleftrightarrow> us \<subseteq> u_id ` set (users (w_db w)) \<and> os \<subseteq> order_sig ` set (orders (w_db w)) \<and>
     (\<forall>k \<ge> w_next w. e_uuid E k \<notin> xs)"

lemma known_grows: "known E us os xs w \<Longrightarrow> grows w w' \<Longrightarrow> known E us os xs w'"
  by (auto simp: known_def grows_def)

definition inv_with :: "env \<Rightarrow> uuid set \<Rightarrow> (uuid \<times> uuid \<times> string option) set \<Rightarrow> uuid set \<Rightarrow> world \<Rightarrow> world \<Rightarrow> bool" where
  "inv_with E us os xs w w' \<longleftrightarrow> (known E us os xs w \<longrightarrow> inv_step E w w')"

interpretation inv_given: transition "inv_with E us os xs" for E us os xs
proof
  show "inv_with E us os xs w w" for w by (simp add: inv_with_def inv.refl)
  show "inv_with E us os xs w w1 \<Longrightarrow> inv_with E us os xs w1 w2 \<Longrightarrow> inv_with E us os xs w w2" for w w1 w2
    unfolding inv_with_def using inv.trans known_grows by (auto simp: inv_step_def)
  show "inv_with E us os xs w w1 \<Longrightarrow> inv_with E us os xs w (w1\<lparr>w_db := w_db w\<rparr>)" for w w1
    using inv.rollback by (auto simp: inv_with_def)
qed

lemma inv_weaken: "moves_by (inv_step E) m \<Longrightarrow> moves_by (inv_with E us os xs) m"
  by (simp add: moves_by_def inv_with_def)

text \<open>What the first step answered, and what the invariant says of it, may be relied upon by the rest.\<close>
lemma inv_bind_where:
  assumes first: "moves_by (inv_step E) m" and rest: "\<And>x. Q x \<Longrightarrow> moves_by (inv_with E (us x) (os x) (xs x)) (k x)"
    and given: "\<And>x w w1. ok E w \<Longrightarrow> m w = (Inr x, w1) \<Longrightarrow> Q x \<and> known E (us x) (os x) (xs x) w1"
  shows "moves_by (inv_step E) (bind_s m k)"
proof (rule inv.bind_after [OF first])
  fix x w w1 r w' assume m: "m w = (Inr x, w1)" and k: "k x w1 = (r, w')"
  have 1: "inv_step E w w1" by (rule moves_byD [OF first m])
  have "inv_step E w w'" if okw: "ok E w"
  proof -
    have "inv_with E (us x) (os x) (xs x) w1 w'" by (rule moves_byD [OF rest k]) (use given [OF okw m] in blast)
    then show ?thesis using 1 given [OF okw m] inv.trans unfolding inv_with_def by blast
  qed
  then show "inv_step E w w'" by (auto simp: inv_step_def)
qed

lemma inv_bind_given:
  assumes "moves_by (inv_step E) m" and "\<And>x. moves_by (inv_with E (us x) (os x) (xs x)) (k x)"
    and "\<And>x w w1. ok E w \<Longrightarrow> m w = (Inr x, w1) \<Longrightarrow> known E (us x) (os x) (xs x) w1"
  shows "moves_by (inv_step E) (bind_s m k)"
  by (rule inv_bind_where [where Q = "\<lambda>_. True", OF assms(1)]) (use assms(2,3) in blast)+

section \<open>Facts about keys and references\<close>

lemma uniq_append [simp]: "uniq key (rows @ [r]) \<longleftrightarrow> uniq key rows \<and> key r \<notin> key ` set rows"
  by (auto simp: uniq_def)

lemma uniq_update: "(\<And>r. key (f r) = key r) \<Longrightarrow> uniq key (update_rows P f rows) = uniq key rows"
  by (simp add: uniq_def map_update_rows)

lemma uniq_save: "uniq key rows \<Longrightarrow> uniq key (save_row key r rows)"
  by (simp add: uniq_def distinct_save_row)

lemma uniq_delete: "uniq key rows \<Longrightarrow> uniq key (delete_rows P rows)"
  by (simp add: uniq_def delete_rows_def distinct_map_filter)

lemma update_rows_image:
  assumes "\<And>r. key (f r) = key r"
  shows "key ` set (update_rows P f rows) = key ` set rows"
proof -
  have "map key (update_rows P f rows) = map key rows" using assms by (rule map_update_rows)
  then show ?thesis by (metis set_map)
qed

lemma save_row_image: "key ` set (save_row key r rows) = insert (key r) (key ` set rows)"
proof -
  have "set (map key (save_row key r rows)) = insert (key r) (key ` set rows)" by (auto simp: save_row_keys)
  then show ?thesis by simp
qed

lemma refers_append [simp]: "refers fk (rows @ [r]) key tgt \<longleftrightarrow> refers fk rows key tgt \<and> fk r \<in> key ` set tgt"
  by (auto simp: refers_def)

lemma refers_mono: "refers fk rows key tgt \<Longrightarrow> key ` set tgt \<subseteq> key ` set tgt' \<Longrightarrow> refers fk rows key tgt'"
  by (auto simp: refers_def)

lemma refers_update:
  "(\<And>r. fk (f r) = fk r) \<Longrightarrow> refers fk (update_rows P f rows) key tgt = refers fk rows key tgt"
  by (simp add: refers_def update_rows_image)

lemma refers_delete: "refers fk rows key tgt \<Longrightarrow> refers fk (delete_rows P rows) key tgt"
  by (auto simp: refers_def delete_rows_def)

lemma refers_opt_append [simp]: "refers_opt fk (rows @ [r]) key tgt \<longleftrightarrow>
    refers_opt fk rows key tgt \<and> (\<forall>k. fk r = Some k \<longrightarrow> k \<in> key ` set tgt)"
  by (auto simp: refers_opt_def)

lemma refers_opt_image: "refers_opt fk rows key tgt \<longleftrightarrow> (\<forall>k. Some k \<in> fk ` set rows \<longrightarrow> k \<in> key ` set tgt)"
proof
  assume a: "refers_opt fk rows key tgt"
  show "\<forall>k. Some k \<in> fk ` set rows \<longrightarrow> k \<in> key ` set tgt"
  proof (intro allI impI)
    fix k assume "Some k \<in> fk ` set rows"
    then obtain r where "r \<in> set rows" "fk r = Some k" by (metis imageE)
    then show "k \<in> key ` set tgt" using a unfolding refers_opt_def by blast
  qed
next
  assume b: "\<forall>k. Some k \<in> fk ` set rows \<longrightarrow> k \<in> key ` set tgt"
  have "k \<in> key ` set tgt" if "r \<in> set rows" "fk r = Some k" for r k
    using b that by (metis image_eqI)
  then show "refers_opt fk rows key tgt" unfolding refers_opt_def by blast
qed

lemma refers_opt_mono: "refers_opt fk rows key tgt \<Longrightarrow> key ` set tgt \<subseteq> key ` set tgt' \<Longrightarrow> refers_opt fk rows key tgt'"
  unfolding refers_opt_def by blast

lemma refers_opt_update:
  assumes "refers_opt fk rows key tgt" and "\<And>r k. r \<in> set rows \<Longrightarrow> P r \<Longrightarrow> fk (f r) = Some k \<Longrightarrow> fk r = Some k \<or> k \<in> key ` set tgt"
  shows "refers_opt fk (update_rows P f rows) key tgt"
proof -
  have "k \<in> key ` set tgt" if r: "r \<in> set rows" and k: "fk (if P r then f r else r) = Some k" for r k
    using assms(1) assms(2) [OF r] r k by (cases "P r") (auto simp: refers_opt_def)
  then show ?thesis unfolding refers_opt_def update_rows_def set_map by blast
qed

lemma set_delete_rows [simp]: "set (delete_rows P rows) = {r \<in> set rows. \<not> P r}"
  by (auto simp: delete_rows_def)

lemma refers_mem: "refers fk rows key tgt \<Longrightarrow> r \<in> set rows \<Longrightarrow> fk r \<in> key ` set tgt"
  by (auto simp: refers_def)

lemma refers_save:
  "refers fk rows key tgt \<Longrightarrow> fk r \<in> key ` set tgt \<Longrightarrow> refers fk (save_row k r rows) key tgt"
  using set_save_row_subset [of k r rows] by (auto simp: refers_def)

lemma set_save_row: "set (save_row key r rows) = insert r {x \<in> set rows. key x \<noteq> key r}"
  by (auto simp: save_row_def)

lemma uniq_opt_iff:
  "uniq key rows \<Longrightarrow> uniq_opt col rows \<longleftrightarrow>
     (\<forall>x \<in> set rows. \<forall>y \<in> set rows. col x \<noteq> None \<longrightarrow> col x = col y \<longrightarrow> key x = key y)"
proof (induction rows)
  case (Cons r rows)
  have r: "\<And>x. x \<in> set rows \<Longrightarrow> key r \<noteq> key x" "\<And>x. x \<in> set rows \<Longrightarrow> key x \<noteq> key r" and rest: "uniq key rows"
    using Cons.prems by (auto simp: uniq_def image_iff)
  have "uniq_opt col (r # rows) \<longleftrightarrow> uniq_opt col rows \<and> (col r = None \<or> (\<forall>x \<in> set rows. col r \<noteq> col x))"
    by (auto simp: uniq_opt_def)
  also have "\<dots> \<longleftrightarrow> (\<forall>x \<in> set rows. \<forall>y \<in> set rows. col x \<noteq> None \<longrightarrow> col x = col y \<longrightarrow> key x = key y) \<and>
      (col r \<noteq> None \<longrightarrow> (\<forall>x \<in> set rows. col r \<noteq> col x))"
    by (subst Cons.IH [OF rest]) (cases "col r", simp_all)
  also have "\<dots> \<longleftrightarrow> (\<forall>x \<in> set (r # rows). \<forall>y \<in> set (r # rows). col x \<noteq> None \<longrightarrow> col x = col y \<longrightarrow> key x = key y)"
    using r by (cases "col r") (auto 0 4 simp: r)
  finally show ?case .
qed (simp add: uniq_opt_def)

lemma uniq_optD:
  assumes "uniq key rows" and "uniq_opt col rows" and "x \<in> set rows" "y \<in> set rows" "col x \<noteq> None" "col x = col y"
  shows "key x = key y"
  using assms(2-) unfolding uniq_opt_iff [OF assms(1)] by blast

lemma stored_no_clash: "uniq key rows \<Longrightarrow> uniq_opt col rows \<Longrightarrow> r \<in> set rows \<Longrightarrow> \<not> clashes key col r rows"
  using uniq_optD unfolding clashes_def by metis

text \<open>Saving a row that clashes with no other keeps a unique index.\<close>
lemma uniq_opt_save:
  assumes "uniq key rows" and "uniq_opt col rows" and "\<not> clashes key col r rows"
  shows "uniq_opt col (save_row key r rows)"
  unfolding uniq_opt_iff [OF uniq_save [OF assms(1)]] set_save_row
proof (intro ballI impI)
  have old: "key x = key y" if "x \<in> set rows" "y \<in> set rows" "col x \<noteq> None" "col x = col y" for x y
    using assms(2) that unfolding uniq_opt_iff [OF assms(1)] by blast
  have new: "col x \<noteq> col r" if "x \<in> set rows" "key x \<noteq> key r" "col r \<noteq> None" for x
    using assms(3) that unfolding clashes_def by blast
  fix x y assume "x \<in> insert r {x \<in> set rows. key x \<noteq> key r}" "y \<in> insert r {x \<in> set rows. key x \<noteq> key r}"
    and c: "col x \<noteq> None" "col x = col y"
  then consider "x = r" "y = r" | "x = r" "y \<in> set rows" "key y \<noteq> key r" | "y = r" "x \<in> set rows" "key x \<noteq> key r"
    | "x \<in> set rows" "y \<in> set rows" by blast
  then show "key x = key y"
  proof cases
    case 2 then show ?thesis using new [of y] c by simp
  next
    case 3 then show ?thesis using new [of x] c by simp
  next
    case 4 then show ?thesis using old c by blast
  qed simp
qed

text \<open>Saving a row whose immutable columns are those of a row of the table.\<close>
lemma map_sig_save:
  assumes "uniq key rows" and "sig r \<in> sig ` set rows" and "\<And>x y. sig x = sig y \<Longrightarrow> key x = key y"
  shows "map sig (save_row key r rows) = map sig rows"
proof -
  obtain r0 where r0: "r0 \<in> set rows" "sig r0 = sig r" using assms(2) by auto
  then have id: "key r0 = key r" using assms(3) by blast
  have "sig (if key x = key r then r else x) = sig x" if "x \<in> set rows" for x
    using assms(1) r0 id that by (auto simp: uniq_def distinct_map inj_on_def)
  then show ?thesis using r0 id by (auto simp: save_row_def)
qed

section \<open>Steps that write no keyed table\<close>

definition core :: "db \<Rightarrow> _" where
  "core d = (users d, products d, orders d, order_items d, carts d, cart_items d, refresh_tokens d,
     reset_tokens d, verification_tokens d, processed_messages d, file_records d, reviews d)"

lemma inv_core: "core (w_db w') = core (w_db w) \<Longrightarrow> w_next w \<le> w_next w' \<Longrightarrow> inv_step E w w'"
  by (auto simp: core_def inv_step_def ok_def grows_def wf_db_def fresh_ids_def db_ids_def)

lemma inv_fresh: "moves_by (inv_step E) (fresh_uuid E2)"
  by (auto simp: moves_by_def intro: inv_core)

lemma inv_outside:
  "moves_by (inv_step E) (emit ev)" "moves_by (inv_step E) (publish q m i)"
  "moves_by (inv_step E) (modify_s (audit E2 au))"
  "moves_by (inv_step E) (modify_s (recordOrderCreated E2 s))"
  "moves_by (inv_step E) (modify_s (recordOrderCompleted E2 s))"
  "moves_by (inv_step E) (modify_s (recordRabbitMqPublish E2 s))"
proof -
  have outside: "moves_by (inv_step E) (modify_s f)" if "\<And>w. core (w_db (f w)) = core (w_db w) \<and> w_next w \<le> w_next (f w)" for f
    by (rule inv.modify, rule inv_core) (use that in blast)+
  show "moves_by (inv_step E) (emit ev)" "moves_by (inv_step E) (modify_s (audit E2 au))"
    "moves_by (inv_step E) (modify_s (recordOrderCreated E2 s))" "moves_by (inv_step E) (modify_s (recordOrderCompleted E2 s))"
    "moves_by (inv_step E) (modify_s (recordRabbitMqPublish E2 s))"
    unfolding emit_def by (rule outside; simp add: core_def)+
  show "moves_by (inv_step E) (publish q m i)"
    by (rule moves_byI, rule inv_core) (auto simp: publish_def resolveChannel_def bind_s_def core_def split: if_splits)
qed

lemma inv_reads:
  "moves_by (inv_step E) (handleCreationError e userId key)" "moves_by (inv_step E) (validateUser userId)"
  "moves_by (inv_step E) (checkIdempotency key)" "moves_by (inv_step E) (validateExist ids)"
  "moves_by (inv_step E) (findByIdsWithLock E2 ids)"
  by (rule inv.reads; simp add: handleCreationError_def Let_def validateUser_def checkIdempotency_def validateExist_def
      findByIdsWithLock_def split: option.split)+

lemmas inv_basic = inv.rules inv_fresh inv_outside inv_reads

section \<open>Writing one table\<close>

lemma inv_stepI:
  assumes next': "w_next w \<le> w_next w'"
    and wf: "wf_db (w_db w) \<Longrightarrow> e_uuid E (w_next w) \<notin> db_ids (w_db w) \<Longrightarrow> wf_db (w_db w')"
    and ids: "db_ids (w_db w') \<subseteq> db_ids (w_db w) \<union> e_uuid E ` {w_next w..<w_next w'}"
    and kept: "u_id ` set (users (w_db w)) \<subseteq> u_id ` set (users (w_db w'))" "products (w_db w') = products (w_db w)"
      "orders (w_db w') = orders (w_db w)" "f_id ` set (file_records (w_db w)) \<subseteq> f_id ` set (file_records (w_db w'))"
  shows "inv_step E w w'"
  unfolding inv_step_def
proof
  assume okw: "ok E w"
  have inj: "inj (e_uuid E)" using okw by (simp add: ok_def fresh_ids_def)
  have new: "e_uuid E k \<notin> db_ids (w_db w)" if "k \<ge> w_next w" for k
    using okw that by (auto simp: ok_def fresh_ids_def)
  have "e_uuid E k \<notin> db_ids (w_db w')" if k: "k \<ge> w_next w'" for k
  proof
    assume "e_uuid E k \<in> db_ids (w_db w')"
    moreover have "e_uuid E k \<notin> db_ids (w_db w)" using new k next' by simp
    ultimately have "e_uuid E k \<in> e_uuid E ` {w_next w..<w_next w'}" using ids by blast
    then obtain n where "n < w_next w'" "e_uuid E k = e_uuid E n" by auto
    then show False using injD [OF inj, of k n] k by simp
  qed
  moreover have "wf_db (w_db w')" using wf okw new [of "w_next w"] by (simp add: ok_def)
  ultimately show "ok E w' \<and> grows w w'"
    using next' kept inj by (simp add: ok_def fresh_ids_def grows_def)
qed

section \<open>Orders\<close>

lemma order_sig_image:
  "map order_sig os = map order_sig rs \<Longrightarrow> map o_id os = map o_id rs \<and> map o_userId os = map o_userId rs \<and>
     map o_idempotencyKey os = map o_idempotencyKey rs"
  by (auto simp: order_sig_def list_eq_iff_nth_eq dest: map_eq_imp_length_eq)

text \<open>Rewriting orders without touching their signature keeps everything, if payments stay unique.\<close>
lemma inv_orders_sig:
  assumes "map order_sig os = map order_sig (orders (w_db w))" and "w_db w' = (w_db w)\<lparr>orders := os\<rparr>" and "w_next w' = w_next w"
    and paid: "ok E w \<Longrightarrow> uniq_opt o_paymentId os \<and> pending_unpaid os"
  shows "inv_step E w w'"
proof -
  note m = order_sig_image [OF assms(1)]
  have s: "o_id ` set os = o_id ` set (orders (w_db w))" "o_userId ` set os = o_userId ` set (orders (w_db w))"
    "order_sig ` set os = order_sig ` set (orders (w_db w))"
    using m assms(1) by (metis set_map)+
  have wf: "wf_db (w_db w')" if "ok E w"
    using that paid [OF that] m s by (simp add: assms(2) ok_def wf_db_def uniq_def uniq_opt_def refers_def)
  show ?thesis unfolding inv_step_def
  proof
    assume okw: "ok E w"
    then show "ok E w' \<and> grows w w'"
      using wf [OF okw] s by (simp add: assms(2,3) ok_def grows_def fresh_ids_def db_ids_def)
  qed
qed

lemma stored_order_sig [simp]: "order_sig (stored_order now d r) = order_sig r"
  by (simp add: order_sig_def)

text \<open>Saving a loaded order: the payment id it carries is no other order's.\<close>
lemma inv_put_order:
  assumes "ok E w \<Longrightarrow> order_sig r \<in> order_sig ` set (orders (w_db w)) \<and> \<not> clashes o_id o_paymentId r (orders (w_db w)) \<and>
      (o_status r = PENDING \<longrightarrow> o_paymentId r = None)"
  shows "inv_step E w (db_update (put_order now r) w)"
proof (cases "ok E w")
  case True
  let ?s = "stored_order now (w_db w) r" let ?rows = "orders (w_db w)"
  have u: "uniq o_id ?rows" "uniq_opt o_paymentId ?rows" "pending_unpaid ?rows" using True by (simp_all add: ok_def wf_db_def)
  have "map order_sig (save_row o_id ?s ?rows) = map order_sig ?rows"
    by (rule map_sig_save [OF u(1)]) (use assms [OF True] in \<open>simp_all add: order_sig_def\<close>)
  moreover have "\<not> clashes o_id o_paymentId ?s ?rows" using assms [OF True] by (simp add: clashes_def)
  then have "uniq_opt o_paymentId (save_row o_id ?s ?rows)" by (rule uniq_opt_save [OF u(1,2)])
  moreover have "pending_unpaid (save_row o_id ?s ?rows)"
    using u(3) assms [OF True] by (auto simp: pending_unpaid_def set_save_row)
  ultimately show ?thesis by (intro inv_orders_sig) (simp_all add: put_order_def)
qed (simp add: inv_step_def)

section \<open>Products\<close>

text \<open>A step that rewrites the products only.\<close>
lemma inv_products:
  assumes w': "w_db w' = (w_db w)\<lparr>products := ps\<rparr>" and ids: "w_next w \<le> w_next w'" "p_id ` set (products (w_db w)) \<subseteq> p_id ` set ps"
    and wf: "ok E w \<Longrightarrow> uniq p_id ps \<and> uniq p_title ps \<and> (\<forall>p \<in> set ps. int4 (p_stock p)) \<and>
      refers_opt p_mainImageId ps f_id (file_records (w_db w))"
  shows "inv_step E w w'"
  unfolding inv_step_def
proof
  assume okw: "ok E w"
  have "wf_db (w_db w')" using okw wf [OF okw] ids(2) by (auto simp: w' ok_def wf_db_def elim!: refers_mono)
  then show "ok E w' \<and> grows w w'" using okw ids by (auto simp: w' ok_def grows_def db_ids_def fresh_ids_def)
qed

text \<open>What an order never changes of a product.\<close>
definition product_sig :: "product \<Rightarrow> uuid \<times> string \<times> uuid option" where
  "product_sig p = (p_id p, p_title p, p_mainImageId p)"

lemma product_sig_simps [simp]:
  "product_sig (add_stock n p) = product_sig p" "product_sig (stored_product now d p) = product_sig p"
  by (simp_all add: product_sig_def add_stock_def stored_product_def)

lemma product_sig_map:
  "map product_sig ps = map product_sig rows \<Longrightarrow> map p_id ps = map p_id rows \<and> map p_title ps = map p_title rows \<and>
     map p_mainImageId ps = map p_mainImageId rows"
  by (auto simp: product_sig_def list_eq_iff_nth_eq dest: map_eq_imp_length_eq)

lemma inv_put_stock:
  assumes stock: "int4 (p_stock p)" and sig: "ok E w \<Longrightarrow> product_sig p \<in> product_sig ` set (products (w_db w))"
  shows "inv_step E w (db_update (put_product now p) w)" (is "?inv")
    and "ok E w \<Longrightarrow> product_sig ` set (products (w_db (db_update (put_product now p) w))) = product_sig ` set (products (w_db w))" (is "_ \<Longrightarrow> ?same")
proof -
  let ?rows = "products (w_db w)" let ?ps = "save_row p_id (stored_product now (w_db w) p) ?rows"
  have m: "map product_sig ?ps = map product_sig ?rows" if "ok E w"
    by (rule map_sig_save) (use that sig in \<open>auto simp: ok_def wf_db_def\<close>, simp add: product_sig_def)
  show same: ?same if "ok E w" using m [OF that] by (simp add: put_product_def) (metis set_map)
  show ?inv
  proof (cases "ok E w")
    case okw: True
    note c = product_sig_map [OF m [OF okw]]
    have wf: "uniq p_id ?rows" "uniq p_title ?rows" "\<forall>q \<in> set ?rows. int4 (p_stock q)" "refers_opt p_mainImageId ?rows f_id (file_records (w_db w))"
      using okw by (simp_all add: ok_def wf_db_def)
    have "p_mainImageId ` set ?ps = p_mainImageId ` set ?rows" "p_id ` set ?ps = p_id ` set ?rows" using c by (metis set_map)+
    moreover have "refers_opt p_mainImageId ?ps f_id (file_records (w_db w))"
      using wf(4) calculation(1) by (simp add: refers_opt_image)
    ultimately show ?thesis using c wf stock
      by (intro inv_products [where ps = ?ps]) (auto simp: put_product_def uniq_def set_save_row)
  qed (simp add: inv_step_def)
qed

lemma inv_saveProducts:
  assumes run: "saveProducts ps w = (r, w')" and sig: "ok E w \<Longrightarrow> product_sig ` set ps \<subseteq> product_sig ` set (products (w_db w))"
  shows "inv_step E w w'"
proof -
  have "inv_step E w (db_update (fold (put_product now) ps) w)"
    if "\<forall>p \<in> set ps. int4 (p_stock p)" "ok E w \<Longrightarrow> product_sig ` set ps \<subseteq> product_sig ` set (products (w_db w))" for ps w now
    using that
  proof (induction ps arbitrary: w)
    case Nil
    then show ?case by (intro inv_core) simp_all
  next
    case (Cons p ps)
    let ?w1 = "db_update (put_product now p) w"
    have st: "int4 (p_stock p)" and sg: "ok E w \<Longrightarrow> product_sig p \<in> product_sig ` set (products (w_db w))" using Cons.prems by auto
    note one = inv_put_stock [OF st sg, where now = now]
    have "inv_step E w (db_update (fold (put_product now) ps) ?w1)" if okw: "ok E w"
    proof -
      have "inv_step E ?w1 (db_update (fold (put_product now) ps) ?w1)"
        by (rule Cons.IH) (use Cons.prems one(2) [OF okw] okw in auto)
      then show ?thesis using one(1) inv.trans by blast
    qed
    then show ?case by (auto simp: inv_step_def db_update_def)
  qed
  then show ?thesis using run sig inv.refl by (auto simp: saveProducts_def split: if_splits)
qed

lemma upd_stock_sig: "product_sig ` set (map snd (upd_key k (add_stock n) m)) = product_sig ` set (map snd m)"
  by (force simp: upd_key_def image_iff)

lemma decrementStock_sig: "decrementStock its m = Inr m' \<Longrightarrow> product_sig ` set (map snd m') = product_sig ` set (map snd m)"
proof (induction its m rule: decrementStock.induct)
  case (2 it its m)
  then show ?case by (cases "map_of m (si_productId it)") (auto simp only: decrementStock.simps option.case upd_stock_sig sum.simps)
qed simp

lemma restoreStock_sig: "product_sig ` set (map snd (restoreStock its m)) = product_sig ` set (map snd m)"
proof (induction its m rule: restoreStock.induct)
  case (2 it its m)
  then show ?case by (cases "map_of m (si_productId it)") (auto simp only: restoreStock.simps option.case upd_stock_sig)
qed simp

lemma found_sig: "product_sig ` set (map snd (product_map (findByIds ids d))) \<subseteq> product_sig ` set (products d)"
  by (auto simp: product_map_def findByIds_def)

text \<open>Taking and giving back stock under the locks.\<close>
lemma inv_stock:
  "moves_by (inv_step E) (lockValidateAndDecrement E2 its ids)" "moves_by (inv_step E) (lockAndRestore E2 its ids)"
proof -
  show "moves_by (inv_step E) (lockValidateAndDecrement E2 its ids)"
  proof (rule moves_byI)
    fix w r w' assume run: "lockValidateAndDecrement E2 its ids w = (r, w')"
    have "w' = w \<or> (\<exists>m r1. decrementStock its (product_map (findByIds ids (w_db w))) = Inr m \<and> saveProducts (map snd m) w = (r1, w'))"
      using run by (auto simp: lockValidateAndDecrement_def findByIdsWithLock_def bind_s_def lift_s_def split: option.splits sum.splits prod.splits)
    then show "inv_step E w w'"
      using inv.refl inv_saveProducts [of _ w _ w' E] decrementStock_sig found_sig by (elim disjE exE conjE) (simp, metis)
  qed
  show "moves_by (inv_step E) (lockAndRestore E2 its ids)"
  proof (rule moves_byI)
    fix w r w' assume run: "lockAndRestore E2 its ids w = (r, w')"
    have "w' = w \<or> saveProducts (map snd (restoreStock its (product_map (findByIds ids (w_db w))))) w = (r, w')"
      using run by (auto simp: lockAndRestore_def findByIdsWithLock_def bind_s_def split: option.splits)
    then show "inv_step E w w'"
      using inv.refl inv_saveProducts [of _ w r w' E] restoreStock_sig found_sig by (elim disjE) (simp, metis)
  qed
qed

end
