(* ===== verification/Cart.thy ===== *)
theory Cart
  imports Orders_Command Money
begin

text \<open>
  \<^verbatim>\<open>cart/cart.service.ts\<close> and \<^verbatim>\<open>cart/utils\<close>: the shopping cart. A cart row per user and one
  row per product in it, the answer with its decimal totals, and the checkout, which hands the
  lines to the creation of orders and then empties the cart. Between reading a cart and
  writing it other requests may run (\<^verbatim>\<open>e_others\<close>).
\<close>

section \<open>Loading a cart\<close>

record cart_view =
  cv_cart :: cart
  cv_items :: "(cart_item \<times> product option) list"

definition cart_items_of :: "db \<Rightarrow> uuid \<Rightarrow> cart_item list" where
  "cart_items_of d k = filter (\<lambda>i. ci_cartId i = k) (cart_items d)"

definition load_cart :: "db \<Rightarrow> cart \<Rightarrow> cart_view" where
  "load_cart d c = \<lparr>cv_cart = c,
     cv_items = map (\<lambda>i. (i, findById_product (ci_productId i) d)) (cart_items_of d (c_id c))\<rparr>"

definition findCartWithItems :: "uuid \<Rightarrow> db \<Rightarrow> cart_view option" where
  "findCartWithItems userId d = map_option (load_cart d) (find (\<lambda>c. c_userId c = userId) (carts d))"

definition findCartWithItemsOrFail :: "uuid \<Rightarrow> cart_view act" where
  "findCartWithItemsOrFail userId w = (case findCartWithItems userId (w_db w) of
     None \<Rightarrow> (Inl (http_exn NotFound (''Cart not found for user '' @ in_dq userId)), w)
   | Some v \<Rightarrow> (Inr v, w))"

section \<open>The answer\<close>

record cart_line =
  cl_item :: cart_item
  cl_product :: product
  cl_itemTotal :: string

record cart_response =
  cr_cart :: cart
  cr_items :: "cart_line list"
  cr_total :: string

text \<open>A soft-deleted product is absent from the relation, and reading its price throws.\<close>
fun cart_lines :: "(cart_item \<times> product option) list \<Rightarrow> exn + cart_line list" where
  "cart_lines [] = Inr []"
| "cart_lines ((i, None) # its) = Inl (null_read ''price'')"
| "cart_lines ((i, Some p) # its) = (case cart_lines its of
     Inl e \<Rightarrow> Inl e
   | Inr ls \<Rightarrow> Inr (\<lparr>cl_item = i, cl_product = p, cl_itemTotal = item_total (p_price p) (ci_quantity i)\<rparr> # ls))"

definition toCartResponse :: "cart_view \<Rightarrow> exn + cart_response" where
  "toCartResponse v = (case cart_lines (cv_items v) of
     Inl e \<Rightarrow> Inl e
   | Inr ls \<Rightarrow> Inr \<lparr>cr_cart = cv_cart v, cr_items = ls,
       cr_total = cart_total (map (\<lambda>l. (p_price (cl_product l), ci_quantity (cl_item l))) ls)\<rparr>)"

definition cart_answer :: "uuid \<Rightarrow> cart_response act" where
  "cart_answer userId = bind_s (findCartWithItemsOrFail userId) (\<lambda>v. lift_s (toCartResponse v))"

section \<open>Making a cart\<close>

definition insertCart :: "env \<Rightarrow> uuid \<Rightarrow> unit act" where
  "insertCart E userId w =
     (if \<exists>c \<in> set (carts (w_db w)). c_userId c = userId
      then (Inl (unique_violation ''REL_2ec1c94a977b940d85a4f498ae''), w)
      else if \<not> (\<exists>u \<in> set (users (w_db w)). u_id u = userId)
      then (Inl (fk_violation ''FK_2ec1c94a977b940d85a4f498aea''), w)
      else (Inr (), db_update (\<lambda>d. d\<lparr>carts := carts d @
          [\<lparr>c_id = e_uuid E (w_next w), c_userId = userId, c_createdAt = w_now w, c_updatedAt = w_now w\<rparr>]\<rparr>)
        (w\<lparr>w_next := w_next w + 1\<rparr>)))"

definition getOrCreateCartEntity :: "env \<Rightarrow> uuid \<Rightarrow> cart_view act" where
  "getOrCreateCartEntity E userId =
     bind_s (gets_s (\<lambda>w. findCartWithItems userId (w_db w))) (\<lambda>existing.
     case existing of
       Some v \<Rightarrow> return_s v
     | None \<Rightarrow>
         bind_s (modify_s (e_others E)) (\<lambda>_.
         bind_s (insertCart E userId) (\<lambda>_.
         findCartWithItemsOrFail userId)))"

definition getCart :: "env \<Rightarrow> uuid \<Rightarrow> cart_response act" where
  "getCart E userId = bind_s (getOrCreateCartEntity E userId) (\<lambda>v. lift_s (toCartResponse v))"

section \<open>Adding a product\<close>

text \<open>\<^verbatim>\<open>INSERT ... ON CONFLICT (cart_id, product_id) DO UPDATE\<close>: the row of the pair gets the
  quantity, or a new row is made.\<close>
definition upsert_item :: "env \<Rightarrow> uuid \<Rightarrow> uuid \<Rightarrow> int \<Rightarrow> unit act" where
  "upsert_item E cartId productId q w = (let d = w_db w in
     if \<not> int4 q then (Inl (QueryFailed ''22003'' ''integer out of range''), w)
     else if \<exists>i \<in> set (cart_items d). ci_cartId i = cartId \<and> ci_productId i = productId
     then (Inr (), db_update (\<lambda>d. d\<lparr>cart_items :=
        update_rows (\<lambda>i. ci_cartId i = cartId \<and> ci_productId i = productId) (\<lambda>i. i\<lparr>ci_quantity := q\<rparr>) (cart_items d)\<rparr>) w)
     else if \<not> (\<exists>c \<in> set (carts d). c_id c = cartId) \<or> \<not> (\<exists>p \<in> set (products d). p_id p = productId)
     then (Inl (fk_violation ''cart_items''), w)
     else (Inr (), db_update (\<lambda>d. d\<lparr>cart_items := cart_items d @
        [\<lparr>ci_id = e_uuid E (w_next w), ci_cartId = cartId, ci_productId = productId, ci_quantity = q, ci_addedAt = w_now w\<rparr>]\<rparr>)
      (w\<lparr>w_next := w_next w + 1\<rparr>)))"

definition quantity_in_cart :: "cart_view \<Rightarrow> uuid \<Rightarrow> int" where
  "quantity_in_cart v productId = (case find (\<lambda>(i, _). ci_productId i = productId) (cv_items v) of
     Some (i, _) \<Rightarrow> ci_quantity i | None \<Rightarrow> 0)"

definition exceeds_stock :: "int \<Rightarrow> product \<Rightarrow> exn" where
  "exceeds_stock q p = http_exn Conflict (''Requested quantity ('' @ int_str q @ '') exceeds available stock (''
     @ int_str (p_stock p) @ '') for product '' @ in_dq (p_title p))"

definition addItem :: "env \<Rightarrow> uuid \<Rightarrow> uuid \<Rightarrow> int \<Rightarrow> cart_response act" where
  "addItem E userId productId quantity =
     bind_s (gets_s (\<lambda>w. findById_product productId (w_db w))) (\<lambda>found.
     case found of
       None \<Rightarrow> throw_s (http_exn NotFound (''Product with ID '' @ in_dq productId @ '' not found''))
     | Some p \<Rightarrow>
         if \<not> p_isActive p then throw_s (http_exn Conflict (''Product '' @ in_dq (p_title p) @ '' is not available for purchase''))
         else if p_stock p = 0 then throw_s (http_exn Conflict (''Product '' @ in_dq (p_title p) @ '' is out of stock''))
         else
           bind_s (getOrCreateCartEntity E userId) (\<lambda>v.
           (let newQuantity = quantity_in_cart v productId + quantity in
            if newQuantity > p_stock p then throw_s (exceeds_stock newQuantity p)
            else
              bind_s (modify_s (e_others E)) (\<lambda>_.
              bind_s (upsert_item E (c_id (cv_cart v)) productId newQuantity) (\<lambda>_.
              cart_answer userId)))))"

section \<open>Changing and removing an item\<close>

definition findOwnedCartItem :: "uuid \<Rightarrow> uuid \<Rightarrow> (cart_item \<times> product option) act" where
  "findOwnedCartItem userId itemId w =
     (case Option.bind (findCartWithItems userId (w_db w)) (\<lambda>v. find (\<lambda>(i, _). ci_id i = itemId) (cv_items v)) of
        None \<Rightarrow> (Inl (http_exn NotFound (''Cart item with ID '' @ in_dq itemId @ '' not found'')), w)
      | Some x \<Rightarrow> (Inr x, w))"

definition remove_items :: "uuid list \<Rightarrow> db \<Rightarrow> db" where
  "remove_items ids d = d\<lparr>cart_items := delete_rows (\<lambda>i. ci_id i \<in> set ids) (cart_items d)\<rparr>"

definition removeItem :: "env \<Rightarrow> uuid \<Rightarrow> uuid \<Rightarrow> cart_response act" where
  "removeItem E userId itemId =
     bind_s (findOwnedCartItem userId itemId) (\<lambda>(i, _).
     bind_s (modify_s (e_others E)) (\<lambda>_.
     bind_s (modify_s (db_update (remove_items [ci_id i]))) (\<lambda>_.
     cart_answer userId)))"

text \<open>\<^verbatim>\<open>save(item)\<close>: the changed column of the row with this id is written, or the row is inserted
  again when it has gone.\<close>
definition saveItem :: "cart_item \<Rightarrow> unit act" where
  "saveItem i w = (let d = w_db w in
     if \<not> int4 (ci_quantity i) then (Inl (QueryFailed ''22003'' ''integer out of range''), w)
     else if \<exists>x \<in> set (cart_items d). ci_id x = ci_id i
     then (Inr (), db_update (\<lambda>d. d\<lparr>cart_items :=
        update_rows (\<lambda>x. ci_id x = ci_id i) (\<lambda>x. x\<lparr>ci_quantity := ci_quantity i\<rparr>) (cart_items d)\<rparr>) w)
     else if \<exists>x \<in> set (cart_items d). ci_cartId x = ci_cartId i \<and> ci_productId x = ci_productId i
     then (Inl (unique_violation ''IDX_cart_items_cart_product''), w)
     else if \<not> (\<exists>c \<in> set (carts d). c_id c = ci_cartId i) \<or> \<not> (\<exists>p \<in> set (products d). p_id p = ci_productId i)
     then (Inl (fk_violation ''cart_items''), w)
     else (Inr (), db_update (\<lambda>d. d\<lparr>cart_items := cart_items d @ [i]\<rparr>) w))"

definition updateItem :: "env \<Rightarrow> uuid \<Rightarrow> uuid \<Rightarrow> int \<Rightarrow> cart_response act" where
  "updateItem E userId itemId quantity =
     bind_s (findOwnedCartItem userId itemId) (\<lambda>(i, prod).
     case prod of
       None \<Rightarrow> throw_s (null_read ''stock'')
     | Some p \<Rightarrow>
         if quantity > p_stock p then throw_s (exceeds_stock quantity p)
         else
           bind_s (modify_s (e_others E)) (\<lambda>_.
           bind_s (saveItem (i\<lparr>ci_quantity := quantity\<rparr>)) (\<lambda>_.
           cart_answer userId)))"

section \<open>Emptying the cart and checking out\<close>

definition clearCart :: "env \<Rightarrow> uuid \<Rightarrow> unit act" where
  "clearCart E userId =
     bind_s (gets_s (\<lambda>w. findCartWithItems userId (w_db w))) (\<lambda>cart.
     case cart of
       None \<Rightarrow> return_s ()
     | Some v \<Rightarrow>
         if cv_items v = [] then return_s ()
         else modify_s (db_update (remove_items (map (ci_id \<circ> fst) (cv_items v)))))"

definition cart_order :: "cart_view \<Rightarrow> string option \<Rightarrow> shipping_address option \<Rightarrow> create_order_dto" where
  "cart_order v key shipping = \<lparr>co_idempotencyKey = key,
     co_items = map (\<lambda>(i, _). \<lparr>si_productId = ci_productId i, si_quantity = ci_quantity i\<rparr>) (cv_items v),
     co_shipping = shipping\<rparr>"

definition checkout ::
  "env \<Rightarrow> uuid \<Rightarrow> string option \<Rightarrow> shipping_address option \<Rightarrow> audit_context option \<Rightarrow> order_view act" where
  "checkout E userId key shipping ctx =
     bind_s (gets_s (\<lambda>w. findCartWithItems userId (w_db w))) (\<lambda>cart.
     case cart of
       None \<Rightarrow> throw_s (http_exn BadRequest ''Cannot checkout an empty cart'')
     | Some v \<Rightarrow>
         if cv_items v = [] then throw_s (http_exn BadRequest ''Cannot checkout an empty cart'')
         else
           bind_s (createOrder E userId (cart_order v key shipping) ctx) (\<lambda>ord.
           bind_s (clearCart E userId) (\<lambda>_.
           return_s ord)))"

end
