(* ===== verification/Order_Frames.thy ===== *)
theory Order_Frames
  imports Step_Logic Orders_Command
begin

text \<open>
  What the order operations leave alone. The locale \<open>off_shop\<close> is a part of the database that
  does not depend on products, orders, order items and the audit trail; creating and cancelling
  orders moves no such part. Its instance is the users' and the cart's side of the database.
\<close>

locale off_shop =
  fixes part :: "db \<Rightarrow> 'p"
  assumes off_products: "part (d\<lparr>products := x1\<rparr>) = part d"
    and off_orders: "part (d\<lparr>orders := x2\<rparr>) = part d"
    and off_order_items: "part (d\<lparr>order_items := x3\<rparr>) = part d"
    and off_audit_logs: "part (d\<lparr>audit_logs := x4\<rparr>) = part d"
begin

lemmas off = off_products off_orders off_order_items off_audit_logs

lemma off_fold: "part (fold (put_product now) ps d) = part d"
  using fold_put_product [of now ps d] off by auto

lemma off_order: "part (put_order now r d) = part d"
  by (simp add: put_order_def off)

lemma frame_audit: "moves_by (same_part part) (modify_s (audit E ev))"
  by (simp add: moves_by_def same_part_def audit_def off)

lemma frame_locking: "moves_by (same_part part) (findByIdsWithLock E ids)"
  by (rule frame.reads) (simp add: findByIdsWithLock_def split: option.split)

lemma frame_saveProducts: "moves_by (same_part part) (saveProducts ps)"
  by (simp add: moves_by_def same_part_def saveProducts_def off_fold)

lemma frame_createItems: "moves_by (same_part part) (createOrderItems E xs)"
  by (simp add: moves_by_def same_part_def createOrderItems_eq off)

lemma frame_insertOrder: "moves_by (same_part part) (repo_createOrder E data)"
  by (auto simp: moves_by_def same_part_def repo_createOrder_def Let_def off split: option.split)

lemma frame_saveOrder: "moves_by (same_part part) (saveOrder r)"
  by (simp add: moves_by_def same_part_def off_order)

lemma frame_publish: "moves_by (same_part part) (publish q m i)"
  by (simp add: moves_by_def same_part_def publish_db)

lemma frame_outside:
  "moves_by (same_part part) (emit ev)" "moves_by (same_part part) (fresh_uuid E)"
  "moves_by (same_part part) (modify_s (recordOrderCreated E s))"
  "moves_by (same_part part) (modify_s (recordOrderCompleted E s))"
  "moves_by (same_part part) (modify_s (recordRabbitMqPublish E s))"
  "moves_by (same_part part) (handleCreationError e userId key)"
  "moves_by (same_part part) (validateUser userId)"
  "moves_by (same_part part) (checkIdempotency key)"
  "moves_by (same_part part) (validateExist ids)"
  by (auto simp: moves_by_def same_part_def handleCreationError_def Let_def validateUser_def checkIdempotency_def
      validateExist_def split: option.split)

lemmas frame_parts = frame.rules frame_audit frame_locking frame_saveProducts frame_createItems frame_insertOrder
  frame_saveOrder frame_publish frame_outside

lemma frame_executeOrderTransaction: "moves_by (same_part part) (executeOrderTransaction E dto usr ids)"
  unfolding executeOrderTransaction_def lockValidateAndDecrement_def by (intro frame_parts)

lemma frame_afterOrderCommit: "moves_by (same_part part) (afterOrderCommit E userId dto ctx usr v)"
  unfolding afterOrderCommit_def publishOrderProcessing_def order_process_message_def Let_def by (intro frame_parts)

lemma frame_createOrder:
  assumes "\<And>w. part (w_db (e_others E w)) = part (w_db w)"
  shows "moves_by (same_part part) (createOrder E userId dto ctx)"
proof -
  have o: "moves_by (same_part part) (modify_s (e_others E))" using assms by (simp add: moves_by_def same_part_def)
  show ?thesis unfolding createOrder_def Let_def
    by (intro frame_parts frame_executeOrderTransaction frame_afterOrderCommit o)
qed

lemma frame_cancelOrder: "moves_by (same_part part) (cancelOrder E usr orderId ctx)"
  unfolding cancelOrder_def executeCancelTransaction_def lockAndRestore_def Let_def by (intro frame_parts)

end

interpretation cart_side: off_shop "\<lambda>d. (users d, carts d, cart_items d)"
  by unfold_locales simp_all

end
