(* ===== verification/Cart_Theorems.thy ===== *)
theory Cart_Theorems
  imports Cart Order_Frames Orders_Command_Theorems
begin

text \<open>
  The cart: its totals are exact within the bounds of the columns, and checking it out orders
  exactly its lines, at most once each, and empties it.
\<close>

section \<open>The keys of the cart tables\<close>

definition cart_keys :: "db \<Rightarrow> bool" where
  "cart_keys d \<longleftrightarrow> distinct (map ci_id (cart_items d)) \<and>
     distinct (map (\<lambda>i. (ci_cartId i, ci_productId i)) (cart_items d))"

lemma findCartWithItems_SomeD:
  assumes "findCartWithItems userId d = Some v"
  shows "cv_cart v \<in> set (carts d)" "c_userId (cv_cart v) = userId"
    "map fst (cv_items v) = cart_items_of d (c_id (cv_cart v))"
  using assms by (auto simp: findCartWithItems_def load_cart_def find_Some_iff comp_def)

lemma findCartWithItems_cong:
  "carts d' = carts d \<Longrightarrow> cart_items d' = cart_items d \<Longrightarrow> findCartWithItems userId d = Some v \<Longrightarrow>
     \<exists>v'. findCartWithItems userId d' = Some v' \<and> cv_cart v' = cv_cart v \<and> map fst (cv_items v') = map fst (cv_items v)"
  by (auto simp: findCartWithItems_def load_cart_def cart_items_of_def comp_def)

lemma cart_order_products:
  "map si_productId (co_items (cart_order v key shipping)) = map ci_productId (map fst (cv_items v))"
  by (simp add: cart_order_def comp_def case_prod_unfold)

text \<open>The unique index on cart and product: a checkout never names a product twice.\<close>
lemma cart_order_distinct:
  assumes "cart_keys d" and "findCartWithItems userId d = Some v"
  shows "distinct (map si_productId (co_items (cart_order v key shipping)))"
proof -
  have "distinct (map (\<lambda>i. (ci_cartId i, ci_productId i)) (cart_items_of d k))" for k
    using assms(1) unfolding cart_keys_def cart_items_of_def by (simp add: distinct_map_filter)
  then have "distinct (map ci_productId (cart_items_of d k))" for k
    by (auto simp: distinct_map inj_on_def cart_items_of_def)
  then show ?thesis using findCartWithItems_SomeD(3) [OF assms(2)] by (simp add: cart_order_products)
qed

lemma clearCart_eq:
  assumes "distinct (map ci_id (cart_items (w_db w)))" and v: "findCartWithItems userId (w_db w) = Some v"
  shows "clearCart E userId w = (Inr (), db_update (\<lambda>d. d\<lparr>cart_items :=
     filter (\<lambda>i. ci_cartId i \<noteq> c_id (cv_cart v)) (cart_items d)\<rparr>) w)"
proof -
  let ?its = "cart_items (w_db w)" and ?k = "c_id (cv_cart v)"
  have ids: "map (ci_id \<circ> fst) (cv_items v) = map ci_id (cart_items_of (w_db w) ?k)"
    using findCartWithItems_SomeD(3) [OF v] by (metis map_map)
  have "ci_id i \<in> ci_id ` set (cart_items_of (w_db w) ?k) \<longleftrightarrow> ci_cartId i = ?k" if "i \<in> set ?its" for i
    using that assms(1) by (auto simp: cart_items_of_def distinct_map inj_on_def)
  then have del: "delete_rows (\<lambda>i. ci_id i \<in> set (map (ci_id \<circ> fst) (cv_items v))) ?its = filter (\<lambda>i. ci_cartId i \<noteq> ?k) ?its"
    unfolding ids delete_rows_def by (intro filter_cong) simp_all
  show ?thesis
  proof (cases "cv_items v = []")
    case True
    then have "cart_items_of (w_db w) ?k = []" using findCartWithItems_SomeD(3) [OF v] by simp
    then have "filter (\<lambda>i. ci_cartId i \<noteq> ?k) ?its = ?its" by (auto simp: cart_items_of_def filter_empty_conv intro: filter_True)
    then show ?thesis using v True by (simp add: clearCart_def db_update_def)
  next
    case False
    then show ?thesis using v del by (simp add: clearCart_def remove_items_def db_update_def del: set_map)
  qed
qed

section \<open>Totals\<close>

text \<open>A cart whose lines are products with a price of two decimals and a natural quantity.\<close>
definition priced_cart :: "cart_view \<Rightarrow> (nat \<times> nat) list \<Rightarrow> bool" where
  "priced_cart v ls \<longleftrightarrow>
     list_all2 (\<lambda>(i, prod) (c, q). \<exists>p. prod = Some p \<and> p_price p = cents_str c \<and> ci_quantity i = int q) (cv_items v) ls"

lemma cart_lines_priced:
  assumes "list_all2 (\<lambda>(i, prod) (c, q). \<exists>p. prod = Some p \<and> p_price p = cents_str c \<and> ci_quantity i = int q) its ls"
    and "\<forall>(c, q) \<in> set ls. c * q \<le> 2 ^ 50"
  shows "\<exists>xs. cart_lines its = Inr xs \<and> map (\<lambda>l. (p_price (cl_product l), ci_quantity (cl_item l))) xs = price_lines ls \<and>
     map cl_itemTotal xs = map (\<lambda>(c, q). cents_str (c * q)) ls"
  using assms
proof (induction its ls rule: list_all2_induct)
  case (Cons x its y ls)
  obtain i p c q where x: "x = (i, Some p)" "y = (c, q)" "p_price p = cents_str c" "ci_quantity i = int q"
    using Cons.hyps(1) by (cases x; cases y) auto
  have "item_total (cents_str c) (int q) = cents_str (c * q)" using Cons.prems x(2) by (intro item_total_exact) simp
  then show ?case using Cons x by (auto simp: price_lines_def)
qed (simp add: price_lines_def)

lemma exact_cents_line: "(c, q) \<in> set ls \<Longrightarrow> c * q \<le> exact_cents ls"
  unfolding exact_cents_def by (rule member_le_sum_list) (force, simp)

text \<open>C20: Floating point does not show in a cart: with at most 1000 lines and at most 2^40 cents
  in all, looking at the cart prints for every line, and for the whole, exactly the decimal
  product and sum, and changes nothing.\<close>
theorem cart_shows_exact_total:
  assumes cart: "findCartWithItems userId (w_db w) = Some v" and priced: "priced_cart v ls"
    and total: "exact_cents ls \<le> 2 ^ 40" and len: "length ls \<le> 1000"
  shows "\<exists>xs. getCart E userId w = (Inr \<lparr>cr_cart = cv_cart v, cr_items = xs, cr_total = cents_str (exact_cents ls)\<rparr>, w) \<and>
     map cl_itemTotal xs = map (\<lambda>(c, q). cents_str (c * q)) ls"
proof -
  have lines: "\<forall>(c, q) \<in> set ls. c * q \<le> 2 ^ 50" using exact_cents_line total by fastforce
  obtain xs where xs: "cart_lines (cv_items v) = Inr xs"
    "map (\<lambda>l. (p_price (cl_product l), ci_quantity (cl_item l))) xs = price_lines ls"
    "map cl_itemTotal xs = map (\<lambda>(c, q). cents_str (c * q)) ls"
    using cart_lines_priced [OF priced [unfolded priced_cart_def] lines] by blast
  show ?thesis using cart xs cart_total_exact [OF lines total len]
    by (simp add: getCart_def getOrCreateCartEntity_def toCartResponse_def bind_s_def)
qed

text \<open>The sample shop with a cart of u1: three pieces of p1 and one of p2.\<close>
definition sample_cart_world :: world where
  "sample_cart_world = world_of (sample_db\<lparr>
     carts := [\<lparr>c_id = ''c1'', c_userId = ''u1'', c_createdAt = 0, c_updatedAt = 0\<rparr>],
     cart_items := [\<lparr>ci_id = ''ci1'', ci_cartId = ''c1'', ci_productId = ''p1'', ci_quantity = 3, ci_addedAt = 0\<rparr>,
       \<lparr>ci_id = ''ci2'', ci_cartId = ''c1'', ci_productId = ''p2'', ci_quantity = 1, ci_addedAt = 0\<rparr>]\<rparr>) ChannelOpen"

lemma sample_cart:
  "\<exists>v. findCartWithItems ''u1'' (w_db sample_cart_world) = Some v \<and> priced_cart v [(999, 3), (50, 1)] \<and> cv_items v \<noteq> [] \<and> c_id (cv_cart v) = ''c1''"
proof -
  have c: "cents_str 999 = ''9.99''" "cents_str 50 = ''0.50''" by code_simp+
  show ?thesis
    by (simp add: sample_cart_world_def findCartWithItems_def load_cart_def cart_items_of_def findById_product_def
        live_product_def priced_cart_def sample_defs c)
qed

lemma cart_shows_exact_total_witness:
  "\<exists>x w'. getCart sample_env ''u1'' sample_cart_world = (Inr x, w') \<and> cr_total x = ''30.47''"
proof -
  obtain v where v: "findCartWithItems ''u1'' (w_db sample_cart_world) = Some v" "priced_cart v [(999, 3), (50, 1)]"
    using sample_cart by blast
  have c: "cents_str 3047 = ''30.47''" by code_simp
  show ?thesis using cart_shows_exact_total [OF v, of sample_env] by (auto simp: exact_cents_def c)
qed

text \<open>A cart that holds a deleted product can no longer be shown.\<close>
lemma deleted_product_breaks_cart:
  assumes "findCartWithItems userId (w_db w) = Some v" and "None \<in> snd ` set (cv_items v)"
  shows "getCart E userId w = (Inl (null_read ''price''), w)"
proof -
  have "None \<in> snd ` set its \<Longrightarrow> cart_lines its = Inl (null_read ''price'')" for its
    by (induction its rule: cart_lines.induct) (auto split: sum.split)
  then show ?thesis using assms by (simp add: getCart_def getOrCreateCartEntity_def toCartResponse_def bind_s_def)
qed

section \<open>Checking out\<close>

lemma findById_user_SomeD: "findById_user k d = Some u \<Longrightarrow> u \<in> set (users d) \<and> u_id u = k"
  by (auto simp: findById_user_def find_Some_iff)

lemma createOrder_plain:
  assumes run: "createOrder E userId dto ctx w = (r, w')" and key: "truthy (co_idempotencyKey dto) = None"
    and alone: "e_others E = (\<lambda>s. s)" and keyed: "products_keyed (w_db w)"
    and dist: "distinct (map si_productId (co_items dto))" and nn: "stock_nonneg (w_db w)"
  shows "stock_nonneg (w_db w')" and "r = Inr v \<Longrightarrow> \<exists>usr. u_id usr = userId \<and> created_view E w dto usr v w'"
proof -
  note tx = executeOrderTransaction_stock_nonneg [OF _ keyed dist nn]
  have "stock_nonneg (w_db w') \<and> (\<forall>v. r = Inr v \<longrightarrow> (\<exists>usr. u_id usr = userId \<and> created_view E w dto usr v w'))"
    using run
  proof (cases rule: createOrder_cases)
    case (attempt usr)
    have id: "u_id usr = userId" using findById_user_SomeD [OF attempt(1)] by simp
    from attempt(3) show ?thesis unfolding alone
    proof (cases rule: createOrder_attempt_cases)
      case (created v w2 m)
      have "created_view E w dto usr v w'"
        by (rule created_view_same_shop [OF executeOrderTransaction_created [OF created(1) keyed] created(4)])
      then show ?thesis using created tx [OF created(1)] stock_nonneg_same_shop id by auto
    next
      case (unpublished v w2)
      then show ?thesis using tx [OF unpublished(1)] stock_nonneg_same_shop by auto
    qed (use key nn stock_nonneg_same_shop in auto)
  qed (use key nn in auto)
  then show "stock_nonneg (w_db w')" and "r = Inr v \<Longrightarrow> \<exists>usr. u_id usr = userId \<and> created_view E w dto usr v w'" by auto
qed

lemma createOrder_carts:
  assumes "createOrder E userId dto ctx w = (r, w')" and "e_others E = (\<lambda>s. s)"
  shows "carts (w_db w') = carts (w_db w)" and "cart_items (w_db w') = cart_items (w_db w)"
  using moves_byD [OF cart_side.frame_createOrder assms(1)] assms(2) by (auto simp: same_part_def)

lemma checkout_Inr:
  assumes run: "checkout E userId key shipping ctx w = (Inr r, w')"
  obtains v w1 where "findCartWithItems userId (w_db w) = Some v" "cv_items v \<noteq> []"
    "createOrder E userId (cart_order v key shipping) ctx w = (Inr r, w1)" "clearCart E userId w1 = (Inr (), w')"
  using run by (auto simp: checkout_def bind_s_eq_Inr split: option.splits if_splits)

lemma checkout_Inl:
  assumes run: "checkout E userId key shipping ctx w = (Inl e, w')"
  shows "w' = w \<or> (\<exists>v. findCartWithItems userId (w_db w) = Some v \<and>
     createOrder E userId (cart_order v key shipping) ctx w = (Inl e, w'))"
  using run by (auto simp: checkout_def bind_s_eq_Inl clearCart_def split: option.splits if_splits)

text \<open>C21: A checkout without idempotency key, undisturbed by other requests, orders the cart: it
  succeeds only for a cart with lines, with a new PENDING order of the caller whose items are
  exactly the lines of the cart, and afterwards that cart is empty and every other cart is as it
  was; a failed checkout leaves all carts as they were. No checkout drives a stock below
  zero, since a cart holds a product once.\<close>
theorem checkout_orders_the_cart:
  assumes run: "checkout E userId key shipping ctx w = (r, w')" and key: "truthy key = None"
    and alone: "e_others E = (\<lambda>s. s)" and keyed: "products_keyed (w_db w)" and keys: "cart_keys (w_db w)"
    and nn: "stock_nonneg (w_db w)"
  shows "stock_nonneg (w_db w') \<and>
    (case r of
       Inl e \<Rightarrow> cart_items (w_db w') = cart_items (w_db w)
     | Inr ord \<Rightarrow> \<exists>v. findCartWithItems userId (w_db w) = Some v \<and> cv_items v \<noteq> [] \<and>
         o_userId (ov_order ord) = userId \<and> o_status (ov_order ord) = PENDING \<and>
         orders (w_db w') = orders (w_db w) @ [ov_order ord] \<and>
         items_stock (ov_items ord) = map (\<lambda>(i, _). \<lparr>si_productId = ci_productId i, si_quantity = ci_quantity i\<rparr>) (cv_items v) \<and>
         cart_items (w_db w') = filter (\<lambda>i. ci_cartId i \<noteq> c_id (cv_cart v)) (cart_items (w_db w)))"
proof (cases r)
  case (Inl e)
  have "w' = w \<or> (\<exists>v. findCartWithItems userId (w_db w) = Some v \<and>
     createOrder E userId (cart_order v key shipping) ctx w = (Inl e, w'))" by (rule checkout_Inl [OF run [unfolded Inl]])
  then show ?thesis
  proof
    assume "\<exists>v. findCartWithItems userId (w_db w) = Some v \<and> createOrder E userId (cart_order v key shipping) ctx w = (Inl e, w')"
    then obtain v where v: "findCartWithItems userId (w_db w) = Some v"
      and run: "createOrder E userId (cart_order v key shipping) ctx w = (Inl e, w')" by blast
    show ?thesis using createOrder_carts(2) [OF run alone]
        createOrder_plain(1) [OF run _ alone keyed cart_order_distinct [OF keys v] nn] key Inl by (simp add: cart_order_def)
  qed (use nn Inl in simp)
next
  case (Inr ord)
  obtain v w1 where v: "findCartWithItems userId (w_db w) = Some v" "cv_items v \<noteq> []"
    and made: "createOrder E userId (cart_order v key shipping) ctx w = (Inr ord, w1)"
    and cleared: "clearCart E userId w1 = (Inr (), w')" by (rule checkout_Inr [OF run [unfolded Inr]])
  have dist: "distinct (map si_productId (co_items (cart_order v key shipping)))" by (rule cart_order_distinct [OF keys v(1)])
  have nokey: "truthy (co_idempotencyKey (cart_order v key shipping)) = None" using key by (simp add: cart_order_def)
  note same = createOrder_carts [OF made alone]
  obtain usr where c: "u_id usr = userId" "created_view E w (cart_order v key shipping) usr ord w1"
    using createOrder_plain(2) [OF made nokey alone keyed dist nn] by blast
  obtain v1 where v1: "findCartWithItems userId (w_db w1) = Some v1" "cv_cart v1 = cv_cart v"
    using findCartWithItems_cong [OF same v(1)] by blast
  have w': "w' = db_update (\<lambda>d. d\<lparr>cart_items := filter (\<lambda>i. ci_cartId i \<noteq> c_id (cv_cart v)) (cart_items d)\<rparr>) w1"
    using clearCart_eq [OF _ v1(1), of E] cleared keys same(2) v1(2) by (simp add: cart_keys_def)
  have nn': "stock_nonneg (w_db w')"
    using createOrder_plain(1) [OF made nokey alone keyed dist nn] by (simp add: w' stock_nonneg_def)
  show ?thesis using nn' Inr c v same(2) w' by (auto simp: created_view_def new_order_def order_data_of_def Let_def cart_order_def)
qed

lemma checkout_orders_the_cart_witness:
  "\<exists>ord w'. checkout sample_env ''u1'' None None None sample_cart_world = (Inr ord, w') \<and>
     o_userId (ov_order ord) = ''u1'' \<and> cart_items (w_db w') = []"
proof -
  have "\<not> isl (fst (checkout sample_env ''u1'' None None None sample_cart_world))" by code_simp
  then obtain ord w' where run: "checkout sample_env ''u1'' None None None sample_cart_world = (Inr ord, w')"
    by (rule not_isl_fstE)
  have keyed: "products_keyed (w_db sample_cart_world)" by code_simp
  have keys: "cart_keys (w_db sample_cart_world)" unfolding cart_keys_def by code_simp
  have nn: "stock_nonneg (w_db sample_cart_world)" by code_simp
  have alone: "e_others sample_env = (\<lambda>s. s)" by (simp add: sample_env_def)
  obtain v where v: "findCartWithItems ''u1'' (w_db sample_cart_world) = Some v" "c_id (cv_cart v) = ''c1''" using sample_cart by blast
  have "cart_items (w_db w') = filter (\<lambda>i. ci_cartId i \<noteq> ''c1'') (cart_items (w_db sample_cart_world)) \<and> o_userId (ov_order ord) = ''u1''"
    using checkout_orders_the_cart [OF run truthy_None alone keyed keys nn] v by simp
  then show ?thesis using run by (simp add: sample_cart_world_def world_of_def)
qed

text \<open>With a key that already names an order, the checkout answers that order, whatever it
  holds, orders nothing and empties the cart.\<close>
theorem checkout_hit_loses_cart:
  assumes v: "findCartWithItems userId (w_db w) = Some v" "cv_items v \<noteq> []" and keys: "cart_keys (w_db w)"
    and usr: "findById_user userId (w_db w) = Some usr" and ok: "validateOrderItems (co_items (cart_order v key shipping)) = Inr ()"
    and key: "truthy key = Some k" "findByIdempotencyKey k (w_db w) = Some old"
  shows "\<exists>w'. checkout E userId key shipping ctx w = (Inr old, w') \<and> orders (w_db w') = orders (w_db w) \<and>
     cart_items (w_db w') = filter (\<lambda>i. ci_cartId i \<noteq> c_id (cv_cart v)) (cart_items (w_db w))"
proof -
  let ?w1 = "audit E (audit_event ORDER_IDEMPOTENT_HIT (Some userId) ctx AUDIT_SUCCESS (Some (o_id (ov_order old))) (Some ''Order'')) w"
  have made: "createOrder E userId (cart_order v key shipping) ctx w = (Inr old, ?w1)"
    using usr ok key by (simp add: createOrder_def validateUser_def checkIdempotency_def bind_s_def cart_order_def)
  obtain v1 where v1: "findCartWithItems userId (w_db ?w1) = Some v1" "cv_cart v1 = cv_cart v"
    using findCartWithItems_cong [of "w_db ?w1" "w_db w" userId v] v(1) by auto
  have "clearCart E userId ?w1 = (Inr (), db_update (\<lambda>d. d\<lparr>cart_items :=
     filter (\<lambda>i. ci_cartId i \<noteq> c_id (cv_cart v)) (cart_items d)\<rparr>) ?w1)"
    using clearCart_eq [OF _ v1(1), of E] keys v1(2) by (simp add: cart_keys_def)
  then show ?thesis using v made by (simp add: checkout_def bind_s_def)
qed

end
