(* ===== verification/Order_Invariant.thy ===== *)
theory Order_Invariant
  imports Db_Invariant Orders_Processing_Theorems
begin

text \<open>
  Creating, cancelling and processing orders keep the database well-formed.
\<close>

section \<open>The supply of identifiers only moves forward\<close>

definition forward :: "world \<Rightarrow> world \<Rightarrow> bool" where
  "forward w w' \<longleftrightarrow> w_next w \<le> w_next w'"

interpretation forward: transition forward
  by unfold_locales (simp_all add: forward_def)

lemma forward_parts:
  "moves_by forward (fresh_uuid E)" "moves_by forward (findByIdsWithLock E ids)" "moves_by forward (saveProducts ps)"
  "moves_by forward (createOrderItems E xs)" "moves_by forward (repo_createOrder E data)"
  by (auto simp: moves_by_def forward_def findByIdsWithLock_def saveProducts_def createOrderItems_eq
      repo_createOrder_def Let_def split: option.split)

lemma forward_executeOrderTransaction: "moves_by forward (executeOrderTransaction E dto usr ids)"
  unfolding executeOrderTransaction_def lockValidateAndDecrement_def by (intro forward.rules forward_parts)

section \<open>Creating\<close>

lemma new_order_items_ids: "map oi_id (new_order_items E n xs) = map (e_uuid E) [n..<n + length xs]"
  by (induction xs arbitrary: n) (simp_all add: new_order_item_def upt_conv_Cons del: upt_Suc)

lemma inv_insert_order:
  assumes row: "row = new_order (e_uuid E (w_next w)) now data" and nc: "\<not> clashes o_id o_idempotencyKey row (orders (w_db w))"
    and usr: "od_userId data \<in> u_id ` set (users (w_db w))"
  shows "inv_step E w (db_update (\<lambda>d. d\<lparr>orders := orders d @ [row]\<rparr>) (w\<lparr>w_next := w_next w + 1\<rparr>))"
  unfolding inv_step_def
proof
  assume okw: "ok E w"
  have inj: "inj (e_uuid E)" and new: "\<And>k. w_next w \<le> k \<Longrightarrow> e_uuid E k \<notin> db_ids (w_db w)"
    using okw by (auto simp: ok_def fresh_ids_def)
  have id: "o_id row = e_uuid E (w_next w)" "o_userId row = od_userId data" "o_paymentId row = None"
    by (simp_all add: row new_order_def)
  have fresh: "o_id row \<notin> o_id ` set (orders (w_db w))" using new [of "w_next w"] id by (auto simp: db_ids_def)
  have "x \<in> set (orders (w_db w)) \<Longrightarrow> o_idempotencyKey row \<noteq> None \<Longrightarrow> o_idempotencyKey x \<noteq> o_idempotencyKey row" for x
    using nc fresh unfolding clashes_def by (metis image_eqI)
  then have uo: "uniq_opt o_idempotencyKey (orders (w_db w) @ [row])"
    using okw by (auto simp: ok_def wf_db_def uniq_opt_def)
  have pay: "uniq_opt o_paymentId (orders (w_db w) @ [row])" "pending_unpaid (orders (w_db w) @ [row])"
    using okw id(3) by (auto simp: ok_def wf_db_def uniq_opt_def pending_unpaid_def)
  have ids: "e_uuid E k \<noteq> e_uuid E (w_next w)" if "w_next w + 1 \<le> k" for k
    using that injD [OF inj, of k "w_next w"] by auto
  show "ok E (db_update (\<lambda>d. d\<lparr>orders := orders d @ [row]\<rparr>) (w\<lparr>w_next := w_next w + 1\<rparr>)) \<and>
     grows w (db_update (\<lambda>d. d\<lparr>orders := orders d @ [row]\<rparr>) (w\<lparr>w_next := w_next w + 1\<rparr>))"
    using okw uo pay fresh usr ids new id
    by (auto simp: ok_def wf_db_def fresh_ids_def db_ids_def grows_def elim!: refers_mono)
qed

lemma inv_append_items:
  assumes ids: "map oi_id its = map (e_uuid E) [w_next w..<w_next w + length its]"
    and ords: "oi_orderId ` set its \<subseteq> o_id ` set (orders (w_db w))"
    and prods: "oi_productId ` set its \<subseteq> p_id ` set (products (w_db w))"
  shows "inv_step E w (db_update (\<lambda>d. d\<lparr>order_items := order_items d @ its\<rparr>) (w\<lparr>w_next := w_next w + length its\<rparr>))"
  unfolding inv_step_def
proof
  assume okw: "ok E w"
  have inj: "inj (e_uuid E)" and new: "\<And>k. w_next w \<le> k \<Longrightarrow> e_uuid E k \<notin> db_ids (w_db w)"
    using okw by (auto simp: ok_def fresh_ids_def)
  have ids': "oi_id ` set its = e_uuid E ` {w_next w..<w_next w + length its}"
    using arg_cong [OF ids, of set] by simp
  have "distinct (map oi_id its)" unfolding ids using inj by (simp add: distinct_map inj_on_def)
  moreover have "oi_id ` set its \<inter> oi_id ` set (order_items (w_db w)) = {}"
    using new unfolding ids' by (fastforce simp: db_ids_def)
  ultimately have u: "uniq oi_id (order_items (w_db w) @ its)"
    using okw by (auto simp: ok_def wf_db_def uniq_def)
  have later: "e_uuid E k \<notin> oi_id ` set its" if "w_next w + length its \<le> k" for k
    using inj that unfolding ids' by (auto dest: injD)
  show "ok E (db_update (\<lambda>d. d\<lparr>order_items := order_items d @ its\<rparr>) (w\<lparr>w_next := w_next w + length its\<rparr>)) \<and>
     grows w (db_update (\<lambda>d. d\<lparr>order_items := order_items d @ its\<rparr>) (w\<lparr>w_next := w_next w + length its\<rparr>))"
    using okw u ords prods later new
    by (auto simp: ok_def wf_db_def fresh_ids_def db_ids_def grows_def refers_def image_Un)
qed

lemma findById_product_id: "findById_product k d = Some p \<Longrightarrow> k \<in> p_id ` set (products d)"
  by (auto simp: findById_product_def find_Some_iff)

lemma inv_executeOrderTransaction:
  assumes run: "executeOrderTransaction E dto usr ids w = (r, w')"
    and usr: "ok E w \<Longrightarrow> u_id usr \<in> u_id ` set (users (w_db w))"
  shows "inv_step E w w'"
proof (cases r)
  case (Inl e)
  have "w_db w' = w_db w" by (rule executeOrderTransaction_Inl [OF run [unfolded Inl]])
  then show ?thesis using moves_byD [OF forward_executeOrderTransaction run] by (simp add: forward_def inv_core)
next
  case (Inr v)
  obtain m w1 row xs where lvd: "lockValidateAndDecrement E (co_items dto) ids w = (Inr m, w1)"
    and ins: "repo_createOrder E (order_data_of dto usr) w1 = (Inr row, db_update (\<lambda>d. d\<lparr>orders := orders d @ [row]\<rparr>) (w1\<lparr>w_next := w_next w1 + 1\<rparr>))"
    and v: "v = \<lparr>ov_order = row, ov_items = zip (new_order_items E (w_next w1 + 1) xs) (map (Some \<circ> oid_product) xs), ov_user = Some usr\<rparr>"
    and w': "w' = db_update (\<lambda>d. d\<lparr>order_items := order_items d @ new_order_items E (w_next w1 + 1) xs\<rparr>)
        ((db_update (\<lambda>d. d\<lparr>orders := orders d @ [row]\<rparr>) (w1\<lparr>w_next := w_next w1 + 1\<rparr>))\<lparr>w_next := w_next w1 + 1 + length xs\<rparr>)"
    by (rule executeOrderTransaction_Inr [OF run [unfolded Inr]])
  let ?its = "new_order_items E (w_next w1 + 1) xs" and ?w2 = "db_update (\<lambda>d. d\<lparr>orders := orders d @ [row]\<rparr>) (w1\<lparr>w_next := w_next w1 + 1\<rparr>)"
  have 1: "inv_step E w w1" by (rule moves_byD [OF inv_stock(1) lvd])
  have "inv_step E w w'" if okw: "ok E w"
  proof -
    have keyed: "products_keyed (w_db w)" using okw by (simp add: ok_def wf_db_def uniq_def products_keyed_def)
    have g1: "grows w w1" using 1 okw by (simp add: inv_step_def)
    have row: "row = new_order (e_uuid E (w_next w1)) (w_now w1) (order_data_of dto usr)"
      and nc: "\<not> clashes o_id o_idempotencyKey row (orders (w_db w1))" using ins unfolding repo_createOrder_Inr by blast+
    have "od_userId (order_data_of dto usr) \<in> u_id ` set (users (w_db w1))"
      using usr [OF okw] g1 by (auto simp: grows_def order_data_of_def Let_def)
    then have 2: "inv_step E w1 ?w2" by (rule inv_insert_order [OF row nc])
    have created: "created_view E w dto usr v w'" by (rule executeOrderTransaction_created [OF run [unfolded Inr] keyed])
    have its: "map fst (ov_items v) = ?its" by (simp add: v)
    have "ov_order v = row" by (simp add: v)
    then have "\<forall>it \<in> fst ` set (ov_items v). oi_orderId it = o_id row \<and> (\<exists>p. findById_product (oi_productId it) (w_db w) = Some p)"
      using created unfolding created_view_def by blast
    then have "\<forall>it \<in> fst ` set (ov_items v). oi_orderId it = o_id row \<and> oi_productId it \<in> p_id ` set (products (w_db w))"
      using findById_product_id by blast
    then have "\<forall>it \<in> set ?its. oi_orderId it = o_id row \<and> oi_productId it \<in> p_id ` set (products (w_db w))"
      using its by (metis set_map)
    then have "inv_step E ?w2 w'" unfolding w'
      using inv_append_items [of ?its E ?w2] new_order_items_ids [of E "w_next w1 + 1" xs] g1
      by (fastforce simp: grows_def db_update_def)
    then show ?thesis using 1 2 inv.trans by blast
  qed
  then show ?thesis by (auto simp: inv_step_def)
qed

lemma inv_afterOrderCommit: "moves_by (inv_step E) (afterOrderCommit E2 userId dto ctx usr v)"
  unfolding afterOrderCommit_def publishOrderProcessing_def order_process_message_def Let_def by (intro inv_basic)

lemma validateUser_Inr: "validateUser userId w = (Inr usr, w1) \<Longrightarrow> w1 = w \<and> u_id usr \<in> u_id ` set (users (w_db w))"
  by (auto simp: validateUser_def findById_user_def find_Some_iff split: option.splits)

lemma inv_createOrder:
  assumes rely: "\<And>w. inv_step E w (e_others E w)"
  shows "moves_by (inv_step E) (createOrder E userId dto ctx)"
proof -
  have tx: "moves_by (inv_with E {u_id usr} {} {}) (executeOrderTransaction E dto usr ids)" for usr ids
    by (rule moves_byI) (auto simp: inv_with_def known_def intro: inv_executeOrderTransaction)
  have others: "moves_by (inv_step E) (modify_s (e_others E))" using rely by (simp add: moves_by_def)
  show ?thesis unfolding createOrder_def Let_def
  proof (rule inv_bind_given [where us = "\<lambda>usr. {u_id usr}" and os = "\<lambda>_. {}" and xs = "\<lambda>_. {}"])
    show "moves_by (inv_step E) (validateUser userId)" by (rule inv_reads)
  next
    show "known E {u_id usr} {} {} w1"
      if "validateUser userId w = (Inr usr, w1)" for usr w w1
      using validateUser_Inr [OF that] by (simp add: known_def)
  qed (intro inv_given.rules tx inv_weaken [OF inv_reads(1)] inv_weaken [OF inv_reads(3)]
        inv_weaken [OF inv_reads(4)] inv_weaken [OF others] inv_weaken [OF inv_afterOrderCommit] inv_weaken [OF inv_outside(3)])
qed

section \<open>Cancelling\<close>

lemma look_order_sig: "look_order d k = Some r \<Longrightarrow> order_sig r \<in> order_sig ` set (orders d)"
  using look_order_SomeD by blast

lemma inv_given_saveOrder:
  assumes "order_sig r \<in> os" and "o_paymentId r = None" and "o_status r \<noteq> PENDING"
  shows "moves_by (inv_with E us os xs) (saveOrder r)"
  using inv_put_order assms by (auto simp: moves_by_def inv_with_def known_def clashes_def)

lemma order_sig_status [simp]: "order_sig (r\<lparr>o_status := st\<rparr>) = order_sig r"
  by (simp add: order_sig_def)

lemma lockAndRestore_orders: "lockAndRestore E its ids w = (r, w') \<Longrightarrow> orders (w_db w') = orders (w_db w) \<and> w_next w' = w_next w"
  by (auto simp: lockAndRestore_def findByIdsWithLock_def saveProducts_def bind_s_def split: option.splits if_splits)

text \<open>A current row whose status moves on to a cancellation.\<close>
lemma inv_cancelled_row:
  assumes look: "look_order (w_db w) k = Some r"
  shows "inv_step E w (db_update (put_order now (r\<lparr>o_status := CANCELLED\<rparr>)) w)"
proof (rule inv_put_order)
  assume okw: "ok E w"
  have r: "r \<in> set (orders (w_db w))" using look_order_SomeD [OF look] by blast
  have u: "uniq o_id (orders (w_db w))" "uniq_opt o_paymentId (orders (w_db w))" using okw by (simp_all add: ok_def wf_db_def)
  have "\<not> clashes o_id o_paymentId r (orders (w_db w))"
    by (rule stored_no_clash [OF u r])
  then show "order_sig (r\<lparr>o_status := CANCELLED\<rparr>) \<in> order_sig ` set (orders (w_db w)) \<and>
      \<not> clashes o_id o_paymentId (r\<lparr>o_status := CANCELLED\<rparr>) (orders (w_db w)) \<and>
      (o_status (r\<lparr>o_status := CANCELLED\<rparr>) = PENDING \<longrightarrow> o_paymentId (r\<lparr>o_status := CANCELLED\<rparr>) = None)"
    using r by (simp add: clashes_def)
qed

lemma forward_lockAndRestore: "moves_by forward (executeCancelTransaction E orderId userId)"
  unfolding executeCancelTransaction_def Let_def lockAndRestore_def
  by (intro forward.rules forward_parts) (simp_all add: moves_by_def forward_def)

lemma inv_executeCancelTransaction: "moves_by (inv_step E) (executeCancelTransaction E2 orderId userId)"
proof (rule moves_byI)
  fix w r w' assume run: "executeCancelTransaction E2 orderId userId w = (r, w')"
  show "inv_step E w w'"
  proof (cases r)
    case (Inl e)
    then have "w_db w' = w_db w" using run transaction_Inl unfolding executeCancelTransaction_def by blast
    then show ?thesis using moves_byD [OF forward_lockAndRestore run] by (simp add: forward_def inv_core)
  next
    case (Inr v)
    obtain x w1 where look: "look_order (w_db w) orderId = Some x"
      and res: "lockAndRestore E2 (order_qty (w_db w) orderId) (js_uniq (map si_productId (order_qty (w_db w) orderId))) w = (Inr (), w1)"
      and w': "w' = db_update (put_order (w_now w1) (x\<lparr>o_status := CANCELLED\<rparr>)) w1"
      by (rule executeCancelTransaction_Inr [OF run [unfolded Inr]])
    have "look_order (w_db w1) orderId = Some x"
      using look lockAndRestore_orders [OF res] by (simp add: look_order_def)
    then have "inv_step E w1 w'" unfolding w' by (rule inv_cancelled_row)
    then show ?thesis using moves_byD [OF inv_stock(2) res] inv.trans by blast
  qed
qed

lemma inv_cancelOrder: "moves_by (inv_step E) (cancelOrder E2 usr orderId ctx)"
  unfolding cancelOrder_def by (intro inv_basic inv_executeCancelTransaction)

section \<open>Processing\<close>

lemma inv_insertProcessedMessage: "moves_by (inv_step E) (insertProcessedMessage pl)"
proof (rule moves_byI)
  fix w r w' assume run: "insertProcessedMessage pl w = (r, w')"
  show "inv_step E w w'"
  proof (cases r)
    case (Inl e)
    then show ?thesis using insertProcessedMessage_Inl run inv.refl by blast
  next
    case (Inr u)
    then have new: "\<not> (\<exists>x \<in> set (processed_messages (w_db w)). pm_messageId x = pp_messageId pl)"
      "pp_correlationId pl = None \<or> \<not> (\<exists>x \<in> set (processed_messages (w_db w)). pm_idempotencyKey x = pp_correlationId pl)"
      using run by (auto simp: insertProcessedMessage_def split: if_splits)
    let ?rows = "processed_messages (w_db w) @ [new_processed_message (w_now w) pl]"
    have "uniq_opt pm_idempotencyKey ?rows" if "uniq_opt pm_idempotencyKey (processed_messages (w_db w))"
      using that new(2) by (auto simp: uniq_opt_def new_processed_message_def)
    then show ?thesis using insertProcessedMessage_Inr [OF run [unfolded Inr]] new(1)
      by (auto simp: inv_step_def ok_def grows_def wf_db_def fresh_ids_def db_ids_def new_processed_message_def)
  qed
qed

lemma inv_find_order_row: "moves_by (inv_step E) (find_order_row E2 i)"
  by (rule inv.reads) (simp add: find_order_row_def)

lemma inv_processTransaction:
  assumes rely: "\<And>w. inv_step E w (e_others E2 w)"
  shows "moves_by (inv_step E) (processTransaction E2 pl)"
proof -
  have others: "moves_by (inv_step E) (modify_s (e_others E2))" using rely by (simp add: moves_by_def)
  show ?thesis unfolding processTransaction_def
  proof (rule inv.transaction, rule inv.bind [OF inv.gets], rule inv.branch [OF inv.return],
      rule inv.bind [OF inv.catch], goal_cases)
    case (3 already inserted)
    show ?case
    proof (rule inv.branch [OF inv.return], rule inv_bind_where [OF inv_find_order_row, where us = "\<lambda>_. {}" and
        os = "\<lambda>row. case row of None \<Rightarrow> {} | Some r \<Rightarrow> {order_sig r}" and xs = "\<lambda>_. {}" and
        Q = "\<lambda>row. \<forall>r. row = Some r \<longrightarrow> o_status r = PENDING \<longrightarrow> o_paymentId r = None"])
      fix row w w1 assume okw: "ok E w" and run: "find_order_row E2 (pp_orderId pl) w = (Inr row, w1)"
      then have look: "row = look_order (w_db w) (pp_orderId pl)" "w1 = w" by (auto simp: find_order_row_def split: if_splits)
      have "pending_unpaid (orders (w_db w))" using okw by (simp add: ok_def wf_db_def)
      then show "(\<forall>r. row = Some r \<longrightarrow> o_status r = PENDING \<longrightarrow> o_paymentId r = None) \<and>
          known E {} (case row of None \<Rightarrow> {} | Some r \<Rightarrow> {order_sig r}) {} w1"
        using look by (auto simp: known_def pending_unpaid_def dest: look_order_SomeD look_order_sig split: option.split)
    next
      fix row :: "order option" assume q: "\<forall>r. row = Some r \<longrightarrow> o_status r = PENDING \<longrightarrow> o_paymentId r = None"
      show "moves_by (inv_with E {} (case row of None \<Rightarrow> {} | Some r \<Rightarrow> {order_sig r}) {})
         (case row of None \<Rightarrow> throw_s (http_exn NotFound (''Order '' @ in_dq (pp_orderId pl) @ '' not found''))
          | Some r \<Rightarrow> if o_status r \<noteq> PENDING then return_s None
              else if e_config E2 ''RABBITMQ_SIMULATE_FAILURE'' = Some ''true'' then throw_s (PlainError ''Simulated processing failure'')
              else bind_s (modify_s (e_others E2)) (\<lambda>_. bind_s (saveOrder (r\<lparr>o_status := PROCESSED\<rparr>))
                     (\<lambda>_. return_s (Some (r\<lparr>o_status := PROCESSED\<rparr>)))))"
      proof (cases row)
        case (Some r)
        show ?thesis
        proof (cases "o_status r = PENDING")
          case True
          then show ?thesis using q Some by (auto intro!: inv_given.rules inv_given_saveOrder inv_weaken [OF others])
        qed (simp add: Some inv_given.return)
      qed (simp add: inv_given.throw)
    qed
  qed (intro inv_basic inv_insertProcessedMessage)+
qed

lemma inv_grpc_authorize: "moves_by (inv_step E) (grpc_authorize E2 fire req)"
  by (rule moves_byI, rule inv_core) (auto dest!: grpc_authorize_frame simp: grpc_authorize_def grpc_call_def split: sum.splits if_splits)

lemma inv_mark_paid: "moves_by (inv_step E) (mark_paid i pid)"
proof (rule moves_byI)
  fix w r w' assume run: "mark_paid i pid w = (r, w')"
  show "inv_step E w w'"
  proof (cases r)
    case (Inl e)
    then have "w' = w" using run by (auto simp: mark_paid_def split: if_splits)
    then show ?thesis by (simp add: inv.refl)
  next
    case (Inr u)
    let ?rows = "orders (w_db w)" let ?up = "\<lambda>n. update_rows (\<lambda>r. o_id r = i) (paid_order n pid) ?rows"
    have free: "\<not> ((\<exists>x \<in> set ?rows. o_id x = i) \<and> (\<exists>x \<in> set ?rows. o_id x \<noteq> i \<and> o_paymentId x = Some pid))"
      using run Inr by (auto simp: mark_paid_def split: if_splits)
    have "map order_sig (?up n) = map order_sig ?rows" for n
      by (rule map_update_rows) (simp add: order_sig_def paid_order_def)
    moreover have "uniq_opt o_paymentId (?up n) \<and> pending_unpaid (?up n)" if "ok E w" for n
    proof -
      have u: "uniq o_id ?rows" "uniq_opt o_paymentId ?rows" "pending_unpaid ?rows" using that by (simp_all add: ok_def wf_db_def)
      have "uniq o_id (?up n)" using u(1) by (simp add: uniq_update paid_order_def)
      note paid = uniq_opt_iff [OF this, of o_paymentId]
      have old: "o_id x = o_id y" if "x \<in> set ?rows" "y \<in> set ?rows" "o_paymentId x \<noteq> None" "o_paymentId x = o_paymentId y" for x y
        by (rule uniq_optD [OF u(1,2) that])
      have row: "\<exists>x \<in> set ?rows. o_id y = o_id x \<and> (if o_id x = i then o_paymentId y = Some pid \<and> o_status y \<noteq> PENDING else y = x)"
        if "y \<in> set (?up n)" for y
        using that by (auto simp: update_rows_def paid_order_def)
      have "o_id x = o_id y" if xy: "x \<in> set (?up n)" "y \<in> set (?up n)" "o_paymentId x \<noteq> None" "o_paymentId x = o_paymentId y" for x y
      proof -
        from row [OF xy(1)] obtain x' where x': "x' \<in> set ?rows" "o_id x = o_id x'"
          "if o_id x' = i then o_paymentId x = Some pid \<and> o_status x \<noteq> PENDING else x = x'" by (elim bexE conjE)
        from row [OF xy(2)] obtain y' where y': "y' \<in> set ?rows" "o_id y = o_id y'"
          "if o_id y' = i then o_paymentId y = Some pid \<and> o_status y \<noteq> PENDING else y = y'" by (elim bexE conjE)
        show ?thesis
        proof (cases "o_id x' = i"; cases "o_id y' = i")
          assume "o_id x' \<noteq> i" "o_id y' \<noteq> i"
          then have "x = x'" "y = y'" using x'(3) y'(3) by simp_all
          then show ?thesis using old [of x y] x'(1) y'(1) xy(3,4) by blast
        next
          assume i: "o_id x' = i" "o_id y' \<noteq> i"
          then have "o_paymentId x = Some pid" "y = y'" using x'(3) y'(3) by simp_all
          then show ?thesis using free xy(4) x'(1) y'(1) i by metis
        next
          assume i: "o_id x' \<noteq> i" "o_id y' = i"
          then have "o_paymentId y = Some pid" "x = x'" using x'(3) y'(3) by simp_all
          then show ?thesis using free xy(4) x'(1) y'(1) i by metis
        qed (use x' y' in simp)
      qed
      moreover have "pending_unpaid (?up n)"
        unfolding pending_unpaid_def
      proof (intro ballI impI)
        fix y assume "y \<in> set (?up n)" and st: "o_status y = PENDING"
        then obtain x where "x \<in> set ?rows" "if o_id x = i then o_paymentId y = Some pid \<and> o_status y \<noteq> PENDING else y = x"
          using row by blast
        then show "o_paymentId y = None" using st u(3) by (simp add: pending_unpaid_def split: if_splits)
      qed
      ultimately show ?thesis unfolding paid by blast
    qed
    ultimately show ?thesis using mark_paid_Inr [OF run [unfolded Inr]] by (intro inv_orders_sig) simp_all
  qed
qed

lemma inv_authorizePayment: "moves_by (inv_step E) (authorizePayment E2 P ord)"
  unfolding authorizePayment_def by (intro inv_basic inv_grpc_authorize inv_mark_paid)

lemma inv_processOrderMessage:
  assumes "\<And>w. inv_step E w (e_others E2 w)"
  shows "moves_by (inv_step E) (processOrderMessage E2 P pl)"
  unfolding processOrderMessage_def by (intro inv_basic inv_authorizePayment inv_processTransaction [OF assms])

end
