(* ===== verification/Account_Invariant.thy ===== *)
theory Account_Invariant
  imports Db_Invariant Auth_Theorems Cart_Theorems Order_Invariant
begin

text \<open>
  The cart, the tokens and the accounts keep the database well-formed.
\<close>

section \<open>The cart\<close>

lemma inv_new_cart:
  assumes "i = e_uuid E (w_next w)" and "\<not> (\<exists>c \<in> set (carts (w_db w)). c_userId c = k)" and "k \<in> u_id ` set (users (w_db w))"
  shows "inv_step E w (db_update (\<lambda>d. d\<lparr>carts := carts d @ [\<lparr>c_id = i, c_userId = k, c_createdAt = t, c_updatedAt = t2\<rparr>]\<rparr>)
     (w\<lparr>w_next := w_next w + 1\<rparr>))"
  by (rule inv_stepI) (use assms in \<open>auto simp: wf_db_def db_ids_def elim!: refers_mono\<close>)

lemma inv_insertCart: "moves_by (inv_step E) (insertCart E userId)"
proof (rule moves_byI)
  fix w r w' assume run: "insertCart E userId w = (r, w')"
  show "inv_step E w w'"
  proof (cases "isl r")
    case True
    then have "w' = w" using run by (auto simp: insertCart_def split: if_splits)
    then show ?thesis by (simp add: inv.refl)
  next
    case False
    then have "userId \<in> u_id ` set (users (w_db w))" using run by (auto simp: insertCart_def split: if_splits)
    then show ?thesis using False run inv_new_cart [OF refl, where k = userId] by (auto simp: insertCart_def split: if_splits)
  qed
qed

lemma inv_set_quantity:
  "inv_step E w (db_update (\<lambda>d. d\<lparr>cart_items := update_rows P (\<lambda>i. i\<lparr>ci_quantity := q\<rparr>) (cart_items d)\<rparr>) w)"
  by (rule inv_stepI) (simp_all add: wf_db_def db_ids_def uniq_update refers_update update_rows_image)

lemma inv_insert_item:
  assumes "i = e_uuid E (w_next w)" and "\<not> (\<exists>x \<in> set (cart_items (w_db w)). ci_cartId x = c \<and> ci_productId x = p)"
    and "c \<in> c_id ` set (carts (w_db w))" and "p \<in> p_id ` set (products (w_db w))"
  shows "inv_step E w (db_update (\<lambda>d. d\<lparr>cart_items := cart_items d @
     [\<lparr>ci_id = i, ci_cartId = c, ci_productId = p, ci_quantity = q, ci_addedAt = t\<rparr>]\<rparr>) (w\<lparr>w_next := w_next w + 1\<rparr>))"
  by (rule inv_stepI) (use assms in \<open>auto simp: wf_db_def db_ids_def\<close>)

lemma inv_upsert_item: "moves_by (inv_step E) (upsert_item E cartId productId q)"
proof (rule moves_byI)
  fix w r w' assume run: "upsert_item E cartId productId q w = (r, w')"
  show "inv_step E w w'"
  proof (cases "isl r")
    case True
    then have "w' = w" using run by (auto simp: upsert_item_def Let_def split: if_splits)
    then show ?thesis by (simp add: inv.refl)
  next
    case False
    then show ?thesis using run inv_set_quantity [of E w] inv_insert_item [OF refl, where c = cartId and p = productId]
      by (auto simp: upsert_item_def Let_def split: if_splits)
  qed
qed

lemma inv_remove_items: "moves_by (inv_step E) (modify_s (db_update (remove_items ids)))"
  by (rule inv.modify, rule inv_stepI)
     (auto simp: remove_items_def wf_db_def db_ids_def uniq_delete refers_delete)

text \<open>Saving a loaded item, whose identifier was issued before.\<close>
lemma inv_given_saveItem: "moves_by (inv_with E us os {ci_id i}) (saveItem i)"
proof (rule moves_byI)
  fix w r w' assume run: "saveItem i w = (r, w')"
  show "inv_with E us os {ci_id i} w w'"
  proof (cases "isl r \<or> (\<exists>x \<in> set (cart_items (w_db w)). ci_id x = ci_id i)")
    case True
    then show ?thesis using run inv_set_quantity
      by (auto simp: saveItem_def Let_def inv_with_def inv.refl split: if_splits)
  next
    case False
    then have ex: "\<exists>c \<in> set (carts (w_db w)). c_id c = ci_cartId i" "\<exists>p \<in> set (products (w_db w)). p_id p = ci_productId i"
      and pair: "\<not> (\<exists>x \<in> set (cart_items (w_db w)). ci_cartId x = ci_cartId i \<and> ci_productId x = ci_productId i)"
      and w': "w' = db_update (\<lambda>d. d\<lparr>cart_items := cart_items d @ [i]\<rparr>) w"
      using run by (auto simp: saveItem_def Let_def split: if_splits)
    have fk: "ci_cartId i \<in> c_id ` set (carts (w_db w))" "ci_productId i \<in> p_id ` set (products (w_db w))"
      using ex by (metis image_eqI)+
    have wf: "wf_db (w_db w')" if "wf_db (w_db w)"
      using that False fk pair by (auto simp: w' wf_db_def)
    have "db_ids (w_db w') \<subseteq> insert (ci_id i) (db_ids (w_db w))" by (auto simp: w' db_ids_def)
    then show ?thesis using wf by (auto simp: inv_with_def known_def inv_step_def ok_def fresh_ids_def grows_def w')
  qed
qed

lemma inv_findCart:
  "moves_by (inv_step E) (findCartWithItemsOrFail userId)" "moves_by (inv_step E) (cart_answer userId)"
  "moves_by (inv_step E) (findOwnedCartItem userId itemId)"
  by (rule inv.reads; auto simp: findCartWithItemsOrFail_def cart_answer_def findOwnedCartItem_def bind_s_def
      split: option.split)+

section \<open>Tokens\<close>

lemma createOpaque_pair: "\<exists>s h. createOpaqueToken A n k = (s, h)"
  by fastforce

lemma inv_createRefreshToken: "moves_by (inv_step E) (createRefreshToken A E userId)"
proof (rule moves_byI)
  fix w r w' assume run: "createRefreshToken A E userId w = (r, w')"
  obtain s h where sh: "createOpaqueToken A REFRESH_TOKEN_SECRET_BYTES (w_next w) = (s, h)" using createOpaque_pair by blast
  show "inv_step E w w'"
  proof (cases "user_row (w_db w) userId")
    case True
    then have u: "userId \<in> u_id ` set (users (w_db w))" by (auto simp: user_row_def)
    define row where "row = \<lparr>rt_id = e_uuid E (w_next w), rt_userId = userId, rt_tokenHash = h,
      rt_expiresAt = js_now w + az_refresh_ttl_ms A * 1000, rt_revokedAt = None, rt_createdAt = w_now w\<rparr>"
    then have row: "rt_id row = e_uuid E (w_next w)" "rt_userId row = userId" by simp_all
    have w': "w' = db_update (\<lambda>d. d\<lparr>refresh_tokens := refresh_tokens d @ [row]\<rparr>) (w\<lparr>w_next := w_next w + 1\<rparr>)"
      using run sh True by (simp add: createRefreshToken_def Let_def row_def)
    show ?thesis
    proof (rule inv_stepI)
      assume "wf_db (w_db w)" "e_uuid E (w_next w) \<notin> db_ids (w_db w)"
      then show "wf_db (w_db w')" using u by (simp add: w' row wf_db_def db_ids_def)
    qed (auto simp: w' row db_ids_def)
  qed (use run sh inv.refl in \<open>simp add: createRefreshToken_def Let_def\<close>)
qed

lemma inv_revoke: "inv_step E w (db_update (\<lambda>d. d\<lparr>refresh_tokens := update_rows P (revoke n) (refresh_tokens d)\<rparr>) w)"
  by (rule inv_stepI) (simp_all add: wf_db_def db_ids_def revoke_def uniq_update refers_update update_rows_image)

lemma inv_sessions:
  "moves_by (inv_step E) (revokeAllUserTokens userId)" "moves_by (inv_step E) (revokeRefreshToken i)"
  using inv_revoke by (auto simp: moves_by_def revokeAllUserTokens_def revokeRefreshToken_def)

definition known_table :: "token_table \<Rightarrow> bool" where
  "known_table T \<longleftrightarrow> T = reset_table \<or> T = verification_table"

lemma inv_issue_one_time:
  assumes T: "known_table T"
  shows "moves_by (inv_step E) (issue_one_time T A E ttl userId)"
proof (rule moves_byI)
  fix w r w' assume run: "issue_one_time T A E ttl userId w = (r, w')"
  obtain s h where sh: "createOpaqueToken A ONE_TIME_TOKEN_SECRET_BYTES (w_next w) = (s, h)" using createOpaque_pair by blast
  show "inv_step E w w'"
  proof (cases "user_row (w_db w) userId")
    case True
    then have u: "userId \<in> u_id ` set (users (w_db w))" by (auto simp: user_row_def)
    define row where "row = \<lparr>ot_id = e_uuid E (w_next w), ot_userId = userId, ot_tokenHash = h,
      ot_expiresAt = js_now w + ttl * 1000, ot_usedAt = None, ot_createdAt = w_now w\<rparr>"
    then have row: "ot_id row = e_uuid E (w_next w)" "ot_userId row = userId" by simp_all
    have w': "w' = db_update (\<lambda>d. tt_put T (tt_get T d @ [row]) d) (w\<lparr>w_next := w_next w + 1\<rparr>)"
      using run sh True by (simp add: issue_one_time_def Let_def row_def)
    from T consider "T = reset_table" | "T = verification_table" by (auto simp: known_table_def)
    then show ?thesis
    proof cases
      case 1
      show ?thesis
      proof (rule inv_stepI)
        assume "wf_db (w_db w)" "e_uuid E (w_next w) \<notin> db_ids (w_db w)"
        then show "wf_db (w_db w')" using u by (simp add: 1 reset_table_def w' row wf_db_def db_ids_def)
      qed (auto simp: 1 reset_table_def w' row db_ids_def)
    next
      case 2
      show ?thesis
      proof (rule inv_stepI)
        assume "wf_db (w_db w)" "e_uuid E (w_next w) \<notin> db_ids (w_db w)"
        then show "wf_db (w_db w')" using u by (simp add: 2 verification_table_def w' row wf_db_def db_ids_def)
      qed (auto simp: 2 verification_table_def w' row db_ids_def)
    qed
  qed (use run sh inv.refl in \<open>simp add: issue_one_time_def Let_def\<close>)
qed

lemma inv_use_one_time:
  assumes "known_table T"
  shows "inv_step E w (db_update (\<lambda>d. tt_put T (update_rows P (mark_used n) (tt_get T d)) d) w)"
proof -
  consider "T = reset_table" | "T = verification_table" using assms by (auto simp: known_table_def)
  then show ?thesis
    by cases (rule inv_stepI; simp add: reset_table_def verification_table_def wf_db_def db_ids_def mark_used_def
        uniq_update refers_update update_rows_image)+
qed

lemma inv_consume_one_time:
  assumes "known_table T" and rely: "\<And>w. inv_step E w (e_others E2 w)"
  shows "moves_by (inv_step E) (consume_one_time T still A E2 raw)"
proof -
  have "moves_by (inv_step E) (read_s f)" for f :: "world \<Rightarrow> exn + 'x" by (rule inv.reads) (simp add: read_s_def)
  then show ?thesis unfolding consume_one_time_def using assms inv_use_one_time
    by (intro inv.rules inv.modify) auto
qed

section \<open>The operations\<close>

lemma inv_cart_parts: "moves_by (inv_step E) (getOrCreateCartEntity E userId)"
  if "\<And>w. inv_step E w (e_others E w)"
  unfolding getOrCreateCartEntity_def using that by (intro inv.rules inv_insertCart inv_findCart inv.modify)

lemma inv_cart:
  assumes rely: "\<And>w. inv_step E w (e_others E w)"
  shows "moves_by (inv_step E) (getCart E userId)" "moves_by (inv_step E) (addItem E userId productId q)"
    "moves_by (inv_step E) (removeItem E userId itemId)" "moves_by (inv_step E) (clearCart E userId)"
    "moves_by (inv_step E) (checkout E userId key shipping ctx)"
proof -
  note parts = inv.rules inv_cart_parts [OF rely] inv_insertCart inv_findCart inv_upsert_item inv_remove_items
    inv.modify [of E "e_others E", OF rely] inv_createOrder [OF rely]
  show 1: "moves_by (inv_step E) (clearCart E userId)" unfolding clearCart_def by (intro parts)
  show "moves_by (inv_step E) (getCart E userId)" unfolding getCart_def by (intro parts)
  show "moves_by (inv_step E) (addItem E userId productId q)" unfolding addItem_def Let_def by (intro parts)
  show "moves_by (inv_step E) (removeItem E userId itemId)" unfolding removeItem_def by (intro parts)
  show "moves_by (inv_step E) (checkout E userId key shipping ctx)" unfolding checkout_def by (intro parts 1)
qed

lemma findOwnedCartItem_Inr:
  "findOwnedCartItem userId itemId w = (Inr (i, pr), w1) \<Longrightarrow> w1 = w \<and> i \<in> set (cart_items (w_db w))"
  by (auto simp: findOwnedCartItem_def findCartWithItems_def load_cart_def cart_items_of_def find_Some_iff
      split: option.splits bind_splits dest: nth_mem)

lemma inv_updateItem:
  assumes rely: "\<And>w. inv_step E w (e_others E w)"
  shows "moves_by (inv_step E) (updateItem E userId itemId q)"
  unfolding updateItem_def
proof (rule inv_bind_given [where us = "\<lambda>_. {}" and os = "\<lambda>_. {}" and xs = "\<lambda>x. {ci_id (fst x)}"], goal_cases)
  case 1
  show ?case by (rule inv_findCart)
next
  case (2 x)
  obtain i pr where x: "x = (i, pr)" by (cases x)
  have save: "moves_by (inv_with E {} {} {ci_id i}) (saveItem (i\<lparr>ci_quantity := q\<rparr>))"
    using inv_given_saveItem [of E _ _ "i\<lparr>ci_quantity := q\<rparr>"] by simp
  show ?case unfolding x prod.case fst_conv
    by (intro inv_given.rules save inv_weaken [OF inv.modify [OF rely]] inv_weaken [OF inv_findCart(2)])
next
  case (3 x w w1)
  then show ?case using findOwnedCartItem_Inr [of userId itemId w "fst x" "snd x" w1]
    by (auto simp: known_def ok_def fresh_ids_def db_ids_def)
qed

section \<open>Accounts\<close>

text \<open>A row of a user that keeps its key and its e-mail, and keeps or drops its avatar.\<close>
lemma inv_update_user:
  assumes "\<And>u. u_id (f u) = u_id u" and "\<And>u. u_email (f u) = u_email u"
    and "\<And>u. u_avatarId (f u) = u_avatarId u \<or> u_avatarId (f u) = None"
  shows "moves_by (inv_step E) (update_user k f)"
proof -
  have avatar: "refers_opt u_avatarId (update_rows (\<lambda>u. u_id u = k) (\<lambda>u. (f u)\<lparr>u_updatedAt := now\<rparr>) us) f_id fs"
    if "refers_opt u_avatarId us f_id fs" for us fs now
    using that by (rule refers_opt_update) (use assms(3) in \<open>simp, metis option.distinct(1)\<close>)
  show ?thesis unfolding update_user_def
    by (rule inv.modify, rule inv_stepI)
       (simp_all add: assms(1,2) avatar wf_db_def db_ids_def uniq_update update_rows_image refers_def)
qed

lemma inv_insertUser: "moves_by (inv_step E) (insertUser E email hash)"
proof (rule moves_byI)
  fix w r w' assume run: "insertUser E email hash w = (r, w')"
  show "inv_step E w w'"
  proof (cases "\<exists>x \<in> set (users (w_db w)). u_email x = email")
    case False
    let ?u = "new_user (e_uuid E (w_next w)) (w_now w) email hash"
    have w': "w' = db_update (\<lambda>d. d\<lparr>users := users d @ [?u]\<rparr>) (w\<lparr>w_next := w_next w + 1\<rparr>)"
      using run False by (auto simp: insertUser_def Let_def)
    have new: "u_id ?u = e_uuid E (w_next w)" "u_email ?u = email" "u_avatarId ?u = None" by (simp_all add: new_user_def)
    have more: "refers f xs g (users (w_db w)) \<Longrightarrow> refers f xs g (users (w_db w) @ [?u])" for f :: "'x \<Rightarrow> string" and xs g
      by (erule refers_mono) auto
    show ?thesis
    proof (rule inv_stepI)
      assume "wf_db (w_db w)" "e_uuid E (w_next w) \<notin> db_ids (w_db w)"
      moreover have "email \<notin> u_email ` set (users (w_db w))" using False by blast
      ultimately show "wf_db (w_db w')" by (simp add: w' new more wf_db_def db_ids_def)
    qed (auto simp: w' new db_ids_def)
  qed (use run inv.refl in \<open>simp add: insertUser_def Let_def\<close>)
qed

lemma inv_mail: "moves_by (inv_step E) (send_mail A E2 m)"
  by (rule moves_byI, rule inv_core) (use send_mail_frame in \<open>fastforce simp: core_def\<close>)+

lemma inv_generateAccessToken: "moves_by (inv_step E) (generateAccessToken A u)"
  by (rule inv.reads) (simp add: generateAccessToken_def)

lemma inv_read_s: "moves_by (inv_step E) (read_s f)"
  by (rule inv.reads) (simp add: read_s_def)

lemma inv_issue:
  "moves_by (inv_step E) (issuePasswordResetToken A E userId)" "moves_by (inv_step E) (issueVerificationToken A E userId)"
  unfolding issuePasswordResetToken_def issueVerificationToken_def
  by (rule inv_issue_one_time, simp add: known_table_def)+

lemma inv_accounts:
  assumes rely: "\<And>w. inv_step E w (e_others E w)"
  shows "moves_by (inv_step E) (signup A E dto ctx)" "moves_by (inv_step E) (signin A E email password ctx)"
    "moves_by (inv_step E) (refresh A E cookie)" "moves_by (inv_step E) (logout A E c actor ctx)"
    "moves_by (inv_step E) (resendVerification A E userId)" "moves_by (inv_step E) (verifyEmail A E token)"
    "moves_by (inv_step E) (forgotPassword A E email ctx)" "moves_by (inv_step E) (resetPassword A E rdto ctx)"
proof -
  have consume: "moves_by (inv_step E) (consumePasswordResetToken A E raw)" "moves_by (inv_step E) (consumeVerificationToken A E raw)" for raw
    unfolding consumePasswordResetToken_def consumeVerificationToken_def
    by (rule inv_consume_one_time [OF _ rely], simp add: known_table_def)+
  note parts = inv.rules inv_outside inv.modify [of E "e_others E", OF rely] inv_insertUser inv_mail inv_generateAccessToken
    inv_read_s inv_issue inv_createRefreshToken inv_sessions consume inv.modify [of E, OF inv_revoke]
  have send: "moves_by (inv_step E) (issueAndSendVerificationToken A E b u)" for b u
    unfolding issueAndSendVerificationToken_def sendVerificationEmail_def by (intro parts)
  have issue: "moves_by (inv_step E) (issueRefreshToken A E k)" for k unfolding issueRefreshToken_def by (intro parts)
  have build: "moves_by (inv_step E) (buildAuthResult A E u)" for u unfolding buildAuthResult_def by (intro parts issue)
  have rotate: "moves_by (inv_step E) (rotateRefreshToken A E c)" for c unfolding rotateRefreshToken_def by (intro parts)
  have upd: "moves_by (inv_step E) (update_user k (u_isEmailVerified_update f))"
    "moves_by (inv_step E) (update_user k (u_password_update g))" for k f g by (rule inv_update_user; simp)+
  show "moves_by (inv_step E) (signup A E dto ctx)" unfolding signup_def by (intro parts send)
  show "moves_by (inv_step E) (signin A E email password ctx)" unfolding signin_def by (intro parts build)
  show "moves_by (inv_step E) (refresh A E cookie)" unfolding refresh_def by (intro parts rotate)
  show "moves_by (inv_step E) (logout A E c actor ctx)" unfolding logout_def by (intro parts)
  show "moves_by (inv_step E) (resendVerification A E userId)" unfolding resendVerification_def by (intro parts send)
  show "moves_by (inv_step E) (verifyEmail A E token)" unfolding verifyEmail_def by (intro parts upd)
  show "moves_by (inv_step E) (forgotPassword A E email ctx)"
    unfolding forgotPassword_def Let_def sendPasswordResetEmail_def by (intro parts)
  show "moves_by (inv_step E) (resetPassword A E rdto ctx)" unfolding resetPassword_def by (intro parts upd)
qed

end
