(* ===== verification/Files.thy ===== *)
theory Files
  imports Store Sample_World
begin

text \<open>
  \<^verbatim>\<open>files\<close>: the records of uploaded files and the object store. The AWS client is a parameter:
  \<open>s3_send\<close> is what the store answers to a command sent by a client, \<open>s3_sign\<close> the URL its
  presigner makes of a command. The constructor of \<^verbatim>\<open>S3Service\<close>, which reads the configuration and
  builds two clients, and every operation of \<^verbatim>\<open>FilesService\<close> are translated.
\<close>

section \<open>The object store\<close>

datatype s3_command =
  HeadObject string string
| GetObject string string
| PutObject string rat string string
| HeadBucket string

record s3_client =
  cl_credentials :: "(string \<times> string) option"
  cl_endpoint :: "string option"
  cl_forcePathStyle :: bool
  cl_region :: string

text \<open>What the client throws: the name, the HTTP status of the answer, the message.\<close>
record s3_error =
  se_name :: "string option"
  se_status :: "nat option"
  se_message :: string

text \<open>The configuration \<^verbatim>\<open>S3Service\<close> reads, and the library.\<close>
record s3_env =
  s3_string :: "string \<Rightarrow> string option"
  s3_number :: "string \<Rightarrow> rat option"
  s3_send :: "s3_client \<Rightarrow> s3_command \<Rightarrow> world \<Rightarrow> s3_error option"
  s3_sign :: "s3_client \<Rightarrow> s3_command \<Rightarrow> rat \<Rightarrow> micros \<Rightarrow> exn + string"

record s3_service =
  sv_bucket :: string
  sv_region :: string
  sv_endpoint :: "string option"
  sv_forcePathStyle :: bool
  sv_expiresInSeconds :: rat
  sv_downloadExpiresInSeconds :: rat
  sv_cloudfrontBaseUrl :: "string option"
  sv_client :: s3_client
  sv_presignClient :: s3_client

text \<open>An empty string is no endpoint for the client but is not replaced by \<^verbatim>\<open>??\<close>; the two required
  variables are there once the environment was validated.\<close>
definition new_S3Service :: "s3_env \<Rightarrow> exn + s3_service" where
  "new_S3Service S =
     (let get = s3_string S;
          bucket = (case get ''AWS_S3_BUCKET'' of Some b \<Rightarrow> b | None \<Rightarrow> ''undefined'');
          region = (case get ''AWS_REGION'' of Some r \<Rightarrow> r | None \<Rightarrow> ''undefined'');
          endpoint = get ''AWS_S3_ENDPOINT'';
          force = (get ''AWS_S3_FORCE_PATH_STYLE'' = Some ''true'');
          expires = (case s3_number S ''AWS_S3_PRESIGNED_URL_EXPIRATION'' of Some n \<Rightarrow> n | None \<Rightarrow> 900);
          download = (case s3_number S ''AWS_S3_PRESIGNED_URL_DOWNLOAD_EXPIRATION'' of Some n \<Rightarrow> n | None \<Rightarrow> 3600);
          accessKeyId = truthy (get ''AWS_ACCESS_KEY_ID'');
          secretAccessKey = truthy (get ''AWS_SECRET_ACCESS_KEY'')
      in if (accessKeyId = None) \<noteq> (secretAccessKey = None)
         then Inl (PlainError ''AWS_ACCESS_KEY_ID and AWS_SECRET_ACCESS_KEY must be provided together when using explicit S3 credentials.'')
         else
           (let credentials = (case (accessKeyId, secretAccessKey) of (Some a, Some s) \<Rightarrow> Some (a, s) | _ \<Rightarrow> None);
                client = (\<lambda>e. \<lparr>cl_credentials = credentials, cl_endpoint = e, cl_forcePathStyle = force, cl_region = region\<rparr>);
                public = get ''AWS_S3_PUBLIC_ENDPOINT''
            in Inr \<lparr>sv_bucket = bucket, sv_region = region, sv_endpoint = endpoint, sv_forcePathStyle = force,
                    sv_expiresInSeconds = expires, sv_downloadExpiresInSeconds = download,
                    sv_cloudfrontBaseUrl = get ''AWS_CLOUDFRONT_URL'', sv_client = client endpoint,
                    sv_presignClient = client (if public = None then endpoint else public)\<rparr>))"

text \<open>A missing object is an answer, everything else is thrown on.\<close>
definition checkFileExists :: "s3_env \<Rightarrow> s3_service \<Rightarrow> string \<Rightarrow> bool act" where
  "checkFileExists S sv key w = (case s3_send S (sv_client sv) (HeadObject (sv_bucket sv) key) w of
     None \<Rightarrow> (Inr True, w)
   | Some e \<Rightarrow> if se_name e = Some ''NotFound'' \<or> se_status e = Some 404 then (Inr False, w)
       else (Inl (PlainError (se_message e)), w))"

definition s3_getPresignedDownloadUrl :: "s3_env \<Rightarrow> s3_service \<Rightarrow> string \<Rightarrow> (string \<times> rat) act" where
  "s3_getPresignedDownloadUrl S sv key w =
     (case s3_sign S (sv_presignClient sv) (GetObject (sv_bucket sv) key) (sv_downloadExpiresInSeconds sv) (w_now w) of
        Inl e \<Rightarrow> (Inl e, w)
      | Inr downloadUrl \<Rightarrow> (Inr (downloadUrl, sv_downloadExpiresInSeconds sv), w))"

definition getPresignedUploadUrl :: "s3_env \<Rightarrow> s3_service \<Rightarrow> string \<Rightarrow> string \<Rightarrow> rat \<Rightarrow> (rat \<times> string) act" where
  "getPresignedUploadUrl S sv contentType key bytes w =
     (case s3_sign S (sv_presignClient sv) (PutObject (sv_bucket sv) bytes contentType key) (sv_expiresInSeconds sv) (w_now w) of
        Inl e \<Rightarrow> (Inl e, w)
      | Inr url \<Rightarrow> (Inr (sv_expiresInSeconds sv, url), w))"

definition getPublicUrl :: "s3_service \<Rightarrow> string \<Rightarrow> string" where
  "getPublicUrl sv key =
     (case truthy (sv_cloudfrontBaseUrl sv) of
        Some base \<Rightarrow> base @ ''/'' @ key
      | None \<Rightarrow> (case (sv_forcePathStyle sv, truthy (sv_endpoint sv)) of
          (True, Some endpoint) \<Rightarrow> endpoint @ ''/'' @ sv_bucket sv @ ''/'' @ key
        | _ \<Rightarrow> ''https://'' @ sv_bucket sv @ ''.s3.'' @ sv_region sv @ ''.amazonaws.com/'' @ key))"

definition s3_healthCheck :: "s3_env \<Rightarrow> s3_service \<Rightarrow> unit act" where
  "s3_healthCheck S sv w = (case s3_send S (sv_client sv) (HeadBucket (sv_bucket sv)) w of
     None \<Rightarrow> (Inr (), w) | Some e \<Rightarrow> (Inl (PlainError (se_message e)), w))"

section \<open>Upload requests\<close>

definition ALLOWED_IMAGE_MIME_TYPES :: "string list" where
  "ALLOWED_IMAGE_MIME_TYPES = [''image/jpeg'', ''image/jpg'', ''image/png'', ''image/webp'']"

definition MAX_FILE_SIZE_BYTES :: nat where "MAX_FILE_SIZE_BYTES = 10 * 1024 * 1024"
definition MIN_FILE_SIZE_BYTES :: nat where "MIN_FILE_SIZE_BYTES = 1"

record presigned_upload_dto =
  pu_contentType :: string
  pu_entityId :: uuid
  pu_entityType :: string
  pu_size :: rat

definition presigned_upload_dto_valid :: "(string \<Rightarrow> bool) \<Rightarrow> presigned_upload_dto \<Rightarrow> bool" where
  "presigned_upload_dto_valid isUUID dto \<longleftrightarrow>
     pu_contentType dto \<in> set ALLOWED_IMAGE_MIME_TYPES \<and> isUUID (pu_entityId dto) \<and>
     pu_entityType dto \<in> set [''product'', ''user''] \<and>
     of_nat MIN_FILE_SIZE_BYTES \<le> pu_size dto \<and> pu_size dto \<le> of_nat MAX_FILE_SIZE_BYTES"

definition getFileExtension :: "string \<Rightarrow> string" where
  "getFileExtension contentType =
     (case map_of [(''image/jpeg'', ''.jpeg''), (''image/jpg'', ''.jpg''), (''image/png'', ''.png''), (''image/webp'', ''.webp'')]
             contentType of Some ext \<Rightarrow> ext | None \<Rightarrow> [])"

definition object_key :: "uuid \<Rightarrow> presigned_upload_dto \<Rightarrow> uuid \<Rightarrow> string" where
  "object_key ownerId dto fileId =
     (let extension = getFileExtension (pu_contentType dto) in
      if pu_entityType dto = ''product'' then ''products/'' @ pu_entityId dto @ ''/images/'' @ fileId @ extension
      else if pu_entityType dto = ''user'' then ''users/'' @ ownerId @ ''/avatars/'' @ fileId @ extension
      else ''misc/'' @ ownerId @ ''/'' @ fileId @ extension)"

definition getObjectKey :: "env \<Rightarrow> uuid \<Rightarrow> presigned_upload_dto \<Rightarrow> string act" where
  "getObjectKey E ownerId dto = bind_s (fresh_uuid E) (\<lambda>fileId. return_s (object_key ownerId dto fileId))"

section \<open>File records\<close>

definition look_file :: "db \<Rightarrow> uuid \<Rightarrow> file_record option" where
  "look_file d k = find_row f_id k (file_records d)"

text \<open>The row after a save: a change moves the update stamp.\<close>
definition stored_file :: "micros \<Rightarrow> db \<Rightarrow> file_record \<Rightarrow> file_record" where
  "stored_file now d f = (if look_file d (f_id f) = Some f then f else f\<lparr>f_updatedAt := now\<rparr>)"

definition put_file :: "micros \<Rightarrow> file_record \<Rightarrow> db \<Rightarrow> db" where
  "put_file now f d = d\<lparr>file_records := save_row f_id (stored_file now d f) (file_records d)\<rparr>"

definition save_file :: "file_record \<Rightarrow> file_record act" where
  "save_file f w = (Inr (stored_file (w_now w) (w_db w) f), db_update (put_file (w_now w) f) w)"

definition new_file :: "uuid \<Rightarrow> micros \<Rightarrow> string \<Rightarrow> uuid \<Rightarrow> presigned_upload_dto \<Rightarrow> string \<Rightarrow> file_record" where
  "new_file i now bucket userId dto key =
     \<lparr>f_id = i, f_bucket = bucket, f_key = key, f_contentType = pu_contentType dto, f_size = \<lfloor>pu_size dto\<rfloor>,
      f_ownerId = userId, f_entityId = Some (pu_entityId dto), f_status = FILE_PENDING, f_visibility = PRIVATE_FILE,
      f_completedAt = None, f_createdAt = now, f_updatedAt = now\<rparr>"

text \<open>The INSERT: the size is a bigint, the owner references a user.\<close>
definition insert_file :: "env \<Rightarrow> s3_service \<Rightarrow> uuid \<Rightarrow> presigned_upload_dto \<Rightarrow> string \<Rightarrow> file_record act" where
  "insert_file E sv userId dto key w =
     (let f = new_file (e_uuid E (w_next w)) (w_now w) (sv_bucket sv) userId dto key
      in if of_int \<lfloor>pu_size dto\<rfloor> \<noteq> pu_size dto
         then (Inl (QueryFailed ''22P02'' ''invalid input syntax for type bigint''), w)
         else if \<not> (\<exists>u \<in> set (users (w_db w)). u_id u = userId) then (Inl (fk_violation ''file_records_owner_id''), w)
         else (Inr f, db_update (\<lambda>d. d\<lparr>file_records := file_records d @ [f]\<rparr>) (w\<lparr>w_next := w_next w + 1\<rparr>)))"

record file_upload_view =
  fu_contentType :: string
  fu_expiresInSeconds :: rat
  fu_fileId :: uuid
  fu_key :: string
  fu_status :: file_status
  fu_uploadMethod :: string
  fu_uploadUrl :: string

text \<open>A bigint column is loaded as a string.\<close>
record file_view =
  fv_bucket :: string
  fv_completedAt :: "micros option"
  fv_contentType :: string
  fv_createdAt :: micros
  fv_fileId :: uuid
  fv_id :: uuid
  fv_key :: string
  fv_ownerId :: uuid
  fv_publicUrl :: string
  fv_size :: json
  fv_status :: file_status
  fv_updatedAt :: micros

section \<open>Operations\<close>

definition findFileRecordOrFail :: "uuid \<Rightarrow> world \<Rightarrow> exn + file_record" where
  "findFileRecordOrFail fileId w = (case look_file (w_db w) fileId of
     None \<Rightarrow> Inl (http_exn NotFound (''File record with ID '' @ fileId @ '' not found''))
   | Some f \<Rightarrow> Inr f)"

definition checkIsOwner :: "file_record \<Rightarrow> uuid \<Rightarrow> exn + unit" where
  "checkIsOwner f userId =
     (if f_ownerId f \<noteq> userId then Inl (http_exn Forbidden ''You do not have access to this file'') else Inr ())"

definition getPresignedDownloadUrl :: "s3_env \<Rightarrow> s3_service \<Rightarrow> file_record \<Rightarrow> string act" where
  "getPresignedDownloadUrl S sv f =
     bind_s (s3_getPresignedDownloadUrl S sv (f_key f)) (\<lambda>(downloadUrl, _). return_s downloadUrl)"

definition getFileRecordData :: "s3_env \<Rightarrow> s3_service \<Rightarrow> file_record \<Rightarrow> file_view act" where
  "getFileRecordData S sv f =
     bind_s (getPresignedDownloadUrl S sv f) (\<lambda>publicUrl.
     return_s \<lparr>fv_bucket = f_bucket f, fv_completedAt = f_completedAt f, fv_contentType = f_contentType f,
       fv_createdAt = f_createdAt f, fv_fileId = f_id f, fv_id = f_id f, fv_key = f_key f, fv_ownerId = f_ownerId f,
       fv_publicUrl = publicUrl, fv_size = JStr (int_str (f_size f)), fv_status = f_status f, fv_updatedAt = f_updatedAt f\<rparr>)"

definition mark_ready :: "micros \<Rightarrow> file_record \<Rightarrow> file_record" where
  "mark_ready now f = f\<lparr>f_status := FILE_READY, f_completedAt := Some now\<rparr>"

definition completeUpload :: "s3_env \<Rightarrow> s3_service \<Rightarrow> env \<Rightarrow> uuid \<Rightarrow> uuid \<Rightarrow> file_view act" where
  "completeUpload S sv E userId fileId =
     bind_s (read_s (findFileRecordOrFail fileId)) (\<lambda>f.
     bind_s (lift_s (checkIsOwner f userId)) (\<lambda>_.
     if f_status f = FILE_READY then getFileRecordData S sv f
     else
       bind_s (checkFileExists S sv (f_key f)) (\<lambda>fileExistsInS3.
       if \<not> fileExistsInS3
       then throw_s (http_exn BadRequest ''File not found in S3 bucket. Please upload the file first using the presigned URL.'')
       else
         bind_s (modify_s (e_others E)) (\<lambda>_.
         bind_s (gets_s js_now) (\<lambda>now.
         bind_s (save_file (mark_ready now f)) (getFileRecordData S sv))))))"

definition createPresignedUpload :: "s3_env \<Rightarrow> s3_service \<Rightarrow> env \<Rightarrow> uuid \<Rightarrow> presigned_upload_dto \<Rightarrow> file_upload_view act" where
  "createPresignedUpload S sv E userId dto =
     bind_s (getObjectKey E userId dto) (\<lambda>key.
     bind_s (insert_file E sv userId dto key) (\<lambda>f.
     bind_s (getPresignedUploadUrl S sv (pu_contentType dto) key (pu_size dto)) (\<lambda>(expiresInSeconds, uploadUrl).
     return_s \<lparr>fu_contentType = f_contentType f, fu_expiresInSeconds = expiresInSeconds, fu_fileId = f_id f, fu_key = f_key f,
       fu_status = f_status f, fu_uploadMethod = ''PUT'', fu_uploadUrl = uploadUrl\<rparr>)))"

definition getFileById :: "s3_env \<Rightarrow> s3_service \<Rightarrow> uuid \<Rightarrow> uuid \<Rightarrow> file_view act" where
  "getFileById S sv userId fileId =
     bind_s (read_s (findFileRecordOrFail fileId)) (\<lambda>f.
     bind_s (lift_s (checkIsOwner f userId)) (\<lambda>_. getFileRecordData S sv f))"

definition getFileUrl :: "s3_env \<Rightarrow> s3_service \<Rightarrow> uuid \<Rightarrow> uuid \<Rightarrow> string act" where
  "getFileUrl S sv userId fileId =
     bind_s (read_s (findFileRecordOrFail fileId)) (\<lambda>f.
     bind_s (lift_s (checkIsOwner f userId)) (\<lambda>_.
     if f_status f \<noteq> FILE_READY then throw_s (http_exn BadRequest ''File is not ready for download'')
     else getPresignedDownloadUrl S sv f))"

definition getPresignedUrlForFileId :: "s3_env \<Rightarrow> s3_service \<Rightarrow> uuid \<Rightarrow> string option act" where
  "getPresignedUrlForFileId S sv fileId =
     bind_s (gets_s (\<lambda>w. look_file (w_db w) fileId)) (\<lambda>found.
     case found of
       None \<Rightarrow> return_s None
     | Some f \<Rightarrow> if f_status f \<noteq> FILE_READY then return_s None
         else bind_s (s3_getPresignedDownloadUrl S sv (f_key f)) (\<lambda>(downloadUrl, _). return_s (Some downloadUrl)))"

definition prepareFileForEntity :: "s3_env \<Rightarrow> s3_service \<Rightarrow> env \<Rightarrow> uuid \<Rightarrow> uuid \<Rightarrow> (uuid \<times> string) act" where
  "prepareFileForEntity S sv E userId fileId =
     bind_s (read_s (findFileRecordOrFail fileId)) (\<lambda>f.
     bind_s (lift_s (checkIsOwner f userId)) (\<lambda>_.
     bind_s (checkFileExists S sv (f_key f)) (\<lambda>fileExistsInS3.
     if \<not> fileExistsInS3
     then throw_s (http_exn BadRequest ''File not found in S3. Please upload the file first using the presigned URL.'')
     else
       bind_s (if f_status f = FILE_PENDING
               then bind_s (modify_s (e_others E)) (\<lambda>_.
                    bind_s (gets_s js_now) (\<lambda>now. bind_s (save_file (mark_ready now f)) (\<lambda>_. return_s ())))
               else return_s ()) (\<lambda>_.
       bind_s (s3_getPresignedDownloadUrl S sv (f_key f)) (\<lambda>(presignedUrl, _). return_s (f_id f, presignedUrl))))))"

section \<open>Facts\<close>

lemma stored_file_simps [simp]:
  "f_id (stored_file now d f) = f_id f" "f_ownerId (stored_file now d f) = f_ownerId f"
  "f_key (stored_file now d f) = f_key f" "f_status (stored_file now d f) = f_status f"
  "f_entityId (stored_file now d f) = f_entityId f" "f_completedAt (stored_file now d f) = f_completedAt f"
  by (simp_all add: stored_file_def)

lemma look_put_file:
  "look_file (put_file now f d) k = (if k = f_id f then Some (stored_file now d f) else look_file d k)"
  by (simp add: look_file_def put_file_def find_row_save)

interpretation file_store: row_store f_id look_file "put_file now" "stored_file now" for now
  by unfold_locales (simp_all add: look_put_file)

lemma mark_ready_simps [simp]:
  "f_id (mark_ready now f) = f_id f" "f_ownerId (mark_ready now f) = f_ownerId f" "f_key (mark_ready now f) = f_key f"
  "f_status (mark_ready now f) = FILE_READY" "f_entityId (mark_ready now f) = f_entityId f"
  "f_completedAt (mark_ready now f) = Some now"
  by (simp_all add: mark_ready_def)

lemma file_data_world: "snd (getFileRecordData S sv f w) = w"
  by (auto simp: getFileRecordData_def getPresignedDownloadUrl_def s3_getPresignedDownloadUrl_def bind_s_def split: sum.splits)

lemma new_file_simps [simp]:
  "f_id (new_file i now b u dto k) = i" "f_ownerId (new_file i now b u dto k) = u"
  "f_status (new_file i now b u dto k) = FILE_PENDING" "f_key (new_file i now b u dto k) = k"
  "f_entityId (new_file i now b u dto k) = Some (pu_entityId dto)"
  by (simp_all add: new_file_def)

text \<open>An answered upload request left one new PENDING record, the last of the table.\<close>
lemma createPresignedUpload_Inr:
  assumes "createPresignedUpload S sv E userId dto w = (Inr v, w1)"
  shows "fu_fileId v = e_uuid E (w_next w + 1)"
    and "fu_key v = object_key userId dto (e_uuid E (w_next w))"
    and "w1 = db_update (\<lambda>d. d\<lparr>file_records := file_records d @
      [new_file (e_uuid E (w_next w + 1)) (w_now w) (sv_bucket sv) userId dto (object_key userId dto (e_uuid E (w_next w)))]\<rparr>)
      (w\<lparr>w_next := w_next w + 2\<rparr>)"
  using assms
  by (auto simp: createPresignedUpload_def getObjectKey_def insert_file_def getPresignedUploadUrl_def bind_s_eq_Inr Let_def
      split: if_splits sum.splits)

text \<open>Completing an upload, given the record.\<close>
lemma completeUpload_pending:
  assumes look: "look_file (w_db w) fileId = Some f" and pending: "f_status f = FILE_PENDING"
  shows "completeUpload S sv E userId fileId w =
    (if f_ownerId f \<noteq> userId then (Inl (http_exn Forbidden ''You do not have access to this file''), w)
     else (case s3_send S (sv_client sv) (HeadObject (sv_bucket sv) (f_key f)) w of
         Some e \<Rightarrow> if se_name e = Some ''NotFound'' \<or> se_status e = Some 404
           then (Inl (http_exn BadRequest ''File not found in S3 bucket. Please upload the file first using the presigned URL.''), w)
           else (Inl (PlainError (se_message e)), w)
       | None \<Rightarrow> (let w1 = e_others E w; r = mark_ready (js_now w1) f
           in getFileRecordData S sv (stored_file (w_now w1) (w_db w1) r) (db_update (put_file (w_now w1) r) w1))))"
  using assms by (auto simp: completeUpload_def bind_s_def findFileRecordOrFail_def checkIsOwner_def checkFileExists_def
      save_file_def Let_def split: option.splits)

end
