(* ===== verification/Users.thy ===== *)
theory Users
  imports Auth_Service Files Keyset Like
begin

text \<open>
  \<^verbatim>\<open>users/users.service.ts\<close>: the profile of a user, the avatar, the password, and what an
  administrator does with users. \<^verbatim>\<open>save(user)\<close> writes every column of the row as it was loaded
  (except the password, which is not selected), whatever another request wrote in between;
  \<^verbatim>\<open>update(id, changes)\<close> writes the named columns only. Rows of users are never removed.
\<close>

definition findUserOrFail :: "uuid \<Rightarrow> world \<Rightarrow> exn + user" where
  "findUserOrFail i w = (case findById_user i (w_db w) of
     None \<Rightarrow> Inl (http_exn NotFound (''User with ID '' @ in_dq i @ '' not found'')) | Some u \<Rightarrow> Inr u)"

section \<open>Responses\<close>

text \<open>The six profile fields are None where the response has no such key.\<close>
record user_view =
  uv_avatarId :: "uuid option"
  uv_avatarUrl :: "string option"
  uv_city :: "string option option"
  uv_country :: "string option option"
  uv_createdAt :: micros
  uv_email :: string
  uv_firstName :: "string option option"
  uv_id :: uuid
  uv_isEmailVerified :: bool
  uv_lastName :: "string option option"
  uv_phone :: "string option option"
  uv_postcode :: "string option option"
  uv_roles :: "string list"
  uv_scopes :: "string list"

definition user_fromEntity :: "user \<Rightarrow> user_view" where
  "user_fromEntity u =
     \<lparr>uv_avatarId = u_avatarId u, uv_avatarUrl = None, uv_city = Some (u_city u), uv_country = Some (u_country u),
      uv_createdAt = u_createdAt u, uv_email = u_email u, uv_firstName = Some (u_firstName u), uv_id = u_id u,
      uv_isEmailVerified = u_isEmailVerified u, uv_lastName = Some (u_lastName u), uv_phone = Some (u_phone u),
      uv_postcode = Some (u_postcode u), uv_roles = u_roles u, uv_scopes = u_scopes u\<rparr>"

definition resolveAvatarUrl :: "s3_env \<Rightarrow> s3_service \<Rightarrow> uuid option \<Rightarrow> string option act" where
  "resolveAvatarUrl S sv avatarId = (case avatarId of
     None \<Rightarrow> return_s None | Some k \<Rightarrow> getPresignedUrlForFileId S sv k)"

definition findById :: "s3_env \<Rightarrow> s3_service \<Rightarrow> uuid \<Rightarrow> user_view act" where
  "findById S sv i =
     bind_s (read_s (findUserOrFail i)) (\<lambda>u.
     bind_s (resolveAvatarUrl S sv (u_avatarId u)) (\<lambda>url.
     return_s ((user_fromEntity u)\<lparr>uv_avatarUrl := url\<rparr>)))"

definition getProfile :: "s3_env \<Rightarrow> s3_service \<Rightarrow> uuid \<Rightarrow> user_view act" where
  "getProfile S sv userId =
     bind_s (read_s (findUserOrFail userId)) (\<lambda>u.
     bind_s (resolveAvatarUrl S sv (u_avatarId u)) (\<lambda>url.
     return_s ((user_fromEntity u)\<lparr>uv_avatarUrl := url\<rparr>)))"

section \<open>Changing the password\<close>

record change_password_dto =
  cp_confirmedPassword :: string
  cp_currentPassword :: string
  cp_newPassword :: string

definition change_password_dto_valid :: "change_password_dto \<Rightarrow> bool" where
  "change_password_dto_valid dto \<longleftrightarrow>
     8 \<le> length (cp_confirmedPassword dto) \<and> 8 \<le> length (cp_currentPassword dto) \<and> 8 \<le> length (cp_newPassword dto)"

definition changePassword :: "auth_env \<Rightarrow> env \<Rightarrow> uuid \<Rightarrow> change_password_dto \<Rightarrow> unit act" where
  "changePassword A E userId dto =
     (if cp_newPassword dto \<noteq> cp_confirmedPassword dto then throw_s (http_exn BadRequest ''Passwords do not match'')
      else bind_s (read_s (findUserOrFail userId)) (\<lambda>u.
        case truthy (u_password u) of
          None \<Rightarrow> throw_s (http_exn Unauthorized ''Current password is incorrect'')
        | Some hash \<Rightarrow>
            if \<not> az_bcrypt_compare A (cp_currentPassword dto) hash
            then throw_s (http_exn Unauthorized ''Current password is incorrect'')
            else
              bind_s (modify_s (e_others E)) (\<lambda>_.
              bind_s (gets_s (hash_password A (cp_newPassword dto))) (\<lambda>hashedPassword.
              bind_s (update_user userId (\<lambda>x. x\<lparr>u_password := Some hashedPassword\<rparr>)) (\<lambda>_.
              revokeAllUserTokens userId)))))"

section \<open>The profile\<close>

text \<open>\<^verbatim>\<open>save(user)\<close> of a loaded row \<open>u\<close>: \<open>f\<close> puts its columns into the row that is there; the
  unique index on addresses and the reference to the avatar are checked.\<close>
definition save_user :: "user \<Rightarrow> (user \<Rightarrow> user) \<Rightarrow> unit act" where
  "save_user u f w =
     (if \<exists>x \<in> set (users (w_db w)). u_id x \<noteq> u_id u \<and> u_email x = u_email u
      then (Inl (unique_violation ''IDX_users_email_unique''), w)
      else if u_avatarId u \<noteq> None \<and> look_file (w_db w) (the (u_avatarId u)) = None
      then (Inl (fk_violation ''users_avatar_id''), w)
      else (Inr (), db_update (\<lambda>d. d\<lparr>users := update_rows (\<lambda>x. u_id x = u_id u)
         (\<lambda>x. if f x = x then x else (f x)\<lparr>u_updatedAt := w_now w\<rparr>) (users d)\<rparr>) w))"

text \<open>The row written for the loaded \<open>u\<close> over the stored \<open>x\<close>.\<close>
definition over_row :: "user \<Rightarrow> user \<Rightarrow> user" where
  "over_row u x = u\<lparr>u_password := u_password x, u_updatedAt := u_updatedAt x\<rparr>"

text \<open>None: the property is there but undefined, as class fields are; Some None: null.\<close>
record update_profile_dto =
  up_city :: "string option option"
  up_country :: "string option option"
  up_firstName :: "string option option"
  up_lastName :: "string option option"
  up_phone :: "string option option"
  up_postcode :: "string option option"

definition short_field :: "nat \<Rightarrow> string option option \<Rightarrow> bool" where
  "short_field n v = (case v of Some (Some s) \<Rightarrow> length s \<le> n | _ \<Rightarrow> True)"

text \<open>\<open>isAlpha2\<close>: class-validator's \<^verbatim>\<open>isISO31661Alpha2\<close>.\<close>
definition update_profile_dto_valid :: "(string \<Rightarrow> bool) \<Rightarrow> update_profile_dto \<Rightarrow> bool" where
  "update_profile_dto_valid isAlpha2 dto \<longleftrightarrow>
     short_field 100 (up_city dto) \<and> (case up_country dto of Some (Some c) \<Rightarrow> isAlpha2 c | _ \<Rightarrow> True) \<and>
     short_field 50 (up_firstName dto) \<and> short_field 50 (up_lastName dto) \<and>
     short_field 20 (up_phone dto) \<and> short_field 20 (up_postcode dto)"

text \<open>An undefined property leaves the column as it is in the table.\<close>
definition column :: "string option option \<Rightarrow> string option \<Rightarrow> string option" where
  "column v stored = (case v of None \<Rightarrow> stored | Some new \<Rightarrow> new)"

definition assign_profile :: "update_profile_dto \<Rightarrow> user \<Rightarrow> user \<Rightarrow> user" where
  "assign_profile dto u x =
     (over_row u x)\<lparr>u_city := column (up_city dto) (u_city x), u_country := column (up_country dto) (u_country x),
       u_firstName := column (up_firstName dto) (u_firstName x), u_lastName := column (up_lastName dto) (u_lastName x),
       u_phone := column (up_phone dto) (u_phone x), u_postcode := column (up_postcode dto) (u_postcode x)\<rparr>"

text \<open>\<^verbatim>\<open>Object.assign(user, dto)\<close> copies the undefined properties too.\<close>
definition updateProfile :: "s3_env \<Rightarrow> s3_service \<Rightarrow> env \<Rightarrow> uuid \<Rightarrow> update_profile_dto \<Rightarrow> user_view act" where
  "updateProfile S sv E userId dto =
     bind_s (read_s (findUserOrFail userId)) (\<lambda>u.
     bind_s (modify_s (e_others E)) (\<lambda>_.
     bind_s (save_user u (assign_profile dto u)) (\<lambda>_.
     bind_s (resolveAvatarUrl S sv (u_avatarId u)) (\<lambda>url.
     return_s ((user_fromEntity u)\<lparr>uv_city := up_city dto, uv_country := up_country dto, uv_firstName := up_firstName dto,
       uv_lastName := up_lastName dto, uv_phone := up_phone dto, uv_postcode := up_postcode dto, uv_avatarUrl := url\<rparr>)))))"

definition removeAvatar :: "uuid \<Rightarrow> unit act" where
  "removeAvatar userId = update_user userId (\<lambda>x. x\<lparr>u_avatarId := None\<rparr>)"

definition setAvatar :: "s3_env \<Rightarrow> s3_service \<Rightarrow> env \<Rightarrow> uuid \<Rightarrow> uuid \<Rightarrow> user_view act" where
  "setAvatar S sv E userId fileId =
     bind_s (read_s (findUserOrFail userId)) (\<lambda>u.
     bind_s (prepareFileForEntity S sv E userId fileId) (\<lambda>(fid, presignedUrl).
     bind_s (modify_s (e_others E)) (\<lambda>_.
     bind_s (save_user (u\<lparr>u_avatarId := Some fid\<rparr>) (over_row (u\<lparr>u_avatarId := Some fid\<rparr>))) (\<lambda>_.
     return_s ((user_fromEntity (u\<lparr>u_avatarId := Some fid\<rparr>))\<lparr>uv_avatarUrl := Some presignedUrl\<rparr>)))))"

section \<open>Administration\<close>

fun join_comma :: "string list \<Rightarrow> string" where
  "join_comma [] = []"
| "join_comma [s] = s"
| "join_comma (s # t # ss) = s @ '','' @ join_comma (t # ss)"

definition admin_event :: "audit_action \<Rightarrow> jwt_payload option \<Rightarrow> audit_context option \<Rightarrow> uuid \<Rightarrow> create_audit_event" where
  "admin_event a actor ctx target =
     (user_event a (map_option jp_sub actor) ctx AUDIT_SUCCESS None (Some target))
       \<lparr>ae_actorRole := map_option (\<lambda>p. join_comma (jp_roles p)) actor\<rparr>"

definition soft_delete_user :: "uuid \<Rightarrow> unit act" where
  "soft_delete_user i = modify_s (\<lambda>w. db_update (\<lambda>d. d\<lparr>users := update_rows (\<lambda>x. u_id x = i)
     (\<lambda>x. x\<lparr>u_deletedAt := Some (w_now w), u_updatedAt := w_now w\<rparr>) (users d)\<rparr>) w)"

definition remove_user :: "env \<Rightarrow> uuid \<Rightarrow> jwt_payload option \<Rightarrow> audit_context option \<Rightarrow> unit act" where
  "remove_user E i actor ctx =
     bind_s (read_s (findUserOrFail i)) (\<lambda>_.
     bind_s (modify_s (e_others E)) (\<lambda>_.
     bind_s (soft_delete_user i) (\<lambda>_.
     bind_s (revokeAllUserTokens i) (\<lambda>_.
     modify_s (audit E (admin_event USER_SOFT_DELETED actor ctx i))))))"

definition updateRoles :: "env \<Rightarrow> uuid \<Rightarrow> string list \<Rightarrow> jwt_payload option \<Rightarrow> audit_context option \<Rightarrow> string act" where
  "updateRoles E userId roles actor ctx =
     bind_s (read_s (findUserOrFail userId)) (\<lambda>_.
     bind_s (modify_s (e_others E)) (\<lambda>_.
     bind_s (update_user userId (\<lambda>x. x\<lparr>u_roles := roles\<rparr>)) (\<lambda>_.
     bind_s (modify_s (audit E (admin_event USER_ROLE_CHANGED actor ctx userId))) (\<lambda>_.
     return_s ''User roles updated successfully''))))"

definition updateScopes :: "env \<Rightarrow> uuid \<Rightarrow> string list \<Rightarrow> jwt_payload option \<Rightarrow> audit_context option \<Rightarrow> string act" where
  "updateScopes E userId scopes actor ctx =
     bind_s (read_s (findUserOrFail userId)) (\<lambda>_.
     bind_s (modify_s (e_others E)) (\<lambda>_.
     bind_s (update_user userId (\<lambda>x. x\<lparr>u_scopes := scopes\<rparr>)) (\<lambda>_.
     bind_s (modify_s (audit E (admin_event USER_SCOPE_CHANGED actor ctx userId))) (\<lambda>_.
     return_s ''User scopes updated successfully''))))"

section \<open>The list of users\<close>

definition DEFAULT_USERS_LIMIT :: int where "DEFAULT_USERS_LIMIT = 10"
definition MAX_USERS_LIMIT :: int where "MAX_USERS_LIMIT = 100"

record find_users =
  fus_cursor :: "string option"
  fus_limit :: "int option"
  fus_search :: "string option"

definition find_users_valid :: "(string \<Rightarrow> bool) \<Rightarrow> find_users \<Rightarrow> bool" where
  "find_users_valid isUUID q \<longleftrightarrow>
     (case fus_cursor q of None \<Rightarrow> True | Some c \<Rightarrow> isUUID c) \<and>
     (case fus_limit q of None \<Rightarrow> True | Some l \<Rightarrow> 1 \<le> l \<and> l \<le> MAX_USERS_LIMIT) \<and>
     (case fus_search q of None \<Rightarrow> True | Some s \<Rightarrow> length s \<le> 100)"

definition users_limit :: "find_users \<Rightarrow> int" where
  "users_limit q = (case fus_limit q of None \<Rightarrow> DEFAULT_USERS_LIMIT | Some l \<Rightarrow> l)"

definition like_column :: "string \<Rightarrow> string option \<Rightarrow> bool" where
  "like_column term col = (case col of None \<Rightarrow> False | Some t \<Rightarrow> ilike BACKSLASH (search_pattern BACKSLASH term) t)"

definition user_matches :: "find_users \<Rightarrow> user \<Rightarrow> bool" where
  "user_matches q u \<longleftrightarrow> live_user u \<and> (case truthy (fus_search q) of None \<Rightarrow> True
     | Some s \<Rightarrow> like_column s (u_firstName u) \<or> like_column s (u_lastName u) \<or> like_column s (Some (u_email u)))"

text \<open>The column has microseconds, the cursor's time is a \<^verbatim>\<open>Date\<close>.\<close>
definition user_behind :: "user \<Rightarrow> user \<Rightarrow> bool" where
  "user_behind c u \<longleftrightarrow> u_createdAt u < trunc_ms (u_createdAt c) \<or>
     u_createdAt u = trunc_ms (u_createdAt c) \<and> str_lt (u_id u) (u_id c)"

text \<open>\<^verbatim>\<open>createdAt DESC, id DESC\<close>.\<close>
definition user_before :: "user \<Rightarrow> user \<Rightarrow> bool" where
  "user_before a b \<longleftrightarrow> u_createdAt b < u_createdAt a \<or> u_createdAt b = u_createdAt a \<and> str_lt (u_id b) (u_id a)"

definition findAll_users :: "find_users \<Rightarrow> db \<Rightarrow> exn + user_view list \<times> int \<times> uuid option" where
  "findAll_users q d =
     (let limit = users_limit q; rows = filter (user_matches q) (users d);
          behind = (case truthy (fus_cursor q) of None \<Rightarrow> Inr rows
             | Some c \<Rightarrow> (case findById_user (map char_lower c) d of
                  None \<Rightarrow> Inl (http_exn BadRequest (''Invalid cursor: no user found for id '' @ in_dq c))
                | Some cursorUser \<Rightarrow> Inr (filter (user_behind cursorUser) rows)))
      in case behind of
           Inl e \<Rightarrow> Inl e
         | Inr rs \<Rightarrow>
             (let (page, hasNextPage) = page_of (nat limit) (take (nat limit + 1) (sort_by user_before rs))
              in Inr (map user_fromEntity page, limit, if hasNextPage then Some (u_id (last page)) else None)))"

end
