(* ===== verification/Reviews.thy ===== *)
theory Reviews
  imports Keyset JsNumber Orders_Repository
begin

text \<open>
  \<^verbatim>\<open>products/reviews.service.ts\<close>: one review per user and product, the rating of a product, and the
  paged list of its reviews. The table refuses a second review of one user for one product and a
  rating outside 1 to 5.
\<close>

definition findProductOrFail :: "uuid \<Rightarrow> world \<Rightarrow> exn + product" where
  "findProductOrFail i w = (case findById_product i (w_db w) of
     None \<Rightarrow> Inl (http_exn NotFound (''Product with ID '' @ in_dq i @ '' not found'')) | Some p \<Rightarrow> Inr p)"

definition throwOnUniqueViolation :: "exn \<Rightarrow> string \<Rightarrow> 'a act" where
  "throwOnUniqueViolation e message = (case e of
     QueryFailed code _ \<Rightarrow> throw_s (if code = ''23505'' then http_exn Conflict message else e)
   | _ \<Rightarrow> throw_s e)"

section \<open>Rows\<close>

definition find_review :: "uuid \<Rightarrow> uuid \<Rightarrow> db \<Rightarrow> review option" where
  "find_review productId userId d = find (\<lambda>r. rv_productId r = productId \<and> rv_userId r = userId) (reviews d)"

definition second_review :: "review \<Rightarrow> db \<Rightarrow> bool" where
  "second_review r d \<longleftrightarrow> (\<exists>x \<in> set (reviews d). rv_id x \<noteq> rv_id r \<and> rv_productId x = rv_productId r \<and> rv_userId x = rv_userId r)"

text \<open>What the table checks of a row, in the order of its columns and constraints.\<close>
definition review_constraints :: "review \<Rightarrow> db \<Rightarrow> exn + unit" where
  "review_constraints r d =
     (if \<not> (1 \<le> rv_rating r \<and> rv_rating r \<le> 5) then Inl (QueryFailed ''23514'' ''violates check constraint'')
      else if second_review r d then Inl (unique_violation ''UQ_product_reviews_user_product'')
      else if \<not> (\<exists>u \<in> set (users d). u_id u = rv_userId r) \<or> \<not> (\<exists>p \<in> set (products d). p_id p = rv_productId r)
      then Inl (fk_violation ''product_reviews'')
      else Inr ())"

definition insert_review :: "env \<Rightarrow> uuid \<Rightarrow> uuid \<Rightarrow> int \<Rightarrow> string \<Rightarrow> review act" where
  "insert_review E userId productId rating txt w =
     (let r = \<lparr>rv_id = e_uuid E (w_next w), rv_userId = userId, rv_productId = productId, rv_rating = rating, rv_text = txt,
               rv_createdAt = w_now w, rv_updatedAt = w_now w\<rparr>
      in case review_constraints r (w_db w) of
           Inl e \<Rightarrow> (Inl e, w)
         | Inr _ \<Rightarrow> (Inr r, db_update (\<lambda>d. d\<lparr>reviews := reviews d @ [r]\<rparr>) (w\<lparr>w_next := w_next w + 1\<rparr>)))"

definition look_review :: "db \<Rightarrow> uuid \<Rightarrow> review option" where
  "look_review d k = find_row rv_id k (reviews d)"

definition stored_review :: "micros \<Rightarrow> db \<Rightarrow> review \<Rightarrow> review" where
  "stored_review now d r = (if look_review d (rv_id r) = Some r then r else r\<lparr>rv_updatedAt := now\<rparr>)"

definition put_review :: "micros \<Rightarrow> review \<Rightarrow> db \<Rightarrow> db" where
  "put_review now r d = d\<lparr>reviews := save_row rv_id (stored_review now d r) (reviews d)\<rparr>"

definition save_review :: "review \<Rightarrow> review act" where
  "save_review r w = (case review_constraints r (w_db w) of
     Inl e \<Rightarrow> (Inl e, w)
   | Inr _ \<Rightarrow> (Inr (stored_review (w_now w) (w_db w) r), db_update (put_review (w_now w) r) w))"

section \<open>Responses\<close>

record review_view =
  vr_createdAt :: micros
  vr_id :: uuid
  vr_productId :: uuid
  vr_rating :: int
  vr_text :: string
  vr_updatedAt :: micros
  vr_firstName :: "string option"
  vr_userId :: uuid
  vr_lastName :: "string option"

text \<open>The author is joined unless soft-deleted.\<close>
definition review_fromEntity :: "db \<Rightarrow> review \<Rightarrow> review_view" where
  "review_fromEntity d r =
     (let (first, uid, lst) = (case findById_user (rv_userId r) d of
            Some u \<Rightarrow> (u_firstName u, u_id u, u_lastName u) | None \<Rightarrow> (None, rv_userId r, None))
      in \<lparr>vr_createdAt = rv_createdAt r, vr_id = rv_id r, vr_productId = rv_productId r, vr_rating = rv_rating r,
          vr_text = rv_text r, vr_updatedAt = rv_updatedAt r, vr_firstName = first, vr_userId = uid, vr_lastName = lst\<rparr>)"

section \<open>Writing\<close>

record create_review_dto =
  cr_rating :: int
  cr_text :: string

definition create_review_dto_valid :: "create_review_dto \<Rightarrow> bool" where
  "create_review_dto_valid dto \<longleftrightarrow> 1 \<le> cr_rating dto \<and> cr_rating dto \<le> 5 \<and> cr_text dto \<noteq> [] \<and> length (cr_text dto) \<le> 1000"

text \<open>None: the field was left out; Some None: it is null.\<close>
record update_review_dto =
  ur_rating :: "int option option"
  ur_text :: "string option option"

definition update_review_dto_valid :: "update_review_dto \<Rightarrow> bool" where
  "update_review_dto_valid dto \<longleftrightarrow>
     (case ur_rating dto of Some (Some n) \<Rightarrow> 1 \<le> n \<and> n \<le> 5 | _ \<Rightarrow> True) \<and>
     (case ur_text dto of Some (Some t) \<Rightarrow> t \<noteq> [] \<and> length t \<le> 1000 | _ \<Rightarrow> True)"

definition createReview :: "env \<Rightarrow> uuid \<Rightarrow> uuid \<Rightarrow> create_review_dto \<Rightarrow> review_view act" where
  "createReview E userId productId dto =
     bind_s (read_s (findProductOrFail productId)) (\<lambda>_.
     bind_s (gets_s (\<lambda>w. find_review productId userId (w_db w))) (\<lambda>existing.
     if existing \<noteq> None then throw_s (http_exn Conflict ''You have already reviewed this product'')
     else
       bind_s (modify_s (e_others E)) (\<lambda>_.
       bind_s (catch_s (insert_review E userId productId (cr_rating dto) (cr_text dto))
                 (\<lambda>e. throwOnUniqueViolation e ''You have already reviewed this product'')) (\<lambda>r.
       bind_s (modify_s (e_others E)) (\<lambda>_.
       bind_s (gets_s (\<lambda>w. map_option (review_fromEntity (w_db w)) (look_review (w_db w) (rv_id r)))) (\<lambda>saved.
       case saved of
         None \<Rightarrow> throw_s (EntityNotFound ''Could not find any entity of type ProductReview'')
       | Some v \<Rightarrow> return_s v))))))"

definition deleteReview :: "env \<Rightarrow> uuid \<Rightarrow> uuid \<Rightarrow> unit act" where
  "deleteReview E userId productId =
     bind_s (read_s (findProductOrFail productId)) (\<lambda>_.
     bind_s (gets_s (\<lambda>w. find_review productId userId (w_db w))) (\<lambda>found.
     case found of
       None \<Rightarrow> throw_s (http_exn NotFound ''Review not found'')
     | Some r \<Rightarrow>
         bind_s (modify_s (e_others E)) (\<lambda>_.
         modify_s (db_update (\<lambda>d. d\<lparr>reviews := delete_rows (\<lambda>x. rv_id x = rv_id r) (reviews d)\<rparr>)))))"

text \<open>\<^verbatim>\<open>Object.assign(review, omitUndefined(dto))\<close>; a null breaks a NOT NULL column.\<close>
definition assign_review :: "update_review_dto \<Rightarrow> review \<Rightarrow> review" where
  "assign_review dto r =
     r\<lparr>rv_rating := (case ur_rating dto of Some (Some n) \<Rightarrow> n | _ \<Rightarrow> rv_rating r),
       rv_text := (case ur_text dto of Some (Some t) \<Rightarrow> t | _ \<Rightarrow> rv_text r)\<rparr>"

definition updateReview :: "env \<Rightarrow> uuid \<Rightarrow> uuid \<Rightarrow> update_review_dto \<Rightarrow> review_view act" where
  "updateReview E userId productId dto =
     bind_s (read_s (findProductOrFail productId)) (\<lambda>_.
     bind_s (gets_s (\<lambda>w. map_option (\<lambda>r. (r, w_db w)) (find_review productId userId (w_db w)))) (\<lambda>found.
     case found of
       None \<Rightarrow> throw_s (http_exn NotFound ''Review not found'')
     | Some (r, d) \<Rightarrow>
         bind_s (modify_s (e_others E)) (\<lambda>_.
         if ur_rating dto = Some None \<or> ur_text dto = Some None
         then throw_s (QueryFailed ''23502'' ''null value violates not-null constraint'')
         else bind_s (save_review (assign_review dto r)) (\<lambda>saved. return_s (review_fromEntity d saved)))))"

section \<open>Ratings\<close>

text \<open>\<^verbatim>\<open>ROUND(AVG(rating), 2)\<close> in hundredths, and the number JavaScript reads from it.\<close>
definition rating_hundredths :: "int list \<Rightarrow> int" where
  "rating_hundredths rs = (200 * sum_list rs + int (length rs)) div (2 * int (length rs))"

definition averageRating :: "int list \<Rightarrow> rat option" where
  "averageRating rs = (if rs = [] then None else Some (fl (of_int (rating_hundredths rs) / 100)))"

definition ratings_of :: "uuid \<Rightarrow> db \<Rightarrow> int list" where
  "ratings_of productId d = map rv_rating (filter (\<lambda>r. rv_productId r = productId) (reviews d))"

definition getRatingInfo :: "uuid \<Rightarrow> db \<Rightarrow> rat option \<times> int" where
  "getRatingInfo productId d = (averageRating (ratings_of productId d), int (length (ratings_of productId d)))"

text \<open>\<^verbatim>\<open>GROUP BY productId\<close>: one entry for every product that has reviews.\<close>
definition getRatingInfoBatch :: "uuid list \<Rightarrow> db \<Rightarrow> (uuid \<times> rat option \<times> int) list" where
  "getRatingInfoBatch productIds d =
     (if productIds = [] then []
      else map (\<lambda>k. (k, averageRating (ratings_of k d), int (length (ratings_of k d))))
             (js_uniq (map rv_productId (filter (\<lambda>r. rv_productId r \<in> set productIds) (reviews d)))))"

section \<open>The list\<close>

definition DEFAULT_REVIEWS_LIMIT :: int where "DEFAULT_REVIEWS_LIMIT = 10"
definition MAX_REVIEWS_LIMIT :: int where "MAX_REVIEWS_LIMIT = 50"
definition MIN_REVIEWS_LIMIT :: int where "MIN_REVIEWS_LIMIT = 1"

record find_reviews =
  fr_cursor :: "string option"
  fr_limit :: "int option"

definition find_reviews_valid :: "(string \<Rightarrow> bool) \<Rightarrow> find_reviews \<Rightarrow> bool" where
  "find_reviews_valid isUUID q \<longleftrightarrow>
     (case fr_cursor q of None \<Rightarrow> True | Some c \<Rightarrow> isUUID c) \<and>
     (case fr_limit q of None \<Rightarrow> True | Some l \<Rightarrow> MIN_REVIEWS_LIMIT \<le> l \<and> l \<le> MAX_REVIEWS_LIMIT)"

definition reviews_limit :: "find_reviews \<Rightarrow> int" where
  "reviews_limit q = (case fr_limit q of None \<Rightarrow> DEFAULT_REVIEWS_LIMIT | Some l \<Rightarrow> l)"

text \<open>The rows behind the row of the cursor.\<close>
definition review_behind :: "review \<Rightarrow> review \<Rightarrow> bool" where
  "review_behind c r \<longleftrightarrow> trunc_ms (rv_createdAt r) < trunc_ms (rv_createdAt c) \<or>
     trunc_ms (rv_createdAt r) = trunc_ms (rv_createdAt c) \<and> str_lt (rv_id r) (rv_id c)"

text \<open>\<^verbatim>\<open>createdAt DESC, id DESC\<close>.\<close>
definition review_before :: "review \<Rightarrow> review \<Rightarrow> bool" where
  "review_before a b \<longleftrightarrow> rv_createdAt b < rv_createdAt a \<or> rv_createdAt b = rv_createdAt a \<and> str_lt (rv_id b) (rv_id a)"

text \<open>A cursor of a review that is not there (any more) is ignored.\<close>
definition getReviews :: "uuid \<Rightarrow> find_reviews \<Rightarrow> world \<Rightarrow> exn + review_view list \<times> int \<times> uuid option" where
  "getReviews productId q w = (case findProductOrFail productId w of
     Inl e \<Rightarrow> Inl e
   | Inr _ \<Rightarrow>
     (let d = w_db w; limit = reviews_limit q;
          rows = filter (\<lambda>r. rv_productId r = productId) (reviews d);
          behind = (case truthy (fr_cursor q) of None \<Rightarrow> rows
             | Some c \<Rightarrow> (case find (\<lambda>r. rv_id r = map char_lower c \<and> rv_productId r = productId) (reviews d) of
                  None \<Rightarrow> rows | Some cursorReview \<Rightarrow> filter (review_behind cursorReview) rows));
          (page, hasNextPage) = page_of (nat limit) (take (nat limit + 1) (sort_by review_before behind))
      in Inr (map (review_fromEntity d) page, limit, if hasNextPage then Some (rv_id (last page)) else None)))"

end
