(* ===== verification/Products_Service.thy ===== *)
theory Products_Service
  imports Reviews Files Products_Query
begin

text \<open>
  \<^verbatim>\<open>products/products.service.ts\<close>: what an administrator does with the catalogue (creating, changing
  and removing products, and their images) and what a visitor sees of one product. The paged list is
  \<open>findAll_page\<close> of the catalogue search with the ratings of the page.
\<close>

section \<open>Prices\<close>

text \<open>\<^verbatim>\<open>/^\d+(\.\d{1,2})?$/\<close>.\<close>
definition price_pattern :: "string \<Rightarrow> bool" where
  "price_pattern s \<longleftrightarrow> takeWhile is_digit s \<noteq> [] \<and>
     (case dropWhile is_digit s of [] \<Rightarrow> True
      | c # decs \<Rightarrow> c = CHR ''.'' \<and> list_all is_digit decs \<and> 1 \<le> length decs \<and> length decs \<le> 2)"

definition price_cents :: "string \<Rightarrow> nat" where
  "price_cents s = 100 * digits_num (takeWhile is_digit s) +
     (case dropWhile is_digit s of [] \<Rightarrow> 0
      | _ # decs \<Rightarrow> if length decs = 1 then 10 * digits_num decs else digits_num decs)"

text \<open>What a column numeric(12,2) makes of such a text; None: the value does not fit.\<close>
definition numeric_12_2 :: "string \<Rightarrow> string option" where
  "numeric_12_2 s = (if int (price_cents s) < 10 ^ 12 then Some (cents_str (price_cents s)) else None)"

section \<open>Writing a product\<close>

definition title_taken :: "product \<Rightarrow> db \<Rightarrow> bool" where
  "title_taken p d \<longleftrightarrow> (\<exists>x \<in> set (products d). p_id x \<noteq> p_id p \<and> p_title x = p_title p)"

text \<open>The row as the table takes it, or its refusal; the unique index on titles counts
  soft-deleted rows.\<close>
definition product_row :: "product \<Rightarrow> db \<Rightarrow> exn + product" where
  "product_row p d =
     (if \<not> int4 (p_stock p) then Inl (QueryFailed ''22003'' ''integer out of range'')
      else case numeric_12_2 (p_price p) of
             None \<Rightarrow> Inl (QueryFailed ''22003'' ''numeric field overflow'')
           | Some price \<Rightarrow>
               if title_taken p d then Inl (unique_violation ''IDX_products_title_unique'')
               else Inr (p\<lparr>p_price := price\<rparr>))"

text \<open>\<^verbatim>\<open>productRepository.save(product)\<close> of a loaded product: every column is compared with the table
  and written where it differs.\<close>
definition save_product :: "product \<Rightarrow> unit act" where
  "save_product p w = (case product_row p (w_db w) of
     Inl e \<Rightarrow> (Inl e, w)
   | Inr r \<Rightarrow> (Inr (), db_update (put_product (w_now w) r) w))"

section \<open>Responses\<close>

record image_view =
  iv_contentType :: string
  iv_createdAt :: micros
  iv_id :: uuid
  iv_key :: string
  iv_url :: "string option"

record product_view =
  pv_averageRating :: "rat option"
  pv_brand :: "string option"
  pv_category :: product_category
  pv_country :: "string option"
  pv_createdAt :: micros
  pv_description :: "string option"
  pv_id :: uuid
  pv_images :: "image_view list option"
  pv_isActive :: bool
  pv_mainImageId :: "uuid option"
  pv_mainImageUrl :: "string option"
  pv_price :: string
  pv_reviewsCount :: int
  pv_stock :: int
  pv_title :: string
  pv_updatedAt :: micros

definition product_fromEntity ::
  "product \<Rightarrow> string option \<Rightarrow> image_view list option \<Rightarrow> rat option \<times> int \<Rightarrow> product_view" where
  "product_fromEntity p mainImageUrl images rating =
     \<lparr>pv_averageRating = fst rating, pv_brand = p_brand p, pv_category = p_category p, pv_country = p_country p,
      pv_createdAt = p_createdAt p, pv_description = p_description p, pv_id = p_id p, pv_images = images,
      pv_isActive = p_isActive p, pv_mainImageId = p_mainImageId p, pv_mainImageUrl = mainImageUrl, pv_price = p_price p,
      pv_reviewsCount = snd rating, pv_stock = p_stock p, pv_title = p_title p, pv_updatedAt = p_updatedAt p\<rparr>"

text \<open>An image whose URL cannot be signed is shown without one.\<close>
definition resolveFileUrl :: "s3_env \<Rightarrow> s3_service \<Rightarrow> file_record \<Rightarrow> string option act" where
  "resolveFileUrl S sv f =
     catch_s (bind_s (s3_getPresignedDownloadUrl S sv (f_key f)) (\<lambda>(downloadUrl, _). return_s (Some downloadUrl)))
       (\<lambda>_. return_s None)"

definition ready_file :: "db \<Rightarrow> uuid \<Rightarrow> file_record option" where
  "ready_file d k = (case look_file d k of
     Some f \<Rightarrow> if f_status f = FILE_READY then Some f else None | None \<Rightarrow> None)"

definition resolveMainImageUrl :: "s3_env \<Rightarrow> s3_service \<Rightarrow> uuid option \<Rightarrow> string option act" where
  "resolveMainImageUrl S sv mainImageId = (case mainImageId of
     None \<Rightarrow> return_s None
   | Some k \<Rightarrow> bind_s (gets_s (\<lambda>w. ready_file (w_db w) k)) (\<lambda>found.
       case found of None \<Rightarrow> return_s None | Some f \<Rightarrow> resolveFileUrl S sv f))"

definition image_of :: "s3_env \<Rightarrow> s3_service \<Rightarrow> file_record \<Rightarrow> image_view act" where
  "image_of S sv f =
     bind_s (resolveFileUrl S sv f) (\<lambda>url.
     return_s \<lparr>iv_contentType = f_contentType f, iv_createdAt = f_createdAt f, iv_id = f_id f, iv_key = f_key f, iv_url = url\<rparr>)"

fun images_of :: "s3_env \<Rightarrow> s3_service \<Rightarrow> file_record list \<Rightarrow> image_view list act" where
  "images_of S sv [] = return_s []"
| "images_of S sv (f # fs) = bind_s (image_of S sv f) (\<lambda>v. bind_s (images_of S sv fs) (\<lambda>vs. return_s (v # vs)))"

definition entity_files :: "uuid \<Rightarrow> db \<Rightarrow> file_record list" where
  "entity_files k d = filter (\<lambda>f. f_entityId f = Some k \<and> f_status f = FILE_READY) (file_records d)"

section \<open>Reading\<close>

definition product_findById :: "s3_env \<Rightarrow> s3_service \<Rightarrow> uuid \<Rightarrow> product_view act" where
  "product_findById S sv i =
     bind_s (read_s (findProductOrFail i)) (\<lambda>p.
     bind_s (resolveMainImageUrl S sv (p_mainImageId p)) (\<lambda>mainImageUrl.
     bind_s (gets_s (\<lambda>w. entity_files i (w_db w))) (\<lambda>imageRecords.
     bind_s (gets_s (\<lambda>w. getRatingInfo i (w_db w))) (\<lambda>rating.
     bind_s (images_of S sv (filter (\<lambda>f. Some (f_id f) \<noteq> p_mainImageId p) imageRecords)) (\<lambda>images.
     return_s (product_fromEntity p mainImageUrl (Some images) rating))))))"

definition listImages :: "s3_env \<Rightarrow> s3_service \<Rightarrow> uuid \<Rightarrow> image_view list act" where
  "listImages S sv productId =
     bind_s (read_s (findProductOrFail productId)) (\<lambda>_.
     bind_s (gets_s (\<lambda>w. entity_files productId (w_db w))) (images_of S sv))"

definition findAll :: "search_env \<Rightarrow> find_products \<Rightarrow> db \<Rightarrow> exn + product_view list \<times> int \<times> string option" where
  "findAll SE f d = (case findAll_page SE f d of
     Inl e \<Rightarrow> Inl e
   | Inr (page, limit, nextCursor) \<Rightarrow>
       (let ratingMap = map_of (getRatingInfoBatch (map p_id page) d)
        in Inr (map (\<lambda>p. product_fromEntity p None None
             (case ratingMap (p_id p) of Some rating \<Rightarrow> rating | None \<Rightarrow> (None, 0))) page, limit, nextCursor)))"

record category_meta =
  cm_name :: product_category
  cm_nameEn :: string
  cm_nameUk :: "nat list"

text \<open>The Ukrainian names as sequences of code points.\<close>
definition PRODUCT_CATEGORIES :: "category_meta list" where
  "PRODUCT_CATEGORIES =
     [\<lparr>cm_name = ACCESSORIES, cm_nameEn = ''Accessories'', cm_nameUk = [1040, 1082, 1089, 1077, 1089, 1091, 1072, 1088, 1080]\<rparr>,
      \<lparr>cm_name = AUDIO, cm_nameEn = ''Audio'', cm_nameUk = [1040, 1091, 1076, 1110, 1086]\<rparr>,
      \<lparr>cm_name = CAMERAS, cm_nameEn = ''Cameras'', cm_nameUk = [1050, 1072, 1084, 1077, 1088, 1080]\<rparr>,
      \<lparr>cm_name = LAPTOPS, cm_nameEn = ''Laptops'', cm_nameUk = [1053, 1086, 1091, 1090, 1073, 1091, 1082, 1080]\<rparr>,
      \<lparr>cm_name = MONITORS, cm_nameEn = ''Monitors'', cm_nameUk = [1052, 1086, 1085, 1110, 1090, 1086, 1088, 1080]\<rparr>,
      \<lparr>cm_name = OTHER, cm_nameEn = ''Other'', cm_nameUk = [1030, 1085, 1096, 1077]\<rparr>,
      \<lparr>cm_name = PERIPHERALS, cm_nameEn = ''Peripherals'', cm_nameUk = [1055, 1077, 1088, 1080, 1092, 1077, 1088, 1110, 1103]\<rparr>,
      \<lparr>cm_name = SMARTPHONES, cm_nameEn = ''Smartphones'', cm_nameUk = [1057, 1084, 1072, 1088, 1090, 1092, 1086, 1085, 1080]\<rparr>,
      \<lparr>cm_name = STORAGE, cm_nameEn = ''Storage'', cm_nameUk = [1053, 1072, 1082, 1086, 1087, 1080, 1095, 1091, 1074, 1072, 1095, 1110]\<rparr>,
      \<lparr>cm_name = TABLETS, cm_nameEn = ''Tablets'', cm_nameUk = [1055, 1083, 1072, 1085, 1096, 1077, 1090, 1080]\<rparr>,
      \<lparr>cm_name = WEARABLES, cm_nameEn = ''Wearables'', cm_nameUk = [1053, 1086, 1089, 1080, 1084, 1110, 32, 1087, 1088, 1080, 1089, 1090, 1088, 1086, 1111]\<rparr>]"

definition getCategories :: "category_meta list" where
  "getCategories = PRODUCT_CATEGORIES"

section \<open>Administration of products\<close>

record create_product_dto =
  cd_brand :: "string option"
  cd_category :: "product_category option"
  cd_country :: "string option"
  cd_description :: "string option"
  cd_isActive :: "bool option"
  cd_price :: string
  cd_stock :: "int option"
  cd_title :: string

definition create_product_dto_valid :: "(string \<Rightarrow> bool) \<Rightarrow> create_product_dto \<Rightarrow> bool" where
  "create_product_dto_valid isAlpha2 dto \<longleftrightarrow>
     (case cd_brand dto of None \<Rightarrow> True | Some b \<Rightarrow> 1 \<le> length b \<and> length b \<le> 100) \<and>
     (case cd_country dto of None \<Rightarrow> True | Some c \<Rightarrow> isAlpha2 c) \<and> price_pattern (cd_price dto) \<and>
     (case cd_stock dto of None \<Rightarrow> True | Some n \<Rightarrow> 0 \<le> n) \<and> 1 \<le> length (cd_title dto) \<and> length (cd_title dto) \<le> 200"

definition new_product :: "uuid \<Rightarrow> micros \<Rightarrow> create_product_dto \<Rightarrow> product" where
  "new_product i now dto =
     \<lparr>p_id = i, p_title = cd_title dto, p_brand = cd_brand dto,
      p_category = (case cd_category dto of Some c \<Rightarrow> c | None \<Rightarrow> OTHER), p_country = cd_country dto,
      p_description = cd_description dto, p_isActive = (case cd_isActive dto of Some b \<Rightarrow> b | None \<Rightarrow> True),
      p_mainImageId = None, p_price = cd_price dto, p_stock = (case cd_stock dto of Some n \<Rightarrow> n | None \<Rightarrow> 0),
      p_createdAt = now, p_updatedAt = now, p_deletedAt = None\<rparr>"

definition insert_product :: "env \<Rightarrow> create_product_dto \<Rightarrow> product act" where
  "insert_product E dto w =
     (let p = new_product (e_uuid E (w_next w)) (w_now w) dto
      in case product_row p (w_db w) of
           Inl e \<Rightarrow> (Inl e, w)
         | Inr r \<Rightarrow> if look_product (w_db w) (p_id p) \<noteq> None then (Inl (unique_violation ''PK_products''), w)
             else (Inr p, db_update (\<lambda>d. d\<lparr>products := products d @ [r]\<rparr>) (w\<lparr>w_next := w_next w + 1\<rparr>)))"

text \<open>The response shows the price as it was sent.\<close>
definition create_product :: "env \<Rightarrow> create_product_dto \<Rightarrow> product_view act" where
  "create_product E dto =
     catch_s (bind_s (insert_product E dto) (\<lambda>saved. return_s (product_fromEntity saved None None (None, 0))))
       (\<lambda>e. throwOnUniqueViolation e (''Product with title '' @ in_dq (cd_title dto) @ '' already exists''))"

text \<open>None: left out; Some None: null.\<close>
record update_product_dto =
  ud_brand :: "string option option"
  ud_category :: "product_category option option"
  ud_country :: "string option option"
  ud_description :: "string option option"
  ud_isActive :: "bool option option"
  ud_price :: "string option option"
  ud_stock :: "int option option"
  ud_title :: "string option option"

definition update_product_dto_valid :: "(string \<Rightarrow> bool) \<Rightarrow> update_product_dto \<Rightarrow> bool" where
  "update_product_dto_valid isAlpha2 dto \<longleftrightarrow>
     (case ud_brand dto of Some (Some b) \<Rightarrow> 1 \<le> length b \<and> length b \<le> 100 | _ \<Rightarrow> True) \<and>
     (case ud_country dto of Some (Some c) \<Rightarrow> isAlpha2 c | _ \<Rightarrow> True) \<and>
     (case ud_price dto of Some (Some s) \<Rightarrow> price_pattern s | _ \<Rightarrow> True) \<and>
     (case ud_stock dto of Some (Some n) \<Rightarrow> 0 \<le> n | _ \<Rightarrow> True) \<and>
     (case ud_title dto of Some (Some s) \<Rightarrow> 1 \<le> length s \<and> length s \<le> 200 | _ \<Rightarrow> True)"

definition given :: "'a option option \<Rightarrow> 'a \<Rightarrow> 'a" where
  "given v old = (case v of Some (Some x) \<Rightarrow> x | _ \<Rightarrow> old)"

definition given_null :: "'a option option \<Rightarrow> 'a option \<Rightarrow> 'a option" where
  "given_null v old = (case v of Some x \<Rightarrow> x | None \<Rightarrow> old)"

text \<open>\<^verbatim>\<open>Object.assign(product, omitUndefined(dto))\<close>.\<close>
definition assign_product :: "update_product_dto \<Rightarrow> product \<Rightarrow> product" where
  "assign_product dto p =
     p\<lparr>p_brand := given_null (ud_brand dto) (p_brand p), p_category := given (ud_category dto) (p_category p),
       p_country := given_null (ud_country dto) (p_country p),
       p_description := given_null (ud_description dto) (p_description p),
       p_isActive := given (ud_isActive dto) (p_isActive p), p_price := given (ud_price dto) (p_price p),
       p_stock := given (ud_stock dto) (p_stock p), p_title := given (ud_title dto) (p_title p)\<rparr>"

text \<open>A null for a column that takes none.\<close>
definition null_columns :: "update_product_dto \<Rightarrow> bool" where
  "null_columns dto \<longleftrightarrow> ud_category dto = Some None \<or> ud_isActive dto = Some None \<or> ud_price dto = Some None \<or>
     ud_stock dto = Some None \<or> ud_title dto = Some None"

definition title_text :: "update_product_dto \<Rightarrow> string" where
  "title_text dto = (case ud_title dto of Some (Some t) \<Rightarrow> t | Some None \<Rightarrow> ''null'' | None \<Rightarrow> ''undefined'')"

definition update_product :: "s3_env \<Rightarrow> s3_service \<Rightarrow> env \<Rightarrow> uuid \<Rightarrow> update_product_dto \<Rightarrow> product_view act" where
  "update_product S sv E i dto =
     bind_s (read_s (findProductOrFail i)) (\<lambda>p.
     bind_s (modify_s (e_others E)) (\<lambda>_.
     catch_s
       (bind_s (if null_columns dto then throw_s (QueryFailed ''23502'' ''null value violates not-null constraint'')
                else save_product (assign_product dto p)) (\<lambda>_. product_findById S sv i))
       (\<lambda>e. throwOnUniqueViolation e (''Product with title '' @ in_dq (title_text dto) @ '' already exists''))))"

definition soft_delete_product :: "uuid \<Rightarrow> unit act" where
  "soft_delete_product i = modify_s (\<lambda>w. db_update (\<lambda>d. d\<lparr>products := update_rows (\<lambda>x. p_id x = i)
     (\<lambda>x. x\<lparr>p_deletedAt := Some (w_now w), p_updatedAt := w_now w\<rparr>) (products d)\<rparr>) w)"

definition remove_product :: "env \<Rightarrow> uuid \<Rightarrow> unit act" where
  "remove_product E i =
     bind_s (read_s (findProductOrFail i)) (\<lambda>_.
     bind_s (modify_s (e_others E)) (\<lambda>_. soft_delete_product i))"

section \<open>Administration of images\<close>

definition addImage :: "env \<Rightarrow> uuid \<Rightarrow> uuid \<Rightarrow> unit act" where
  "addImage E productId fileId =
     bind_s (read_s (findProductOrFail productId)) (\<lambda>_.
     bind_s (gets_s (\<lambda>w. ready_file (w_db w) fileId)) (\<lambda>found.
     case found of
       None \<Rightarrow> throw_s (http_exn NotFound (''File with ID '' @ in_dq fileId @ '' not found or not ready''))
     | Some f \<Rightarrow>
         if f_entityId f \<noteq> None \<and> f_entityId f \<noteq> Some productId
         then throw_s (http_exn Conflict (''File with ID '' @ in_dq fileId @ '' is already associated with another entity''))
         else if f_entityId f = Some productId then return_s ()
         else
           bind_s (modify_s (e_others E)) (\<lambda>_.
           bind_s (save_file (f\<lparr>f_entityId := Some productId\<rparr>)) (\<lambda>_. return_s ()))))"

definition no_such_image :: "uuid \<Rightarrow> uuid \<Rightarrow> exn" where
  "no_such_image fileId productId =
     http_exn NotFound (''Image with ID '' @ in_dq fileId @ '' not found for product '' @ in_dq productId)"

definition removeImage :: "env \<Rightarrow> uuid \<Rightarrow> uuid \<Rightarrow> unit act" where
  "removeImage E productId fileId =
     bind_s (read_s (findProductOrFail productId)) (\<lambda>_.
     bind_s (gets_s (\<lambda>w. look_file (w_db w) fileId)) (\<lambda>found.
     case found of
       None \<Rightarrow> throw_s (no_such_image fileId productId)
     | Some f \<Rightarrow>
         if f_entityId f \<noteq> Some productId then throw_s (no_such_image fileId productId)
         else
           bind_s (modify_s (e_others E)) (\<lambda>_.
           bind_s (save_file (f\<lparr>f_entityId := None\<rparr>)) (\<lambda>_.
           bind_s (modify_s (e_others E)) (\<lambda>_.
           modify_s (\<lambda>w. db_update (\<lambda>d. d\<lparr>products := update_rows (\<lambda>x. p_id x = productId \<and> p_mainImageId x = Some fileId)
             (\<lambda>x. x\<lparr>p_mainImageId := None, p_updatedAt := w_now w\<rparr>) (products d)\<rparr>) w))))))"

definition associateMainImage :: "env \<Rightarrow> uuid \<Rightarrow> uuid \<Rightarrow> unit act" where
  "associateMainImage E productId fileId =
     bind_s (read_s (findProductOrFail productId)) (\<lambda>p.
     bind_s (modify_s (e_others E)) (\<lambda>_. save_product (p\<lparr>p_mainImageId := Some fileId\<rparr>)))"

definition setMainImage :: "s3_env \<Rightarrow> s3_service \<Rightarrow> env \<Rightarrow> uuid \<Rightarrow> uuid \<Rightarrow> product_view act" where
  "setMainImage S sv E productId fileId =
     bind_s (read_s (findProductOrFail productId)) (\<lambda>_.
     bind_s (gets_s (\<lambda>w. ready_file (w_db w) fileId)) (\<lambda>found.
     case found of
       None \<Rightarrow> throw_s (no_such_image fileId productId)
     | Some f \<Rightarrow>
         if f_entityId f \<noteq> Some productId then throw_s (no_such_image fileId productId)
         else bind_s (associateMainImage E productId fileId) (\<lambda>_. product_findById S sv productId)))"

end
