(* ===== verification/Service_Invariant.thy ===== *)
theory Service_Invariant
  imports Account_Invariant Users Products_Service
begin

text \<open>
  Files, reviews, profiles and the catalogue keep the database well-formed. A row that is saved as it
  was loaded is the only delicate step: another request may have written in between, so what the
  tables check themselves has to be enough, together with what was known when the row was loaded.
\<close>

section \<open>Rows written over\<close>

text \<open>Giving the row of one key a value that no other row has keeps a unique column unique.\<close>
lemma uniq_set_column:
  assumes "uniq key rows" and "uniq col rows" and "\<And>x. col (f x) = v" and "\<And>x. x \<in> set rows \<Longrightarrow> key x \<noteq> k \<Longrightarrow> col x \<noteq> v"
  shows "uniq col (update_rows (\<lambda>x. key x = k) f rows)"
  using assms(1,2,4)
proof (induction rows)
  case (Cons x rows)
  have rest: "uniq col (update_rows (\<lambda>x. key x = k) f rows)" using Cons by (simp add: uniq_def)
  have "col (if key x = k then f x else x) \<notin> col ` set (update_rows (\<lambda>x. key x = k) f rows)"
  proof (cases "key x = k")
    case True
    then have "\<forall>y \<in> set rows. key y \<noteq> k" using Cons.prems(1) by (auto simp: uniq_def) (metis image_eqI)
    then have "update_rows (\<lambda>x. key x = k) f rows = rows" unfolding update_rows_def by (simp add: map_idI)
    then show ?thesis using True assms(3) Cons.prems(3) \<open>\<forall>y \<in> set rows. key y \<noteq> k\<close> by auto
  next
    case False
    have "col y \<noteq> col x" if "y \<in> set rows" for y using Cons.prems(2) that by (auto simp: uniq_def) (metis image_eqI)
    moreover have "col x \<noteq> v" using Cons.prems(3) [of x] False by simp
    ultimately show ?thesis using False assms(3) unfolding update_rows_def by auto blast
  qed
  moreover have "update_rows (\<lambda>x. key x = k) f (x # rows) = (if key x = k then f x else x) # update_rows (\<lambda>x. key x = k) f rows"
    by (simp add: update_rows_def)
  ultimately show ?case using rest unfolding uniq_def by simp
qed (simp add: uniq_def update_rows_def)

lemma uniq_save_column:
  assumes "uniq key rows" and "uniq col rows" and "\<And>x. x \<in> set rows \<Longrightarrow> key x \<noteq> key r \<Longrightarrow> col x \<noteq> col r"
  shows "uniq col (save_row key r rows)"
proof (cases "key r \<in> key ` set rows")
  case True
  have "save_row key r rows = update_rows (\<lambda>x. key x = key r) (\<lambda>_. r) rows"
    using True by (auto simp: save_row_def update_rows_def)
  then show ?thesis using uniq_set_column [OF assms(1,2), where f = "\<lambda>_. r" and k = "key r"] assms(3) by simp
next
  case False
  have "\<not> (\<exists>x \<in> set rows. key x = key r)" using False by (metis image_eqI)
  then have "save_row key r rows = rows @ [r]" unfolding save_row_def by (rule if_not_P)
  moreover have "col x \<noteq> col r" if "x \<in> set rows" for x using that False assms(3) by (metis image_eqI)
  ultimately show ?thesis using assms(2) by auto blast
qed

section \<open>Files\<close>

lemma inv_insert_file: "moves_by (inv_step E) (insert_file E sv userId dto key)"
proof (rule moves_byI)
  fix w r w' assume run: "insert_file E sv userId dto key w = (r, w')"
  show "inv_step E w w'"
  proof (cases "isl r")
    case True
    then have "w' = w" using run by (auto simp: insert_file_def Let_def split: if_splits)
    then show ?thesis by (simp add: inv.refl)
  next
    case False
    let ?f = "new_file (e_uuid E (w_next w)) (w_now w) (sv_bucket sv) userId dto key"
    have u: "userId \<in> u_id ` set (users (w_db w))"
      and w': "w' = db_update (\<lambda>d. d\<lparr>file_records := file_records d @ [?f]\<rparr>) (w\<lparr>w_next := w_next w + 1\<rparr>)"
      using False run by (auto simp: insert_file_def Let_def split: if_splits)
    have "wf_db (w_db w')" if "wf_db (w_db w)" "e_uuid E (w_next w) \<notin> db_ids (w_db w)"
      using that u unfolding w' by (simp add: wf_db_def db_ids_def) (auto elim!: refers_opt_mono)
    then show ?thesis by (intro inv_stepI) (auto simp: w' db_ids_def)
  qed
qed

text \<open>A file record that was loaded is saved: its owner exists and its identifier was issued.\<close>
lemma inv_given_save_file: "moves_by (inv_with E {f_ownerId f} {} {f_id f}) (save_file f)"
proof (rule moves_byI)
  fix w r w' assume run: "save_file f w = (r, w')"
  let ?d = "w_db w" let ?s = "stored_file (w_now w) ?d f"
  have w': "w' = db_update (put_file (w_now w) f) w" using run by (simp add: save_file_def)
  have ids: "f_id ` set (file_records (w_db w')) = insert (f_id f) (f_id ` set (file_records ?d))"
    using save_row_image [of f_id ?s] by (simp add: w' put_file_def)
  show "inv_with E {f_ownerId f} {} {f_id f} w w'" unfolding inv_with_def inv_step_def
  proof (intro impI)
    assume given: "known E {f_ownerId f} {} {f_id f} w" and okw: "ok E w"
    have owner: "f_ownerId ?s \<in> u_id ` set (users ?d)" using given by (simp add: known_def)
    have "wf_db (w_db w')" using okw owner ids refers_save [where r = ?s and fk = f_ownerId and key = u_id and tgt = "users ?d" and k = f_id]
      by (auto simp: w' put_file_def ok_def wf_db_def uniq_save save_row_image elim!: refers_opt_mono)
    moreover have "db_ids (w_db w') = insert (f_id f) (db_ids ?d)"
      using ids by (auto simp: w' put_file_def db_ids_def)
    ultimately show "ok E w' \<and> grows w w'"
      using okw given ids by (auto simp: ok_def known_def fresh_ids_def grows_def w' put_file_def)
  qed
qed

lemma inv_s3:
  "moves_by (inv_step E) (checkFileExists S sv key)" "moves_by (inv_step E) (getFileRecordData S sv f)"
  "moves_by (inv_step E) (s3_getPresignedDownloadUrl S sv key)" "moves_by (inv_step E) (getPresignedUploadUrl S sv ct key n)"
  "moves_by (inv_step E) (getPresignedDownloadUrl S sv f)" "moves_by (inv_step E) (getPresignedUrlForFileId S sv k)"
  by (rule inv.reads; auto simp: checkFileExists_def getFileRecordData_def getPresignedDownloadUrl_def getPresignedUrlForFileId_def
      s3_getPresignedDownloadUrl_def getPresignedUploadUrl_def bind_s_def split: option.splits sum.splits)+

lemma look_file_known:
  assumes "ok E w" and "look_file (w_db w) k = Some f"
  shows "known E {f_ownerId f} {} {f_id f} w"
proof -
  have f: "f \<in> set (file_records (w_db w))" using assms(2) by (auto simp: look_file_def dest: find_row_SomeD)
  have "f_ownerId f \<in> u_id ` set (users (w_db w))"
    by (rule refers_mem [OF _ f]) (use assms(1) in \<open>simp add: ok_def wf_db_def\<close>)
  moreover have "f_id f \<in> db_ids (w_db w)" using f by (auto simp: db_ids_def)
  ultimately show ?thesis using assms(1) by (auto simp: known_def ok_def fresh_ids_def)
qed

text \<open>What a file handler may do after it has loaded the record.\<close>
lemma inv_after_file:
  assumes "\<And>f. moves_by (inv_with E {f_ownerId f} {} {f_id f}) (k f)"
  shows "moves_by (inv_step E) (bind_s (read_s (findFileRecordOrFail fileId)) k)"
  by (rule inv_bind_given [OF inv_read_s assms])
     (auto simp: findFileRecordOrFail_def read_s_def split: option.splits intro: look_file_known)

lemma inv_after_row:
  assumes "\<And>f. moves_by (inv_with E {f_ownerId f} {} {f_id f}) (k (Some f))" and "moves_by (inv_step E) (k None)"
    and "\<And>d f. g d = Some f \<Longrightarrow> look_file d fileId = Some f"
  shows "moves_by (inv_step E) (bind_s (gets_s (\<lambda>w. g (w_db w))) k)"
proof (rule moves_byI)
  fix w r w' assume run: "bind_s (gets_s (\<lambda>w. g (w_db w))) k w = (r, w')"
  show "inv_step E w w'"
  proof (cases "g (w_db w)")
    case None
    then show ?thesis using run moves_byD [OF assms(2)] by (simp add: bind_s_def)
  next
    case (Some f)
    then have "inv_with E {f_ownerId f} {} {f_id f} w w'" using run moves_byD [OF assms(1)] by (simp add: bind_s_def)
    moreover have "ok E w \<Longrightarrow> known E {f_ownerId f} {} {f_id f} w" by (rule look_file_known [OF _ assms(3) [OF Some]])
    ultimately show ?thesis by (auto simp: inv_with_def inv_step_def)
  qed
qed

lemma inv_files:
  assumes rely: "\<And>w. inv_step E w (e_others E w)"
  shows "moves_by (inv_step E) (createPresignedUpload S sv E userId dto)"
    and "moves_by (inv_step E) (completeUpload S sv E userId fileId)"
    and "moves_by (inv_step E) (prepareFileForEntity S sv E userId fileId)"
proof -
  have others: "moves_by (inv_step E) (modify_s (e_others E))" by (rule inv.modify [OF rely])
  have save: "moves_by (inv_with E {f_ownerId f} {} {f_id f}) (save_file (mark_ready now f))" for f now
    using inv_given_save_file [of E "mark_ready now f"] by simp
  note parts = inv_given.rules save inv_s3 [THEN inv_weaken] others [THEN inv_weaken]
  show "moves_by (inv_step E) (createPresignedUpload S sv E userId dto)"
    unfolding createPresignedUpload_def getObjectKey_def by (intro inv.rules inv_fresh inv_insert_file inv_s3)
  show "moves_by (inv_step E) (completeUpload S sv E userId fileId)"
    unfolding completeUpload_def by (rule inv_after_file) (intro parts)
  show "moves_by (inv_step E) (prepareFileForEntity S sv E userId fileId)"
    unfolding prepareFileForEntity_def by (rule inv_after_file) (intro parts)
qed

section \<open>Reviews\<close>

lemma inv_insert_review: "moves_by (inv_step E) (insert_review E userId productId rating txt)"
proof (rule moves_byI)
  fix w r w' assume run: "insert_review E userId productId rating txt w = (r, w')"
  show "inv_step E w w'"
  proof (cases "isl r")
    case True
    then have "w' = w" using run by (auto simp: insert_review_def Let_def split: sum.splits)
    then show ?thesis by (simp add: inv.refl)
  next
    case False
    let ?r = "\<lparr>rv_id = e_uuid E (w_next w), rv_userId = userId, rv_productId = productId, rv_rating = rating, rv_text = txt,
               rv_createdAt = w_now w, rv_updatedAt = w_now w\<rparr>"
    have ok: "review_constraints ?r (w_db w) = Inr ()"
      and w': "w' = db_update (\<lambda>d. d\<lparr>reviews := reviews d @ [?r]\<rparr>) (w\<lparr>w_next := w_next w + 1\<rparr>)"
      using False run by (auto simp: insert_review_def Let_def split: sum.splits)
    have "wf_db (w_db w')" if "wf_db (w_db w)" "e_uuid E (w_next w) \<notin> db_ids (w_db w)"
      using that ok unfolding w' wf_db_def db_ids_def review_constraints_def second_review_def ratings_ok_def
      by (auto split: if_splits) (metis image_eqI)
    then show ?thesis by (intro inv_stepI) (auto simp: w' db_ids_def)
  qed
qed

lemma stored_review_simps [simp]:
  "rv_id (stored_review now d r) = rv_id r" "rv_userId (stored_review now d r) = rv_userId r"
  "rv_productId (stored_review now d r) = rv_productId r" "rv_rating (stored_review now d r) = rv_rating r"
  by (simp_all add: stored_review_def)

text \<open>The table checks the saved row; its identifier was issued.\<close>
lemma inv_given_save_review: "moves_by (inv_with E {} {} {rv_id r}) (save_review r)"
proof (rule moves_byI)
  fix w x w' assume run: "save_review r w = (x, w')"
  let ?d = "w_db w" let ?s = "stored_review (w_now w) ?d r"
  show "inv_with E {} {} {rv_id r} w w'"
  proof (cases "review_constraints r ?d")
    case (Inl e)
    then show ?thesis using run by (simp add: save_review_def inv_given.refl)
  next
    case (Inr u)
    then have w': "w' = db_update (put_review (w_now w) r) w" using run by (simp add: save_review_def)
    have fk: "rv_userId r \<in> u_id ` set (users ?d)" "rv_productId r \<in> p_id ` set (products ?d)"
      and rating: "1 \<le> rv_rating r" "rv_rating r \<le> 5" and one: "\<not> second_review r ?d"
      using Inr unfolding review_constraints_def by (auto split: if_splits) (metis image_eqI)+
    have ids: "db_ids (w_db w') = insert (rv_id r) (db_ids ?d)"
      by (auto simp: w' put_review_def db_ids_def save_row_image)
    have wf: "wf_db (w_db w')" if wf: "wf_db ?d"
    proof -
      have "uniq (\<lambda>x. (rv_userId x, rv_productId x)) (save_row rv_id ?s (reviews ?d))"
        by (rule uniq_save_column) (use wf one in \<open>auto simp: wf_db_def second_review_def\<close>)
      moreover have "ratings_ok (save_row rv_id ?s (reviews ?d))"
        using wf rating set_save_row_subset [of rv_id ?s "reviews ?d"] by (auto simp: wf_db_def ratings_ok_def)
      moreover have "refers rv_userId (save_row rv_id ?s (reviews ?d)) u_id (users ?d)"
        "refers rv_productId (save_row rv_id ?s (reviews ?d)) p_id (products ?d)"
        using wf fk by (auto simp: wf_db_def intro!: refers_save)
      ultimately show ?thesis using wf by (simp add: w' put_review_def wf_db_def uniq_save)
    qed
    show ?thesis using wf ids by (auto simp: inv_with_def known_def inv_step_def ok_def fresh_ids_def grows_def w' put_review_def)
  qed
qed

lemma inv_drop_review: "inv_step E w (db_update (\<lambda>d. d\<lparr>reviews := delete_rows P (reviews d)\<rparr>) w)"
  by (rule inv_stepI) (auto simp: wf_db_def db_ids_def uniq_delete refers_delete ratings_ok_def)

lemma assign_review_id [simp]: "rv_id (assign_review dto r) = rv_id r"
  by (simp add: assign_review_def)

lemma inv_reviews:
  assumes rely: "\<And>w. inv_step E w (e_others E w)"
  shows "moves_by (inv_step E) (createReview E userId productId cdto)" and "moves_by (inv_step E) (deleteReview E userId productId)"
    and "moves_by (inv_step E) (updateReview E userId productId dto)"
proof -
  have others: "moves_by (inv_step E) (modify_s (e_others E))" by (rule inv.modify [OF rely])
  have viol: "moves_by (inv_step E) (throwOnUniqueViolation e msg)" for e and msg
    by (cases e) (simp_all add: throwOnUniqueViolation_def inv.throw)
  note parts = inv.rules inv_read_s others viol inv_insert_review inv.modify [OF inv_drop_review]
  show "moves_by (inv_step E) (createReview E userId productId cdto)" unfolding createReview_def by (intro parts)
  show "moves_by (inv_step E) (deleteReview E userId productId)" unfolding deleteReview_def by (intro parts)
  have save: "moves_by (inv_with E {} {} {rv_id r}) (save_review (assign_review dto r))" for r
    using inv_given_save_review [of E "assign_review dto r"] by simp
  show "moves_by (inv_step E) (updateReview E userId productId dto)"
    unfolding updateReview_def
  proof (rule inv.bind [OF inv_read_s], rule inv_bind_given [where us = "\<lambda>_. {}" and os = "\<lambda>_. {}"
        and xs = "\<lambda>v. case v of None \<Rightarrow> {} | Some (r, _) \<Rightarrow> {rv_id r}"], goal_cases)
    case (1 p)
    show ?case by (rule inv.gets)
  next
    case (2 p v)
    show ?case using others [THEN inv_weaken] save
      by (cases v) (auto intro!: inv_given.rules)
  next
    case (3 p v w w1)
    have "rv_id r \<in> db_ids (w_db w)" if "find_review productId userId (w_db w) = Some r" for r
      using that by (auto simp: find_review_def find_Some_iff db_ids_def dest: nth_mem)
    then show ?case using 3 by (auto simp: known_def ok_def fresh_ids_def split: option.splits)
  qed
qed

section \<open>Profiles\<close>

text \<open>The saved row: the table checks its address and its avatar.\<close>
lemma inv_save_user:
  assumes "\<And>x. u_id (f x) = u_id u" and "\<And>x. u_email (f x) = u_email u" and "\<And>x. u_avatarId (f x) = u_avatarId u"
  shows "moves_by (inv_step E) (save_user u f)"
proof (rule moves_byI)
  fix w r w' assume run: "save_user u f w = (r, w')"
  let ?d = "w_db w" let ?g = "\<lambda>x. if f x = x then x else (f x)\<lparr>u_updatedAt := w_now w\<rparr>"
  show "inv_step E w w'"
  proof (cases "isl r")
    case True
    then have "w' = w" using run by (auto simp: save_user_def split: if_splits)
    then show ?thesis by (simp add: inv.refl)
  next
    case False
    have w': "w' = db_update (\<lambda>d. d\<lparr>users := update_rows (\<lambda>x. u_id x = u_id u) ?g (users d)\<rparr>) w"
      and mail: "\<And>x. x \<in> set (users ?d) \<Longrightarrow> u_id x \<noteq> u_id u \<Longrightarrow> u_email x \<noteq> u_email u"
      and there: "u_avatarId u = None \<or> look_file ?d (the (u_avatarId u)) \<noteq> None"
      using False run by (auto simp: save_user_def split: if_splits)
    have g: "u_email (?g x) = u_email u" "u_avatarId (?g x) = u_avatarId u" "u_id (?g x) = u_id u" for x
      using assms [of x] by auto
    have id: "map u_id (update_rows (\<lambda>x. u_id x = u_id u) ?g us) = map u_id us" for us
      using g(3) by (simp add: update_rows_def)
    then have ids: "u_id ` set (update_rows (\<lambda>x. u_id x = u_id u) ?g us) = u_id ` set us" for us by (metis set_map)
    have "k \<in> f_id ` set (file_records ?d)" if "u_avatarId u = Some k" for k
      using there that by (auto simp: look_file_def dest: find_row_SomeD)
    then have avatar: "refers_opt u_avatarId (update_rows (\<lambda>x. u_id x = u_id u) ?g (users ?d)) f_id (file_records ?d)"
      if "refers_opt u_avatarId (users ?d) f_id (file_records ?d)"
      using that g(2) by (intro refers_opt_update) (simp_all del: if_split)
    have "uniq u_email (update_rows (\<lambda>x. u_id x = u_id u) ?g (users ?d))"
      if "uniq u_id (users ?d)" "uniq u_email (users ?d)"
      using that g(1) mail by (intro uniq_set_column) auto
    then show ?thesis
      by (intro inv_stepI) (simp_all add: w' wf_db_def db_ids_def ids uniq_def [of u_id] id refers_def avatar)
  qed
qed

lemma inv_soft_delete_user: "moves_by (inv_step E) (soft_delete_user i)"
proof -
  have avatar: "refers_opt u_avatarId (update_rows P (\<lambda>x. x\<lparr>u_deletedAt := t, u_updatedAt := n\<rparr>) us) f_id fs"
    if "refers_opt u_avatarId us f_id fs" for us fs P t n
    using that by (rule refers_opt_update) simp
  show ?thesis unfolding soft_delete_user_def
    by (rule inv.modify, rule inv_stepI)
       (simp_all add: avatar wf_db_def db_ids_def uniq_update update_rows_image refers_def)
qed

lemma inv_users:
  assumes rely: "\<And>w. inv_step E w (e_others E w)"
  shows "moves_by (inv_step E) (changePassword A E userId cdto)" and "moves_by (inv_step E) (updateProfile S sv E userId dto)"
    and "moves_by (inv_step E) (setAvatar S sv E userId fileId)" and "moves_by (inv_step E) (removeAvatar userId)"
    and "moves_by (inv_step E) (remove_user E userId actor ctx)" and "moves_by (inv_step E) (updateRoles E userId roles actor ctx)"
    and "moves_by (inv_step E) (updateScopes E userId scopes actor ctx)"
proof -
  have others: "moves_by (inv_step E) (modify_s (e_others E))" by (rule inv.modify [OF rely])
  have upd: "moves_by (inv_step E) (update_user k (u_password_update g))" "moves_by (inv_step E) (update_user k (u_roles_update h))"
    "moves_by (inv_step E) (update_user k (u_scopes_update h))"
    "moves_by (inv_step E) (update_user k (u_avatarId_update (\<lambda>_. None)))" for k g h by (rule inv_update_user; simp)+
  have url: "moves_by (inv_step E) (resolveAvatarUrl S sv a)" for a unfolding resolveAvatarUrl_def by (intro inv.rules inv_s3)
  have profile: "moves_by (inv_step E) (save_user u (assign_profile dto u))" for u
    by (rule inv_save_user) (simp_all add: assign_profile_def over_row_def)
  have row: "moves_by (inv_step E) (save_user u (over_row u))" for u by (rule inv_save_user) (simp_all add: over_row_def)
  note parts = inv.rules inv_read_s inv_sessions inv_outside inv_soft_delete_user others upd url inv_files(3) [OF rely]
  show "moves_by (inv_step E) (changePassword A E userId cdto)" unfolding changePassword_def by (intro parts)
  show "moves_by (inv_step E) (updateProfile S sv E userId dto)" unfolding updateProfile_def by (intro parts profile)
  show "moves_by (inv_step E) (setAvatar S sv E userId fileId)" unfolding setAvatar_def by (intro parts row)
  show "moves_by (inv_step E) (removeAvatar userId)" unfolding removeAvatar_def by (intro parts)
  show "moves_by (inv_step E) (remove_user E userId actor ctx)" unfolding remove_user_def by (intro parts)
  show "moves_by (inv_step E) (updateRoles E userId roles actor ctx)" unfolding updateRoles_def by (intro parts)
  show "moves_by (inv_step E) (updateScopes E userId scopes actor ctx)" unfolding updateScopes_def by (intro parts)
qed

section \<open>The catalogue\<close>

lemma look_file_mem: "look_file d k = Some f \<Longrightarrow> k \<in> f_id ` set (file_records d)"
  unfolding look_file_def by (metis find_row_SomeD image_eqI)

text \<open>The files a step relies upon are there: records of files are never deleted.\<close>
definition inv_having :: "env \<Rightarrow> uuid set \<Rightarrow> world \<Rightarrow> world \<Rightarrow> bool" where
  "inv_having E fs w w' \<longleftrightarrow> (fs \<subseteq> f_id ` set (file_records (w_db w)) \<longrightarrow> inv_step E w w')"

interpretation having: transition "inv_having E fs" for E fs
proof
  show "inv_having E fs w w" for w by (simp add: inv_having_def inv.refl)
  show "inv_having E fs w w1 \<Longrightarrow> inv_having E fs w1 w2 \<Longrightarrow> inv_having E fs w w2" for w w1 w2
    unfolding inv_having_def inv_step_def grows_def by (meson order_trans)
  show "inv_having E fs w w1 \<Longrightarrow> inv_having E fs w (w1\<lparr>w_db := w_db w\<rparr>)" for w w1
    using inv.rollback by (auto simp: inv_having_def)
qed

lemma having_weaken: "moves_by (inv_step E) m \<Longrightarrow> moves_by (inv_having E fs) m"
  by (simp add: moves_by_def inv_having_def)

lemma inv_bind_having:
  assumes first: "moves_by (inv_step E) m" and rest: "\<And>x. moves_by (inv_having E (fs x)) (k x)"
    and given: "\<And>x w w1. ok E w \<Longrightarrow> m w = (Inr x, w1) \<Longrightarrow> fs x \<subseteq> f_id ` set (file_records (w_db w1))"
  shows "moves_by (inv_step E) (bind_s m k)"
proof (rule inv.bind_after [OF first])
  fix x w w1 r w' assume m: "m w = (Inr x, w1)" and k: "k x w1 = (r, w')"
  have 1: "inv_step E w w1" by (rule moves_byD [OF first m])
  have "inv_step E w w'" if okw: "ok E w"
    using moves_byD [OF rest k] given [OF okw m] 1 inv.trans unfolding inv_having_def by blast
  then show "inv_step E w w'" by (auto simp: inv_step_def)
qed

text \<open>A saved product: the table checks its title; its main image is a file that was there.\<close>
lemma having_save_product: "moves_by (inv_having E (set_option (p_mainImageId p))) (save_product p)"
proof (rule moves_byI)
  fix w r w' assume run: "save_product p w = (r, w')"
  show "inv_having E (set_option (p_mainImageId p)) w w'"
  proof (cases "product_row p (w_db w)")
    case (Inl e)
    then show ?thesis using run by (simp add: save_product_def having.refl)
  next
    case (Inr q)
    let ?rows = "products (w_db w)" let ?s = "stored_product (w_now w) (w_db w) q" let ?ps = "save_row p_id ?s ?rows"
    have q: "int4 (p_stock q)" "\<not> title_taken q (w_db w)" "p_mainImageId q = p_mainImageId p"
      using Inr by (auto simp: product_row_def title_taken_def split: if_splits option.splits)
    have keys: "p_id ?s = p_id q" "p_title ?s = p_title q" "p_mainImageId ?s = p_mainImageId q" "p_stock ?s = p_stock q"
      by (simp_all add: stored_product_def)
    have w': "w_db w' = (w_db w)\<lparr>products := ?ps\<rparr>" "w_next w' = w_next w"
      using run Inr by (auto simp: save_product_def put_product_def)
    have "inv_step E w w'" if there: "set_option (p_mainImageId p) \<subseteq> f_id ` set (file_records (w_db w))"
    proof (rule inv_products [OF w'(1)])
      assume "ok E w"
      then have wf: "uniq p_id ?rows" "uniq p_title ?rows" "\<forall>x \<in> set ?rows. int4 (p_stock x)"
        "refers_opt p_mainImageId ?rows f_id (file_records (w_db w))" by (simp_all add: ok_def wf_db_def)
      have "uniq p_title ?ps"
        by (rule uniq_save_column [OF wf(1,2)]) (use q(2) in \<open>auto simp: keys title_taken_def\<close>)
      moreover have "refers_opt p_mainImageId ?ps f_id (file_records (w_db w))"
        using wf(4) there q(3) keys(3) unfolding refers_opt_def set_save_row by auto
      moreover have "\<forall>x \<in> set ?ps. int4 (p_stock x)" using wf(3) q(1) keys(4) by (simp add: set_save_row)
      ultimately show "uniq p_id ?ps \<and> uniq p_title ?ps \<and> (\<forall>x \<in> set ?ps. int4 (p_stock x)) \<and>
          refers_opt p_mainImageId ?ps f_id (file_records (w_db w))" using uniq_save [OF wf(1)] by blast
    qed (auto simp: w'(2) save_row_image)
    then show ?thesis by (simp add: inv_having_def)
  qed
qed

lemma inv_insert_product: "moves_by (inv_step E) (insert_product E dto)"
proof (rule moves_byI)
  fix w r w' assume run: "insert_product E dto w = (r, w')"
  let ?p = "new_product (e_uuid E (w_next w)) (w_now w) dto"
  show "inv_step E w w'"
  proof (cases "isl r")
    case True
    then have "w' = w" using run by (auto simp: insert_product_def Let_def split: sum.splits if_splits)
    then show ?thesis by (simp add: inv.refl)
  next
    case False
    obtain q where q: "product_row ?p (w_db w) = Inr q"
      using False run unfolding insert_product_def Let_def by (cases "product_row ?p (w_db w)") (simp_all, metis isl_def)
    then have new: "look_product (w_db w) (p_id ?p) = None"
      and w': "w' = db_update (\<lambda>d. d\<lparr>products := products d @ [q]\<rparr>) (w\<lparr>w_next := w_next w + 1\<rparr>)"
      using False run by (auto simp: insert_product_def Let_def split: if_splits)
    have pq: "p_id q = p_id ?p" "p_title q = p_title ?p" "p_mainImageId q = None" "int4 (p_stock q)" "\<not> title_taken ?p (w_db w)"
      using q by (auto simp: product_row_def new_product_def split: if_splits option.splits)
    have "p_id q \<notin> p_id ` set (products (w_db w))" using pq(1) new by (simp add: look_product_def find_row_None)
    moreover have "p_title q \<notin> p_title ` set (products (w_db w))"
    proof
      assume "p_title q \<in> p_title ` set (products (w_db w))"
      then obtain x where x: "x \<in> set (products (w_db w))" "p_title x = p_title q" by (metis imageE)
      then have "p_id x = p_id q" using pq(1,2,5) unfolding title_taken_def by auto
      then show False using calculation x(1) by (metis image_eqI)
    qed
    ultimately show ?thesis using pq(3,4)
      by (intro inv_products [where ps = "products (w_db w) @ [q]"]) (auto simp: w' ok_def wf_db_def)
  qed
qed

lemma inv_product_rows:
  assumes "\<And>x. p_id (f x) = p_id x" and "\<And>x. p_stock (f x) = p_stock x" and "\<And>x. p_title (f x) = p_title x"
    and image: "\<And>x. p_mainImageId (f x) = p_mainImageId x \<or> p_mainImageId (f x) = None"
  shows "inv_step E w (db_update (\<lambda>d. d\<lparr>products := update_rows P f (products d)\<rparr>) w)"
proof (rule inv_products [where ps = "update_rows P f (products (w_db w))"])
  assume "ok E w"
  then have wf: "uniq p_id (products (w_db w))" "uniq p_title (products (w_db w))" "\<forall>x \<in> set (products (w_db w)). int4 (p_stock x)"
    "refers_opt p_mainImageId (products (w_db w)) f_id (file_records (w_db w))" by (simp_all add: ok_def wf_db_def)
  have "refers_opt p_mainImageId (update_rows P f (products (w_db w))) f_id (file_records (w_db w))"
    by (rule refers_opt_update [OF wf(4)]) (metis image option.distinct(1))
  then show "uniq p_id (update_rows P f (products (w_db w))) \<and> uniq p_title (update_rows P f (products (w_db w))) \<and>
      (\<forall>x \<in> set (update_rows P f (products (w_db w))). int4 (p_stock x)) \<and>
      refers_opt p_mainImageId (update_rows P f (products (w_db w))) f_id (file_records (w_db w))"
    using wf assms(1-3) by (auto simp: uniq_update) (auto simp: update_rows_def)
qed (use assms(1) in \<open>simp_all add: update_rows_image\<close>)

lemma inv_catalogue:
  assumes rely: "\<And>w. inv_step E w (e_others E w)"
  shows "moves_by (inv_step E) (create_product E cdto)" and "moves_by (inv_step E) (update_product S sv E productId dto)"
    and "moves_by (inv_step E) (remove_product E productId)" and "moves_by (inv_step E) (addImage E productId fileId)"
    and "moves_by (inv_step E) (removeImage E productId fileId)" and "moves_by (inv_step E) (setMainImage S sv E productId fileId)"
proof -
  have others: "moves_by (inv_step E) (modify_s (e_others E))" by (rule inv.modify [OF rely])
  have viol: "moves_by (inv_step E) (throwOnUniqueViolation e msg)" for e and msg
    by (cases e) (simp_all add: throwOnUniqueViolation_def inv.throw)
  have gone: "moves_by (inv_step E) (soft_delete_product k)" for k
    unfolding soft_delete_product_def by (intro inv.modify inv_product_rows) simp_all
  have unset: "moves_by (inv_step E) (modify_s (\<lambda>w. db_update (\<lambda>d. d\<lparr>products := update_rows P
      (\<lambda>x. x\<lparr>p_mainImageId := None, p_updatedAt := w_now w\<rparr>) (products d)\<rparr>) w))" for P
    by (intro inv.modify inv_product_rows) simp_all
  have url: "moves_by (inv_step E) (resolveFileUrl S sv f)" for f
    unfolding resolveFileUrl_def by (intro inv.rules inv_s3)
  have main: "moves_by (inv_step E) (resolveMainImageUrl S sv m)" for m unfolding resolveMainImageUrl_def by (intro inv.rules url)
  have images: "moves_by (inv_step E) (images_of S sv fs)" for fs
  proof (induction fs)
    case (Cons f fs)
    have "moves_by (inv_step E) (image_of S sv f)" unfolding image_of_def by (intro inv.rules url)
    then show ?case using Cons unfolding images_of.simps by (intro inv.rules) auto
  qed (simp add: moves_by_def inv.refl)
  have view: "moves_by (inv_step E) (product_findById S sv k)" for k
    unfolding product_findById_def by (intro inv.rules inv_read_s main images)
  note parts = inv.rules inv_read_s others viol inv_insert_product gone view
  have attach: "moves_by (inv_with E {f_ownerId f} {} {f_id f}) (save_file (f_entityId_update g f))" for f g
    using inv_given_save_file [of E "f_entityId_update g f"] by simp
  note given = inv_given.rules attach others [THEN inv_weaken] unset [THEN inv_weaken]
  have ready: "ready_file d k = Some f \<Longrightarrow> look_file d k = Some f" for d k f
    by (auto simp: ready_file_def split: option.splits if_splits)
  show "moves_by (inv_step E) (create_product E cdto)" unfolding create_product_def by (intro parts)
  have saved: "moves_by (inv_having E (set_option (p_mainImageId p))) (save_product (assign_product dto p))" for p
    using having_save_product [of E "assign_product dto p"] by (simp add: assign_product_def)
  have stored: "set_option (p_mainImageId p) \<subseteq> f_id ` set (file_records (w_db w))"
    if "ok E w" "p \<in> set (products (w_db w))" for p w
    using that by (auto simp: ok_def wf_db_def refers_opt_def)
  show "moves_by (inv_step E) (update_product S sv E productId dto)" unfolding update_product_def
  proof (rule inv_bind_having [OF inv_read_s, where fs = "\<lambda>p. set_option (p_mainImageId p)"])
    show "set_option (p_mainImageId p) \<subseteq> f_id ` set (file_records (w_db w1))"
      if "ok E w" "read_s (findProductOrFail productId) w = (Inr p, w1)" for p w w1
    proof -
      have "w1 = w" "p \<in> set (products (w_db w))"
        using that(2) by (auto simp: read_s_def findProductOrFail_def findById_product_def find_Some_iff split: option.splits)
      then show ?thesis using stored [OF that(1)] by blast
    qed
  qed (intro having.rules saved others [THEN having_weaken] viol [THEN having_weaken] view [THEN having_weaken])
  show "moves_by (inv_step E) (remove_product E productId)" unfolding remove_product_def by (intro parts)
  have assoc: "moves_by (inv_having E {fileId}) (associateMainImage E productId fileId)"
    unfolding associateMainImage_def using having_save_product [of E "p\<lparr>p_mainImageId := Some fileId\<rparr>" for p]
    by (intro having.rules inv_read_s [THEN having_weaken] others [THEN having_weaken]) simp
  have rest: "moves_by (inv_having E (case found of None \<Rightarrow> {} | Some f \<Rightarrow> {fileId}))
      (case found of None \<Rightarrow> throw_s (no_such_image fileId productId)
       | Some f \<Rightarrow> if f_entityId f \<noteq> Some productId then throw_s (no_such_image fileId productId)
           else bind_s (associateMainImage E productId fileId) (\<lambda>_. product_findById S sv productId))" for found :: "file_record option"
    by (cases found) (auto intro!: having.rules assoc view [THEN having_weaken])
  show "moves_by (inv_step E) (setMainImage S sv E productId fileId)"
    unfolding setMainImage_def
    by (rule inv.bind [OF inv_read_s], rule inv_bind_having [OF inv.gets rest])
       (auto split: option.split dest!: ready intro: look_file_mem)
  show "moves_by (inv_step E) (addImage E productId fileId)"
    unfolding addImage_def
    by (rule inv.bind [OF inv_read_s], rule inv_after_row [where g = "\<lambda>d. ready_file d fileId", OF _ _ ready])
       (simp_all only: option.case, (intro given parts)+)
  show "moves_by (inv_step E) (removeImage E productId fileId)"
    unfolding removeImage_def
    by (rule inv.bind [OF inv_read_s], rule inv_after_row [where g = "\<lambda>d. look_file d fileId"])
       (simp_all only: option.case, (intro given parts)+)
qed

end
