(* ===== verification/Shop_System.thy ===== *)
theory Shop_System
  imports Service_Invariant Orders_Cancel Orders_Query
begin

text \<open>
  The shop as a whole: a transition system whose steps are the requests of the components
  (orders, carts, accounts, profiles, files, reviews, the catalogue), the deliveries of the broker
  and the passing of time, in any order. The database stays well-formed along every run, whatever
  the requests that interleave with a step do, as long as they keep it so themselves. The object
  store and the payment service may answer anything, and differently at every step.
\<close>

section \<open>The system\<close>

inductive shop_step :: "auth_env \<Rightarrow> env \<Rightarrow> authorize_request fire \<Rightarrow> world \<Rightarrow> world \<Rightarrow> bool"
  for A :: auth_env and E :: env and P :: "authorize_request fire" where
  step_create: "createOrder E userId dto ctx w = (r, w') \<Longrightarrow> shop_step A E P w w'"
| step_cancel: "cancelOrder E usr orderId ctx w = (r, w') \<Longrightarrow> shop_step A E P w w'"
| step_process: "processOrderMessage E P pl w = (u, w') \<Longrightarrow> shop_step A E P w w'"
| step_getCart: "getCart E userId w = (c, w') \<Longrightarrow> shop_step A E P w w'"
| step_addItem: "addItem E userId productId q w = (c, w') \<Longrightarrow> shop_step A E P w w'"
| step_updateItem: "updateItem E userId itemId q w = (c, w') \<Longrightarrow> shop_step A E P w w'"
| step_removeItem: "removeItem E userId itemId w = (c, w') \<Longrightarrow> shop_step A E P w w'"
| step_clearCart: "clearCart E userId w = (u, w') \<Longrightarrow> shop_step A E P w w'"
| step_checkout: "checkout E userId key shipping ctx w = (r, w') \<Longrightarrow> shop_step A E P w w'"
| step_signup: "signup A E sdto ctx w = (s, w') \<Longrightarrow> shop_step A E P w w'"
| step_signin: "signin A E email password ctx w = (a, w') \<Longrightarrow> shop_step A E P w w'"
| step_refresh: "refresh A E cookie w = (t, w') \<Longrightarrow> shop_step A E P w w'"
| step_logout: "logout A E c actor ctx w = (u, w') \<Longrightarrow> shop_step A E P w w'"
| step_resend: "resendVerification A E userId w = (u, w') \<Longrightarrow> shop_step A E P w w'"
| step_verify: "verifyEmail A E token w = (u, w') \<Longrightarrow> shop_step A E P w w'"
| step_forgot: "forgotPassword A E email ctx w = (m, w') \<Longrightarrow> shop_step A E P w w'"
| step_reset: "resetPassword A E rdto ctx w = (u, w') \<Longrightarrow> shop_step A E P w w'"
| step_upload: "createPresignedUpload S sv E userId udto w = (up, w') \<Longrightarrow> shop_step A E P w w'"
| step_complete: "completeUpload S sv E userId fileId w = (fv, w') \<Longrightarrow> shop_step A E P w w'"
| step_password: "changePassword A E userId pdto w = (u, w') \<Longrightarrow> shop_step A E P w w'"
| step_profile: "updateProfile S sv E userId prdto w = (uv, w') \<Longrightarrow> shop_step A E P w w'"
| step_setAvatar: "setAvatar S sv E userId fileId w = (uv, w') \<Longrightarrow> shop_step A E P w w'"
| step_removeAvatar: "removeAvatar userId w = (u, w') \<Longrightarrow> shop_step A E P w w'"
| step_removeUser: "remove_user E userId adm ctx w = (u, w') \<Longrightarrow> shop_step A E P w w'"
| step_roles: "updateRoles E userId rs adm ctx w = (m, w') \<Longrightarrow> shop_step A E P w w'"
| step_scopes: "updateScopes E userId ss adm ctx w = (m, w') \<Longrightarrow> shop_step A E P w w'"
| step_createReview: "createReview E userId productId crdto w = (rv, w') \<Longrightarrow> shop_step A E P w w'"
| step_deleteReview: "deleteReview E userId productId w = (u, w') \<Longrightarrow> shop_step A E P w w'"
| step_updateReview: "updateReview E userId productId urdto w = (rv, w') \<Longrightarrow> shop_step A E P w w'"
| step_payment: "getOrderPayment E fire userId orderId w = (pay, w') \<Longrightarrow> shop_step A E P w w'"
| step_clock: "w_now w \<le> n \<Longrightarrow> shop_step A E P w (w\<lparr>w_now := n\<rparr>)"
| step_broker: "shop_step A E P w (w\<lparr>w_channel := ch\<rparr>)"

text \<open>What administrators do with the catalogue.\<close>
inductive catalogue_step :: "env \<Rightarrow> world \<Rightarrow> world \<Rightarrow> bool" for E :: env where
  step_createProduct: "create_product E cdto w = (v, w') \<Longrightarrow> catalogue_step E w w'"
| step_updateProduct: "update_product S sv E productId dto w = (v, w') \<Longrightarrow> catalogue_step E w w'"
| step_removeProduct: "remove_product E productId w = (u, w') \<Longrightarrow> catalogue_step E w w'"
| step_addImage: "addImage E productId fileId w = (u, w') \<Longrightarrow> catalogue_step E w w'"
| step_removeImage: "removeImage E productId fileId w = (u, w') \<Longrightarrow> catalogue_step E w w'"
| step_setMainImage: "setMainImage S sv E productId fileId w = (v, w') \<Longrightarrow> catalogue_step E w w'"

definition system_step :: "auth_env \<Rightarrow> env \<Rightarrow> authorize_request fire \<Rightarrow> world \<Rightarrow> world \<Rightarrow> bool" where
  "system_step A E P w w' \<longleftrightarrow> shop_step A E P w w' \<or> catalogue_step E w w'"

text \<open>What the other requests may do inside a step: keep the database well-formed.\<close>
definition rely :: "env \<Rightarrow> bool" where
  "rely E \<longleftrightarrow> (\<forall>w. inv_step E w (e_others E w))"

lemma inv_getOrderPayment: "moves_by (inv_step E) (getOrderPayment E2 fire userId orderId)"
proof -
  have ask: "moves_by (inv_step E) (grpc_getPaymentStatus E2 fire pid)" for pid
    by (rule moves_byI, rule inv_core)
       (auto simp: grpc_getPaymentStatus_def grpc_call_def core_def split: sum.splits if_splits)
  show ?thesis unfolding getOrderPayment_def by (intro inv.rules ask)
qed

lemma shop_step_inv:
  assumes "shop_step A E P w w'" and "rely E"
  shows "inv_step E w w'"
proof -
  have r: "\<And>w. inv_step E w (e_others E w)" using assms(2) by (simp add: rely_def)
  note d = moves_byD [OF inv_createOrder [OF r]] moves_byD [OF inv_cancelOrder] moves_byD [OF inv_processOrderMessage [OF r]]
    inv_cart [OF r, THEN moves_byD] moves_byD [OF inv_updateItem [OF r]] inv_accounts [OF r, THEN moves_byD]
    inv_files [OF r, THEN moves_byD] inv_users [OF r, THEN moves_byD] inv_reviews [OF r, THEN moves_byD]
    moves_byD [OF inv_getOrderPayment]
  show ?thesis using assms(1)
  proof cases
    case (step_clock n)
    then show ?thesis by (intro inv_core) simp_all
  next
    case (step_broker ch)
    then show ?thesis by (intro inv_core) simp_all
  qed (erule d)+
qed

lemma system_step_inv:
  assumes "system_step A E P w w'" and rely: "rely E"
  shows "inv_step E w w'"
  using assms(1) unfolding system_step_def
proof
  have r: "\<And>w. inv_step E w (e_others E w)" using rely by (simp add: rely_def)
  assume "catalogue_step E w w'"
  then show ?thesis by cases (auto intro: inv_catalogue [OF r, THEN moves_byD])
qed (rule shop_step_inv [OF _ rely])

text \<open>C32: Every reachable database is well-formed. Every primary key and every unique index of
  the migrations holds: a user's address, a product's title, the idempotency key and the payment id
  of an order and the key of a processed message where they are given, one cart per user, one line
  per product in a cart, one review per user and product. Every foreign key points to a row, those
  that may be null (a product's main image, a user's avatar) included; an order is unpaid as long as
  it is pending; every stock fits its column and every rating is between 1 and 5. The identifiers
  still to come are new, and no user, product, order or file record is ever lost, nor does an order
  change owner or key. So the writes that save a loaded row without looking at an index or a
  reference can never violate one.\<close>
theorem reachable_db_well_formed:
  assumes reach: "(system_step A E P)\<^sup>*\<^sup>* w0 w" and rely: "rely E" and start: "ok E w0"
  shows "ok E w \<and> grows w0 w"
  using reach
proof induction
  case base
  then show ?case using start by (simp add: grows_def)
next
  case (step y z)
  have "inv_step E y z" by (rule system_step_inv [OF step.hyps(2) rely])
  then show ?case using step.IH unfolding inv_step_def grows_def by (meson order_trans)
qed

text \<open>The sample shop is well-formed, and an order can be placed in it.\<close>
definition no_payments :: "authorize_request fire" where
  "no_payments = (\<lambda>_ _. Inl RxTimeout)"

lemma sample_ok: "ok sample_env sample_world"
proof -
  have "wf_db (w_db sample_world)" by (simp add: wf_db_def uniq_def uniq_opt_def refers_def refers_opt_def ratings_ok_def pending_unpaid_def sample_defs int4_def)
  moreover have "inj (e_uuid sample_env)" by (auto simp: inj_def sample_env_def)
  moreover have "e_uuid sample_env k \<notin> db_ids (w_db sample_world)" for k
    by (simp add: sample_defs db_ids_def)
  ultimately show ?thesis by (simp add: ok_def fresh_ids_def)
qed

lemma sample_alone: "e_others sample_env = (\<lambda>w. w)"
  by (simp add: sample_env_def)

lemma sample_rely: "rely sample_env"
  by (simp add: rely_def sample_alone inv.refl)

lemma sample_run: "\<exists>w. (shop_step sample_auth sample_env no_payments)\<^sup>*\<^sup>* sample_world w \<and> length (orders (w_db w)) = 1"
proof -
  let ?run = "createOrder sample_env ''u1'' (order_dto None [(''p1'', 2)]) None sample_world"
  obtain r w' where run: "?run = (r, w')" by fastforce
  have "length (orders (w_db (snd ?run))) = 1" by code_simp
  then show ?thesis using run step_create [OF run] by (auto intro: r_into_rtranclp)
qed

lemma shop_run_system: "(shop_step A E P)\<^sup>*\<^sup>* w0 w \<Longrightarrow> (system_step A E P)\<^sup>*\<^sup>* w0 w"
  by (erule mono_rtranclp [rule_format, rotated]) (simp add: system_step_def)

lemma reachable_db_well_formed_witness:
  "\<exists>w. (shop_step sample_auth sample_env no_payments)\<^sup>*\<^sup>* sample_world w \<and> length (orders (w_db w)) = 1 \<and> ok sample_env w"
proof -
  obtain w where w: "(shop_step sample_auth sample_env no_payments)\<^sup>*\<^sup>* sample_world w" "length (orders (w_db w)) = 1"
    using sample_run by blast
  show ?thesis using reachable_db_well_formed [OF shop_run_system [OF w(1)] sample_rely sample_ok] w by blast
qed

end
