(* ===== verification/Reads.thy ===== *)
theory Reads
  imports Users Products_Service
begin

text \<open>
  Operations that only look: the views of products, files and profiles leave the world as it is.
\<close>

definition still :: "'a act \<Rightarrow> bool" where
  "still m \<longleftrightarrow> (\<forall>w. snd (m w) = w)"

lemma still_basics:
  "still (return_s x)" "still (throw_s e)" "still (gets_s f)" "still (read_s g)"
  "still (lift_s v)"
  by (simp_all add: still_def read_s_def)

lemma still_bind: "still m \<Longrightarrow> (\<And>x. still (k x)) \<Longrightarrow> still (bind_s m k)"
  by (auto simp: still_def bind_s_def split: prod.split sum.split) (metis snd_conv)+

lemma still_catch: "still m \<Longrightarrow> (\<And>e. still (h e)) \<Longrightarrow> still (catch_s m h)"
  by (auto simp: still_def catch_s_def split: prod.split sum.split) (metis snd_conv)+

lemma still_choice: "still a \<Longrightarrow> still b \<Longrightarrow> still (if c then a else b)"
  and still_option: "still n \<Longrightarrow> (\<And>x. still (s x)) \<Longrightarrow> still (case v of None \<Rightarrow> n | Some x \<Rightarrow> s x)"
  and still_pair: "(\<And>x y. still (f x y)) \<Longrightarrow> still (case p of (x, y) \<Rightarrow> f x y)"
  by (auto split: option.split prod.split)

lemma still_sign: "still (s3_getPresignedDownloadUrl S sv key)"
  by (auto simp: still_def s3_getPresignedDownloadUrl_def split: sum.split)

lemmas still_rules = still_basics still_bind still_catch still_choice still_option still_pair still_sign

lemma still_images: "still (images_of S sv fs)"
proof (induction fs)
  case (Cons f fs)
  then show ?case unfolding images_of.simps image_of_def resolveFileUrl_def by (intro still_rules)
qed (simp add: still_def)

lemma still_reads:
  "still (getProfile S sv i)" "still (findById S sv i)" "still (product_findById S sv i)" "still (listImages S sv i)"
  "still (getFileById S sv i f)" "still (getFileUrl S sv i f)"
  unfolding getProfile_def findById_def product_findById_def listImages_def getFileById_def getFileUrl_def resolveAvatarUrl_def
    getPresignedUrlForFileId_def resolveMainImageUrl_def resolveFileUrl_def getFileRecordData_def getPresignedDownloadUrl_def
  by (intro still_rules still_images)+

end
