(* ===== verification/Files_Theorems.thy ===== *)
theory Files_Theorems
  imports Files Orders_Command_Theorems
begin

text \<open>
  The life of an upload: a request makes a PENDING record and a signed URL, the object is put into
  the store, and completing the upload makes the record READY. The object store is modelled by its
  answers; the facts below hold for any.
\<close>

text \<open>The store has no such object.\<close>
definition absent :: "s3_env \<Rightarrow> s3_service \<Rightarrow> string \<Rightarrow> world \<Rightarrow> bool" where
  "absent S sv key w = (case s3_send S (sv_client sv) (HeadObject (sv_bucket sv) key) w of
     None \<Rightarrow> False | Some e \<Rightarrow> se_name e = Some ''NotFound'' \<or> se_status e = Some 404)"

definition present :: "s3_env \<Rightarrow> s3_service \<Rightarrow> string \<Rightarrow> world \<Rightarrow> bool" where
  "present S sv key w \<longleftrightarrow> s3_send S (sv_client sv) (HeadObject (sv_bucket sv) key) w = None"

lemma getFileUrl_pending:
  assumes "look_file (w_db w) i = Some f" and "f_status f = FILE_PENDING" and "f_ownerId f = u"
  shows "getFileUrl S sv u i w = (Inl (http_exn BadRequest ''File is not ready for download''), w)"
  using assms by (simp add: getFileUrl_def bind_s_def read_s_def findFileRecordOrFail_def checkIsOwner_def)

lemma foreign_file:
  assumes "look_file (w_db w) i = Some f" and "f_ownerId f \<noteq> u"
  shows "completeUpload S sv E u i w = (Inl (http_exn Forbidden ''You do not have access to this file''), w)"
    and "getFileUrl S sv u i w = (Inl (http_exn Forbidden ''You do not have access to this file''), w)"
    and "prepareFileForEntity S sv E u i w = (Inl (http_exn Forbidden ''You do not have access to this file''), w)"
    and "getFileById S sv u i w = (Inl (http_exn Forbidden ''You do not have access to this file''), w)"
  using assms by (simp_all add: completeUpload_def getFileUrl_def prepareFileForEntity_def getFileById_def bind_s_def read_s_def
      findFileRecordOrFail_def checkIsOwner_def)

lemma getFileUrl_ready:
  assumes "look_file (w_db w) i = Some f" and "f_status f = FILE_READY" and "f_ownerId f = u"
  shows "getFileUrl S sv u i w = (s3_sign S (sv_presignClient sv) (GetObject (sv_bucket sv) (f_key f)) (sv_downloadExpiresInSeconds sv) (w_now w), w)"
  using assms
  by (simp add: getFileUrl_def bind_s_def read_s_def findFileRecordOrFail_def checkIsOwner_def getPresignedDownloadUrl_def
      s3_getPresignedDownloadUrl_def split: sum.split)

text \<open>The status of the record plays no role for \<^verbatim>\<open>getFileById\<close>.\<close>
lemma getFileById_signs:
  assumes "look_file (w_db w) i = Some f" and "f_ownerId f = u"
    and "s3_sign S (sv_presignClient sv) (GetObject (sv_bucket sv) (f_key f)) (sv_downloadExpiresInSeconds sv) (w_now w) = Inr url"
  shows "\<exists>fv. getFileById S sv u i w = (Inr fv, w) \<and> fv_status fv = f_status f \<and> fv_publicUrl fv = url"
  using assms by (simp add: getFileById_def bind_s_def read_s_def findFileRecordOrFail_def checkIsOwner_def getFileRecordData_def
      getPresignedDownloadUrl_def s3_getPresignedDownloadUrl_def)

text \<open>C24: The life of an upload, from the record an upload request makes to any later moment at which
  that record is still as it was made. Whoever is not its owner gets neither a URL nor the record
  and cannot complete it (403). The owner is refused the URL of the file with 400 as long as it is
  pending, though the record itself already carries a signed URL for it, which does not ask for the
  status. While the store lacks the object, completing is refused with 400 and changes nothing; once
  the store has it, completing makes exactly this record READY (even when signing the download URL
  then fails), and from then on the owner downloads it by the URL the store signs for its key.\<close>
theorem upload_lifecycle:
  assumes made: "createPresignedUpload S sv E u dto w = (Inr v, w1)"
    and new: "look_file (w_db w) (e_uuid E (w_next w + 1)) = None"
    and same: "look_file (w_db w2) (fu_fileId v) = look_file (w_db w1) (fu_fileId v)"
  shows "getFileUrl S sv u (fu_fileId v) w2 = (Inl (http_exn BadRequest ''File is not ready for download''), w2) \<and>
    (\<forall>url. s3_sign S (sv_presignClient sv) (GetObject (sv_bucket sv) (fu_key v)) (sv_downloadExpiresInSeconds sv) (w_now w2) = Inr url \<longrightarrow>
       (\<exists>fv. getFileById S sv u (fu_fileId v) w2 = (Inr fv, w2) \<and> fv_status fv = FILE_PENDING \<and> fv_publicUrl fv = url)) \<and>
    (\<forall>u2. u2 \<noteq> u \<longrightarrow> getFileUrl S sv u2 (fu_fileId v) w2 = (Inl (http_exn Forbidden ''You do not have access to this file''), w2) \<and>
       getFileById S sv u2 (fu_fileId v) w2 = (Inl (http_exn Forbidden ''You do not have access to this file''), w2) \<and>
       completeUpload S sv E u2 (fu_fileId v) w2 = (Inl (http_exn Forbidden ''You do not have access to this file''), w2)) \<and>
    (absent S sv (fu_key v) w2 \<longrightarrow> completeUpload S sv E u (fu_fileId v) w2 =
       (Inl (http_exn BadRequest ''File not found in S3 bucket. Please upload the file first using the presigned URL.''), w2)) \<and>
    (present S sv (fu_key v) w2 \<longrightarrow> (\<exists>r w3. completeUpload S sv E u (fu_fileId v) w2 = (r, w3) \<and>
       (\<forall>k. k \<noteq> fu_fileId v \<longrightarrow> look_file (w_db w3) k = look_file (w_db (e_others E w2)) k) \<and>
       map_option f_status (look_file (w_db w3) (fu_fileId v)) = Some FILE_READY \<and>
       getFileUrl S sv u (fu_fileId v) w3 = (s3_sign S (sv_presignClient sv) (GetObject (sv_bucket sv) (fu_key v))
         (sv_downloadExpiresInSeconds sv) (w_now w3), w3)))"
proof -
  note m = createPresignedUpload_Inr [OF made]
  let ?f = "new_file (e_uuid E (w_next w + 1)) (w_now w) (sv_bucket sv) u dto (fu_key v)"
  have "look_file (w_db w1) (fu_fileId v) = Some ?f"
    using new by (simp add: m look_file_def find_row_append)
  then have f: "look_file (w_db w2) (fu_fileId v) = Some ?f" using same by simp
  have completes: "\<exists>r w3. completeUpload S sv E u (fu_fileId v) w2 = (r, w3) \<and>
       (\<forall>k. k \<noteq> fu_fileId v \<longrightarrow> look_file (w_db w3) k = look_file (w_db (e_others E w2)) k) \<and>
       map_option f_status (look_file (w_db w3) (fu_fileId v)) = Some FILE_READY \<and>
       getFileUrl S sv u (fu_fileId v) w3 = (s3_sign S (sv_presignClient sv) (GetObject (sv_bucket sv) (fu_key v))
         (sv_downloadExpiresInSeconds sv) (w_now w3), w3)" if there: "present S sv (fu_key v) w2"
  proof -
    let ?o = "e_others E w2" let ?r = "mark_ready (js_now ?o) ?f"
    let ?s = "stored_file (w_now ?o) (w_db ?o) ?r" let ?w3 = "db_update (put_file (w_now ?o) ?r) ?o"
    have "completeUpload S sv E u (fu_fileId v) w2 = getFileRecordData S sv ?s ?w3"
      using there by (simp add: completeUpload_pending [OF f] present_def Let_def)
    then have "completeUpload S sv E u (fu_fileId v) w2 = (fst (getFileRecordData S sv ?s ?w3), ?w3)"
      by (metis file_data_world prod.collapse)
    moreover have look: "look_file (w_db ?w3) k = (if k = fu_fileId v then Some ?s else look_file (w_db ?o) k)" for k
      by (simp add: look_put_file m)
    moreover have "getFileUrl S sv u (fu_fileId v) ?w3 = (s3_sign S (sv_presignClient sv) (GetObject (sv_bucket sv) (fu_key v))
         (sv_downloadExpiresInSeconds sv) (w_now ?w3), ?w3)"
      using getFileUrl_ready [of ?w3 "fu_fileId v" ?s u S sv] look by simp
    ultimately show ?thesis by auto
  qed
  have owner: "\<exists>fv. getFileById S sv u (fu_fileId v) w2 = (Inr fv, w2) \<and> fv_status fv = FILE_PENDING \<and> fv_publicUrl fv = url"
    if "s3_sign S (sv_presignClient sv) (GetObject (sv_bucket sv) (fu_key v)) (sv_downloadExpiresInSeconds sv) (w_now w2) = Inr url" for url
    using getFileById_signs [OF f, of u S sv url] that by simp
  show ?thesis
  proof (intro conjI)
    show "\<forall>u2. u2 \<noteq> u \<longrightarrow> getFileUrl S sv u2 (fu_fileId v) w2 = (Inl (http_exn Forbidden ''You do not have access to this file''), w2) \<and>
       getFileById S sv u2 (fu_fileId v) w2 = (Inl (http_exn Forbidden ''You do not have access to this file''), w2) \<and>
       completeUpload S sv E u2 (fu_fileId v) w2 = (Inl (http_exn Forbidden ''You do not have access to this file''), w2)"
      using foreign_file [OF f] by simp
  qed (use getFileUrl_pending [OF f] owner completeUpload_pending [OF f] completes in
      \<open>auto simp: absent_def split: option.splits\<close>)
qed

section \<open>A sample store\<close>

definition sample_s3 :: s3_env where
  "sample_s3 = \<lparr>s3_string = (\<lambda>k. if k = ''AWS_S3_BUCKET'' then Some ''shop'' else if k = ''AWS_REGION'' then Some ''eu'' else None),
     s3_number = (\<lambda>_. None),
     s3_send = (\<lambda>_ _ _. None), s3_sign = (\<lambda>_ c _ _. case c of GetObject b k \<Rightarrow> Inr (''get/'' @ k) | _ \<Rightarrow> Inr ''put'')\<rparr>"

definition sample_store :: s3_service where
  "sample_store = projr (new_S3Service sample_s3)"

definition sample_upload :: presigned_upload_dto where
  "sample_upload = \<lparr>pu_contentType = ''image/png'', pu_entityId = ''p1'', pu_entityType = ''product'', pu_size = 1024\<rparr>"

lemma upload_lifecycle_witness:
  "\<exists>v w1 w3. createPresignedUpload sample_s3 sample_store sample_env ''u1'' sample_upload sample_world = (Inr v, w1) \<and>
     getFileUrl sample_s3 sample_store ''u1'' (fu_fileId v) w1 = (Inl (http_exn BadRequest ''File is not ready for download''), w1) \<and>
     (\<exists>fv. getFileById sample_s3 sample_store ''u1'' (fu_fileId v) w1 = (Inr fv, w1) \<and> fv_publicUrl fv = ''get/products/p1/images/id-.png'') \<and>
     snd (completeUpload sample_s3 sample_store sample_env ''u1'' (fu_fileId v) w1) = w3 \<and>
     fst (getFileUrl sample_s3 sample_store ''u1'' (fu_fileId v) w3) = Inr ''get/products/p1/images/id-.png''"
proof -
  have "\<not> isl (fst (createPresignedUpload sample_s3 sample_store sample_env ''u1'' sample_upload sample_world))" by code_simp
  then obtain v w1 where run: "createPresignedUpload sample_s3 sample_store sample_env ''u1'' sample_upload sample_world = (Inr v, w1)"
    by (rule not_isl_fstE)
  have new: "look_file (w_db sample_world) (e_uuid sample_env (w_next sample_world + 1)) = None" by code_simp
  have key: "fu_key v = ''products/p1/images/id-.png''"
    using createPresignedUpload_Inr(2) [OF run] by (simp add: sample_defs object_key_def sample_upload_def getFileExtension_def)
  have "present sample_s3 sample_store (fu_key v) w1" "\<not> absent sample_s3 sample_store (fu_key v) w1"
    by (simp_all add: present_def absent_def sample_s3_def)
  moreover have "s3_sign sample_s3 (sv_presignClient sample_store) (GetObject b k) n t = Inr (''get/'' @ k)" for b k n t
    by (simp add: sample_s3_def)
  ultimately show ?thesis using upload_lifecycle [OF run new refl] run by (auto simp: key)
qed

end
