(* ===== verification/Stock_Ledger.thy ===== *)
theory Stock_Ledger
  imports Shop_System Reads Files_Theorems
begin

text \<open>
  What the shop promises about stock, as an abstract machine: a ledger of the pieces available
  of every product and of the pieces each open order holds. Placing an order takes its pieces
  from what is available; releasing it gives them back; a stocktake, what an administrator does,
  sets what is available of one product. The shop refines this machine when requests do not
  interleave: customers, deliveries and the clock only place and release, the catalogue only takes
  stock; the theory \<open>Cancel_Race\<close> shows what goes wrong when
  two cancellations do.
\<close>

section \<open>The ledger\<close>

record ledger =
  lg_avail :: "uuid \<Rightarrow> int option"
  lg_held :: "uuid \<Rightarrow> (uuid \<Rightarrow> int) option"

inductive ledger_step :: "ledger \<Rightarrow> ledger \<Rightarrow> bool" where
  place: "lg_held l i = None \<Longrightarrow> \<forall>k. q k \<noteq> 0 \<longrightarrow> lg_avail l k \<noteq> None \<Longrightarrow>
    ledger_step l \<lparr>lg_avail = (\<lambda>k. map_option (\<lambda>n. n - q k) (lg_avail l k)), lg_held = (lg_held l)(i \<mapsto> q)\<rparr>"
| release: "lg_held l i = Some q \<Longrightarrow>
    ledger_step l \<lparr>lg_avail = (\<lambda>k. map_option (\<lambda>n. n + q k) (lg_avail l k)), lg_held = (lg_held l)(i := None)\<rparr>"

text \<open>What is available of one product is set anew; what orders hold stays.\<close>
inductive stocktake :: "ledger \<Rightarrow> ledger \<Rightarrow> bool" where
  count: "stocktake l (l\<lparr>lg_avail := (lg_avail l)(k := v)\<rparr>)"

definition ledger_move :: "ledger \<Rightarrow> ledger \<Rightarrow> bool" where
  "ledger_move l l' \<longleftrightarrow> ledger_step l l' \<or> stocktake l l'"

text \<open>What all open orders hold of a product.\<close>
definition held_total :: "ledger \<Rightarrow> uuid \<Rightarrow> int" where
  "held_total l k = (\<Sum>i \<in> dom (lg_held l). the (lg_held l i) k)"

lemma ledger_step_finite: "ledger_step l l' \<Longrightarrow> finite (dom (lg_held l)) \<Longrightarrow> finite (dom (lg_held l'))"
  by (induction rule: ledger_step.induct) auto

text \<open>No move creates or destroys a piece.\<close>
lemma ledger_step_conserves:
  assumes "ledger_step l l'" and "finite (dom (lg_held l))"
  shows "map_option (\<lambda>n. n + held_total l' k) (lg_avail l' k) = map_option (\<lambda>n. n + held_total l k) (lg_avail l k)"
  using assms
proof cases
  case (place i q)
  have "dom (lg_held l') = insert i (dom (lg_held l))" "i \<notin> dom (lg_held l)" using place by auto
  then have "held_total l' k = q k + held_total l k"
    using assms(2) place by (auto simp: held_total_def intro!: sum.cong)
  then show ?thesis using place by (simp add: option.map_comp comp_def add.commute)
next
  case (release i q)
  have d: "dom (lg_held l') = dom (lg_held l) - {i}" using release by auto
  have "held_total l k = q k + (\<Sum>j \<in> dom (lg_held l'). the (lg_held l j) k)"
    using sum.remove [OF assms(2), of i "\<lambda>j. the (lg_held l j) k"] release d by (auto simp: held_total_def)
  also have "(\<Sum>j \<in> dom (lg_held l'). the (lg_held l j) k) = held_total l' k"
    unfolding held_total_def using release by (auto intro!: sum.cong)
  finally show ?thesis using release by (cases "lg_avail l k") (simp_all add: add.commute)
qed

section \<open>The ledger of a database\<close>

definition holds :: "db \<Rightarrow> order \<Rightarrow> (uuid \<Rightarrow> int) option" where
  "holds d r = (if o_status r = CANCELLED then None else Some (\<lambda>k. qty_of k (order_qty d (o_id r))))"

definition ledger_of :: "db \<Rightarrow> ledger" where
  "ledger_of d = \<lparr>lg_avail = (\<lambda>k. if live_in d k then stock_of d k else None),
     lg_held = (\<lambda>i. Option.bind (look_order d i) (holds d))\<rparr>"

definition outstanding :: "db \<Rightarrow> uuid \<Rightarrow> int" where
  "outstanding d k = sum_list (map (\<lambda>r. qty_of k (order_qty d (o_id r))) (filter (\<lambda>r. o_status r \<noteq> CANCELLED) (orders d)))"

lemma ledger_of_same_shop: "same_shop d d' \<Longrightarrow> ledger_of d' = ledger_of d"
proof -
  assume same: "same_shop d d'"
  have "stock_of d' k = stock_of d k" for k using same by (intro stock_of_cong) (simp add: same_shop_def)
  moreover have "look_product d' k = look_product d k" for k using same by (intro look_product_cong) (simp add: same_shop_def)
  moreover have "look_order d' k = look_order d k" for k using same by (intro look_order_cong) (simp add: same_shop_def)
  moreover have "order_qty d' k = order_qty d k" for k using same by (simp add: order_qty_def items_of_def same_shop_def)
  ultimately show ?thesis by (simp add: ledger_of_def live_in_def holds_def [abs_def] cong: if_cong)
qed

lemma dom_held:
  assumes "uniq o_id (orders d)"
  shows "dom (lg_held (ledger_of d)) = o_id ` set (filter (\<lambda>r. o_status r \<noteq> CANCELLED) (orders d))"
proof -
  have "look_order d (o_id r) = Some r" if "r \<in> set (orders d)" for r
    using find_row_mem [of o_id "orders d" r] assms that by (simp add: look_order_def uniq_def)
  then show ?thesis
    by (force simp: ledger_of_def holds_def dom_def bind_eq_Some_conv dest: look_order_SomeD split: if_splits)
qed

lemma held_total_outstanding:
  assumes "uniq o_id (orders d)"
  shows "held_total (ledger_of d) k = outstanding d k"
proof -
  let ?open = "filter (\<lambda>r. o_status r \<noteq> CANCELLED) (orders d)"
  have dist: "distinct (map o_id ?open)" using assms by (simp add: uniq_def distinct_map_filter)
  have look: "look_order d (o_id r) = Some r" if "r \<in> set (orders d)" for r
    using find_row_mem [of o_id "orders d" r] assms that by (simp add: look_order_def uniq_def)
  have "held_total (ledger_of d) k = (\<Sum>i \<in> set (map o_id ?open). the (lg_held (ledger_of d) i) k)"
    by (simp add: held_total_def dom_held [OF assms])
  also have "\<dots> = sum_list (map (\<lambda>i. the (lg_held (ledger_of d) i) k) (map o_id ?open))"
    by (rule sum_list_distinct_conv_sum_set [OF dist, symmetric])
  also have "\<dots> = outstanding d k"
    unfolding outstanding_def map_map
    by (rule sum_list_map_cong) (auto simp: ledger_of_def holds_def look)
  finally show ?thesis .
qed

section \<open>Creating is placing\<close>

lemma live_in_executeOrderTransaction:
  assumes run: "executeOrderTransaction E dto usr ids w = (Inr v, w')" and keyed: "products_keyed (w_db w)"
  shows "live_in (w_db w') k = live_in (w_db w) k"
proof -
  obtain m w1 where lvd: "lockValidateAndDecrement E (co_items dto) ids w = (Inr m, w1)"
    and prod: "products (w_db w') = products (w_db w1)" by (rule executeOrderTransaction_Inr [OF run]) simp
  have "look_product (w_db w') k = look_product (w_db w1) k" by (rule look_product_cong [OF prod])
  then show ?thesis using lockValidateAndDecrement_Inr(4) [OF lvd keyed, of k]
    by (auto simp: live_in_def split: option.splits)
qed

lemma findById_product_live_in: "products_keyed d \<Longrightarrow> findById_product k d = Some p \<Longrightarrow> live_in d k \<and> stock_of d k \<noteq> None"
  using find_row_mem [of p_id "products d" p]
  by (auto simp: findById_product_def find_Some_iff products_keyed_def live_in_def stock_of_def look_product_def dest: nth_mem)

lemma qty_of_nonzero: "qty_of k its \<noteq> 0 \<Longrightarrow> k \<in> si_productId ` set its"
  using qty_of_absent by blast

lemma created_is_placed:
  assumes run: "executeOrderTransaction E dto usr ids w = (Inr v, w')" and okw: "ok E w"
  shows "ledger_step (ledger_of (w_db w)) (ledger_of (w_db w'))"
proof -
  let ?i = "o_id (ov_order v)" and ?q = "\<lambda>k. qty_of k (co_items dto)" and ?l = "ledger_of (w_db w)"
  have keyed: "products_keyed (w_db w)" using okw by (simp add: ok_def wf_db_def uniq_def products_keyed_def)
  have c: "created_view E w dto usr v w'" by (rule executeOrderTransaction_created [OF run keyed])
  have id: "?i = e_uuid E (w_next w)" using c by (simp add: created_view_def new_order_def)
  have st: "o_status (ov_order v) = PENDING" using c by (simp add: created_view_def new_order_def)
  have "?i \<notin> db_ids (w_db w)" using okw id by (simp add: ok_def fresh_ids_def)
  then have fresh: "?i \<notin> o_id ` set (orders (w_db w))" by (auto simp: db_ids_def)
  have "oi_orderId ` set (order_items (w_db w)) \<subseteq> o_id ` set (orders (w_db w))"
    using okw by (simp add: ok_def wf_db_def refers_def)
  then have noitem: "?i \<notin> oi_orderId ` set (order_items (w_db w))" using fresh by blast
  have ords: "orders (w_db w') = orders (w_db w) @ [ov_order v]"
    and its: "order_items (w_db w') = order_items (w_db w) @ map fst (ov_items v)"
    and belong: "\<forall>it \<in> fst ` set (ov_items v). oi_orderId it = ?i"
    and stock: "items_stock (ov_items v) = co_items dto"
    and moved: "\<And>k. stock_of (w_db w') k = map_option (\<lambda>n. n - ?q k) (stock_of (w_db w) k)"
    and prods: "\<forall>it \<in> fst ` set (ov_items v). \<exists>p. findById_product (oi_productId it) (w_db w) = Some p"
    using c unfolding created_view_def by blast+
  have new: "order_qty (w_db w') ?i = co_items dto"
    using order_qty_new [OF its noitem belong] stock by simp
  have old: "order_qty (w_db w') k = order_qty (w_db w) k" if "k \<noteq> ?i" for k
  proof -
    have "filter (\<lambda>it. oi_orderId it = k) (map fst (ov_items v)) = []" using belong that by (auto simp: filter_empty_conv)
    then show ?thesis by (simp add: order_qty_def items_of_def its)
  qed
  have held: "lg_held (ledger_of (w_db w')) = (lg_held ?l)(?i \<mapsto> ?q)"
  proof
    fix k
    show "lg_held (ledger_of (w_db w')) k = ((lg_held ?l)(?i \<mapsto> ?q)) k"
    proof (cases "k = ?i")
      case True
      then show ?thesis using look_order_new [OF ords fresh] new st by (simp add: ledger_of_def holds_def)
    next
      case False
      then have "look_order (w_db w') k = look_order (w_db w) k"
        by (auto simp: look_order_def ords find_row_append split: option.split)
      then show ?thesis using False old [OF False]
        by (cases "look_order (w_db w) k") (auto simp: ledger_of_def holds_def dest: look_order_SomeD)
    qed
  qed
  have avail: "lg_avail (ledger_of (w_db w')) = (\<lambda>k. map_option (\<lambda>n. n - ?q k) (lg_avail ?l k))"
    by (rule ext) (simp add: ledger_of_def live_in_executeOrderTransaction [OF run keyed] moved)
  have free: "lg_held ?l ?i = None"
  proof -
    have "look_order (w_db w) ?i = None" using fresh by (simp add: look_order_def find_row_None)
    then show ?thesis by (simp add: ledger_of_def)
  qed
  have there: "\<forall>k. ?q k \<noteq> 0 \<longrightarrow> lg_avail ?l k \<noteq> None"
  proof (intro allI impI)
    fix k assume "?q k \<noteq> 0"
    then have "k \<in> si_productId ` set (items_stock (ov_items v))" using qty_of_nonzero stock by metis
    then obtain it where "it \<in> fst ` set (ov_items v)" "oi_productId it = k" by (force simp: items_stock_def)
    then obtain p where "findById_product k (w_db w) = Some p" using prods by blast
    then show "lg_avail ?l k \<noteq> None" using findById_product_live_in [OF keyed] by (simp add: ledger_of_def)
  qed
  have "ledger_of (w_db w') = \<lparr>lg_avail = (\<lambda>k. map_option (\<lambda>n. n - ?q k) (lg_avail ?l k)), lg_held = (lg_held ?l)(?i \<mapsto> ?q)\<rparr>"
    using held avail by (metis ledger.surjective old.unit.exhaust)
  then show ?thesis using ledger_step.place [OF free there] by simp
qed

section \<open>Cancelling is releasing\<close>

lemma live_in_executeCancelTransaction:
  assumes run: "executeCancelTransaction E i u w = (Inr v, w')" and keyed: "products_keyed (w_db w)"
  shows "live_in (w_db w') k = live_in (w_db w) k"
proof -
  obtain r w1 where res: "lockAndRestore E (order_qty (w_db w) i) (js_uniq (map si_productId (order_qty (w_db w) i))) w = (Inr (), w1)"
    and w': "w' = db_update (put_order (w_now w1) (r\<lparr>o_status := CANCELLED\<rparr>)) w1" by (rule executeCancelTransaction_Inr [OF run])
  have "look_product (w_db w') k = look_product (w_db w1) k" by (rule look_product_cong) (simp add: w')
  then show ?thesis using lockAndRestore_Inr(2) [OF res keyed, of k] by (auto simp: live_in_def split: option.splits)
qed

lemma cancelled_is_released:
  assumes run: "executeCancelTransaction E i u w = (Inr v, w')" and okw: "ok E w"
  shows "ledger_step (ledger_of (w_db w)) (ledger_of (w_db w'))"
proof -
  let ?q = "\<lambda>k. qty_of k (order_qty (w_db w) i)" and ?l = "ledger_of (w_db w)"
  have keyed: "products_keyed (w_db w)" using okw by (simp add: ok_def wf_db_def uniq_def products_keyed_def)
  have "cancelled_from w u i w'" using executeCancelTransaction_cancelled [OF run keyed] by blast
  then obtain r where r: "look_order (w_db w) i = Some r" "o_status r \<in> {PAID, PENDING, PROCESSED}"
      "look_order (w_db w') i = Some (r\<lparr>o_status := CANCELLED, o_updatedAt := w_now w\<rparr>)"
    and others: "\<And>k. k \<noteq> i \<Longrightarrow> look_order (w_db w') k = look_order (w_db w) k"
    and its: "order_items (w_db w') = order_items (w_db w)"
    and moved: "\<And>k. stock_of (w_db w') k = map_option (\<lambda>n. n + (if live_in (w_db w) k then ?q k else 0)) (stock_of (w_db w) k)"
    unfolding cancelled_from_def by blast
  have same: "order_qty (w_db w') k = order_qty (w_db w) k" for k by (simp add: order_qty_def items_of_def its)
  have held: "lg_held (ledger_of (w_db w')) = (lg_held ?l)(i := None)"
  proof
    fix k
    show "lg_held (ledger_of (w_db w')) k = ((lg_held ?l)(i := None)) k"
      using r(3) others [of k] same by (cases "k = i") (simp_all add: ledger_of_def holds_def [abs_def] cong: if_cong)
  qed
  have avail: "lg_avail (ledger_of (w_db w')) = (\<lambda>k. map_option (\<lambda>n. n + ?q k) (lg_avail ?l k))"
    by (rule ext) (simp add: ledger_of_def live_in_executeCancelTransaction [OF run keyed] moved)
  have "o_id r = i" using look_order_SomeD [OF r(1)] by simp
  then have taken: "lg_held ?l i = Some ?q" using r by (auto simp: ledger_of_def holds_def)
  have "ledger_of (w_db w') = \<lparr>lg_avail = (\<lambda>k. map_option (\<lambda>n. n + ?q k) (lg_avail ?l k)), lg_held = (lg_held ?l)(i := None)\<rparr>"
    using held avail by (metis ledger.surjective old.unit.exhaust)
  then show ?thesis using ledger_step.release [OF taken] by simp
qed

section \<open>Everything else leaves the ledger alone\<close>

text \<open>A step that touches neither products nor items and keeps every open order open.\<close>
definition shop_part :: "db \<Rightarrow> product list \<times> order list \<times> order_item list" where
  "shop_part d = (products d, orders d, order_items d)"

lemma shop_part_same_shop: "same_part shop_part w w' \<longleftrightarrow> same_shop (w_db w) (w_db w')"
  by (auto simp: same_part_def shop_part_def same_shop_def)

lemma frame_shop_modify: "(\<And>w. shop_part (g w (w_db w)) = shop_part (w_db w)) \<Longrightarrow>
    moves_by (same_part shop_part) (modify_s (\<lambda>w. db_update (g w) w))"
  by (rule frame_update)

lemma frame_shop_parts:
  "moves_by (same_part shop_part) (fresh_uuid E)" "moves_by (same_part shop_part) (emit ev)"
  "moves_by (same_part shop_part) (modify_s (audit E au))" "moves_by (same_part shop_part) (insertCart E userId)"
  "moves_by (same_part shop_part) (upsert_item E c p q)" "moves_by (same_part shop_part) (saveItem i)"
  "moves_by (same_part shop_part) (findCartWithItemsOrFail userId)" "moves_by (same_part shop_part) (findOwnedCartItem userId itemId)"
  "moves_by (same_part shop_part) (modify_s (db_update (remove_items ids)))"
  "moves_by (same_part shop_part) (insertUser E email hash)" "moves_by (same_part shop_part) (send_mail A E m)"
  "moves_by (same_part shop_part) (generateAccessToken A usr)" "moves_by (same_part shop_part) (read_s f)"
  "moves_by (same_part shop_part) (update_user k h)" "moves_by (same_part shop_part) (revokeAllUserTokens k)"
  "moves_by (same_part shop_part) (revokeRefreshToken k)" "moves_by (same_part shop_part) (createRefreshToken A E k)"
  by (auto simp: moves_by_def same_part_def shop_part_def insertCart_def upsert_item_def saveItem_def Let_def
      findCartWithItemsOrFail_def findOwnedCartItem_def remove_items_def insertUser_def send_mail_def generateAccessToken_def
      read_s_def update_user_def revokeAllUserTokens_def revokeRefreshToken_def createRefreshToken_def
      split: option.split prod.split)

lemma frame_shop_tokens:
  assumes "known_table T"
  shows "moves_by (same_part shop_part) (issue_one_time T A E ttl k)"
    "moves_by (same_part shop_part) (modify_s (\<lambda>w. db_update (\<lambda>d. tt_put T (up w (tt_get T d)) d) w))"
  using assms
  by (auto simp: known_table_def reset_table_def verification_table_def moves_by_def same_part_def shop_part_def
      issue_one_time_def Let_def split: prod.split)

lemma frame_shop_operations:
  assumes alone: "e_others E = (\<lambda>s. s)"
  shows "moves_by (same_part shop_part) (getCart E userId)" "moves_by (same_part shop_part) (addItem E userId productId q)"
    "moves_by (same_part shop_part) (updateItem E userId itemId q)" "moves_by (same_part shop_part) (removeItem E userId itemId)"
    "moves_by (same_part shop_part) (clearCart E userId)"
    "moves_by (same_part shop_part) (signup A E dto ctx)" "moves_by (same_part shop_part) (signin A E email password ctx)"
    "moves_by (same_part shop_part) (refresh A E cookie)" "moves_by (same_part shop_part) (logout A E c actor ctx)"
    "moves_by (same_part shop_part) (resendVerification A E userId)" "moves_by (same_part shop_part) (verifyEmail A E token)"
    "moves_by (same_part shop_part) (forgotPassword A E email ctx)" "moves_by (same_part shop_part) (resetPassword A E rdto ctx)"
proof -
  have o: "moves_by (same_part shop_part) (modify_s (e_others E))" by (simp add: alone moves_by_def same_part_def)
  have rev: "moves_by (same_part shop_part) (modify_s (\<lambda>w. db_update (\<lambda>d. d\<lparr>refresh_tokens := g w (refresh_tokens d)\<rparr>) w))" for g
    by (simp add: moves_by_def same_part_def shop_part_def)
  note parts = frame.rules frame_shop_parts o rev
  have answer: "moves_by (same_part shop_part) (cart_answer userId)" unfolding cart_answer_def by (intro parts)
  have make: "moves_by (same_part shop_part) (getOrCreateCartEntity E userId)" unfolding getOrCreateCartEntity_def by (intro parts)
  note cart_parts = parts answer make
  have consume: "moves_by (same_part shop_part) (consumePasswordResetToken A E raw)"
    "moves_by (same_part shop_part) (consumeVerificationToken A E raw)" for raw
    unfolding consumePasswordResetToken_def consumeVerificationToken_def consume_one_time_def
    by (intro parts frame_shop_tokens; simp add: known_table_def)+
  have issue: "moves_by (same_part shop_part) (issuePasswordResetToken A E k)"
    "moves_by (same_part shop_part) (issueVerificationToken A E k)" for k
    unfolding issuePasswordResetToken_def issueVerificationToken_def by (intro frame_shop_tokens; simp add: known_table_def)+
  note auth_parts = parts consume issue
  have send: "moves_by (same_part shop_part) (issueAndSendVerificationToken A E b u)" for b u
    unfolding issueAndSendVerificationToken_def sendVerificationEmail_def by (intro auth_parts)
  show "moves_by (same_part shop_part) (getCart E userId)" unfolding getCart_def by (intro cart_parts)
  show "moves_by (same_part shop_part) (addItem E userId productId q)" unfolding addItem_def Let_def by (intro cart_parts)
  show "moves_by (same_part shop_part) (updateItem E userId itemId q)" unfolding updateItem_def by (intro cart_parts)
  show "moves_by (same_part shop_part) (removeItem E userId itemId)" unfolding removeItem_def by (intro cart_parts)
  show "moves_by (same_part shop_part) (clearCart E userId)" unfolding clearCart_def by (intro cart_parts)
  show "moves_by (same_part shop_part) (signup A E dto ctx)" unfolding signup_def by (intro auth_parts send)
  show "moves_by (same_part shop_part) (signin A E email password ctx)"
    unfolding signin_def buildAuthResult_def issueRefreshToken_def by (intro auth_parts)
  show "moves_by (same_part shop_part) (refresh A E cookie)" unfolding refresh_def rotateRefreshToken_def by (intro auth_parts)
  show "moves_by (same_part shop_part) (logout A E c actor ctx)" unfolding logout_def by (intro auth_parts)
  show "moves_by (same_part shop_part) (resendVerification A E userId)" unfolding resendVerification_def by (intro auth_parts send)
  show "moves_by (same_part shop_part) (verifyEmail A E token)" unfolding verifyEmail_def by (intro auth_parts)
  show "moves_by (same_part shop_part) (forgotPassword A E email ctx)"
    unfolding forgotPassword_def Let_def sendPasswordResetEmail_def by (intro auth_parts)
  show "moves_by (same_part shop_part) (resetPassword A E rdto ctx)" unfolding resetPassword_def by (intro auth_parts)
qed

text \<open>Files, profiles, reviews and the payment of an order do not touch the shop's tables either.\<close>
lemma frame_shop_services:
  assumes alone: "e_others E = (\<lambda>s. s)"
  shows "moves_by (same_part shop_part) (createPresignedUpload S sv E userId udto)"
    "moves_by (same_part shop_part) (completeUpload S sv E userId fileId)"
    "moves_by (same_part shop_part) (changePassword A E userId cdto)" "moves_by (same_part shop_part) (updateProfile S sv E userId dto)"
    "moves_by (same_part shop_part) (setAvatar S sv E userId fileId)" "moves_by (same_part shop_part) (removeAvatar userId)"
    "moves_by (same_part shop_part) (remove_user E userId adm ctx)" "moves_by (same_part shop_part) (updateRoles E userId rs adm ctx)"
    "moves_by (same_part shop_part) (updateScopes E userId ss adm ctx)"
    "moves_by (same_part shop_part) (createReview E userId productId crdto)" "moves_by (same_part shop_part) (deleteReview E userId productId)"
    "moves_by (same_part shop_part) (updateReview E userId productId urdto)" "moves_by (same_part shop_part) (getOrderPayment E fire userId orderId)"
proof -
  have o: "moves_by (same_part shop_part) (modify_s (e_others E))" by (simp add: alone moves_by_def same_part_def)
  have leaf: "moves_by (same_part shop_part) (insert_file E sv userId2 udto2 key)" "moves_by (same_part shop_part) (save_file f)"
    "moves_by (same_part shop_part) (save_user usr g)" "moves_by (same_part shop_part) (soft_delete_user k)"
    "moves_by (same_part shop_part) (insert_review E userId2 productId2 rating tx)" "moves_by (same_part shop_part) (save_review rv)"
    "moves_by (same_part shop_part) (modify_s (db_update (\<lambda>d. d\<lparr>reviews := delete_rows Q (reviews d)\<rparr>)))"
    "moves_by (same_part shop_part) (grpc_getPaymentStatus E fire2 pid)" "moves_by (same_part shop_part) (checkFileExists S sv key)"
    "moves_by (same_part shop_part) (s3_getPresignedDownloadUrl S sv key)" "moves_by (same_part shop_part) (getPresignedUploadUrl S sv ct key n)"
    for userId2 udto2 key f usr g k productId2 rating tx rv Q fire2 pid ct n
    by (auto simp: moves_by_def same_part_def shop_part_def insert_file_def save_file_def put_file_def save_user_def soft_delete_user_def
        insert_review_def save_review_def put_review_def Let_def grpc_getPaymentStatus_def grpc_call_def checkFileExists_def
        s3_getPresignedDownloadUrl_def getPresignedUploadUrl_def bind_s_def split: sum.split option.split)
  have viol: "moves_by (same_part shop_part) (throwOnUniqueViolation e msg)" for e and msg
    by (cases e) (simp_all add: throwOnUniqueViolation_def frame.throw)
  note parts = frame.rules frame_shop_parts o leaf viol
  have url: "moves_by (same_part shop_part) (getPresignedUrlForFileId S sv k)" for k
    unfolding getPresignedUrlForFileId_def by (intro parts)
  have avatar: "moves_by (same_part shop_part) (resolveAvatarUrl S sv k)" for k unfolding resolveAvatarUrl_def by (intro parts url)
  have data: "moves_by (same_part shop_part) (getFileRecordData S sv f)" for f
    unfolding getFileRecordData_def getPresignedDownloadUrl_def by (intro parts)
  show "moves_by (same_part shop_part) (createPresignedUpload S sv E userId udto)"
    unfolding createPresignedUpload_def getObjectKey_def by (intro parts)
  show "moves_by (same_part shop_part) (completeUpload S sv E userId fileId)" unfolding completeUpload_def by (intro parts data)
  show "moves_by (same_part shop_part) (changePassword A E userId cdto)" unfolding changePassword_def by (intro parts)
  show "moves_by (same_part shop_part) (updateProfile S sv E userId dto)" unfolding updateProfile_def by (intro parts avatar)
  show "moves_by (same_part shop_part) (setAvatar S sv E userId fileId)"
    unfolding setAvatar_def prepareFileForEntity_def by (intro parts)
  show "moves_by (same_part shop_part) (removeAvatar userId)" unfolding removeAvatar_def by (intro parts)
  show "moves_by (same_part shop_part) (remove_user E userId adm ctx)" unfolding remove_user_def by (intro parts)
  show "moves_by (same_part shop_part) (updateRoles E userId rs adm ctx)" unfolding updateRoles_def by (intro parts)
  show "moves_by (same_part shop_part) (updateScopes E userId ss adm ctx)" unfolding updateScopes_def by (intro parts)
  show "moves_by (same_part shop_part) (createReview E userId productId crdto)" unfolding createReview_def by (intro parts)
  show "moves_by (same_part shop_part) (deleteReview E userId productId)" unfolding deleteReview_def by (intro parts)
  show "moves_by (same_part shop_part) (updateReview E userId productId urdto)" unfolding updateReview_def by (intro parts)
  show "moves_by (same_part shop_part) (getOrderPayment E fire userId orderId)" unfolding getOrderPayment_def by (intro parts)
qed

section \<open>Processing keeps open orders open\<close>

definition open_order :: "uuid \<Rightarrow> world \<Rightarrow> bool" where
  "open_order i w \<longleftrightarrow> (\<exists>r. look_order (w_db w) i = Some r \<and> o_status r \<noteq> CANCELLED)"

definition stays_open :: "uuid \<Rightarrow> world \<Rightarrow> world \<Rightarrow> bool" where
  "stays_open i w w' \<longleftrightarrow> (open_order i w \<longrightarrow> open_order i w' \<and> ledger_of (w_db w') = ledger_of (w_db w))"

interpretation keep_open: transition "stays_open i" for i
  by unfold_locales (auto simp: stays_open_def open_order_def)

lemma stays_open_same: "same_shop (w_db w) (w_db w') \<Longrightarrow> stays_open i w w'"
  using ledger_of_same_shop [of "w_db w" "w_db w'"] look_order_cong [of "w_db w'" "w_db w" i]
  by (simp add: stays_open_def open_order_def same_shop_def)

text \<open>Rewriting one open order to another open state, items and products as they were.\<close>
lemma ledger_of_rewrite:
  assumes "products d' = products d" "order_items d' = order_items d"
    and look: "\<And>k. look_order d' k = (if k = i then Some r' else look_order d k)"
    and r: "look_order d i = Some r" "o_status r \<noteq> CANCELLED" "o_status r' \<noteq> CANCELLED" "o_id r' = o_id r"
  shows "ledger_of d' = ledger_of d"
proof -
  have "stock_of d' k = stock_of d k" for k using assms(1) by (rule stock_of_cong)
  moreover have "look_product d' k = look_product d k" for k using assms(1) by (rule look_product_cong)
  moreover have "order_qty d' k = order_qty d k" for k using assms(2) by (simp add: order_qty_def items_of_def)
  moreover have "Option.bind (look_order d' k) (holds d') = Option.bind (look_order d k) (holds d)" for k
    using look r calculation(3) by (cases "look_order d k") (auto simp: holds_def [abs_def])
  ultimately show ?thesis by (simp add: ledger_of_def live_in_def cong: if_cong)
qed

lemma keep_open_mark_paid: "moves_by (stays_open i) (mark_paid i pid)"
proof (rule moves_byI)
  fix w r w' assume run: "mark_paid i pid w = (r, w')"
  show "stays_open i w w'"
  proof (cases r)
    case (Inl e)
    then have "w' = w" using run by (auto simp: mark_paid_def split: if_splits)
    then show ?thesis by (simp add: keep_open.refl)
  next
    case (Inr u)
    note w' = mark_paid_Inr [OF run [unfolded Inr]]
    show ?thesis unfolding stays_open_def
    proof
      assume "open_order i w"
      then obtain x where x: "look_order (w_db w) i = Some x" "o_status x \<noteq> CANCELLED" by (auto simp: open_order_def)
      have look: "look_order (w_db w') k = (if k = i then Some (paid_order (w_now w) pid x) else look_order (w_db w) k)" for k
        using look_order_mark_paid [where d = "w_db w" and i = i and now = "w_now w" and pid = pid and k = k] x by (simp add: w')
      show "open_order i w' \<and> ledger_of (w_db w') = ledger_of (w_db w)"
        using ledger_of_rewrite [OF _ _ look x] look [of i] x by (simp add: w' open_order_def paid_order_def)
    qed
  qed
qed

lemma keep_open_parts:
  "moves_by (stays_open i) (grpc_authorize E fire req)" "moves_by (stays_open i) (modify_s (recordOrderCompleted E s))"
  "moves_by (stays_open i) (modify_s (audit E au))" "moves_by (stays_open i) (emit ev)"
  by (rule moves_byI, rule stays_open_same, force dest: grpc_authorize_frame(1) simp: same_shop_def)+

lemma keep_open_authorizePayment: "moves_by (stays_open (o_id ord)) (authorizePayment E P ord)"
  unfolding authorizePayment_def by (intro keep_open.rules keep_open_parts keep_open_mark_paid)

lemma processed_keeps_ledger:
  assumes run: "processOrderMessage E P pl w = (u, w')" and alone: "e_others E = (\<lambda>s. s)"
  shows "ledger_of (w_db w') = ledger_of (w_db w)"
proof -
  obtain res w1 where tx: "processTransaction E pl w = (res, w1)" by fastforce
  show ?thesis
  proof (cases res)
    case (Inl e)
    then have "w' = w1" using run tx by (simp add: processOrderMessage_def bind_s_def)
    then show ?thesis using processTransaction_Inl [OF tx [unfolded Inl]] by simp
  next
    case (Inr o1)
    consider (idle) "o1 = None" "same_shop (w_db w) (w_db w1)"
      | (some) r where "look_order (w_db w) (pp_orderId pl) = Some r" "o_status r = PENDING" "o1 = Some (r\<lparr>o_status := PROCESSED\<rparr>)"
         "\<And>k. look_order (w_db w1) k = (if k = pp_orderId pl then Some (stored_order (w_now w)
             ((w_db w)\<lparr>processed_messages := processed_messages (w_db w) @ [new_processed_message (w_now w) pl]\<rparr>)
             (r\<lparr>o_status := PROCESSED\<rparr>)) else look_order (w_db w) k)"
         "products (w_db w1) = products (w_db w)" "order_items (w_db w1) = order_items (w_db w)"
      using processTransaction_Inr [OF tx [unfolded Inr]]
    proof
      assume "o1 = None \<and> (w1 = w \<or>
       (\<exists>r. look_order (w_db w) (pp_orderId pl) = Some r \<and> o_status r \<noteq> PENDING \<and>
          w1 = db_update (\<lambda>d. d\<lparr>processed_messages := processed_messages d @ [new_processed_message (w_now w) pl]\<rparr>) w))"
      then show thesis by - (rule idle, auto simp: same_shop_def)
    next
      let ?w0 = "db_update (\<lambda>d. d\<lparr>processed_messages := processed_messages d @ [new_processed_message (w_now w) pl]\<rparr>) w"
      assume "\<exists>r. \<not> message_seen (w_db w) (pp_messageId pl) \<and> look_order (w_db w) (pp_orderId pl) = Some r \<and> o_status r = PENDING \<and>
        o1 = Some (r\<lparr>o_status := PROCESSED\<rparr>) \<and>
        (let w1' = e_others E ?w0 in w1 = db_update (put_order (w_now w1') (r\<lparr>o_status := PROCESSED\<rparr>)) w1')"
      then obtain r where r: "look_order (w_db w) (pp_orderId pl) = Some r" "o_status r = PENDING"
        "o1 = Some (r\<lparr>o_status := PROCESSED\<rparr>)" and w1: "w1 = db_update (put_order (w_now w) (r\<lparr>o_status := PROCESSED\<rparr>)) ?w0"
        by (auto simp: alone Let_def)
      have rid: "o_id r = pp_orderId pl" using look_order_SomeD [OF r(1)] by simp
      have "look_order (w_db ?w0) k = look_order (w_db w) k" for k by (rule look_order_cong) simp
      then show thesis using some [OF r] by (simp add: w1 look_put_order rid)
    qed
    then show ?thesis
    proof cases
      case idle
      then have "w' = w1" using run tx Inr by (simp add: processOrderMessage_def bind_s_def split: if_splits)
      then show ?thesis using ledger_of_same_shop idle(2) by simp
    next
      case (some r)
      have rid: "o_id r = pp_orderId pl" using look_order_SomeD [OF some(1)] by simp
      have led: "ledger_of (w_db w1) = ledger_of (w_db w)"
        by (rule ledger_of_rewrite [OF some(5,6,4) some(1)]) (simp_all add: some(2))
      have op: "open_order (o_id r) w1" using some(4) [of "pp_orderId pl"] by (simp add: open_order_def rid)
      have "stays_open (o_id r) w1 w'"
        using run tx Inr some(3) moves_byD [OF keep_open_authorizePayment [of "r\<lparr>o_status := PROCESSED\<rparr>" E P]] keep_open.refl
        by (auto simp: processOrderMessage_def bind_s_def split: if_splits)
      then show ?thesis using op led by (simp add: stays_open_def)
    qed
  qed
qed

section \<open>The refinement\<close>

lemma createOrder_refines:
  assumes run: "createOrder E userId dto ctx w = (r, w')" and alone: "e_others E = (\<lambda>s. s)" and okw: "ok E w"
  shows "ledger_step\<^sup>=\<^sup>= (ledger_of (w_db w)) (ledger_of (w_db w'))"
  using run
proof (cases rule: createOrder_cases)
  case (hit usr v k)
  then show ?thesis using ledger_of_same_shop by simp
next
  case (attempt usr)
  from attempt(3) show ?thesis unfolding alone
  proof (cases rule: createOrder_attempt_cases)
    case (created v w2 m)
    then show ?thesis using created_is_placed [OF created(1) okw] ledger_of_same_shop [OF created(4)] by simp
  next
    case (unpublished v w2)
    then show ?thesis using created_is_placed [OF unpublished(1) okw] ledger_of_same_shop [OF unpublished(4)] by simp
  qed (use ledger_of_same_shop in simp_all)
qed simp

lemma cancelOrder_refines:
  assumes run: "cancelOrder E usr i ctx w = (r, w')" and okw: "ok E w"
  shows "ledger_step\<^sup>=\<^sup>= (ledger_of (w_db w)) (ledger_of (w_db w'))"
proof -
  obtain res w1 where tx: "executeCancelTransaction E i (au_sub usr) w = (res, w1)" by fastforce
  show ?thesis
  proof (cases res)
    case (Inl e)
    then have "w_db w1 = w_db w" using tx transaction_Inl unfolding executeCancelTransaction_def by blast
    then show ?thesis using run tx Inl by (simp add: cancelOrder_def bind_s_def)
  next
    case (Inr v)
    then have "same_shop (w_db w1) (w_db w')" using run tx by (auto simp: cancelOrder_def bind_s_def same_shop_def)
    then show ?thesis using cancelled_is_released [OF tx [unfolded Inr] okw] ledger_of_same_shop by simp
  qed
qed

lemma checkout_refines:
  assumes run: "checkout E userId key shipping ctx w = (r, w')" and alone: "e_others E = (\<lambda>s. s)" and okw: "ok E w"
  shows "ledger_step\<^sup>=\<^sup>= (ledger_of (w_db w)) (ledger_of (w_db w'))"
proof (cases r)
  case (Inl e)
  then show ?thesis using checkout_Inl [OF run [unfolded Inl]] createOrder_refines [OF _ alone okw] by fastforce
next
  case (Inr ord)
  obtain v w1 where made: "createOrder E userId (cart_order v key shipping) ctx w = (Inr ord, w1)"
    and cleared: "clearCart E userId w1 = (Inr (), w')" by (rule checkout_Inr [OF run [unfolded Inr]])
  have "same_shop (w_db w1) (w_db w')"
    using moves_byD [OF frame_shop_operations(5) [OF alone] cleared] by (simp add: shop_part_same_shop)
  then show ?thesis using createOrder_refines [OF made alone okw] ledger_of_same_shop by simp
qed

lemma shop_step_refines:
  assumes step: "shop_step A E P w w'" and alone: "e_others E = (\<lambda>s. s)" and okw: "ok E w"
  shows "ledger_step\<^sup>=\<^sup>= (ledger_of (w_db w)) (ledger_of (w_db w'))"
proof -
  note d = frame_shop_operations [OF alone, THEN moves_byD, unfolded shop_part_same_shop]
    frame_shop_services [OF alone, THEN moves_byD, unfolded shop_part_same_shop]
  have same: "same_shop (w_db w) (w_db w') \<Longrightarrow> ?thesis" using ledger_of_same_shop by simp
  show ?thesis using step
  proof cases
    case (step_create userId dto ctx r)
    then show ?thesis by (rule createOrder_refines [OF _ alone okw])
  next
    case (step_cancel usr i ctx r)
    then show ?thesis by (rule cancelOrder_refines [OF _ okw])
  next
    case (step_process pl u)
    then show ?thesis using processed_keeps_ledger [OF _ alone] by simp
  next
    case (step_checkout userId key shipping ctx r)
    then show ?thesis by (rule checkout_refines [OF _ alone okw])
  qed (rule same, fastforce dest: d simp: same_shop_def)+
qed

lemma rely_alone: "e_others E = (\<lambda>s. s) \<Longrightarrow> rely E"
  by (simp add: rely_def inv.refl)

section \<open>The catalogue takes stock\<close>

text \<open>Orders stay as they are, and so does every product but one.\<close>
definition touches :: "uuid \<Rightarrow> world \<Rightarrow> world \<Rightarrow> bool" where
  "touches k w w' \<longleftrightarrow> orders (w_db w') = orders (w_db w) \<and> order_items (w_db w') = order_items (w_db w) \<and>
     (\<forall>j. j \<noteq> k \<longrightarrow> look_product (w_db w') j = look_product (w_db w) j)"

interpretation touch: transition "touches k" for k
  by unfold_locales (simp_all add: touches_def)

lemma touches_stocktake:
  assumes "touches k w w'"
  shows "stocktake (ledger_of (w_db w)) (ledger_of (w_db w'))"
proof -
  let ?l = "ledger_of (w_db w)" and ?l' = "ledger_of (w_db w')"
  have "order_qty (w_db w') = order_qty (w_db w)" and look: "look_order (w_db w') = look_order (w_db w)"
    using assms by (simp_all add: touches_def order_qty_def [abs_def] items_of_def look_order_def [abs_def])
  then have "lg_held ?l' = lg_held ?l" by (simp add: ledger_of_def holds_def [abs_def] cong: if_cong)
  moreover have "lg_avail ?l' = (lg_avail ?l)(k := lg_avail ?l' k)"
    using assms by (auto simp: fun_eq_iff ledger_of_def touches_def live_in_def stock_of_def)
  ultimately have "?l' = ?l\<lparr>lg_avail := (lg_avail ?l)(k := lg_avail ?l' k)\<rparr>" by (metis ledger.surjective ledger.update_convs(1) old.unit.exhaust)
  then show ?thesis using stocktake.count by metis
qed

text \<open>Rewriting rows of one key leaves the others.\<close>
lemma find_row_others:
  assumes "\<And>r. key (f r) = key r" and "\<And>r. P r \<Longrightarrow> key r = k" and "j \<noteq> k"
  shows "find_row key j (update_rows P f rows) = find_row key j rows"
  using assms by (induction rows) (auto simp: update_rows_def)

lemma touch_product_rows:
  assumes "\<And>x. p_id (f x) = p_id x" and "\<And>x. P x \<Longrightarrow> p_id x = k"
  shows "touches k w (db_update (\<lambda>d. d\<lparr>products := update_rows P f (products d)\<rparr>) w)"
  using find_row_others [of p_id f P k] assms by (simp add: touches_def look_product_def)

lemma touch_parts:
  "moves_by (touches k) (modify_s (audit E au))" "moves_by (touches k) (save_file f)"
  "moves_by (touches k) (product_findById S sv i)" "moves_by (touches k) (throwOnUniqueViolation e msg)"
  "moves_by (touches k) (soft_delete_product k)"
proof -
  show "moves_by (touches k) (modify_s (audit E au))" "moves_by (touches k) (save_file f)"
    by (simp_all add: moves_by_def touches_def save_file_def put_file_def look_product_def)
  show "moves_by (touches k) (product_findById S sv i)"
    using still_reads(3) by (intro touch.reads) (simp add: still_def)
  show "moves_by (touches k) (throwOnUniqueViolation e msg)"
    by (cases e) (simp_all add: throwOnUniqueViolation_def touch.throw)
  show "moves_by (touches k) (soft_delete_product k)"
    unfolding soft_delete_product_def by (intro touch.modify touch_product_rows) simp_all
qed

lemma touch_save_product:
  assumes "p_id p = k"
  shows "moves_by (touches k) (save_product p)"
proof (rule moves_byI)
  fix w r w' assume run: "save_product p w = (r, w')"
  show "touches k w w'"
  proof (cases "product_row p (w_db w)")
    case (Inr q)
    have "p_id q = k" using Inr assms by (auto simp: product_row_def split: if_splits option.splits)
    then show ?thesis using run Inr by (auto simp: save_product_def touches_def look_put_product)
  qed (use run in \<open>simp add: save_product_def touch.refl\<close>)
qed

text \<open>The product a handler has loaded is the one it was asked for.\<close>
lemma touch_found:
  assumes "\<And>p. p_id p = k \<Longrightarrow> moves_by (touches k) (g p)"
  shows "moves_by (touches k) (bind_s (read_s (findProductOrFail k)) g)"
proof (rule touch.bind_after)
  show "moves_by (touches k) (read_s (findProductOrFail k))" by (rule touch.reads) simp
  fix p w w1 r w' assume "read_s (findProductOrFail k) w = (Inr p, w1)" and run: "g p w1 = (r, w')"
  then have "w1 = w" "p_id p = k"
    by (auto simp: read_s_def findProductOrFail_def findById_product_def find_Some_iff split: option.splits)
  then show "touches k w w'" using moves_byD [OF assms run] by simp
qed

lemma touch_catalogue:
  assumes alone: "e_others E = (\<lambda>s. s)"
  shows "moves_by (touches k) (update_product S sv E k dto)" and "moves_by (touches k) (remove_product E k)"
    and "moves_by (touches k) (addImage E k fileId)" and "moves_by (touches k) (removeImage E k fileId)"
    and "moves_by (touches k) (setMainImage S sv E k fileId)"
proof -
  have others: "moves_by (touches k) (modify_s (e_others E))" by (simp add: alone moves_by_def touch.refl)
  have unset: "moves_by (touches k) (modify_s (\<lambda>w. db_update (\<lambda>d. d\<lparr>products := update_rows (\<lambda>x. p_id x = k \<and> p_mainImageId x = Some fileId)
      (\<lambda>x. x\<lparr>p_mainImageId := None, p_updatedAt := w_now w\<rparr>) (products d)\<rparr>) w))"
    by (intro touch.modify touch_product_rows) simp_all
  note parts = touch_found touch.rules others touch_parts touch_save_product unset
  show "moves_by (touches k) (update_product S sv E k dto)" unfolding update_product_def
    by (intro parts) (simp_all add: assign_product_def)
  show "moves_by (touches k) (remove_product E k)" unfolding remove_product_def by (intro parts)
  show "moves_by (touches k) (addImage E k fileId)" unfolding addImage_def by (intro parts)
  show "moves_by (touches k) (removeImage E k fileId)" unfolding removeImage_def by (intro parts)
  show "moves_by (touches k) (setMainImage S sv E k fileId)" unfolding setMainImage_def associateMainImage_def
    by (intro parts) simp_all
qed

lemma create_product_touches:
  assumes run: "create_product E dto w = (r, w')"
  shows "\<exists>k. touches k w w'"
proof -
  have viol: "w2 = w1" if "throwOnUniqueViolation e msg w1 = (x, w2)" for e msg w1 w2 and x :: "exn + product_view"
    using that by (cases e) (simp_all add: throwOnUniqueViolation_def)
  obtain i w1 where i: "insert_product E dto w = (i, w1)" by fastforce
  have "w' = snd (insert_product E dto w)"
  proof (cases i)
    case (Inl e)
    then show ?thesis using run i viol by (simp add: create_product_def catch_s_def bind_s_def)
  qed (use run i in \<open>simp add: create_product_def catch_s_def bind_s_def\<close>)
  moreover have "touches (e_uuid E (w_next w)) w (snd (insert_product E dto w))"
    by (auto simp: insert_product_def Let_def touches_def look_product_def find_row_append product_row_def new_product_def
        split: sum.split if_splits option.split)
  ultimately show ?thesis by blast
qed

lemma catalogue_step_refines:
  assumes step: "catalogue_step E w w'" and alone: "e_others E = (\<lambda>s. s)"
  shows "stocktake (ledger_of (w_db w)) (ledger_of (w_db w'))"
proof -
  have "\<exists>k. touches k w w'" using step
  proof cases
    case (step_createProduct cdto v)
    then show ?thesis by (rule create_product_touches)
  next
    case (step_updateProduct S sv productId dto v)
    then show ?thesis by (intro exI) (rule touch_catalogue(1) [OF alone, THEN moves_byD])
  next
    case (step_removeProduct productId u)
    then show ?thesis by (intro exI) (rule touch_catalogue(2) [OF alone, THEN moves_byD])
  next
    case (step_addImage productId fileId u)
    then show ?thesis by (intro exI) (rule touch_catalogue(3) [OF alone, THEN moves_byD])
  next
    case (step_removeImage productId fileId u)
    then show ?thesis by (intro exI) (rule touch_catalogue(4) [OF alone, THEN moves_byD])
  next
    case (step_setMainImage S sv productId fileId v)
    then show ?thesis by (intro exI) (rule touch_catalogue(5) [OF alone, THEN moves_byD])
  qed
  then show ?thesis using touches_stocktake by blast
qed

section \<open>Runs\<close>

text \<open>A step of the shop, or one of the catalogue that leaves what is available of a product.\<close>
definition sparing_step :: "uuid \<Rightarrow> auth_env \<Rightarrow> env \<Rightarrow> authorize_request fire \<Rightarrow> world \<Rightarrow> world \<Rightarrow> bool" where
  "sparing_step k A E P w w' \<longleftrightarrow> shop_step A E P w w' \<or>
     catalogue_step E w w' \<and> lg_avail (ledger_of (w_db w')) k = lg_avail (ledger_of (w_db w)) k"

text \<open>All there is of a product, unless it is not live.\<close>
definition pieces :: "uuid \<Rightarrow> world \<Rightarrow> int option" where
  "pieces k w = map_option (\<lambda>n. n + held_total (ledger_of (w_db w)) k) (lg_avail (ledger_of (w_db w)) k)"

lemma pieces_stock: "uniq o_id (orders (w_db w)) \<Longrightarrow>
    pieces k w = (if live_in (w_db w) k then map_option (\<lambda>n. n + outstanding (w_db w) k) (stock_of (w_db w) k) else None)"
  by (simp add: pieces_def held_total_outstanding) (simp add: ledger_of_def)

lemma sparing_step_conserves:
  assumes step: "sparing_step k A E P w w'" and alone: "e_others E = (\<lambda>s. s)" and okw: "ok E w"
  shows "pieces k w' = pieces k w"
proof -
  have "uniq o_id (orders (w_db w))" using okw by (simp add: ok_def wf_db_def)
  then have fin: "finite (dom (lg_held (ledger_of (w_db w))))" by (simp add: dom_held)
  from step show ?thesis unfolding sparing_step_def
  proof
    assume "shop_step A E P w w'"
    from shop_step_refines [OF this alone okw] show ?thesis
      using ledger_step_conserves [OF _ fin] by (auto simp: pieces_def)
  next
    assume c: "catalogue_step E w w' \<and> lg_avail (ledger_of (w_db w')) k = lg_avail (ledger_of (w_db w)) k"
    have "lg_held (ledger_of (w_db w')) = lg_held (ledger_of (w_db w))"
      using catalogue_step_refines [OF conjunct1 [OF c] alone] by cases simp
    then show ?thesis using c by (simp add: pieces_def held_total_def)
  qed
qed

lemma sparing_is_system: "sparing_step k A E P w w' \<Longrightarrow> system_step A E P w w'"
  by (auto simp: sparing_step_def system_step_def)

lemma system_run_ok:
  assumes "(system_step A E P)\<^sup>*\<^sup>* w0 w" and "e_others E = (\<lambda>s. s)" and "ok E w0"
  shows "ok E w"
  using assms(1)
proof induction
  case (step y z)
  then show ?case using system_step_inv [OF step.hyps(2) rely_alone [OF assms(2)]] by (simp add: inv_step_def)
qed (rule assms(3))

lemma sparing_run_conserves:
  assumes "(sparing_step k A E P)\<^sup>*\<^sup>* w0 w" and alone: "e_others E = (\<lambda>s. s)" and start: "ok E w0"
  shows "ok E w \<and> pieces k w = pieces k w0"
  using assms(1)
proof induction
  case (step y z)
  have "ok E z" using system_step_inv [OF sparing_is_system [OF step.hyps(2)] rely_alone [OF alone]] step.IH by (simp add: inv_step_def)
  then show ?case using sparing_step_conserves [OF step.hyps(2) alone] step.IH by simp
qed (simp add: start)

text \<open>C33: The shop refines the ledger when requests do not interleave. Along every run of the whole
  system, catalogue included, each step of a customer, a delivery or the clock moves the ledger by
  at most one placing or releasing, each step of an administrator by a stocktake of one product that
  leaves what orders hold, and so the run is a run of the ledger. And for every product that is live
  at the start and whose availability no administrator changes during the run (whatever they do to
  other products), what is in stock and what open orders hold of it add up to the same number at the
  end as at the start.\<close>
theorem shop_refines_ledger:
  assumes reach: "(system_step A E P)\<^sup>*\<^sup>* w0 w" and alone: "e_others E = (\<lambda>s. s)" and start: "ok E w0"
  shows "ledger_move\<^sup>*\<^sup>* (ledger_of (w_db w0)) (ledger_of (w_db w))
    \<and> (\<forall>w'. shop_step A E P w w' \<longrightarrow> ledger_step\<^sup>=\<^sup>= (ledger_of (w_db w)) (ledger_of (w_db w')))
    \<and> (\<forall>w'. catalogue_step E w w' \<longrightarrow> stocktake (ledger_of (w_db w)) (ledger_of (w_db w')))
    \<and> (\<forall>w' k n0. (sparing_step k A E P)\<^sup>*\<^sup>* w w' \<and> live_in (w_db w) k \<and> stock_of (w_db w) k = Some n0 \<longrightarrow>
         (\<exists>n. live_in (w_db w') k \<and> stock_of (w_db w') k = Some n \<and>
              n + outstanding (w_db w') k = n0 + outstanding (w_db w) k))"
proof (intro conjI allI impI)
  have okw: "ok E w" by (rule system_run_ok [OF reach alone start])
  show "ledger_move\<^sup>*\<^sup>* (ledger_of (w_db w0)) (ledger_of (w_db w))"
    using reach
  proof induction
    case (step y z)
    have "ledger_move\<^sup>=\<^sup>= (ledger_of (w_db y)) (ledger_of (w_db z))"
      using step.hyps(2) shop_step_refines [OF _ alone system_run_ok [OF step.hyps(1) alone start]] catalogue_step_refines [OF _ alone]
      unfolding system_step_def ledger_move_def by blast
    then show ?case using step.IH by (auto intro: rtranclp.rtrancl_into_rtrancl)
  qed simp
  show "ledger_step\<^sup>=\<^sup>= (ledger_of (w_db w)) (ledger_of (w_db w'))" if "shop_step A E P w w'" for w'
    by (rule shop_step_refines [OF that alone okw])
  show "stocktake (ledger_of (w_db w)) (ledger_of (w_db w'))" if "catalogue_step E w w'" for w'
    by (rule catalogue_step_refines [OF that alone])
  fix w' k n0 assume a: "(sparing_step k A E P)\<^sup>*\<^sup>* w w' \<and> live_in (w_db w) k \<and> stock_of (w_db w) k = Some n0"
  have c: "ok E w'" "pieces k w' = pieces k w" using sparing_run_conserves [OF conjunct1 [OF a] alone okw] by blast+
  have "uniq o_id (orders (w_db w))" "uniq o_id (orders (w_db w'))" using okw c(1) by (simp_all add: ok_def wf_db_def)
  from c(2) [unfolded pieces_stock [OF this(1)] pieces_stock [OF this(2)]]
  show "\<exists>n. live_in (w_db w') k \<and> stock_of (w_db w') k = Some n \<and> n + outstanding (w_db w') k = n0 + outstanding (w_db w) k"
    using a by (auto split: if_splits)
qed

text \<open>The sample shop: the stock of p1 is set to 8, then an order takes two of them.\<close>
definition restock_dto :: update_product_dto where
  "restock_dto = \<lparr>ud_brand = None, ud_category = None, ud_country = None, ud_description = None, ud_isActive = None,
     ud_price = None, ud_stock = Some (Some 8), ud_title = None\<rparr>"

definition restocked :: world where
  "restocked = snd (update_product sample_s3 sample_store sample_env ''p1'' restock_dto sample_world)"

lemma shop_run_sparing: "(shop_step A E P)\<^sup>*\<^sup>* w w' \<Longrightarrow> (sparing_step k A E P)\<^sup>*\<^sup>* w w'"
  by (erule mono_rtranclp [rule_format, rotated]) (simp add: sparing_step_def)

lemma shop_refines_ledger_witness:
  "\<exists>w n. (shop_step sample_auth sample_env no_payments)\<^sup>*\<^sup>* restocked w \<and> length (orders (w_db w)) = 1 \<and>
     stock_of (w_db w) ''p1'' = Some n \<and> n + outstanding (w_db w) ''p1'' = 8"
proof -
  obtain v where up: "update_product sample_s3 sample_store sample_env ''p1'' restock_dto sample_world = (v, restocked)"
    unfolding restocked_def by (metis surjective_pairing)
  have reach: "(system_step sample_auth sample_env no_payments)\<^sup>*\<^sup>* sample_world restocked"
    using step_updateProduct [OF up] by (auto simp: system_step_def intro: r_into_rtranclp)
  let ?run = "createOrder sample_env ''u1'' (order_dto None [(''p1'', 2)]) None restocked"
  obtain r w where run: "?run = (r, w)" by fastforce
  have "length (orders (w_db (snd ?run))) = 1" by code_simp
  then have w: "(shop_step sample_auth sample_env no_payments)\<^sup>*\<^sup>* restocked w" "length (orders (w_db w)) = 1"
    using run step_create [OF run] by (auto intro: r_into_rtranclp)
  have "live_in (w_db restocked) ''p1''" "stock_of (w_db restocked) ''p1'' = Some 8" "outstanding (w_db restocked) ''p1'' = 0"
    by code_simp+
  moreover have "(sparing_step ''p1'' sample_auth sample_env no_payments)\<^sup>*\<^sup>* restocked w" by (rule shop_run_sparing [OF w(1)])
  ultimately obtain n where "stock_of (w_db w) ''p1'' = Some n" "n + outstanding (w_db w) ''p1'' = 8"
    using shop_refines_ledger [OF reach sample_alone sample_ok] by force
  then show ?thesis using w by blast
qed

end
