(* ===== verification/Cancel_Race.thy ===== *)
theory Cancel_Race
  imports Stock_Ledger
begin

text \<open>
  Two cancellations of one order at the same time. The transaction of
  \<^verbatim>\<open>executeCancelTransaction\<close> reads the order without a lock and only then waits for the locks
  of its products, so at PostgreSQL's isolation level (read committed) it falls into two parts,
  between which another transaction may commit. The clients of the transition system below
  each run such a transaction; a client that has read the order as open restores its stock,
  even when another has done so meanwhile.
\<close>

section \<open>The two parts of the transaction\<close>

definition cancel_read :: "uuid \<Rightarrow> uuid \<Rightarrow> order_view act" where
  "cancel_read orderId userId =
     bind_s (gets_s (\<lambda>w. look_order (w_db w) orderId)) (\<lambda>shallow.
     bind_s (lift_s (assertOrderOwnership shallow userId)) (\<lambda>r.
     if o_status r = CANCELLED
     then throw_s (http_exn Conflict (''Order '' @ in_dq orderId @ '' is already cancelled''))
     else if o_status r = CREATED
     then throw_s (http_exn BadRequest (''Order '' @ in_dq orderId @ '' is in an invalid state for cancellation''))
     else
       bind_s (gets_s (\<lambda>w. findByIdWithItemRelations orderId (w_db w))) (\<lambda>ov.
       case ov of
         None \<Rightarrow> throw_s (http_exn NotFound (''Order '' @ in_dq orderId @ '' not found''))
       | Some v \<Rightarrow> return_s v)))"

definition cancel_write :: "env \<Rightarrow> uuid \<Rightarrow> order_view \<Rightarrow> order_view act" where
  "cancel_write E orderId v =
     (let items = items_stock (ov_items v) in
      bind_s (lockAndRestore E items (js_uniq (map si_productId items))) (\<lambda>_.
      bind_s (saveOrder ((ov_order v)\<lparr>o_status := CANCELLED\<rparr>)) (\<lambda>_.
      bind_s (gets_s (\<lambda>w. findByIdWithItemRelations orderId (w_db w))) (\<lambda>upd.
      case upd of
        None \<Rightarrow> throw_s (PlainError ''Failed to reload cancelled order'')
      | Some v2 \<Rightarrow> return_s v2))))"

text \<open>Run one after the other they are the transaction.\<close>
lemma executeCancelTransaction_parts:
  "executeCancelTransaction E orderId userId =
     transaction (bind_s (cancel_read orderId userId) (cancel_write E orderId))"
proof
  fix w
  show "executeCancelTransaction E orderId userId w = transaction (bind_s (cancel_read orderId userId) (cancel_write E orderId)) w"
    by (cases "assertOrderOwnership (look_order (w_db w) orderId) userId"; cases "findByIdWithItemRelations orderId (w_db w)")
       (simp_all add: executeCancelTransaction_def cancel_read_def cancel_write_def transaction_def bind_s_def Let_def)
qed

section \<open>Clients\<close>

datatype phase = Idle | HasRead order_view | Finished "exn + order_view"

text \<open>One shared world, and where each client is.\<close>
type_synonym race = "world \<times> (nat \<Rightarrow> phase)"

inductive race_step :: "env \<Rightarrow> uuid \<Rightarrow> uuid \<Rightarrow> race \<Rightarrow> race \<Rightarrow> bool" for E i u where
  reads: "ps c = Idle \<Longrightarrow> cancel_read i u w = (Inr v, w1) \<Longrightarrow> race_step E i u (w, ps) (w, ps(c := HasRead v))"
| refused: "ps c = Idle \<Longrightarrow> cancel_read i u w = (Inl e, w1) \<Longrightarrow> race_step E i u (w, ps) (w, ps(c := Finished (Inl e)))"
| writes: "ps c = HasRead v \<Longrightarrow> transaction (cancel_write E i v) w = (r, w') \<Longrightarrow>
    race_step E i u (w, ps) (w', ps(c := Finished r))"

section \<open>What a late writer does\<close>

lemma cancel_read_open:
  assumes "look_order (w_db w) i = Some r" and "o_userId r = u" and "o_status r \<in> {PENDING, PROCESSED, PAID}"
  shows "cancel_read i u w = (Inr (load_order False (w_db w) r), w)"
  using assms by (auto simp: cancel_read_def assertOrderOwnership_def findByIdWithItemRelations_def bind_s_def)

text \<open>The second part restores the stock of the order it was given, whatever has become of it.\<close>
lemma cancel_write_restores:
  assumes run: "transaction (cancel_write E i (load_order b d r)) w = (Inr v2, w')"
    and id: "o_id r = i" and its: "items_of d i = items_of (w_db w) i" and keyed: "products_keyed (w_db w)"
  shows "stock_of (w_db w') k = map_option (\<lambda>n. n + (if live_in (w_db w) k then qty_of k (order_qty (w_db w) i) else 0)) (stock_of (w_db w) k) \<and>
    products_keyed (w_db w') \<and> items_of (w_db w') i = items_of (w_db w) i \<and> live_in (w_db w') k = live_in (w_db w) k"
proof -
  have qty: "order_qty d i = order_qty (w_db w) i" by (simp add: order_qty_def its)
  obtain w1 where res: "lockAndRestore E (order_qty (w_db w) i) (js_uniq (map si_productId (order_qty (w_db w) i))) w = (Inr (), w1)"
    and w': "w' = db_update (put_order (w_now w1) (r\<lparr>o_status := CANCELLED\<rparr>)) w1"
    using run id qty
    by (auto simp: transaction_Inr cancel_write_def Let_def bind_s_eq_Inr split: option.splits)
  obtain ps where w1: "w1 = db_update (fold (put_product (w_now w)) ps) w"
    using lockAndRestore_Inr(1) [OF res keyed] by blast
  have s: "stock_of (w_db w') k = stock_of (w_db w1) k" by (rule stock_of_cong) (simp add: w')
  have l: "look_product (w_db w') k = look_product (w_db w1) k" by (rule look_product_cong) (simp add: w')
  have keyed': "products_keyed (w_db w')" using products_keyed_fold [OF keyed, of "w_now w" ps] by (simp add: w' w1 products_keyed_def)
  have "live_in (w_db w') k = live_in (w_db w) k"
    using lockAndRestore_Inr(2) [OF res keyed, of k] l by (auto simp: live_in_def split: option.splits)
  then show ?thesis using lockAndRestore_stock [OF res keyed, of k] s keyed' by (simp add: w' w1 items_of_def)
qed

text \<open>If two clients have read one open order before either writes, and both writes commit, the
  stock of every live product grows by twice what the order held.\<close>
theorem concurrent_cancel_restores_twice:
  assumes r: "look_order (w_db w) i = Some r" "o_userId r = u" "o_status r \<in> {PENDING, PROCESSED, PAID}"
    and keyed: "products_keyed (w_db w)"
    and first: "transaction (cancel_write E i (load_order False (w_db w) r)) w = (Inr v1, w1)"
    and second: "transaction (cancel_write E i (load_order False (w_db w) r)) w1 = (Inr v2, w2)"
  shows "(race_step E i u)\<^sup>*\<^sup>* (w, \<lambda>_. Idle) (w2, (\<lambda>_. Idle)(0 := Finished (Inr v1), 1 := Finished (Inr v2))) \<and>
    (live_in (w_db w) k \<longrightarrow> stock_of (w_db w2) k = map_option (\<lambda>n. n + 2 * qty_of k (order_qty (w_db w) i)) (stock_of (w_db w) k))"
proof
  let ?v = "load_order False (w_db w) r"
  note read = cancel_read_open [OF r]
  have id: "o_id r = i" using look_order_SomeD [OF r(1)] by simp
  have "race_step E i u (w, \<lambda>_. Idle) (w, (\<lambda>_. Idle)(0 := HasRead ?v))" by (rule race_step.reads [OF _ read]) simp
  moreover have "race_step E i u (w, (\<lambda>_. Idle)(0 := HasRead ?v)) (w, (\<lambda>_. Idle)(0 := HasRead ?v, 1 := HasRead ?v))"
    by (rule race_step.reads [OF _ read]) simp
  moreover have "race_step E i u (w, (\<lambda>_. Idle)(0 := HasRead ?v, 1 := HasRead ?v))
      (w1, ((\<lambda>_. Idle)(0 := HasRead ?v, 1 := HasRead ?v))(0 := Finished (Inr v1)))" by (rule race_step.writes [OF _ first]) simp
  moreover have "race_step E i u (w1, ((\<lambda>_. Idle)(0 := HasRead ?v, 1 := HasRead ?v))(0 := Finished (Inr v1)))
      (w2, ((\<lambda>_. Idle)(0 := HasRead ?v, 1 := HasRead ?v, 0 := Finished (Inr v1)))(1 := Finished (Inr v2)))"
    by (rule race_step.writes [OF _ second]) simp
  moreover have "((\<lambda>_. Idle)(0 := HasRead ?v, 1 := HasRead ?v, 0 := Finished (Inr v1)))(1 := Finished (Inr v2)) =
      (\<lambda>_. Idle)(0 := Finished (Inr v1), Suc 0 := Finished (Inr v2))" by (auto simp: fun_eq_iff)
  ultimately show "(race_step E i u)\<^sup>*\<^sup>* (w, \<lambda>_. Idle) (w2, (\<lambda>_. Idle)(0 := Finished (Inr v1), 1 := Finished (Inr v2)))"
    by (metis (no_types, lifting) One_nat_def converse_rtranclp_into_rtranclp rtranclp.rtrancl_refl)
  note one = cancel_write_restores [OF first id refl keyed]
  have keyed1: "products_keyed (w_db w1)" and its1: "items_of (w_db w) i = items_of (w_db w1) i" using one by simp_all
  note two = cancel_write_restores [OF second id its1 keyed1]
  have "order_qty (w_db w1) i = order_qty (w_db w) i" by (simp add: order_qty_def its1)
  then show "live_in (w_db w) k \<longrightarrow> stock_of (w_db w2) k = map_option (\<lambda>n. n + 2 * qty_of k (order_qty (w_db w) i)) (stock_of (w_db w) k)"
    using one [of k] two [of k] by (cases "stock_of (w_db w) k") auto
qed

text \<open>In the sample shop: 5 pieces in stock, an order for 2, 9 pieces after the two cancellations.\<close>
lemma concurrent_cancel_example:
  "\<exists>w2 v1 v2. (race_step sample_env ''o1'' ''u1'')\<^sup>*\<^sup>* (world_of (sample_db_ordered PAID) ChannelOpen, \<lambda>_. Idle)
      (w2, (\<lambda>_. Idle)(0 := Finished (Inr v1), 1 := Finished (Inr v2))) \<and>
     stock_of (w_db (world_of (sample_db_ordered PAID) ChannelOpen)) ''p1'' = Some 5 \<and> stock_of (w_db w2) ''p1'' = Some 9"
proof -
  let ?w = "world_of (sample_db_ordered PAID) ChannelOpen" and ?r = "sample_order ''o1'' ''u1'' PAID (Some ''key'')"
  let ?act = "transaction (cancel_write sample_env ''o1'' (load_order False (w_db ?w) ?r))"
  have r: "look_order (w_db ?w) ''o1'' = Some ?r" "o_userId ?r = ''u1''" "o_status ?r \<in> {PENDING, PROCESSED, PAID}"
    by (simp_all add: look_order_def sample_defs)
  have keyed: "products_keyed (w_db ?w)" by code_simp
  have "\<not> isl (fst (?act ?w))" by code_simp
  then obtain v1 w1 where first: "?act ?w = (Inr v1, w1)" by (rule not_isl_fstE)
  have "\<not> isl (fst (?act (snd (?act ?w))))" by code_simp
  then obtain v2 w2 where second: "?act w1 = (Inr v2, w2)" by (rule not_isl_fstE) (simp add: first)
  have facts: "live_in (w_db ?w) ''p1''" "stock_of (w_db ?w) ''p1'' = Some 5" "qty_of ''p1'' (order_qty (w_db ?w) ''o1'') = 2"
    by code_simp+
  show ?thesis using concurrent_cancel_restores_twice [OF r keyed first second, of "''p1''"] facts by auto
qed

end
