(* ===== verification/Users_Theorems.thy ===== *)
theory Users_Theorems
  imports Users Auth_Theorems Files_Theorems
begin

text \<open>
  What the profile and the administration of users promise: a changed password ends the sessions, a
  removed user is locked out, and what a profile update does to what another request wrote in the
  meantime.
\<close>

section \<open>The password\<close>

lemma read_user: "read_s (findUserOrFail i) w = (findUserOrFail i w, w)"
  by (simp add: read_s_def)

text \<open>C25: Changing the own password: a request whose two new passwords differ, of a user who is not
  there, or with a wrong current password is refused with 400, 404 or 401 and changes nothing. Any
  other sets the hash of the new password for that user and nobody else, whatever other requests did
  meanwhile, and leaves none of the user's refresh tokens active.\<close>
theorem changePassword_outcomes:
  assumes run: "changePassword A E userId dto w = (r, w')"
  shows "(case findById_user userId (w_db w) of
     None \<Rightarrow> w' = w \<and> r = Inl (if cp_newPassword dto \<noteq> cp_confirmedPassword dto then http_exn BadRequest ''Passwords do not match''
       else http_exn NotFound (''User with ID '' @ in_dq userId @ '' not found''))
   | Some u \<Rightarrow>
       if cp_newPassword dto \<noteq> cp_confirmedPassword dto then w' = w \<and> r = Inl (http_exn BadRequest ''Passwords do not match'')
       else if \<not> (case truthy (u_password u) of None \<Rightarrow> False | Some h \<Rightarrow> az_bcrypt_compare A (cp_currentPassword dto) h)
       then w' = w \<and> r = Inl (http_exn Unauthorized ''Current password is incorrect'')
       else r = Inr () \<and>
         users (w_db w') = update_rows (\<lambda>x. u_id x = userId)
           (\<lambda>x. x\<lparr>u_password := Some (az_bcrypt_hash A (cp_newPassword dto) (w_next (e_others E w))), u_updatedAt := w_now (e_others E w)\<rparr>)
           (users (w_db (e_others E w))) \<and>
         (\<forall>t \<in> set (refresh_tokens (w_db w')). rt_userId t = userId \<longrightarrow> rt_revokedAt t \<noteq> None))"
proof -
  have tokens: "\<forall>t \<in> set (refresh_tokens (w_db (snd (revokeAllUserTokens k v)))). rt_userId t = k \<longrightarrow> rt_revokedAt t \<noteq> None" for k v
    using revoked_after by (auto simp: revokeAllUserTokens_def)
  show ?thesis
  proof (cases "findById_user userId (w_db w)")
    case None
    then show ?thesis using run by (auto simp: changePassword_def bind_s_def read_user findUserOrFail_def split: if_splits)
  next
    case (Some u)
    let ?right = "case truthy (u_password u) of None \<Rightarrow> False | Some h \<Rightarrow> az_bcrypt_compare A (cp_currentPassword dto) h"
    let ?others = "e_others E w" let ?hash = "az_bcrypt_hash A (cp_newPassword dto) (w_next ?others)"
    let ?w1 = "snd (update_user userId (\<lambda>x. x\<lparr>u_password := Some ?hash\<rparr>) ?others)"
    show ?thesis
    proof (cases "cp_newPassword dto = cp_confirmedPassword dto \<and> ?right")
      case True
      then have "r = Inr () \<and> w' = snd (revokeAllUserTokens userId ?w1)"
        using run Some
        by (auto simp: changePassword_def bind_s_def read_user findUserOrFail_def hash_password_def update_user_def
            revokeAllUserTokens_def split: option.splits)
      moreover have "users (w_db (snd (revokeAllUserTokens userId ?w1))) = update_rows (\<lambda>x. u_id x = userId)
           (\<lambda>x. x\<lparr>u_password := Some ?hash, u_updatedAt := w_now ?others\<rparr>) (users (w_db ?others))"
        by (simp add: revokeAllUserTokens_def update_user_def)
      ultimately show ?thesis using True Some tokens [of userId ?w1] by simp
    next
      case False
      then show ?thesis using run Some
        by (auto simp: changePassword_def bind_s_def read_user findUserOrFail_def split: if_splits option.splits)
    qed
  qed
qed

definition password_dto :: change_password_dto where
  "password_dto = \<lparr>cp_confirmedPassword = ''new-secret'', cp_currentPassword = ''ash'', cp_newPassword = ''new-secret''\<rparr>"

text \<open>u1 has a session and changes the password.\<close>
lemma changePassword_outcomes_witness:
  "\<exists>w'. changePassword sample_auth sample_token_env ''u1'' password_dto (snd signed_in) = (Inr (), w') \<and>
     map u_password (users (w_db w')) = [Some ''hnew-secret'', Some ''hash''] \<and>
     (\<forall>t \<in> set (refresh_tokens (w_db w')). rt_userId t = ''u1'' \<longrightarrow> rt_revokedAt t \<noteq> None)"
proof -
  let ?run = "changePassword sample_auth sample_token_env ''u1'' password_dto (snd signed_in)"
  have ok: "\<not> isl (fst ?run)" by code_simp
  obtain x w' where run: "?run = (Inr x, w')" by (rule not_isl_fstE [OF ok])
  have pw: "map u_password (users (w_db (snd ?run))) = [Some ''hnew-secret'', Some ''hash'']" by code_simp
  have found: "findById_user ''u1'' (w_db (snd signed_in)) \<noteq> None" by code_simp
  then obtain u where u: "findById_user ''u1'' (w_db (snd signed_in)) = Some u" by blast
  show ?thesis using changePassword_outcomes [OF run] u run pw by (auto split: if_splits)
qed

text \<open>C26: A removed user is locked out: after the removal the user is not found, no refresh token of
  the user is active, signing in with the address is refused like an unknown address, and an
  access to the own profile answers 404.\<close>
theorem removed_user_is_locked_out:
  assumes run: "remove_user E i actor ctx w = (Inr (), w')" and ids: "distinct (map u_id (users (w_db w)))"
    and mails: "distinct (map u_email (users (w_db w)))" and alone: "e_others E = (\<lambda>s. s)"
  shows "findById_user i (w_db w') = None \<and>
    (\<forall>t \<in> set (refresh_tokens (w_db w')). rt_userId t = i \<longrightarrow> rt_revokedAt t \<noteq> None) \<and>
    (\<exists>u. findById_user i (w_db w) = Some u \<and> fst (signin A E2 (u_email u) password ctx2 w') = Inl (http_exn Unauthorized ''Invalid credentials'') \<and>
       fst (getProfile S sv i w') = Inl (http_exn NotFound (''User with ID '' @ in_dq i @ '' not found'')))"
proof -
  obtain u where u: "findById_user i (w_db w) = Some u"
    using run by (auto simp: remove_user_def bind_s_def read_user findUserOrFail_def split: option.splits)
  then have um: "u \<in> set (users (w_db w))" "u_id u = i" by (auto simp: findById_user_def find_Some_iff dest: nth_mem)
  let ?w1 = "snd (soft_delete_user i w)"
  have w': "w' = audit E (admin_event USER_SOFT_DELETED actor ctx i) (snd (revokeAllUserTokens i ?w1))"
    using run u by (auto simp: remove_user_def bind_s_def read_user findUserOrFail_def alone soft_delete_user_def revokeAllUserTokens_def)
  have users': "users (w_db w') = update_rows (\<lambda>x. u_id x = i) (\<lambda>x. x\<lparr>u_deletedAt := Some (w_now w), u_updatedAt := w_now w\<rparr>) (users (w_db w))"
    by (simp add: w' audit_def revokeAllUserTokens_def soft_delete_user_def)
  have dead: "\<not> live_user x" if x: "x \<in> set (users (w_db w'))" "u_id x = i" for x
  proof -
    obtain r where r: "x = (if u_id r = i then r\<lparr>u_deletedAt := Some (w_now w), u_updatedAt := w_now w\<rparr> else r)"
      using x(1) unfolding users' update_rows_def set_map by (elim imageE)
    show ?thesis using x(2) by (cases "u_id r = i") (simp_all add: r live_user_def)
  qed
  have gone: "findById_user i (w_db w') = None" using dead by (auto simp: findById_user_def find_None_iff)
  have nomail: "findByEmail (u_email u) (w_db w') = None"
  proof -
    have "u_id x = i" if x: "x \<in> set (users (w_db w'))" "u_email x = u_email u" for x
    proof -
      obtain y where y: "y \<in> set (users (w_db w))" "u_email y = u_email u" "u_id x = u_id y"
      proof -
        obtain r where r: "x = (if u_id r = i then r\<lparr>u_deletedAt := Some (w_now w), u_updatedAt := w_now w\<rparr> else r)" "r \<in> set (users (w_db w))"
          using x(1) unfolding users' update_rows_def set_map by (elim imageE)
        show thesis using that [OF r(2)] x(2) by (cases "u_id r = i") (simp_all add: r(1))
      qed
      then have "y = u" using mails um by (auto simp: distinct_map inj_on_def)
      then show ?thesis using y um by simp
    qed
    then show ?thesis using dead by (auto simp: findByEmail_def find_None_iff)
  qed
  have "\<forall>t \<in> set (refresh_tokens (w_db w')). rt_userId t = i \<longrightarrow> rt_revokedAt t \<noteq> None"
    using revoked_after by (auto simp: w' revokeAllUserTokens_def)
  moreover have "fst (signin A E2 (u_email u) password ctx2 w') = Inl (http_exn Unauthorized ''Invalid credentials'')"
    using nomail by (simp add: signin_def bind_s_def)
  moreover have "fst (getProfile S sv i w') = Inl (http_exn NotFound (''User with ID '' @ in_dq i @ '' not found''))"
    using gone by (simp add: getProfile_def bind_s_def read_user findUserOrFail_def)
  ultimately show ?thesis using u gone by blast
qed

lemma removed_user_is_locked_out_witness:
  "\<exists>w'. remove_user sample_token_env ''u1'' None None (snd signed_in) = (Inr (), w') \<and>
     fst (signin sample_auth sample_token_env ''a@b'' ''ash'' None w') = Inl (http_exn Unauthorized ''Invalid credentials'')"
proof -
  let ?run = "remove_user sample_token_env ''u1'' None None (snd signed_in)"
  have ok: "\<not> isl (fst ?run)" by code_simp
  obtain x w' where run: "?run = (Inr x, w')" by (rule not_isl_fstE [OF ok])
  have keys: "distinct (map u_id (users (w_db (snd signed_in))))" "distinct (map u_email (users (w_db (snd signed_in))))" by code_simp+
  have alone: "e_others sample_token_env = (\<lambda>s. s)" by (simp add: sample_token_env_def sample_defs)
  have mail: "map_option u_email (findById_user ''u1'' (w_db (snd signed_in))) = Some ''a@b''" by code_simp
  have "?run = (Inr (), w')" using run by simp
  from removed_user_is_locked_out [OF this keys alone] show ?thesis using run mail by auto
qed

section \<open>Saving a profile\<close>

lemma touched:
  "u_id (if y = x then x else y\<lparr>u_updatedAt := n\<rparr>) = u_id y" "u_roles (if y = x then x else y\<lparr>u_updatedAt := n\<rparr>) = u_roles y"
  "u_scopes (if y = x then x else y\<lparr>u_updatedAt := n\<rparr>) = u_scopes y"
  "u_isEmailVerified (if y = x then x else y\<lparr>u_updatedAt := n\<rparr>) = u_isEmailVerified y"
  "u_avatarId (if y = x then x else y\<lparr>u_updatedAt := n\<rparr>) = u_avatarId y" "u_email (if y = x then x else y\<lparr>u_updatedAt := n\<rparr>) = u_email y"
  "u_password (if y = x then x else y\<lparr>u_updatedAt := n\<rparr>) = u_password y"
  by auto

text \<open>Saving the profile writes the whole row as it was loaded: whatever another request did to the
  user in the meantime (an administrator taking roles or scopes away, a verified address, a new
  avatar) is undone, except the password, which is not loaded.\<close>
theorem updateProfile_undoes_concurrent_changes:
  assumes run: "updateProfile S sv E userId dto w = (Inr v, w')"
  shows "\<exists>u. findById_user userId (w_db w) = Some u \<and>
    map u_id (users (w_db w')) = map u_id (users (w_db (e_others E w))) \<and>
    (\<forall>x \<in> set (users (w_db w')). u_id x = userId \<longrightarrow>
       u_roles x = u_roles u \<and> u_scopes x = u_scopes u \<and> u_isEmailVerified x = u_isEmailVerified u \<and>
       u_avatarId x = u_avatarId u \<and> u_email x = u_email u \<and>
       (\<exists>y \<in> set (users (w_db (e_others E w))). u_id y = userId \<and> u_password x = u_password y))"
proof -
  let ?o = "e_others E w"
  obtain u where u: "findById_user userId (w_db w) = Some u"
    using run by (auto simp: updateProfile_def bind_s_def read_user findUserOrFail_def split: option.splits)
  have uid: "u_id u = userId" using u by (auto simp: findById_user_def find_Some_iff)
  have url: "\<exists>x. resolveAvatarUrl S sv a v = (x, v)" for a v
    by (auto simp: resolveAvatarUrl_def getPresignedUrlForFileId_def bind_s_def s3_getPresignedDownloadUrl_def split: option.split sum.split)
  obtain x where save: "save_user u (assign_profile dto u) ?o = (Inr x, w')"
    using run u url [of "u_avatarId u"]
    by (auto simp: updateProfile_def bind_s_def read_user findUserOrFail_def split: sum.splits prod.splits) (metis prod.inject)+
  let ?f = "\<lambda>x. if assign_profile dto u x = x then x else (assign_profile dto u x)\<lparr>u_updatedAt := w_now ?o\<rparr>"
  have rows: "users (w_db w') = update_rows (\<lambda>x. u_id x = userId) ?f (users (w_db ?o))"
    using save uid by (auto simp: save_user_def split: if_splits)
  have kept: "u_id (?f x) = userId" "u_roles (?f x) = u_roles u" "u_scopes (?f x) = u_scopes u" "u_isEmailVerified (?f x) = u_isEmailVerified u"
    "u_avatarId (?f x) = u_avatarId u" "u_email (?f x) = u_email u" "u_password (?f x) = u_password x" for x
  proof -
    have "u_id (assign_profile dto u x) = userId" "u_roles (assign_profile dto u x) = u_roles u"
      "u_scopes (assign_profile dto u x) = u_scopes u" "u_isEmailVerified (assign_profile dto u x) = u_isEmailVerified u"
      "u_avatarId (assign_profile dto u x) = u_avatarId u" "u_email (assign_profile dto u x) = u_email u"
      "u_password (assign_profile dto u x) = u_password x" by (simp_all add: assign_profile_def over_row_def uid)
    then show "u_id (?f x) = userId" "u_roles (?f x) = u_roles u" "u_scopes (?f x) = u_scopes u" "u_isEmailVerified (?f x) = u_isEmailVerified u"
    "u_avatarId (?f x) = u_avatarId u" "u_email (?f x) = u_email u" "u_password (?f x) = u_password x" by (simp_all only: touched)
  qed
  have "map u_id (users (w_db w')) = map u_id (users (w_db ?o))"
    unfolding rows update_rows_def map_map comp_def by (rule map_cong [OF refl]) (simp only: kept split: if_split, simp)
  moreover have "u_roles x = u_roles u \<and> u_scopes x = u_scopes u \<and> u_isEmailVerified x = u_isEmailVerified u \<and>
       u_avatarId x = u_avatarId u \<and> u_email x = u_email u \<and>
       (\<exists>y \<in> set (users (w_db ?o)). u_id y = userId \<and> u_password x = u_password y)"
    if x: "x \<in> set (users (w_db w'))" "u_id x = userId" for x
  proof -
    obtain y where y: "x = (if u_id y = userId then ?f y else y)" "y \<in> set (users (w_db ?o))"
      using x(1) unfolding rows update_rows_def set_map by (elim imageE)
    have "u_id y = userId" using x(2) y(1) by metis
    then have "x = ?f y" using y(1) by simp
    then show ?thesis using kept [of y] y(2) \<open>u_id y = userId\<close> by blast
  qed
  ultimately show ?thesis using u by blast
qed

text \<open>While u1 saves the profile, an administrator takes the role of u1 away.\<close>
definition demoting_env :: env where
  "demoting_env = sample_env\<lparr>e_others := (\<lambda>w. snd (updateRoles sample_env ''u1'' [] None None w))\<rparr>"

definition city_dto :: update_profile_dto where
  "city_dto = \<lparr>up_city = Some (Some ''Lviv''), up_country = None, up_firstName = None, up_lastName = None, up_phone = None, up_postcode = None\<rparr>"

lemma updateProfile_undoes_concurrent_changes_witness:
  "\<exists>v w'. updateProfile sample_s3 sample_store demoting_env ''u1'' city_dto sample_world = (Inr v, w') \<and>
     map u_roles (users (w_db (e_others demoting_env sample_world))) = [[], [''USER'']] \<and>
     (\<forall>x \<in> set (users (w_db w')). u_id x = ''u1'' \<longrightarrow> u_roles x = [''USER''])"
proof -
  let ?run = "updateProfile sample_s3 sample_store demoting_env ''u1'' city_dto sample_world"
  have ok: "\<not> isl (fst ?run)" by code_simp
  obtain v w' where run: "?run = (Inr v, w')" by (rule not_isl_fstE [OF ok])
  have others: "map u_roles (users (w_db (e_others demoting_env sample_world))) = [[], [''USER'']]" by code_simp
  have loaded: "map_option u_roles (findById_user ''u1'' (w_db sample_world)) = Some [''USER'']" by code_simp
  show ?thesis using updateProfile_undoes_concurrent_changes [OF run] run others loaded by auto
qed

end
