(* ===== verification/Products_Theorems.thy ===== *)
theory Products_Theorems
  imports Reads Files_Theorems Orders_Command_Theorems Money
begin

text \<open>
  What the administration of the catalogue promises: the price an administrator enters is the price
  that is charged, an image that is taken from a product is gone everywhere, and what saving a
  product does to the stock another request took in the meantime.
\<close>

section \<open>Prices\<close>

text \<open>The number a decimal text denotes, whatever its number of decimals.\<close>
definition decimal_value :: "string \<Rightarrow> rat" where
  "decimal_value s = of_nat (digits_num (takeWhile is_digit s)) +
     (case dropWhile is_digit s of [] \<Rightarrow> 0 | _ # decs \<Rightarrow> of_nat (digits_num decs) / 10 ^ length decs)"

lemma price_pattern_value:
  assumes "price_pattern s"
  shows "decimal_value s = of_nat (price_cents s) / 100"
proof (cases "dropWhile is_digit s")
  case (Cons c decs)
  then have "length decs = 1 \<or> length decs = 2" using assms by (auto simp: price_pattern_def)
  then show ?thesis by (auto simp: decimal_value_def price_cents_def Cons power2_eq_square field_simps)
next
  case Nil
  show ?thesis unfolding decimal_value_def price_cents_def Nil list.case by simp
qed

lemma violation_throws: "\<not> isl (fst (throwOnUniqueViolation e msg w)) \<Longrightarrow> False"
  by (cases e) (simp_all add: throwOnUniqueViolation_def split: if_splits)

lemma find_snoc: "find P xs = None \<Longrightarrow> P x \<Longrightarrow> find P (xs @ [x]) = Some x"
  by (induction xs) (auto split: if_splits)

lemma create_product_Inr:
  assumes run: "create_product E dto w = (Inr v, w1)"
  obtains r t where "findById_product (pv_id v) (w_db w1) = Some r" "p_price r = t" "numeric_12_2 (cd_price dto) = Some t"
proof -
  let ?p = "new_product (e_uuid E (w_next w)) (w_now w) dto"
  have new: "p_id ?p = e_uuid E (w_next w)" "p_price ?p = cd_price dto" "live_product ?p" by (simp_all add: new_product_def live_product_def)
  obtain saved w2 where ins: "insert_product E dto w = (Inr saved, w2)"
  proof (cases "insert_product E dto w")
    case (Pair x w2)
    show thesis
    proof (cases x)
      case (Inl e)
      then have "throwOnUniqueViolation e (''Product with title '' @ in_dq (cd_title dto) @ '' already exists'') w2 = (Inr v, w1)"
        using run Pair by (simp add: create_product_def catch_s_def bind_s_def)
      then show thesis using violation_throws by (metis fst_conv sum.disc(2))
    qed (use Pair that in simp)
  qed
  then have v: "v = product_fromEntity saved None None (None, 0)" "w1 = w2"
    using run by (simp_all add: create_product_def catch_s_def bind_s_def)
  obtain r where row: "product_row ?p (w_db w) = Inr r"
    using ins unfolding insert_product_def Let_def by (cases "product_row ?p (w_db w)") simp_all
  have fresh: "look_product (w_db w) (p_id ?p) = None"
    using ins unfolding insert_product_def Let_def row by (cases "look_product (w_db w) (p_id ?p)") simp_all
  have r: "saved = ?p" "w_db w2 = (w_db w)\<lparr>products := products (w_db w) @ [r]\<rparr>"
    using ins unfolding insert_product_def Let_def row sum.case fresh by auto
  obtain t where t: "r = ?p\<lparr>p_price := t\<rparr>" "numeric_12_2 (p_price ?p) = Some t"
    using row unfolding product_row_def by (auto split: if_splits option.splits)
  have "p_id ?p \<notin> p_id ` set (products (w_db w))" using fresh by (simp add: look_product_def find_row_None)
  then have "find (\<lambda>x. p_id x = p_id ?p \<and> live_product x) (products (w_db w)) = None"
    unfolding find_None_iff by (metis image_eqI)
  from find_snoc [OF this, of r] have "findById_product (p_id ?p) (w_db w2) = Some r"
    using new(3) by (simp add: findById_product_def r(2) t(1) live_product_def)
  then show thesis using that [of r t] t new(2) by (simp add: v r(1) product_fromEntity_def)
qed

text \<open>C29: The price an administrator enters is the price that is charged. A product is created
  through a request the interface accepts; as long as its price is not changed, every order line
  for it carries a price whose line total, computed in floating point, is exactly a hundred times
  the number that was entered times the quantity, in cents (up to 2^50 cents a line).\<close>
theorem price_is_charged_exactly:
  assumes valid: "create_product_dto_valid isAlpha2 dto" and made: "create_product E dto w = (Inr v, w1)"
    and kept: "map_option p_price (findById_product (pv_id v) (w_db w2)) = map_option p_price (findById_product (pv_id v) (w_db w1))"
    and order: "executeOrderTransaction E2 odto usr ids w2 = (Inr ov, w3)" and keyed: "products_keyed (w_db w2)"
    and line: "(it, x) \<in> set (ov_items ov)" "oi_productId it = pv_id v" "0 \<le> oi_quantity it"
    and bound: "100 * decimal_value (cd_price dto) * of_int (oi_quantity it) \<le> 2 ^ 50"
  shows "\<exists>c. line_cents (oi_priceAtPurchase it) (oi_quantity it) = Some c \<and>
    of_int c = 100 * decimal_value (cd_price dto) * of_int (oi_quantity it)"
proof -
  let ?n = "price_cents (cd_price dto)"
  have cents: "decimal_value (cd_price dto) = of_nat ?n / 100"
    using price_pattern_value valid unfolding create_product_dto_valid_def by blast
  obtain r t where r: "findById_product (pv_id v) (w_db w1) = Some r" "p_price r = t" "numeric_12_2 (cd_price dto) = Some t"
    by (rule create_product_Inr [OF made])
  obtain p where p: "findById_product (oi_productId it) (w_db w2) = Some p" "oi_priceAtPurchase it = p_price p"
    using executeOrderTransaction_created [OF order keyed] line(1) unfolding created_view_def by force
  have price: "oi_priceAtPurchase it = cents_str ?n"
    using p kept r line(2) by (auto simp: numeric_12_2_def split: if_splits)
  obtain q where q: "oi_quantity it = int q" using line(3) nonneg_int_cases by blast
  have "of_nat (?n * q) \<le> (2 ^ 50 :: rat)" using bound by (simp add: cents q)
  then have "?n * q \<le> 2 ^ 50" by (metis of_nat_le_iff of_nat_numeral of_nat_power)
  then show ?thesis using line_cents_exact [of ?n q] by (simp add: price q cents)
qed

definition sample_create :: create_product_dto where
  "sample_create = \<lparr>cd_brand = None, cd_category = None, cd_country = None, cd_description = None, cd_isActive = None,
     cd_price = ''19.9'', cd_stock = Some 5, cd_title = ''Lamp''\<rparr>"

text \<open>A product for 19.9 is ordered three times: 5970 cents.\<close>
lemma price_is_charged_exactly_witness:
  "\<exists>v w1 ov w3 it x. create_product sample_env sample_create sample_world = (Inr v, w1) \<and>
     executeOrderTransaction sample_env (order_dto None [(pv_id v, 3)]) (sample_user ''u1'' ''a@b'') [pv_id v] w1 = (Inr ov, w3) \<and>
     (it, x) \<in> set (ov_items ov) \<and> line_cents (oi_priceAtPurchase it) (oi_quantity it) = Some 5970"
proof -
  let ?c = "create_product sample_env sample_create sample_world"
  have "\<not> isl (fst ?c)" by code_simp
  then obtain v w1 where made: "?c = (Inr v, w1)" by (rule not_isl_fstE)
  let ?t = "\<lambda>v. executeOrderTransaction sample_env (order_dto None [(pv_id v, 3)]) (sample_user ''u1'' ''a@b'') [pv_id v]"
  have "\<not> isl (fst (?t (projr (fst ?c)) (snd ?c)))" by code_simp
  then have "\<not> isl (fst (?t v w1))" by (simp add: made)
  then obtain ov w3 where order: "?t v w1 = (Inr ov, w3)" by (rule not_isl_fstE)
  have keyed: "products_keyed (w_db w1)"
  proof -
    have "distinct (map p_id (products (w_db (snd ?c))))" by code_simp
    then show ?thesis by (simp add: made products_keyed_def)
  qed
  have "map (\<lambda>(i, _). (oi_productId i = pv_id (projr (fst ?c)), oi_quantity i)) (ov_items (projr (fst (?t (projr (fst ?c)) (snd ?c))))) = [(True, 3)]"
    by code_simp
  then have "map (\<lambda>(i, _). (oi_productId i = pv_id v, oi_quantity i)) (ov_items ov) = [(True, 3)]" by (simp add: made order)
  then obtain it x where line: "(it, x) \<in> set (ov_items ov)" "oi_productId it = pv_id v" "oi_quantity it = 3"
    by (cases "ov_items ov") auto
  have valid: "create_product_dto_valid (\<lambda>_. True) sample_create" by code_simp
  have "price_cents ''19.9'' = 1990" "price_pattern ''19.9''" by code_simp+
  then have entered: "decimal_value (cd_price sample_create) = 1990 / 100"
    using price_pattern_value [of "''19.9''"] by (simp add: sample_create_def)
  obtain c where "line_cents (oi_priceAtPurchase it) (oi_quantity it) = Some c" "of_int c = (5970 :: rat)"
    using price_is_charged_exactly [OF valid made refl order keyed line(1,2)] by (auto simp: line(3) entered)
  then have "line_cents (oi_priceAtPurchase it) (oi_quantity it) = Some 5970"
    by (metis of_int_eq_iff of_int_numeral)
  then show ?thesis using made order line(1) by blast
qed

section \<open>Saving a product\<close>

lemma read_product: "read_s (findProductOrFail i) w = (findProductOrFail i w, w)"
  by (simp add: read_s_def)

lemma product_row_Inr: "product_row p d = Inr q \<Longrightarrow> \<exists>t. q = p\<lparr>p_price := t\<rparr> \<and> numeric_12_2 (p_price p) = Some t"
  by (auto simp: product_row_def split: if_splits option.splits)

lemma update_product_Inr:
  assumes run: "update_product S sv E i dto w = (Inr v, w')"
  obtains p q where "findById_product i (w_db w) = Some p" and "product_row (assign_product dto p) (w_db (e_others E w)) = Inr q"
    and "w' = db_update (put_product (w_now (e_others E w)) q) (e_others E w)"
proof -
  obtain p where p: "findById_product i (w_db w) = Some p"
    using run by (auto simp: update_product_def bind_s_def read_product findProductOrFail_def split: option.splits)
  let ?o = "e_others E w"
  have tried: "bind_s (if null_columns dto then throw_s (QueryFailed ''23502'' ''null value violates not-null constraint'')
       else save_product (assign_product dto p)) (\<lambda>_. product_findById S sv i) ?o = (Inr v, w')"
  proof (rule ccontr)
    assume no: "\<not> ?thesis"
    let ?m = "bind_s (if null_columns dto then throw_s (QueryFailed ''23502'' ''null value violates not-null constraint'')
       else save_product (assign_product dto p)) (\<lambda>_. product_findById S sv i)"
    have "catch_s ?m (\<lambda>e. throwOnUniqueViolation e (''Product with title '' @ in_dq (title_text dto) @ '' already exists'')) ?o = (Inr v, w')"
      using run p by (simp add: update_product_def bind_s_def read_product findProductOrFail_def)
    then obtain e w1 where "throwOnUniqueViolation e (''Product with title '' @ in_dq (title_text dto) @ '' already exists'') w1 = ((Inr v :: exn + product_view), w')"
      using no by (cases "?m ?o"; cases "fst (?m ?o)") (auto simp: catch_s_def)
    then show False using violation_throws by (metis fst_conv sum.disc(2))
  qed
  have still: "snd (product_findById S sv i w1) = w1" for w1 using still_reads(3) by (simp add: still_def)
  obtain q where q: "product_row (assign_product dto p) (w_db ?o) = Inr q"
    using tried by (cases "product_row (assign_product dto p) (w_db ?o)") (auto simp: bind_s_def save_product_def split: if_splits)
  then have "product_findById S sv i (db_update (put_product (w_now ?o) q) ?o) = (Inr v, w')"
    using tried by (auto simp: bind_s_def save_product_def split: if_splits)
  then have "w' = db_update (put_product (w_now ?o) q) ?o" using still by (metis snd_conv)
  then show thesis using that p q by blast
qed

text \<open>C27: Saving a product writes the whole row as it was loaded: unless the administrator sets a stock,
  the product has the stock, and the main image, it had when it was loaded, whatever orders took or
  gave back in the meantime, and a product removed meanwhile is back.\<close>
theorem update_product_undoes_sales:
  assumes run: "update_product S sv E i dto w = (Inr v, w')" and stock: "ud_stock dto = None"
    and loaded: "findById_product i (w_db w) = Some p"
  shows "\<exists>x. look_product (w_db w') i = Some x \<and> p_stock x = p_stock p \<and> p_mainImageId x = p_mainImageId p \<and> p_deletedAt x = None \<and>
    (\<forall>k. k \<noteq> i \<longrightarrow> look_product (w_db w') k = look_product (w_db (e_others E w)) k)"
proof -
  obtain p2 q where p2: "findById_product i (w_db w) = Some p2" "product_row (assign_product dto p2) (w_db (e_others E w)) = Inr q"
    and w': "w' = db_update (put_product (w_now (e_others E w)) q) (e_others E w)"
    by (rule update_product_Inr [OF run])
  then have row: "product_row (assign_product dto p) (w_db (e_others E w)) = Inr q" using loaded by simp
  obtain t where q: "q = (assign_product dto p)\<lparr>p_price := t\<rparr>" using product_row_Inr [OF row] by blast
  have p: "p_id p = i" "p_deletedAt p = None" using loaded by (auto simp: findById_product_def find_Some_iff live_product_def)
  have fields: "p_id q = i" "p_stock q = p_stock p" "p_mainImageId q = p_mainImageId p" "p_deletedAt q = None"
    using stock p by (simp_all add: q assign_product_def given_def)
  have st: "p_stock (stored_product n d q) = p_stock q" "p_mainImageId (stored_product n d q) = p_mainImageId q"
    "p_deletedAt (stored_product n d q) = p_deletedAt q" for n d by (simp_all add: stored_product_def)
  show ?thesis using fields st by (auto simp: w' look_put_product)
qed

text \<open>While an administrator renames p1, an order takes two of its five pieces.\<close>
definition selling_env :: env where
  "selling_env = sample_env\<lparr>e_others := (\<lambda>w. db_update (put_product (w_now w) (sample_product ''p1'' 3 ''9.99'')) w)\<rparr>"

definition title_dto :: update_product_dto where
  "title_dto = \<lparr>ud_brand = None, ud_category = None, ud_country = None, ud_description = None, ud_isActive = None, ud_price = None,
     ud_stock = None, ud_title = Some (Some ''New'')\<rparr>"

lemma update_product_undoes_sales_witness:
  "\<exists>v w'. update_product sample_s3 sample_store selling_env ''p1'' title_dto sample_world = (Inr v, w') \<and>
     stock_of (w_db (e_others selling_env sample_world)) ''p1'' = Some 3 \<and> stock_of (w_db w') ''p1'' = Some 5"
proof -
  let ?run = "update_product sample_s3 sample_store selling_env ''p1'' title_dto sample_world"
  have ok: "\<not> isl (fst ?run)" by code_simp
  obtain v w' where run: "?run = (Inr v, w')" by (rule not_isl_fstE [OF ok])
  have sold: "stock_of (w_db (e_others selling_env sample_world)) ''p1'' = Some 3" by code_simp
  have loaded: "findById_product ''p1'' (w_db sample_world) = Some (sample_product ''p1'' 5 ''9.99'')" by code_simp
  have five: "p_stock (sample_product ''p1'' 5 ''9.99'') = 5" by code_simp
  have none: "ud_stock title_dto = None" by code_simp
  show ?thesis using update_product_undoes_sales [OF run none loaded] run sold five by (auto simp: stock_of_def)
qed

section \<open>Images\<close>

text \<open>C28: An image taken from a product is gone everywhere: while requests do not interleave, a removal
  that succeeds detaches exactly this file and clears the product's main image exactly when it was
  this file, nothing else changes, the product's images no longer show it, and it can neither be
  made the main image nor be removed again (404).\<close>
theorem removed_image_is_gone:
  assumes run: "removeImage E i k w = (Inr (), w')" and alone: "e_others E = (\<lambda>s. s)"
    and ids: "distinct (map p_id (products (w_db w)))"
  shows "map_option f_entityId (look_file (w_db w') k) = Some None \<and>
    (\<forall>j. j \<noteq> k \<longrightarrow> look_file (w_db w') j = look_file (w_db w) j) \<and>
    (\<forall>j. map_option p_mainImageId (look_product (w_db w') j) =
       map_option (\<lambda>p. if j = i \<and> p_mainImageId p = Some k then None else p_mainImageId p) (look_product (w_db w) j)) \<and>
    removeImage E i k w' = (Inl (no_such_image k i), w') \<and> setMainImage S sv E i k w' = (Inl (no_such_image k i), w')"
proof -
  obtain p where p: "findById_product i (w_db w) = Some p"
    using run by (auto simp: removeImage_def bind_s_def read_product findProductOrFail_def split: option.splits)
  obtain f where f: "look_file (w_db w) k = Some f" "f_entityId f = Some i"
    using run p by (auto simp: removeImage_def bind_s_def read_product findProductOrFail_def split: option.splits if_splits)
  let ?f = "f\<lparr>f_entityId := None\<rparr>"
  have fid: "f_id f = k" using f(1) by (auto simp: look_file_def dest: find_row_SomeD)
  let ?unset = "update_rows (\<lambda>x. p_id x = i \<and> p_mainImageId x = Some k) (\<lambda>x. x\<lparr>p_mainImageId := None, p_updatedAt := w_now w\<rparr>)"
  have w': "w' = db_update (\<lambda>d. d\<lparr>products := ?unset (products d)\<rparr>) (db_update (put_file (w_now w) ?f) w)"
    using run p f by (simp add: removeImage_def bind_s_def read_product findProductOrFail_def alone save_file_def)
  have files: "look_file (w_db w') j = look_file (put_file (w_now w) ?f (w_db w)) j" for j
    by (simp add: w' look_file_def)
  have prods: "products (w_db w') = ?unset (products (w_db w))" by (simp add: w' put_file_def)
  have detached: "map_option f_entityId (look_file (w_db w') k) = Some None" by (simp add: files look_put_file fid)
  have others: "\<forall>j. j \<noteq> k \<longrightarrow> look_file (w_db w') j = look_file (w_db w) j" by (simp add: files look_put_file fid)
  have look: "find_row p_id j (?unset ps) = map_option (\<lambda>p. if j = i \<and> p_mainImageId p = Some k
      then p\<lparr>p_mainImageId := None, p_updatedAt := w_now w\<rparr> else p) (find_row p_id j ps)" for j ps
    by (induction ps) (auto simp: update_rows_def)
  have mains: "\<forall>j. map_option p_mainImageId (look_product (w_db w') j) =
       map_option (\<lambda>p. if j = i \<and> p_mainImageId p = Some k then None else p_mainImageId p) (look_product (w_db w) j)"
    by (auto simp: look_product_def prods look option.map_comp comp_def intro!: map_option_cong)
  have "live_product x = live_product y" if "x = y\<lparr>p_mainImageId := m, p_updatedAt := n\<rparr>" for x y m n
    using that by (simp add: live_product_def)
  then have "find (\<lambda>p. p_id p = i \<and> live_product p) (?unset ps) \<noteq> None" if "find (\<lambda>p. p_id p = i \<and> live_product p) ps \<noteq> None" for ps
    using that by (induction ps) (auto simp: update_rows_def live_product_def)
  then obtain q where q: "findById_product i (w_db w') = Some q"
    using p by (fastforce simp: findById_product_def prods)
  obtain g where g: "look_file (w_db w') k = Some g" "f_entityId g = None" using detached by auto
  have "removeImage E i k w' = (Inl (no_such_image k i), w')"
    using q g by (simp add: removeImage_def bind_s_def read_product findProductOrFail_def)
  moreover have "setMainImage S sv E i k w' = (Inl (no_such_image k i), w')"
    using q g by (simp add: setMainImage_def bind_s_def read_product findProductOrFail_def ready_file_def split: option.split)
  ultimately show ?thesis using detached others mains by blast
qed

text \<open>p1 with its main image f1.\<close>
definition pictured_world :: world where
  "pictured_world = db_update (\<lambda>d. d\<lparr>file_records := [mark_ready 5 (new_file ''f1'' 0 ''shop'' ''u1'' (sample_upload\<lparr>pu_entityId := ''p1''\<rparr>) ''key'')],
     products := [(sample_product ''p1'' 5 ''9.99'')\<lparr>p_mainImageId := Some ''f1''\<rparr>]\<rparr>) sample_world"

lemma removed_image_is_gone_witness:
  "\<exists>w'. removeImage sample_env ''p1'' ''f1'' pictured_world = (Inr (), w') \<and>
     map_option p_mainImageId (look_product (w_db w') ''p1'') = Some None \<and>
     setMainImage sample_s3 sample_store sample_env ''p1'' ''f1'' w' = (Inl (no_such_image ''f1'' ''p1''), w')"
proof -
  let ?run = "removeImage sample_env ''p1'' ''f1'' pictured_world"
  have ok: "\<not> isl (fst ?run)" by code_simp
  obtain x w' where run: "?run = (Inr x, w')" by (rule not_isl_fstE [OF ok])
  have run2: "?run = (Inr (), w')" using run by simp
  have alone: "e_others sample_env = (\<lambda>s. s)" by (simp add: sample_env_def)
  have ids: "distinct (map p_id (products (w_db pictured_world)))" by code_simp
  have main: "map_option p_mainImageId (look_product (w_db pictured_world) ''p1'') = Some (Some ''f1'')" by code_simp
  then obtain p where "look_product (w_db pictured_world) ''p1'' = Some p" "p_mainImageId p = Some ''f1''" by auto
  then have "map_option p_mainImageId (look_product (w_db w') ''p1'') = Some None"
    using removed_image_is_gone [OF run2 alone ids, of sample_s3 sample_store] by (elim conjE allE [of _ "''p1''"]) simp
  then show ?thesis using removed_image_is_gone [OF run2 alone ids, of sample_s3 sample_store] run2 by blast
qed

end
