(* ===== verification/Reviews_Theorems.thy ===== *)
theory Reviews_Theorems
  imports Reviews Db_Invariant Sample_World
begin

text \<open>
  What the reviews promise: the ratings of the list and of the single product agree and lie between
  1 and 5, and a client that follows the cursors of a product's reviews sees each of them once.
\<close>

section \<open>Ratings\<close>

lemma hundredths_bounds:
  assumes "rs \<noteq> []" and "\<forall>n \<in> set rs. 1 \<le> n \<and> n \<le> 5"
  shows "100 \<le> rating_hundredths rs \<and> rating_hundredths rs \<le> 500"
proof -
  let ?n = "int (length rs)" let ?s = "sum_list rs"
  have n: "0 < ?n" using assms(1) by simp
  have lo: "?n \<le> ?s" and hi: "?s \<le> 5 * ?n" using assms(2) by (induction rs) auto
  have "(200 * ?n) div (2 * ?n) \<le> (200 * ?s + ?n) div (2 * ?n)" using lo n by (intro zdiv_mono1) linarith+
  moreover have "(200 * ?s + ?n) div (2 * ?n) \<le> (1001 * ?n) div (2 * ?n)" using hi n by (intro zdiv_mono1) linarith+
  moreover have "(200 * ?n) div (2 * ?n) = 100" "(1001 * ?n) div (2 * ?n) = 500"
    using n div_mult_mult2 [of ?n 200 2] div_mult_mult2 [of ?n 1001 2] by simp_all
  ultimately show ?thesis by (simp add: rating_hundredths_def)
qed

lemma averageRating_bounds:
  assumes "rs \<noteq> []" and "\<forall>n \<in> set rs. 1 \<le> n \<and> n \<le> 5"
  shows "\<exists>a. averageRating rs = Some a \<and> 1 \<le> a \<and> a \<le> 5"
proof -
  define h where "h = rating_hundredths rs"
  let ?x = "of_int h / 100 :: rat"
  have h: "100 \<le> h" "h \<le> 500" using hundredths_bounds [OF assms] by (simp_all add: h_def)
  have err: "\<bar>fl ?x - ?x\<bar> \<le> ?x / 2 ^ 53" using fl_err [of ?x] h by simp
  have five: "?x / 2 ^ 53 < 1 / 100" using h by (simp add: divide_less_eq)
  have "1 \<le> fl ?x \<and> fl ?x \<le> 5"
  proof (cases "h = 100 \<or> h = 500")
    case True
    then show ?thesis using fl_of_int [of 1] fl_of_int [of 5] by auto
  next
    case False
    then have "101 / 100 \<le> ?x" "?x \<le> 499 / 100" using h by (auto simp: field_simps)
    then show ?thesis using err five by linarith
  qed
  then show ?thesis using assms(1) by (simp add: averageRating_def h_def)
qed

lemma map_of_same: "map_of (map (\<lambda>k. (k, f k)) ks) k = (if k \<in> set ks then Some (f k) else None)"
  by (induction ks) auto

lemma no_ratings: "ratings_of k d = [] \<longleftrightarrow> k \<notin> rv_productId ` set (reviews d)"
  by (auto simp: ratings_of_def filter_empty_conv)

text \<open>C30: The ratings of the list are those of the single product: for every product asked for, the
  entry of the grouped query, or the default where the query has no group, is what the query for the
  one product answers; and where the table keeps its check, an average is between 1 and 5 and is
  there exactly when the product has reviews.\<close>
theorem ratings_agree:
  assumes "k \<in> set ks"
  shows "(case map_of (getRatingInfoBatch ks d) k of Some rating \<Rightarrow> rating | None \<Rightarrow> (None, 0)) = getRatingInfo k d \<and>
    (ratings_ok (reviews d) \<longrightarrow> (case getRatingInfo k d of
       (None, n) \<Rightarrow> n = 0 \<and> k \<notin> rv_productId ` set (reviews d)
     | (Some a, n) \<Rightarrow> 0 < n \<and> 1 \<le> a \<and> a \<le> 5))"
proof
  have ne: "ks \<noteq> []" using assms by auto
  have groups: "set (js_uniq (map rv_productId (filter (\<lambda>r. rv_productId r \<in> set ks) (reviews d)))) =
      rv_productId ` set (reviews d) \<inter> set ks" by auto
  show "(case map_of (getRatingInfoBatch ks d) k of Some rating \<Rightarrow> rating | None \<Rightarrow> (None, 0)) = getRatingInfo k d"
  proof (cases "k \<in> rv_productId ` set (reviews d)")
    case True
    then show ?thesis using assms ne groups by (simp add: getRatingInfoBatch_def map_of_same getRatingInfo_def del: js_uniq.simps)
  next
    case False
    then have "ratings_of k d = []" using no_ratings by blast
    then show ?thesis using assms ne groups False
      by (simp add: getRatingInfoBatch_def map_of_same getRatingInfo_def averageRating_def del: js_uniq.simps)
  qed
  show "ratings_ok (reviews d) \<longrightarrow> (case getRatingInfo k d of
       (None, n) \<Rightarrow> n = 0 \<and> k \<notin> rv_productId ` set (reviews d) | (Some a, n) \<Rightarrow> 0 < n \<and> 1 \<le> a \<and> a \<le> 5)"
  proof (cases "ratings_of k d = []")
    case True
    then show ?thesis using no_ratings [of k d] by (simp add: getRatingInfo_def averageRating_def)
  next
    case False
    then show ?thesis using averageRating_bounds [OF False]
      by (auto simp: getRatingInfo_def ratings_ok_def ratings_of_def)
  qed
qed

section \<open>The pages\<close>

definition reviews_of :: "uuid \<Rightarrow> db \<Rightarrow> review list" where
  "reviews_of k d = filter (\<lambda>r. rv_productId r = k) (reviews d)"

text \<open>Rows a millisecond cursor can tell apart, with identifiers as the table prints them.\<close>
definition reviews_apart :: "review list \<Rightarrow> bool" where
  "reviews_apart rows \<longleftrightarrow> distinct (map rv_id rows) \<and> (\<forall>r \<in> set rows. map char_lower (rv_id r) = rv_id r \<and> rv_id r \<noteq> []) \<and>
     (\<forall>a \<in> set rows. \<forall>b \<in> set rows. rv_createdAt a div 1000 = rv_createdAt b div 1000 \<longrightarrow> rv_createdAt a = rv_createdAt b)"

lemma slinear_review_before: "inj_on rv_id S \<Longrightarrow> slinear review_before S"
  unfolding slinear_def
proof (intro conjI ballI impI)
  fix x y z assume "review_before x y" "review_before y z"
  then show "review_before x z" using str_lt_trans [of "rv_id z" "rv_id y" "rv_id x"] by (auto simp: review_before_def)
next
  fix x y assume "inj_on rv_id S" "x \<in> S" "y \<in> S" "x \<noteq> y"
  then have "rv_id x \<noteq> rv_id y" by (auto dest: inj_onD)
  then show "review_before x y \<or> review_before y x"
    using str_lt_total [of "rv_id x" "rv_id y"] by (auto simp: review_before_def)
qed (simp add: review_before_def)

lemma review_behind_before:
  assumes "rv_createdAt x div 1000 = rv_createdAt r div 1000 \<Longrightarrow> rv_createdAt x = rv_createdAt r"
  shows "review_behind x r = review_before x r"
proof -
  let ?a = "rv_createdAt r" and ?b = "rv_createdAt x"
  have tr: "trunc_ms ?a < trunc_ms ?b \<longleftrightarrow> ?a div 1000 < ?b div 1000" "trunc_ms ?a = trunc_ms ?b \<longleftrightarrow> ?a div 1000 = ?b div 1000"
    by (simp_all add: trunc_ms_def)
  have lt: "(?a div 1000 < ?b div 1000) = (?a < ?b)"
    using zdiv_mono1 [of ?b ?a 1000] zdiv_mono1 [of ?a ?b 1000] assms by linarith
  have eq: "(?a div 1000 = ?b div 1000) = (?a = ?b)" using assms by metis
  show ?thesis unfolding review_behind_def review_before_def tr lt eq by (rule refl)
qed

interpretation review_keyset: keyset review_before review_behind "\<lambda>r. r" reviews_apart
proof unfold_locales
  fix rows assume a: "reviews_apart rows"
  then show "slinear review_before (set rows)" by (intro slinear_review_before) (simp add: reviews_apart_def distinct_map)
  show "distinct rows" using a by (simp add: reviews_apart_def distinct_map)
  fix x r assume "x \<in> set rows" "r \<in> set rows"
  then show "review_behind x r = review_before x r" using a by (intro review_behind_before) (simp add: reviews_apart_def)
qed

text \<open>One request for a page: the reviews shown and the next cursor.\<close>
definition reviews_request :: "uuid \<Rightarrow> find_reviews \<Rightarrow> world \<Rightarrow> string option \<Rightarrow> exn + review_view list \<times> uuid option" where
  "reviews_request k q w c = (case getReviews k (q\<lparr>fr_cursor := c\<rparr>) w of
     Inl e \<Rightarrow> Inl e | Inr (page, _, nextCursor) \<Rightarrow> Inr (page, nextCursor))"

lemma find_review_row:
  assumes "distinct (map rv_id rows)" and "x \<in> set rows" and "P x"
  shows "find (\<lambda>r. rv_id r = rv_id x \<and> P r) rows = Some x"
  using assms
proof (induction rows)
  case (Cons a rows)
  then show ?case by (cases "a = x") (auto simp: rev_image_eqI)
qed simp

text \<open>C31: The pages of a product's reviews: a client that starts without a cursor and follows those it
  is given sees every review of the product exactly once, newest first, in pages no longer than the
  limit, and comes to an end, provided no two of them were written in the same millisecond at
  different microseconds.\<close>
theorem review_pages_show_everything_once:
  assumes product: "findById_product k (w_db w) \<noteq> None" and ids: "distinct (map rv_id (reviews (w_db w)))"
    and apart: "reviews_apart (reviews_of k (w_db w))" and valid: "find_reviews_valid isUUID q"
  shows "\<exists>pages. follow (Suc (length (reviews (w_db w)))) (reviews_request k q w) None = Inr pages \<and>
    concat pages = map (review_fromEntity (w_db w)) (sort_by review_before (reviews_of k (w_db w))) \<and>
    (\<forall>p \<in> set pages. length p \<le> nat (reviews_limit q))"
proof (rule review_keyset.follow_all [where enc = rv_id, OF apart])
  let ?d = "w_db w" let ?n = "nat (reviews_limit q)"
  show "0 < ?n" using valid by (auto simp: find_reviews_valid_def reviews_limit_def MIN_REVIEWS_LIMIT_def DEFAULT_REVIEWS_LIMIT_def split: option.splits)
  show "length (reviews_of k ?d) < Suc (length (reviews ?d))" by (simp add: reviews_of_def le_imp_less_Suc)
  fix c assume c: "\<forall>x. c = Some x \<longrightarrow> x \<in> (\<lambda>r. r) ` set (reviews_of k ?d)"
  have limit: "reviews_limit (q\<lparr>fr_cursor := v\<rparr>) = reviews_limit q" for v by (simp add: reviews_limit_def)
  have behind: "(case truthy (map_option rv_id c) of None \<Rightarrow> reviews_of k ?d
      | Some s \<Rightarrow> (case find (\<lambda>r. rv_id r = map char_lower s \<and> rv_productId r = k) (reviews ?d) of
          None \<Rightarrow> reviews_of k ?d | Some x \<Rightarrow> filter (review_behind x) (reviews_of k ?d))) =
      filter (\<lambda>r. case c of None \<Rightarrow> True | Some x \<Rightarrow> review_behind x r) (reviews_of k ?d)"
  proof (cases c)
    case (Some x)
    then have x: "x \<in> set (reviews ?d)" "rv_productId x = k" "map char_lower (rv_id x) = rv_id x" "rv_id x \<noteq> []"
      using c apart by (auto simp: reviews_of_def reviews_apart_def)
    then show ?thesis using find_review_row [OF ids x(1), of "\<lambda>r. rv_productId r = k"] Some by (simp add: truthy_def)
  qed (simp add: truthy_def)
  obtain p where p: "findById_product k ?d = Some p" using product by blast
  show "reviews_request k q w (map_option rv_id c) =
      (let (page, more) = page_of ?n (sort_by review_before (filter (\<lambda>r. case c of None \<Rightarrow> True | Some x \<Rightarrow> review_behind x r) (reviews_of k ?d)))
       in Inr (map (review_fromEntity ?d) page, if more then Some (rv_id (last page)) else None))"
    using behind unfolding reviews_request_def getReviews_def findProductOrFail_def p
    by (simp add: Let_def limit page_of_take reviews_of_def [symmetric] split: prod.splits)
qed

section \<open>A product with three reviews\<close>

definition sample_review :: "string \<Rightarrow> string \<Rightarrow> int \<Rightarrow> micros \<Rightarrow> review" where
  "sample_review i u n t = \<lparr>rv_id = i, rv_userId = u, rv_productId = ''p1'', rv_rating = n, rv_text = ''ok'', rv_createdAt = t, rv_updatedAt = t\<rparr>"

definition reviewed_world :: world where
  "reviewed_world = db_update (\<lambda>d. d\<lparr>reviews := [sample_review ''a'' ''u1'' 5 5000, sample_review ''b'' ''u2'' 4 9000, sample_review ''c'' ''u3'' 4 7000]\<rparr>) sample_world"

lemma ratings_agree_witness:
  "map_of (getRatingInfoBatch [''p1'', ''p2''] (w_db reviewed_world)) ''p1'' = Some (getRatingInfo ''p1'' (w_db reviewed_world)) \<and>
   (\<exists>a. getRatingInfo ''p1'' (w_db reviewed_world) = (Some a, 3) \<and> 1 \<le> a \<and> a \<le> 5)"
proof -
  have ok: "ratings_ok (reviews (w_db reviewed_world))" by (simp add: ratings_ok_def reviewed_world_def sample_review_def)
  have there: "''p1'' \<in> rv_productId ` set (reviews (w_db reviewed_world))" by (simp add: reviewed_world_def sample_review_def)
  have group: "map_of (getRatingInfoBatch [''p1'', ''p2''] (w_db reviewed_world)) ''p1'' \<noteq> None" by code_simp
  have three: "snd (getRatingInfo ''p1'' (w_db reviewed_world)) = 3" by code_simp
  have "''p1'' \<in> set [''p1'', ''p2'']" by simp
  from ratings_agree [OF this, of "w_db reviewed_world"] show ?thesis
    using ok there group three by (auto split: option.splits prod.splits)
qed

definition page_of_one :: find_reviews where
  "page_of_one = \<lparr>fr_cursor = None, fr_limit = Some 1\<rparr>"

lemma review_pages_show_everything_once_witness:
  "\<exists>pages. follow 4 (reviews_request ''p1'' page_of_one reviewed_world) None = Inr pages \<and>
     map vr_id (concat pages) = [''b'', ''c'', ''a''] \<and> (\<forall>p \<in> set pages. length p \<le> 1)"
proof -
  let ?d = "w_db reviewed_world"
  have 1: "findById_product ''p1'' ?d \<noteq> None" "distinct (map rv_id (reviews ?d))" "reviews_apart (reviews_of ''p1'' ?d)" by code_simp+
  have 2: "find_reviews_valid (\<lambda>_. True) page_of_one" "nat (reviews_limit page_of_one) = 1" by code_simp+
  have 3: "map rv_id (sort_by review_before (reviews_of ''p1'' ?d)) = [''b'', ''c'', ''a'']" by code_simp
  have 4: "Suc (length (reviews ?d)) = 4" by (simp add: reviewed_world_def)
  have 5: "vr_id (review_fromEntity ?d r) = rv_id r" for r by (simp add: review_fromEntity_def Let_def split: prod.split)
  from review_pages_show_everything_once [OF 1 2(1)] obtain pages where
    "follow 4 (reviews_request ''p1'' page_of_one reviewed_world) None = Inr pages"
    "concat pages = map (review_fromEntity ?d) (sort_by review_before (reviews_of ''p1'' ?d))" "\<forall>p \<in> set pages. length p \<le> 1"
    unfolding 4 2(2) by blast
  then show ?thesis using 3 5 by (simp add: comp_def)
qed

end
