(* ===== verification/Access.thy ===== *)
theory Access
  imports Auth_Service
begin

text \<open>
  \<^verbatim>\<open>auth/permissions\<close>, \<^verbatim>\<open>auth/guards\<close> and \<^verbatim>\<open>auth/jwt.strategy.ts\<close>: roles, scopes and the
  permission sets, and the guards a request passes before its handler runs. Reading and checking the
  bearer token is done by passport (\<open>ac_verify\<close>: the Authorization header and the clock give the
  payload, or nothing), counting requests by the throttler (\<open>ac_full\<close>: whether a tracker has
  used up the limits of a route).
\<close>

section \<open>Roles and scopes\<close>

datatype user_role = ROLE_ADMIN | ROLE_SUPPORT | ROLE_USER

fun role_str :: "user_role \<Rightarrow> string" where
  "role_str ROLE_ADMIN = ''admin''"
| "role_str ROLE_SUPPORT = ''support''"
| "role_str ROLE_USER = ''user''"

datatype user_scope =
  FILES_WRITE | ORDERS_READ | ORDERS_WRITE | PAYMENTS_READ | PAYMENTS_WRITE | PRODUCTS_IMAGES_READ
| PRODUCTS_IMAGES_WRITE | PRODUCTS_READ | PRODUCTS_WRITE | USERS_READ | USERS_WRITE

fun scope_str :: "user_scope \<Rightarrow> string" where
  "scope_str FILES_WRITE = ''files:write''"
| "scope_str ORDERS_READ = ''orders:read''"
| "scope_str ORDERS_WRITE = ''orders:write''"
| "scope_str PAYMENTS_READ = ''payments:read''"
| "scope_str PAYMENTS_WRITE = ''payments:write''"
| "scope_str PRODUCTS_IMAGES_READ = ''products:images:read''"
| "scope_str PRODUCTS_IMAGES_WRITE = ''products:images:write''"
| "scope_str PRODUCTS_READ = ''products:read''"
| "scope_str PRODUCTS_WRITE = ''products:write''"
| "scope_str USERS_READ = ''users:read''"
| "scope_str USERS_WRITE = ''users:write''"

definition all_scopes :: "user_scope list" where
  "all_scopes = [FILES_WRITE, ORDERS_READ, ORDERS_WRITE, PAYMENTS_READ, PAYMENTS_WRITE, PRODUCTS_IMAGES_READ,
     PRODUCTS_IMAGES_WRITE, PRODUCTS_READ, PRODUCTS_WRITE, USERS_READ, USERS_WRITE]"

record permission_set =
  ps_roles :: "user_role list"
  ps_scopes :: "user_scope list"

definition NewUserPermissions :: permission_set where
  "NewUserPermissions = \<lparr>ps_roles = [ROLE_USER], ps_scopes = [ORDERS_READ, ORDERS_WRITE, FILES_WRITE, PRODUCTS_READ]\<rparr>"

definition AdminPermissions :: permission_set where
  "AdminPermissions = \<lparr>ps_roles = [ROLE_ADMIN], ps_scopes = all_scopes\<rparr>"

definition SupportPermissions :: permission_set where
  "SupportPermissions = \<lparr>ps_roles = [ROLE_SUPPORT], ps_scopes = [ORDERS_READ, PAYMENTS_READ, PRODUCTS_READ, USERS_READ]\<rparr>"

text \<open>What a sign-up writes is the set of a new user.\<close>
lemma signup_permissions:
  "new_user_roles = map role_str (ps_roles NewUserPermissions)"
  "new_user_scopes = map scope_str (ps_scopes NewUserPermissions)"
  by (simp_all add: new_user_roles_def new_user_scopes_def NewUserPermissions_def)

section \<open>Routes\<close>

datatype http_method = HttpGet | HttpPost | HttpPatch | HttpPut | HttpDelete

datatype throttle = DefaultThrottle | SkipThrottle | Throttle string nat nat

text \<open>What the decorators of a handler, and of its class, say: the guards in their order, and the
  metadata; None: no such decorator on either.\<close>
datatype guard = JwtGuard | RolesGuard | ScopesGuard | EmailThrottleGuard

record route =
  ro_method :: http_method
  ro_path :: string
  ro_guards :: "guard list"
  ro_roles :: "user_role list option"
  ro_scopes :: "user_scope list option"
  ro_throttle :: throttle
  ro_status :: nat

section \<open>Guards\<close>

text \<open>What guards see of a request: the header, the address, the e-mail of the body.\<close>
record request_head =
  rh_authorization :: "string option"
  rh_ip :: "string option"
  rh_email :: "string option"

record access_env =
  ac_verify :: "string option \<Rightarrow> micros \<Rightarrow> jwt_payload option"
  ac_full :: "route \<Rightarrow> string \<Rightarrow> world \<Rightarrow> bool"

definition jwt_validate :: "jwt_payload \<Rightarrow> jwt_payload" where
  "jwt_validate p = \<lparr>jp_email = jp_email p, jp_roles = jp_roles p, jp_scopes = jp_scopes p, jp_sub = jp_sub p\<rparr>"

definition roles_canActivate :: "user_role list option \<Rightarrow> jwt_payload option \<Rightarrow> exn + unit" where
  "roles_canActivate required usr =
     (if required = None \<or> required = Some [] then Inr ()
      else case usr of
             None \<Rightarrow> Inl (undefined_read ''roles'')
           | Some p \<Rightarrow> if \<exists>r \<in> set (the required). role_str r \<in> set (jp_roles p) then Inr ()
               else Inl (http_exn Forbidden ''Insufficient role''))"

definition scopes_canActivate :: "user_scope list option \<Rightarrow> jwt_payload option \<Rightarrow> exn + unit" where
  "scopes_canActivate required usr =
     (if required = None \<or> required = Some [] then Inr ()
      else case usr of
             None \<Rightarrow> Inl (undefined_read ''scopes'')
           | Some p \<Rightarrow> if \<forall>s \<in> set (the required). scope_str s \<in> set (jp_scopes p) then Inr ()
               else Inl (http_exn Forbidden ''Insufficient scope''))"

definition too_many_requests :: exn where
  "too_many_requests = HttpExn TooManyRequests (JStr ''ThrottlerException: Too Many Requests'') ''ThrottlerException: Too Many Requests''"

text \<open>The tracker of the library is the address; an address of a proxy is resolved by Express.\<close>
definition ip_tracker :: "request_head \<Rightarrow> string" where
  "ip_tracker h = (case rh_ip h of Some i \<Rightarrow> i | None \<Rightarrow> ''undefined'')"

definition email_tracker :: "request_head \<Rightarrow> string" where
  "email_tracker h = (case rh_email h of Some e \<Rightarrow> e
     | None \<Rightarrow> (case rh_ip h of Some i \<Rightarrow> i | None \<Rightarrow> ''unknown''))"

definition run_guard :: "access_env \<Rightarrow> route \<Rightarrow> request_head \<Rightarrow> world \<Rightarrow> guard \<Rightarrow> jwt_payload option \<Rightarrow> exn + jwt_payload option" where
  "run_guard X ro h w g usr = (case g of
     JwtGuard \<Rightarrow> (case ac_verify X (rh_authorization h) (w_now w) of
        None \<Rightarrow> Inl (http_exn0 Unauthorized) | Some p \<Rightarrow> Inr (Some (jwt_validate p)))
   | RolesGuard \<Rightarrow> (case roles_canActivate (ro_roles ro) usr of Inl e \<Rightarrow> Inl e | Inr _ \<Rightarrow> Inr usr)
   | ScopesGuard \<Rightarrow> (case scopes_canActivate (ro_scopes ro) usr of Inl e \<Rightarrow> Inl e | Inr _ \<Rightarrow> Inr usr)
   | EmailThrottleGuard \<Rightarrow> if ro_throttle ro \<noteq> SkipThrottle \<and> ac_full X ro (email_tracker h) w
       then Inl too_many_requests else Inr usr)"

fun run_guards :: "access_env \<Rightarrow> route \<Rightarrow> request_head \<Rightarrow> world \<Rightarrow> guard list \<Rightarrow> jwt_payload option \<Rightarrow> exn + jwt_payload option" where
  "run_guards X ro h w [] usr = Inr usr"
| "run_guards X ro h w (g # gs) usr = (case run_guard X ro h w g usr of
     Inl e \<Rightarrow> Inl e | Inr u \<Rightarrow> run_guards X ro h w gs u)"

text \<open>The application's own guard, the throttler, comes before those of the route.\<close>
definition authorize :: "access_env \<Rightarrow> route \<Rightarrow> request_head \<Rightarrow> world \<Rightarrow> exn + jwt_payload option" where
  "authorize X ro h w =
     (if ro_throttle ro \<noteq> SkipThrottle \<and> ac_full X ro (ip_tracker h) w then Inl too_many_requests
      else run_guards X ro h w (ro_guards ro) None)"

section \<open>What passes\<close>

lemma jwt_validate_id [simp]: "jwt_validate p = p"
  by (simp add: jwt_validate_def)

definition has_role :: "user_role list option \<Rightarrow> jwt_payload \<Rightarrow> bool" where
  "has_role required p \<longleftrightarrow> (case required of None \<Rightarrow> True | Some rs \<Rightarrow> rs = [] \<or> (\<exists>r \<in> set rs. role_str r \<in> set (jp_roles p)))"

definition has_scopes :: "user_scope list option \<Rightarrow> jwt_payload \<Rightarrow> bool" where
  "has_scopes required p \<longleftrightarrow> (case required of None \<Rightarrow> True | Some ss \<Rightarrow> (\<forall>s \<in> set ss. scope_str s \<in> set (jp_scopes p)))"

lemma roles_pass: "roles_canActivate required (Some p) = Inr () \<longleftrightarrow> has_role required p"
  by (auto simp: roles_canActivate_def has_role_def split: option.splits)

lemma scopes_pass: "scopes_canActivate required (Some p) = Inr () \<longleftrightarrow> has_scopes required p"
  by (auto simp: scopes_canActivate_def has_scopes_def split: option.splits)

lemma guards_keep_user:
  "JwtGuard \<notin> set gs \<Longrightarrow> run_guards X ro h w gs usr = Inr u \<Longrightarrow> u = usr"
proof (induction gs arbitrary: usr)
  case (Cons g gs)
  then show ?case by (cases g) (auto simp: run_guard_def split: sum.splits if_splits)
qed simp

lemma guards_pass:
  assumes "JwtGuard \<notin> set gs" and "run_guards X ro h w gs (Some p) = Inr u"
  shows "u = Some p \<and> (RolesGuard \<in> set gs \<longrightarrow> has_role (ro_roles ro) p) \<and> (ScopesGuard \<in> set gs \<longrightarrow> has_scopes (ro_scopes ro) p)"
  using assms
proof (induction gs)
  case (Cons g gs)
  then show ?case using roles_pass [of "ro_roles ro" p] scopes_pass [of "ro_scopes ro" p]
    by (cases g) (auto simp: run_guard_def split: sum.splits if_splits)
qed simp

text \<open>A route behind the guards of the shop: the token verifies now, and its payload has one of the
  roles and all of the scopes the route asks for.\<close>
lemma authorize_Inr:
  assumes "ro_guards ro = JwtGuard # gs" and "JwtGuard \<notin> set gs" and "authorize X ro h w = Inr u"
  obtains p where "u = Some p" "ac_verify X (rh_authorization h) (w_now w) = Some p"
    "RolesGuard \<in> set gs \<Longrightarrow> has_role (ro_roles ro) p" "ScopesGuard \<in> set gs \<Longrightarrow> has_scopes (ro_scopes ro) p"
proof -
  obtain p where v: "ac_verify X (rh_authorization h) (w_now w) = Some p"
    and r: "run_guards X ro h w gs (Some p) = Inr u"
    using assms(1,3) by (auto simp: authorize_def run_guard_def split: if_splits option.splits)
  show thesis using that guards_pass [OF assms(2) r] v by blast
qed

text \<open>What the two libraries promise of an access token signed at \<open>t\<close> for \<open>p\<close>: behind \<^verbatim>\<open>Bearer\<close> it
  verifies for \<open>ttl\<close> seconds, by the clock in whole seconds, and then no more.\<close>
definition token_lives :: "access_env \<Rightarrow> auth_env \<Rightarrow> int \<Rightarrow> jwt_payload \<Rightarrow> micros \<Rightarrow> bool" where
  "token_lives X A ttl p t \<longleftrightarrow> (\<forall>now. ac_verify X (Some (''Bearer '' @ az_sign A p t)) now =
     (if now div 1000000 < t div 1000000 + ttl then Some p else None))"

end
