(* ===== verification/Http_Api.thy ===== *)
theory Http_Api
  imports Access Users Products_Service Cart Orders_Query
begin

text \<open>
  The controllers of the HTTP interface: the decorators of every handler as a route, and the handler
  itself as the call of its service. A request passes the guards of its route, then the pipes (the
  uuid of a path, the validated body), then the handler; an error anywhere is the answer. What Nest
  answers to a body its decorators refuse is a parameter (\<open>ap_invalid\<close>).
\<close>

section \<open>Answers\<close>

record cookie_options =
  ck_httpOnly :: bool
  ck_path :: string
  ck_sameSite :: string
  ck_secure :: bool
  ck_maxAge :: "int option"

datatype cookie_change = SetCookie string string cookie_options | ClearCookie string cookie_options

datatype body =
  NoBody
| MessageBody string
| AccessTokenBody string
| SigninBody string jwt_payload
| SignupBody string uuid string
| UserBody user_view
| UsersBody "user_view list" int "uuid option"
| OrderBody order_view
| OrdersBody "order_view list" int "string option"
| PaymentBody authorize_response
| CartBody cart_response
| ProductBody product_view
| ProductsBody "product_view list" int "string option"
| CategoriesBody "category_meta list"
| ImagesBody "image_view list"
| ReviewBody review_view
| ReviewsBody "review_view list" int "uuid option"
| FileBody file_view
| UploadBody file_upload_view
| UrlBody string

record reply =
  rp_status :: nat
  rp_body :: body
  rp_cookies :: "cookie_change list"

text \<open>What the controllers are given.\<close>
record api =
  ap_auth :: auth_env
  ap_env :: env
  ap_s3 :: s3_env
  ap_files :: s3_service
  ap_search :: search_env
  ap_access :: access_env
  ap_status :: "string fire"
  ap_isEmail :: "string \<Rightarrow> bool"
  ap_isAlpha2 :: "string \<Rightarrow> bool"
  ap_invalid :: exn
  ap_production :: bool

definition ap_isUUID :: "api \<Rightarrow> string \<Rightarrow> bool" where
  "ap_isUUID P = az_isUUID (ap_auth P)"

section \<open>Cookies\<close>

definition REFRESH_COOKIE_NAME :: string where "REFRESH_COOKIE_NAME = ''refreshToken''"
definition AUTH_PATH :: string where "AUTH_PATH = ''/api/v1/auth''"

definition BASE_COOKIE_OPTIONS :: "bool \<Rightarrow> cookie_options" where
  "BASE_COOKIE_OPTIONS production =
     \<lparr>ck_httpOnly = True, ck_path = AUTH_PATH, ck_sameSite = ''strict'', ck_secure = production, ck_maxAge = None\<rparr>"

definition buildRefreshCookieOptions :: "bool \<Rightarrow> int \<Rightarrow> cookie_options" where
  "buildRefreshCookieOptions production maxAge = (BASE_COOKIE_OPTIONS production)\<lparr>ck_maxAge := Some maxAge\<rparr>"

definition REFRESH_COOKIE_CLEAR_OPTIONS :: "bool \<Rightarrow> cookie_options" where
  "REFRESH_COOKIE_CLEAR_OPTIONS production = BASE_COOKIE_OPTIONS production"

definition refresh_cookie :: "api \<Rightarrow> string \<Rightarrow> cookie_change" where
  "refresh_cookie P v = SetCookie REFRESH_COOKIE_NAME v (buildRefreshCookieOptions (ap_production P) (az_refresh_ttl_ms (ap_auth P)))"

section \<open>Pipes\<close>

definition parse_uuid :: "api \<Rightarrow> string \<Rightarrow> unit act" where
  "parse_uuid P s = (if ap_isUUID P s then return_s () else throw_s (http_exn BadRequest ''Validation failed (uuid is expected)''))"

definition validated :: "api \<Rightarrow> bool \<Rightarrow> unit act" where
  "validated P b = (if b then return_s () else throw_s (ap_invalid P))"

definition replying :: "'a act \<Rightarrow> ('a \<Rightarrow> body) \<Rightarrow> (body \<times> cookie_change list) act" where
  "replying m f = bind_s m (\<lambda>x. return_s (f x, []))"

definition open_route :: "http_method \<Rightarrow> string \<Rightarrow> throttle \<Rightarrow> nat \<Rightarrow> route" where
  "open_route m path t st = \<lparr>ro_method = m, ro_path = path, ro_guards = [], ro_roles = None, ro_scopes = None,
     ro_throttle = t, ro_status = st\<rparr>"

definition user_route :: "http_method \<Rightarrow> string \<Rightarrow> throttle \<Rightarrow> nat \<Rightarrow> route" where
  "user_route m path t st = (open_route m path t st)\<lparr>ro_guards := [JwtGuard]\<rparr>"

definition scoped_route :: "http_method \<Rightarrow> string \<Rightarrow> user_scope \<Rightarrow> throttle \<Rightarrow> nat \<Rightarrow> route" where
  "scoped_route m path s t st = (open_route m path t st)\<lparr>ro_guards := [JwtGuard, ScopesGuard], ro_scopes := Some [s]\<rparr>"

definition staff_route :: "http_method \<Rightarrow> string \<Rightarrow> user_role list \<Rightarrow> user_scope \<Rightarrow> throttle \<Rightarrow> nat \<Rightarrow> route" where
  "staff_route m path rs s t st = (open_route m path t st)
     \<lparr>ro_guards := [JwtGuard, RolesGuard, ScopesGuard], ro_roles := Some rs, ro_scopes := Some [s]\<rparr>"

section \<open>Authentication\<close>

datatype auth_request =
  ForgotPassword string
| Logout "string option"
| Refresh "string option"
| ResendVerification
| ResetPassword reset_password_dto
| Signin string string
| Signup signup_dto
| VerifyEmail string

fun auth_route :: "auth_request \<Rightarrow> route" where
  "auth_route (ForgotPassword _) = (open_route HttpPost ''auth/forgot-password'' (Throttle ''long'' 3 3600000) 200)
     \<lparr>ro_guards := [EmailThrottleGuard]\<rparr>"
| "auth_route (Logout _) = user_route HttpPost ''auth/logout'' SkipThrottle 204"
| "auth_route (Refresh _) = open_route HttpPost ''auth/refresh'' (Throttle ''medium'' 10 60000) 200"
| "auth_route ResendVerification = user_route HttpPost ''auth/resend-verification'' (Throttle ''medium'' 1 60000) 200"
| "auth_route (ResetPassword _) = open_route HttpPost ''auth/reset-password'' (Throttle ''medium'' 5 60000) 200"
| "auth_route (Signin _ _) = open_route HttpPost ''auth/signin'' (Throttle ''medium'' 5 60000) 200"
| "auth_route (Signup _) = open_route HttpPost ''auth/signup'' (Throttle ''medium'' 10 60000) 201"
| "auth_route (VerifyEmail _) = open_route HttpPost ''auth/verify-email'' SkipThrottle 200"

text \<open>The handlers behind \<open>JwtGuard\<close> get the user of the token.\<close>
fun auth_handler :: "api \<Rightarrow> audit_context option \<Rightarrow> auth_request \<Rightarrow> jwt_payload option \<Rightarrow> (body \<times> cookie_change list) act" where
  "auth_handler P ctx (ForgotPassword email) usr =
     bind_s (validated P (ap_isEmail P email)) (\<lambda>_.
     replying (forgotPassword (ap_auth P) (ap_env P) email ctx) MessageBody)"
| "auth_handler P ctx (Logout cookie) usr =
     (let clear = [ClearCookie REFRESH_COOKIE_NAME (REFRESH_COOKIE_CLEAR_OPTIONS (ap_production P))] in
      case truthy cookie of
        None \<Rightarrow> return_s (NoBody, clear)
      | Some c \<Rightarrow> bind_s (logout (ap_auth P) (ap_env P) c (map_option jp_sub usr) ctx) (\<lambda>_. return_s (NoBody, clear)))"
| "auth_handler P ctx (Refresh cookie) usr =
     bind_s (refresh (ap_auth P) (ap_env P) cookie) (\<lambda>(accessToken, newCookieValue).
     return_s (AccessTokenBody accessToken, [refresh_cookie P newCookieValue]))"
| "auth_handler P ctx ResendVerification usr = (case usr of
     None \<Rightarrow> throw_s (undefined_read ''sub'')
   | Some p \<Rightarrow> replying (resendVerification (ap_auth P) (ap_env P) (jp_sub p)) (\<lambda>_. MessageBody ''Verification email sent''))"
| "auth_handler P ctx (ResetPassword dto) usr =
     bind_s (validated P (8 \<le> length (rp_confirmedPassword dto) \<and> 8 \<le> length (rp_newPassword dto) \<and> rp_token dto \<noteq> [])) (\<lambda>_.
     replying (resetPassword (ap_auth P) (ap_env P) dto ctx) (\<lambda>_. MessageBody ''Password reset successfully''))"
| "auth_handler P ctx (Signin email password) usr =
     bind_s (validated P (ap_isEmail P email \<and> 8 \<le> length password)) (\<lambda>_.
     bind_s (signin (ap_auth P) (ap_env P) email password ctx) (\<lambda>r.
     return_s (SigninBody (ar_accessToken r) (ar_user r), [refresh_cookie P (ar_cookieValue r)])))"
| "auth_handler P ctx (Signup dto) usr =
     bind_s (validated P (8 \<le> length (su_confirmedPassword dto) \<and> ap_isEmail P (su_email dto) \<and> 8 \<le> length (su_password dto))) (\<lambda>_.
     replying (signup (ap_auth P) (ap_env P) dto ctx)
       (\<lambda>(email, i). SignupBody email i ''User successfully registered. Please sign in to continue.''))"
| "auth_handler P ctx (VerifyEmail token) usr =
     bind_s (validated P (token \<noteq> [])) (\<lambda>_.
     replying (verifyEmail (ap_auth P) (ap_env P) token) (\<lambda>_. MessageBody ''Email successfully verified''))"

section \<open>The own account\<close>

datatype users_request =
  ChangePassword change_password_dto
| GetMe
| RemoveAvatar
| SetAvatar uuid
| UpdateMe update_profile_dto

fun users_route :: "users_request \<Rightarrow> route" where
  "users_route (ChangePassword _) = user_route HttpPatch ''users/me/password'' DefaultThrottle 204"
| "users_route GetMe = user_route HttpGet ''users/me'' DefaultThrottle 200"
| "users_route RemoveAvatar = user_route HttpDelete ''users/me/avatar'' DefaultThrottle 204"
| "users_route (SetAvatar _) = user_route HttpPut ''users/me/avatar'' DefaultThrottle 200"
| "users_route (UpdateMe _) = user_route HttpPatch ''users/me'' DefaultThrottle 200"

fun users_handler :: "api \<Rightarrow> users_request \<Rightarrow> jwt_payload \<Rightarrow> (body \<times> cookie_change list) act" where
  "users_handler P (ChangePassword dto) p =
     bind_s (validated P (change_password_dto_valid dto)) (\<lambda>_.
     replying (changePassword (ap_auth P) (ap_env P) (jp_sub p) dto) (\<lambda>_. NoBody))"
| "users_handler P GetMe p = replying (getProfile (ap_s3 P) (ap_files P) (jp_sub p)) UserBody"
| "users_handler P RemoveAvatar p = replying (removeAvatar (jp_sub p)) (\<lambda>_. NoBody)"
| "users_handler P (SetAvatar fileId) p =
     bind_s (validated P (ap_isUUID P fileId)) (\<lambda>_.
     replying (setAvatar (ap_s3 P) (ap_files P) (ap_env P) (jp_sub p) fileId) UserBody)"
| "users_handler P (UpdateMe dto) p =
     bind_s (validated P (update_profile_dto_valid (ap_isAlpha2 P) dto)) (\<lambda>_.
     replying (updateProfile (ap_s3 P) (ap_files P) (ap_env P) (jp_sub p) dto) UserBody)"

section \<open>Users, for administrators\<close>

datatype admin_users_request =
  DeleteUser uuid
| GetUserById uuid
| GetUsers find_users
| UpdateRoles uuid "user_role list"
| UpdateScopes uuid "user_scope list"

fun admin_users_route :: "admin_users_request \<Rightarrow> route" where
  "admin_users_route (DeleteUser _) = staff_route HttpDelete ''admin/users/:id'' [ROLE_ADMIN] USERS_WRITE DefaultThrottle 204"
| "admin_users_route (GetUserById _) = staff_route HttpGet ''admin/users/:id'' [ROLE_ADMIN] USERS_READ DefaultThrottle 200"
| "admin_users_route (GetUsers _) = staff_route HttpGet ''admin/users'' [ROLE_ADMIN] USERS_READ DefaultThrottle 200"
| "admin_users_route (UpdateRoles _ _) = staff_route HttpPatch ''admin/users/:id/roles'' [ROLE_ADMIN] USERS_WRITE DefaultThrottle 200"
| "admin_users_route (UpdateScopes _ _) = staff_route HttpPatch ''admin/users/:id/scopes'' [ROLE_ADMIN] USERS_WRITE DefaultThrottle 200"

fun admin_users_handler ::
  "api \<Rightarrow> audit_context option \<Rightarrow> admin_users_request \<Rightarrow> jwt_payload \<Rightarrow> (body \<times> cookie_change list) act" where
  "admin_users_handler P ctx (DeleteUser i) p =
     bind_s (parse_uuid P i) (\<lambda>_. replying (remove_user (ap_env P) i (Some p) ctx) (\<lambda>_. NoBody))"
| "admin_users_handler P ctx (GetUserById i) p =
     bind_s (parse_uuid P i) (\<lambda>_. replying (findById (ap_s3 P) (ap_files P) i) UserBody)"
| "admin_users_handler P ctx (GetUsers q) p =
     bind_s (validated P (find_users_valid (ap_isUUID P) q)) (\<lambda>_.
     replying (read_s (\<lambda>w. findAll_users q (w_db w))) (\<lambda>(page, limit, nextCursor). UsersBody page limit nextCursor))"
| "admin_users_handler P ctx (UpdateRoles i rs) p =
     bind_s (parse_uuid P i) (\<lambda>_.
     replying (updateRoles (ap_env P) i (map role_str rs) (Some p) ctx) MessageBody)"
| "admin_users_handler P ctx (UpdateScopes i ss) p =
     bind_s (parse_uuid P i) (\<lambda>_.
     replying (updateScopes (ap_env P) i (map scope_str ss) (Some p) ctx) MessageBody)"

section \<open>Orders\<close>

datatype orders_request =
  CancelOrder uuid
| CreateOrder create_order_dto
| GetOrderById uuid
| GetOrderPayment uuid
| GetOrders find_orders_filter

fun orders_route :: "orders_request \<Rightarrow> route" where
  "orders_route (CancelOrder _) = scoped_route HttpPost ''orders/:orderId/cancellation'' ORDERS_WRITE (Throttle ''medium'' 5 60000) 200"
| "orders_route (CreateOrder _) = scoped_route HttpPost ''orders'' ORDERS_WRITE (Throttle ''medium'' 5 60000) 201"
| "orders_route (GetOrderById _) = scoped_route HttpGet ''orders/:orderId'' ORDERS_READ DefaultThrottle 200"
| "orders_route (GetOrderPayment _) = scoped_route HttpGet ''orders/:orderId/payment'' ORDERS_READ DefaultThrottle 200"
| "orders_route (GetOrders _) = scoped_route HttpGet ''orders'' ORDERS_READ DefaultThrottle 200"

fun orders_handler ::
  "api \<Rightarrow> audit_context option \<Rightarrow> orders_request \<Rightarrow> jwt_payload \<Rightarrow> (body \<times> cookie_change list) act" where
  "orders_handler P ctx (CancelOrder i) p =
     bind_s (parse_uuid P i) (\<lambda>_.
     replying (cancelOrder (ap_env P) \<lparr>au_sub = jp_sub p, au_email = jp_email p\<rparr> i ctx) OrderBody)"
| "orders_handler P ctx (CreateOrder dto) p =
     bind_s (validated P (create_order_dto_valid (ap_isUUID P) (ap_isAlpha2 P) dto)) (\<lambda>_.
     replying (createOrder (ap_env P) (jp_sub p) dto ctx) OrderBody)"
| "orders_handler P ctx (GetOrderById i) p =
     bind_s (parse_uuid P i) (\<lambda>_. replying (read_s (\<lambda>w. getOrderById (jp_sub p) i (w_db w))) OrderBody)"
| "orders_handler P ctx (GetOrderPayment i) p =
     bind_s (parse_uuid P i) (\<lambda>_. replying (getOrderPayment (ap_env P) (ap_status P) (jp_sub p) i) PaymentBody)"
| "orders_handler P ctx (GetOrders f) p =
     bind_s (validated P (filter_valid f)) (\<lambda>_.
     replying (read_s (\<lambda>w. findOrdersWithFilters (ap_isUUID P) (jp_sub p) f (w_db w)))
       (\<lambda>(page, nextCursor). OrdersBody page (case ff_limit f of None \<Rightarrow> 10 | Some l \<Rightarrow> l) nextCursor))"

section \<open>The cart\<close>

datatype cart_request =
  AddItem uuid int
| Checkout "string option" "shipping_address option"
| ClearCart
| GetCart
| RemoveItem uuid
| UpdateItem uuid int

fun cart_route :: "cart_request \<Rightarrow> route" where
  "cart_route (AddItem _ _) = scoped_route HttpPost ''cart/items'' ORDERS_WRITE DefaultThrottle 201"
| "cart_route (Checkout _ _) = scoped_route HttpPost ''cart/checkout'' ORDERS_WRITE DefaultThrottle 201"
| "cart_route ClearCart = scoped_route HttpDelete ''cart'' ORDERS_WRITE DefaultThrottle 204"
| "cart_route GetCart = scoped_route HttpGet ''cart'' ORDERS_READ DefaultThrottle 200"
| "cart_route (RemoveItem _) = scoped_route HttpDelete ''cart/items/:itemId'' ORDERS_WRITE DefaultThrottle 200"
| "cart_route (UpdateItem _ _) = scoped_route HttpPatch ''cart/items/:itemId'' ORDERS_WRITE DefaultThrottle 200"

text \<open>The shipping address of a checkout has the decorators of the one of an order.\<close>
fun cart_handler ::
  "api \<Rightarrow> audit_context option \<Rightarrow> cart_request \<Rightarrow> jwt_payload \<Rightarrow> (body \<times> cookie_change list) act" where
  "cart_handler P ctx (AddItem productId q) p =
     bind_s (validated P (ap_isUUID P productId \<and> 1 \<le> q)) (\<lambda>_.
     replying (addItem (ap_env P) (jp_sub p) productId q) CartBody)"
| "cart_handler P ctx (Checkout key shipping) p =
     bind_s (validated P (key \<noteq> Some [] \<and> create_order_dto_valid (\<lambda>_. True) (ap_isAlpha2 P)
        \<lparr>co_idempotencyKey = key, co_items = [\<lparr>si_productId = ''p'', si_quantity = 1\<rparr>], co_shipping = shipping\<rparr>)) (\<lambda>_.
     replying (checkout (ap_env P) (jp_sub p) key shipping ctx) OrderBody)"
| "cart_handler P ctx ClearCart p = replying (clearCart (ap_env P) (jp_sub p)) (\<lambda>_. NoBody)"
| "cart_handler P ctx GetCart p = replying (getCart (ap_env P) (jp_sub p)) CartBody"
| "cart_handler P ctx (RemoveItem i) p =
     bind_s (parse_uuid P i) (\<lambda>_. replying (removeItem (ap_env P) (jp_sub p) i) CartBody)"
| "cart_handler P ctx (UpdateItem i q) p =
     bind_s (parse_uuid P i) (\<lambda>_.
     bind_s (validated P (1 \<le> q)) (\<lambda>_. replying (updateItem (ap_env P) (jp_sub p) i q) CartBody))"

section \<open>Products and reviews\<close>

datatype products_request = ListProducts find_products | ListCategories | GetProduct uuid

fun products_route :: "products_request \<Rightarrow> route" where
  "products_route (ListProducts _) = open_route HttpGet ''products'' DefaultThrottle 200"
| "products_route ListCategories = open_route HttpGet ''products/categories'' DefaultThrottle 200"
| "products_route (GetProduct _) = open_route HttpGet ''products/:id'' DefaultThrottle 200"

fun products_handler :: "api \<Rightarrow> products_request \<Rightarrow> (body \<times> cookie_change list) act" where
  "products_handler P (ListProducts q) =
     bind_s (validated P (find_products_valid q)) (\<lambda>_.
     replying (read_s (\<lambda>w. findAll (ap_search P) q (w_db w))) (\<lambda>(page, limit, nextCursor). ProductsBody page limit nextCursor))"
| "products_handler P ListCategories = return_s (CategoriesBody getCategories, [])"
| "products_handler P (GetProduct i) =
     bind_s (parse_uuid P i) (\<lambda>_. replying (product_findById (ap_s3 P) (ap_files P) i) ProductBody)"

datatype reviews_request =
  CreateReview uuid create_review_dto
| DeleteReview uuid
| ListReviews uuid find_reviews
| UpdateReview uuid update_review_dto

fun reviews_route :: "reviews_request \<Rightarrow> route" where
  "reviews_route (CreateReview _ _) = user_route HttpPost ''products/:id/reviews'' (Throttle ''medium'' 5 60000) 201"
| "reviews_route (DeleteReview _) = user_route HttpDelete ''products/:id/reviews'' DefaultThrottle 204"
| "reviews_route (ListReviews _ _) = open_route HttpGet ''products/:id/reviews'' DefaultThrottle 200"
| "reviews_route (UpdateReview _ _) = user_route HttpPatch ''products/:id/reviews'' DefaultThrottle 200"

fun reviews_handler :: "api \<Rightarrow> reviews_request \<Rightarrow> jwt_payload option \<Rightarrow> (body \<times> cookie_change list) act" where
  "reviews_handler P (CreateReview i dto) usr =
     bind_s (parse_uuid P i) (\<lambda>_. bind_s (validated P (create_review_dto_valid dto)) (\<lambda>_.
     case usr of None \<Rightarrow> throw_s (undefined_read ''sub'')
     | Some p \<Rightarrow> replying (createReview (ap_env P) (jp_sub p) i dto) ReviewBody))"
| "reviews_handler P (DeleteReview i) usr =
     bind_s (parse_uuid P i) (\<lambda>_.
     case usr of None \<Rightarrow> throw_s (undefined_read ''sub'')
     | Some p \<Rightarrow> replying (deleteReview (ap_env P) (jp_sub p) i) (\<lambda>_. NoBody))"
| "reviews_handler P (ListReviews i q) usr =
     bind_s (parse_uuid P i) (\<lambda>_. bind_s (validated P (find_reviews_valid (ap_isUUID P) q)) (\<lambda>_.
     replying (read_s (getReviews i q)) (\<lambda>(page, limit, nextCursor). ReviewsBody page limit nextCursor)))"
| "reviews_handler P (UpdateReview i dto) usr =
     bind_s (parse_uuid P i) (\<lambda>_. bind_s (validated P (update_review_dto_valid dto)) (\<lambda>_.
     case usr of None \<Rightarrow> throw_s (undefined_read ''sub'')
     | Some p \<Rightarrow> replying (updateReview (ap_env P) (jp_sub p) i dto) ReviewBody))"

section \<open>Products, for administrators\<close>

datatype admin_products_request =
  AddImage uuid uuid
| CreateProduct create_product_dto
| ListImages uuid
| RemoveProduct uuid
| RemoveImage uuid uuid
| SetMainImage uuid uuid
| UpdateProduct uuid update_product_dto

fun admin_products_route :: "admin_products_request \<Rightarrow> route" where
  "admin_products_route (AddImage _ _) = staff_route HttpPost ''admin/products/:id/images/:fileId'' [ROLE_ADMIN] PRODUCTS_IMAGES_WRITE DefaultThrottle 204"
| "admin_products_route (CreateProduct _) = staff_route HttpPost ''admin/products'' [ROLE_ADMIN] PRODUCTS_WRITE DefaultThrottle 201"
| "admin_products_route (ListImages _) = staff_route HttpGet ''admin/products/:id/images'' [ROLE_ADMIN] PRODUCTS_IMAGES_READ DefaultThrottle 200"
| "admin_products_route (RemoveProduct _) = staff_route HttpDelete ''admin/products/:id'' [ROLE_ADMIN] PRODUCTS_WRITE DefaultThrottle 204"
| "admin_products_route (RemoveImage _ _) = staff_route HttpDelete ''admin/products/:id/images/:fileId'' [ROLE_ADMIN] PRODUCTS_IMAGES_WRITE DefaultThrottle 204"
| "admin_products_route (SetMainImage _ _) = staff_route HttpPatch ''admin/products/:id/images/:fileId/main'' [ROLE_ADMIN] PRODUCTS_WRITE DefaultThrottle 200"
| "admin_products_route (UpdateProduct _ _) = staff_route HttpPatch ''admin/products/:id'' [ROLE_ADMIN] PRODUCTS_WRITE DefaultThrottle 200"

fun admin_products_handler :: "api \<Rightarrow> admin_products_request \<Rightarrow> (body \<times> cookie_change list) act" where
  "admin_products_handler P (AddImage i f) =
     bind_s (parse_uuid P i) (\<lambda>_. bind_s (parse_uuid P f) (\<lambda>_. replying (addImage (ap_env P) i f) (\<lambda>_. NoBody)))"
| "admin_products_handler P (CreateProduct dto) =
     bind_s (validated P (create_product_dto_valid (ap_isAlpha2 P) dto)) (\<lambda>_.
     replying (create_product (ap_env P) dto) ProductBody)"
| "admin_products_handler P (ListImages i) =
     bind_s (parse_uuid P i) (\<lambda>_. replying (listImages (ap_s3 P) (ap_files P) i) ImagesBody)"
| "admin_products_handler P (RemoveProduct i) =
     bind_s (parse_uuid P i) (\<lambda>_. replying (remove_product (ap_env P) i) (\<lambda>_. NoBody))"
| "admin_products_handler P (RemoveImage i f) =
     bind_s (parse_uuid P i) (\<lambda>_. bind_s (parse_uuid P f) (\<lambda>_. replying (removeImage (ap_env P) i f) (\<lambda>_. NoBody)))"
| "admin_products_handler P (SetMainImage i f) =
     bind_s (parse_uuid P i) (\<lambda>_. bind_s (parse_uuid P f) (\<lambda>_.
     replying (setMainImage (ap_s3 P) (ap_files P) (ap_env P) i f) ProductBody))"
| "admin_products_handler P (UpdateProduct i dto) =
     bind_s (parse_uuid P i) (\<lambda>_. bind_s (validated P (update_product_dto_valid (ap_isAlpha2 P) dto)) (\<lambda>_.
     replying (update_product (ap_s3 P) (ap_files P) (ap_env P) i dto) ProductBody))"

section \<open>Files\<close>

datatype files_request =
  CompleteUpload uuid
| CreatePresignedUpload presigned_upload_dto
| GetFileById uuid
| GetFileUrl uuid

fun files_route :: "files_request \<Rightarrow> route" where
  "files_route (CompleteUpload _) = staff_route HttpPost ''files/complete-upload'' [ROLE_ADMIN, ROLE_SUPPORT] PRODUCTS_IMAGES_WRITE DefaultThrottle 201"
| "files_route (CreatePresignedUpload _) = staff_route HttpPost ''files/presigned-upload'' [ROLE_ADMIN, ROLE_SUPPORT] PRODUCTS_IMAGES_WRITE (Throttle ''medium'' 10 60000) 201"
| "files_route (GetFileById _) = staff_route HttpGet ''files/:fileId'' [ROLE_ADMIN, ROLE_SUPPORT] PRODUCTS_IMAGES_READ DefaultThrottle 200"
| "files_route (GetFileUrl _) = staff_route HttpGet ''files/:fileId/url'' [ROLE_ADMIN, ROLE_SUPPORT] PRODUCTS_IMAGES_READ DefaultThrottle 200"

fun files_handler :: "api \<Rightarrow> files_request \<Rightarrow> jwt_payload \<Rightarrow> (body \<times> cookie_change list) act" where
  "files_handler P (CompleteUpload f) p =
     bind_s (validated P (ap_isUUID P f)) (\<lambda>_.
     replying (completeUpload (ap_s3 P) (ap_files P) (ap_env P) (jp_sub p) f) FileBody)"
| "files_handler P (CreatePresignedUpload dto) p =
     bind_s (validated P (presigned_upload_dto_valid (ap_isUUID P) dto)) (\<lambda>_.
     replying (createPresignedUpload (ap_s3 P) (ap_files P) (ap_env P) (jp_sub p) dto) UploadBody)"
| "files_handler P (GetFileById f) p =
     bind_s (parse_uuid P f) (\<lambda>_. replying (getFileById (ap_s3 P) (ap_files P) (jp_sub p) f) FileBody)"
| "files_handler P (GetFileUrl f) p =
     bind_s (parse_uuid P f) (\<lambda>_. replying (getFileUrl (ap_s3 P) (ap_files P) (jp_sub p) f) UrlBody)"

section \<open>A request\<close>

datatype request =
  AuthRequest auth_request
| UsersRequest users_request
| AdminUsersRequest admin_users_request
| OrdersRequest orders_request
| CartRequest cart_request
| ProductsRequest products_request
| ReviewsRequest reviews_request
| AdminProductsRequest admin_products_request
| FilesRequest files_request

fun route_of :: "request \<Rightarrow> route" where
  "route_of (AuthRequest r) = auth_route r"
| "route_of (UsersRequest r) = users_route r"
| "route_of (AdminUsersRequest r) = admin_users_route r"
| "route_of (OrdersRequest r) = orders_route r"
| "route_of (CartRequest r) = cart_route r"
| "route_of (ProductsRequest r) = products_route r"
| "route_of (ReviewsRequest r) = reviews_route r"
| "route_of (AdminProductsRequest r) = admin_products_route r"
| "route_of (FilesRequest r) = files_route r"

text \<open>\<^verbatim>\<open>@CurrentUser()\<close> in a handler behind \<open>JwtGuard\<close>.\<close>
definition with_user :: "(jwt_payload \<Rightarrow> 'a act) \<Rightarrow> jwt_payload option \<Rightarrow> 'a act" where
  "with_user k usr = (case usr of None \<Rightarrow> throw_s (undefined_read ''sub'') | Some p \<Rightarrow> k p)"

fun handler_of :: "api \<Rightarrow> audit_context option \<Rightarrow> request \<Rightarrow> jwt_payload option \<Rightarrow> (body \<times> cookie_change list) act" where
  "handler_of P ctx (AuthRequest r) usr = auth_handler P ctx r usr"
| "handler_of P ctx (UsersRequest r) usr = with_user (users_handler P r) usr"
| "handler_of P ctx (AdminUsersRequest r) usr = with_user (admin_users_handler P ctx r) usr"
| "handler_of P ctx (OrdersRequest r) usr = with_user (orders_handler P ctx r) usr"
| "handler_of P ctx (CartRequest r) usr = with_user (cart_handler P ctx r) usr"
| "handler_of P ctx (ProductsRequest r) usr = products_handler P r"
| "handler_of P ctx (ReviewsRequest r) usr = reviews_handler P r usr"
| "handler_of P ctx (AdminProductsRequest r) usr = admin_products_handler P r"
| "handler_of P ctx (FilesRequest r) usr = with_user (files_handler P r) usr"

definition serve :: "api \<Rightarrow> request_head \<Rightarrow> audit_context option \<Rightarrow> request \<Rightarrow> reply act" where
  "serve P h ctx r =
     bind_s (read_s (authorize (ap_access P) (route_of r) h)) (\<lambda>usr.
     bind_s (handler_of P ctx r usr) (\<lambda>(b, cookies).
     return_s \<lparr>rp_status = ro_status (route_of r), rp_body = b, rp_cookies = cookies\<rparr>))"

end
