(* ===== verification/Http_Theorems.thy ===== *)
theory Http_Theorems
  imports Http_Api Shop_System Reads Files_Theorems
begin

text \<open>
  The HTTP interface against the rest: every request the interface serves is at most one step of
  the system, and which requests a token lets through.
\<close>

section \<open>A request is at most one step\<close>

definition one_step :: "auth_env \<Rightarrow> env \<Rightarrow> authorize_request fire \<Rightarrow> 'a act \<Rightarrow> bool" where
  "one_step A E pay m \<longleftrightarrow> (\<forall>w. snd (m w) = w \<or> system_step A E pay w (snd (m w)))"

lemma shop_one_step: "(\<And>w r w'. m w = (r, w') \<Longrightarrow> shop_step A E pay w w') \<Longrightarrow> one_step A E pay m"
  unfolding one_step_def system_step_def by (metis surjective_pairing)

lemma catalogue_one_step: "(\<And>w r w'. m w = (r, w') \<Longrightarrow> catalogue_step E w w') \<Longrightarrow> one_step A E pay m"
  unfolding one_step_def system_step_def by (metis surjective_pairing)

lemma still_one_step: "still m \<Longrightarrow> one_step A E pay m"
  by (simp add: still_def one_step_def)

lemma still_pipes: "still (validated P b)" "still (parse_uuid P s)"
  by (simp_all add: still_def validated_def parse_uuid_def)

lemma step_check: "still c \<Longrightarrow> (\<And>x. one_step A E pay (k x)) \<Longrightarrow> one_step A E pay (bind_s c k)"
  unfolding one_step_def bind_s_def still_def
  by (auto split: prod.split sum.split) (metis snd_conv)+

lemma step_then: "one_step A E pay m \<Longrightarrow> (\<And>x. still (k x)) \<Longrightarrow> one_step A E pay (bind_s m k)"
  unfolding one_step_def bind_s_def still_def
  by (auto split: prod.split sum.split) (metis snd_conv)+

lemma step_option: "one_step A E pay n \<Longrightarrow> (\<And>x. one_step A E pay (s x)) \<Longrightarrow> one_step A E pay (case v of None \<Rightarrow> n | Some x \<Rightarrow> s x)"
  by (auto split: option.split)

lemma replying_step: "one_step A E pay m \<Longrightarrow> one_step A E pay (replying m f)"
  unfolding replying_def by (rule step_then) (auto intro: still_rules)

lemma service_steps:
  "one_step A E pay (createOrder E userId dto ctx)" "one_step A E pay (cancelOrder E usr orderId ctx)"
  "one_step A E pay (getOrderPayment E fire userId orderId)"
  "one_step A E pay (getCart E userId)" "one_step A E pay (addItem E userId productId q)"
  "one_step A E pay (updateItem E userId itemId q)" "one_step A E pay (removeItem E userId itemId)"
  "one_step A E pay (clearCart E userId)" "one_step A E pay (checkout E userId key shipping ctx)"
  "one_step A E pay (signup A E sdto ctx)" "one_step A E pay (signin A E email password ctx)" "one_step A E pay (refresh A E cookie)"
  "one_step A E pay (logout A E c actor ctx)" "one_step A E pay (resendVerification A E userId)"
  "one_step A E pay (verifyEmail A E token)" "one_step A E pay (forgotPassword A E email ctx)"
  "one_step A E pay (resetPassword A E rdto ctx)"
  "one_step A E pay (createPresignedUpload S sv E userId udto)" "one_step A E pay (completeUpload S sv E userId fileId)"
  "one_step A E pay (changePassword A E userId pdto)" "one_step A E pay (updateProfile S sv E userId prdto)"
  "one_step A E pay (setAvatar S sv E userId fileId)" "one_step A E pay (removeAvatar userId)"
  "one_step A E pay (remove_user E userId adm ctx)" "one_step A E pay (updateRoles E userId rs adm ctx)"
  "one_step A E pay (updateScopes E userId ss adm ctx)"
  "one_step A E pay (createReview E userId productId crdto)" "one_step A E pay (deleteReview E userId productId)"
  "one_step A E pay (updateReview E userId productId urdto)"
  by (rule shop_one_step, erule shop_step.intros)+

lemma catalogue_steps:
  "one_step A E pay (create_product E cdto)" "one_step A E pay (update_product S sv E productId dto)"
  "one_step A E pay (remove_product E productId)" "one_step A E pay (addImage E productId fileId)"
  "one_step A E pay (removeImage E productId fileId)" "one_step A E pay (setMainImage S sv E productId fileId)"
  by (rule catalogue_one_step, erule catalogue_step.intros)+

lemmas step_rules = step_check step_option replying_step service_steps catalogue_steps
  still_reads [THEN still_one_step] still_basics [THEN still_one_step] still_basics still_pipes

lemma handler_steps:
  "one_step (ap_auth P) (ap_env P) pay (auth_handler P ctx r1 usr)"
  "one_step (ap_auth P) (ap_env P) pay (users_handler P r2 p)"
  "one_step (ap_auth P) (ap_env P) pay (admin_users_handler P ctx r3 p)"
  "one_step (ap_auth P) (ap_env P) pay (orders_handler P ctx r4 p)"
  "one_step (ap_auth P) (ap_env P) pay (cart_handler P ctx r5 p)"
  "one_step (ap_auth P) (ap_env P) pay (products_handler P r6)"
  "one_step (ap_auth P) (ap_env P) pay (reviews_handler P r7 usr)"
  "one_step (ap_auth P) (ap_env P) pay (admin_products_handler P r8)"
  "one_step (ap_auth P) (ap_env P) pay (files_handler P r9 p)"
proof -
  note then_reply = step_then [OF service_steps(11)] step_then [OF service_steps(12)] step_then [OF service_steps(13)]
  show "one_step (ap_auth P) (ap_env P) pay (auth_handler P ctx r1 usr)"
    by (cases r1) (simp_all only: auth_handler.simps Let_def, (intro step_rules then_reply still_pair | rule still_rules)+)
  show "one_step (ap_auth P) (ap_env P) pay (users_handler P r2 p)"
    by (cases r2) (simp_all only: users_handler.simps, (intro step_rules)+)
  show "one_step (ap_auth P) (ap_env P) pay (admin_users_handler P ctx r3 p)"
    by (cases r3) (simp_all only: admin_users_handler.simps, (intro step_rules)+)
  show "one_step (ap_auth P) (ap_env P) pay (orders_handler P ctx r4 p)"
    by (cases r4) (simp_all only: orders_handler.simps, (intro step_rules)+)
  show "one_step (ap_auth P) (ap_env P) pay (cart_handler P ctx r5 p)"
    by (cases r5) (simp_all only: cart_handler.simps, (intro step_rules)+)
  show "one_step (ap_auth P) (ap_env P) pay (products_handler P r6)"
    by (cases r6) (simp_all only: products_handler.simps, (intro step_rules)+)
  show "one_step (ap_auth P) (ap_env P) pay (reviews_handler P r7 usr)"
    by (cases r7) (simp_all only: reviews_handler.simps, (intro step_rules)+)
  show "one_step (ap_auth P) (ap_env P) pay (admin_products_handler P r8)"
    by (cases r8) (simp_all only: admin_products_handler.simps, (intro step_rules)+)
  show "one_step (ap_auth P) (ap_env P) pay (files_handler P r9 p)"
    by (cases r9) (simp_all only: files_handler.simps, (intro step_rules)+)
qed

lemma still_with_user: "(\<And>p. one_step A E pay (k p)) \<Longrightarrow> one_step A E pay (with_user k usr)"
  by (cases usr) (simp_all add: with_user_def one_step_def)

lemma handler_of_step: "one_step (ap_auth P) (ap_env P) pay (handler_of P ctx r usr)"
  by (cases r) (simp_all add: handler_steps still_with_user)

section \<open>Who gets through\<close>

definition carries :: "permission_set \<Rightarrow> jwt_payload \<Rightarrow> bool" where
  "carries s p \<longleftrightarrow> jp_roles p = map role_str (ps_roles s) \<and> jp_scopes p = map scope_str (ps_scopes s)"

text \<open>The requests that need no token, those of the staff, and those that write orders.\<close>
fun public_request :: "request \<Rightarrow> bool" where
  "public_request (AuthRequest (Logout _)) = False"
| "public_request (AuthRequest ResendVerification) = False"
| "public_request (AuthRequest _) = True"
| "public_request (ProductsRequest _) = True"
| "public_request (ReviewsRequest (ListReviews _ _)) = True"
| "public_request _ = False"

fun staff_request :: "request \<Rightarrow> bool" where
  "staff_request (AdminUsersRequest _) = True"
| "staff_request (AdminProductsRequest _) = True"
| "staff_request (FilesRequest _) = True"
| "staff_request _ = False"

fun order_writing :: "request \<Rightarrow> bool" where
  "order_writing (OrdersRequest (CancelOrder _)) = True"
| "order_writing (OrdersRequest (CreateOrder _)) = True"
| "order_writing (CartRequest GetCart) = False"
| "order_writing (CartRequest _) = True"
| "order_writing _ = False"

text \<open>A route under no throttle, with or without a token.\<close>
definition unthrottled :: "access_env \<Rightarrow> world \<Rightarrow> bool" where
  "unthrottled X w \<longleftrightarrow> (\<forall>ro t. \<not> ac_full X ro t w)"

fun guard_passes :: "route \<Rightarrow> jwt_payload option \<Rightarrow> guard \<Rightarrow> bool" where
  "guard_passes ro None g = (g = EmailThrottleGuard)"
| "guard_passes ro (Some p) RolesGuard = has_role (ro_roles ro) p"
| "guard_passes ro (Some p) ScopesGuard = has_scopes (ro_scopes ro) p"
| "guard_passes ro (Some p) g = True"

lemma run_guards_pass:
  assumes "unthrottled X w" and "JwtGuard \<notin> set gs"
  shows "isl (run_guards X ro h w gs (Some p)) = (\<not> list_all (guard_passes ro (Some p)) gs)"
  using assms(2)
proof (induction gs)
  case (Cons g gs)
  then show ?case using assms(1) roles_pass [of "ro_roles ro" p] scopes_pass [of "ro_scopes ro" p]
    by (cases g) (auto simp: run_guard_def unthrottled_def split: sum.splits)
qed simp

lemma authorize_pass:
  assumes "unthrottled X w" and "ro_guards ro = JwtGuard # gs" and "JwtGuard \<notin> set gs"
  shows "isl (authorize X ro h w) = (\<not> (case ac_verify X (rh_authorization h) (w_now w) of
     None \<Rightarrow> False | Some p \<Rightarrow> list_all (guard_passes ro (Some p)) gs))"
  using assms(1) run_guards_pass [OF assms(1,3), of ro h]
  by (auto simp: authorize_def assms(2) unthrottled_def run_guard_def split: option.split)

definition admits :: "request \<Rightarrow> jwt_payload \<Rightarrow> bool" where
  "admits r p = list_all (guard_passes (route_of r) (Some p)) (tl (ro_guards (route_of r)))"

lemmas route_shapes = open_route_def user_route_def scoped_route_def staff_route_def

lemma products_guards: "ro_guards (products_route r) = []"
  by (cases r) (simp_all add: route_shapes)

lemma users_guards: "ro_guards (users_route r) = [JwtGuard]"
  by (cases r) (simp_all add: route_shapes)

lemma admin_users_guards: "ro_guards (admin_users_route r) = [JwtGuard, RolesGuard, ScopesGuard]"
  by (cases r) (simp_all add: route_shapes)

lemma orders_guards: "ro_guards (orders_route r) = [JwtGuard, ScopesGuard]"
  by (cases r) (simp_all add: route_shapes)

lemma cart_guards: "ro_guards (cart_route r) = [JwtGuard, ScopesGuard]"
  by (cases r) (simp_all add: route_shapes)

lemma admin_products_guards: "ro_guards (admin_products_route r) = [JwtGuard, RolesGuard, ScopesGuard]"
  by (cases r) (simp_all add: route_shapes)

lemma files_guards: "ro_guards (files_route r) = [JwtGuard, RolesGuard, ScopesGuard]"
  by (cases r) (simp_all add: route_shapes)

lemmas route_guards = products_guards users_guards admin_users_guards orders_guards cart_guards admin_products_guards files_guards

lemma public_guards: "public_request r \<Longrightarrow> set (ro_guards (route_of r)) \<subseteq> {EmailThrottleGuard}"
  by (induction r rule: public_request.induct) (auto simp: route_shapes route_guards)

lemma guarded_route: "\<not> public_request r \<Longrightarrow> \<exists>gs. ro_guards (route_of r) = JwtGuard # gs \<and> JwtGuard \<notin> set gs"
  by (induction r rule: public_request.induct) (auto simp: route_shapes route_guards)

lemma open_guards_pass:
  assumes "unthrottled X w"
  shows "set gs \<subseteq> {EmailThrottleGuard} \<Longrightarrow> run_guards X ro h w gs usr = Inr usr"
proof (induction gs)
  case (Cons g gs)
  then show ?case using assms by (simp add: run_guard_def unthrottled_def)
qed simp

lemma authorize_request:
  assumes "unthrottled X w"
  shows "isl (authorize X (route_of r) h w) = (\<not> (public_request r \<or>
     (case ac_verify X (rh_authorization h) (w_now w) of None \<Rightarrow> False | Some p \<Rightarrow> admits r p)))"
proof (cases "public_request r")
  case True
  then show ?thesis using open_guards_pass [OF assms public_guards [OF True]] assms
    by (simp add: authorize_def unthrottled_def)
next
  case False
  then obtain gs where "ro_guards (route_of r) = JwtGuard # gs" "JwtGuard \<notin> set gs" using guarded_route by blast
  then show ?thesis using authorize_pass [OF assms] False by (simp add: admits_def split: option.split)
qed

text \<open>What the three sets of permissions admit.\<close>
lemma users_admit: "admits (UsersRequest r) p"
  by (simp add: admits_def users_guards)

lemma admin_users_admit: "admits (AdminUsersRequest r) p \<Longrightarrow> role_str ROLE_ADMIN \<in> set (jp_roles p)"
  by (cases r) (auto simp: admits_def route_shapes has_role_def)

lemma admin_products_admit: "admits (AdminProductsRequest r) p \<Longrightarrow> role_str ROLE_ADMIN \<in> set (jp_roles p)"
  by (cases r) (auto simp: admits_def route_shapes has_role_def)

lemma files_admit: "admits (FilesRequest r) p \<Longrightarrow>
    (role_str ROLE_ADMIN \<in> set (jp_roles p) \<or> role_str ROLE_SUPPORT \<in> set (jp_roles p)) \<and>
    (scope_str PRODUCTS_IMAGES_READ \<in> set (jp_scopes p) \<or> scope_str PRODUCTS_IMAGES_WRITE \<in> set (jp_scopes p))"
  by (cases r) (auto simp: admits_def route_shapes has_role_def has_scopes_def)

lemma admin_admits: "carries AdminPermissions p \<Longrightarrow> admits (AdminUsersRequest r1) p \<and> admits (AdminProductsRequest r2) p \<and> admits (FilesRequest r3) p"
  by (cases r1; cases r2; cases r3)
     (simp_all add: admits_def route_shapes has_role_def has_scopes_def carries_def AdminPermissions_def all_scopes_def)

lemma orders_admit:
  "admits (OrdersRequest r) p = (scope_str (if order_writing (OrdersRequest r) then ORDERS_WRITE else ORDERS_READ) \<in> set (jp_scopes p))"
  by (cases r) (simp_all add: admits_def route_shapes has_scopes_def)

lemma cart_admit:
  "admits (CartRequest r) p = (scope_str (if order_writing (CartRequest r) then ORDERS_WRITE else ORDERS_READ) \<in> set (jp_scopes p))"
  by (cases r) (simp_all add: admits_def route_shapes has_scopes_def)

lemma other_admit:
  "admits (AuthRequest a) p" "admits (ProductsRequest b) p" "admits (ReviewsRequest c) p"
  by ((cases a; simp add: admits_def route_shapes), (cases b; simp add: admits_def route_shapes),
      (cases c; simp add: admits_def route_shapes))

lemma new_user_admitted:
  assumes "carries NewUserPermissions p"
  shows "admits r p = (\<not> staff_request r)"
proof -
  have set: "set (jp_roles p) = {''user''}" "set (jp_scopes p) = {''orders:read'', ''orders:write'', ''files:write'', ''products:read''}"
    using assms by (auto simp: carries_def NewUserPermissions_def)
  show ?thesis
    using admin_users_admit [of _ p] admin_products_admit [of _ p] files_admit [of _ p]
    by (cases r) (auto simp: set users_admit orders_admit cart_admit other_admit)
qed

lemma support_admitted:
  assumes "carries SupportPermissions p"
  shows "admits r p = (\<not> staff_request r \<and> \<not> order_writing r)"
proof -
  have set: "set (jp_roles p) = {''support''}" "set (jp_scopes p) = {''orders:read'', ''payments:read'', ''products:read'', ''users:read''}"
    using assms by (auto simp: carries_def SupportPermissions_def)
  show ?thesis
    using admin_users_admit [of _ p] admin_products_admit [of _ p] files_admit [of _ p]
    by (cases r) (auto simp: set users_admit orders_admit cart_admit other_admit)
qed

lemma admin_admitted: "carries AdminPermissions p \<Longrightarrow> admits r p"
  using admin_admits [of p] by (cases r) (auto simp: users_admit orders_admit cart_admit other_admit carries_def AdminPermissions_def all_scopes_def)

text \<open>C22: Who gets through, for every request of the interface while no limit is used up. Without a
  valid token exactly the public requests; with the permissions of a new user exactly the requests
  that are not the staff's; with those of an administrator all of them; with those of support
  exactly the requests that are neither the staff's nor write orders: the file routes that name
  support among their roles ask for a scope that support does not have.\<close>
theorem who_gets_through:
  assumes "unthrottled X w"
  shows "let token = ac_verify X (rh_authorization h) (w_now w); passes = (\<exists>u. authorize X (route_of r) h w = Inr u) in
    (token = None \<longrightarrow> passes = public_request r) \<and>
    (\<forall>p. token = Some p \<longrightarrow>
       (carries NewUserPermissions p \<longrightarrow> passes = (\<not> staff_request r)) \<and>
       (carries SupportPermissions p \<longrightarrow> passes = (\<not> staff_request r \<and> \<not> order_writing r)) \<and>
       (carries AdminPermissions p \<longrightarrow> passes))"
proof -
  have pub: "public_request r \<Longrightarrow> \<not> staff_request r \<and> \<not> order_writing r"
    by (induction r rule: public_request.induct) simp_all
  have passes: "(\<exists>u. authorize X (route_of r) h w = Inr u) = (public_request r \<or>
     (case ac_verify X (rh_authorization h) (w_now w) of None \<Rightarrow> False | Some p \<Rightarrow> admits r p))"
    using authorize_request [OF assms, of r h] by (cases "authorize X (route_of r) h w") auto
  show ?thesis unfolding passes Let_def
    using pub by (auto simp: new_user_admitted support_admitted admin_admitted)
qed

definition token_access :: "jwt_payload \<Rightarrow> access_env" where
  "token_access p = \<lparr>ac_verify = (\<lambda>a now. if a = Some ''Bearer t'' \<and> now < 900000000 then Some p else None), ac_full = (\<lambda>_ _ _. False)\<rparr>"

definition bearer_head :: request_head where
  "bearer_head = \<lparr>rh_authorization = Some ''Bearer t'', rh_ip = None, rh_email = None\<rparr>"

definition new_user_payload :: jwt_payload where
  "new_user_payload = \<lparr>jp_email = ''a@b.c'', jp_roles = [''user''],
     jp_scopes = [''orders:read'', ''orders:write'', ''files:write'', ''products:read''], jp_sub = ''u1''\<rparr>"

definition sample_api :: api where
  "sample_api = \<lparr>ap_auth = sample_auth, ap_env = sample_token_env, ap_s3 = sample_s3, ap_files = sample_store,
     ap_search = \<lparr>se_isUUID = (\<lambda>_. True), se_numeric = (\<lambda>_. None), se_title_key = (\<lambda>t. t)\<rparr>, ap_access = token_access new_user_payload, ap_status = (\<lambda>_ _. Inl RxTimeout),
     ap_isEmail = (\<lambda>_. True), ap_isAlpha2 = (\<lambda>_. True), ap_invalid = http_exn BadRequest ''Bad Request'', ap_production = True\<rparr>"

lemma who_gets_through_witness:
  "(\<exists>u. authorize (token_access new_user_payload) (route_of (CartRequest GetCart)) bearer_head sample_world = Inr u) \<and>
   \<not> (\<exists>u. authorize (token_access new_user_payload) (route_of (FilesRequest (GetFileUrl ''f1''))) bearer_head sample_world = Inr u)"
proof -
  have un: "unthrottled (token_access new_user_payload) sample_world" by (simp add: unthrottled_def token_access_def)
  have tok: "ac_verify (token_access new_user_payload) (rh_authorization bearer_head) (w_now sample_world) = Some new_user_payload"
    by code_simp
  have "carries NewUserPermissions new_user_payload" by code_simp
  then show ?thesis
    using who_gets_through [OF un, of bearer_head "CartRequest GetCart"]
      who_gets_through [OF un, of bearer_head "FilesRequest (GetFileUrl ''f1'')"] by (simp add: Let_def tok)
qed

section \<open>A token outlives its permissions\<close>

lemma authorize_token:
  assumes un: "unthrottled X w" and guarded: "\<not> public_request r"
    and lives: "token_lives X A ttl p t" and head: "rh_authorization h = Some (''Bearer '' @ az_sign A p t)" and ok: "admits r p"
  shows "authorize X (route_of r) h w =
    (if w_now w div 1000000 < t div 1000000 + ttl then Inr (Some p) else Inl (http_exn0 Unauthorized))"
proof -
  obtain gs where gs: "ro_guards (route_of r) = JwtGuard # gs" "JwtGuard \<notin> set gs" using guarded_route [OF guarded] by blast
  have v: "ac_verify X (rh_authorization h) (w_now w) = (if w_now w div 1000000 < t div 1000000 + ttl then Some p else None)"
    using lives by (simp add: token_lives_def head)
  show ?thesis
  proof (cases "w_now w div 1000000 < t div 1000000 + ttl")
    case True
    then have "\<not> isl (authorize X (route_of r) h w)" using authorize_request [OF un, of r h] v ok by simp
    then obtain u where u: "authorize X (route_of r) h w = Inr u" by (cases "authorize X (route_of r) h w") auto
    show ?thesis using authorize_Inr [OF gs u] u v True by (metis option.inject)
  next
    case False
    then show ?thesis using un v gs by (auto simp: authorize_def unthrottled_def run_guard_def)
  qed
qed

lemma audit_users: "users (w_db (audit E ev w)) = users (w_db w)"
  by (simp add: audit_def)

lemma updateRoles_Inr:
  assumes "updateRoles E i rs adm ctx w = (Inr m, w1)"
  shows "\<forall>x \<in> set (users (w_db w1)). u_id x = i \<longrightarrow> u_roles x = rs"
proof -
  have "\<exists>w2 ev. w1 = audit E ev (snd (update_user i (\<lambda>x. x\<lparr>u_roles := rs\<rparr>) w2))"
    using assms by (auto simp: updateRoles_def bind_s_def read_s_def update_user_def split: sum.splits)
  then obtain w2 where "users (w_db w1) = users (w_db (snd (update_user i (\<lambda>x. x\<lparr>u_roles := rs\<rparr>) w2)))"
    by (auto simp: audit_users)
  then have rows: "users (w_db w1) = update_rows (\<lambda>x. u_id x = i) (\<lambda>x. x\<lparr>u_roles := rs, u_updatedAt := w_now w2\<rparr>) (users (w_db w2))"
    by (simp add: update_user_def)
  show ?thesis unfolding rows update_rows_def set_map by (intro ballI, elim imageE, hypsubst) simp
qed

text \<open>C23: A token outlives its permissions: when an administrator takes the roles of a user away, the
  table has the new roles at once, but a request with an access token signed before passes the
  guards with the old roles until the token expires, and is refused from then on.\<close>
theorem access_token_outlives_demotion:
  assumes "\<not> public_request r" and "admits r p" and "token_lives X A ttl p t" and "unthrottled X w1"
    and "rh_authorization h = Some (''Bearer '' @ az_sign A p t)"
    and "updateRoles E (jp_sub p) rs adm ctx w = (Inr m, w1)"
  shows "(\<forall>x \<in> set (users (w_db w1)). u_id x = jp_sub p \<longrightarrow> u_roles x = rs) \<and>
    authorize X (route_of r) h w1 =
      (if w_now w1 div 1000000 < t div 1000000 + ttl then Inr (Some p) else Inl (http_exn0 Unauthorized))"
  using authorize_token [OF assms(4,1,3,5,2)] updateRoles_Inr [OF assms(6)] by blast

definition admin_payload :: jwt_payload where
  "admin_payload = \<lparr>jp_email = ''a@b.c'', jp_roles = map role_str (ps_roles AdminPermissions),
     jp_scopes = map scope_str (ps_scopes AdminPermissions), jp_sub = ''u1''\<rparr>"

definition signed_access :: access_env where
  "signed_access = \<lparr>ac_verify = (\<lambda>a now. if a = Some (''Bearer '' @ az_sign sample_auth admin_payload 0) \<and> now div 1000000 < 900
     then Some admin_payload else None), ac_full = (\<lambda>_ _ _. False)\<rparr>"

lemma access_token_outlives_demotion_witness:
  "\<exists>m w1. updateRoles sample_env ''u1'' [''user''] None None sample_world = (Inr m, w1) \<and>
     map u_roles (filter (\<lambda>x. u_id x = ''u1'') (users (w_db w1))) = [[''user'']] \<and>
     authorize signed_access (route_of (AdminUsersRequest (DeleteUser ''u2'')))
       \<lparr>rh_authorization = Some (''Bearer '' @ az_sign sample_auth admin_payload 0), rh_ip = None, rh_email = None\<rparr> w1 = Inr (Some admin_payload)"
proof -
  let ?run = "updateRoles sample_env ''u1'' [''user''] None None sample_world"
  obtain m w1 where run: "?run = (Inr m, w1)"
  proof -
    have "\<not> isl (fst ?run)" by code_simp
    then show thesis using that by (cases ?run; cases "fst ?run") auto
  qed
  have rows: "map u_roles (filter (\<lambda>x. u_id x = ''u1'') (users (w_db (snd ?run)))) = [[''user'']]" by code_simp
  have now: "w_now (snd ?run) div 1000000 < 900" by code_simp
  have admin: "admits (AdminUsersRequest (DeleteUser ''u2'')) admin_payload"
    by (rule admin_admitted) (simp add: carries_def admin_payload_def)
  have lives: "token_lives signed_access sample_auth 900 admin_payload 0" by (simp add: token_lives_def signed_access_def)
  have un: "unthrottled signed_access w1" by (simp add: unthrottled_def signed_access_def)
  have "updateRoles sample_env (jp_sub admin_payload) [''user''] None None sample_world = (Inr m, w1)"
    using run by (simp add: admin_payload_def)
  from access_token_outlives_demotion [OF _ admin lives un _ this] show ?thesis using run rows now by simp
qed

end
