(* ===== verification/Graphql.thy ===== *)
theory Graphql
  imports Orders_Query
begin

text \<open>
  \<^verbatim>\<open>graphql/\<close>: the batch functions of the data loaders, the resolvers of orders and order items
  and the query \<open>orders\<close>. An entity of a resolver carries the relations its query joined; None
  is a relation that was not joined or that the soft-delete filter of the join left empty, the
  resolvers do not tell the two apart. The engine and the batching of \<^verbatim>\<open>dataloader\<close> are
  libraries: a load names the batch it ends up in.
\<close>

record gql_item =
  gi_row :: order_item
  gi_product :: "product option"
  gi_order :: "order option"

record gql_order =
  go_row :: order
  go_items :: "gql_item list option"
  go_user :: "user option"

definition gql_item_of :: "order_item \<times> product option \<Rightarrow> gql_item" where
  "gql_item_of x = \<lparr>gi_row = fst x, gi_product = snd x, gi_order = None\<rparr>"

definition gql_order_of :: "order_view \<Rightarrow> gql_order" where
  "gql_order_of v = \<lparr>go_row = ov_order v, go_items = Some (map gql_item_of (ov_items v)), go_user = ov_user v\<rparr>"

section \<open>The batch functions\<close>

text \<open>\<^verbatim>\<open>new Map(rows.map((r) => [key(r), r]))\<close>: a later row with the same key replaces an
  earlier one.\<close>
definition js_map :: "('r \<Rightarrow> 'k) \<Rightarrow> 'r list \<Rightarrow> 'k \<Rightarrow> 'r option" where
  "js_map key rows = map_of (rev (map (\<lambda>r. (key r, r)) rows))"

text \<open>One turn of the loops that collect the rows of a key.\<close>
definition add_to_group :: "('r \<Rightarrow> 'k) \<Rightarrow> 'r \<Rightarrow> ('k \<Rightarrow> 'r list option) \<Rightarrow> ('k \<Rightarrow> 'r list option)" where
  "add_to_group key r m = m(key r := Some ((case m (key r) of None \<Rightarrow> [] | Some xs \<Rightarrow> xs) @ [r]))"

definition group_of :: "('r \<Rightarrow> 'k) \<Rightarrow> 'r list \<Rightarrow> 'k \<Rightarrow> 'r list" where
  "group_of key rows k = (case fold (add_to_group key) rows (\<lambda>_. None) k of None \<Rightarrow> [] | Some xs \<Rightarrow> xs)"

definition orders_byId :: "uuid list \<Rightarrow> db \<Rightarrow> gql_order option list" where
  "orders_byId ks d =
     (if ks = [] then []
      else (let m = js_map (\<lambda>v. o_id (ov_order v)) (findByOrderIdsWithRelations ks d)
            in map (\<lambda>k. map_option gql_order_of (m k)) ks))"

definition orders_byUserId :: "uuid list \<Rightarrow> db \<Rightarrow> gql_order list list" where
  "orders_byUserId ks d =
     (let vs = findByUserIdsWithRelations ks d
      in map (\<lambda>k. map gql_order_of (group_of (\<lambda>v. o_userId (ov_order v)) vs k)) ks)"

definition related_item :: "order_item \<times> product option \<times> order option \<Rightarrow> gql_item" where
  "related_item x = (case x of (it, p, r) \<Rightarrow> \<lparr>gi_row = it, gi_product = p, gi_order = r\<rparr>)"

definition items_byOrderId :: "uuid list \<Rightarrow> db \<Rightarrow> gql_item list list" where
  "items_byOrderId ks d =
     (let xs = map related_item (items_findByOrderIds ks d)
      in map (group_of (\<lambda>x. oi_orderId (gi_row x)) xs) ks)"

definition items_byProductId :: "uuid list \<Rightarrow> db \<Rightarrow> gql_item list list" where
  "items_byProductId ks d =
     (let xs = map related_item (items_findByProductIds ks d)
      in map (group_of (\<lambda>x. oi_productId (gi_row x)) xs) ks)"

text \<open>\<^verbatim>\<open>find\<close> skips soft-deleted rows.\<close>
definition products_byId :: "uuid list \<Rightarrow> db \<Rightarrow> product option list" where
  "products_byId ks d =
     (let m = js_map p_id (filter (\<lambda>p. p_id p \<in> set ks \<and> live_product p) (products d)) in map m ks)"

definition users_byId :: "uuid list \<Rightarrow> db \<Rightarrow> user option list" where
  "users_byId ks d =
     (let m = js_map u_id (filter (\<lambda>u. u_id u \<in> set ks \<and> live_user u) (users d)) in map m ks)"

text \<open>\<^verbatim>\<open>loader.load(k)\<close> in the batch \<open>ks\<close>: the library hands out the answers by position, and
  rejects an answer of another length.\<close>
definition load_in :: "(uuid list \<Rightarrow> db \<Rightarrow> 'v list) \<Rightarrow> uuid list \<Rightarrow> uuid \<Rightarrow> db \<Rightarrow> 'v option" where
  "load_in batch ks k d =
     (let vs = batch ks d in if length vs = length ks then map_of (zip ks vs) k else None)"

section \<open>The resolvers\<close>

datatype gql_failure =
  GraphqlError string string "string \<times> string"
| LoaderRejected
| Thrown exn

definition gql_not_found :: "string \<Rightarrow> string \<Rightarrow> string \<Rightarrow> uuid \<Rightarrow> gql_failure" where
  "gql_not_found what code field i =
     GraphqlError (what @ '' with ID '' @ in_dq i @ '' not found'') code (field, i)"

definition found :: "gql_failure \<Rightarrow> 'a option option \<Rightarrow> gql_failure + 'a" where
  "found missing loaded = (case loaded of
     None \<Rightarrow> Inl LoaderRejected | Some None \<Rightarrow> Inl missing | Some (Some x) \<Rightarrow> Inr x)"

definition item_order :: "uuid list \<Rightarrow> db \<Rightarrow> gql_item \<Rightarrow> gql_failure + gql_order" where
  "item_order ks d it = (case gi_order it of
     Some r \<Rightarrow> Inr \<lparr>go_row = r, go_items = None, go_user = None\<rparr>
   | None \<Rightarrow> (let i = oi_orderId (gi_row it)
       in found (gql_not_found ''Order'' ''ORDER_NOT_FOUND'' ''orderId'' i) (load_in orders_byId ks i d)))"

definition item_product :: "uuid list \<Rightarrow> db \<Rightarrow> gql_item \<Rightarrow> gql_failure + product" where
  "item_product ks d it = (case gi_product it of
     Some p \<Rightarrow> Inr p
   | None \<Rightarrow> (let i = oi_productId (gi_row it)
       in found (gql_not_found ''Product'' ''PRODUCT_NOT_FOUND'' ''productId'' i) (load_in products_byId ks i d)))"

definition gql_items :: "uuid list \<Rightarrow> db \<Rightarrow> gql_order \<Rightarrow> gql_failure + gql_item list" where
  "gql_items ks d v = (case go_items v of
     Some its \<Rightarrow> Inr its
   | None \<Rightarrow> (case load_in items_byOrderId ks (o_id (go_row v)) d of
        None \<Rightarrow> Inl LoaderRejected | Some its \<Rightarrow> Inr its))"

definition gql_user :: "uuid list \<Rightarrow> db \<Rightarrow> gql_order \<Rightarrow> gql_failure + user" where
  "gql_user ks d v = (case go_user v of
     Some u \<Rightarrow> Inr u
   | None \<Rightarrow> (let i = o_userId (go_row v)
       in found (gql_not_found ''User'' ''USER_NOT_FOUND'' ''userId'' i) (load_in users_byId ks i d)))"

section \<open>The query\<close>

record orders_filter_input =
  fi_endDate :: "int option"
  fi_startDate :: "int option"
  fi_status :: "order_status option"

text \<open>The schema fills an absent limit with the default; a null that is written out stays null
  and passes the validation as optional.\<close>
record orders_pagination_input =
  pi_cursor :: "string option"
  pi_limit :: "int option"

definition pagination_valid :: "orders_pagination_input option \<Rightarrow> bool" where
  "pagination_valid p = (case p of None \<Rightarrow> True | Some x \<Rightarrow>
     (case pi_limit x of None \<Rightarrow> True | Some l \<Rightarrow> MIN_ORDERS_LIMIT \<le> l \<and> l \<le> MAX_ORDERS_LIMIT))"

record orders_connection =
  oc_nodes :: "gql_order list"
  oc_hasNextPage :: bool
  oc_nextCursor :: "string option"

definition gql_filter :: "orders_filter_input option \<Rightarrow> orders_pagination_input option \<Rightarrow> find_orders_filter" where
  "gql_filter f p =
     \<lparr>ff_cursor = Option.bind p pi_cursor, ff_endDate = Option.bind f fi_endDate,
      ff_limit = Option.bind p pi_limit, ff_productName = None,
      ff_startDate = Option.bind f fi_startDate, ff_status = Option.bind f fi_status\<rparr>"

text \<open>\<^verbatim>\<open>findOrdersWithFilters\<close> with a null limit: the default of the destructuring is for undefined
  only, \<^verbatim>\<open>null + 1\<close> rows are read, \<^verbatim>\<open>slice(0, null)\<close> is empty, and the main query asks for
  \<^verbatim>\<open>IN ()\<close>.\<close>
definition find_orders_null_limit ::
  "(string \<Rightarrow> bool) \<Rightarrow> uuid \<Rightarrow> find_orders_filter \<Rightarrow> db \<Rightarrow> exn + order_view list \<times> string option" where
  "find_orders_null_limit isUUID userId f d =
    (let rows = buildOrderIdsSubquery userId f d;
         behind = (case truthy (ff_cursor f) of
             None \<Rightarrow> Inr rows
           | Some c \<Rightarrow> (case decodeEpochCursor isUUID c of
                Inl e \<Rightarrow> Inl e
              | Inr (None, _) \<Rightarrow> Inl (QueryFailed ''22007'' ''invalid input syntax for type timestamp with time zone'')
              | Inr (Some date, i) \<Rightarrow> Inr (filter (applyCursorPagination (date, i)) rows)))
     in case behind of
          Inl e \<Rightarrow> Inl e
        | Inr rs \<Rightarrow> if applyOrderingAndLimit 1 rs = [] then Inr ([], None)
                    else Inl (QueryFailed ''42601'' ''syntax error at or near )''))"

definition getOrders ::
  "(string \<Rightarrow> bool) \<Rightarrow> uuid \<Rightarrow> orders_filter_input option \<Rightarrow> orders_pagination_input option \<Rightarrow> db \<Rightarrow> exn + orders_connection" where
  "getOrders isUUID userId f p d =
     (case (if (case p of Some x \<Rightarrow> pi_limit x = None | None \<Rightarrow> False)
            then find_orders_null_limit isUUID userId (gql_filter f p) d
            else findOrdersWithFilters isUUID userId (gql_filter f p) d) of
        Inl e \<Rightarrow> Inl e
      | Inr (found_orders, nextCursor) \<Rightarrow>
          Inr \<lparr>oc_nodes = map gql_order_of found_orders, oc_hasNextPage = (truthy nextCursor \<noteq> None),
               oc_nextCursor = nextCursor\<rparr>)"

text \<open>The selection \<^verbatim>\<open>orders { nodes { items { product } } }\<close>. Every field on the way is declared
  non-null (\<^verbatim>\<open>schemas/\<close>), so one error leaves no data at all.\<close>
fun all_fields :: "('a \<Rightarrow> gql_failure + 'b) \<Rightarrow> 'a list \<Rightarrow> gql_failure + 'b list" where
  "all_fields f [] = Inr []"
| "all_fields f (x # xs) = (case f x of Inl e \<Rightarrow> Inl e | Inr y \<Rightarrow>
     (case all_fields f xs of Inl e \<Rightarrow> Inl e | Inr ys \<Rightarrow> Inr (y # ys)))"

definition select_products :: "(gql_item \<Rightarrow> uuid list) \<Rightarrow> db \<Rightarrow> gql_order list \<Rightarrow> gql_failure + product list list" where
  "select_products batch_of d nodes =
     all_fields (\<lambda>v. case gql_items [o_id (go_row v)] d v of
        Inl e \<Rightarrow> Inl e | Inr its \<Rightarrow> all_fields (\<lambda>it. item_product (batch_of it) d it) its) nodes"

end
