(* ===== verification/Graphql_Theorems.thy ===== *)
theory Graphql_Theorems
  imports Graphql Sample_World
begin

text \<open>
  What the GraphQL side promises: a batch answers like one query per key, so how the engine
  groups its loads is not observable, and what a page of orders shows when products are gone.
\<close>

section \<open>Maps and groups of rows\<close>

lemma js_map_find: "distinct (map key rows) \<Longrightarrow> js_map key rows k = find (\<lambda>r. key r = k) rows"
  by (induction rows) (auto simp: js_map_def map_add_def find_None_iff find_None_iff2 split: option.splits
      dest!: map_of_SomeD)

lemma add_to_group_app: "add_to_group key r m k =
    (if key r = k then Some ((case m k of None \<Rightarrow> [] | Some xs \<Rightarrow> xs) @ [r]) else m k)"
  by (simp add: add_to_group_def)

lemma fold_add_to_group:
  "fold (add_to_group key) rows m k =
     (case filter (\<lambda>r. key r = k) rows of [] \<Rightarrow> m k
      | r # rs \<Rightarrow> Some ((case m k of None \<Rightarrow> [] | Some xs \<Rightarrow> xs) @ r # rs))"
  by (induction rows arbitrary: m) (auto simp: add_to_group_app split: list.splits option.splits)

lemma group_of_filter: "group_of key rows k = filter (\<lambda>r. key r = k) rows"
  by (simp add: group_of_def fold_add_to_group split: list.splits)

lemma filter_key_in: "k \<in> set ks \<Longrightarrow> filter (\<lambda>r. key r \<in> set ks \<and> key r = k) rows = filter (\<lambda>r. key r = k) rows"
  by (induction rows) auto

lemma find_filter: "find P (filter Q rows) = find (\<lambda>r. Q r \<and> P r) rows"
  by (induction rows) auto

lemma distinct_map_filter_key: "distinct (map key rows) \<Longrightarrow> distinct (map key (filter Q rows))"
  by (induction rows) auto

section \<open>The contract of a loader\<close>

locale loader =
  fixes batch :: "uuid list \<Rightarrow> db \<Rightarrow> 'v list" and one :: "uuid \<Rightarrow> db \<Rightarrow> 'v" and ok :: "db \<Rightarrow> bool"
  assumes pointwise: "ok d \<Longrightarrow> batch ks d = map (\<lambda>k. one k d) ks"
begin

lemma load_exact: "ok d \<Longrightarrow> k \<in> set ks \<Longrightarrow> load_in batch ks k d = Some (one k d)"
  by (simp add: load_in_def Let_def pointwise map_of_zip_map)

lemma split_batch: "ok d \<Longrightarrow> batch (ks @ ls) d = batch ks d @ batch ls d"
  by (simp add: pointwise)

end

abbreviation orders_keyed :: "db \<Rightarrow> bool" where "orders_keyed d \<equiv> distinct (map o_id (orders d))"
abbreviation products_keyed_ids :: "db \<Rightarrow> bool" where "products_keyed_ids d \<equiv> distinct (map p_id (products d))"
abbreviation users_keyed_ids :: "db \<Rightarrow> bool" where "users_keyed_ids d \<equiv> distinct (map u_id (users d))"

lemma ov_order_load [simp]: "ov_order (load_order b d r) = r"
  by (simp add: load_order_def)

lemma find_map_row: "find P (map f rows) = map_option f (find (\<lambda>x. P (f x)) rows)"
  by (induction rows) auto

lemma find_in_keys: "k \<in> set ks \<Longrightarrow> find (\<lambda>r. key r \<in> set ks \<and> key r = k) rows = find (\<lambda>r. key r = k) rows"
  by (induction rows) auto

lemma find_live_in_keys:
  "k \<in> set ks \<Longrightarrow> find (\<lambda>r. key r \<in> set ks \<and> live r \<and> key r = k) rows = find (\<lambda>r. key r = k \<and> live r) rows"
  by (induction rows) auto

interpretation orders_loader: loader orders_byId
    "\<lambda>k d. map_option gql_order_of (findByIdWithRelations k d)" orders_keyed
proof
  fix d ks assume keyed: "orders_keyed d"
  have "js_map (\<lambda>v. o_id (ov_order v)) (findByOrderIdsWithRelations ks d) k = findByIdWithRelations k d"
    if "k \<in> set ks" for k
    using keyed that by (simp add: js_map_find findByOrderIdsWithRelations_def findByIdWithRelations_def
        look_order_def find_row_def find_filter find_map_row comp_def distinct_map_filter_key find_in_keys)
  then show "orders_byId ks d = map (\<lambda>k. map_option gql_order_of (findByIdWithRelations k d)) ks"
    by (simp add: orders_byId_def Let_def)
qed

interpretation user_orders_loader: loader orders_byUserId
    "\<lambda>k d. map (\<lambda>r. gql_order_of (load_order True d r)) (filter (\<lambda>r. o_userId r = k) (orders d))" "\<lambda>_. True"
  by unfold_locales (simp add: orders_byUserId_def Let_def findByUserIdsWithRelations_def group_of_filter
      filter_map comp_def filter_key_in)

interpretation order_items_loader: loader items_byOrderId
    "\<lambda>k d. map related_item (items_findByOrderIds [k] d)" "\<lambda>_. True"
  by unfold_locales (simp add: items_byOrderId_def Let_def items_findByOrderIds_def group_of_filter
      filter_map comp_def related_item_def filter_key_in)

interpretation product_items_loader: loader items_byProductId
    "\<lambda>k d. map related_item (items_findByProductIds [k] d)" "\<lambda>_. True"
  by unfold_locales (simp add: items_byProductId_def Let_def items_findByProductIds_def group_of_filter
      filter_map comp_def related_item_def filter_key_in)

interpretation products_loader: loader products_byId findById_product products_keyed_ids
  by unfold_locales (simp add: products_byId_def Let_def js_map_find distinct_map_filter_key find_filter
      findById_product_def find_live_in_keys)

interpretation users_loader: loader users_byId findById_user users_keyed_ids
  by unfold_locales (simp add: users_byId_def Let_def js_map_find distinct_map_filter_key find_filter
      findById_user_def find_live_in_keys)

text \<open>C34: Every batch function of the data loaders answers a batch as one query per key would, in
  the order of the keys, a missing row as null and a key without rows as an empty list: how the
  loads of a request are grouped into batches cannot be observed.\<close>
theorem loaders_answer_key_by_key:
  assumes "distinct (map o_id (orders d))" "distinct (map p_id (products d))" "distinct (map u_id (users d))"
  shows "orders_byId ks d = map (\<lambda>k. map_option gql_order_of (findByIdWithRelations k d)) ks \<and>
     products_byId ks d = map (\<lambda>k. findById_product k d) ks \<and>
     users_byId ks d = map (\<lambda>k. findById_user k d) ks \<and>
     items_byOrderId ks d = map (\<lambda>k. map related_item (items_findByOrderIds [k] d)) ks \<and>
     items_byProductId ks d = map (\<lambda>k. map related_item (items_findByProductIds [k] d)) ks \<and>
     orders_byUserId ks d = map (\<lambda>k. map (\<lambda>r. gql_order_of (load_order True d r))
            (filter (\<lambda>r. o_userId r = k) (orders d))) ks"
  using assms by (simp only: orders_loader.pointwise products_loader.pointwise users_loader.pointwise
    order_items_loader.pointwise product_items_loader.pointwise user_orders_loader.pointwise simp_thms)

theorem loaders_answer_key_by_key_witness:
  "products_byId [''p2'', ''p9'', ''p1'', ''p2''] sample_db =
     map (\<lambda>k. findById_product k sample_db) [''p2'', ''p9'', ''p1'', ''p2'']"
  using loaders_answer_key_by_key [of sample_db "[''p2'', ''p9'', ''p1'', ''p2'']"]
  by (simp add: sample_defs)

section \<open>A page of orders\<close>

lemma all_fields_Inr: "(\<And>x. x \<in> set xs \<Longrightarrow> f x = Inr (g x)) \<Longrightarrow> all_fields f xs = Inr (map g xs)"
  by (induction xs) auto

lemma all_fields_Inl: "x \<in> set xs \<Longrightarrow> isl (f x) \<Longrightarrow> isl (all_fields f xs)"
  by (induction xs) (auto split: sum.splits)

lemma page_nodes:
  assumes "getOrders isUUID userId f p d = Inr c" "v \<in> set (oc_nodes c)"
  shows "\<exists>r. v = gql_order_of (load_order False d r)"
  using assms by (auto simp: getOrders_def find_orders_null_limit_def findOrdersWithFilters_def Let_def buildMainQuery_def
      split: sum.splits option.splits if_splits prod.splits)

lemma all_fields_map: "all_fields f (map g xs) = all_fields (\<lambda>x. f (g x)) xs"
  by (induction xs) (simp_all cong: sum.case_cong)

text \<open>The product of an item of a page, whether it was joined or loaded.\<close>
lemma item_product_exact:
  assumes "products_keyed_ids d" "oi_productId it \<in> set ks"
  shows "item_product ks d (gql_item_of (it, findById_product (oi_productId it) d)) =
    (case findById_product (oi_productId it) d of
       None \<Rightarrow> Inl (gql_not_found ''Product'' ''PRODUCT_NOT_FOUND'' ''productId'' (oi_productId it))
     | Some p \<Rightarrow> Inr p)"
  using products_loader.load_exact [OF assms]
  by (simp add: item_product_def gql_item_of_def found_def Let_def split: option.splits)

lemma go_row_of [simp]: "go_row (gql_order_of v) = ov_order v"
  by (simp add: gql_order_of_def)

lemma gql_items_page:
  "gql_items ks d (gql_order_of (load_order False d r)) =
     Inr (map (\<lambda>it. gql_item_of (it, findById_product (oi_productId it) d)) (items_of d (o_id r)))"
  by (simp add: gql_items_def gql_order_of_def load_order_def comp_def)

text \<open>C35: A client that selects the products of the items of a page of orders gets them all, in
  the order of the page, when none of them was soft-deleted; one deleted product among the items,
  and the answer has no data at all, whatever the batches of the loads are.\<close>
theorem deleted_product_hides_page:
  assumes keyed: "distinct (map p_id (products d))"
    and page: "getOrders isUUID userId f p d = Inr c"
    and batches: "\<And>it. oi_productId (gi_row it) \<in> set (batch_of it)"
  shows "if \<forall>v \<in> set (oc_nodes c). \<forall>it \<in> set (items_of d (o_id (go_row v))). findById_product (oi_productId it) d \<noteq> None
         then select_products batch_of d (oc_nodes c) =
           Inr (map (\<lambda>v. map (\<lambda>it. the (findById_product (oi_productId it) d)) (items_of d (o_id (go_row v)))) (oc_nodes c))
         else isl (select_products batch_of d (oc_nodes c))"
proof -
  let ?item = "\<lambda>it. gql_item_of (it, findById_product (oi_productId it) d)"
  let ?field = "\<lambda>v. case gql_items [o_id (go_row v)] d v of Inl e \<Rightarrow> Inl e
     | Inr its \<Rightarrow> all_fields (\<lambda>it. item_product (batch_of it) d it) its"
  have field: "?field v = all_fields (\<lambda>it. item_product (batch_of (?item it)) d (?item it)) (items_of d (o_id (go_row v)))"
    if "v \<in> set (oc_nodes c)" for v
    using page_nodes [OF page that] by (auto simp: gql_items_page all_fields_map)
  have item: "item_product (batch_of (?item it)) d (?item it) = (case findById_product (oi_productId it) d of
       None \<Rightarrow> Inl (gql_not_found ''Product'' ''PRODUCT_NOT_FOUND'' ''productId'' (oi_productId it)) | Some x \<Rightarrow> Inr x)" for it
    using item_product_exact [OF keyed] batches [of "?item it"] by (simp add: gql_item_of_def)
  show ?thesis
  proof (split if_split, intro conjI impI)
    assume live: "\<forall>v \<in> set (oc_nodes c). \<forall>it \<in> set (items_of d (o_id (go_row v))). findById_product (oi_productId it) d \<noteq> None"
    have "?field v = Inr (map (\<lambda>it. the (findById_product (oi_productId it) d)) (items_of d (o_id (go_row v))))"
      if "v \<in> set (oc_nodes c)" for v
      unfolding field [OF that] using live that by (intro all_fields_Inr) (fastforce simp: item)
    then show "select_products batch_of d (oc_nodes c) =
           Inr (map (\<lambda>v. map (\<lambda>it. the (findById_product (oi_productId it) d)) (items_of d (o_id (go_row v)))) (oc_nodes c))"
      unfolding select_products_def by (rule all_fields_Inr)
  next
    assume "\<not> (\<forall>v \<in> set (oc_nodes c). \<forall>it \<in> set (items_of d (o_id (go_row v))). findById_product (oi_productId it) d \<noteq> None)"
    then obtain v it where v: "v \<in> set (oc_nodes c)" and it: "it \<in> set (items_of d (o_id (go_row v)))"
      and gone: "findById_product (oi_productId it) d = None" by blast
    have "isl (?field v)"
      unfolding field [OF v] by (rule all_fields_Inl [OF it]) (use item [of it] gone in \<open>simp only: option.case sum.disc\<close>)
    then show "isl (select_products batch_of d (oc_nodes c))"
      unfolding select_products_def by (rule all_fields_Inl [OF v])
  qed
qed

definition sample_page_db :: "int option \<Rightarrow> db" where
  "sample_page_db gone = (sample_db_ordered PAID)\<lparr>products := [(sample_product ''p1'' 5 ''9.99'')\<lparr>p_deletedAt := gone\<rparr>]\<rparr>"

theorem deleted_product_hides_page_witness:
  "\<exists>c. getOrders (\<lambda>_. True) ''u1'' None None (sample_page_db (Some 7)) = Inr c \<and> length (oc_nodes c) = 1 \<and>
     isl (select_products (\<lambda>it. [oi_productId (gi_row it)]) (sample_page_db (Some 7)) (oc_nodes c))"
proof -
  have "case getOrders (\<lambda>_. True) ''u1'' None None (sample_page_db (Some 7)) of Inl _ \<Rightarrow> False
     | Inr c \<Rightarrow> length (oc_nodes c) = 1 \<and>
       \<not> (\<forall>v \<in> set (oc_nodes c). \<forall>it \<in> set (items_of (sample_page_db (Some 7)) (o_id (go_row v))).
          findById_product (oi_productId it) (sample_page_db (Some 7)) \<noteq> None)"
    by code_simp
  then obtain c where c: "getOrders (\<lambda>_. True) ''u1'' None None (sample_page_db (Some 7)) = Inr c" "length (oc_nodes c) = 1"
    "\<not> (\<forall>v \<in> set (oc_nodes c). \<forall>it \<in> set (items_of (sample_page_db (Some 7)) (o_id (go_row v))).
        findById_product (oi_productId it) (sample_page_db (Some 7)) \<noteq> None)" by (auto split: sum.splits)
  have "distinct (map p_id (products (sample_page_db (Some 7))))" by (simp add: sample_page_db_def)
  from deleted_product_hides_page [OF this c(1), of "\<lambda>it. [oi_productId (gi_row it)]"] c show ?thesis by auto
qed

text \<open>A null limit is not refused: with any order on the page the database refuses the query.\<close>
lemma null_limit_fails:
  assumes "getOrders isUUID userId f (Some \<lparr>pi_cursor = None, pi_limit = None\<rparr>) d = Inr c"
  shows "buildOrderIdsSubquery userId (gql_filter f (Some \<lparr>pi_cursor = None, pi_limit = None\<rparr>)) d = []"
  using assms by (auto simp: getOrders_def find_orders_null_limit_def gql_filter_def Let_def truthy_def
      applyOrderingAndLimit_def simp flip: length_0_conv length_greater_0_conv split: if_splits sum.splits)

end
