(* ===== verification/Health.thy ===== *)
theory Health
  imports RabbitMQ Files_Theorems Exception_Filter
begin

text \<open>
  \<^verbatim>\<open>health/\<close> and the state it reads: the event loop monitor, the four indicators, the three
  routes and what leaves the process through the exception filter. \<^verbatim>\<open>HealthCheckService.check\<close>
  and the database ping of terminus are arguments.
\<close>

section \<open>The event loop monitor\<close>

record event_loop =
  el_p99Ms :: rat
  el_thresholdMs :: rat

definition eventLoopState :: event_loop where
  "eventLoopState = \<lparr>el_p99Ms = 0, el_thresholdMs = 0\<rparr>"

definition setupEventLoopMonitoring :: "rat \<Rightarrow> event_loop \<Rightarrow> event_loop" where
  "setupEventLoopMonitoring thresholdMs s = s\<lparr>el_thresholdMs := thresholdMs\<rparr>"

text \<open>One turn of the interval: the percentile of the histogram in nanoseconds; whether it is
  logged.\<close>
definition sample_event_loop :: "rat \<Rightarrow> rat \<Rightarrow> event_loop \<Rightarrow> bool \<times> event_loop" where
  "sample_event_loop thresholdMs p99Ns s =
     (let p99Ms = p99Ns / 1000000 in (p99Ms > thresholdMs, s\<lparr>el_p99Ms := p99Ms\<rparr>))"

section \<open>The indicators\<close>






section \<open>The routes\<close>







section \<open>What the probes tell\<close>












end
