(* ===== verification/Environment.thy ===== *)
theory Environment
  imports Cursor
begin

text \<open>
  The configuration of both services: the schemas of \<^verbatim>\<open>core/environment\<close>, \<^verbatim>\<open>createValidate\<close> of
  \<^verbatim>\<open>libs/common\<close>, the defaults, and what is computed from single variables: throttling, log
  levels, allowed origins, file paths. A variable of the process is a string or absent; the
  decorators of class-validator are the constructors of \<open>env_check\<close>, the texts of its messages
  are left out.
\<close>

section \<open>Schemas\<close>

datatype env_check = IsString | IsNumber | IsEnum "string list" | MinLength nat

record env_var =
  ev_name :: string
  ev_isOptional :: bool
  ev_checks :: "env_check list"

definition required :: "string \<Rightarrow> env_check list \<Rightarrow> env_var" where
  "required n cs = \<lparr>ev_name = n, ev_isOptional = False, ev_checks = cs\<rparr>"

definition optional_string :: "string \<Rightarrow> env_var" where
  "optional_string n = \<lparr>ev_name = n, ev_isOptional = True, ev_checks = [IsString]\<rparr>"

definition optional_number :: "string \<Rightarrow> env_var" where
  "optional_number n = \<lparr>ev_name = n, ev_isOptional = True, ev_checks = [IsNumber]\<rparr>"

definition NodeEnvironment :: "string list" where
  "NodeEnvironment = [''development'', ''production'', ''test'']"

definition shop_environment_a_to_m :: "env_var list" where
  "shop_environment_a_to_m =
    [optional_string ''ALLOW_SEED_IN_PRODUCTION'', required ''APP'' [IsEnum [''shop'', ''payments''], IsString],
     optional_string ''APP_LOG_LEVEL'', optional_string ''APP_URL'', optional_string ''AWS_ACCESS_KEY_ID'',
     optional_string ''AWS_CLOUDFRONT_URL'', required ''AWS_REGION'' [IsString],
     required ''AWS_S3_BUCKET'' [IsString], optional_string ''AWS_S3_ENDPOINT'',
     optional_string ''AWS_S3_FORCE_PATH_STYLE'', optional_number ''AWS_S3_PRESIGNED_URL_DOWNLOAD_EXPIRATION'',
     optional_number ''AWS_S3_PRESIGNED_URL_EXPIRATION'', optional_string ''AWS_S3_PUBLIC_ENDPOINT'',
     optional_string ''AWS_SECRET_ACCESS_KEY'', optional_string ''AWS_SES_REGION'',
     optional_number ''BCRYPT_SALT_ROUNDS'', optional_string ''CORS_ALLOWED_ORIGINS'',
     required ''DATABASE_PROVIDER'' [IsString], required ''DATABASE_URL'' [IsString],
     optional_number ''DB_POOL_SIZE'', optional_number ''DB_SLOW_QUERY_THRESHOLD_MS'',
     optional_string ''DEPLOYMENT_ENVIRONMENT'', optional_string ''EMAIL_VERIFICATION_EXPIRES_IN'',
     optional_number ''EVENT_LOOP_LAG_THRESHOLD_MS'', optional_string ''JWT_ACCESS_EXPIRES_IN'',
     required ''JWT_ACCESS_SECRET'' [IsString], optional_string ''JWT_REFRESH_EXPIRES_IN'',
     optional_number ''MINIO_CONSOLE_PORT'', optional_number ''MINIO_PORT'']"

definition shop_environment_n_to_z :: "env_var list" where
  "shop_environment_n_to_z =
    [required ''NODE_ENV'' [IsEnum NodeEnvironment], optional_string ''NODE_HOSTNAME'',
     optional_string ''OBSERVABILITY_METRICS_ENABLED'', optional_string ''PASSWORD_RESET_EXPIRES_IN'',
     required ''PAYMENTS_GRPC_HOST'' [IsString], required ''PAYMENTS_GRPC_PORT'' [IsNumber],
     optional_number ''PAYMENTS_GRPC_TIMEOUT_MS'', required ''PORT'' [IsNumber], optional_string ''POSTGRES_DB'',
     optional_string ''POSTGRES_PASSWORD'', optional_string ''POSTGRES_USER'',
     optional_string ''RABBITMQ_DISABLE_PAYMENTS_AUTHORIZATION'', required ''RABBITMQ_HOST'' [IsString],
     optional_number ''RABBITMQ_MANAGEMENT_PORT'', required ''RABBITMQ_PASSWORD'' [IsString],
     required ''RABBITMQ_PORT'' [IsNumber], optional_number ''RABBITMQ_PREFETCH_COUNT'',
     optional_number ''RABBITMQ_SIMULATE_DELAY'', optional_string ''RABBITMQ_SIMULATE_DUPLICATE_MESSAGE_ID'',
     optional_string ''RABBITMQ_SIMULATE_FAILURE'', required ''RABBITMQ_USER'' [IsString],
     optional_string ''RABBITMQ_VHOST'', optional_string ''SES_FROM_ADDRESS'',
     optional_string ''STAGE_VALIDATION_NAMESPACE'', optional_string ''STAGE_VALIDATION_PRODUCT_ID'',
     optional_string ''STAGE_VALIDATION_USER_PASSWORD'', optional_number ''THROTTLE_SHORT_LIMIT'',
     optional_string ''THROTTLE_SKIP'', required ''TOKEN_HMAC_SECRET'' [IsString, MinLength 32],
     optional_string ''VALIDATION_PAYMENTS_DATABASE_URL'', optional_string ''VERBOSE_TEST_LOGS'']"

definition shop_environment :: "env_var list" where
  "shop_environment = shop_environment_a_to_m @ shop_environment_n_to_z"

definition payments_environment :: "env_var list" where
  "payments_environment =
    [required ''APP'' [IsEnum [''shop'', ''payments''], IsString], optional_string ''APP_LOG_LEVEL'',
     required ''DATABASE_PROVIDER'' [IsString], required ''DATABASE_URL'' [IsString], required ''NODE_ENV'' [IsString],
     required ''PAYMENTS_GRPC_HOST'' [IsString], required ''PAYMENTS_GRPC_PORT'' [IsNumber],
     optional_string ''POSTGRES_DB'', optional_string ''POSTGRES_PASSWORD'', optional_string ''POSTGRES_USER'']"

section \<open>Validation\<close>

datatype env_value = EnvString string | EnvNumber js_num

text \<open>The implicit conversion of class-transformer, by the declared type of the variable.\<close>
definition convert :: "env_var \<Rightarrow> string \<Rightarrow> env_value" where
  "convert v s = (if IsNumber \<in> set (ev_checks v) then EnvNumber (js_Number s) else EnvString s)"

fun check_value :: "env_check \<Rightarrow> env_value option \<Rightarrow> bool" where
  "check_value IsString x = (case x of Some (EnvString s) \<Rightarrow> True | _ \<Rightarrow> False)"
| "check_value IsNumber x = (case x of Some (EnvNumber (Finite q)) \<Rightarrow> True | _ \<Rightarrow> False)"
| "check_value (IsEnum vs) x = (case x of Some (EnvString s) \<Rightarrow> s \<in> set vs | _ \<Rightarrow> False)"
| "check_value (MinLength n) x = (case x of Some (EnvString s) \<Rightarrow> n \<le> length s | _ \<Rightarrow> False)"

text \<open>An optional variable is checked only when it is there.\<close>
definition failed_checks :: "(string \<Rightarrow> string option) \<Rightarrow> env_var \<Rightarrow> env_check list" where
  "failed_checks c v = (let x = map_option (convert v) (c (ev_name v)) in
     if x = None \<and> ev_isOptional v then [] else filter (\<lambda>k. \<not> check_value k x) (ev_checks v))"

type_synonym env_errors = "(string \<times> env_check list) list"

text \<open>Variables outside of the schema stay as they are.\<close>
definition createValidate :: "env_var list \<Rightarrow> (string \<Rightarrow> string option) \<Rightarrow> env_errors + (string \<Rightarrow> env_value option)" where
  "createValidate schema c =
     (let errors = filter (\<lambda>e. snd e \<noteq> []) (map (\<lambda>v. (ev_name v, failed_checks c v)) schema)
      in if errors \<noteq> [] then Inl errors
         else Inr (\<lambda>k. case find (\<lambda>v. ev_name v = k) schema of
            Some v \<Rightarrow> map_option (convert v) (c k) | None \<Rightarrow> map_option EnvString (c k)))"

text \<open>\<^verbatim>\<open>DEFAULT_VALUES\<close> of the shop.\<close>
definition DEFAULT_VALUES :: "string \<Rightarrow> env_value option" where
  "DEFAULT_VALUES = map_of
     [(''APP'', EnvString ''shop''), (''APP_LOG_LEVEL'', EnvString ''log''),
      (''APP_URL'', EnvString ''http://localhost:5173''), (''BCRYPT_SALT_ROUNDS'', EnvNumber (Finite 10)),
      (''ENV'', EnvString ''.env''), (''JWT_ACCESS_EXPIRES_IN'', EnvString ''15m''),
      (''NODE_HOSTNAME'', EnvString ''localhost''), (''OBSERVABILITY_METRICS_ENABLED'', EnvString ''false''),
      (''PORT'', EnvNumber (Finite 3000))]"

definition getEnvVariable :: "(string \<Rightarrow> env_value option) \<Rightarrow> string \<Rightarrow> env_value option" where
  "getEnvVariable config key = (case config key of Some x \<Rightarrow> Some x | None \<Rightarrow> DEFAULT_VALUES key)"

definition getEnvFile :: "(string \<Rightarrow> string option) \<Rightarrow> string" where
  "getEnvFile env = (case truthy (map_option (\<lambda>s. js_trim (map char_lower s)) (env ''NODE_ENV'')) of
     None \<Rightarrow> ''.env'' | Some nodeEnv \<Rightarrow> ''.env.'' @ nodeEnv)"

definition isProduction :: "(string \<Rightarrow> string option) \<Rightarrow> bool" where
  "isProduction env = (env ''NODE_ENV'' = Some ''production'')"

definition isDevelopment :: "(string \<Rightarrow> string option) \<Rightarrow> bool" where
  "isDevelopment env = (env ''NODE_ENV'' = Some ''development'')"

section \<open>Throttling\<close>

record throttler =
  th_name :: string
  th_limit :: rat
  th_ttl :: nat

definition getShortThrottlerLimit :: "(string \<Rightarrow> env_value option) \<Rightarrow> rat" where
  "getShortThrottlerLimit config = (case config ''THROTTLE_SHORT_LIMIT'' of
     Some (EnvNumber (Finite q)) \<Rightarrow> if q > 0 then q else 3 | _ \<Rightarrow> 3)"

definition getThrottlerModuleOptions :: "(string \<Rightarrow> string option) \<Rightarrow> (string \<Rightarrow> env_value option) \<Rightarrow> bool \<times> throttler list" where
  "getThrottlerModuleOptions env config =
     (env ''THROTTLE_SKIP'' = Some ''true'',
      [\<lparr>th_name = ''short'', th_limit = getShortThrottlerLimit config, th_ttl = 1000\<rparr>,
       \<lparr>th_name = ''medium'', th_limit = 20, th_ttl = 10000\<rparr>,
       \<lparr>th_name = ''long'', th_limit = 100, th_ttl = 60000\<rparr>])"

section \<open>Logging\<close>

text \<open>Nest's levels, for the payments service.\<close>
definition LOG_LEVELS :: "string list" where
  "LOG_LEVELS = [''error'', ''warn'', ''log'', ''debug'', ''verbose'']"

fun indexOf :: "'a \<Rightarrow> 'a list \<Rightarrow> nat option" where
  "indexOf x [] = None"
| "indexOf x (y # ys) = (if y = x then Some 0 else map_option Suc (indexOf x ys))"

definition getLevelsUpTo :: "string \<Rightarrow> string list" where
  "getLevelsUpTo level = (case indexOf level LOG_LEVELS of None \<Rightarrow> [''log''] | Some i \<Rightarrow> take (i + 1) LOG_LEVELS)"

definition getLogLevels :: "(string \<Rightarrow> string option) \<Rightarrow> string list" where
  "getLogLevels env = (case truthy (map_option (map char_lower) (env ''APP_LOG_LEVEL'')) of
     None \<Rightarrow> getLevelsUpTo ''log''
   | Some level \<Rightarrow> if level \<notin> set LOG_LEVELS then getLevelsUpTo ''log'' else getLevelsUpTo level)"

text \<open>Pino's levels, for the shop.\<close>
definition toPinoLevel :: "string \<Rightarrow> string" where
  "toPinoLevel level = (case map_of [(''log'', ''info''), (''verbose'', ''trace'')] (map char_lower level) of
     Some l \<Rightarrow> l | None \<Rightarrow> map char_lower level)"

definition pino_level :: "(string \<Rightarrow> string option) \<Rightarrow> string" where
  "pino_level env =
     (if env ''NODE_ENV'' = Some ''test'' \<and> env ''VERBOSE_TEST_LOGS'' \<noteq> Some ''true'' then ''silent''
      else toPinoLevel (case env ''APP_LOG_LEVEL'' of Some l \<Rightarrow> l | None \<Rightarrow> ''info''))"

text \<open>Requests under \<^verbatim>\<open>/health\<close> are not logged.\<close>
definition pino_ignores :: "string option \<Rightarrow> bool" where
  "pino_ignores url = (case url of None \<Rightarrow> False | Some u \<Rightarrow> take 7 u = ''/health'')"

section \<open>Origins\<close>

fun split_on :: "char \<Rightarrow> string \<Rightarrow> string list" where
  "split_on c [] = [[]]"
| "split_on c (x # xs) = (if x = c then [] # split_on c xs
     else (case split_on c xs of [] \<Rightarrow> [[x]] | w # ws \<Rightarrow> (x # w) # ws))"

definition corsOrigins :: "(string \<Rightarrow> env_value option) \<Rightarrow> string list" where
  "corsOrigins config = (case getEnvVariable config ''CORS_ALLOWED_ORIGINS'' of
     Some (EnvString s) \<Rightarrow> filter (\<lambda>w. w \<noteq> []) (map js_trim (split_on (CHR '','') s))
   | _ \<Rightarrow> [])"

end
