(* ===== verification/Database_Config.thy ===== *)
theory Database_Config
  imports Environment
begin

text \<open>
  How both services find their database: \<^verbatim>\<open>libs/common/src/database\<close>, the Neon adapter of the
  shop and \<^verbatim>\<open>config/typeORM.ts\<close>. Parsing an URL is the platform's: it answers the search
  parameters, or the message of its error. \<^verbatim>\<open>path.resolve\<close> is an argument too.
\<close>

type_synonym variables = "string \<Rightarrow> string option"
type_synonym url_parser = "string \<Rightarrow> string + (string \<Rightarrow> string option)"

section \<open>The adapters\<close>

datatype adapter = PostgresAdapter | NeonAdapter

fun getProviderName :: "adapter \<Rightarrow> string" where
  "getProviderName PostgresAdapter = ''PostgreSQL (Local)''"
| "getProviderName NeonAdapter = ''Neon Database''"

text \<open>\<^verbatim>\<open>url.includes(part)\<close>.\<close>
definition url_includes :: "string \<Rightarrow> string \<Rightarrow> bool" where
  "url_includes url part = str_includes part url"

definition postgres_detect :: "variables \<Rightarrow> bool" where
  "postgres_detect env = (case truthy (env ''DATABASE_URL'') of
     None \<Rightarrow> False
   | Some url \<Rightarrow>
       (let isLocalHostPattern = url_includes url ''localhost'' \<or> url_includes url ''127.0.0.1'' \<or>
              url_includes url ''@postgres:'' \<or> url_includes url ''@postgresql:'' \<or> url_includes url ''@db:'';
            isNotCloudProviderHost = (\<not> url_includes url ''neon.tech'' \<and> \<not> url_includes url ''.aws.'' \<and>
              \<not> url_includes url ''.supabase.'' \<and> \<not> url_includes url ''.railway.'')
        in isLocalHostPattern \<and> isNotCloudProviderHost))"

definition neon_detect :: "variables \<Rightarrow> bool" where
  "neon_detect env = (case truthy (env ''DATABASE_URL'') of
     None \<Rightarrow> False | Some url \<Rightarrow> url_includes url ''neon.tech'' \<or> url_includes url ''.neon.'')"

text \<open>The constructors: the URL they keep, or the error of \<^verbatim>\<open>validateConfig\<close>.\<close>
fun new_adapter :: "url_parser \<Rightarrow> variables \<Rightarrow> adapter \<Rightarrow> exn + string" where
  "new_adapter parse env PostgresAdapter = (case truthy (env ''DATABASE_URL'') of
     None \<Rightarrow> Inl (PlainError ''DATABASE_URL environment variable is required for PostgreSQL connection'')
   | Some url \<Rightarrow> (case parse url of Inl m \<Rightarrow> Inl (PlainError (''Invalid DATABASE_URL format: '' @ m)) | Inr _ \<Rightarrow> Inr url))"
| "new_adapter parse env NeonAdapter = (case truthy (env ''DATABASE_URL'') of
     None \<Rightarrow> Inl (PlainError ''DATABASE_URL environment variable is required for Neon database connection'')
   | Some url \<Rightarrow> Inr url)"

section \<open>The factory\<close>

record registration =
  rg_adapter :: adapter
  rg_detectionFn :: "variables \<Rightarrow> bool"
  rg_priority :: int

type_synonym registry = "(string \<times> registration) list"

text \<open>\<^verbatim>\<open>Map.set\<close>: a name that is there keeps its place.\<close>
fun register :: "string \<Rightarrow> registration \<Rightarrow> registry \<Rightarrow> registry" where
  "register n r [] = [(n, r)]"
| "register n r ((n1, r1) # rest) = (if n1 = n then (n1, r) # rest else (n1, r1) # register n r rest)"

definition payments_registry :: registry where
  "payments_registry = register ''postgres''
     \<lparr>rg_adapter = PostgresAdapter, rg_detectionFn = postgres_detect, rg_priority = 5\<rparr> []"

definition shop_registry :: registry where
  "shop_registry = register ''neon''
     \<lparr>rg_adapter = NeonAdapter, rg_detectionFn = neon_detect, rg_priority = 10\<rparr> payments_registry"

text \<open>The stable sort by falling priority, and the first whose test holds.\<close>
definition by_priority :: "registry \<Rightarrow> registry" where
  "by_priority = sort_key (\<lambda>x. - rg_priority (snd x))"

definition auto_detect :: "variables \<Rightarrow> registry \<Rightarrow> (string \<times> registration) option" where
  "auto_detect env rs = find (\<lambda>x. rg_detectionFn (snd x) env) (by_priority rs)"

definition detectProvider :: "variables \<Rightarrow> registry \<Rightarrow> (string \<times> registration) option" where
  "detectProvider env rs = (case truthy (env ''DATABASE_PROVIDER'') of
     None \<Rightarrow> auto_detect env rs
   | Some p \<Rightarrow> (case map_of rs p of Some r \<Rightarrow> Some (p, r) | None \<Rightarrow> auto_detect env rs))"

definition available :: "registry \<Rightarrow> string" where
  "available rs = sep_join '', '' (map fst rs)"

definition create_adapter :: "url_parser \<Rightarrow> variables \<Rightarrow> registry \<Rightarrow> string option \<Rightarrow> exn + adapter \<times> string" where
  "create_adapter parse env rs providerName =
     (case (case truthy providerName of
              Some p \<Rightarrow> (case map_of rs p of
                 Some r \<Rightarrow> Inr r
               | None \<Rightarrow> Inl (PlainError (''Unknown database provider: '' @ p @ ''. Available providers: '' @ available rs)))
            | None \<Rightarrow> (case detectProvider env rs of
                 Some (_, r) \<Rightarrow> Inr r
               | None \<Rightarrow> Inl (PlainError (''Could not auto-detect database provider. Please set DATABASE_PROVIDER environment variable.'' @
                    [CHR 0x0A] @ ''Available providers: '' @ available rs)))) of
        Inl e \<Rightarrow> Inl e
      | Inr r \<Rightarrow> (case new_adapter parse env (rg_adapter r) of Inl e \<Rightarrow> Inl e | Inr url \<Rightarrow> Inr (rg_adapter r, url)))"

section \<open>The options of a connection\<close>

datatype ssl_config = SslOff | SslUnverified | SslVerified | SslOn

definition getSslConfig :: "url_parser \<Rightarrow> variables \<Rightarrow> string \<Rightarrow> ssl_config" where
  "getSslConfig parse env url =
     (let fallback = (if isDevelopment env then SslOff else SslVerified) in
      if url = [] then fallback
      else case parse url of
        Inl _ \<Rightarrow> fallback
      | Inr params \<Rightarrow> (let sslMode = params ''sslmode'' in
          if sslMode = Some ''disable'' then SslOff
          else if sslMode = Some ''require'' then SslUnverified
          else if sslMode \<in> {Some ''verify-ca'', Some ''verify-full''} then SslOn
          else if sslMode \<in> {Some ''prefer'', Some ''allow''} then SslUnverified
          else fallback))"

text \<open>\<^verbatim>\<open>getTypeOrmPaths\<close> of the library: where the entities and the migrations are.\<close>
definition getTypeOrmPaths :: "(string list \<Rightarrow> string) \<Rightarrow> string \<Rightarrow> variables \<Rightarrow> exn + string list \<times> string list" where
  "getTypeOrmPaths resolve dirname env =
     (case truthy (map_option (\<lambda>s. js_trim (map char_lower s)) (env ''APP'')) of
        None \<Rightarrow> Inl (PlainError ''APP environment variable is not set or invalid'')
      | Some resolvedProject \<Rightarrow>
          if isProduction env
          then (let projectDistRoot = resolve [dirname, ''../../..''];
                    projectAppDistRoot = resolve [projectDistRoot, ''apps'', resolvedProject]
                in Inr ([resolve [projectAppDistRoot, ''**/*.entity.js'']],
                        [resolve [projectAppDistRoot, ''**/db/migrations/*.js'']]))
          else Inr ([''src/**/*.entity{.ts,.js}''], [''src/db/migrations/*{.ts,.js}'']))"

record data_source_options =
  ds_entities :: "string list"
  ds_logger :: string
  ds_logging :: "string list"
  ds_migrations :: "string list option"
  ds_migrationsRun :: "bool option"
  ds_ssl :: ssl_config
  ds_synchronize :: bool
  ds_url :: string

definition getDataSourceOptions ::
  "(string list \<Rightarrow> string) \<Rightarrow> string \<Rightarrow> url_parser \<Rightarrow> variables \<Rightarrow> string \<Rightarrow> exn + data_source_options" where
  "getDataSourceOptions resolve dirname parse env url = (case getTypeOrmPaths resolve dirname env of
     Inl e \<Rightarrow> Inl e
   | Inr (entities, migrations) \<Rightarrow> (let isDev = isDevelopment env in
       Inr \<lparr>ds_entities = entities, ds_logger = (if isDev then ''advanced-console'' else ''simple-console''),
         ds_logging = (if isDev then [''query'', ''error'', ''schema'', ''warn''] else [''error'', ''warn'']),
         ds_migrations = Some migrations, ds_migrationsRun = None, ds_ssl = getSslConfig parse env url,
         ds_synchronize = False, ds_url = url\<rparr>))"

text \<open>\<^verbatim>\<open>omit(options, 'migrations')\<close> and no run at start-up.\<close>
definition getModuleOptions ::
  "(string list \<Rightarrow> string) \<Rightarrow> string \<Rightarrow> url_parser \<Rightarrow> variables \<Rightarrow> string \<Rightarrow> exn + data_source_options" where
  "getModuleOptions resolve dirname parse env url =
     (case getDataSourceOptions resolve dirname parse env url of
        Inl e \<Rightarrow> Inl e | Inr ds \<Rightarrow> Inr (ds\<lparr>ds_migrations := None, ds_migrationsRun := Some False\<rparr>))"

text \<open>The pool of the shop.\<close>
record module_options =
  mo_base :: data_source_options
  mo_entities :: "string list"
  mo_poolSize :: env_value
  mo_slowQueryThresholdMs :: env_value

definition shop_entities :: "string list" where
  "shop_entities = [''User'', ''Order'', ''OrderItem'', ''Cart'', ''CartItem'', ''Product'', ''ProductReview'', ''FileRecord'',
     ''ProcessedMessage'', ''RefreshToken'', ''EmailVerificationToken'', ''PasswordResetToken'', ''AuditLog'']"

definition getTypeOrmModuleOptions ::
  "(string list \<Rightarrow> string) \<Rightarrow> string \<Rightarrow> url_parser \<Rightarrow> variables \<Rightarrow> (string \<Rightarrow> env_value option) \<Rightarrow> exn + module_options" where
  "getTypeOrmModuleOptions resolve dirname parse env config =
     (let provider = (case config ''DATABASE_PROVIDER'' of Some (EnvString p) \<Rightarrow> Some p | _ \<Rightarrow> None);
          number = (\<lambda>k d. case config k of Some x \<Rightarrow> x | None \<Rightarrow> EnvNumber (Finite d))
      in case create_adapter parse env shop_registry provider of
           Inl e \<Rightarrow> Inl e
         | Inr (_, url) \<Rightarrow> (case getModuleOptions resolve dirname parse env url of
              Inl e \<Rightarrow> Inl e
            | Inr base \<Rightarrow> Inr \<lparr>mo_base = base, mo_entities = shop_entities,
                mo_poolSize = number ''DB_POOL_SIZE'' 10,
                mo_slowQueryThresholdMs = number ''DB_SLOW_QUERY_THRESHOLD_MS'' 1000\<rparr>))"

section \<open>What they guarantee\<close>

lemma find_sorted_best:
  assumes "find P (sort_key f xs) = Some x"
  shows "x \<in> set xs \<and> P x \<and> (\<forall>y \<in> set xs. P y \<longrightarrow> f x \<le> f y)"
proof -
  have s: "sorted (map f (sort_key f xs))" by (rule sorted_sort_key)
  from assms have "\<exists>i < length (sort_key f xs). P (sort_key f xs ! i) \<and> x = sort_key f xs ! i \<and> (\<forall>j < i. \<not> P (sort_key f xs ! j))"
    by (auto simp: find_Some_iff)
  then obtain i where i: "i < length (sort_key f xs)" "P (sort_key f xs ! i)" "x = sort_key f xs ! i"
    "\<forall>j < i. \<not> P (sort_key f xs ! j)" by blast
  have "f x \<le> f y" if "y \<in> set xs" "P y" for y
  proof -
    from that obtain j where j: "j < length (sort_key f xs)" "y = sort_key f xs ! j"
      by (metis in_set_conv_nth set_sort)
    with i(4) that have "i \<le> j" by (metis not_le)
    with s j i show ?thesis by (metis length_map nth_map sorted_nth_mono)
  qed
  moreover have "x \<in> set xs" using i by (metis nth_mem set_sort)
  ultimately show ?thesis using i by blast
qed

text \<open>A shop outside of development whose connection is set up talks to its database with the
  certificate verified unless the URL itself names a weaker mode; it never runs migrations or
  synchronises the schema at start-up, and a provider that was not named is the one of highest
  priority whose test fits the URL.\<close>
theorem database_connection_is_safe:
  assumes opts: "getTypeOrmModuleOptions resolve dirname parse env config = Inr m" and "\<not> isDevelopment env"
  shows "(ds_ssl (mo_base m) \<in> {SslVerified, SslOn} \<or>
            (\<exists>params. parse (ds_url (mo_base m)) = Inr params \<and>
               params ''sslmode'' \<in> {Some ''disable'', Some ''require'', Some ''prefer'', Some ''allow''})) \<and>
         \<not> ds_synchronize (mo_base m) \<and> ds_migrationsRun (mo_base m) = Some False \<and> ds_migrations (mo_base m) = None \<and>
         truthy (env ''DATABASE_URL'') = Some (ds_url (mo_base m)) \<and>
         (auto_detect env shop_registry = Some (n, r) \<longrightarrow>
            rg_detectionFn r env \<and> (\<forall>(n', r') \<in> set shop_registry. rg_detectionFn r' env \<longrightarrow> rg_priority r' \<le> rg_priority r))"
proof -
  obtain a url where a: "create_adapter parse env shop_registry
      (case config ''DATABASE_PROVIDER'' of Some (EnvString p) \<Rightarrow> Some p | _ \<Rightarrow> None) = Inr (a, url)"
    and base: "getModuleOptions resolve dirname parse env url = Inr (mo_base m)"
    using opts by (auto simp: getTypeOrmModuleOptions_def Let_def split: sum.splits)
  have url: "truthy (env ''DATABASE_URL'') = Some url"
    using a by (auto simp: create_adapter_def split: sum.splits option.splits elim!: new_adapter.elims)
  have b: "ds_url (mo_base m) = url" "ds_ssl (mo_base m) = getSslConfig parse env url" "\<not> ds_synchronize (mo_base m)"
     "ds_migrationsRun (mo_base m) = Some False" "ds_migrations (mo_base m) = None"
  proof -
    obtain ds where ds: "getDataSourceOptions resolve dirname parse env url = Inr ds"
      and m: "mo_base m = ds\<lparr>ds_migrations := None, ds_migrationsRun := Some False\<rparr>"
      using base by (auto simp: getModuleOptions_def split: sum.splits)
    then show "ds_url (mo_base m) = url" "ds_ssl (mo_base m) = getSslConfig parse env url" "\<not> ds_synchronize (mo_base m)"
     "ds_migrationsRun (mo_base m) = Some False" "ds_migrations (mo_base m) = None"
      by (auto simp: getDataSourceOptions_def Let_def split: sum.splits prod.splits)
  qed
  have "rg_detectionFn r env \<and> (\<forall>(n', r') \<in> set shop_registry. rg_detectionFn r' env \<longrightarrow> rg_priority r' \<le> rg_priority r)"
    if "auto_detect env shop_registry = Some (n, r)"
    using find_sorted_best [OF that [unfolded auto_detect_def by_priority_def]] by auto
  then show ?thesis
    using url b assms(2) by (auto simp: getSslConfig_def Let_def split: sum.splits if_splits)
qed

text \<open>A production shop that names no provider.\<close>
definition sample_database :: variables where
  "sample_database = map_of [(''APP'', '' Shop''), (''NODE_ENV'', ''production''), (''DATABASE_URL'', ''postgres://u@h.neon.tech/shop'')]"

theorem database_connection_is_safe_witness:
  "\<exists>m. getTypeOrmModuleOptions concat ''dist'' (\<lambda>_. Inr (\<lambda>_. None)) sample_database (\<lambda>_. None) = Inr m \<and>
     ds_ssl (mo_base m) \<in> {SslVerified, SslOn}"
proof -
  have "\<not> isl (getTypeOrmModuleOptions concat ''dist'' (\<lambda>_. Inr (\<lambda>_. None)) sample_database (\<lambda>_. None))"
    and dev: "\<not> isDevelopment sample_database" by code_simp+
  then obtain m where m: "getTypeOrmModuleOptions concat ''dist'' (\<lambda>_. Inr (\<lambda>_. None)) sample_database (\<lambda>_. None) = Inr m"
    by (metis sum.collapse(2))
  from database_connection_is_safe [OF m dev] m show ?thesis by auto
qed

end
