(* ===== verification/Lifecycle.thy ===== *)
theory Lifecycle
  imports Environment
begin

text \<open>
  The life of the shop's process: \<^verbatim>\<open>core/process\<close> with its module-level flag, and the start-up of
  \<^verbatim>\<open>main.ts\<close> as far as it decides whether and how the process ends. What happens to the process
  is a step relation: signals, uncaught errors, and the end of the asynchronous
  \<^verbatim>\<open>app.close()\<close>.
\<close>

section \<open>The handlers\<close>

datatype signal = SIGTERM | SIGINT

text \<open>\<open>pr_closing\<close>: a close of the application is under way, and what its caller does afterwards.\<close>
record process =
  pr_isShuttingDown :: bool
  pr_hasApp :: bool
  pr_handlers :: bool
  pr_closing :: "int option"
  pr_closed :: bool
  pr_exitCode :: "int option"

definition new_process :: process where
  "new_process = \<lparr>pr_isShuttingDown = False, pr_hasApp = False, pr_handlers = False, pr_closing = None,
     pr_closed = False, pr_exitCode = None\<rparr>"

definition alive :: "process \<Rightarrow> bool" where
  "alive p \<longleftrightarrow> pr_exitCode p = None"

text \<open>\<^verbatim>\<open>process.exit(code)\<close>: nothing runs afterwards.\<close>
definition exit_process :: "int \<Rightarrow> process \<Rightarrow> process" where
  "exit_process code p = p\<lparr>pr_exitCode := Some code\<rparr>"

text \<open>Both process-wide error handlers.\<close>
definition on_uncaught :: "process \<Rightarrow> process" where
  "on_uncaught p = (if pr_isShuttingDown p then p else exit_process 1 (p\<lparr>pr_isShuttingDown := True\<rparr>))"

text \<open>\<^verbatim>\<open>await safeClose(app); process.exit(code)\<close>: without an application, or with the flag set, the
  first returns at once; otherwise the exit waits for the close.\<close>
definition safeClose_then_exit :: "int \<Rightarrow> process \<Rightarrow> process" where
  "safeClose_then_exit code p =
     (if \<not> pr_hasApp p then exit_process code p
      else if pr_isShuttingDown p then exit_process code p
      else p\<lparr>pr_isShuttingDown := True, pr_closing := Some code\<rparr>)"

text \<open>A failure of the close is only logged.\<close>
definition close_settles :: "exn option \<Rightarrow> process \<Rightarrow> process" where
  "close_settles failure p = (case pr_closing p of
     None \<Rightarrow> p | Some code \<Rightarrow> exit_process code (p\<lparr>pr_closing := None, pr_closed := (failure = None)\<rparr>))"

definition on_signal :: "signal \<Rightarrow> process \<Rightarrow> process" where
  "on_signal s p = safeClose_then_exit 0 p"

text \<open>Start-up: creating the application, then everything up to listening and registering the
  handlers; what fails is closed and ends the process with 1.\<close>
definition app_created :: "process \<Rightarrow> process" where
  "app_created p = p\<lparr>pr_hasApp := True\<rparr>"

definition start_up_done :: "process \<Rightarrow> process" where
  "start_up_done p = p\<lparr>pr_handlers := True\<rparr>"

definition bootstrap_fails :: "process \<Rightarrow> process" where
  "bootstrap_fails p = safeClose_then_exit 1 p"

section \<open>The steps of a process\<close>

datatype event = Created | Listening | Failed | Signalled signal | Uncaught | Closed "exn option"

text \<open>Signals without a handler kill the process by themselves and are not steps of it.\<close>
inductive process_step :: "process \<Rightarrow> event \<Rightarrow> process \<Rightarrow> bool" where
  created: "alive p \<Longrightarrow> \<not> pr_hasApp p \<Longrightarrow> process_step p Created (app_created p)"
| listening: "alive p \<Longrightarrow> pr_hasApp p \<Longrightarrow> \<not> pr_handlers p \<Longrightarrow> pr_closing p = None \<Longrightarrow> process_step p Listening (start_up_done p)"
| failed: "alive p \<Longrightarrow> \<not> pr_handlers p \<Longrightarrow> pr_closing p = None \<Longrightarrow> process_step p Failed (bootstrap_fails p)"
| signalled: "alive p \<Longrightarrow> pr_handlers p \<Longrightarrow> process_step p (Signalled s) (on_signal s p)"
| uncaught: "alive p \<Longrightarrow> process_step p Uncaught (on_uncaught p)"
| settled: "alive p \<Longrightarrow> pr_closing p \<noteq> None \<Longrightarrow> process_step p (Closed e) (close_settles e p)"

inductive_cases process_stepE: "process_step p e q"

inductive process_run :: "process \<Rightarrow> event list \<Rightarrow> process \<Rightarrow> bool" where
  stop: "process_run p [] p"
| step: "process_step p e q \<Longrightarrow> process_run q es r \<Longrightarrow> process_run p (e # es) r"

lemmas process_defs = app_created_def start_up_done_def bootstrap_fails_def on_signal_def on_uncaught_def
  close_settles_def safeClose_then_exit_def exit_process_def alive_def

lemma dead_process_stops: "process_run p es q \<Longrightarrow> \<not> alive p \<Longrightarrow> es = [] \<and> q = p"
  by (cases rule: process_run.cases) (auto elim: process_step.cases)

section \<open>What a run can end with\<close>

definition signals :: "event list \<Rightarrow> nat" where
  "signals es = length (filter (\<lambda>e. \<exists>s. e = Signalled s) es)"

text \<open>What holds of a process and the events it went through.\<close>
definition run_inv :: "event list \<Rightarrow> process \<Rightarrow> bool" where
  "run_inv h p \<longleftrightarrow>
     (if alive p
      then (pr_isShuttingDown p \<longleftrightarrow> pr_closing p \<noteq> None) \<and> pr_closing p \<in> {None, Some 0, Some 1} \<and>
        (pr_closing p \<noteq> None \<or> pr_handlers p \<longrightarrow> pr_hasApp p) \<and>
        (signals h = (if pr_closing p = Some 0 then 1 else 0)) \<and>
        (pr_closing p = Some 0 \<longrightarrow> pr_handlers p) \<and> (pr_closing p = Some 1 \<longrightarrow> \<not> pr_handlers p \<and> Failed \<in> set h)
      else (pr_exitCode p = Some 0 \<and> (signals h = 1 \<and> (\<exists>e. last h = Closed e) \<or> signals h = 2) \<or>
        pr_exitCode p = Some 1 \<and> (Failed \<in> set h \<or> Uncaught \<in> set h)))"

lemma signals_snoc: "signals (h @ [e]) = signals h + (case e of Signalled s \<Rightarrow> 1 | _ \<Rightarrow> 0)"
  by (simp add: signals_def split: event.splits)

lemma run_inv_step: "process_step p e q \<Longrightarrow> run_inv h p \<Longrightarrow> run_inv (h @ [e]) q"
  by (erule process_stepE) (auto simp: run_inv_def process_defs signals_snoc split: if_splits option.splits)

lemma run_inv_run: "process_run p es q \<Longrightarrow> run_inv h p \<Longrightarrow> run_inv (h @ es) q"
proof (induction arbitrary: h rule: process_run.induct)
  case (step p e q es r)
  show ?case using step.IH [OF run_inv_step [OF step.hyps(1) step.prems]] by simp
qed simp

lemma run_inv_new: "run_inv [] new_process"
  by (simp add: run_inv_def new_process_def alive_def signals_def)

text \<open>A process that ends ends with 0 after a signal and with 1 after a failed start or an
  uncaught error; when one signal came, the exit is the step at which the close of the
  application settles, and only a second signal ends the process before that.\<close>
theorem process_ends_as_documented:
  assumes "process_run new_process es p" and "pr_exitCode p = Some c"
  shows "c = 0 \<and> signals es = 1 \<and> (\<exists>e. last es = Closed e) \<or> c = 0 \<and> signals es = 2 \<or>
         c = 1 \<and> (Failed \<in> set es \<or> Uncaught \<in> set es)"
  using run_inv_run [OF assms(1) run_inv_new] assms(2) by (auto simp: run_inv_def alive_def)

theorem process_ends_as_documented_witness:
  "\<exists>p. process_run new_process [Created, Listening, Signalled SIGTERM, Uncaught, Closed None] p \<and>
     pr_exitCode p = Some 0 \<and> (\<exists>e. last [Created, Listening, Signalled SIGTERM, Uncaught, Closed None] = Closed e)"
proof -
  let ?p = "\<lparr>pr_isShuttingDown = True, pr_hasApp = True, pr_handlers = True, pr_closing = None, pr_closed = True,
     pr_exitCode = Some 0\<rparr>"
  have "process_run new_process [Created, Listening, Signalled SIGTERM, Uncaught, Closed None] ?p"
    by (rule process_run.step [OF created] process_run.step [OF listening] process_run.step [OF signalled]
          process_run.step [OF uncaught] process_run.step [OF settled] |
        simp add: process_defs new_process_def process_run.stop)+
  from process_ends_as_documented [OF this, of 0] this show ?thesis by (auto simp: signals_def)
qed

text \<open>C37: Once a listening process was signalled, however many errors or signals follow, it has
  ended with 0, or the end of the close is still to come and will end it with 0.\<close>
theorem signalled_process_ends:
  assumes "alive p" "pr_hasApp p" "\<not> pr_isShuttingDown p" "process_run (on_signal s p) es q"
  shows "pr_exitCode q = Some 0 \<or> (\<forall>e. \<exists>r. process_run q [Closed e] r \<and> pr_exitCode r = Some 0)"
proof -
  have keep: "pr_exitCode q = Some 0 \<or> alive q \<and> pr_isShuttingDown q \<and> pr_closing q = Some 0"
    if "process_run p' es q" "pr_exitCode p' = Some 0 \<or> alive p' \<and> pr_isShuttingDown p' \<and> pr_closing p' = Some 0" for p' es q
    using that by (induction rule: process_run.induct)
      (auto elim!: process_stepE simp: process_defs split: if_splits)
  have "alive (on_signal s p) \<and> pr_isShuttingDown (on_signal s p) \<and> pr_closing (on_signal s p) = Some 0"
    using assms(1-3) by (simp add: process_defs)
  with keep [OF assms(4)] consider "pr_exitCode q = Some 0" | "alive q" "pr_closing q = Some 0" by blast
  then show ?thesis
  proof cases
    case 2
    have "process_run q [Closed e] (close_settles e q)" for e
      using 2 by (intro process_run.step [OF settled process_run.stop]) simp_all
    moreover have "pr_exitCode (close_settles e q) = Some 0" for e
      using 2 by (simp add: close_settles_def exit_process_def)
    ultimately show ?thesis by blast
  qed simp
qed

theorem signalled_process_ends_witness:
  "\<forall>e. \<exists>r. process_run (on_signal SIGINT (start_up_done (app_created new_process))) [Closed e] r \<and> pr_exitCode r = Some 0"
  using signalled_process_ends [of "start_up_done (app_created new_process)" SIGINT "[]"
      "on_signal SIGINT (start_up_done (app_created new_process))", OF _ _ _ process_run.stop]
  by (simp add: process_defs new_process_def)

end
