(* ===== verification/Deploy_Network.thy ===== *)
theory Deploy_Network
  imports Environment Exception_Filter
begin

text \<open>
  The trust boundaries of the deployment: \<^verbatim>\<open>infra/src/bootstrap.ts\<close>, the configuration of the
  network and the rules of \<^verbatim>\<open>foundation/security-groups.ts\<close>. Pulumi is outside: the values of a
  stack's configuration are arguments, a resource is the record of its arguments; descriptions
  and tags are left out.
\<close>

section \<open>The configuration of a stack\<close>

record stack_env =
  st_stack :: string
  st_get :: "string \<Rightarrow> string option"
  st_getNumber :: "string \<Rightarrow> rat option"
  st_getBoolean :: "string \<Rightarrow> bool option"
  st_getList :: "string \<Rightarrow> string list option"
  st_getSecret :: "string \<Rightarrow> string option"
  st_isDryRun :: bool
  st_awsRegion :: "string option"

definition or_default :: "'a option \<Rightarrow> 'a \<Rightarrow> 'a" where
  "or_default x d = (case x of Some y \<Rightarrow> y | None \<Rightarrow> d)"

definition projectPrefix :: "stack_env \<Rightarrow> string" where
  "projectPrefix S = or_default (st_get S ''projectPrefix'') ''rd-shop''"

definition aws_region :: "stack_env \<Rightarrow> string" where
  "aws_region S = or_default (st_awsRegion S) ''eu-central-1''"

definition resourceStackName :: "stack_env \<Rightarrow> string" where
  "resourceStackName S = (if st_stack S = ''production'' then ''prod'' else st_stack S)"

definition stackName :: "stack_env \<Rightarrow> string \<Rightarrow> string" where
  "stackName S name = projectPrefix S @ ''-'' @ resourceStackName S @ ''-'' @ name"

section \<open>The network\<close>

record network_config =
  nc_allTrafficPort :: int
  nc_anyIpv4Cidr :: string
  nc_endpointHttpsPort :: int
  nc_natInstanceAmiId :: "string option"
  nc_natInstanceType :: string
  nc_privateSubnetCidrs :: "string list"
  nc_publicSubnetCidrs :: "string list"
  nc_requiredAvailabilityZoneCount :: nat
  nc_vpcCidr :: string

definition validateSubnetCidrs :: "string \<Rightarrow> string list \<Rightarrow> nat \<Rightarrow> exn + unit" where
  "validateSubnetCidrs label subnetCidrs n =
     (if length subnetCidrs \<noteq> n
      then Inl (PlainError (label @ '' must contain exactly '' @ nat_str n @ '' CIDR blocks for Phase 0.2.''))
      else Inr ())"

definition getFoundationNetworkConfig :: "stack_env \<Rightarrow> exn + network_config" where
  "getFoundationNetworkConfig S =
     (let n = 2;
          privateSubnetCidrs = or_default (st_getList S ''privateSubnetCidrs'') [''10.42.10.0/24'', ''10.42.11.0/24''];
          publicSubnetCidrs = or_default (st_getList S ''publicSubnetCidrs'') [''10.42.0.0/24'', ''10.42.1.0/24'']
      in case validateSubnetCidrs ''privateSubnetCidrs'' privateSubnetCidrs n of
           Inl e \<Rightarrow> Inl e
         | Inr _ \<Rightarrow> (case validateSubnetCidrs ''publicSubnetCidrs'' publicSubnetCidrs n of
              Inl e \<Rightarrow> Inl e
            | Inr _ \<Rightarrow> Inr \<lparr>nc_allTrafficPort = 0, nc_anyIpv4Cidr = ''0.0.0.0/0'', nc_endpointHttpsPort = 443,
                nc_natInstanceAmiId = st_get S ''natInstanceAmiId'',
                nc_natInstanceType = or_default (st_get S ''natInstanceType'') ''t3.micro'',
                nc_privateSubnetCidrs = privateSubnetCidrs, nc_publicSubnetCidrs = publicSubnetCidrs,
                nc_requiredAvailabilityZoneCount = n,
                nc_vpcCidr = or_default (st_get S ''vpcCidr'') ''10.42.0.0/16''\<rparr>))"

definition getFoundationAvailabilityZones :: "string list \<Rightarrow> nat \<Rightarrow> exn + string list" where
  "getFoundationAvailabilityZones names n =
     (if length names < n
      then Inl (PlainError (''Phase 0.2 requires at least '' @ nat_str n @ '' availability zones.''))
      else Inr (take n names))"

definition resolveNatInstanceAmiId :: "string \<Rightarrow> network_config \<Rightarrow> string" where
  "resolveNatInstanceAmiId latest c = (case truthy (nc_natInstanceAmiId c) of Some i \<Rightarrow> i | None \<Rightarrow> latest)"

section \<open>The security groups\<close>

datatype security_group = SG_ALB | SG_ECS | SG_RDS_SHOP | SG_RDS_PAYMENTS | SG_MQ

record ports =
  po_albHttp :: int
  po_albHttps :: int
  po_ecsDynamicHostPortRangeEnd :: int
  po_ecsDynamicHostPortRangeStart :: int
  po_ecsPaymentsGrpc :: int
  po_ecsShopHttp :: int
  po_postgres :: int
  po_rabbitmqAmqp :: int

definition foundationSecurityGroupPorts :: ports where
  "foundationSecurityGroupPorts = \<lparr>po_albHttp = 80, po_albHttps = 443, po_ecsDynamicHostPortRangeEnd = 65535,
     po_ecsDynamicHostPortRangeStart = 32768, po_ecsPaymentsGrpc = 5001, po_ecsShopHttp = 8080, po_postgres = 5432,
     po_rabbitmqAmqp = 5672\<rparr>"

record security_group_config =
  sc_allProtocols :: string
  sc_allTrafficPort :: int
  sc_anyIpv4Cidr :: string
  sc_ports :: ports
  sc_publicIngressIpv4Cidrs :: "string list"
  sc_tcpProtocol :: string

definition getFoundationSecurityGroupConfig :: "stack_env \<Rightarrow> exn + security_group_config" where
  "getFoundationSecurityGroupConfig S = (case getFoundationNetworkConfig S of
     Inl e \<Rightarrow> Inl e
   | Inr nc \<Rightarrow> (let cidrs = or_default (st_getList S ''publicIngressIpv4Cidrs'') [''0.0.0.0/0''] in
       if cidrs = [] then Inl (PlainError ''publicIngressIpv4Cidrs must contain at least one CIDR block.'')
       else Inr \<lparr>sc_allProtocols = ''-1'', sc_allTrafficPort = nc_allTrafficPort nc, sc_anyIpv4Cidr = nc_anyIpv4Cidr nc,
         sc_ports = foundationSecurityGroupPorts, sc_publicIngressIpv4Cidrs = cidrs, sc_tcpProtocol = ''tcp''\<rparr>))"

datatype rule_source = FromCidrs "string list" | FromGroup security_group | FromSelf
datatype rule_type = Ingress | Egress

record group_rule =
  gr_name :: string
  gr_group :: security_group
  gr_type :: rule_type
  gr_protocol :: string
  gr_fromPort :: int
  gr_toPort :: int
  gr_source :: rule_source

definition createCidrRule :: "string \<Rightarrow> string list \<Rightarrow> security_group \<Rightarrow> string \<Rightarrow> int \<Rightarrow> int \<Rightarrow> rule_type \<Rightarrow> group_rule" where
  "createCidrRule name cidrBlocks g protocol fromPort toPort t =
     \<lparr>gr_name = name, gr_group = g, gr_type = t, gr_protocol = protocol, gr_fromPort = fromPort, gr_toPort = toPort,
      gr_source = FromCidrs cidrBlocks\<rparr>"

definition createSourceSecurityGroupRule ::
  "string \<Rightarrow> security_group \<Rightarrow> security_group \<Rightarrow> string \<Rightarrow> int \<Rightarrow> int \<Rightarrow> rule_type \<Rightarrow> group_rule" where
  "createSourceSecurityGroupRule name g src protocol fromPort toPort t =
     \<lparr>gr_name = name, gr_group = g, gr_type = t, gr_protocol = protocol, gr_fromPort = fromPort, gr_toPort = toPort,
      gr_source = FromGroup src\<rparr>"

definition createSelfRule :: "string \<Rightarrow> security_group \<Rightarrow> string \<Rightarrow> int \<Rightarrow> int \<Rightarrow> rule_type \<Rightarrow> group_rule" where
  "createSelfRule name g protocol fromPort toPort t =
     \<lparr>gr_name = name, gr_group = g, gr_type = t, gr_protocol = protocol, gr_fromPort = fromPort, gr_toPort = toPort,
      gr_source = FromSelf\<rparr>"

definition createFoundationSecurityGroups :: "stack_env \<Rightarrow> exn + group_rule list" where
  "createFoundationSecurityGroups S = (case getFoundationSecurityGroupConfig S of
     Inl e \<Rightarrow> Inl e
   | Inr c \<Rightarrow> (let po = sc_ports c; tcp = sc_tcpProtocol c; public = sc_publicIngressIpv4Cidrs c;
         egress = (\<lambda>(name, g). createCidrRule name [sc_anyIpv4Cidr c] g (sc_allProtocols c) (sc_allTrafficPort c) (sc_allTrafficPort c) Egress)
       in Inr
        ([createCidrRule ''sg-alb-ingress-http-public'' public SG_ALB tcp (po_albHttp po) (po_albHttp po) Ingress,
          createCidrRule ''sg-alb-ingress-https-public'' public SG_ALB tcp (po_albHttps po) (po_albHttps po) Ingress,
          createSourceSecurityGroupRule ''sg-ecs-ingress-shop-from-alb'' SG_ECS SG_ALB tcp
            (po_ecsDynamicHostPortRangeStart po) (po_ecsDynamicHostPortRangeEnd po) Ingress,
          createSelfRule ''sg-ecs-ingress-payments-self'' SG_ECS tcp (po_ecsPaymentsGrpc po) (po_ecsPaymentsGrpc po) Ingress,
          createSelfRule ''sg-ecs-ingress-shop-self'' SG_ECS tcp (po_ecsShopHttp po) (po_ecsShopHttp po) Ingress,
          createSourceSecurityGroupRule ''sg-rds-shop-ingress-postgres-from-ecs'' SG_RDS_SHOP SG_ECS tcp
            (po_postgres po) (po_postgres po) Ingress,
          createSourceSecurityGroupRule ''sg-rds-payments-ingress-postgres-from-ecs'' SG_RDS_PAYMENTS SG_ECS tcp
            (po_postgres po) (po_postgres po) Ingress,
          createSourceSecurityGroupRule ''sg-mq-ingress-amqp-from-ecs'' SG_MQ SG_ECS tcp 5672 5672 Ingress]
         @ map egress [(''sg-alb-egress-all'', SG_ALB), (''sg-ecs-egress-all'', SG_ECS), (''sg-rds-shop-egress-all'', SG_RDS_SHOP),
             (''sg-rds-payments-egress-all'', SG_RDS_PAYMENTS), (''sg-mq-egress-all'', SG_MQ)])))"

section \<open>What can talk to what\<close>

datatype origin = Internet | Member security_group

definition origin_of :: "group_rule \<Rightarrow> origin" where
  "origin_of r = (case gr_source r of FromCidrs _ \<Rightarrow> Internet | FromGroup s \<Rightarrow> Member s | FromSelf \<Rightarrow> Member (gr_group r))"

text \<open>An ingress rule that names the origin and covers the port.\<close>
definition admitted :: "group_rule list \<Rightarrow> origin \<Rightarrow> security_group \<Rightarrow> int \<Rightarrow> bool" where
  "admitted rs from g port \<longleftrightarrow> (\<exists>r \<in> set rs. gr_type r = Ingress \<and> gr_group r = g \<and>
     gr_fromPort r \<le> port \<and> port \<le> gr_toPort r \<and>
     origin_of r = from)"

text \<open>The shortest way in: how many hops an origin needs to a group and port, over ports that
  are admitted one after the other.\<close>
inductive reachable_in :: "group_rule list \<Rightarrow> nat \<Rightarrow> origin \<Rightarrow> security_group \<Rightarrow> bool" for rs where
  direct: "admitted rs from g port \<Longrightarrow> reachable_in rs 1 from g"
| hop: "reachable_in rs n from g \<Longrightarrow> admitted rs (Member g) g' port \<Longrightarrow> reachable_in rs (Suc n) from g'"

text \<open>The ways in, without their names.\<close>
definition ways_in :: "group_rule list \<Rightarrow> (security_group \<times> int \<times> int \<times> origin) list" where
  "ways_in rs = map (\<lambda>r. (gr_group r, gr_fromPort r, gr_toPort r, origin_of r))
     (filter (\<lambda>r. gr_type r = Ingress) rs)"

lemma admitted_ways_in: "admitted rs from g port \<longleftrightarrow> (\<exists>(g', lo, hi, from') \<in> set (ways_in rs). g' = g \<and> from' = from \<and> lo \<le> port \<and> port \<le> hi)"
  by (auto simp: admitted_def ways_in_def)

lemma groups_ways_in:
  assumes "createFoundationSecurityGroups S = Inr rs"
  shows "ways_in rs = [(SG_ALB, 80, 80, Internet), (SG_ALB, 443, 443, Internet), (SG_ECS, 32768, 65535, Member SG_ALB),
     (SG_ECS, 5001, 5001, Member SG_ECS), (SG_ECS, 8080, 8080, Member SG_ECS), (SG_RDS_SHOP, 5432, 5432, Member SG_ECS),
     (SG_RDS_PAYMENTS, 5432, 5432, Member SG_ECS), (SG_MQ, 5672, 5672, Member SG_ECS)]"
  using assms by (auto simp: createFoundationSecurityGroups_def getFoundationSecurityGroupConfig_def Let_def
      createCidrRule_def createSourceSecurityGroupRule_def createSelfRule_def ways_in_def origin_of_def foundationSecurityGroupPorts_def
      split: sum.splits if_splits)

lemma groups_admit:
  assumes "createFoundationSecurityGroups S = Inr rs"
  shows "admitted rs from g port \<longleftrightarrow>
    (case g of SG_ALB \<Rightarrow> from = Internet \<and> port \<in> {80, 443}
     | SG_ECS \<Rightarrow> from = Member SG_ALB \<and> 32768 \<le> port \<and> port \<le> 65535 \<or> from = Member SG_ECS \<and> port \<in> {5001, 8080}
     | SG_MQ \<Rightarrow> from = Member SG_ECS \<and> port = 5672
     | _ \<Rightarrow> from = Member SG_ECS \<and> port = 5432)"
  unfolding admitted_ways_in groups_ways_in [OF assms] by (cases g) auto

definition depth :: "security_group \<Rightarrow> nat" where
  "depth g = (case g of SG_ALB \<Rightarrow> 1 | SG_ECS \<Rightarrow> 2 | _ \<Rightarrow> 3)"

text \<open>C39: From the internet only the load balancer is reached, on its two public ports; the
  tasks are reached from it on the dynamic ports alone, so neither the payments port nor a data
  store is; the databases and the broker are reached from the tasks only, on their one port, and
  three hops from outside at the least.\<close>
theorem data_stores_are_three_hops_away:
  assumes "createFoundationSecurityGroups S = Inr rs"
  shows "(admitted rs Internet g port \<longleftrightarrow> g = SG_ALB \<and> port \<in> {80, 443}) \<and>
    (admitted rs (Member SG_ALB) g port \<longleftrightarrow> g = SG_ECS \<and> port \<in> {32768..65535}) \<and>
    \<not> admitted rs (Member SG_ALB) SG_ECS (po_ecsPaymentsGrpc foundationSecurityGroupPorts) \<and>
    (g \<in> {SG_RDS_SHOP, SG_RDS_PAYMENTS, SG_MQ} \<longrightarrow>
       (admitted rs from g port \<longleftrightarrow> from = Member SG_ECS \<and> port = (if g = SG_MQ then 5672 else 5432)) \<and>
       (reachable_in rs n Internet g \<longrightarrow> 3 \<le> n))"
proof -
  note admit = groups_admit [OF assms]
  have "depth g \<le> n" if "reachable_in rs n Internet g" for n g
    using that
  proof (induction n Internet g rule: reachable_in.induct)
    case (direct g port)
    then show ?case by (cases g) (auto simp: admit depth_def)
  next
    case (hop n g g' port)
    then show ?case by (cases g; cases g') (auto simp: admit depth_def)
  qed
  then have "3 \<le> n" if "reachable_in rs n Internet g" "g \<in> {SG_RDS_SHOP, SG_RDS_PAYMENTS, SG_MQ}"
    using that by (fastforce simp: depth_def)
  then show ?thesis
    by (cases g) (auto simp: admit foundationSecurityGroupPorts_def)
qed

definition sample_stack :: stack_env where
  "sample_stack = \<lparr>st_stack = ''stage'', st_get = (\<lambda>_. None), st_getNumber = (\<lambda>_. None), st_getBoolean = (\<lambda>_. None),
     st_getList = (\<lambda>_. None), st_getSecret = (\<lambda>k. Some (k @ ''-0123456789abcdef0123456789abcdef'')), st_isDryRun = False,
     st_awsRegion = None\<rparr>"

theorem data_stores_are_three_hops_away_witness:
  "\<exists>rs. createFoundationSecurityGroups sample_stack = Inr rs \<and> admitted rs (Member SG_ECS) SG_MQ 5672 \<and>
     \<not> admitted rs Internet SG_MQ 5672"
proof -
  have "\<not> isl (createFoundationSecurityGroups sample_stack)" by code_simp
  then obtain rs where rs: "createFoundationSecurityGroups sample_stack = Inr rs" by (metis sum.collapse(2))
  from data_stores_are_three_hops_away [OF rs, of SG_MQ 5672 "Member SG_ECS"] rs show ?thesis by auto
qed

end
