(* ===== verification/Environment_Theorems.thy ===== *)
theory Environment_Theorems
  imports Environment
begin

text \<open>
  What a validated configuration gives the services that read it, and the bounds of what is
  computed from it.
\<close>

lemma find_by_name: "distinct (map ev_name xs) \<Longrightarrow> x \<in> set xs \<Longrightarrow> find (\<lambda>v. ev_name v = ev_name x) xs = Some x"
  by (induction xs) auto

lemma names_distinct: "distinct (map ev_name shop_environment)"
  by (simp add: shop_environment_def shop_environment_a_to_m_def shop_environment_n_to_z_def
      required_def optional_string_def optional_number_def)

lemma validated_variable:
  assumes ok: "createValidate schema c = Inr config" and "distinct (map ev_name schema)" and x: "x \<in> set schema"
  shows "config (ev_name x) = map_option (convert x) (c (ev_name x))"
    and "config (ev_name x) \<noteq> None \<or> \<not> ev_isOptional x \<Longrightarrow> k \<in> set (ev_checks x) \<Longrightarrow> check_value k (config (ev_name x))"
proof -
  have *: "failed_checks c x = []"
    using ok x by (auto simp: createValidate_def Let_def filter_empty_conv split: if_splits)
  show config: "config (ev_name x) = map_option (convert x) (c (ev_name x))"
    using ok find_by_name [OF assms(2) x] by (auto simp: createValidate_def Let_def split: if_splits)
  show "check_value k (config (ev_name x))" if "config (ev_name x) \<noteq> None \<or> \<not> ev_isOptional x" "k \<in> set (ev_checks x)"
    using * that config by (auto simp: failed_checks_def Let_def filter_empty_conv split: if_splits)
qed

lemma validated_required:
  assumes "createValidate shop_environment c = Inr config" "required n ks \<in> set shop_environment" "k \<in> set ks"
  shows "check_value k (config n)"
  using validated_variable(2) [OF assms(1) names_distinct assms(2), of k] assms(3) by (simp add: required_def)

lemma validated_number:
  assumes "createValidate shop_environment c = Inr config" "optional_number n \<in> set shop_environment" "config n = Some x"
  shows "\<exists>q. x = EnvNumber (Finite q)"
  using validated_variable(2) [OF assms(1) names_distinct assms(2), of IsNumber] assms(3)
  by (auto simp: optional_number_def split: env_value.splits js_num.splits)

lemma checked:
  "check_value IsString x \<longleftrightarrow> (\<exists>s. x = Some (EnvString s))"
  "check_value IsNumber x \<longleftrightarrow> (\<exists>q. x = Some (EnvNumber (Finite q)))"
  "check_value (IsEnum vs) x \<longleftrightarrow> (\<exists>s \<in> set vs. x = Some (EnvString s))"
  "check_value (MinLength n) x \<longleftrightarrow> (\<exists>s. x = Some (EnvString s) \<and> n \<le> length s)"
  by (auto split: option.splits env_value.splits js_num.splits)

lemma in_environment:
  "required ''PORT'' [IsNumber] \<in> set shop_environment"
  "required ''RABBITMQ_PORT'' [IsNumber] \<in> set shop_environment"
  "required ''PAYMENTS_GRPC_PORT'' [IsNumber] \<in> set shop_environment"
  "required ''TOKEN_HMAC_SECRET'' [IsString, MinLength 32] \<in> set shop_environment"
  "required ''JWT_ACCESS_SECRET'' [IsString] \<in> set shop_environment"
  "required ''AWS_S3_BUCKET'' [IsString] \<in> set shop_environment"
  "required ''NODE_ENV'' [IsEnum NodeEnvironment] \<in> set shop_environment"
  "optional_number ''THROTTLE_SHORT_LIMIT'' \<in> set shop_environment"
  "optional_number ''BCRYPT_SALT_ROUNDS'' \<in> set shop_environment"
  by (simp_all add: shop_environment_def shop_environment_a_to_m_def shop_environment_n_to_z_def)

text \<open>A configuration the shop starts with holds every secret, host and port it cannot do
  without: the token secret has 32 characters or more, the ports are finite numbers, the
  environment is one of the three known ones, and every optional number that is set is a finite
  number; the short throttle limit is positive whatever was configured.\<close>
theorem accepted_environment_is_usable:
  assumes "createValidate shop_environment c = Inr config"
  shows "(\<forall>n \<in> {''PORT'', ''RABBITMQ_PORT'', ''PAYMENTS_GRPC_PORT''}. \<exists>q. config n = Some (EnvNumber (Finite q))) \<and>
    (\<exists>s. config ''TOKEN_HMAC_SECRET'' = Some (EnvString s) \<and> c ''TOKEN_HMAC_SECRET'' = Some s \<and> 32 \<le> length s) \<and>
    (\<exists>s. config ''JWT_ACCESS_SECRET'' = Some (EnvString s)) \<and>
    (\<exists>s. config ''AWS_S3_BUCKET'' = Some (EnvString s)) \<and>
    (\<exists>s \<in> set NodeEnvironment. config ''NODE_ENV'' = Some (EnvString s)) \<and>
    (\<forall>x. getEnvVariable config ''BCRYPT_SALT_ROUNDS'' = Some x \<longrightarrow> (\<exists>q. x = EnvNumber (Finite q))) \<and>
    (\<forall>t \<in> set (snd (getThrottlerModuleOptions c config)). th_limit t > 0)"
proof (intro conjI)
  note needed = validated_required [OF assms]
  show "\<forall>n \<in> {''PORT'', ''RABBITMQ_PORT'', ''PAYMENTS_GRPC_PORT''}. \<exists>q. config n = Some (EnvNumber (Finite q))"
    using needed [OF in_environment(1)] needed [OF in_environment(2)] needed [OF in_environment(3)]
    by (simp add: checked del: check_value.simps)
  have "check_value (MinLength 32) (config ''TOKEN_HMAC_SECRET'')"
    by (rule needed [OF in_environment(4)]) simp
  moreover have "config ''TOKEN_HMAC_SECRET'' = map_option EnvString (c ''TOKEN_HMAC_SECRET'')"
    using validated_variable(1) [OF assms names_distinct in_environment(4)] by (simp add: required_def convert_def [abs_def])
  ultimately show "\<exists>s. config ''TOKEN_HMAC_SECRET'' = Some (EnvString s) \<and> c ''TOKEN_HMAC_SECRET'' = Some s \<and> 32 \<le> length s"
    by (auto simp: checked simp del: check_value.simps)
  show "\<exists>s. config ''JWT_ACCESS_SECRET'' = Some (EnvString s)" "\<exists>s. config ''AWS_S3_BUCKET'' = Some (EnvString s)"
    using needed [OF in_environment(5)] needed [OF in_environment(6)] by (simp_all add: checked del: check_value.simps)
  show "\<exists>s \<in> set NodeEnvironment. config ''NODE_ENV'' = Some (EnvString s)"
    using needed [OF in_environment(7)] by (simp add: checked del: check_value.simps)
  show "\<forall>x. getEnvVariable config ''BCRYPT_SALT_ROUNDS'' = Some x \<longrightarrow> (\<exists>q. x = EnvNumber (Finite q))"
    using validated_number [OF assms in_environment(9)]
    by (auto simp: getEnvVariable_def DEFAULT_VALUES_def split: option.splits)
  show "\<forall>t \<in> set (snd (getThrottlerModuleOptions c config)). th_limit t > 0"
    by (simp add: getThrottlerModuleOptions_def getShortThrottlerLimit_def split: option.splits env_value.splits js_num.splits)
qed

definition sample_variables :: "string \<Rightarrow> string option" where
  "sample_variables = map_of [(''APP'', ''shop''), (''AWS_REGION'', ''eu''), (''AWS_S3_BUCKET'', ''shop''),
     (''DATABASE_PROVIDER'', ''postgres''), (''DATABASE_URL'', ''postgres://localhost/shop''),
     (''JWT_ACCESS_SECRET'', ''s''), (''NODE_ENV'', ''test''), (''PAYMENTS_GRPC_HOST'', ''payments''),
     (''PAYMENTS_GRPC_PORT'', ''5''), (''PORT'', ''8''), (''RABBITMQ_HOST'', ''mq''),
     (''RABBITMQ_PASSWORD'', ''p''), (''RABBITMQ_PORT'', ''7''), (''RABBITMQ_USER'', ''u''),
     (''THROTTLE_SHORT_LIMIT'', ''0''), (''TOKEN_HMAC_SECRET'', ''0123456789abcdef0123456789abcdef'')]"

theorem accepted_environment_is_usable_witness:
  "\<exists>config. createValidate shop_environment sample_variables = Inr config \<and>
     (\<exists>q. config ''PORT'' = Some (EnvNumber (Finite q)))"
proof -
  have numbers: "js_Number ''8'' = Finite 8" "js_Number ''5'' = Finite 5"
      "js_Number ''7'' = Finite 7" "js_Number ''0'' = Finite 0"
  proof -
    have "nat_str 8 = ''8''" "nat_str 5 = ''5''" "nat_str 7 = ''7''" "nat_str 0 = ''0''"
      by (simp_all add: nat_str.simps char_of_def bit_simps)
    then show "js_Number ''8'' = Finite 8" "js_Number ''5'' = Finite 5"
      "js_Number ''7'' = Finite 7" "js_Number ''0'' = Finite 0"
    using js_Number_nat_str [of 8] js_Number_nat_str [of 5] js_Number_nat_str [of 7] js_Number_nat_str [of 0]
      by simp_all
  qed
  have strings: "\<forall>v \<in> set (filter (\<lambda>v. IsNumber \<notin> set (ev_checks v)) shop_environment). failed_checks sample_variables v = []"
    by code_simp
  have set_numbers: "\<forall>v \<in> set (filter (\<lambda>v. IsNumber \<in> set (ev_checks v)) shop_environment). ev_checks v = [IsNumber] \<and>
      (sample_variables (ev_name v) = None \<and> ev_isOptional v \<or>
       sample_variables (ev_name v) \<in> set [Some ''8'', Some ''5'', Some ''7'', Some ''0''])"
    by code_simp
  have "failed_checks sample_variables v = []" if "v \<in> set shop_environment" for v
  proof (cases "IsNumber \<in> set (ev_checks v)")
    case True
    with set_numbers that have "ev_checks v = [IsNumber]"
      "sample_variables (ev_name v) = None \<and> ev_isOptional v \<or>
       sample_variables (ev_name v) \<in> set [Some ''8'', Some ''5'', Some ''7'', Some ''0'']" by auto
    then show ?thesis by (auto simp: failed_checks_def convert_def numbers Let_def)
  qed (use strings that in simp)
  then have "\<not> isl (createValidate shop_environment sample_variables)"
    by (auto simp: createValidate_def Let_def filter_empty_conv)
  then obtain config where c: "createValidate shop_environment sample_variables = Inr config"
    by (metis sum.collapse(2))
  from accepted_environment_is_usable [OF c] c show ?thesis by auto
qed

end
