(* ===== verification/Deploy_Runtime.thy ===== *)
theory Deploy_Runtime
  imports Deploy_Network Environment_Theorems Mail Keyset
begin

text \<open>
  What the deployed services are configured with: \<^verbatim>\<open>public-domain.ts\<close>, the credentials of
  \<^verbatim>\<open>mq-config.ts\<close>, \<^verbatim>\<open>runtime-config-config.ts\<close>, \<^verbatim>\<open>runtime-config.ts\<close> and the secrets of the
  containers (\<^verbatim>\<open>service-definitions.ts\<close>). \<^verbatim>\<open>String\<close> of a number is an argument \<open>numstr\<close>; the
  objects keep the order of their keys.
\<close>

section \<open>The public domain\<close>

definition normalizeOptionalValue :: "string option \<Rightarrow> string option" where
  "normalizeOptionalValue v = truthy (map_option js_trim v)"

definition drop_last_dot :: "string \<Rightarrow> string" where
  "drop_last_dot s = (if s \<noteq> [] \<and> last s = CHR ''.'' then butlast s else s)"

definition normalizeDomain :: "string option \<Rightarrow> string option" where
  "normalizeDomain v = map_option (\<lambda>s. map char_lower (drop_last_dot s)) (normalizeOptionalValue v)"

definition is_letter :: "char \<Rightarrow> bool" where
  "is_letter c = (let n = of_char (char_lower c) :: nat in 97 \<le> n \<and> n \<le> 122)"

definition is_alnum :: "char \<Rightarrow> bool" where
  "is_alnum c = (is_letter c \<or> digit_val c \<noteq> None)"

text \<open>One label of the pattern: letters, digits and inner hyphens, 63 at most.\<close>
definition is_label :: "string \<Rightarrow> bool" where
  "is_label l = (l \<noteq> [] \<and> length l \<le> 63 \<and> is_alnum (hd l) \<and> is_alnum (last l) \<and> (\<forall>c \<in> set l. is_alnum c \<or> c = CHR ''-''))"

definition isDomainName :: "string \<Rightarrow> bool" where
  "isDomainName v = (let ls = split_on (CHR ''.'') v in
     v \<noteq> [] \<and> length v \<le> 253 \<and> length ls \<ge> 2 \<and> (\<forall>l \<in> set (butlast ls). is_label l) \<and>
     (\<forall>c \<in> set (last ls). is_letter c) \<and> 2 \<le> length (last ls) \<and> length (last ls) \<le> 63)"

record public_domain =
  pd_apiDomainName :: string
  pd_hostedZoneId :: "string option"
  pd_rootDomainName :: string

definition buildPublicApiDomainName :: "stack_env \<Rightarrow> string \<Rightarrow> string" where
  "buildPublicApiDomainName S rootName =
     (if st_stack S = ''production'' then ''api.'' @ rootName else ''api-'' @ st_stack S @ ''.'' @ rootName)"

definition ends_with :: "string \<Rightarrow> string \<Rightarrow> bool" where
  "ends_with s e = (length e \<le> length s \<and> drop (length s - length e) s = e)"

definition validateRootDomainName :: "string \<Rightarrow> exn + unit" where
  "validateRootDomainName rootName =
     (if \<not> isDomainName rootName then Inl (PlainError ''publicRootDomainName must be a valid domain name.'')
      else if length (split_on (CHR ''.'') rootName) < 2
      then Inl (PlainError ''publicRootDomainName must include a registrable root domain, e.g. example.com.'')
      else Inr ())"

definition validateApiDomainName :: "string \<Rightarrow> string \<Rightarrow> exn + unit" where
  "validateApiDomainName api rootName =
     (if \<not> isDomainName api then Inl (PlainError ''publicApiDomainName must be a valid fully qualified domain name.'')
      else if api = rootName \<or> \<not> ends_with api (CHR ''.'' # rootName)
      then Inl (PlainError ''publicApiDomainName must be a subdomain of publicRootDomainName.'')
      else Inr ())"

definition validateHostedZoneId :: "string option \<Rightarrow> exn + unit" where
  "validateHostedZoneId z = (case truthy z of
     None \<Rightarrow> Inr ()
   | Some i \<Rightarrow> if char_lower (hd i) = CHR ''z'' \<and> tl i \<noteq> [] \<and> (\<forall>c \<in> set (tl i). is_alnum c) then Inr ()
       else Inl (PlainError ''publicHostedZoneId must look like a valid Route 53 hosted zone ID.''))"

definition getPublicDomainConfig :: "stack_env \<Rightarrow> exn + public_domain option" where
  "getPublicDomainConfig S = (case truthy (normalizeDomain (st_get S ''publicRootDomainName'')) of
     None \<Rightarrow> Inr None
   | Some rootName \<Rightarrow>
       (let api = or_default (normalizeDomain (st_get S ''publicApiDomainName'')) (buildPublicApiDomainName S rootName);
            zone = normalizeOptionalValue (st_get S ''publicHostedZoneId'')
        in case validateRootDomainName rootName of Inl e \<Rightarrow> Inl e
         | Inr _ \<Rightarrow> (case validateApiDomainName api rootName of Inl e \<Rightarrow> Inl e
            | Inr _ \<Rightarrow> (case validateHostedZoneId zone of Inl e \<Rightarrow> Inl e
               | Inr _ \<Rightarrow> Inr (Some \<lparr>pd_apiDomainName = api, pd_hostedZoneId = zone, pd_rootDomainName = rootName\<rparr>)))))"

section \<open>Secrets\<close>

definition missing_secret :: "string \<Rightarrow> exn" where
  "missing_secret key = PlainError (''Missing required secret config '' @ in_dq key @
     ''. Provide it via stack-local config or an imported Pulumi ESC environment (fallback: pulumi config set --secret '' @ key @ '' <value>).'')"

text \<open>The validations run when the secret is resolved; what they refuse is refused here.\<close>
definition getRequiredNonEmptySecretConfig :: "stack_env \<Rightarrow> string \<Rightarrow> string \<Rightarrow> exn + string" where
  "getRequiredNonEmptySecretConfig S key previewValue = (case st_getSecret S key of
     Some v \<Rightarrow> if js_trim v = [] then Inl (PlainError (key @ '' cannot be empty.'')) else Inr v
   | None \<Rightarrow> if st_isDryRun S then Inr previewValue else Inl (missing_secret key))"

definition buildPreviewSecretValue :: "string \<Rightarrow> nat \<Rightarrow> string" where
  "buildPreviewSecretValue key minimumLength =
     (let repeatedValue = ''preview-only-'' @ key @ ''-'' in
      if length repeatedValue < minimumLength
      then concat (replicate ((minimumLength + length repeatedValue - 1) div length repeatedValue) repeatedValue)
      else repeatedValue)"

definition getRequiredSecretConfig :: "stack_env \<Rightarrow> string \<Rightarrow> nat \<Rightarrow> exn + string" where
  "getRequiredSecretConfig S key minimumLength = (case st_getSecret S key of
     Some v \<Rightarrow> if length v < minimumLength
        then Inl (PlainError (key @ '' must be at least '' @ nat_str minimumLength @ '' characters long.'')) else Inr v
   | None \<Rightarrow> if st_isDryRun S then Inr (buildPreviewSecretValue key minimumLength) else Inl (missing_secret key))"

section \<open>The parameters of the services\<close>

type_synonym settings = "(string \<times> string) list"

definition deployed_url :: "stack_env \<Rightarrow> public_domain option \<Rightarrow> string" where
  "deployed_url S pd = (case pd of
     Some p \<Rightarrow> ''https://'' @ pd_apiDomainName p
   | None \<Rightarrow> if st_stack S = ''production'' then ''https://'' @ projectPrefix S @ ''.example.com''
       else ''https://'' @ st_stack S @ ''.'' @ projectPrefix S @ ''.example.com'')"

definition app_log_level :: "stack_env \<Rightarrow> string" where
  "app_log_level S = (if st_stack S = ''production'' then ''log'' else ''debug'')"

definition payments_parameters :: "(rat \<Rightarrow> string) \<Rightarrow> stack_env \<Rightarrow> settings" where
  "payments_parameters numstr S =
     (let get = (\<lambda>k d. or_default (st_get S k) d) in
      [(''APP'', ''payments''), (''APP_LOG_LEVEL'', get ''paymentsAppLogLevel'' (app_log_level S)),
       (''DATABASE_PROVIDER'', get ''paymentsDatabaseProvider'' ''postgres''),
       (''NODE_ENV'', get ''paymentsNodeEnv'' ''production''), (''PAYMENTS_GRPC_HOST'', get ''paymentsGrpcHost'' ''0.0.0.0''),
       (''PAYMENTS_GRPC_PORT'', numstr (or_default (st_getNumber S ''paymentsGrpcPort'') 5001))])"

text \<open>The one key whose value may be undefined is left out when it is.\<close>
definition shop_parameters :: "(rat \<Rightarrow> string) \<Rightarrow> stack_env \<Rightarrow> public_domain option \<Rightarrow> settings" where
  "shop_parameters numstr S pd =
     (let get = (\<lambda>k d. or_default (st_get S k) d); num = (\<lambda>k d. numstr (or_default (st_getNumber S k) d)) in
      [(''ALLOW_SEED_IN_PRODUCTION'', get ''shopAllowSeedInProduction'' ''false''), (''APP'', ''shop''),
       (''APP_LOG_LEVEL'', get ''shopAppLogLevel'' (app_log_level S)),
       (''APP_URL'', get ''shopAppUrl'' (deployed_url S pd))] @
      (case st_get S ''shopCloudFrontUrl'' of None \<Rightarrow> [] | Some u \<Rightarrow> [(''AWS_CLOUDFRONT_URL'', u)]) @
      [(''AWS_S3_PRESIGNED_URL_DOWNLOAD_EXPIRATION'', num ''shopS3PresignedUrlDownloadExpiration'' 3600),
       (''AWS_S3_PRESIGNED_URL_EXPIRATION'', num ''shopS3PresignedUrlExpiration'' 900),
       (''AWS_SES_REGION'', get ''shopSesRegion'' (aws_region S)),
       (''BCRYPT_SALT_ROUNDS'', num ''shopBcryptSaltRounds'' 10),
       (''CORS_ALLOWED_ORIGINS'', get ''shopCorsAllowedOrigins'' (deployed_url S pd)),
       (''DATABASE_PROVIDER'', get ''shopDatabaseProvider'' ''postgres''), (''DB_POOL_SIZE'', num ''shopDbPoolSize'' 10),
       (''DB_SLOW_QUERY_THRESHOLD_MS'', num ''shopDbSlowQueryThresholdMs'' 500),
       (''DEPLOYMENT_ENVIRONMENT'', st_stack S),
       (''EMAIL_VERIFICATION_EXPIRES_IN'', get ''shopEmailVerificationExpiresIn'' ''24h''),
       (''EVENT_LOOP_LAG_THRESHOLD_MS'', num ''shopEventLoopLagThresholdMs'' 100),
       (''JWT_ACCESS_EXPIRES_IN'', get ''shopJwtAccessExpiresIn'' ''1h''),
       (''JWT_REFRESH_EXPIRES_IN'', get ''shopJwtRefreshExpiresIn'' ''7d''),
       (''NODE_ENV'', get ''shopNodeEnv'' ''production''),
       (''OBSERVABILITY_METRICS_ENABLED'', if st_stack S = ''production'' then ''true'' else ''false''),
       (''PASSWORD_RESET_EXPIRES_IN'', get ''shopPasswordResetExpiresIn'' ''1h''),
       (''PAYMENTS_GRPC_HOST'', get ''shopPaymentsGrpcHost'' ''payments.rd-shop.local''),
       (''PAYMENTS_GRPC_PORT'', num ''shopPaymentsGrpcPort'' 5001),
       (''PAYMENTS_GRPC_TIMEOUT_MS'', num ''shopPaymentsGrpcTimeoutMs'' 5000), (''PORT'', num ''shopPort'' 8080),
       (''RABBITMQ_DISABLE_PAYMENTS_AUTHORIZATION'', get ''shopRabbitmqDisablePaymentsAuthorization'' ''false''),
       (''RABBITMQ_HOST'', get ''shopRabbitmqHost'' (''pending-'' @ st_stack S @ ''-rabbitmq-broker'')),
       (''RABBITMQ_PORT'', num ''shopRabbitmqPort'' 5672), (''RABBITMQ_PREFETCH_COUNT'', num ''shopRabbitmqPrefetchCount'' 10),
       (''RABBITMQ_VHOST'', get ''shopRabbitmqVhost'' ''/''),
       (''SES_FROM_ADDRESS'', get ''shopSesFromAddress'' ''noreply@rdshop.com''),
       (''THROTTLE_SHORT_LIMIT'', num ''shopThrottleShortLimit'' (if st_stack S = ''stage'' then 6 else 3)),
       (''VERBOSE_TEST_LOGS'', get ''shopVerboseTestLogs'' ''false'')])"

record runtime_config =
  rc_parameterPathPrefix :: string
  rc_payments :: "settings"
  rc_secretRecoveryWindowInDays :: nat
  rc_shop :: "settings"
  rc_shopSecrets :: "settings"

definition getFoundationRuntimeConfig :: "(rat \<Rightarrow> string) \<Rightarrow> stack_env \<Rightarrow> exn + runtime_config" where
  "getFoundationRuntimeConfig numstr S =
     (case getPublicDomainConfig S of Inl e \<Rightarrow> Inl e | Inr pd \<Rightarrow>
      (case getRequiredNonEmptySecretConfig S ''shopRabbitmqPassword'' ''preview-only-shop-rabbitmq-password'' of
         Inl e \<Rightarrow> Inl e | Inr rabbitmqPassword \<Rightarrow>
      (case getRequiredNonEmptySecretConfig S ''shopRabbitmqUser'' ''preview-only-shop-rabbitmq-user'' of
         Inl e \<Rightarrow> Inl e | Inr rabbitmqUser \<Rightarrow>
      (case getRequiredSecretConfig S ''shopJwtAccessSecret'' 32 of Inl e \<Rightarrow> Inl e | Inr jwt \<Rightarrow>
      (case getRequiredSecretConfig S ''shopTokenHmacSecret'' 32 of Inl e \<Rightarrow> Inl e | Inr hmac \<Rightarrow>
       Inr \<lparr>rc_parameterPathPrefix = ''/'' @ projectPrefix S @ ''/'' @ st_stack S,
         rc_payments = payments_parameters numstr S,
         rc_secretRecoveryWindowInDays = (if st_stack S = ''production'' then 30 else 0),
         rc_shop = shop_parameters numstr S pd,
         rc_shopSecrets = [(''JWT_ACCESS_SECRET'', jwt), (''RABBITMQ_PASSWORD'', rabbitmqPassword),
            (''RABBITMQ_USER'', rabbitmqUser), (''TOKEN_HMAC_SECRET'', hmac)]\<rparr>)))))"

section \<open>What is provisioned\<close>

text \<open>\<^verbatim>\<open>{ ...a, k: v }\<close> on the values of an object: a key that is there keeps its place.\<close>
fun put_value :: "string \<Rightarrow> string \<Rightarrow> settings \<Rightarrow> settings" where
  "put_value k v [] = [(k, v)]"
| "put_value k v ((k1, v1) # kvs) = (if k1 = k then (k1, v) # kvs else (k1, v1) # put_value k v kvs)"

definition spread_values :: "settings \<Rightarrow> settings \<Rightarrow> settings" where
  "spread_values a b = fold (\<lambda>(k, v). put_value k v) b a"

record database_secret =
  ms_host :: "string option"
  ms_password :: "string option"
  ms_port :: "string option"
  ms_username :: "string option"

record database_endpoint =
  de_databaseHost :: string
  de_databaseName :: string
  de_databasePort :: string
  de_databaseUsername :: string
  de_masterUserSecret :: "database_secret option"

definition buildConnectionUrl :: "string \<Rightarrow> string \<Rightarrow> string \<Rightarrow> string \<Rightarrow> string \<Rightarrow> string \<Rightarrow> string" where
  "buildConnectionUrl databaseName host password port sslMode username =
     ''postgresql://'' @ username @ '':'' @ encodeURIComponent password @ ''@'' @ host @ '':'' @ port @ ''/'' @ databaseName @
     ''?uselibpqcompat=true&sslmode='' @ sslMode"

text \<open>The endpoint's port and the secret's are already strings here (a number is printed with
  \<^verbatim>\<open>String\<close>); the master secret is what its ARN names.\<close>
definition buildDatabaseSecretValues :: "string \<Rightarrow> database_endpoint \<Rightarrow> string \<Rightarrow> exn + settings" where
  "buildDatabaseSecretValues databaseBackend d serviceName = (case de_masterUserSecret d of
     None \<Rightarrow> Inl (PlainError (serviceName @ '' database master secret ARN is not available.''))
   | Some s \<Rightarrow> (case truthy (ms_password s) of
        None \<Rightarrow> Inl (PlainError (serviceName @ '' database secret is missing required password field.''))
      | Some password \<Rightarrow>
          (let host = or_default (ms_host s) (de_databaseHost d); port = or_default (ms_port s) (de_databasePort d);
               username = or_default (ms_username s) (de_databaseUsername d)
           in if host = [] \<or> username = []
              then Inl (PlainError (serviceName @ '' database connection values are incomplete after fallback resolution.''))
              else Inr [(''DATABASE_HOST'', host),
                (''DATABASE_URL'', buildConnectionUrl (de_databaseName d) host password port
                   (if databaseBackend = ''rds'' then ''require'' else ''disable'') username),
                (''POSTGRES_DB'', de_databaseName d), (''POSTGRES_PASSWORD'', password), (''POSTGRES_USER'', username)])))"

definition buildParameterName :: "string \<Rightarrow> string \<Rightarrow> string" where
  "buildParameterName parameterPathPrefix key = parameterPathPrefix @ ''/'' @ key"

text \<open>The parameters that are created (path and value), and the paths by key.\<close>
definition createStringParameters :: "string \<Rightarrow> settings \<Rightarrow> settings \<times> settings" where
  "createStringParameters parameterPathPrefix vs =
     (map (\<lambda>(k, v). (buildParameterName parameterPathPrefix k, v)) vs,
      map (\<lambda>(k, v). (k, buildParameterName parameterPathPrefix k)) vs)"

record deployment_inputs =
  di_databaseBackend :: string
  di_payments :: database_endpoint
  di_shop :: database_endpoint
  di_filesBucketName :: string
  di_mqHost :: string
  di_mqPort :: rat
  di_publicAppUrl :: "string option"

record provisioned =
  pv_parameters :: settings
  pv_paymentsParameterNames :: settings
  pv_paymentsSecret :: settings
  pv_shopParameterNames :: settings
  pv_shopSecret :: settings

text \<open>The values of the shop: the spread of the configured ones comes after \<^verbatim>\<open>APP_URL\<close>.\<close>
definition shop_values :: "(rat \<Rightarrow> string) \<Rightarrow> stack_env \<Rightarrow> deployment_inputs \<Rightarrow> settings \<Rightarrow> settings" where
  "shop_values numstr S di configured =
     (let param = (\<lambda>k. or_default (map_of configured k) []);
          with_url = spread_values [(''APP_URL'', or_default (di_publicAppUrl di) (param ''APP_URL''))] configured
      in spread_values with_url
           [(''AWS_REGION'', aws_region S), (''AWS_S3_BUCKET'', di_filesBucketName di),
            (''CORS_ALLOWED_ORIGINS'', or_default (di_publicAppUrl di) (param ''CORS_ALLOWED_ORIGINS'')),
            (''RABBITMQ_HOST'', di_mqHost di), (''RABBITMQ_PORT'', numstr (di_mqPort di))])"

definition createFoundationRuntimeConfig :: "(rat \<Rightarrow> string) \<Rightarrow> stack_env \<Rightarrow> deployment_inputs \<Rightarrow> exn + provisioned" where
  "createFoundationRuntimeConfig numstr S di =
     (case getFoundationRuntimeConfig numstr S of Inl e \<Rightarrow> Inl e | Inr rc \<Rightarrow>
      (case buildDatabaseSecretValues (di_databaseBackend di) (di_shop di) ''shop'' of Inl e \<Rightarrow> Inl e | Inr shopDb \<Rightarrow>
      (case buildDatabaseSecretValues (di_databaseBackend di) (di_payments di) ''payments'' of Inl e \<Rightarrow> Inl e | Inr paymentsDb \<Rightarrow>
       (let (shopParams, shopNames) = createStringParameters (rc_parameterPathPrefix rc @ ''/shop'') (shop_values numstr S di (rc_shop rc));
            (paymentsParams, paymentsNames) = createStringParameters (rc_parameterPathPrefix rc @ ''/payments'') (rc_payments rc)
        in Inr \<lparr>pv_parameters = shopParams @ paymentsParams, pv_paymentsParameterNames = paymentsNames,
             pv_paymentsSecret = paymentsDb, pv_shopParameterNames = shopNames,
             pv_shopSecret = spread_values shopDb (rc_shopSecrets rc)\<rparr>))))"

section \<open>The containers\<close>

definition paymentsRuntimeSecretKeys :: "string list" where
  "paymentsRuntimeSecretKeys = [''DATABASE_HOST'', ''DATABASE_URL'', ''POSTGRES_DB'', ''POSTGRES_PASSWORD'', ''POSTGRES_USER'']"

definition shopRuntimeSecretKeys :: "string list" where
  "shopRuntimeSecretKeys = paymentsRuntimeSecretKeys @ [''JWT_ACCESS_SECRET'', ''RABBITMQ_PASSWORD'', ''RABBITMQ_USER'', ''TOKEN_HMAC_SECRET'']"

datatype value_ref = Parameter string | SecretField string string

text \<open>\<open>before\<close> compares names as \<^verbatim>\<open>localeCompare\<close> does.\<close>
definition buildContainerSecrets :: "(string \<Rightarrow> string \<Rightarrow> bool) \<Rightarrow> settings \<Rightarrow> string \<Rightarrow> string list \<Rightarrow> (string \<times> value_ref) list" where
  "buildContainerSecrets before parameterNames runtimeSecretArn keys =
     map (\<lambda>(k, p). (k, Parameter p)) (sort_by (\<lambda>a b. before (fst a) (fst b)) parameterNames) @
     map (\<lambda>k. (k, SecretField runtimeSecretArn k)) keys"

text \<open>What a reference resolves to when the container starts.\<close>
definition resolve_ref :: "settings \<Rightarrow> settings \<Rightarrow> value_ref \<Rightarrow> string option" where
  "resolve_ref parameters secret r = (case r of
     Parameter p \<Rightarrow> map_of parameters p | SecretField _ k \<Rightarrow> map_of secret k)"

definition container_variables :: "settings \<Rightarrow> settings \<Rightarrow> (string \<times> value_ref) list \<Rightarrow> string \<Rightarrow> string option" where
  "container_variables parameters secret refs n = Option.bind (map_of refs n) (resolve_ref parameters secret)"

end
