(* ===== verification/Deploy_Services.thy ===== *)
theory Deploy_Services
  imports Deploy_Runtime
begin

text \<open>
  The machines, the services, the edge, the databases and the broker of a stack:
  \<^verbatim>\<open>compute-config.ts\<close>, \<^verbatim>\<open>services-config.ts\<close>, \<^verbatim>\<open>edge-config.ts\<close>, \<^verbatim>\<open>database-config.ts\<close>,
  \<^verbatim>\<open>mq-config.ts\<close>, and what \<^verbatim>\<open>service-definitions.ts\<close> and \<^verbatim>\<open>services.ts\<close> declare: the containers,
  the rights of their roles and the services. A resource is the record of the arguments that
  decide something; tags, descriptions and the order of creation are left out.
\<close>

section \<open>Checks\<close>

text \<open>The checks of a configuration run in turn; the first that throws is the answer.\<close>
fun in_turn :: "(exn + unit) list \<Rightarrow> exn + unit" where
  "in_turn [] = Inr ()"
| "in_turn (c # cs) = (case c of Inl e \<Rightarrow> Inl e | Inr _ \<Rightarrow> in_turn cs)"

definition refuse_unless :: "bool \<Rightarrow> string \<Rightarrow> exn + unit" where
  "refuse_unless b m = (if b then Inr () else Inl (PlainError m))"

definition Number_isInteger :: "rat \<Rightarrow> bool" where
  "Number_isInteger q = (of_int \<lfloor>q\<rfloor> = q)"

definition is_lower_alnum :: "char \<Rightarrow> bool" where
  "is_lower_alnum c = (let n = of_char c :: nat in 97 \<le> n \<and> n \<le> 122 \<or> 48 \<le> n \<and> n \<le> 57)"

definition normalizeOptionalAmiId :: "string option \<Rightarrow> string option" where
  "normalizeOptionalAmiId v = truthy (map_option js_trim (truthy v))"

definition validateOptionalAmiId :: "string \<Rightarrow> string option \<Rightarrow> exn + unit" where
  "validateOptionalAmiId label v = (case truthy v of
     None \<Rightarrow> Inr ()
   | Some a \<Rightarrow> refuse_unless (map char_lower (take 4 a) = ''ami-'' \<and> drop 4 a \<noteq> [] \<and> (\<forall>c \<in> set (drop 4 a). is_alnum c))
       (label @ '' must look like a valid AMI id, e.g. ami-0123456789abcdef0.''))"

section \<open>Machines\<close>

record compute_config =
  cc_autoScalingGroupName :: string
  cc_capacityProviderName :: string
  cc_clusterName :: string
  cc_desiredCapacity :: rat
  cc_ecsOptimizedAmiId :: "string option"
  cc_ecsOptimizedAmiSsmParameterName :: string
  cc_instanceProfileName :: string
  cc_instanceRoleName :: string
  cc_instanceType :: string
  cc_keyPairName :: "string option"
  cc_launchTemplateName :: string
  cc_maxSize :: rat
  cc_minSize :: rat

definition validateCapacity :: "rat \<Rightarrow> rat \<Rightarrow> rat \<Rightarrow> exn + unit" where
  "validateCapacity desiredCapacity maxSize minSize = in_turn
     [refuse_unless (1 \<le> minSize) ''ecsMinSize must be at least 1.'',
      refuse_unless (minSize \<le> desiredCapacity) ''ecsDesiredCapacity must be greater than or equal to ecsMinSize.'',
      refuse_unless (desiredCapacity \<le> maxSize) ''ecsDesiredCapacity must be less than or equal to ecsMaxSize.'']"

definition validateClusterName :: "string \<Rightarrow> exn + unit" where
  "validateClusterName n = refuse_unless
     (n \<noteq> [] \<and> length n \<le> 255 \<and> (\<forall>c \<in> set n. is_alnum c \<or> c = CHR ''_'' \<or> c = CHR ''-''))
     ''ecsClusterName must contain only letters, numbers, hyphens, and underscores.''"

definition validateInstanceType :: "string \<Rightarrow> exn + unit" where
  "validateInstanceType t = refuse_unless
     (case split_on (CHR ''.'') t of
        [family, s] \<Rightarrow> family \<noteq> [] \<and> s \<noteq> [] \<and> (\<forall>c \<in> set (family @ s). is_lower_alnum c) | _ \<Rightarrow> False)
     ''ecsInstanceType must look like a valid EC2 instance type, e.g. t3.micro.''"

definition validateOptionalName :: "string \<Rightarrow> string option \<Rightarrow> exn + unit" where
  "validateOptionalName label v = refuse_unless (map_option js_trim v \<noteq> Some []) (label @ '' cannot be empty when provided.'')"

definition validateSsmParameterName :: "string \<Rightarrow> exn + unit" where
  "validateSsmParameterName n = refuse_unless (take 1 n = ''/'')
     ''ecsOptimizedAmiSsmParameterName must be an absolute SSM parameter path.''"

definition getFoundationComputeConfig :: "stack_env \<Rightarrow> exn + compute_config" where
  "getFoundationComputeConfig S =
     (let clusterName = or_default (st_get S ''ecsClusterName'') (projectPrefix S @ ''-'' @ st_stack S);
          desiredCapacity = or_default (st_getNumber S ''ecsDesiredCapacity'') 1;
          instanceType = or_default (st_get S ''ecsInstanceType'') ''t3.micro'';
          keyPairName = st_get S ''ecsKeyPairName'';
          maxSize = or_default (st_getNumber S ''ecsMaxSize'') 1;
          minSize = or_default (st_getNumber S ''ecsMinSize'') 1;
          amiId = normalizeOptionalAmiId (st_get S ''ecsOptimizedAmiId'');
          parameterName = or_default (st_get S ''ecsOptimizedAmiSsmParameterName'')
            ''/aws/service/ecs/optimized-ami/amazon-linux-2023/recommended/image_id''
      in case in_turn
          [validateClusterName clusterName, validateCapacity desiredCapacity maxSize minSize,
           validateOptionalAmiId ''ecsOptimizedAmiId'' amiId, validateInstanceType instanceType,
           validateOptionalName ''ecsKeyPairName'' keyPairName, validateSsmParameterName parameterName] of
        Inl e \<Rightarrow> Inl e
      | Inr _ \<Rightarrow> Inr \<lparr>cc_autoScalingGroupName = stackName S ''ecs-asg'',
          cc_capacityProviderName = stackName S ''ecs-capacity-provider'', cc_clusterName = clusterName,
          cc_desiredCapacity = desiredCapacity, cc_ecsOptimizedAmiId = amiId,
          cc_ecsOptimizedAmiSsmParameterName = parameterName,
          cc_instanceProfileName = stackName S ''ecs-instance-profile'',
          cc_instanceRoleName = stackName S ''ecs-instance-role'', cc_instanceType = instanceType,
          cc_keyPairName = keyPairName, cc_launchTemplateName = stackName S ''ecs-launch-template'',
          cc_maxSize = maxSize, cc_minSize = minSize\<rparr>)"

section \<open>Services\<close>

record image_source =
  im_forceZeroDesiredCount :: bool
  im_imageTag :: "string option"
  im_imageUri :: "string option"

record services_config =
  vc_cloudMapNamespaceName :: string
  vc_paymentsDeploymentMaximumPercent :: rat
  vc_paymentsDeploymentMinimumHealthyPercent :: rat
  vc_paymentsDesiredCount :: rat
  vc_paymentsImageTag :: "string option"
  vc_paymentsImageUri :: "string option"
  vc_shopDeploymentMaximumPercent :: rat
  vc_shopDeploymentMinimumHealthyPercent :: rat
  vc_shopDesiredCount :: rat
  vc_shopHealthCheckGracePeriodSeconds :: rat
  vc_shopImageTag :: "string option"
  vc_shopImageUri :: "string option"

text \<open>The maximum and the minimum percentage.\<close>
definition getDefaultDeploymentSettings :: "compute_config \<Rightarrow> rat \<times> rat" where
  "getDefaultDeploymentSettings c =
     (if cc_desiredCapacity c = 1 \<and> cc_maxSize c = 1 \<and> cc_minSize c = 1 \<and> cc_instanceType c = ''t3.micro''
      then (100, 0) else (200, 100))"

definition validateImageSource :: "string \<Rightarrow> string option \<Rightarrow> string option \<Rightarrow> exn + unit" where
  "validateImageSource service imageTag imageUri = refuse_unless (\<not> (truthy imageTag \<noteq> None \<and> truthy imageUri \<noteq> None))
     (service @ ''ImageTag and '' @ service @ ''ImageUri are mutually exclusive. Set only one explicit image source.'')"

definition resolveImageSource :: "stack_env \<Rightarrow> string option \<Rightarrow> string option \<Rightarrow> string \<Rightarrow> exn + image_source" where
  "resolveImageSource S imageTag imageUri service = (case validateImageSource service imageTag imageUri of
     Inl e \<Rightarrow> Inl e
   | Inr _ \<Rightarrow>
       if truthy imageTag = None \<and> truthy imageUri = None
       then (if st_stack S = ''production''
             then Inl (PlainError (service @ ''ImageTag or '' @ service @ ''ImageUri must be set explicitly for the production stack.''))
             else Inr \<lparr>im_forceZeroDesiredCount = True, im_imageTag = Some ''bootstrap-pending-image'', im_imageUri = None\<rparr>)
       else Inr \<lparr>im_forceZeroDesiredCount = False, im_imageTag = imageTag, im_imageUri = imageUri\<rparr>)"

definition validateDesiredCount :: "string \<Rightarrow> rat \<Rightarrow> exn + unit" where
  "validateDesiredCount label v = refuse_unless (Number_isInteger v \<and> 0 \<le> v) (label @ '' must be a non-negative integer.'')"

definition validateGracePeriod :: "string \<Rightarrow> rat \<Rightarrow> exn + unit" where
  "validateGracePeriod label v = refuse_unless (Number_isInteger v \<and> 0 \<le> v) (label @ '' must be a non-negative integer.'')"

definition validateDeploymentPercentages :: "string \<Rightarrow> rat \<Rightarrow> rat \<Rightarrow> exn + unit" where
  "validateDeploymentPercentages label minimumHealthyPercent maximumPercent = in_turn
     [refuse_unless (Number_isInteger minimumHealthyPercent \<and> 0 \<le> minimumHealthyPercent \<and> minimumHealthyPercent \<le> 100)
        (label @ ''DeploymentMinimumHealthyPercent must be an integer between 0 and 100.''),
      refuse_unless (Number_isInteger maximumPercent \<and> 100 \<le> maximumPercent \<and> maximumPercent \<le> 200)
        (label @ ''DeploymentMaximumPercent must be an integer between 100 and 200.''),
      refuse_unless (minimumHealthyPercent \<le> maximumPercent)
        (label @ '' deployment maximum percent must be greater than or equal to minimum healthy percent.'')]"

definition validatePaymentsPlacement :: "rat \<Rightarrow> rat \<Rightarrow> exn + unit" where
  "validatePaymentsPlacement paymentsDesiredCount ecsMaxSize = refuse_unless (paymentsDesiredCount \<le> ecsMaxSize)
     ''paymentsDesiredCount cannot exceed ecsMaxSize because payments uses fixed host port 5001 in bridge mode and only one payments task can run per ECS host.''"

definition validateDnsName :: "string \<Rightarrow> string \<Rightarrow> exn + unit" where
  "validateDnsName label v = refuse_unless
     (v \<noteq> [] \<and> (\<forall>c \<in> set v. is_lower_alnum c \<or> c = CHR ''.'' \<or> c = CHR ''-'') \<and> CHR ''.'' \<in> set v)
     (label @ '' must look like a valid private DNS zone, e.g. rd-shop.local.'')"

definition getComputeServicesConfig :: "stack_env \<Rightarrow> exn + services_config" where
  "getComputeServicesConfig S = (case getFoundationComputeConfig S of Inl e \<Rightarrow> Inl e | Inr compute \<Rightarrow>
     (let (maximumPercent, minimumHealthyPercent) = getDefaultDeploymentSettings compute;
          num = (\<lambda>k d. or_default (st_getNumber S k) d);
          namespaceName = or_default (st_get S ''cloudMapNamespaceName'') (projectPrefix S @ ''.local'');
          paymentsMax = num ''paymentsDeploymentMaximumPercent'' maximumPercent;
          paymentsMin = num ''paymentsDeploymentMinimumHealthyPercent'' minimumHealthyPercent;
          shopCount = num ''shopDesiredCount'' 1;
          shopMax = num ''shopDeploymentMaximumPercent'' maximumPercent;
          shopMin = num ''shopDeploymentMinimumHealthyPercent'' minimumHealthyPercent;
          grace = num ''shopHealthCheckGracePeriodSeconds'' 120;
          paymentsCount = num ''paymentsDesiredCount'' 1;
          opt = (\<lambda>k. truthy (map_option js_trim (truthy (st_get S k))))
      in case resolveImageSource S (opt ''shopImageTag'') (opt ''shopImageUri'') ''shop'' of Inl e \<Rightarrow> Inl e | Inr shopImage \<Rightarrow>
        (case resolveImageSource S (opt ''paymentsImageTag'') (opt ''paymentsImageUri'') ''payments'' of
           Inl e \<Rightarrow> Inl e
         | Inr paymentsImage \<Rightarrow> (case in_turn
             [validateDesiredCount ''shopDesiredCount'' shopCount, validateDesiredCount ''paymentsDesiredCount'' paymentsCount,
              validateDeploymentPercentages ''shop'' shopMin shopMax,
              validateDeploymentPercentages ''payments'' paymentsMin paymentsMax,
              validatePaymentsPlacement paymentsCount (cc_maxSize compute),
              validateDnsName ''cloudMapNamespaceName'' namespaceName,
              validateGracePeriod ''shopHealthCheckGracePeriodSeconds'' grace] of
             Inl e \<Rightarrow> Inl e
           | Inr _ \<Rightarrow> Inr \<lparr>vc_cloudMapNamespaceName = namespaceName, vc_paymentsDeploymentMaximumPercent = paymentsMax,
               vc_paymentsDeploymentMinimumHealthyPercent = paymentsMin,
               vc_paymentsDesiredCount = (if im_forceZeroDesiredCount paymentsImage then 0 else paymentsCount),
               vc_paymentsImageTag = im_imageTag paymentsImage, vc_paymentsImageUri = im_imageUri paymentsImage,
               vc_shopDeploymentMaximumPercent = shopMax, vc_shopDeploymentMinimumHealthyPercent = shopMin,
               vc_shopDesiredCount = (if im_forceZeroDesiredCount shopImage then 0 else shopCount),
               vc_shopHealthCheckGracePeriodSeconds = grace,
               vc_shopImageTag = im_imageTag shopImage, vc_shopImageUri = im_imageUri shopImage\<rparr>))))"

section \<open>The edge\<close>

datatype edge_mode = CloudFront | CustomDomain

record edge_config =
  ec_albAccessLogsBucketName :: string
  ec_albAccessLogsPrefix :: string
  ec_apiDomainName :: "string option"
  ec_enableDeletionProtection :: bool
  ec_hostedZoneId :: "string option"
  ec_idleTimeoutSeconds :: rat
  ec_publicEdgeMode :: edge_mode
  ec_rootDomainName :: "string option"
  ec_shopTargetGroupDeregistrationDelaySeconds :: rat
  ec_shopTargetGroupHealthCheckMatcher :: string
  ec_shopTargetGroupHealthCheckPath :: string
  ec_sslPolicy :: string

text \<open>None is \<^verbatim>\<open>disabled\<close>.\<close>
definition resolvePublicEdgeMode :: "string option \<Rightarrow> bool \<Rightarrow> exn + edge_mode option" where
  "resolvePublicEdgeMode configuredMode hasPublicDomainConfig = (case truthy configuredMode of
     None \<Rightarrow> Inr (if hasPublicDomainConfig then Some CustomDomain else None)
   | Some m \<Rightarrow> if m = ''cloudfront'' then Inr (Some CloudFront)
       else if m = ''custom-domain'' then Inr (Some CustomDomain)
       else if m = ''disabled'' then Inr None
       else Inl (PlainError ''publicEdgeMode must be one of: disabled, custom-domain, cloudfront.''))"

definition validateAccessLogsBucketName :: "string \<Rightarrow> exn + unit" where
  "validateAccessLogsBucketName n = refuse_unless
     (3 \<le> length n \<and> length n \<le> 63 \<and> is_lower_alnum (hd n) \<and> is_lower_alnum (last n) \<and>
      (\<forall>c \<in> set n. is_lower_alnum c \<or> c = CHR ''.'' \<or> c = CHR ''-''))
     ''albAccessLogsBucketName must be a valid S3 bucket name.''"

definition validateIdleTimeoutSeconds :: "rat \<Rightarrow> exn + unit" where
  "validateIdleTimeoutSeconds v = refuse_unless (Number_isInteger v \<and> 1 \<le> v \<and> v \<le> 4000)
     ''albIdleTimeoutSeconds must be an integer between 1 and 4000.''"

definition validateString :: "string \<Rightarrow> string \<Rightarrow> exn + unit" where
  "validateString label v = refuse_unless (js_trim v \<noteq> []) (label @ '' cannot be empty.'')"

definition validateHealthCheckPath :: "string \<Rightarrow> exn + unit" where
  "validateHealthCheckPath path = refuse_unless (take 1 path = ''/'')
     (''shopTargetGroupHealthCheckPath must start with '' @ in_dq ''/'' @ ''.'')"

definition validatePositiveInteger :: "string \<Rightarrow> rat \<Rightarrow> exn + unit" where
  "validatePositiveInteger label v = refuse_unless (Number_isInteger v \<and> 1 \<le> v) (label @ '' must be a positive integer.'')"

definition getComputeEdgeConfig :: "stack_env \<Rightarrow> exn + edge_config option" where
  "getComputeEdgeConfig S = (case getPublicDomainConfig S of Inl e \<Rightarrow> Inl e | Inr pd \<Rightarrow>
     (let opt = (\<lambda>k. normalizeOptionalValue (st_get S k))
      in case resolvePublicEdgeMode (opt ''publicEdgeMode'') (pd \<noteq> None) of
           Inl e \<Rightarrow> Inl e
         | Inr None \<Rightarrow> Inr None
         | Inr (Some publicEdgeMode) \<Rightarrow>
             if publicEdgeMode = CustomDomain \<and> pd = None
             then Inl (PlainError ''publicEdgeMode=custom-domain requires publicRootDomainName and optional publicHostedZoneId.'')
             else (let bucket = or_default (opt ''albAccessLogsBucketName'')
                         (projectPrefix S @ ''-'' @ resourceStackName S @ ''-alb-logs'');
                       logsPrefix = or_default (opt ''albAccessLogsPrefix'') ''alb'';
                       protection = or_default (st_getBoolean S ''albDeletionProtectionEnabled'') (st_stack S = ''production'');
                       idle = or_default (st_getNumber S ''albIdleTimeoutSeconds'') 60;
                       delay = or_default (st_getNumber S ''shopTargetGroupDeregistrationDelaySeconds'') 30;
                       matcher = or_default (opt ''shopTargetGroupHealthCheckMatcher'') ''200-399'';
                       path = or_default (opt ''shopTargetGroupHealthCheckPath'') ''/ready'';
                       sslPolicy = or_default (opt ''albSslPolicy'') ''ELBSecurityPolicy-TLS13-1-2-2021-06''
                   in case in_turn
                       [validateAccessLogsBucketName bucket, validateIdleTimeoutSeconds idle,
                        validateString ''albAccessLogsPrefix'' logsPrefix, validateString ''albSslPolicy'' sslPolicy,
                        validateString ''shopTargetGroupHealthCheckMatcher'' matcher, validateHealthCheckPath path,
                        validatePositiveInteger ''shopTargetGroupDeregistrationDelaySeconds'' delay] of
                       Inl e \<Rightarrow> Inl e
                     | Inr _ \<Rightarrow> Inr (Some \<lparr>ec_albAccessLogsBucketName = bucket, ec_albAccessLogsPrefix = logsPrefix,
                         ec_apiDomainName = map_option pd_apiDomainName pd, ec_enableDeletionProtection = protection,
                         ec_hostedZoneId = Option.bind pd pd_hostedZoneId, ec_idleTimeoutSeconds = idle,
                         ec_publicEdgeMode = publicEdgeMode, ec_rootDomainName = map_option pd_rootDomainName pd,
                         ec_shopTargetGroupDeregistrationDelaySeconds = delay,
                         ec_shopTargetGroupHealthCheckMatcher = matcher, ec_shopTargetGroupHealthCheckPath = path,
                         ec_sslPolicy = sslPolicy\<rparr>))))"

section \<open>The databases and the broker\<close>

record database_host_config =
  dh_amiId :: "string option"
  dh_bootstrapSecretRecoveryWindowInDays :: nat
  dh_dataVolumeDeviceName :: string
  dh_dataVolumeMountPath :: string
  dh_image :: string
  dh_instanceType :: string

record service_database_config =
  sd_dbName :: string
  sd_instanceClass :: string
  sd_multiAz :: bool
  sd_username :: string

record database_config =
  dc_allocatedStorageGiB :: rat
  dc_applyImmediately :: bool
  dc_backend :: string
  dc_backupRetentionDays :: rat
  dc_deletionProtection :: bool
  dc_engine :: string
  dc_engineMajorVersion :: string
  dc_host :: database_host_config
  dc_parameterGroupFamily :: string
  dc_payments :: service_database_config
  dc_port :: int
  dc_shop :: service_database_config
  dc_storageEncrypted :: bool
  dc_storageType :: string

definition validateAllocatedStorage :: "rat \<Rightarrow> exn + unit" where
  "validateAllocatedStorage gib = refuse_unless (20 \<le> gib) ''databaseAllocatedStorageGiB must be at least 20 GiB.''"

definition validateBackend :: "string \<Rightarrow> exn + unit" where
  "validateBackend b = refuse_unless (b = ''ec2-postgres'' \<or> b = ''rds'')
     (''databaseBackend must be either '' @ in_dq ''rds'' @ '' or '' @ in_dq ''ec2-postgres'' @ ''.'')"

definition validateBackupRetention :: "rat \<Rightarrow> exn + unit" where
  "validateBackupRetention days = refuse_unless (0 \<le> days) ''databaseBackupRetentionDays cannot be negative.''"

definition validateEngineMajorVersion :: "string \<Rightarrow> exn + unit" where
  "validateEngineMajorVersion v = refuse_unless (v \<noteq> [] \<and> (\<forall>c \<in> set v. digit_val c \<noteq> None))
     (''databaseEngineMajorVersion must be a major PostgreSQL version like '' @ in_dq ''16'' @ ''.'')"

definition getFoundationDatabaseConfig :: "stack_env \<Rightarrow> exn + database_config" where
  "getFoundationDatabaseConfig S =
     (let production = (st_stack S = ''production'');
          get = (\<lambda>k d. or_default (st_get S k) d);
          backend = get ''databaseBackend'' (if st_stack S = ''stage'' then ''ec2-postgres'' else ''rds'');
          version = get ''databaseEngineMajorVersion'' ''16'';
          storage = or_default (st_getNumber S ''databaseAllocatedStorageGiB'') 20;
          backups = or_default (st_getNumber S ''databaseBackupRetentionDays'') (if production then 7 else 1);
          multiAz = or_default (st_getBoolean S ''databaseMultiAz'') False;
          image = get ''databaseHostImage'' (''public.ecr.aws/docker/library/postgres:'' @ version @ ''-alpine'');
          amiId = normalizeOptionalAmiId (st_get S ''databaseHostAmiId'')
      in case in_turn
          [validateBackend backend, validateEngineMajorVersion version, validateAllocatedStorage storage,
           validateBackupRetention backups, validateOptionalAmiId ''databaseHostAmiId'' amiId] of
        Inl e \<Rightarrow> Inl e
      | Inr _ \<Rightarrow> Inr \<lparr>dc_allocatedStorageGiB = storage, dc_applyImmediately = (\<not> production), dc_backend = backend,
          dc_backupRetentionDays = backups, dc_deletionProtection = production, dc_engine = ''postgres'',
          dc_engineMajorVersion = version,
          dc_host = \<lparr>dh_amiId = amiId, dh_bootstrapSecretRecoveryWindowInDays = (if production then 30 else 0),
            dh_dataVolumeDeviceName = get ''databaseHostDataVolumeDeviceName'' ''/dev/xvdf'',
            dh_dataVolumeMountPath = get ''databaseHostDataVolumeMountPath'' ''/var/lib/rd-shop-postgres'',
            dh_image = image, dh_instanceType = get ''databaseHostInstanceType'' ''t3.micro''\<rparr>,
          dc_parameterGroupFamily = ''postgres'' @ version,
          dc_payments = \<lparr>sd_dbName = get ''paymentsDatabaseName'' ''rd_shop_payments'',
            sd_instanceClass = get ''paymentsDatabaseInstanceClass'' (if production then ''db.t4g.small'' else ''db.t4g.micro''),
            sd_multiAz = multiAz, sd_username = get ''paymentsDatabaseUsername'' ''payments''\<rparr>,
          dc_port = 5432,
          dc_shop = \<lparr>sd_dbName = get ''shopDatabaseName'' ''rd_shop'',
            sd_instanceClass = get ''shopDatabaseInstanceClass'' (if production then ''db.t4g.small'' else ''db.t4g.micro''),
            sd_multiAz = multiAz, sd_username = get ''shopDatabaseUsername'' ''shop''\<rparr>,
          dc_storageEncrypted = True, dc_storageType = ''gp3''\<rparr>)"

record broker_config =
  bc_amiId :: "string option"
  bc_brokerName :: string
  bc_password :: string
  bc_username :: string
  bc_dataVolumeDeviceName :: string
  bc_dataVolumeMountPath :: string
  bc_dataVolumeSizeGiB :: rat
  bc_engineVersion :: string
  bc_image :: string
  bc_instanceType :: string
  bc_port :: rat
  bc_vhost :: string

text \<open>The password is asked for before the name.\<close>
definition getMessageQueueCredentials :: "stack_env \<Rightarrow> exn + string \<times> string" where
  "getMessageQueueCredentials S =
     (case getRequiredNonEmptySecretConfig S ''shopRabbitmqPassword'' ''preview-only-shop-rabbitmq-password'' of
        Inl e \<Rightarrow> Inl e
      | Inr password \<Rightarrow> (case getRequiredNonEmptySecretConfig S ''shopRabbitmqUser'' ''preview-only-shop-rabbitmq-user'' of
          Inl e \<Rightarrow> Inl e | Inr username \<Rightarrow> Inr (password, username)))"

definition getMessageBrokerConfig :: "stack_env \<Rightarrow> exn + broker_config" where
  "getMessageBrokerConfig S = (case getMessageQueueCredentials S of Inl e \<Rightarrow> Inl e | Inr (password, username) \<Rightarrow>
     (let production = (st_stack S = ''production''); get = (\<lambda>k d. or_default (st_get S k) d)
      in Inr \<lparr>bc_amiId = st_get S ''shopRabbitmqAmiId'',
          bc_brokerName = get ''shopRabbitmqBrokerName'' (projectPrefix S @ ''-'' @ st_stack S @ ''-shop-rabbitmq''),
          bc_password = password, bc_username = username,
          bc_dataVolumeDeviceName = get ''shopRabbitmqDataVolumeDeviceName'' ''/dev/xvdf'',
          bc_dataVolumeMountPath = get ''shopRabbitmqDataVolumeMountPath'' ''/var/lib/rabbitmq'',
          bc_dataVolumeSizeGiB = or_default (st_getNumber S ''shopRabbitmqDataVolumeSizeGiB'') (if production then 20 else 10),
          bc_engineVersion = get ''shopRabbitmqEngineVersion'' ''3.13'',
          bc_image = get ''shopRabbitmqImage'' ''rabbitmq:3.13-management-alpine'',
          bc_instanceType = get ''shopRabbitmqInstanceType'' (if production then ''t3.small'' else ''t3.micro''),
          bc_port = or_default (st_getNumber S ''shopRabbitmqPort'') 5672,
          bc_vhost = get ''shopRabbitmqVhost'' ''/''\<rparr>))"

end
