(* ===== verification/Deploy_Theorems.thy ===== *)
theory Deploy_Theorems
  imports Deploy_Runtime
begin

text \<open>
  The deployment and the program fit together: what is provisioned for the containers of the
  shop passes the validation the shop starts with.
\<close>

section \<open>Objects and references\<close>

lemma map_of_put_value: "map_of (put_value k v kvs) k' = (if k' = k then Some v else map_of kvs k')"
  by (induction k v kvs rule: put_value.induct) auto

lemma map_of_spread_values:
  "map_of (spread_values a b) k = (case map_of (rev b) k of None \<Rightarrow> map_of a k | Some v \<Rightarrow> Some v)"
  by (induction b arbitrary: a) (auto simp: spread_values_def map_of_put_value map_of_append map_add_def split: option.splits)

lemma map_of_renamed:
  assumes "inj f" "k \<in> fst ` set vs"
  shows "map_of (map (\<lambda>(k, v). (f k, v)) vs @ rest) (f k) = map_of vs k"
  using assms by (induction vs) (auto simp: inj_eq)

lemma map_of_functional:
  assumes "\<And>k v. (k, v) \<in> set xs \<Longrightarrow> v = f k"
  shows "map_of xs k = (if k \<in> fst ` set xs then Some (f k) else None)"
proof (cases "map_of xs k")
  case (Some v)
  then show ?thesis using assms [OF map_of_SomeD [OF Some]] by (force dest: map_of_SomeD)
qed (simp add: map_of_eq_None_iff)

text \<open>What a container reads: its parameters, then the fields of its secret.\<close>
lemma container_reads:
  assumes names: "createStringParameters pathPrefix vs = (params, names)"
  shows "container_variables (params @ others) secret (buildContainerSecrets before names arn keys) k =
    (if k \<in> fst ` set vs then map_of vs k else if k \<in> set keys then map_of secret k else None)"
proof -
  let ?path = "buildParameterName pathPrefix"
  have p: "params = map (\<lambda>(k, v). (?path k, v)) vs" and n: "names = map (\<lambda>(k, v). (k, ?path k)) vs"
    using names by (auto simp: createStringParameters_def)
  let ?refs = "map (\<lambda>(k, p). (k, Parameter p)) (sort_by (\<lambda>a b. before (fst a) (fst b)) names)"
  have keys: "fst ` set ?refs = fst ` set vs"
    by (force simp: n image_image)
  have hit: "map_of ?refs k = (if k \<in> fst ` set vs then Some (Parameter (?path k)) else None)"
  proof -
    have "map_of ?refs k = (if k \<in> fst ` set ?refs then Some (Parameter (?path k)) else None)"
      by (rule map_of_functional) (auto simp: n)
    then show ?thesis unfolding keys .
  qed
  have field: "map_of (map (\<lambda>k. (k, SecretField arn k)) keys) k = (if k \<in> set keys then Some (SecretField arn k) else None)"
    by (induction keys) auto
  have "inj ?path" by (simp add: inj_def buildParameterName_def)
  from map_of_renamed [OF this, of k vs others] show ?thesis
    by (auto simp: container_variables_def buildContainerSecrets_def map_of_append map_add_def hit field resolve_ref_def p
        simp del: map_of_map_restrict split: option.splits)
qed

section \<open>Variables that pass\<close>

lemma passes:
  "failed_checks c (optional_string n) = []"
  "c n \<noteq> None \<Longrightarrow> failed_checks c (required n [IsString]) = []"
  by (cases "c n"; auto simp: failed_checks_def optional_string_def required_def convert_def Let_def)+

lemma passes_number:
  assumes "\<And>q. \<exists>x. js_Number (numstr q) = Finite x"
  shows "c n = None \<or> c n \<in> range (Some \<circ> numstr) \<Longrightarrow> failed_checks c (optional_number n) = []"
    and "c n \<in> range (Some \<circ> numstr) \<Longrightarrow> failed_checks c (required n [IsNumber]) = []"
  using assms by (auto simp: failed_checks_def optional_number_def required_def convert_def Let_def split: js_num.splits)
    (metis js_num.distinct js_num.exhaust)+

section \<open>The secrets\<close>

lemma preview_long_enough: "n \<le> length (buildPreviewSecretValue key n)"
proof -
  let ?l = "length (''preview-only-'' @ key @ ''-'')"
  have "n \<le> (n + ?l - 1) div ?l * ?l"
    using div_mult_mod_eq [of "n + ?l - 1" ?l] mod_less_divisor [of ?l "n + ?l - 1"] by (simp del: div_mult_self_is_m)
  then show ?thesis
    by (simp add: buildPreviewSecretValue_def Let_def length_concat sum_list_replicate)
qed

lemma required_secret_length: "getRequiredSecretConfig S key n = Inr v \<Longrightarrow> n \<le> length v"
  using preview_long_enough [of n key] by (auto simp: getRequiredSecretConfig_def split: option.splits if_splits)

lemma database_secret_url:
  "buildDatabaseSecretValues backend d service = Inr vs \<Longrightarrow> map_of vs ''DATABASE_URL'' \<noteq> None \<and>
     set (map fst vs) = {''DATABASE_HOST'', ''DATABASE_URL'', ''POSTGRES_DB'', ''POSTGRES_PASSWORD'', ''POSTGRES_USER''}"
  by (auto simp: buildDatabaseSecretValues_def Let_def split: option.splits if_splits)

section \<open>The parameters\<close>

definition number_keys :: "string list" where
  "number_keys = [''AWS_S3_PRESIGNED_URL_DOWNLOAD_EXPIRATION'', ''AWS_S3_PRESIGNED_URL_EXPIRATION'', ''BCRYPT_SALT_ROUNDS'',
     ''DB_POOL_SIZE'', ''DB_SLOW_QUERY_THRESHOLD_MS'', ''EVENT_LOOP_LAG_THRESHOLD_MS'', ''PAYMENTS_GRPC_PORT'',
     ''PAYMENTS_GRPC_TIMEOUT_MS'', ''PORT'', ''RABBITMQ_PORT'', ''RABBITMQ_PREFETCH_COUNT'', ''THROTTLE_SHORT_LIMIT'']"

definition shop_keys :: "string list" where
  "shop_keys = [''ALLOW_SEED_IN_PRODUCTION'', ''APP'', ''APP_LOG_LEVEL'', ''APP_URL'', ''AWS_S3_PRESIGNED_URL_DOWNLOAD_EXPIRATION'',
     ''AWS_S3_PRESIGNED_URL_EXPIRATION'', ''AWS_SES_REGION'', ''BCRYPT_SALT_ROUNDS'', ''CORS_ALLOWED_ORIGINS'', ''DATABASE_PROVIDER'',
     ''DB_POOL_SIZE'', ''DB_SLOW_QUERY_THRESHOLD_MS'', ''DEPLOYMENT_ENVIRONMENT'', ''EMAIL_VERIFICATION_EXPIRES_IN'',
     ''EVENT_LOOP_LAG_THRESHOLD_MS'', ''JWT_ACCESS_EXPIRES_IN'', ''JWT_REFRESH_EXPIRES_IN'', ''NODE_ENV'',
     ''OBSERVABILITY_METRICS_ENABLED'', ''PASSWORD_RESET_EXPIRES_IN'', ''PAYMENTS_GRPC_HOST'', ''PAYMENTS_GRPC_PORT'',
     ''PAYMENTS_GRPC_TIMEOUT_MS'', ''PORT'', ''RABBITMQ_DISABLE_PAYMENTS_AUTHORIZATION'', ''RABBITMQ_HOST'', ''RABBITMQ_PORT'',
     ''RABBITMQ_PREFETCH_COUNT'', ''RABBITMQ_VHOST'', ''SES_FROM_ADDRESS'', ''THROTTLE_SHORT_LIMIT'', ''VERBOSE_TEST_LOGS'']"

text \<open>Set when the stack is deployed, over what is configured.\<close>
definition overridden_keys :: "string list" where
  "overridden_keys = [''AWS_REGION'', ''AWS_S3_BUCKET'', ''CORS_ALLOWED_ORIGINS'', ''RABBITMQ_HOST'', ''RABBITMQ_PORT'']"

lemmas expand_parameters = shop_parameters_def shop_keys_def number_keys_def Let_def option.case append.simps list.set ball_simps prod.case image_insert image_empty fst_conv

lemma shop_parameter_keys: "set shop_keys \<subseteq> fst ` set (shop_parameters numstr S pd)"
  by (cases "st_get S ''shopCloudFrontUrl''"; simp only: expand_parameters insert_subset empty_subsetI insert_iff simp_thms)

lemma shop_parameter_other_keys: "fst ` set (shop_parameters numstr S pd) \<subseteq> insert ''AWS_CLOUDFRONT_URL'' (set shop_keys)"
  by (cases "st_get S ''shopCloudFrontUrl''"; simp only: expand_parameters insert_subset empty_subsetI insert_iff simp_thms)

lemma configured_numbers: "\<forall>(k, v) \<in> set (shop_parameters numstr S pd). k \<in> set number_keys \<longrightarrow> v \<in> range numstr"
  by (cases "st_get S ''shopCloudFrontUrl''"; simp only: expand_parameters) (simp_all split del: if_split)

lemma configured_strings: "\<forall>(k, v) \<in> set (shop_parameters numstr S pd).
    (k = ''APP'' \<longrightarrow> v = ''shop'') \<and> (k = ''NODE_ENV'' \<longrightarrow> v = or_default (st_get S ''shopNodeEnv'') ''production'')"
  by (cases "st_get S ''shopCloudFrontUrl''"; simp only: expand_parameters) (simp_all split del: if_split)

text \<open>What the container reads of a key, by where its value comes from.\<close>
lemma shop_value:
  "map_of (shop_values numstr S di vs) k =
     (if k = ''AWS_REGION'' then Some (aws_region S) else if k = ''AWS_S3_BUCKET'' then Some (di_filesBucketName di)
      else if k = ''CORS_ALLOWED_ORIGINS'' then Some (or_default (di_publicAppUrl di) (or_default (map_of vs ''CORS_ALLOWED_ORIGINS'') []))
      else if k = ''RABBITMQ_HOST'' then Some (di_mqHost di) else if k = ''RABBITMQ_PORT'' then Some (numstr (di_mqPort di))
      else case map_of (rev vs) k of Some v \<Rightarrow> Some v
        | None \<Rightarrow> if k = ''APP_URL'' then Some (or_default (di_publicAppUrl di) (or_default (map_of vs ''APP_URL'') [])) else None)"
  by (simp add: shop_values_def Let_def map_of_spread_values split: option.split)

lemma shop_value_configured:
  assumes "k \<in> fst ` set vs" "k \<notin> set overridden_keys"
  shows "\<exists>v. (k, v) \<in> set vs \<and> map_of (shop_values numstr S di vs) k = Some v"
proof -
  from assms(1) obtain v where "map_of (rev vs) k = Some v"
    by (metis (no_types, lifting) map_of_eq_None_iff not_None_eq set_rev)
  with map_of_SomeD [OF this] show ?thesis using assms(2) by (auto simp: shop_value overridden_keys_def)
qed

lemma shop_value_other:
  assumes "k \<notin> fst ` set vs" "k \<notin> set overridden_keys" "k \<noteq> ''APP_URL''"
  shows "map_of (shop_values numstr S di vs) k = None"
proof -
  have "map_of (rev vs) k = None" using assms(1) by (simp add: map_of_eq_None_iff)
  then show ?thesis using assms(2,3) by (simp add: shop_value overridden_keys_def)
qed

text \<open>The address the edge publishes never becomes the address the mails link to.\<close>
lemma app_url_ignores_public_url:
  "map_of (shop_values numstr S di (shop_parameters numstr S pd)) ''APP_URL'' =
   map_of (shop_values numstr S (di\<lparr>di_publicAppUrl := other\<rparr>) (shop_parameters numstr S pd)) ''APP_URL''"
proof -
  have "''APP_URL'' \<in> fst ` set (shop_parameters numstr S pd)"
    by (rule subsetD [OF shop_parameter_keys]) (simp add: shop_keys_def)
  then obtain v where "map_of (rev (shop_parameters numstr S pd)) ''APP_URL'' = Some v"
    by (metis (no_types, lifting) map_of_eq_None_iff not_None_eq set_rev)
  then show ?thesis by (simp add: shop_value)
qed

section \<open>The shop starts\<close>

definition shop_container :: "(string \<Rightarrow> string \<Rightarrow> bool) \<Rightarrow> string \<Rightarrow> provisioned \<Rightarrow> string \<Rightarrow> string option" where
  "shop_container before arn pv = container_variables (pv_parameters pv) (pv_shopSecret pv)
     (buildContainerSecrets before (pv_shopParameterNames pv) arn shopRuntimeSecretKeys)"

lemma provisioned_parts:
  assumes "createFoundationRuntimeConfig numstr S di = Inr pv"
  obtains rc db others where "getFoundationRuntimeConfig numstr S = Inr rc"
    "buildDatabaseSecretValues (di_databaseBackend di) (di_shop di) ''shop'' = Inr db"
    "pv_parameters pv = fst (createStringParameters (rc_parameterPathPrefix rc @ ''/shop'') (shop_values numstr S di (rc_shop rc))) @ others"
    "pv_shopParameterNames pv = snd (createStringParameters (rc_parameterPathPrefix rc @ ''/shop'') (shop_values numstr S di (rc_shop rc)))"
    "pv_shopSecret pv = spread_values db (rc_shopSecrets rc)"
    "pv_paymentsParameterNames pv = snd (createStringParameters (rc_parameterPathPrefix rc @ ''/payments'') (rc_payments rc))"
  using assms unfolding createFoundationRuntimeConfig_def Let_def
  by (cases "getFoundationRuntimeConfig numstr S";
      cases "buildDatabaseSecretValues (di_databaseBackend di) (di_shop di) ''shop''";
      cases "buildDatabaseSecretValues (di_databaseBackend di) (di_payments di) ''payments''")
    (simp_all add: split_beta, metis provisioned.select_convs)

lemma runtime_config_parts:
  assumes "getFoundationRuntimeConfig numstr S = Inr rc"
  obtains pd jwt pass usr hmac where "rc_shop rc = shop_parameters numstr S pd"
    "rc_shopSecrets rc = [(''JWT_ACCESS_SECRET'', jwt), (''RABBITMQ_PASSWORD'', pass), (''RABBITMQ_USER'', usr), (''TOKEN_HMAC_SECRET'', hmac)]"
    "32 \<le> length hmac" "rc_parameterPathPrefix rc = ''/'' @ projectPrefix S @ ''/'' @ st_stack S"
proof (cases "getPublicDomainConfig S"; cases "getRequiredNonEmptySecretConfig S ''shopRabbitmqPassword'' ''preview-only-shop-rabbitmq-password''";
    cases "getRequiredNonEmptySecretConfig S ''shopRabbitmqUser'' ''preview-only-shop-rabbitmq-user''";
    cases "getRequiredSecretConfig S ''shopJwtAccessSecret'' 32"; cases "getRequiredSecretConfig S ''shopTokenHmacSecret'' 32")
  fix pd pass usr jwt hmac
  assume parts: "getPublicDomainConfig S = Inr pd"
    "getRequiredNonEmptySecretConfig S ''shopRabbitmqPassword'' ''preview-only-shop-rabbitmq-password'' = Inr pass"
    "getRequiredNonEmptySecretConfig S ''shopRabbitmqUser'' ''preview-only-shop-rabbitmq-user'' = Inr usr"
    "getRequiredSecretConfig S ''shopJwtAccessSecret'' 32 = Inr jwt" "getRequiredSecretConfig S ''shopTokenHmacSecret'' 32 = Inr hmac"
  from assms have "rc_shop rc = shop_parameters numstr S pd" "rc_shopSecrets rc =
      [(''JWT_ACCESS_SECRET'', jwt), (''RABBITMQ_PASSWORD'', pass), (''RABBITMQ_USER'', usr), (''TOKEN_HMAC_SECRET'', hmac)]"
    "rc_parameterPathPrefix rc = ''/'' @ projectPrefix S @ ''/'' @ st_stack S"
    unfolding getFoundationRuntimeConfig_def parts sum.case sum.inject by (metis runtime_config.select_convs)+
  then show thesis by (intro that [OF _ _ required_secret_length [OF parts(5)]])
qed (use assms in \<open>simp_all only: getFoundationRuntimeConfig_def sum.case sum.simps\<close>)

text \<open>A key of the container is a parameter, or else a field of the secret.\<close>
lemma shop_container_reads:
  assumes provision: "createFoundationRuntimeConfig numstr S di = Inr pv"
  obtains pd where "\<forall>k. shop_container before arn pv k = (case map_of (shop_values numstr S di (shop_parameters numstr S pd)) k of
      Some v \<Rightarrow> Some v | None \<Rightarrow> if k \<in> set shopRuntimeSecretKeys then map_of (pv_shopSecret pv) k else None)"
proof -
  obtain rc db others where rc: "getFoundationRuntimeConfig numstr S = Inr rc"
    and pv: "pv_parameters pv = fst (createStringParameters (rc_parameterPathPrefix rc @ ''/shop'') (shop_values numstr S di (rc_shop rc))) @ others"
      "pv_shopParameterNames pv = snd (createStringParameters (rc_parameterPathPrefix rc @ ''/shop'') (shop_values numstr S di (rc_shop rc)))"
    by (rule provisioned_parts [OF provision])
  obtain pd where shop: "rc_shop rc = shop_parameters numstr S pd" by (rule runtime_config_parts [OF rc])
  have dom: "k \<in> fst ` set vs \<longleftrightarrow> map_of vs k \<noteq> None" for k and vs :: settings
    by (simp add: map_of_eq_None_iff)
  show thesis
    by (rule that [of pd], rule allI, unfold shop_container_def pv(1,2) container_reads [OF surjective_pairing] dom shop) (simp split: option.split)
qed

definition no_parameter_keys :: "string list" where
  "no_parameter_keys = [''DATABASE_URL'', ''JWT_ACCESS_SECRET'', ''RABBITMQ_PASSWORD'', ''RABBITMQ_USER'', ''TOKEN_HMAC_SECRET'',
     ''MINIO_CONSOLE_PORT'', ''MINIO_PORT'', ''RABBITMQ_MANAGEMENT_PORT'', ''RABBITMQ_SIMULATE_DELAY'']"

lemma no_parameter: "k \<in> set no_parameter_keys \<Longrightarrow> map_of (shop_values numstr S di (shop_parameters numstr S pd)) k = None"
proof (rule shop_value_other)
  assume k: "k \<in> set no_parameter_keys"
  have "\<forall>k \<in> set no_parameter_keys. k \<notin> insert ''AWS_CLOUDFRONT_URL'' (set shop_keys) \<and> k \<notin> set overridden_keys \<and> k \<noteq> ''APP_URL''"
    by code_simp
  with k shop_parameter_other_keys [of numstr S pd]
  show "k \<notin> fst ` set (shop_parameters numstr S pd)" "k \<notin> set overridden_keys" "k \<noteq> ''APP_URL''" by blast+
qed

text \<open>The secret of the shop holds what its required secrets are.\<close>
lemma shop_secret:
  assumes "createFoundationRuntimeConfig numstr S di = Inr pv"
  shows "\<forall>k \<in> set (take 4 no_parameter_keys). map_of (pv_shopSecret pv) k \<noteq> None"
    and "\<exists>hmac. map_of (pv_shopSecret pv) ''TOKEN_HMAC_SECRET'' = Some hmac \<and> 32 \<le> length hmac"
proof -
  obtain rc db where rc: "getFoundationRuntimeConfig numstr S = Inr rc"
    and db: "buildDatabaseSecretValues (di_databaseBackend di) (di_shop di) ''shop'' = Inr db"
    and pv: "pv_shopSecret pv = spread_values db (rc_shopSecrets rc)"
    by (rule provisioned_parts [OF assms])
  obtain jwt pass usr hmac where sec: "rc_shopSecrets rc = [(''JWT_ACCESS_SECRET'', jwt), (''RABBITMQ_PASSWORD'', pass),
      (''RABBITMQ_USER'', usr), (''TOKEN_HMAC_SECRET'', hmac)]" and len: "32 \<le> length hmac"
    by (rule runtime_config_parts [OF rc])
  have url: "map_of db ''DATABASE_URL'' \<noteq> None" using database_secret_url [OF db] by blast
  show "\<forall>k \<in> set (take 4 no_parameter_keys). map_of (pv_shopSecret pv) k \<noteq> None"
    using url by (simp add: pv sec map_of_spread_values no_parameter_keys_def)
  show "\<exists>hmac. map_of (pv_shopSecret pv) ''TOKEN_HMAC_SECRET'' = Some hmac \<and> 32 \<le> length hmac"
    using len by (simp add: pv sec map_of_spread_values)
qed

lemma environment_by_kind: "\<forall>v \<in> set shop_environment.
    v = optional_string (ev_name v) \<or>
    v = required (ev_name v) [IsString] \<and> ev_name v \<in> set ([''AWS_REGION'', ''AWS_S3_BUCKET'', ''RABBITMQ_HOST''] @ [''DATABASE_PROVIDER'', ''PAYMENTS_GRPC_HOST''] @ take 4 no_parameter_keys) \<or>
    v = optional_number (ev_name v) \<and> ev_name v \<in> set (number_keys @ drop 5 no_parameter_keys) \<or>
    v = required (ev_name v) [IsNumber] \<and> ev_name v \<in> set number_keys \<or>
    v = required ''APP'' [IsEnum [''shop'', ''payments''], IsString] \<or> v = required ''NODE_ENV'' [IsEnum NodeEnvironment] \<or>
    v = required ''TOKEN_HMAC_SECRET'' [IsString, MinLength 32]"
  by code_simp

lemma deployed_variables:
  assumes provision: "createFoundationRuntimeConfig numstr S di = Inr pv"
  shows "k \<in> set number_keys \<Longrightarrow> shop_container before arn pv k \<in> range (Some \<circ> numstr)"
    and "k \<in> set (drop 5 no_parameter_keys) \<Longrightarrow> shop_container before arn pv k = None"
    and "k \<in> set ([''AWS_REGION'', ''AWS_S3_BUCKET'', ''RABBITMQ_HOST''] @ [''DATABASE_PROVIDER'', ''PAYMENTS_GRPC_HOST''] @ take 4 no_parameter_keys) \<Longrightarrow> shop_container before arn pv k \<noteq> None"
    and "shop_container before arn pv ''APP'' = Some ''shop''"
    and "shop_container before arn pv ''NODE_ENV'' = Some (or_default (st_get S ''shopNodeEnv'') ''production'')"
    and "\<exists>hmac. shop_container before arn pv ''TOKEN_HMAC_SECRET'' = Some hmac \<and> 32 \<le> length hmac"
proof -
  let ?c = "shop_container before arn pv"
  obtain pd where c_all: "\<forall>k. ?c k = (case map_of (shop_values numstr S di (shop_parameters numstr S pd)) k of
      Some v \<Rightarrow> Some v | None \<Rightarrow> if k \<in> set shopRuntimeSecretKeys then map_of (pv_shopSecret pv) k else None)"
    by (rule shop_container_reads [OF provision, of before arn])
  note c = spec [OF c_all]
  let ?vs = "shop_parameters numstr S pd"
  have configured: "\<exists>v. (k, v) \<in> set ?vs \<and> ?c k = Some v" if "k \<in> set shop_keys" "k \<notin> set overridden_keys" for k
    using shop_value_configured [OF subsetD [OF shop_parameter_keys that(1)] that(2), of numstr S pd numstr S di] by (auto simp: c)
  show "?c k \<in> range (Some \<circ> numstr)" if "k \<in> set number_keys" for k
  proof (cases "k = ''RABBITMQ_PORT''")
    case False
    have "\<forall>k \<in> set number_keys. k \<noteq> ''RABBITMQ_PORT'' \<longrightarrow> k \<in> set shop_keys \<and> k \<notin> set overridden_keys" by code_simp
    with that False configured obtain v where "(k, v) \<in> set ?vs" "?c k = Some v" by blast
    then show ?thesis using configured_numbers [of numstr S pd] that by fastforce
  qed (simp add: c shop_value)
  have secret: "k \<in> set no_parameter_keys \<Longrightarrow> ?c k = (if k \<in> set shopRuntimeSecretKeys then map_of (pv_shopSecret pv) k else None)" for k
    by (simp add: c no_parameter)
  show "?c k = None" if "k \<in> set (drop 5 no_parameter_keys)"
  proof -
    have "\<forall>k \<in> set (drop 5 no_parameter_keys). k \<notin> set shopRuntimeSecretKeys" by code_simp
    with that secret [of k] in_set_dropD [OF that] show ?thesis by simp
  qed
  have sec: "\<forall>k \<in> set (take 5 no_parameter_keys). k \<in> set shopRuntimeSecretKeys" by code_simp
  have in_secret: "?c k = map_of (pv_shopSecret pv) k" if "k \<in> set (take 5 no_parameter_keys)" for k
    using secret [of k] in_set_takeD [OF that] sec that by simp
  show "?c k \<noteq> None" if k: "k \<in> set ([''AWS_REGION'', ''AWS_S3_BUCKET'', ''RABBITMQ_HOST''] @ [''DATABASE_PROVIDER'', ''PAYMENTS_GRPC_HOST''] @ take 4 no_parameter_keys)" for k
  proof -
    from k consider "k \<in> set [''AWS_REGION'', ''AWS_S3_BUCKET'', ''RABBITMQ_HOST'']" | "k \<in> set [''DATABASE_PROVIDER'', ''PAYMENTS_GRPC_HOST'']"
      | "k \<in> set (take 4 no_parameter_keys)"
      unfolding set_append by blast
    then show ?thesis
    proof cases
      case 2
      have "\<forall>k \<in> set [''DATABASE_PROVIDER'', ''PAYMENTS_GRPC_HOST'']. k \<in> set shop_keys \<and> k \<notin> set overridden_keys" by code_simp
      with 2 configured [of k] show ?thesis by blast
    next
      case 3
      have "\<forall>k \<in> set (take 4 no_parameter_keys). k \<in> set (take 5 no_parameter_keys)" by code_simp
      with 3 in_secret shop_secret(1) [OF provision] show ?thesis by simp
    qed (auto simp: c shop_value)
  qed
  have "\<forall>k \<in> set [''APP'', ''NODE_ENV'']. k \<in> set shop_keys \<and> k \<notin> set overridden_keys" by code_simp
  then obtain a n where "(''APP'', a) \<in> set ?vs" "?c ''APP'' = Some a" "(''NODE_ENV'', n) \<in> set ?vs" "?c ''NODE_ENV'' = Some n"
    using configured [of "''APP''"] configured [of "''NODE_ENV''"] by auto
  then show "?c ''APP'' = Some ''shop''" "?c ''NODE_ENV'' = Some (or_default (st_get S ''shopNodeEnv'') ''production'')"
    using configured_strings [of numstr S pd] by auto
  show "\<exists>hmac. ?c ''TOKEN_HMAC_SECRET'' = Some hmac \<and> 32 \<le> length hmac"
    using shop_secret(2) [OF provision] in_secret [of "''TOKEN_HMAC_SECRET''"] by (simp add: no_parameter_keys_def)
qed

text \<open>C36: Whatever the configuration of a stack is, when provisioning accepts it and it names one of
  the three environments, the variables the container of the shop is given pass the validation
  the shop starts with.\<close>
theorem deployed_shop_starts:
  assumes provision: "createFoundationRuntimeConfig numstr S di = Inr pv"
    and numbers: "\<And>q. \<exists>x. js_Number (numstr q) = Finite x"
    and environment: "or_default (st_get S ''shopNodeEnv'') ''production'' \<in> set NodeEnvironment"
  shows "\<exists>config. createValidate shop_environment (shop_container before arn pv) = Inr config"
proof -
  let ?c = "shop_container before arn pv"
  note vars = deployed_variables [OF provision, where before = before and arn = arn]
  have "failed_checks ?c v = []" if v: "v \<in> set shop_environment" for v
  proof -
    from bspec [OF environment_by_kind v] show ?thesis
    proof (elim disjE conjE)
      assume "v = optional_string (ev_name v)"
      then show ?thesis by (metis passes(1))
    next
      assume "v = required (ev_name v) [IsString]" and k: "ev_name v \<in> set ([''AWS_REGION'', ''AWS_S3_BUCKET'', ''RABBITMQ_HOST''] @ [''DATABASE_PROVIDER'', ''PAYMENTS_GRPC_HOST''] @ take 4 no_parameter_keys)"
      then show ?thesis using passes(2) [of ?c, OF vars(3) [OF k]] by simp
    next
      assume v: "v = optional_number (ev_name v)" and "ev_name v \<in> set (number_keys @ drop 5 no_parameter_keys)"
      then have "?c (ev_name v) = None \<or> ?c (ev_name v) \<in> range (Some \<circ> numstr)"
        unfolding set_append using vars(1,2) [of "ev_name v"] by blast
      from passes_number(1) [where c = ?c, OF numbers this] v show ?thesis by simp
    next
      assume v: "v = required (ev_name v) [IsNumber]" and k: "ev_name v \<in> set number_keys"
      from passes_number(2) [where c = ?c, OF numbers vars(1) [OF k]] v show ?thesis by simp
    next
      assume "v = required ''APP'' [IsEnum [''shop'', ''payments''], IsString]"
      then show ?thesis using vars(4) by (simp add: failed_checks_def required_def convert_def)
    next
      assume "v = required ''NODE_ENV'' [IsEnum NodeEnvironment]"
      then show ?thesis using vars(5) environment by (simp add: failed_checks_def required_def convert_def)
    next
      assume "v = required ''TOKEN_HMAC_SECRET'' [IsString, MinLength 32]"
      then show ?thesis using vars(6) by (auto simp: failed_checks_def required_def convert_def)
    qed
  qed
  then have "filter (\<lambda>e. snd e \<noteq> []) (map (\<lambda>v. (ev_name v, failed_checks ?c v)) shop_environment) = []"
    by (auto simp: filter_empty_conv)
  then show ?thesis by (simp add: createValidate_def)
qed

definition sample_inputs :: deployment_inputs where
  "sample_inputs =
     (let d = \<lparr>de_databaseHost = ''db'', de_databaseName = ''shop'', de_databasePort = ''5432'', de_databaseUsername = ''shop'',
        de_masterUserSecret = Some \<lparr>ms_host = None, ms_password = Some ''pw'', ms_port = None, ms_username = None\<rparr>\<rparr>
      in \<lparr>di_databaseBackend = ''rds'', di_payments = d, di_shop = d, di_filesBucketName = ''files'', di_mqHost = ''mq'',
        di_mqPort = 5671, di_publicAppUrl = Some ''https://shop.example.com''\<rparr>)"

text \<open>Natural numbers, as \<^verbatim>\<open>String\<close> prints them.\<close>
definition print_natural :: "rat \<Rightarrow> string" where
  "print_natural q = nat_str (nat \<lfloor>q\<rfloor> mod 2 ^ 53)"

lemma sample_provision: "\<exists>pv. createFoundationRuntimeConfig numstr sample_stack sample_inputs = Inr pv"
proof -
  have "getPublicDomainConfig sample_stack = Inr None" by code_simp
  moreover have "\<not> isl (getRequiredNonEmptySecretConfig sample_stack ''shopRabbitmqPassword'' p)"
    "\<not> isl (getRequiredNonEmptySecretConfig sample_stack ''shopRabbitmqUser'' p)" for p
    by code_simp+
  moreover have "\<not> isl (getRequiredSecretConfig sample_stack k 32)" for k
    by (simp add: getRequiredSecretConfig_def sample_stack_def)
  ultimately have "\<not> isl (getFoundationRuntimeConfig numstr sample_stack)"
    by (auto simp: getFoundationRuntimeConfig_def isl_def split: sum.splits)
  then obtain rc where "getFoundationRuntimeConfig numstr sample_stack = Inr rc" by (metis sum.collapse(2))
  moreover obtain a where "buildDatabaseSecretValues (di_databaseBackend sample_inputs) (di_shop sample_inputs) ''shop'' = Inr a"
    by (simp add: sample_inputs_def Let_def buildDatabaseSecretValues_def truthy_def or_default_def)
  moreover obtain b where "buildDatabaseSecretValues (di_databaseBackend sample_inputs) (di_payments sample_inputs) ''payments'' = Inr b"
    by (simp add: sample_inputs_def Let_def buildDatabaseSecretValues_def truthy_def or_default_def)
  ultimately show ?thesis by (simp add: createFoundationRuntimeConfig_def split_beta)
qed

theorem deployed_shop_starts_witness:
  "\<exists>pv config. createFoundationRuntimeConfig print_natural sample_stack sample_inputs = Inr pv \<and>
     createValidate shop_environment (shop_container (\<lambda>a b. True) ''arn'' pv) = Inr config"
proof -
  obtain pv where pv: "createFoundationRuntimeConfig print_natural sample_stack sample_inputs = Inr pv"
    using sample_provision by blast
  have "\<exists>x. js_Number (print_natural q) = Finite x" for q
    unfolding print_natural_def by (rule exI, rule js_Number_nat_str) simp
  moreover have "or_default (st_get sample_stack ''shopNodeEnv'') ''production'' \<in> set NodeEnvironment" by code_simp
  ultimately show ?thesis using deployed_shop_starts [OF pv] pv by blast
qed

end
