(* ===== verification/Deploy_Tasks.thy ===== *)
theory Deploy_Tasks
  imports Deploy_Services Deploy_Theorems
begin

text \<open>
  The containers of \<^verbatim>\<open>service-definitions.ts\<close>, the rights and services of \<^verbatim>\<open>services.ts\<close>, and what
  fits together: an accepted configuration can be placed on the machines, every value a container
  names may be read by the role that starts it, and the roles the services run with read no more.
\<close>

section \<open>Containers\<close>

record health_check =
  hk_command :: "string list"
  hk_interval :: nat
  hk_retries :: nat
  hk_startPeriod :: nat
  hk_timeout :: nat

record port_mapping =
  pm_containerPort :: nat
  pm_hostPort :: nat
  pm_protocol :: string

record log_configuration =
  lc_logDriver :: string
  lc_group :: string
  lc_region :: string
  lc_streamPrefix :: string

record container_definition =
  cd_cpu :: nat
  cd_environment :: settings
  cd_essential :: bool
  cd_healthCheck :: health_check
  cd_image :: string
  cd_logConfiguration :: log_configuration
  cd_memory :: nat
  cd_name :: string
  cd_portMappings :: "port_mapping list"
  cd_secrets :: "(string \<times> value_ref) list"

definition buildLogConfiguration :: "stack_env \<Rightarrow> string \<Rightarrow> string \<Rightarrow> log_configuration" where
  "buildLogConfiguration S logGroupName streamPrefix = \<lparr>lc_logDriver = ''awslogs'', lc_group = logGroupName,
     lc_region = aws_region S, lc_streamPrefix = streamPrefix\<rparr>"

definition buildNodeHealthCheck :: "string \<Rightarrow> health_check" where
  "buildNodeHealthCheck command = \<lparr>hk_command = [''CMD'', ''/nodejs/bin/node'', ''-e'', command], hk_interval = 30,
     hk_retries = 3, hk_startPeriod = 30, hk_timeout = 5\<rparr>"

definition buildRuntimeVersionEnvironment :: "string \<Rightarrow> settings" where
  "buildRuntimeVersionEnvironment runtimeSecretVersionId = [(''RUNTIME_SECRET_VERSION'', runtimeSecretVersionId)]"

definition shopHealthCheckCommand :: string where
  "shopHealthCheckCommand = ''require('http').get('http://127.0.0.1:8080/health', (response) => process.exit(response.statusCode === 200 ? 0 : 1)).on('error', () => process.exit(1))''"

definition paymentsHealthCheckCommand :: string where
  "paymentsHealthCheckCommand = ''require('net').createConnection(5001, '127.0.0.1').on('connect', () => process.exit(0)).on('error', () => process.exit(1))''"

record container_args =
  ca_imageUri :: string
  ca_logGroupName :: string
  ca_runtimeParameterNames :: settings
  ca_runtimeSecretArn :: string
  ca_runtimeSecretVersionId :: string

definition buildPaymentsContainerDefinitions :: "(string \<Rightarrow> string \<Rightarrow> bool) \<Rightarrow> stack_env \<Rightarrow> container_args \<Rightarrow> container_definition" where
  "buildPaymentsContainerDefinitions before S a =
     \<lparr>cd_cpu = 128, cd_environment = buildRuntimeVersionEnvironment (ca_runtimeSecretVersionId a), cd_essential = True,
      cd_healthCheck = buildNodeHealthCheck paymentsHealthCheckCommand, cd_image = ca_imageUri a,
      cd_logConfiguration = buildLogConfiguration S (ca_logGroupName a) ''payments'', cd_memory = 300, cd_name = ''payments'',
      cd_portMappings = [\<lparr>pm_containerPort = 5001, pm_hostPort = 5001, pm_protocol = ''tcp''\<rparr>],
      cd_secrets = buildContainerSecrets before (ca_runtimeParameterNames a) (ca_runtimeSecretArn a) paymentsRuntimeSecretKeys\<rparr>"

definition buildShopContainerDefinitions :: "(string \<Rightarrow> string \<Rightarrow> bool) \<Rightarrow> stack_env \<Rightarrow> container_args \<Rightarrow> container_definition" where
  "buildShopContainerDefinitions before S a =
     \<lparr>cd_cpu = 384, cd_environment = buildRuntimeVersionEnvironment (ca_runtimeSecretVersionId a), cd_essential = True,
      cd_healthCheck = buildNodeHealthCheck shopHealthCheckCommand, cd_image = ca_imageUri a,
      cd_logConfiguration = buildLogConfiguration S (ca_logGroupName a) ''shop'', cd_memory = 400, cd_name = ''shop'',
      cd_portMappings = [\<lparr>pm_containerPort = 8080, pm_hostPort = 0, pm_protocol = ''tcp''\<rparr>],
      cd_secrets = buildContainerSecrets before (ca_runtimeParameterNames a) (ca_runtimeSecretArn a) shopRuntimeSecretKeys\<rparr>"

section \<open>Rights and services\<close>

text \<open>An allowing statement of a policy; the one condition of the sources is on the sender of a mail.\<close>
record policy_statement =
  po_Action :: "string list"
  po_Resource :: "string list"
  po_FromAddress :: "string option"

definition buildRuntimeParameterPathArn :: "stack_env \<Rightarrow> string \<Rightarrow> string" where
  "buildRuntimeParameterPathArn S accountId =
     ''arn:aws:ssm:'' @ aws_region S @ '':'' @ accountId @ '':parameter/'' @ projectPrefix S @ ''/'' @ st_stack S @ ''/*''"

definition resolveImageUri :: "string option \<Rightarrow> string \<Rightarrow> string \<Rightarrow> string option \<Rightarrow> exn + string" where
  "resolveImageUri explicitImageUri repositoryUrl service tag = (case truthy explicitImageUri of
     Some u \<Rightarrow> Inr u
   | None \<Rightarrow> (case truthy tag of
        Some t \<Rightarrow> Inr (repositoryUrl @ '':'' @ t)
      | None \<Rightarrow> Inl (PlainError (service @ ''ImageTag or '' @ service @
          ''ImageUri must be set explicitly. Implicit latest image fallback is not allowed.''))))"

record services_inputs =
  sx_accountId :: string
  sx_paymentsRepositoryUrl :: string
  sx_shopRepositoryUrl :: string
  sx_shopTargetGroupArn :: "string option"
  sx_filesBucketArn :: string
  sx_paymentsRuntimeParameterNames :: settings
  sx_paymentsRuntimeSecretArn :: string
  sx_paymentsRuntimeSecretVersionId :: string
  sx_shopRuntimeParameterNames :: settings
  sx_shopRuntimeSecretArn :: string
  sx_shopRuntimeSecretVersionId :: string
  sx_shopSesFromAddress :: string

record ecs_service =
  es_name :: string
  es_container :: container_definition
  es_deploymentMaximumPercent :: rat
  es_deploymentMinimumHealthyPercent :: rat
  es_desiredCount :: rat
  es_forceDelete :: bool
  es_gracePeriodSeconds :: "rat option"
  es_loadBalancer :: "(string \<times> nat \<times> string) option"
  es_registry :: "(string \<times> nat) option"

record compute_services =
  cs_executionPolicy :: "policy_statement list"
  cs_shopPolicy :: "policy_statement list"
  cs_paymentsPolicy :: "policy_statement list"
  cs_shopService :: ecs_service
  cs_paymentsService :: ecs_service
  cs_paymentsServiceDiscoveryHost :: string

definition createComputeServices ::
  "(string \<Rightarrow> string \<Rightarrow> bool) \<Rightarrow> stack_env \<Rightarrow> services_inputs \<Rightarrow> exn + compute_services" where
  "createComputeServices before S x = (case getComputeServicesConfig S of Inl e \<Rightarrow> Inl e | Inr sc \<Rightarrow>
     (case resolveImageUri (vc_shopImageUri sc) (sx_shopRepositoryUrl x) ''shop'' (vc_shopImageTag sc) of Inl e \<Rightarrow> Inl e | Inr shopImage \<Rightarrow>
     (case resolveImageUri (vc_paymentsImageUri sc) (sx_paymentsRepositoryUrl x) ''payments'' (vc_paymentsImageTag sc) of
        Inl e \<Rightarrow> Inl e | Inr paymentsImage \<Rightarrow>
      (let logs = (\<lambda>service. ''/ecs/'' @ projectPrefix S @ ''/'' @ st_stack S @ ''/'' @ service) in
       Inr \<lparr>cs_executionPolicy =
           [\<lparr>po_Action = [''secretsmanager:GetSecretValue''],
             po_Resource = [sx_shopRuntimeSecretArn x, sx_paymentsRuntimeSecretArn x], po_FromAddress = None\<rparr>,
            \<lparr>po_Action = [''ssm:GetParameter'', ''ssm:GetParameters'', ''ssm:GetParametersByPath''],
             po_Resource = [buildRuntimeParameterPathArn S (sx_accountId x)], po_FromAddress = None\<rparr>],
         cs_shopPolicy =
           [\<lparr>po_Action = [''s3:GetObject'', ''s3:PutObject'', ''s3:DeleteObject'', ''s3:AbortMultipartUpload''],
             po_Resource = [sx_filesBucketArn x @ ''/*''], po_FromAddress = None\<rparr>,
            \<lparr>po_Action = [''s3:ListBucket''], po_Resource = [sx_filesBucketArn x], po_FromAddress = None\<rparr>,
            \<lparr>po_Action = [''ses:SendEmail'', ''ses:SendRawEmail''], po_Resource = [''*''],
             po_FromAddress = Some (sx_shopSesFromAddress x)\<rparr>],
         cs_paymentsPolicy =
           [\<lparr>po_Action = [''secretsmanager:GetSecretValue''], po_Resource = [sx_paymentsRuntimeSecretArn x], po_FromAddress = None\<rparr>],
         cs_shopService = \<lparr>es_name = stackName S ''shop-service'',
           es_container = buildShopContainerDefinitions before S \<lparr>ca_imageUri = shopImage, ca_logGroupName = logs ''shop'',
             ca_runtimeParameterNames = sx_shopRuntimeParameterNames x, ca_runtimeSecretArn = sx_shopRuntimeSecretArn x,
             ca_runtimeSecretVersionId = sx_shopRuntimeSecretVersionId x\<rparr>,
           es_deploymentMaximumPercent = vc_shopDeploymentMaximumPercent sc,
           es_deploymentMinimumHealthyPercent = vc_shopDeploymentMinimumHealthyPercent sc,
           es_desiredCount = vc_shopDesiredCount sc, es_forceDelete = (st_stack S \<noteq> ''production''),
           es_gracePeriodSeconds = map_option (\<lambda>_. vc_shopHealthCheckGracePeriodSeconds sc) (sx_shopTargetGroupArn x),
           es_loadBalancer = map_option (\<lambda>arn. (''shop'', 8080, arn)) (sx_shopTargetGroupArn x), es_registry = None\<rparr>,
         cs_paymentsService = \<lparr>es_name = stackName S ''payments-service'',
           es_container = buildPaymentsContainerDefinitions before S \<lparr>ca_imageUri = paymentsImage, ca_logGroupName = logs ''payments'',
             ca_runtimeParameterNames = sx_paymentsRuntimeParameterNames x, ca_runtimeSecretArn = sx_paymentsRuntimeSecretArn x,
             ca_runtimeSecretVersionId = sx_paymentsRuntimeSecretVersionId x\<rparr>,
           es_deploymentMaximumPercent = vc_paymentsDeploymentMaximumPercent sc,
           es_deploymentMinimumHealthyPercent = vc_paymentsDeploymentMinimumHealthyPercent sc,
           es_desiredCount = vc_paymentsDesiredCount sc, es_forceDelete = (st_stack S \<noteq> ''production''),
           es_gracePeriodSeconds = None, es_loadBalancer = None, es_registry = Some (''payments'', 5001)\<rparr>,
         cs_paymentsServiceDiscoveryHost = ''payments.'' @ vc_cloudMapNamespaceName sc\<rparr>))))"

section \<open>Placement\<close>

lemma in_turn_Inr: "in_turn cs = Inr u \<longleftrightarrow> (\<forall>c \<in> set cs. c = Inr ())"
  by (induction cs) (auto split: sum.splits)

lemma in_turn_then: "(case in_turn cs of Inl e \<Rightarrow> Inl e | Inr _ \<Rightarrow> Inr y) = Inr c \<longleftrightarrow> (\<forall>k \<in> set cs. k = Inr ()) \<and> c = y"
  using in_turn_Inr [of cs] by (cases "in_turn cs") auto

lemma refuse_unless_Inr [simp]: "refuse_unless b m = Inr u \<longleftrightarrow> b"
  by (simp add: refuse_unless_def)

lemma resolveImageSource_Inr:
  "resolveImageSource S t u s = Inr im \<Longrightarrow> (truthy (im_imageTag im) = None) \<noteq> (truthy (im_imageUri im) = None) \<and>
     (st_stack S = ''production'' \<longrightarrow> \<not> im_forceZeroDesiredCount im)"
  by (auto simp: resolveImageSource_def validateImageSource_def truthy_def split: sum.splits if_splits option.splits)

lemma computeConfig_Inr:
  assumes "getFoundationComputeConfig S = Inr m"
  shows "1 \<le> cc_minSize m" "cc_minSize m \<le> cc_desiredCapacity m" "cc_desiredCapacity m \<le> cc_maxSize m"
  using assms by (auto simp: getFoundationComputeConfig_def Let_def in_turn_Inr validateCapacity_def simp del: in_turn.simps split: sum.splits)

text \<open>A configuration of the services that is accepted can be placed: whole numbers of tasks, the
  payments service on no more machines than there may be, percentages ECS takes, and for each
  service exactly one image, which in production somebody named.\<close>
theorem services_can_be_placed:
  assumes "getComputeServicesConfig S = Inr c"
  shows "\<exists>m. getFoundationComputeConfig S = Inr m \<and> 1 \<le> cc_minSize m \<and> cc_minSize m \<le> cc_desiredCapacity m \<and>
      cc_desiredCapacity m \<le> cc_maxSize m \<and>
      0 \<le> vc_shopDesiredCount c \<and> Number_isInteger (vc_shopDesiredCount c) \<and>
      0 \<le> vc_paymentsDesiredCount c \<and> Number_isInteger (vc_paymentsDesiredCount c) \<and> vc_paymentsDesiredCount c \<le> cc_maxSize m \<and>
      vc_shopDeploymentMinimumHealthyPercent c \<le> vc_shopDeploymentMaximumPercent c \<and>
      vc_paymentsDeploymentMinimumHealthyPercent c \<le> vc_paymentsDeploymentMaximumPercent c \<and>
      (truthy (vc_shopImageTag c) = None) \<noteq> (truthy (vc_shopImageUri c) = None) \<and>
      (truthy (vc_paymentsImageTag c) = None) \<noteq> (truthy (vc_paymentsImageUri c) = None)"
proof -
  obtain m where m: "getFoundationComputeConfig S = Inr m"
    using assms by (cases "getFoundationComputeConfig S") (simp_all add: getComputeServicesConfig_def)
  note fits = computeConfig_Inr [OF m]
  let ?opt = "\<lambda>k. truthy (map_option js_trim (truthy (st_get S k)))"
  obtain shopImage where shop: "resolveImageSource S (?opt ''shopImageTag'') (?opt ''shopImageUri'') ''shop'' = Inr shopImage"
    using assms m by (cases "resolveImageSource S (?opt ''shopImageTag'') (?opt ''shopImageUri'') ''shop''")
      (simp_all add: getComputeServicesConfig_def Let_def split_beta)
  obtain paymentsImage where payments: "resolveImageSource S (?opt ''paymentsImageTag'') (?opt ''paymentsImageUri'') ''payments'' = Inr paymentsImage"
    using assms m shop by (cases "resolveImageSource S (?opt ''paymentsImageTag'') (?opt ''paymentsImageUri'') ''payments''")
      (simp_all add: getComputeServicesConfig_def Let_def split_beta)
  note images = resolveImageSource_Inr [OF shop] resolveImageSource_Inr [OF payments]
  have zero: "Number_isInteger 0" by (simp add: Number_isInteger_def)
  note accepted = assms [unfolded getComputeServicesConfig_def m sum.case Let_def split_beta fst_conv snd_conv shop payments in_turn_then]
  from accepted [THEN conjunct1]
  have counts: "0 \<le> or_default (st_getNumber S ''shopDesiredCount'') 1" "Number_isInteger (or_default (st_getNumber S ''shopDesiredCount'') 1)"
    "0 \<le> or_default (st_getNumber S ''paymentsDesiredCount'') 1" "Number_isInteger (or_default (st_getNumber S ''paymentsDesiredCount'') 1)"
    "or_default (st_getNumber S ''paymentsDesiredCount'') 1 \<le> cc_maxSize m"
    by (simp_all add: validateDesiredCount_def validatePaymentsPlacement_def)
  have percentages: "vc_shopDeploymentMinimumHealthyPercent c \<le> vc_shopDeploymentMaximumPercent c"
    "vc_paymentsDeploymentMinimumHealthyPercent c \<le> vc_paymentsDeploymentMaximumPercent c"
    using accepted [THEN conjunct1] unfolding accepted [THEN conjunct2]
    by (simp_all add: validateDeploymentPercentages_def in_turn_Inr del: in_turn.simps)
  have c: "vc_shopDesiredCount c = (if im_forceZeroDesiredCount shopImage then 0 else or_default (st_getNumber S ''shopDesiredCount'') 1)"
    "vc_paymentsDesiredCount c = (if im_forceZeroDesiredCount paymentsImage then 0 else or_default (st_getNumber S ''paymentsDesiredCount'') 1)"
    "vc_shopImageTag c = im_imageTag shopImage" "vc_shopImageUri c = im_imageUri shopImage"
    "vc_paymentsImageTag c = im_imageTag paymentsImage" "vc_paymentsImageUri c = im_imageUri paymentsImage"
    unfolding accepted [THEN conjunct2] by simp_all
  show ?thesis
    by (rule exI [of _ m], intro conjI; (fact m fits percentages | use images counts zero fits in \<open>simp add: c\<close>))
qed

section \<open>Rights\<close>

text \<open>A policy names a resource, or all that begin with what stands before its final star.\<close>
definition resource_matches :: "string \<Rightarrow> string \<Rightarrow> bool" where
  "resource_matches p r = (if p \<noteq> [] \<and> last p = CHR ''*'' then take (length p - 1) r = butlast p else r = p)"

definition allowed :: "policy_statement list \<Rightarrow> string \<Rightarrow> string \<Rightarrow> bool" where
  "allowed ps action r = (\<exists>s \<in> set ps. action \<in> set (po_Action s) \<and> (\<exists>p \<in> set (po_Resource s). resource_matches p r))"

text \<open>A parameter whose name begins with a slash.\<close>
definition parameter_arn :: "stack_env \<Rightarrow> string \<Rightarrow> string \<Rightarrow> string" where
  "parameter_arn S accountId name = ''arn:aws:ssm:'' @ aws_region S @ '':'' @ accountId @ '':parameter'' @ name"

definition may_resolve :: "policy_statement list \<Rightarrow> stack_env \<Rightarrow> string \<Rightarrow> value_ref \<Rightarrow> bool" where
  "may_resolve ps S accountId r = (case r of
     Parameter p \<Rightarrow> allowed ps ''ssm:GetParameters'' (parameter_arn S accountId p)
   | SecretField arn f \<Rightarrow> allowed ps ''secretsmanager:GetSecretValue'' arn)"

lemma matches_prefix: "resource_matches (p @ ''*'') (p @ r)"
  by (simp add: resource_matches_def butlast_append)

lemma plain_matches: "CHR ''*'' \<notin> set p \<Longrightarrow> resource_matches p r \<longleftrightarrow> r = p"
  by (auto simp: resource_matches_def dest: last_in_set)

lemma path_arn_matches:
  "resource_matches (buildRuntimeParameterPathArn S a) (parameter_arn S a (''/'' @ projectPrefix S @ ''/'' @ st_stack S @ ''/'' @ rest))"
  using matches_prefix [of "''arn:aws:ssm:'' @ aws_region S @ '':'' @ a @ '':parameter/'' @ projectPrefix S @ ''/'' @ st_stack S @ ''/''" rest]
  by (simp add: buildRuntimeParameterPathArn_def parameter_arn_def)

lemma created_under: "(k, p) \<in> set (snd (createStringParameters q vs)) \<Longrightarrow> \<exists>rest. p = q @ ''/'' @ rest"
  by (auto simp: createStringParameters_def buildParameterName_def)

lemma container_refs:
  "(k, r) \<in> set (buildContainerSecrets before names arn keys) \<Longrightarrow>
     (\<exists>p. r = Parameter p \<and> (k, p) \<in> set names) \<or> r = SecretField arn k \<and> k \<in> set keys"
  by (auto simp: buildContainerSecrets_def)

lemma services_parts:
  assumes "createComputeServices before S x = Inr cs"
  shows "cs_executionPolicy cs = [\<lparr>po_Action = [''secretsmanager:GetSecretValue''],
       po_Resource = [sx_shopRuntimeSecretArn x, sx_paymentsRuntimeSecretArn x], po_FromAddress = None\<rparr>,
      \<lparr>po_Action = [''ssm:GetParameter'', ''ssm:GetParameters'', ''ssm:GetParametersByPath''],
       po_Resource = [buildRuntimeParameterPathArn S (sx_accountId x)], po_FromAddress = None\<rparr>]"
    and "cd_secrets (es_container (cs_shopService cs)) =
      buildContainerSecrets before (sx_shopRuntimeParameterNames x) (sx_shopRuntimeSecretArn x) shopRuntimeSecretKeys"
    and "cd_secrets (es_container (cs_paymentsService cs)) =
      buildContainerSecrets before (sx_paymentsRuntimeParameterNames x) (sx_paymentsRuntimeSecretArn x) paymentsRuntimeSecretKeys"
    and "\<forall>s \<in> set (cs_shopPolicy cs). ''secretsmanager:GetSecretValue'' \<notin> set (po_Action s) \<and> ''ssm:GetParameters'' \<notin> set (po_Action s)"
    and "cs_paymentsPolicy cs = [\<lparr>po_Action = [''secretsmanager:GetSecretValue''], po_Resource = [sx_paymentsRuntimeSecretArn x], po_FromAddress = None\<rparr>]"
  using assms by (auto simp: createComputeServices_def Let_def buildShopContainerDefinitions_def buildPaymentsContainerDefinitions_def
      split: sum.splits)

text \<open>Every value the containers name is one the role that starts them may read; the role the shop
  itself runs with may read no secret and no parameter, that of the payments service only the
  secret of its own.\<close>
theorem tasks_may_read_what_they_name:
  assumes provision: "createFoundationRuntimeConfig numstr S di = Inr pv"
    and services: "createComputeServices before S x = Inr cs"
    and names: "sx_shopRuntimeParameterNames x = pv_shopParameterNames pv"
      "sx_paymentsRuntimeParameterNames x = pv_paymentsParameterNames pv"
    and arn: "CHR ''*'' \<notin> set (sx_paymentsRuntimeSecretArn x)"
  shows "\<forall>(k, r) \<in> set (cd_secrets (es_container (cs_shopService cs))) \<union> set (cd_secrets (es_container (cs_paymentsService cs))).
      may_resolve (cs_executionPolicy cs) S (sx_accountId x) r"
    and "\<not> may_resolve (cs_shopPolicy cs) S a ref"
    and "may_resolve (cs_paymentsPolicy cs) S a ref \<longleftrightarrow> (\<exists>f. ref = SecretField (sx_paymentsRuntimeSecretArn x) f)"
proof -
  note parts = services_parts [OF services]
  obtain rc where rc: "getFoundationRuntimeConfig numstr S = Inr rc"
    and pv: "\<exists>vs. pv_shopParameterNames pv = snd (createStringParameters (rc_parameterPathPrefix rc @ ''/shop'') vs)"
      "\<exists>vs. pv_paymentsParameterNames pv = snd (createStringParameters (rc_parameterPathPrefix rc @ ''/payments'') vs)"
    by (rule provisioned_parts [OF provision]) blast
  have "rc_parameterPathPrefix rc = ''/'' @ projectPrefix S @ ''/'' @ st_stack S"
    by (rule runtime_config_parts [OF rc])
  then have under: "\<exists>rest. p = ''/'' @ projectPrefix S @ ''/'' @ st_stack S @ ''/'' @ rest"
    if "(k, p) \<in> set (pv_shopParameterNames pv) \<union> set (pv_paymentsParameterNames pv)" for k p
    using that pv by (auto dest!: created_under)
  have own: "resource_matches arn arn" for arn by (simp add: resource_matches_def butlast_conv_take)
  have parameter: "may_resolve (cs_executionPolicy cs) S (sx_accountId x) (Parameter p)"
    if "(k, p) \<in> set (pv_shopParameterNames pv) \<union> set (pv_paymentsParameterNames pv)" for k p
    using under [OF that] path_arn_matches [of S "sx_accountId x"]
    by (auto simp: may_resolve_def allowed_def parts(1))
  have secret: "may_resolve (cs_executionPolicy cs) S (sx_accountId x) (SecretField arn f)"
    if "arn = sx_shopRuntimeSecretArn x \<or> arn = sx_paymentsRuntimeSecretArn x" for arn f
    using that own by (auto simp: may_resolve_def allowed_def parts(1))
  show "\<forall>(k, r) \<in> set (cd_secrets (es_container (cs_shopService cs))) \<union> set (cd_secrets (es_container (cs_paymentsService cs))).
      may_resolve (cs_executionPolicy cs) S (sx_accountId x) r"
    using parameter secret unfolding parts(2,3) names by (auto dest!: container_refs)
  show "\<not> may_resolve (cs_shopPolicy cs) S a ref"
    using parts(4) by (auto simp: may_resolve_def allowed_def split: value_ref.splits)
  show "may_resolve (cs_paymentsPolicy cs) S a ref \<longleftrightarrow> (\<exists>f. ref = SecretField (sx_paymentsRuntimeSecretArn x) f)"
    by (auto simp: may_resolve_def allowed_def parts(5) plain_matches [OF arn] split: value_ref.splits)
qed

lemma namespace_of_services:
  assumes "getComputeServicesConfig S = Inr sc"
  shows "vc_cloudMapNamespaceName sc = or_default (st_get S ''cloudMapNamespaceName'') (projectPrefix S @ ''.local'')"
  using assms by (auto simp: getComputeServicesConfig_def Let_def split_beta in_turn_then simp del: in_turn.simps split: sum.splits)

lemma payments_host_parameter: "\<forall>(k, v) \<in> set (shop_parameters numstr S pd).
    k = ''PAYMENTS_GRPC_HOST'' \<longrightarrow> v = or_default (st_get S ''shopPaymentsGrpcHost'') ''payments.rd-shop.local''"
  by (cases "st_get S ''shopCloudFrontUrl''"; simp only: expand_parameters) (simp_all split del: if_split)

text \<open>The host the shop asks for the payments service is a parameter of its own: another prefix of
  the project moves the service and not the parameter.\<close>
lemma payments_host_is_not_derived:
  assumes "getComputeServicesConfig S = Inr sc" "st_get S ''shopPaymentsGrpcHost'' = None" "st_get S ''cloudMapNamespaceName'' = None"
    and "(''PAYMENTS_GRPC_HOST'', host) \<in> set (shop_parameters numstr S pd)"
  shows "host = ''payments.'' @ vc_cloudMapNamespaceName sc \<longleftrightarrow> projectPrefix S = ''rd-shop''"
proof -
  have "host = ''payments.rd-shop'' @ ''.local''"
    using payments_host_parameter [of numstr S pd] assms(2,4) by (auto simp: or_default_def)
  moreover have "''payments.'' @ vc_cloudMapNamespaceName sc = (''payments.'' @ projectPrefix S) @ ''.local''"
    using namespace_of_services [OF assms(1)] assms(3) by (simp add: or_default_def)
  ultimately show ?thesis unfolding append_same_eq by auto
qed

end
