(* ===== verification/RabbitMQ_Lifecycle.thy ===== *)
theory RabbitMQ_Lifecycle
  imports RabbitMQ Environment
begin

text \<open>
  The connection of \<^verbatim>\<open>rabbitmq/rabbitmq.service.ts\<close> from its start to its end, its consumers, and
  the start and stop of the worker (\<^verbatim>\<open>orders-worker/orders-worker.service.ts\<close>). amqplib and the
  broker are a record of answers: the error of a call, or none. A channel the broker closed
  refuses every call.
\<close>

section \<open>State and answers\<close>

record consumer =
  cs_tag :: string
  cs_queue :: string
  cs_noAck :: bool

record amqp =
  aq_connected :: bool
  aq_channel :: channel_state
  aq_prefetch :: "env_value option"
  aq_queues :: "string list"
  aq_consumers :: "consumer list"
  aq_consumerTag :: "string option"

record broker =
  br_connect :: "exn option"
  br_createChannel :: "exn option"
  br_prefetch :: "exn option"
  br_assertQueue :: "string \<Rightarrow> exn option"
  br_consume :: "string \<Rightarrow> exn + string"
  br_cancel :: "exn option"
  br_closeChannel :: "exn option"
  br_closeConnection :: "exn option"

type_synonym 'a mq = "(amqp, exn, 'a) step"

definition answered :: "exn option \<Rightarrow> (amqp \<Rightarrow> amqp) \<Rightarrow> unit mq" where
  "answered e f s = (case e of Some x \<Rightarrow> (Inl x, s) | None \<Rightarrow> (Inr (), f s))"

text \<open>A call on the channel.\<close>
definition on_channel :: "exn option \<Rightarrow> (amqp \<Rightarrow> amqp) \<Rightarrow> unit mq" where
  "on_channel e f s = (if aq_channel s = ChannelOpen then answered e f s else (Inl (PlainError ''Channel closed''), s))"

definition mq_resolveChannel :: "unit mq" where
  "mq_resolveChannel s = (if aq_channel s = NoChannel
     then (Inl (PlainError ''RabbitMQ channel is not initialized''), s) else (Inr (), s))"

section \<open>Connecting\<close>

record connect_params =
  cn_hostname :: "env_value option"
  cn_password :: "env_value option"
  cn_port :: "env_value option"
  cn_protocol :: string
  cn_username :: "env_value option"
  cn_vhost :: env_value
  cn_servername :: "string option"

definition string_value :: "env_value option \<Rightarrow> string option" where
  "string_value v = (case v of Some (EnvString s) \<Rightarrow> Some s | _ \<Rightarrow> None)"

definition whole_value :: "env_value option \<Rightarrow> int option" where
  "whole_value v = (case v of Some (EnvNumber (Finite q)) \<Rightarrow> if of_int \<lfloor>q\<rfloor> = q then Some \<lfloor>q\<rfloor> else None | _ \<Rightarrow> None)"

text \<open>What is handed to \<^verbatim>\<open>connect\<close>.\<close>
definition connection_params :: "(string \<Rightarrow> env_value option) \<Rightarrow> connect_params" where
  "connection_params config =
     (let host = config ''RABBITMQ_HOST''; port = config ''RABBITMQ_PORT'';
          transport = resolveConnectionTransport (string_value host) (whole_value port)
      in \<lparr>cn_hostname = host, cn_password = config ''RABBITMQ_PASSWORD'', cn_port = port, cn_protocol = ct_protocol transport,
          cn_username = config ''RABBITMQ_USER'',
          cn_vhost = (case config ''RABBITMQ_VHOST'' of Some v \<Rightarrow> v | None \<Rightarrow> EnvString ''/''),
          cn_servername = ct_servername transport\<rparr>)"

definition assert_queue :: "broker \<Rightarrow> string \<Rightarrow> unit mq" where
  "assert_queue B q = on_channel (br_assertQueue B q) (\<lambda>s. s\<lparr>aq_queues := aq_queues s @ [q]\<rparr>)"

definition setupQueues :: "broker \<Rightarrow> unit mq" where
  "setupQueues B = bind_s mq_resolveChannel (\<lambda>_. bind_s (assert_queue B ORDER_PROCESS_QUEUE) (\<lambda>_. assert_queue B ORDER_DLQ))"

definition connect :: "(string \<Rightarrow> env_value option) \<Rightarrow> broker \<Rightarrow> unit mq" where
  "connect config B =
     bind_s (answered (br_connect B) (\<lambda>s. s\<lparr>aq_connected := True\<rparr>)) (\<lambda>_.
     bind_s (answered (br_createChannel B) (\<lambda>s. s\<lparr>aq_channel := ChannelOpen\<rparr>)) (\<lambda>_.
     bind_s (on_channel (br_prefetch B) (\<lambda>s. s\<lparr>aq_prefetch :=
        Some (case config ''RABBITMQ_PREFETCH_COUNT'' of Some n \<Rightarrow> n | None \<Rightarrow> EnvNumber (Finite 10))\<rparr>)) (\<lambda>_.
     setupQueues B)))"

text \<open>Closing a channel ends its consumers; an error leaves what was not closed yet.\<close>
definition disconnect :: "broker \<Rightarrow> unit mq" where
  "disconnect B =
     bind_s (\<lambda>s. if aq_channel s = NoChannel then (Inr (), s)
        else on_channel (br_closeChannel B) (\<lambda>s. s\<lparr>aq_channel := NoChannel, aq_consumers := []\<rparr>) s) (\<lambda>_ s.
     if aq_connected s then answered (br_closeConnection B) (\<lambda>s. s\<lparr>aq_connected := False\<rparr>) s else (Inr (), s))"

section \<open>Consuming\<close>

text \<open>\<^verbatim>\<open>{ ...options, noAck: false }\<close>: whatever the options say.\<close>
definition safe_no_ack :: "bool option \<Rightarrow> bool" where
  "safe_no_ack noAck = False"

definition consume :: "broker \<Rightarrow> string \<Rightarrow> bool option \<Rightarrow> string mq" where
  "consume B queue noAck = bind_s mq_resolveChannel (\<lambda>_ s.
     if aq_channel s \<noteq> ChannelOpen then (Inl (PlainError ''Channel closed''), s)
     else case br_consume B queue of Inl e \<Rightarrow> (Inl e, s)
       | Inr tag \<Rightarrow> (Inr tag, s\<lparr>aq_consumers := aq_consumers s @ [\<lparr>cs_tag = tag, cs_queue = queue, cs_noAck = safe_no_ack noAck\<rparr>]\<rparr>))"

definition cancelConsumer :: "broker \<Rightarrow> string \<Rightarrow> unit mq" where
  "cancelConsumer B tag s = (if aq_channel s = NoChannel then (Inr (), s)
     else on_channel (br_cancel B) (\<lambda>s. s\<lparr>aq_consumers := filter (\<lambda>c. cs_tag c \<noteq> tag) (aq_consumers s)\<rparr>) s)"

text \<open>The callback of a consumer: nothing when the broker cancelled it, else the handler, whose
  rejection is only logged.\<close>
definition on_message :: "('m \<Rightarrow> 'a act) \<Rightarrow> 'm option \<Rightarrow> world \<Rightarrow> world" where
  "on_message handler msg w = (case msg of None \<Rightarrow> w | Some m \<Rightarrow> snd (handler m w))"

definition startConsuming :: "broker \<Rightarrow> unit mq" where
  "startConsuming B = bind_s (consume B ORDER_PROCESS_QUEUE None) (\<lambda>tag. modify_s (\<lambda>s. s\<lparr>aq_consumerTag := Some tag\<rparr>))"

definition stopConsuming :: "broker \<Rightarrow> unit mq" where
  "stopConsuming B s = (case truthy (aq_consumerTag s) of
     None \<Rightarrow> (Inr (), s)
   | Some tag \<Rightarrow> bind_s (cancelConsumer B tag) (\<lambda>_. modify_s (\<lambda>s. s\<lparr>aq_consumerTag := None\<rparr>)) s)"

section \<open>From start to end\<close>

definition disconnected :: amqp where
  "disconnected = \<lparr>aq_connected = False, aq_channel = NoChannel, aq_prefetch = None, aq_queues = [], aq_consumers = [],
     aq_consumerTag = None\<rparr>"

lemmas mq_defs = connect_def setupQueues_def assert_queue_def disconnect_def consume_def cancelConsumer_def startConsuming_def
  stopConsuming_def on_channel_def answered_def mq_resolveChannel_def safe_no_ack_def bind_s_def modify_s_def

text \<open>The worker is started after the service it consumes with.\<close>
definition start_up :: "(string \<Rightarrow> env_value option) \<Rightarrow> broker \<Rightarrow> unit mq" where
  "start_up config B = bind_s (connect config B) (\<lambda>_. startConsuming B)"

text \<open>Once the start succeeded, there is one consumer of the processing queue, which acknowledges by
  hand, the number of unacknowledged messages is limited, and both queues are there; a start that
  failed consumes nothing.\<close>
theorem start_up_consumes_once:
  assumes "start_up config B disconnected = (r, s)"
  shows "r = Inr () \<longleftrightarrow> aq_consumers s \<noteq> []"
    and "r = Inr () \<Longrightarrow> aq_connected s \<and> aq_channel s = ChannelOpen \<and> aq_prefetch s \<noteq> None \<and>
      aq_queues s = [ORDER_PROCESS_QUEUE, ORDER_DLQ] \<and>
      (\<exists>tag. aq_consumers s = [\<lparr>cs_tag = tag, cs_queue = ORDER_PROCESS_QUEUE, cs_noAck = False\<rparr>] \<and> aq_consumerTag s = Some tag)"
  using assms by (auto simp: start_up_def disconnected_def mq_defs split: option.splits sum.splits)

text \<open>Connecting in these steps is what \<open>rabbit_connect\<close> says of it as a whole.\<close>
lemma connect_refines:
  assumes "connect config B disconnected = (r, s)" "w_channel w = NoChannel"
  shows "\<exists>oc w'. rabbit_connect oc w = (r, w') \<and> w_channel w' = aq_channel s"
proof -
  have "r = Inr () \<and> aq_channel s = ChannelOpen \<or> (\<exists>e. r = Inl e \<and> aq_channel s \<in> {NoChannel, ChannelOpen})"
    using assms(1) by (auto simp: disconnected_def mq_defs split: option.splits)
  then consider "r = Inr ()" "aq_channel s = ChannelOpen" | e where "r = Inl e" "aq_channel s = NoChannel"
    | e where "r = Inl e" "aq_channel s = ChannelOpen" by blast
  then show ?thesis
  proof cases
    case 1 then show ?thesis by (intro exI [of _ ConnectOk]) (simp add: rabbit_connect_def)
  next
    case (2 e) then show ?thesis using assms(2) by (intro exI [of _ "ConnectFails e"]) (simp add: rabbit_connect_def)
  next
    case (3 e) then show ?thesis by (intro exI [of _ "QueueSetupFails e"]) (simp add: rabbit_connect_def)
  qed
qed

text \<open>While the channel is open and the broker answers, it does not matter whether the worker or the
  service is torn down first: nothing is left open and nothing is consumed.\<close>
theorem teardown_in_any_order:
  assumes "aq_channel s = ChannelOpen" "aq_connected s" "truthy (aq_consumerTag s) = Some tag"
    and "\<forall>c \<in> set (aq_consumers s). cs_tag c = tag"
    and "br_cancel B = None" "br_closeChannel B = None" "br_closeConnection B = None"
  defines "s' \<equiv> s\<lparr>aq_connected := False, aq_channel := NoChannel, aq_consumers := [], aq_consumerTag := None\<rparr>"
  shows "bind_s (stopConsuming B) (\<lambda>_. disconnect B) s = (Inr (), s')"
    and "bind_s (disconnect B) (\<lambda>_. stopConsuming B) s = (Inr (), s')"
  using assms by (simp_all add: s'_def mq_defs)

text \<open>After the broker closed the channel, neither of them succeeds, and the connection stays open.\<close>
lemma closed_channel_blocks_teardown:
  assumes "aq_channel s = ChannelClosed"
  shows "disconnect B s = (Inl (PlainError ''Channel closed''), s)"
    and "truthy (aq_consumerTag s) \<noteq> None \<Longrightarrow> stopConsuming B s = (Inl (PlainError ''Channel closed''), s)"
  using assms by (auto simp: mq_defs split: option.splits)

text \<open>The password of the deployed broker goes over TLS on the secure port only.\<close>
lemma secure_port_is_tls:
  "config ''RABBITMQ_PORT'' = Some (EnvNumber (Finite q)) \<Longrightarrow>
     cn_protocol (connection_params config) = (if q = 5671 then ''amqps'' else ''amqp'')"
  by (auto simp: connection_params_def resolveConnectionTransport_def whole_value_def RABBITMQ_SECURE_PORT_def Let_def)

end
