(* ===== verification/Spec2Isabelle.thy ===== *)
theory Spec2Isabelle
  imports Orders_Worker_Theorems Payments_Server Orders_Query_Theorems Products_Query_Theorems Auth_Theorems Cancel_Race
    Users_Theorems Products_Theorems Reviews_Theorems Http_Theorems
    Graphql_Theorems Health Database_Config Lifecycle Deploy_Tasks RabbitMQ_Lifecycle
begin

text \<open>
  The backend of an online shop, as a model and the theorems that make it correct.

  \<^bold>\<open>The program.\<close> \<^verbatim>\<open>apps/shop\<close> is a NestJS service over PostgreSQL (TypeORM): accounts, catalogue,
  cart, orders, files and reviews, behind HTTP controllers and a GraphQL query. Creating an order
  takes stock under row locks and publishes a message to RabbitMQ; a worker of the same service
  consumes it and asks \<^verbatim>\<open>apps/payments\<close>, a gRPC service with a database of its own, to authorise the
  payment. \<^verbatim>\<open>libs/common\<close> holds what both share, \<^verbatim>\<open>src/infra\<close> the deployment with Pulumi. Paths
  below are under \<^verbatim>\<open>apps/shop/src\<close> unless they begin with another directory.

  \<^bold>\<open>State.\<close> A row of a table is a record with the columns of its entity, the database a record of
  lists of rows, and a \<open>world\<close> the database with everything else an operation acts on: the queues of
  the broker and the state of its channel, the events, metrics, mails and audit rows so far, the
  clock (microseconds, as PostgreSQL has it; a JavaScript date is cut to milliseconds) and the
  supply of random identifiers. An operation is a function from a world to an outcome, an exception
  (\<open>exn\<close>) or a value, and a world; a transaction restores the database when its body throws.
  Exceptions are values with the class, the message and the body the sources give them.

  \<^bold>\<open>Concurrency.\<close> Other requests are a function \<open>e_others\<close> of the environment that may change the
  world at the awaits between reads and writes of placing and processing orders, of the cart, files,
  products and reviews, of profiles and the administration of users, of refreshing, and of consuming
  one-time tokens; the theorems say what they ask of it, often nothing. Not every await has such a
  point: a sign-up runs through from its check to its insertion (where the unique index on addresses
  decides), a sign-in from revoking the old sessions to inserting the new one, and the statements of
  one \<^verbatim>\<open>Promise.all\<close> (a change of password, the removal of a user) in the order they are written. The transaction of a cancellation is one step too; \<open>Cancel_Race\<close> cuts it where its unlocked
  read is over and the locks are waited for, and interleaves two of them. \<open>Shop_System\<close> is the
  transition system of all requests, deliveries and ticks of the clock in any order.

  \<^bold>\<open>The theories.\<close>
  \<^item> \<open>Prelude\<close>, \<open>JsNumber\<close>, \<open>Money\<close>, \<open>Like\<close>, \<open>Keyset\<close>, \<open>Step_Logic\<close>: strings, doubles as rationals
    rounded to 53 bits, decimal prices (\<^verbatim>\<open>cart/utils\<close>, \<^verbatim>\<open>orders/utils\<close>), ILIKE, pagination by cursors,
    and reasoning about whole operations. \<open>Keyset\<close> and \<open>Step_Logic\<close> state their contracts as locales
    (\<open>keyset\<close>: following the cursors shows every row once; \<open>transition\<close>: a relation that steps
    respect holds of operations), interpreted on the order list, the catalogue, the reviews, the
    frames of operations and the invariant of the database.
  \<^item> \<open>Errors\<close>, \<open>Exception_Filter\<close>: \<^verbatim>\<open>common/errors\<close>, \<^verbatim>\<open>common/filters\<close>. \<open>Entities\<close>, \<open>Store\<close>: the
    entities, and tables with the contract of reading and saving a row (locale \<open>row_store\<close>).
    \<open>Observability\<close>, \<open>Audit_Log\<close>, \<open>Mail\<close>, \<open>RabbitMQ\<close>: the directories of these names.
  \<^item> \<open>Product_Repository\<close>, \<open>Order_Stock\<close>, \<open>Orders_Repository\<close>, \<open>Orders_Command\<close> (with \<open>_Facts\<close> and
    \<open>_Theorems\<close>), \<open>Orders_Cancel\<close>: \<^verbatim>\<open>orders/repositories\<close>, \<^verbatim>\<open>orders/services\<close>: creating and
    cancelling. The characterisations of the two transactions on every branch carry the
    properties: what a success and a failure leave behind, that stock is never oversold when the
    products of a request are distinct (\<open>duplicate_items_oversell\<close> shows the request where they are
    not), and that cancelling undoes creating.
  \<^item> \<open>Orders_Processing\<close>, \<open>Orders_Worker\<close>, \<open>Payments_Client\<close>, \<open>Payments_Server\<close> and their theorems:
    \<^verbatim>\<open>order-processing.service.ts\<close>, \<^verbatim>\<open>orders-worker\<close>, \<^verbatim>\<open>payments\<close>, \<^verbatim>\<open>apps/payments/src\<close>: a delivery from
    its bytes to its acknowledgement, retries, the dead-letter queue, the exact amount charged, and
    what a failed payment or a cancellation in between comes to.
  \<^item> \<open>Cursor\<close>, \<open>Orders_Query\<close>, \<open>Products_Query\<close> and their theorems: the paged lists and the search.
  \<^item> \<open>Opaque_Token\<close>, \<open>Token_Service\<close>, \<open>Auth_Service\<close>, \<open>Users\<close>, \<open>Access\<close> and theorems: \<^verbatim>\<open>auth\<close>,
    \<^verbatim>\<open>users\<close>. Tokens are used once, also in a race (locale \<open>one_time_store\<close>), sessions end when they
    should, and the guards let through whom they should.
  \<^item> \<open>Cart\<close>, \<open>Files\<close>, \<open>Reviews\<close>, \<open>Products_Service\<close> and theorems: the directories of these names;
    exact totals, the life of an upload, ratings, prices and images. \<open>Reads\<close>: what only looks.
  \<^item> \<open>Http_Api\<close>, \<open>Http_Theorems\<close>: every controller, as a table of routes (guards, status) and the
    handler of each; who gets through, and that a request is at most one step of \<open>Shop_System\<close>.
  \<^item> \<open>Graphql\<close>, \<open>Graphql_Theorems\<close>: \<^verbatim>\<open>graphql\<close>. The batch functions of the data loaders satisfy the
    contract of a loader (locale \<open>loader\<close>): how keys are batched is not observable.
  \<^item> \<open>Db_Invariant\<close>, \<open>Order_Frames\<close>, \<open>Order_Invariant\<close>, \<open>Account_Invariant\<close>, \<open>Service_Invariant\<close>,
    \<open>Shop_System\<close>: the well-formed database (all keys, unique indexes, references and ranges of
    columns the migrations declare) and that every operation keeps it.
  \<^item> \<open>Stock_Ledger\<close>: the abstract specification of stock, a ledger with three moves: customers place
    and release, administrators take stock of one product. Runs of the whole system without
    interleaving refine it, and pieces are conserved where no administrator sets the stock.
  \<^item> \<open>Environment\<close>, \<open>Environment_Theorems\<close>, \<open>Database_Config\<close>, \<open>Health\<close>, \<open>Lifecycle\<close>:
    \<^verbatim>\<open>core/environment\<close>, \<^verbatim>\<open>config\<close>, \<^verbatim>\<open>libs/common/src/{environment,config,database}\<close>, \<^verbatim>\<open>health\<close>,
    \<^verbatim>\<open>core/process\<close> with \<^verbatim>\<open>main.ts\<close>: what a configuration that passes validation guarantees, how the
    database is connected to, what the probes tell, and how the process ends (a step relation).
  \<^item> \<open>Deploy_Network\<close>, \<open>Deploy_Runtime\<close>, \<open>Deploy_Theorems\<close>: \<^verbatim>\<open>src/infra/src\<close>: the security groups and
    what they let through, and the parameters and secrets of the containers. What is provisioned
    passes the validation the shop starts with. \<open>Deploy_Services\<close>, \<open>Deploy_Tasks\<close>: the configuration of
    machines, services, edge, databases and broker, the containers and rights of the two services:
    what is accepted can be placed, and tasks may read what they name.
  \<^item> \<open>RabbitMQ_Lifecycle\<close>: the connection to the broker, its consumers, and the start and stop of the
    worker, call by call; the coarser \<open>rabbit_connect\<close> of \<open>RabbitMQ\<close> is refined by it.
  \<^item> \<open>Sample_World\<close>: the small shop on which the witnesses evaluate the definitions.

  \<^bold>\<open>Bounds.\<close> Definitions that follow a chain take a number of turns. \<open>walk_orders\<close>, \<open>walk_products\<close>
  and \<open>follow\<close> need one turn per page; the theorems show that one more turn than there are rows is
  enough, since every page but the last shows a row. \<open>drive\<close> needs one turn per delivery of a
  message; one more than three minus its attempt counter are enough, and one from a counter of 3 on. Floating-point sums are exact to 2^53: the
  theorem about the totals of a cart takes at most 1000 lines and 2^40 cents in all, prices are of
  the column \<^verbatim>\<open>numeric(12,2)\<close>, so below 10^12 cents, and stock fits a 32-bit column.
  Pages are complete when no two rows of one millisecond differ in microseconds;
  \<open>same_millisecond_order_is_skipped\<close> shows what happens otherwise. Identifiers are taken as
  PostgreSQL prints them, in lower case.

  \<^bold>\<open>Parameters.\<close> What is not in the repository is an argument: random identifiers and bytes, bcrypt and HMAC,
  the signing of JSON web tokens (passport), the object store and its URLs, the mail service, the
  outcome of a gRPC call (with its circuit breaker and deadline), lock failures of the database, the
  validator of uuids, the number formatting and ISO rendering of the platform, the URL parser,
  \<^verbatim>\<open>path.resolve\<close>, terminus, the batching of dataloader, and the values Pulumi reads of a stack.

  \<^bold>\<open>Not modelled.\<close> The other resources Pulumi declares (instances, load balancer, dashboards, cloud-init
  scripts) are literal data for a library that is not here. Seed data, migrations and
  the scripts that validate a stage by hand are data and SQL; their constraints are in
  \<open>Db_Invariant\<close>. Loggers, interceptors, Swagger and module wiring are calls of the framework on
  which no modelled state depends. Of amqplib there is the state of the connection and the error or
  answer of each call (a parameter), and the throttler is its configuration: counting requests is the library's. Overflow and subnormal
  doubles, and letters beyond ASCII in case folding, are left out. Deadlocks are lock failures.
\<close>

end
